(* ===== verification/Prelude.thy ===== *)
theory Prelude
  imports Main "HOL-Library.Word" "HOL-Library.Product_Lexorder" "HOL-Library.List_Lexorder"
begin

text \<open>
  Shared vocabulary of the development: the collections of facts the component proofs use
  (\<open>go_defs\<close> for the small helpers that are always unfolded, \<open>tx_simps\<close> for the
  statements of a database transaction), the signed 64-bit wrap-around of Go's \<open>int64\<close>,
  generic list lemmas (locating an offset in a list of lengths, pages of a list, filters and
  updates that keep a key injective), and the type abbreviations of the model.
\<close>

named_theorems go_defs \<open>definitions of small helpers that component proofs always unfold\<close>
named_theorems tx_simps \<open>evaluation of transaction bodies\<close>

type_synonym uuid = "128 word"

text \<open>
  A point in time is the number of nanoseconds since the Unix epoch: Go's \<open>time.Time\<close>
  compared and formatted in UTC. A duration is a number of nanoseconds.
\<close>

type_synonym time = int
type_synonym duration = int

section \<open>Signed 64-bit integers\<close>

text \<open>Go's \<open>int64\<close> (and \<open>int\<close> on the 64-bit platforms the service is built for) as an
  \<open>int\<close> in range; arithmetic that may leave the range is wrapped explicitly.\<close>

definition MaxInt64 :: int where
  "MaxInt64 = 9223372036854775807"

definition MinInt64 :: int where
  "MinInt64 = -9223372036854775808"

definition in_int64 :: "int \<Rightarrow> bool" where
  "in_int64 x \<longleftrightarrow> MinInt64 \<le> x \<and> x \<le> MaxInt64"

definition wrap64 :: "int \<Rightarrow> int" where
  "wrap64 x = (x + 9223372036854775808) mod 18446744073709551616 - 9223372036854775808"

lemma wrap64_id [simp]: "in_int64 x \<Longrightarrow> wrap64 x = x"
  by (simp add: in_int64_def wrap64_def MaxInt64_def MinInt64_def)

lemma wrap64_in_int64: "in_int64 (wrap64 x)"
proof -
  have "0 \<le> (x + 9223372036854775808) mod 18446744073709551616"
    by simp
  moreover have "(x + 9223372036854775808) mod 18446744073709551616 < 18446744073709551616"
    by simp
  ultimately show ?thesis
    unfolding in_int64_def wrap64_def MaxInt64_def MinInt64_def by linarith
qed

lemma wrap64_sint: "wrap64 x = sint (word_of_int x :: 64 word)"
  by (simp add: wrap64_def sint_uint take_bit_eq_mod signed_take_bit_eq_take_bit_shift
      uint_word_of_int_eq mod_add_left_eq)

section \<open>Lists\<close>

text \<open>\<open>locate ls n\<close> finds the block of \<open>ls\<close> (a list of block lengths) that holds offset
  \<open>n\<close>, and the offset inside it.\<close>

fun locate :: "nat list \<Rightarrow> nat \<Rightarrow> nat \<times> nat" where
  "locate [] n = (0, n)"
| "locate (l # ls) n = (if n < l then (0, n) else (let (i, r) = locate ls (n - l) in (Suc i, r)))"

lemma locate_sum_take:
  "i < length ls \<Longrightarrow> r < ls ! i \<Longrightarrow> locate ls (sum_list (take i ls) + r) = (i, r)"
proof (induction ls arbitrary: i)
  case Nil
  then show ?case by simp
next
  case (Cons l ls)
  show ?case
  proof (cases i)
    case 0
    with Cons.prems show ?thesis by simp
  next
    case (Suc j)
    with Cons show ?thesis by simp
  qed
qed

lemma locate_correct:
  "n < sum_list ls \<Longrightarrow> locate ls n = (i, r) \<Longrightarrow>
     i < length ls \<and> r < ls ! i \<and> n = sum_list (take i ls) + r"
proof (induction ls arbitrary: n i r)
  case Nil
  then show ?case by simp
next
  case (Cons l ls)
  show ?case
  proof (cases "n < l")
    case True
    with Cons.prems show ?thesis by auto
  next
    case False
    obtain j q where jq: "locate ls (n - l) = (j, q)" by fastforce
    from False Cons.prems(1) have "n - l < sum_list ls" by simp
    from Cons.IH [OF this jq] have "j < length ls" "q < ls ! j" "n - l = sum_list (take j ls) + q"
      by auto
    with False jq Cons.prems(2) show ?thesis by auto
  qed
qed

text \<open>One page of a list, as \<open>LIMIT size OFFSET off\<close> selects it.\<close>

definition limit_offset :: "int \<Rightarrow> int \<Rightarrow> 'a list \<Rightarrow> 'a list" where
  "limit_offset limit off xs = take (nat limit) (drop (nat off) xs)"

lemma length_limit_offset [simp]:
  "length (limit_offset limit off xs) = min (nat limit) (length xs - nat off)"
  by (simp add: limit_offset_def)

lemma set_limit_offset: "set (limit_offset limit off xs) \<subseteq> set xs"
  unfolding limit_offset_def by (meson set_drop_subset set_take_subset subset_trans)

lemma take_Suc_times:
  "take (Suc n * k) xs = take (n * k) xs @ take k (drop (n * k) xs)"
  by (metis add.commute mult_Suc take_add)

lemma concat_pages:
  "concat (map (\<lambda>i. take k (drop (i * k) xs)) [0..<n]) = take (n * k) xs"
  by (induction n) (simp_all add: take_Suc_times add.commute del: mult_Suc)

section \<open>Updating the rows of a table\<close>

text \<open>\<open>update_where p f xs\<close> is SQL's \<open>UPDATE ... WHERE p\<close> on the rows of a table.\<close>

definition update_where :: "('a \<Rightarrow> bool) \<Rightarrow> ('a \<Rightarrow> 'a) \<Rightarrow> 'a list \<Rightarrow> 'a list" where
  "update_where p f xs = map (\<lambda>x. if p x then f x else x) xs"

lemma set_update_where:
  "y \<in> set (update_where p f xs) \<longleftrightarrow> (\<exists>x\<in>set xs. y = (if p x then f x else x))"
  by (auto simp: update_where_def)

lemma map_update_where:
  "(\<And>x. x \<in> set xs \<Longrightarrow> p x \<Longrightarrow> k (f x) = k x) \<Longrightarrow> map k (update_where p f xs) = map k xs"
  by (simp add: update_where_def)

lemma update_where_none: "(\<And>x. x \<in> set xs \<Longrightarrow> \<not> p x) \<Longrightarrow> update_where p f xs = xs"
  unfolding update_where_def by (rule map_idI) auto

lemma length_update_where [simp]: "length (update_where p f xs) = length xs"
  by (simp add: update_where_def)

lemma update_where_Nil [simp]: "update_where p f [] = []"
  by (simp add: update_where_def)

lemma update_where_Cons [simp]:
  "update_where p f (x # xs) = (if p x then f x else x) # update_where p f xs"
  by (simp add: update_where_def)

lemma find_None_iff_all: "find P xs = None \<longleftrightarrow> (\<forall>x\<in>set xs. \<not> P x)"
  by (auto simp: find_None_iff)

lemma find_SomeD: "find P xs = Some x \<Longrightarrow> x \<in> set xs \<and> P x"
  by (auto simp: find_Some_iff)

lemma find_distinct_key:
  assumes "distinct (map k xs)" and "x \<in> set xs" and "k x = a"
  shows "find (\<lambda>y. k y = a) xs = Some x"
  using assms by (induction xs) auto

lemma find_cong_set:
  "(\<And>x. x \<in> set xs \<Longrightarrow> P x = Q x) \<Longrightarrow> find P xs = find Q xs"
  by (induction xs) auto

lemma find_filter: "find P xs = (case filter P xs of [] \<Rightarrow> None | x # _ \<Rightarrow> Some x)"
  by (induction xs) auto

lemma distinct_map_eq:
  "distinct (map k xs) \<Longrightarrow> x \<in> set xs \<Longrightarrow> y \<in> set xs \<Longrightarrow> k x = k y \<Longrightarrow> x = y"
  by (simp add: distinct_map inj_on_def)

lemma filter_update_where:
  "(\<And>x. p x \<Longrightarrow> Q (f x) = Q x) \<Longrightarrow> filter Q (update_where p f xs) = update_where p f (filter Q xs)"
  by (induction xs) auto

lemma distinct_map_filter_list: "distinct (map k xs) \<Longrightarrow> distinct (map k (filter P xs))"
  by (simp add: distinct_map inj_on_def)

text \<open>Writing the value \<open>v\<close> into column \<open>k\<close> of the row with primary key \<open>a\<close> keeps the
  column unique when no other row holds \<open>v\<close>.\<close>

lemma distinct_column_update:
  assumes "distinct (map k xs)" and "distinct (map i xs)"
    and "\<forall>x\<in>set xs. i x \<noteq> a \<longrightarrow> k x \<noteq> v" and "\<And>x. k (f x) = v"
  shows "distinct (map k (update_where (\<lambda>x. i x = a) f xs))"
  using assms(1-3)
proof (induction xs)
  case (Cons x xs)
  show ?case
  proof (cases "i x = a")
    case True
    with Cons.prems(2) have "\<forall>y\<in>set xs. i y \<noteq> a" by (auto dest: image_eqI [OF sym])
    with Cons.prems True show ?thesis by (auto simp: update_where_none assms(4))
  next
    case False
    with Cons show ?thesis by (auto simp: set_update_where assms(4) split: if_splits)
  qed
qed simp

lemma set_map_filter_iff: "y \<in> set (List.map_filter k xs) \<longleftrightarrow> (\<exists>x\<in>set xs. k x = Some y)"
  by (induction xs) (auto simp: List.map_filter_def)

lemma map_filter_simps2 [simp]:
  "List.map_filter k [] = []"
  "List.map_filter k (x # xs) = (case k x of None \<Rightarrow> List.map_filter k xs | Some y \<Rightarrow> y # List.map_filter k xs)"
  "List.map_filter k (xs @ ys) = List.map_filter k xs @ List.map_filter k ys"
  by (auto simp: List.map_filter_def split: option.splits)

lemma distinct_option_column_update:
  assumes "distinct (List.map_filter k xs)" and "distinct (map i xs)"
    and "\<forall>x\<in>set xs. i x \<noteq> a \<longrightarrow> k x \<noteq> Some v" and "\<And>x. k (f x) = Some v"
  shows "distinct (List.map_filter k (update_where (\<lambda>x. i x = a) f xs))"
  using assms(1-3)
proof (induction xs)
  case (Cons x xs)
  show ?case
  proof (cases "i x = a")
    case True
    with Cons.prems(2) have "\<forall>y\<in>set xs. i y \<noteq> a" by (auto dest: image_eqI [OF sym])
    then have "update_where (\<lambda>x. i x = a) f xs = xs" by (auto intro: update_where_none)
    with Cons.prems True \<open>\<forall>y\<in>set xs. i y \<noteq> a\<close> show ?thesis
      by (auto simp: set_map_filter_iff assms(4) split: option.splits)
  next
    case False
    with Cons show ?thesis
      by (auto simp: set_update_where set_map_filter_iff assms(4) split: option.splits if_splits)
  qed
qed simp

section \<open>Joins and groups\<close>

text \<open>A join along a foreign key pairs every row with exactly one row of the referenced table.\<close>

lemma join_unique:
  assumes "distinct (map k bs)" and "a \<in> k ` set bs"
  shows "\<exists>b\<in>set bs. k b = a \<and> filter (\<lambda>b. k b = a) bs = [b]"
  using assms
proof (induction bs)
  case (Cons b bs)
  show ?case
  proof (cases "k b = a")
    case True
    with Cons.prems(1) have "filter (\<lambda>b. k b = a) bs = []" by (auto simp: filter_empty_conv dest: image_eqI [OF sym])
    with True show ?thesis by auto
  next
    case False
    with Cons show ?thesis by auto
  qed
qed simp

text \<open>Summing the groups of a \<open>GROUP BY\<close> gives the sum over all rows.\<close>

lemma sum_list_groups:
  fixes v :: "'a \<Rightarrow> int"
  assumes "distinct as" and "k ` set xs \<subseteq> set as"
  shows "sum_list (map (\<lambda>a. sum_list (map v (filter (\<lambda>x. k x = a) xs))) as) = sum_list (map v xs)"
  using assms(2)
proof (induction xs)
  case Nil
  then show ?case by (simp add: sum_list_0)
next
  case (Cons x xs)
  have "sum_list (map (\<lambda>a. sum_list (map v (filter (\<lambda>x. k x = a) (x # xs)))) as)
    = (\<Sum>a\<in>set as. (if a = k x then v x else 0) + sum_list (map v (filter (\<lambda>x. k x = a) xs)))"
    unfolding sum_list_distinct_conv_sum_set [OF assms(1)] by (intro sum.cong) auto
  also have "\<dots> = v x + (\<Sum>a\<in>set as. sum_list (map v (filter (\<lambda>x. k x = a) xs)))"
    using Cons.prems by (simp add: sum.distrib)
  also have "\<dots> = v x + sum_list (map v xs)"
    using Cons by (simp add: sum_list_distinct_conv_sum_set [OF assms(1)])
  finally show ?case by simp
qed

end
