(* ===== verification/Go_Strings.thy ===== *)
theory Go_Strings
  imports Prelude
begin

text \<open>
  The parts of Go's packages \<open>strings\<close>, \<open>strconv\<close> and \<open>unicode/utf8\<close> that the
  service uses, on byte strings (a Go \<open>string\<close> is a sequence of bytes, as a
  \<open>string\<close> of HOL is a list of 8-bit characters). \<open>TrimSpace\<close> strips every rune of
  Unicode's White Space property in its UTF-8 encoding; \<open>ToLower\<close> is given on ASCII text,
  the Unicode case tables being a parameter. The main results: \<open>TrimSpace\<close> is idempotent
  and the identity on text with graphic ends, \<open>Itoa\<close> and \<open>ParseInt\<close> round-trip.
\<close>

section \<open>Prefixes, suffixes, substrings\<close>

definition HasPrefix :: "string \<Rightarrow> string \<Rightarrow> bool" where
  "HasPrefix s p \<longleftrightarrow> take (length p) s = p"

definition HasSuffix :: "string \<Rightarrow> string \<Rightarrow> bool" where
  "HasSuffix s p \<longleftrightarrow> HasPrefix (rev s) (rev p)"

definition TrimPrefix :: "string \<Rightarrow> string \<Rightarrow> string" where
  "TrimPrefix s p = (if HasPrefix s p then drop (length p) s else s)"

definition TrimSuffix :: "string \<Rightarrow> string \<Rightarrow> string" where
  "TrimSuffix s p = (if HasSuffix s p then take (length s - length p) s else s)"

fun Contains :: "string \<Rightarrow> string \<Rightarrow> bool" where
  "Contains [] t = (t = [])"
| "Contains (c # s) t = (HasPrefix (c # s) t \<or> Contains s t)"

text \<open>\<open>strings.Split(s, sep)\<close> for a separator of one byte.\<close>

fun SplitByte :: "char \<Rightarrow> string \<Rightarrow> string list" where
  "SplitByte sep [] = [[]]"
| "SplitByte sep (c # s) =
     (if c = sep then [] # SplitByte sep s
      else (case SplitByte sep s of [] \<Rightarrow> [[c]] | w # ws \<Rightarrow> (c # w) # ws))"

fun JoinWith :: "string \<Rightarrow> string list \<Rightarrow> string" where
  "JoinWith sep [] = []"
| "JoinWith sep [w] = w"
| "JoinWith sep (w # ws) = w @ sep @ JoinWith sep ws"

lemma HasPrefix_iff: "HasPrefix s p \<longleftrightarrow> (\<exists>r. s = p @ r)"
  by (auto simp: HasPrefix_def) (metis append_take_drop_id)

lemma HasSuffix_iff: "HasSuffix s p \<longleftrightarrow> (\<exists>r. s = r @ p)"
  by (auto simp: HasSuffix_def HasPrefix_iff) (metis rev_append rev_rev_ident)

lemma HasPrefix_append [simp]: "HasPrefix (p @ r) p"
  by (auto simp: HasPrefix_iff)

lemma HasSuffix_append [simp]: "HasSuffix (r @ p) p"
  by (auto simp: HasSuffix_iff)

lemma TrimPrefix_append [simp]: "TrimPrefix (p @ r) p = r"
  by (simp add: TrimPrefix_def)

lemma TrimSuffix_append [simp]: "TrimSuffix (r @ p) p = r"
  by (simp add: TrimSuffix_def)

lemma HasPrefix_trans: "HasPrefix s p \<Longrightarrow> HasPrefix p q \<Longrightarrow> HasPrefix s q"
  by (auto simp: HasPrefix_iff)

lemma Contains_iff: "Contains s t \<longleftrightarrow> (\<exists>a b. s = a @ t @ b)"
proof (induction s)
  case Nil
  then show ?case by auto
next
  case (Cons c s)
  show ?case
  proof
    assume "Contains (c # s) t"
    then consider "HasPrefix (c # s) t" | "Contains s t" by auto
    then show "\<exists>a b. c # s = a @ t @ b"
    proof cases
      case 1
      then obtain r where "c # s = [] @ t @ r" by (auto simp: HasPrefix_iff)
      then show ?thesis by blast
    next
      case 2
      with Cons.IH obtain a b where "s = a @ t @ b" by blast
      then have "c # s = (c # a) @ t @ b" by simp
      then show ?thesis by blast
    qed
  next
    assume "\<exists>a b. c # s = a @ t @ b"
    then obtain a b where ab: "c # s = a @ t @ b" by blast
    show "Contains (c # s) t"
    proof (cases a)
      case Nil
      with ab have "HasPrefix (c # s) t" by (auto simp: HasPrefix_iff)
      then show ?thesis by simp
    next
      case (Cons d a')
      with ab have "s = a' @ t @ b" by simp
      with Cons.IH show ?thesis by auto
    qed
  qed
qed

lemma Contains_singleton: "Contains s [c] \<longleftrightarrow> c \<in> set s"
  by (induction s) (auto simp: HasPrefix_def)

lemma SplitByte_not_Nil [simp]: "SplitByte sep s \<noteq> []"
  by (induction s) (auto split: list.splits)

lemma JoinWith_Cons: "ws \<noteq> [] \<Longrightarrow> JoinWith sep (w # ws) = w @ sep @ JoinWith sep ws"
  by (cases ws) simp_all

lemma Join_Split: "JoinWith [sep] (SplitByte sep s) = s"
proof (induction s)
  case Nil
  then show ?case by simp
next
  case (Cons c s)
  obtain w ws where ws: "SplitByte sep s = w # ws"
    by (cases "SplitByte sep s") auto
  with Cons.IH show ?case
    by (cases ws) (auto simp: JoinWith_Cons)
qed

lemma Split_no_sep: "w \<in> set (SplitByte sep s) \<Longrightarrow> sep \<notin> set w"
  by (induction s arbitrary: w) (auto split: if_splits list.splits)

section \<open>TrimSpace\<close>

text \<open>The UTF-8 encodings of the runes \<open>unicode.IsSpace\<close> accepts.\<close>

definition spaceRunes :: "string list" where
  "spaceRunes =
     [[CHR 0x09], [CHR 0x0A], [CHR 0x0B], [CHR 0x0C], [CHR 0x0D], [CHR 0x20],
      [CHR 0xC2, CHR 0x85], [CHR 0xC2, CHR 0xA0], [CHR 0xE1, CHR 0x9A, CHR 0x80],
      [CHR 0xE2, CHR 0x80, CHR 0x80], [CHR 0xE2, CHR 0x80, CHR 0x81],
      [CHR 0xE2, CHR 0x80, CHR 0x82], [CHR 0xE2, CHR 0x80, CHR 0x83],
      [CHR 0xE2, CHR 0x80, CHR 0x84], [CHR 0xE2, CHR 0x80, CHR 0x85],
      [CHR 0xE2, CHR 0x80, CHR 0x86], [CHR 0xE2, CHR 0x80, CHR 0x87],
      [CHR 0xE2, CHR 0x80, CHR 0x88], [CHR 0xE2, CHR 0x80, CHR 0x89],
      [CHR 0xE2, CHR 0x80, CHR 0x8A], [CHR 0xE2, CHR 0x80, CHR 0xA8],
      [CHR 0xE2, CHR 0x80, CHR 0xA9], [CHR 0xE2, CHR 0x80, CHR 0xAF],
      [CHR 0xE2, CHR 0x81, CHR 0x9F], [CHR 0xE3, CHR 0x80, CHR 0x80]]"

text \<open>Strip leading words of a list for as long as one of them is a prefix.\<close>

function strip :: "string list \<Rightarrow> string \<Rightarrow> string" where
  "strip ws s =
     (case find (\<lambda>w. w \<noteq> [] \<and> HasPrefix s w) ws of
        None \<Rightarrow> s
      | Some w \<Rightarrow> strip ws (drop (length w) s))"
  by pat_completeness auto
termination
  by (relation "measure (\<lambda>(ws, s). length s)")
     (auto simp: HasPrefix_iff dest!: find_SomeD)

declare strip.simps [simp del]

definition TrimSpace :: "string \<Rightarrow> string" where
  "TrimSpace s = rev (strip (map rev spaceRunes) (rev (strip spaceRunes s)))"

lemma strip_None: "find (\<lambda>w. w \<noteq> [] \<and> HasPrefix s w) ws = None \<Longrightarrow> strip ws s = s"
  by (simp add: strip.simps [of ws s])

lemma strip_Nil [simp]: "strip ws [] = []"
  by (rule strip_None) (auto simp: find_None_iff HasPrefix_def)

lemma strip_fixed: "find (\<lambda>w. w \<noteq> [] \<and> HasPrefix (strip ws s) w) ws = None"
proof (induction ws s rule: strip.induct)
  case (1 ws s)
  show ?case
  proof (cases "find (\<lambda>w. w \<noteq> [] \<and> HasPrefix s w) ws")
    case None
    then show ?thesis by (simp add: strip_None)
  next
    case (Some w)
    with "1.IH" show ?thesis by (simp add: strip.simps [of ws s])
  qed
qed

lemma strip_suffix: "\<exists>p. s = p @ strip ws s"
proof (induction ws s rule: strip.induct)
  case (1 ws s)
  show ?case
  proof (cases "find (\<lambda>w. w \<noteq> [] \<and> HasPrefix s w) ws")
    case None
    then show ?thesis by (simp add: strip_None)
  next
    case (Some w)
    then have eq: "strip ws s = strip ws (drop (length w) s)"
      by (simp add: strip.simps [of ws s])
    obtain p where "drop (length w) s = p @ strip ws (drop (length w) s)"
      using "1.IH" [OF Some] by blast
    with eq have "s = (take (length w) s @ p) @ strip ws s"
      by (metis append.assoc append_take_drop_id)
    then show ?thesis by blast
  qed
qed

lemma strip_idem [simp]: "strip ws (strip ws s) = strip ws s"
  by (rule strip_None) (rule strip_fixed)

lemma strip_prefix_fixed:
  assumes "HasPrefix s t" and "find (\<lambda>w. w \<noteq> [] \<and> HasPrefix s w) ws = None"
  shows "strip ws t = t"
  using assms by (intro strip_None) (auto simp: find_None_iff dest: HasPrefix_trans)

lemma TrimSpace_idem [simp]: "TrimSpace (TrimSpace s) = TrimSpace s"
proof -
  let ?l = "strip spaceRunes s" and ?R = "map rev spaceRunes"
  let ?t = "rev (strip ?R (rev ?l))"
  obtain p where "rev ?l = p @ strip ?R (rev ?l)" using strip_suffix by blast
  then have "?l = ?t @ rev p" by (metis rev_append rev_rev_ident)
  then have "HasPrefix ?l ?t" by (auto simp: HasPrefix_iff)
  then have "strip spaceRunes ?t = ?t" using strip_fixed by (rule strip_prefix_fixed)
  then show ?thesis by (simp add: TrimSpace_def)
qed

lemma TrimSpace_last:
  assumes "TrimSpace s \<noteq> []"
  shows "last (TrimSpace s) \<noteq> CHR '' ''"
proof -
  let ?t = "strip (map rev spaceRunes) (rev (strip spaceRunes s))"
  have "\<not> HasPrefix ?t '' ''"
  proof -
    have "'' '' \<in> set (map rev spaceRunes)" by (simp add: spaceRunes_def)
    with strip_fixed [of "map rev spaceRunes" "rev (strip spaceRunes s)"] show ?thesis by (auto simp: find_None_iff)
  qed
  with assms show ?thesis by (cases ?t) (simp_all add: TrimSpace_def HasPrefix_def)
qed

lemma TrimSpace_Nil [simp]: "TrimSpace [] = []"
  by (simp add: TrimSpace_def)

lemma TrimSpace_sublist: "\<exists>a b. s = a @ TrimSpace s @ b"
proof -
  obtain a where a: "s = a @ strip spaceRunes s" using strip_suffix by blast
  obtain p where "rev (strip spaceRunes s) = p @ strip (map rev spaceRunes) (rev (strip spaceRunes s))"
    using strip_suffix by blast
  then have "strip spaceRunes s = TrimSpace s @ rev p"
    unfolding TrimSpace_def by (metis rev_append rev_rev_ident)
  with a show ?thesis by metis
qed

lemma set_TrimSpace: "set (TrimSpace s) \<subseteq> set s"
  by (metis TrimSpace_sublist Un_upper1 le_supI2 set_append)

lemma length_TrimSpace: "length (TrimSpace s) \<le> length s"
  by (metis TrimSpace_sublist le_add1 le_add2 length_append order_trans)

text \<open>Printable ASCII, the blank excluded: no space rune starts or ends with such a byte.\<close>

definition graphic :: "char \<Rightarrow> bool" where
  "graphic c \<longleftrightarrow> 32 < (of_char c :: nat) \<and> (of_char c :: nat) < 127"

lemma spaceRunes_no_graphic:
  "\<forall>w\<in>set spaceRunes. w \<noteq> [] \<and> \<not> graphic (hd w) \<and> \<not> graphic (last w)"
  by (simp add: spaceRunes_def graphic_def)

lemma HasPrefix_hd: "HasPrefix s w \<Longrightarrow> w \<noteq> [] \<Longrightarrow> hd w = hd s"
  by (auto simp: HasPrefix_iff)

lemma TrimSpace_id:
  assumes "s \<noteq> []" and "graphic (hd s)" and "graphic (last s)"
  shows "TrimSpace s = s"
proof -
  have "strip spaceRunes s = s"
  proof (rule strip_None)
    show "find (\<lambda>w. w \<noteq> [] \<and> HasPrefix s w) spaceRunes = None"
      using spaceRunes_no_graphic assms(2) by (force simp: find_None_iff dest: HasPrefix_hd)
  qed
  moreover have "strip (map rev spaceRunes) (rev s) = rev s"
  proof (rule strip_None)
    have "\<not> (rev w \<noteq> [] \<and> HasPrefix (rev s) (rev w))" if "w \<in> set spaceRunes" for w
      using spaceRunes_no_graphic assms that HasPrefix_hd [of "rev s" "rev w"]
      by (auto simp: hd_rev)
    then show "find (\<lambda>w. w \<noteq> [] \<and> HasPrefix (rev s) w) (map rev spaceRunes) = None"
      by (auto simp: find_None_iff)
  qed
  ultimately show ?thesis by (simp add: TrimSpace_def)
qed

lemma TrimSpace_id_all: "list_all graphic s \<Longrightarrow> TrimSpace s = s"
  by (cases "s = []") (auto intro!: TrimSpace_id simp: list_all_iff)

lemma strip_keeps:
  assumes "c \<in> set s" and "\<forall>w\<in>set ws. c \<notin> set w"
  shows "c \<in> set (strip ws s)"
  using assms
proof (induction ws s rule: strip.induct)
  case (1 ws s)
  show ?case
  proof (cases "find (\<lambda>w. w \<noteq> [] \<and> HasPrefix s w) ws")
    case None
    with "1.prems" show ?thesis by (simp add: strip_None)
  next
    case (Some w)
    then have w: "w \<in> set ws" "HasPrefix s w" by (auto dest: find_SomeD)
    then have "c \<in> set (drop (length w) s)" using "1.prems" by (auto simp: HasPrefix_iff)
    with "1.IH" [OF Some] "1.prems"(2) Some show ?thesis by (simp add: strip.simps [of ws s])
  qed
qed

text \<open>Trimming removes no printable character, so text with one is not blank.\<close>

lemma TrimSpace_keeps: "c \<in> set s \<Longrightarrow> graphic c \<Longrightarrow> c \<in> set (TrimSpace s)"
proof -
  assume "c \<in> set s" and "graphic c"
  moreover from \<open>graphic c\<close> have "\<forall>w\<in>set spaceRunes. c \<notin> set w"
    by (auto simp: spaceRunes_def graphic_def)
  ultimately show ?thesis
    by (auto simp: TrimSpace_def intro!: strip_keeps)
qed

section \<open>Case folding\<close>

definition is_ascii :: "string \<Rightarrow> bool" where
  "is_ascii s \<longleftrightarrow> list_all (\<lambda>c. (of_char c :: nat) < 128) s"

definition lower_byte :: "char \<Rightarrow> char" where
  "lower_byte c =
     (if 65 \<le> (of_char c :: nat) \<and> (of_char c :: nat) \<le> 90 then char_of ((of_char c :: nat) + 32)
      else c)"

text \<open>\<open>strings.ToLower\<close>: ASCII text byte by byte, other text by the Unicode tables
  \<open>uniLower\<close>.\<close>

definition ToLower :: "(string \<Rightarrow> string) \<Rightarrow> string \<Rightarrow> string" where
  "ToLower uniLower s = (if is_ascii s then map lower_byte s else uniLower s)"

lemma lower_byte_idem [simp]: "lower_byte (lower_byte c) = lower_byte c"
  by (auto simp: lower_byte_def)

lemma of_char_lower_byte: "(of_char c :: nat) < 128 \<Longrightarrow> (of_char (lower_byte c) :: nat) < 128"
  by (auto simp: lower_byte_def)

lemma is_ascii_lower: "is_ascii s \<Longrightarrow> is_ascii (map lower_byte s)"
  by (auto simp: is_ascii_def list_all_iff of_char_lower_byte)

lemma ToLower_idem_ascii: "is_ascii s \<Longrightarrow> ToLower u (ToLower u s) = ToLower u s"
  by (simp add: ToLower_def is_ascii_lower)

section \<open>Decimal integers\<close>

definition is_digit :: "char \<Rightarrow> bool" where
  "is_digit c \<longleftrightarrow> 48 \<le> (of_char c :: nat) \<and> (of_char c :: nat) \<le> 57"

definition digit_val :: "char \<Rightarrow> nat" where
  "digit_val c = of_char c - 48"

definition digit_char :: "nat \<Rightarrow> char" where
  "digit_char d = char_of (48 + d)"

fun digits_val :: "nat \<Rightarrow> string \<Rightarrow> nat" where
  "digits_val acc [] = acc"
| "digits_val acc (c # s) = digits_val (acc * 10 + digit_val c) s"

fun nat_digits :: "nat \<Rightarrow> string" where
  "nat_digits n = (if n < 10 then [digit_char n] else nat_digits (n div 10) @ [digit_char (n mod 10)])"

declare nat_digits.simps [simp del]

definition Itoa :: "int \<Rightarrow> string" where
  "Itoa i = (if i < 0 then CHR ''-'' # nat_digits (nat (- i)) else nat_digits (nat i))"

text \<open>\<open>strconv.ParseInt(s, 10, 64)\<close> (and \<open>strconv.Atoi\<close> on a 64-bit platform): an optional
  sign, at least one digit, digits only, and a value in range; \<open>None\<close> is any error.\<close>

definition ParseInt :: "string \<Rightarrow> int option" where
  "ParseInt s =
     (let (neg, body) =
        (case s of
           [] \<Rightarrow> (False, [])
         | c # r \<Rightarrow> if c = CHR ''+'' then (False, r) else if c = CHR ''-'' then (True, r) else (False, s))
      in if body = [] \<or> \<not> list_all is_digit body then None
         else let n = int (digits_val 0 body) in
           if neg then (if n \<le> MaxInt64 + 1 then Some (- n) else None)
           else (if n \<le> MaxInt64 then Some n else None))"

lemma digits_val_append [simp]: "digits_val acc (s @ t) = digits_val (digits_val acc s) t"
  by (induction s arbitrary: acc) auto

lemma digit_char_digit [simp]: "d < 10 \<Longrightarrow> is_digit (digit_char d)"
  by (simp add: is_digit_def digit_char_def)

lemma digit_val_char [simp]: "d < 10 \<Longrightarrow> digit_val (digit_char d) = d"
  by (simp add: digit_val_def digit_char_def)

lemma nat_digits_val: "digits_val 0 (nat_digits n) = n"
proof (induction n rule: nat_digits.induct)
  case (1 n)
  then show ?case by (cases "n < 10") (simp_all add: nat_digits.simps [of n])
qed

lemma nat_digits_all: "list_all is_digit (nat_digits n)"
proof (induction n rule: nat_digits.induct)
  case (1 n)
  then show ?case by (cases "n < 10") (simp_all add: nat_digits.simps [of n])
qed

lemma nat_digits_not_Nil [simp]: "nat_digits n \<noteq> []"
  by (simp add: nat_digits.simps [of n])

lemma not_digit_sign: "\<not> is_digit CHR ''-''" "\<not> is_digit CHR ''+''"
  by (simp_all add: is_digit_def)

lemma ParseInt_digits:
  assumes "s \<noteq> []" and "list_all is_digit s"
  shows "ParseInt s = (if int (digits_val 0 s) \<le> MaxInt64 then Some (int (digits_val 0 s)) else None)"
  using assms not_digit_sign by (cases s) (auto simp: ParseInt_def Let_def)

lemma ParseInt_Itoa: "in_int64 i \<Longrightarrow> ParseInt (Itoa i) = Some i"
proof (cases "i < 0")
  case True
  assume "in_int64 i"
  with True show ?thesis
    by (simp add: Itoa_def ParseInt_def nat_digits_all nat_digits_val in_int64_def MinInt64_def MaxInt64_def)
next
  case False
  assume "in_int64 i"
  with False show ?thesis
    by (simp add: Itoa_def ParseInt_digits nat_digits_all nat_digits_val in_int64_def)
qed

lemma ParseInt_in_int64: "ParseInt s = Some i \<Longrightarrow> in_int64 i"
  by (auto simp: ParseInt_def Let_def in_int64_def MinInt64_def MaxInt64_def
      split: prod.splits if_splits)

section \<open>UTF-8\<close>

definition byte_in :: "char \<Rightarrow> nat \<Rightarrow> nat \<Rightarrow> bool" where
  "byte_in c lo hi \<longleftrightarrow> lo \<le> (of_char c :: nat) \<and> (of_char c :: nat) \<le> hi"

text \<open>The range of a second byte and the number of continuation bytes after a leading byte;
  \<open>None\<close> for a byte that cannot lead an encoding of two bytes or more.\<close>

definition utf8_lead :: "char \<Rightarrow> (nat \<times> nat \<times> nat) option" where
  "utf8_lead c =
     (if byte_in c 0xC2 0xDF then Some (0x80, 0xBF, 0)
      else if byte_in c 0xE0 0xE0 then Some (0xA0, 0xBF, 1)
      else if byte_in c 0xED 0xED then Some (0x80, 0x9F, 1)
      else if byte_in c 0xE1 0xEF then Some (0x80, 0xBF, 1)
      else if byte_in c 0xF0 0xF0 then Some (0x90, 0xBF, 2)
      else if byte_in c 0xF1 0xF3 then Some (0x80, 0xBF, 2)
      else if byte_in c 0xF4 0xF4 then Some (0x80, 0x8F, 2)
      else None)"

text \<open>The size of the first rune; an invalid byte counts as a rune of size 1. The flag says
  whether the encoding is valid.\<close>

fun DecodeRune :: "string \<Rightarrow> nat \<times> bool" where
  "DecodeRune [] = (0, False)"
| "DecodeRune (c # s) =
     (if (of_char c :: nat) < 0x80 then (1, True)
      else case utf8_lead c of
          None \<Rightarrow> (1, False)
        | Some (lo, hi, more) \<Rightarrow>
            (if length s \<le> more then (1, False)
             else if byte_in (hd s) lo hi \<and> list_all (\<lambda>b. byte_in b 0x80 0xBF) (take more (tl s))
             then (2 + more, True) else (1, False)))"

lemma DecodeRune_pos: "s \<noteq> [] \<Longrightarrow> 0 < fst (DecodeRune s)"
  by (cases s) (auto split: option.splits)

function runes :: "string \<Rightarrow> string list" where
  "runes s = (if s = [] then [] else
     (let n = fst (DecodeRune s) in take n s # runes (drop n s)))"
  by pat_completeness auto
termination
  by (relation "measure length") (auto simp: DecodeRune_pos)

function ValidString :: "string \<Rightarrow> bool" where
  "ValidString s = (if s = [] then True else
     snd (DecodeRune s) \<and> ValidString (drop (fst (DecodeRune s)) s))"
  by pat_completeness auto
termination
  by (relation "measure length") (auto simp: DecodeRune_pos)

declare runes.simps [simp del] ValidString.simps [simp del]

lemma runes_Nil [simp]: "runes [] = []"
  by (simp add: runes.simps)

lemma ValidString_Nil [simp]: "ValidString []"
  by (simp add: ValidString.simps)

definition RuneCountInString :: "string \<Rightarrow> nat" where
  "RuneCountInString s = length (runes s)"

lemma concat_runes: "concat (runes s) = s"
proof (induction s rule: runes.induct)
  case (1 s)
  then show ?case by (cases "s = []") (simp_all add: runes.simps [of s] Let_def)
qed

lemma RuneCount_le_length: "RuneCountInString s \<le> length s"
proof (induction s rule: runes.induct)
  case (1 s)
  show ?case
  proof (cases "s = []")
    case True
    then show ?thesis by (simp add: RuneCountInString_def)
  next
    case False
    with 1 DecodeRune_pos [OF False] show ?thesis
      by (simp add: RuneCountInString_def runes.simps [of s] Let_def)
        (metis Suc_leI diff_less le_less_trans length_greater_0_conv)
  qed
qed

lemma RuneCount_ascii: "is_ascii s \<Longrightarrow> RuneCountInString s = length s"
proof (induction s)
  case Nil
  then show ?case by (simp add: RuneCountInString_def)
next
  case (Cons c s)
  then show ?case by (simp add: RuneCountInString_def runes.simps [of "c # s"] is_ascii_def)
qed

lemma ValidString_ascii: "is_ascii s \<Longrightarrow> ValidString s"
proof (induction s)
  case Nil
  then show ?case by simp
next
  case (Cons c s)
  then show ?case by (simp add: ValidString.simps [of "c # s"] is_ascii_def)
qed

end
