(* ===== verification/Go_Time.thy ===== *)
theory Go_Time
  imports Go_Strings
begin

text \<open>
  The parts of Go's package \<open>time\<close> that the service uses: truncation, Unix seconds, and the
  RFC 3339 layout, formatted and parsed as \<open>Time.Format\<close> and \<open>time.Parse\<close> do. The
  calendar is the proleptic Gregorian one, computed from the lengths of the 400 years of an era
  and of the 12 months of a year. The main results: a civil date read back gives the day it
  came from, and parsing a formatted instant of the years 0 to 9999 gives that instant cut
  down to whole seconds.
\<close>

section \<open>Instants and durations\<close>

definition Microsecond :: duration where
  "Microsecond = 1000"

definition Second :: duration where
  "Second = 1000000000"

definition Minute :: duration where
  "Minute = 60000000000"

definition Hour :: duration where
  "Hour = 3600000000000"

text \<open>Go's zero \<open>Time\<close>: January 1, year 1, 00:00 UTC.\<close>

definition zeroTime :: time where
  "zeroTime = -62135596800000000000"

definition Truncate :: "duration \<Rightarrow> time \<Rightarrow> time" where
  "Truncate d t = (if d \<le> 0 then t else t - (t - zeroTime) mod d)"

definition Unix :: "time \<Rightarrow> int" where
  "Unix t = t div 1000000000"

lemma Truncate_idem [simp]: "Truncate d (Truncate d t) = Truncate d t"
proof (cases "d \<le> 0")
  case False
  have "(t - (t - zeroTime) mod d - zeroTime) mod d = ((t - zeroTime) - (t - zeroTime) mod d) mod d"
    by (simp add: algebra_simps)
  also have "\<dots> = 0" by (simp add: minus_mod_eq_mult_div)
  finally show ?thesis by (simp add: Truncate_def)
qed (simp add: Truncate_def)

lemma Truncate_second: "Truncate Second t = Unix t * 1000000000"
proof -
  have "(t + 62135596800 * 1000000000) mod 1000000000 = t mod (1000000000 :: int)"
    by (rule mod_mult_self1)
  then have "(t - zeroTime) mod 1000000000 = t mod 1000000000"
    by (simp add: zeroTime_def)
  then show ?thesis
    by (simp add: Truncate_def Second_def Unix_def minus_mod_eq_div_mult)
qed

section \<open>The calendar\<close>

definition isLeap :: "int \<Rightarrow> bool" where
  "isLeap y \<longleftrightarrow> y mod 4 = 0 \<and> (y mod 100 \<noteq> 0 \<or> y mod 400 = 0)"

definition monthLens :: "bool \<Rightarrow> nat list" where
  "monthLens leap = [31, if leap then 29 else 28, 31, 30, 31, 30, 31, 31, 30, 31, 30, 31]"

definition daysIn :: "nat \<Rightarrow> int \<Rightarrow> nat" where
  "daysIn m y = monthLens (isLeap y) ! (m - 1)"

definition yearLens :: "nat list" where
  "yearLens = map (\<lambda>y. if isLeap (int y) then 366 else 365) [0..<400]"

text \<open>Days are counted from January 1, year 0.\<close>

definition civil_of_days :: "int \<Rightarrow> int \<times> nat \<times> nat" where
  "civil_of_days d =
     (let (yoe, doy) = locate yearLens (nat (d mod 146097));
          (m, dy) = locate (monthLens (isLeap (int yoe))) doy
      in (400 * (d div 146097) + int yoe, Suc m, Suc dy))"

definition days_of_civil :: "int \<Rightarrow> nat \<Rightarrow> nat \<Rightarrow> int" where
  "days_of_civil y m dy =
     146097 * (y div 400)
     + int (sum_list (take (nat (y mod 400)) yearLens)
            + sum_list (take (m - 1) (monthLens (isLeap y))) + (dy - 1))"

lemma leap_step: "isLeap (int n) \<longleftrightarrow> n mod 4 = 0 \<and> (n mod 100 \<noteq> 0 \<or> n mod 400 = 0)"
proof -
  have "int n mod 4 = int (n mod 4)" "int n mod 100 = int (n mod 100)" "int n mod 400 = int (n mod 400)"
    by (simp_all add: zmod_int)
  then show ?thesis by (simp add: isLeap_def)
qed

lemma dvd_mod_coarse: "n mod (a * b) = 0 \<Longrightarrow> n mod a = 0" for n a b :: nat
  by (metis dvd_mult_left mod_0_imp_dvd mod_eq_0_iff_dvd)

lemma ceil_step:
  fixes n k :: nat
  assumes "0 < k"
  shows "(n + k) div k = (n + (k - 1)) div k + (if n mod k = 0 then 1 else 0)"
proof -
  obtain q r where n: "n = k * q + r" and r: "r < k"
    using assms by (metis mod_less_divisor mult_div_mod_eq)
  then have qr: "n div k = q" "n mod k = r" by auto
  have "(n + (k - 1)) div k = (if r = 0 then q else Suc q)"
    by (rule div_nat_eqI) (use r in \<open>auto simp: n algebra_simps\<close>)
  moreover have "(n + k) div k = Suc (n div k)"
    using assms by (metis add.commute add_Suc_right add_0_right div_add_self1 less_not_refl2 Suc_eq_plus1)
  ultimately show ?thesis using qr by simp
qed

lemma hms_nat: "n div 3600 * 3600 + n mod 3600 div 60 * 60 + n mod 60 = n" for n :: nat
proof -
  have "n mod 3600 mod 60 = n mod 60" by (simp add: mod_mod_cancel)
  then have "n mod 3600 div 60 * 60 + n mod 60 = n mod 3600" by (metis div_mult_mod_eq)
  then show ?thesis by (metis add.assoc div_mult_mod_eq)
qed

lemma sum_years:
  "sum_list (map (\<lambda>y. if isLeap (int y) then 366 else 365) [0..<n]) + (n + 99) div 100
     = 365 * n + (n + 3) div 4 + (n + 399) div 400"
proof (induction n)
  case (Suc n)
  have d: "(Suc n + 3) div 4 = (n + 3) div 4 + (if n mod 4 = 0 then 1 else 0)"
    "(Suc n + 99) div 100 = (n + 99) div 100 + (if n mod 100 = 0 then 1 else 0)"
    "(Suc n + 399) div 400 = (n + 399) div 400 + (if n mod 400 = 0 then 1 else 0)"
    using ceil_step [of 4 n] ceil_step [of 100 n] ceil_step [of 400 n] by (simp_all add: add.commute)
  have "n mod 400 = 0 \<Longrightarrow> n mod 100 = 0" "n mod 100 = 0 \<Longrightarrow> n mod 4 = 0"
    using dvd_mod_coarse [of n 100 4] dvd_mod_coarse [of n 4 25] by simp_all
  with Suc.IH d show ?case by (simp add: leap_step)
qed simp

lemma sum_yearLens: "sum_list yearLens = 146097"
  using sum_years [of 400] by (simp add: yearLens_def)

lemma length_yearLens [simp]: "length yearLens = 400"
  by (simp add: yearLens_def)

lemma yearLens_nth: "y < 400 \<Longrightarrow> yearLens ! y = sum_list (monthLens (isLeap (int y)))"
  by (simp add: yearLens_def monthLens_def)

lemma isLeap_era: "isLeap (400 * e + y) = isLeap y"
proof -
  have "(4 * (100 * e) + y) mod 4 = y mod 4" "(100 * (4 * e) + y) mod 100 = y mod 100"
    "(400 * e + y) mod 400 = y mod 400"
    by (rule mod_mult_self4)+
  then show ?thesis by (simp add: isLeap_def)
qed

lemma civil_of_days_parts:
  assumes "civil_of_days d = (y, m, dy)"
  obtains yoe doy where "locate yearLens (nat (d mod 146097)) = (yoe, doy)" "yoe < 400"
    "nat (d mod 146097) = sum_list (take yoe yearLens) + doy" "y = 400 * (d div 146097) + int yoe"
    "1 \<le> m" "m \<le> 12" "1 \<le> dy" "dy \<le> daysIn m y"
    "doy = sum_list (take (m - 1) (monthLens (isLeap y))) + (dy - 1)"
proof -
  obtain yoe doy where y: "locate yearLens (nat (d mod 146097)) = (yoe, doy)" by fastforce
  obtain mm dd where m: "locate (monthLens (isLeap (int yoe))) doy = (mm, dd)" by fastforce
  have "nat (d mod 146097) < sum_list yearLens"
    by (simp add: sum_yearLens nat_less_iff)
  from locate_correct [OF this y] have yoe: "yoe < 400" "doy < yearLens ! yoe"
    "nat (d mod 146097) = sum_list (take yoe yearLens) + doy" by auto
  then have "doy < sum_list (monthLens (isLeap (int yoe)))"
    by (simp add: yearLens_nth)
  from locate_correct [OF this m] have mm: "mm < 12" "dd < monthLens (isLeap (int yoe)) ! mm"
    "doy = sum_list (take mm (monthLens (isLeap (int yoe)))) + dd"
    by (auto simp: monthLens_def)
  from assms y m have eqs: "y = 400 * (d div 146097) + int yoe" "m = Suc mm" "dy = Suc dd"
    by (auto simp: civil_of_days_def)
  with mm have "dy \<le> daysIn m y"
    by (simp add: daysIn_def isLeap_era)
  with y yoe mm eqs show ?thesis
    by (intro that [of yoe doy]) (simp_all add: isLeap_era)
qed

lemma days_of_civil_of_days:
  assumes "civil_of_days d = (y, m, dy)"
  shows "days_of_civil y m dy = d"
  using assms
proof (rule civil_of_days_parts)
  fix yoe doy
  assume a: "yoe < 400" "nat (d mod 146097) = sum_list (take yoe yearLens) + doy"
    "y = 400 * (d div 146097) + int yoe"
    "doy = sum_list (take (m - 1) (monthLens (isLeap y))) + (dy - 1)"
  then have "y div 400 = d div 146097" "nat (y mod 400) = yoe" by auto
  with a(4) have "days_of_civil y m dy = 146097 * (d div 146097) + int (nat (d mod 146097))"
    by (simp add: days_of_civil_def a(2))
  then show ?thesis by simp
qed

section \<open>The RFC 3339 layout\<close>

text \<open>\<open>appendInt\<close> of Go's formatter: a sign, then the digits, padded with zeros to the
  width.\<close>

definition appendInt :: "int \<Rightarrow> nat \<Rightarrow> string" where
  "appendInt x width =
     (let ds = nat_digits (nat \<bar>x\<bar>)
      in (if x < 0 then ''-'' else []) @ replicate (width - length ds) (CHR ''0'') @ ds)"

definition FormatRFC3339 :: "time \<Rightarrow> string" where
  "FormatRFC3339 t =
     (let sec = Unix t; day = sec div 86400; s = sec mod 86400;
          (y, m, dy) = civil_of_days (day + 719528)
      in appendInt y 4 @ ''-'' @ appendInt (int m) 2 @ ''-'' @ appendInt (int dy) 2 @ ''T''
         @ appendInt (s div 3600) 2 @ '':'' @ appendInt (s mod 3600 div 60) 2 @ '':''
         @ appendInt (s mod 60) 2 @ ''Z'')"

definition parseUint :: "string \<Rightarrow> nat \<Rightarrow> nat \<Rightarrow> nat option" where
  "parseUint s lo hi =
     (if list_all is_digit s \<and> lo \<le> digits_val 0 s \<and> digits_val 0 s \<le> hi
      then Some (digits_val 0 s) else None)"

definition sub :: "string \<Rightarrow> nat \<Rightarrow> nat \<Rightarrow> string" where
  "sub s i j = take (j - i) (drop i s)"

text \<open>The zone after the seconds: \<open>Z\<close> or a signed offset; the result is the offset in
  seconds.\<close>

definition parseZone :: "string \<Rightarrow> int option" where
  "parseZone s =
     (if s = ''Z'' then Some 0
      else if length s \<noteq> 6 then None
      else case (parseUint (sub s 1 3) 0 23, parseUint (sub s 4 6) 0 59) of
          (Some hr, Some mm) \<Rightarrow>
            (if s ! 3 = CHR '':'' \<and> s ! 0 = CHR ''-'' then Some (- int ((hr * 60 + mm) * 60))
             else if s ! 3 = CHR '':'' \<and> s ! 0 = CHR ''+'' then Some (int ((hr * 60 + mm) * 60))
             else None)
        | _ \<Rightarrow> None)"

text \<open>The fraction after the seconds, in nanoseconds (digits after the ninth are dropped), and
  the rest of the text.\<close>

definition parseFraction :: "string \<Rightarrow> nat \<times> string" where
  "parseFraction s =
     (case s of
        c # d # _ \<Rightarrow>
          (if c = CHR ''.'' \<and> is_digit d then
             (let ds = takeWhile is_digit (tl s)
              in (digits_val 0 (take 9 ds) * 10 ^ (9 - length (take 9 ds)), drop (Suc (length ds)) s))
           else (0, s))
      | _ \<Rightarrow> (0, s))"

definition parseRFC3339 :: "string \<Rightarrow> time option" where
  "parseRFC3339 s =
     (if length s < 19 then None
      else case (parseUint (sub s 0 4) 0 9999, parseUint (sub s 5 7) 1 12) of
        (Some y, Some m) \<Rightarrow>
          (case (parseUint (sub s 8 10) 1 (daysIn m (int y)), parseUint (sub s 11 13) 0 23,
                 parseUint (sub s 14 16) 0 59, parseUint (sub s 17 19) 0 59) of
             (Some d, Some h, Some mi, Some se) \<Rightarrow>
               (if s ! 4 = CHR ''-'' \<and> s ! 7 = CHR ''-'' \<and> s ! 10 = CHR ''T''
                   \<and> s ! 13 = CHR '':'' \<and> s ! 16 = CHR '':'' then
                  (let (ns, rest) = parseFraction (drop 19 s)
                   in map_option
                        (\<lambda>off. ((days_of_civil (int y) m d - 719528) * 86400
                                 + int (h * 3600 + mi * 60 + se) - off) * 1000000000 + int ns)
                        (parseZone rest))
                else None)
           | _ \<Rightarrow> None)
      | _ \<Rightarrow> None)"

text \<open>\<open>time.Parse(time.RFC3339, s)\<close>: the strict parser above first, the lenient
  layout-driven parser (a parameter) only on what it rejects.\<close>

definition ParseRFC3339 :: "(string \<Rightarrow> time option) \<Rightarrow> string \<Rightarrow> time option" where
  "ParseRFC3339 lenient s = (case parseRFC3339 s of Some t \<Rightarrow> Some t | None \<Rightarrow> lenient s)"

text \<open>The instants whose UTC year has four digits.\<close>

definition four_digit_year :: "time \<Rightarrow> bool" where
  "four_digit_year t \<longleftrightarrow> -62167219200000000000 \<le> t \<and> t < 253402300800000000000"

lemma nat_digits_1: "n < 10 \<Longrightarrow> nat_digits n = [digit_char n]"
  by (simp add: nat_digits.simps [of n])

lemma nat_digits_step:
  "10 \<le> n \<Longrightarrow> nat_digits n = nat_digits (n div 10) @ [digit_char (n mod 10)]"
  by (simp add: nat_digits.simps [of n])

lemma digit_char_0: "CHR ''0'' = digit_char 0"
  by (simp add: digit_char_def char_of_def bit_simps)

lemma replicate_few: "replicate 2 x = [x, x]" "replicate 3 x = [x, x, x]"
  by (simp_all add: numeral_2_eq_2 numeral_3_eq_3)

lemma appendInt_2:
  assumes "n < 100"
  shows "appendInt (int n) 2 = [digit_char (n div 10), digit_char (n mod 10)]"
proof (cases "n < 10")
  case True
  then show ?thesis by (simp add: appendInt_def nat_digits_1 digit_char_0)
next
  case False
  with assms have "n div 10 < 10" by simp
  with False show ?thesis by (simp add: appendInt_def nat_digits_step [of n] nat_digits_1)
qed

lemma appendInt_4:
  assumes "n < 10000"
  shows "appendInt (int n) 4 =
    [digit_char (n div 1000), digit_char (n div 100 mod 10), digit_char (n div 10 mod 10),
     digit_char (n mod 10)]"
proof -
  have div_div: "n div 10 div 10 = n div 100" "n div 100 div 10 = n div 1000"
    by (simp_all add: div_mult2_eq [symmetric])
  consider "n < 10" | "10 \<le> n" "n < 100" | "100 \<le> n" "n < 1000" | "1000 \<le> n" by linarith
  then show ?thesis
  proof cases
    case 1
    then show ?thesis
      by (simp add: appendInt_def nat_digits_1 digit_char_0 replicate_few)
  next
    case 2
    then show ?thesis
      by (simp add: appendInt_def nat_digits_step [of n] nat_digits_1 digit_char_0 replicate_few)
  next
    case 3
    then show ?thesis
      by (simp add: appendInt_def nat_digits_step [of n] nat_digits_step [of "n div 10"]
          nat_digits_1 digit_char_0 div_div)
  next
    case 4
    with assms show ?thesis
      by (simp add: appendInt_def nat_digits_step [of n] nat_digits_step [of "n div 10"]
          nat_digits_step [of "n div 100"] nat_digits_1 div_div)
  qed
qed

lemma parseUint_2:
  assumes "n < 100" and "lo \<le> n" and "n \<le> hi"
  shows "parseUint [digit_char (n div 10), digit_char (n mod 10)] lo hi = Some n"
proof -
  have "n div 10 < 10" using assms(1) by simp
  then show ?thesis using assms(2,3) by (simp add: parseUint_def)
qed

lemma parseUint_4:
  assumes "n < 10000"
  shows "parseUint [digit_char (n div 1000), digit_char (n div 100 mod 10),
    digit_char (n div 10 mod 10), digit_char (n mod 10)] 0 9999 = Some n"
proof -
  have "n div 1000 < 10" using assms by simp
  moreover have "n div 1000 = n div 100 div 10" "n div 100 = n div 10 div 10"
    by (simp_all add: div_mult2_eq [symmetric])
  then have "((n div 1000 * 10 + n div 100 mod 10) * 10 + n div 10 mod 10) * 10 + n mod 10 = n"
    by (metis div_mult_mod_eq)
  ultimately show ?thesis using assms by (simp add: parseUint_def)
qed

lemma parseRFC3339_fields:
  assumes "y < 10000" and "1 \<le> m" "m \<le> 12" and "1 \<le> d" "d \<le> daysIn m (int y)"
    and "h < 24" and "mi < 60" and "se < 60"
  shows "parseRFC3339
      (appendInt (int y) 4 @ ''-'' @ appendInt (int m) 2 @ ''-'' @ appendInt (int d) 2 @ ''T''
       @ appendInt (int h) 2 @ '':'' @ appendInt (int mi) 2 @ '':'' @ appendInt (int se) 2 @ ''Z'')
    = Some (((days_of_civil (int y) m d - 719528) * 86400 + int (h * 3600 + mi * 60 + se)) * 1000000000)"
proof -
  have "daysIn m (int y) \<le> 31"
    using assms(2,3) by (auto simp: daysIn_def monthLens_def nth_Cons' split: if_splits)
  with assms(5) have "d < 100" by simp
  with assms show ?thesis
    by (simp add: parseRFC3339_def appendInt_4 appendInt_2 sub_def parseUint_4 parseUint_2
        parseFraction_def parseZone_def)
qed

lemma civil_year_range:
  assumes "0 \<le> d" and "d < 3652425" and "civil_of_days d = (y, m, dy)"
  shows "0 \<le> y \<and> y < 10000"
  using assms(3)
proof (rule civil_of_days_parts)
  fix yoe doy
  assume "yoe < 400" and "y = 400 * (d div 146097) + int yoe"
  moreover from assms have "0 \<le> d div 146097" "d div 146097 < 25" by auto
  ultimately show ?thesis by linarith
qed

lemma four_digit_year_days:
  assumes "four_digit_year t"
  shows "0 \<le> Unix t div 86400 + 719528 \<and> Unix t div 86400 + 719528 < 3652425"
proof -
  from assms have lo: "-62167219200000000000 \<le> t" and hi: "t \<le> 253402300799999999999"
    by (auto simp: four_digit_year_def)
  from zdiv_mono1 [OF zdiv_mono1 [OF lo, of 1000000000], of 86400]
    zdiv_mono1 [OF zdiv_mono1 [OF hi, of 1000000000], of 86400]
  show ?thesis by (simp add: Unix_def)
qed

theorem parse_format_RFC3339:
  assumes "four_digit_year t"
  shows "parseRFC3339 (FormatRFC3339 t) = Some (Unix t * 1000000000)"
proof -
  let ?day = "Unix t div 86400"
  obtain y m dy where c: "civil_of_days (?day + 719528) = (y, m, dy)"
    by (cases "civil_of_days (?day + 719528)") auto
  have "0 \<le> ?day + 719528" "?day + 719528 < 3652425"
    using four_digit_year_days [OF assms] by auto
  with c have y: "0 \<le> y" "y < 10000" by (auto dest: civil_year_range)
  from c obtain md: "1 \<le> m" "m \<le> 12" "1 \<le> dy" "dy \<le> daysIn m y"
    by (rule civil_of_days_parts)
  obtain s where s: "Unix t mod 86400 = int s"
    by (metis nonneg_int_cases pos_mod_sign zero_less_numeral)
  have "int s < 86400" using s by (metis pos_mod_bound zero_less_numeral)
  then have hms: "s div 3600 < 24" "s mod 3600 div 60 < 60" "s mod 60 < 60"
    by (auto simp: div_less_iff_less_mult)
  have parts: "int s div 3600 = int (s div 3600)" "int s mod 3600 div 60 = int (s mod 3600 div 60)"
    "int s mod 60 = int (s mod 60)"
    by (simp_all add: zdiv_int zmod_int)
  have "s div 3600 * 3600 + s mod 3600 div 60 * 60 + s mod 60 = s" by (rule hms_nat)
  moreover have "days_of_civil (int (nat y)) m dy - 719528 = ?day"
    using days_of_civil_of_days [OF c] y by simp
  moreover have "?day * 86400 + int s = Unix t" by (metis div_mult_mod_eq s)
  ultimately have "(days_of_civil (int (nat y)) m dy - 719528) * 86400
      + int (s div 3600 * 3600 + s mod 3600 div 60 * 60 + s mod 60) = Unix t" by metis
  with parseRFC3339_fields [of "nat y" m dy "s div 3600" "s mod 3600 div 60" "s mod 60"] y md hms
  show ?thesis by (simp only: FormatRFC3339_def Let_def c s parts) simp
qed

text \<open>A text a layout with a four-digit year can read: four digits, then a dash. What is written of an
  instant whose year has another number of digits, or is negative, is no such text.\<close>

definition four_digit_prefix :: "string \<Rightarrow> bool" where
  "four_digit_prefix s \<longleftrightarrow> 4 < length s \<and> list_all is_digit (take 4 s) \<and> s ! 4 = CHR ''-''"

lemma parseRFC3339_prefix: "parseRFC3339 s = Some t \<Longrightarrow> four_digit_prefix s"
  by (auto simp: parseRFC3339_def parseUint_def sub_def four_digit_prefix_def split: if_splits option.splits)

lemma nat_digits_length: "10000 \<le> n \<Longrightarrow> 5 \<le> length (nat_digits n)"
proof -
  have *: "Suc k \<le> length (nat_digits n)" if "10 ^ k \<le> n" for k n
    using that
  proof (induction k arbitrary: n)
    case 0
    then show ?case by (cases "nat_digits n") simp_all
  next
    case (Suc k)
    then have "10 ^ k \<le> n div 10" "10 \<le> n"
      by (simp_all add: less_eq_div_iff_mult_less_eq mult.commute) (metis le_trans mult_le_mono2 nat_mult_1_right one_le_power zero_less_numeral Suc_leI One_nat_def)
    with Suc.IH [of "n div 10"] show ?case by (simp add: nat_digits_step)
  qed
  assume "10000 \<le> n"
  then show ?thesis using * [of 4 n] by simp
qed

lemma civil_year_outside:
  assumes "civil_of_days d = (y, m, dy)"
  shows "d < 0 \<Longrightarrow> y < 0" and "3652425 \<le> d \<Longrightarrow> 10000 \<le> y"
proof -
  from assms obtain yoe doy where y: "y = 400 * (d div 146097) + int yoe" "yoe < 400"
    by (rule civil_of_days_parts) blast
  show "y < 0" if "d < 0"
  proof -
    from zdiv_mono1 [of d "-1" 146097] that have "d div 146097 \<le> -1" by simp
    with y show ?thesis by simp
  qed
  show "10000 \<le> y" if "3652425 \<le> d" using y zdiv_mono1 [OF that, of 146097] by simp
qed

lemma FormatRFC3339_prefix:
  assumes "\<not> four_digit_year t"
  shows "\<not> four_digit_prefix (FormatRFC3339 t)"
proof -
  let ?day = "Unix t div 86400 + 719528"
  obtain y m dy where c: "civil_of_days ?day = (y, m, dy)" by (cases "civil_of_days ?day") auto
  then obtain rest where s: "FormatRFC3339 t = appendInt y 4 @ rest" by (simp add: FormatRFC3339_def Let_def)
  from assms consider "t \<le> -62167219200000000001" | "253402300800000000000 \<le> t" by (fastforce simp: four_digit_year_def)
  then show ?thesis
  proof cases
    case 1
    from zdiv_mono1 [OF zdiv_mono1 [OF 1, of 1000000000], of 86400] have "?day < 0" by (simp add: Unix_def)
    then have "y < 0" by (rule civil_year_outside(1) [OF c])
    then show ?thesis by (simp add: s appendInt_def Let_def four_digit_prefix_def not_digit_sign)
  next
    case 2
    from zdiv_mono1 [OF zdiv_mono1 [OF 2, of 1000000000], of 86400] have "3652425 \<le> ?day" by (simp add: Unix_def)
    then have "10000 \<le> y" by (rule civil_year_outside(2) [OF c])
    then have "5 \<le> length (nat_digits (nat y))" by (intro nat_digits_length) simp
    moreover from this have "appendInt y 4 = nat_digits (nat y)" using \<open>10000 \<le> y\<close> by (simp add: appendInt_def Let_def)
    moreover have "is_digit (nat_digits (nat y) ! 4)"
      using nat_digits_all [of "nat y"] calculation(1) by (simp add: list_all_length)
    ultimately show ?thesis using not_digit_sign(1) by (auto simp: s four_digit_prefix_def nth_append)
  qed
qed

lemma FormatRFC3339_trimmed: "TrimSpace (FormatRFC3339 t) = FormatRFC3339 t"
proof -
  let ?day = "Unix t div 86400 + 719528"
  obtain y m dy where c: "civil_of_days ?day = (y, m, dy)" by (cases "civil_of_days ?day") auto
  then obtain rest where s: "FormatRFC3339 t = appendInt y 4 @ rest" by (simp add: FormatRFC3339_def Let_def)
  have ne: "FormatRFC3339 t \<noteq> []" "last (FormatRFC3339 t) = CHR ''Z''"
    by (auto simp: FormatRFC3339_def Let_def split: prod.splits)
  have "list_all graphic (appendInt y 4)"
    using nat_digits_all [of "nat \<bar>y\<bar>"] by (auto simp: appendInt_def Let_def list_all_iff graphic_def is_digit_def)
  moreover have "appendInt y 4 \<noteq> []" by (simp add: appendInt_def Let_def)
  ultimately have "graphic (hd (FormatRFC3339 t))" by (cases "appendInt y 4") (simp_all add: s)
  with ne show ?thesis by (intro TrimSpace_id) (simp_all add: graphic_def)
qed

end
