(* ===== verification/Environment.thy ===== *)
theory Environment
  imports Go_Time Complex_Main
begin

text \<open>
  Errors and the outside world. Go errors are values: a sentinel (a package-level
  \<open>errors.New\<close>), an opaque error, an error that wraps another one
  (\<open>fmt.Errorf("...: %w", err)\<close>), a PostgreSQL error with the name of the violated
  constraint, a MinIO error response, or an AMQP error with its reply code. \<open>errors_Is\<close> follows the wrapping chain, as
  \<open>errors.Is\<close> does.

  The record \<open>env\<close> holds what one call of the service takes from outside the repository:
  third-party functions (\<open>google/uuid\<close>), tables of the standard library that are not spelled
  out (Unicode case folding, the lenient time parser), functions of the PostgreSQL server
  (\<open>LOWER\<close>, \<open>ILIKE\<close>, numeric division, \<open>RANDOM\<close>, the clock, timestamp precision,
  text collation), generated identifiers and clocks, and a fault oracle: \<open>fault E l\<close> is the
  error the external call labelled \<open>l\<close> fails with, if it fails. Every theorem holds for all
  environments that satisfy its stated hypotheses, hence for every pattern of failures.
\<close>

section \<open>Errors\<close>

datatype sentinel =
    repository_ErrCampaignFundraiserNotFound
  | repository_ErrCampaignIdempotencyConflict
  | repository_ErrCampaignEndAtTooSoon
  | repository_ErrCampaignNotFound
  | repository_ErrCampaignNotPendingDeployment
  | repository_ErrFundraiserHasActiveCampaigns
  | repository_ErrEmailAlreadyExists
  | repository_ErrWalletAlreadyExists
  | service_ErrCampaignIdempotencyConflict
  | service_ErrCampaignEndAtTooSoon
  | service_ErrCampaignNotFound
  | service_ErrEmailAlreadyRegistered
  | service_ErrWalletAlreadyRegistered
  | service_ErrProfileNotFound
  | service_ErrActiveCampaignsExist
  | service_ErrInvalidImageObjectKey
  | service_ErrImageObjectNotFound
  | service_ErrUnsupportedProfileImageType
  | service_ErrInvalidProfileImageSize
  | service_ErrInvalidWalletAddress
  | service_ErrInvalidMessage
  | service_ErrInvalidSignature
  | service_ErrSIWEVerification
  | storage_ErrObjectNotFound
  | cache_ErrMiss
  | auth_ErrInvalidToken
  | httpx_ErrBodyTooLarge
  | httpx_ErrInvalidJSON
  | httpx_ErrUnsupportedMediaType
  | queue_errConsumerRetry
  | sql_ErrNoRows
  | redis_Nil
  | amqp_ErrClosed
  | http_ErrServerClosed
  | context_Canceled

datatype err =
    Sentinel sentinel
  | Errorf string
  | Wrap string err
  | PgError string
  | MinioError string int
  | AmqpError int

fun errors_Is :: "err \<Rightarrow> sentinel \<Rightarrow> bool" where
  "errors_Is (Sentinel t) s = (t = s)"
| "errors_Is (Wrap _ e) s = errors_Is e s"
| "errors_Is _ s = False"

text \<open>\<open>errors.As(err, &pgErr)\<close>: the constraint name of the first PostgreSQL error in the
  chain.\<close>

fun errors_AsPg :: "err \<Rightarrow> string option" where
  "errors_AsPg (PgError c) = Some c"
| "errors_AsPg (Wrap _ e) = errors_AsPg e"
| "errors_AsPg _ = None"

type_synonym 'a result = "err + 'a"

definition is_ok :: "'a result \<Rightarrow> bool" where
  "is_ok r \<longleftrightarrow> (case r of Inl _ \<Rightarrow> False | Inr _ \<Rightarrow> True)"

lemma is_ok_simps [simp]: "is_ok (Inr a)" "\<not> is_ok (Inl e)"
  by (simp_all add: is_ok_def)

lemma is_ok_iff: "is_ok r \<longleftrightarrow> (\<exists>a. r = Inr a)"
  by (cases r) auto

section \<open>The environment of a call\<close>

record env =
  uuid_String :: "uuid \<Rightarrow> string"
  uuid_Parse :: "string \<Rightarrow> uuid option"
  unicode_ToLower :: "string \<Rightarrow> string"
  time_ParseLenient :: "string \<Rightarrow> time option"
  generateID :: "uuid result"
  time_Now :: time
  sql_Lower :: "string \<Rightarrow> string"
  sql_ILike :: "string \<Rightarrow> string \<Rightarrow> bool"
  sql_Timestamp :: "time \<Rightarrow> time"
  sql_NumericDiv :: "int \<Rightarrow> int \<Rightarrow> rat"
  sql_Random :: "uuid \<Rightarrow> int"
  sql_CollationKey :: "string \<Rightarrow> nat list"
  sql_Now :: time
  fault :: "string \<Rightarrow> err option"

abbreviation Lower :: "env \<Rightarrow> string \<Rightarrow> string" where
  "Lower E s \<equiv> ToLower (unicode_ToLower E) s"

abbreviation ParseTime :: "env \<Rightarrow> string \<Rightarrow> time option" where
  "ParseTime E s \<equiv> ParseRFC3339 (time_ParseLenient E) s"

text \<open>The documented behaviour of \<open>google/uuid\<close> the service relies on: \<open>String\<close> writes
  36 characters, hexadecimal digits and dashes, which \<open>Parse\<close> reads back.\<close>

definition uuid_char :: "char \<Rightarrow> bool" where
  "uuid_char c \<longleftrightarrow> is_digit c \<or> (97 \<le> (of_char c :: nat) \<and> (of_char c :: nat) \<le> 102) \<or> c = CHR ''-''"

definition uuid_laws :: "env \<Rightarrow> bool" where
  "uuid_laws E \<longleftrightarrow>
     (\<forall>u. uuid_Parse E (uuid_String E u) = Some u
        \<and> length (uuid_String E u) = 36 \<and> list_all uuid_char (uuid_String E u))"

text \<open>PostgreSQL keeps timestamps to the microsecond, so an instant of whole microseconds is
  stored as it is.\<close>

definition timestamp_laws :: "env \<Rightarrow> bool" where
  "timestamp_laws E \<longleftrightarrow> (\<forall>t. t mod 1000 = 0 \<longrightarrow> sql_Timestamp E t = t)"

text \<open>The documented layout of \<open>time.RFC3339\<close> begins with the element \<open>2006\<close>, a year of four
  digits, and a dash; so whatever \<open>time.Parse\<close> reads begins like that.\<close>

definition layout_laws :: "env \<Rightarrow> bool" where
  "layout_laws E \<longleftrightarrow> (\<forall>s t. time_ParseLenient E s = Some t \<longrightarrow> four_digit_prefix s)"

lemma ParseTime_prefix: "layout_laws E \<Longrightarrow> ParseTime E s = Some t \<Longrightarrow> four_digit_prefix s"
  by (auto simp: ParseRFC3339_def layout_laws_def dest: parseRFC3339_prefix split: option.splits)

lemma ParseTime_late:
  assumes "layout_laws E" and "\<not> four_digit_year t"
  shows "ParseTime E (FormatRFC3339 t) = None"
  using ParseTime_prefix [OF assms(1)] FormatRFC3339_prefix [OF assms(2)] by (cases "ParseTime E (FormatRFC3339 t)") auto

lemma uuid_char_graphic: "uuid_char c \<Longrightarrow> graphic c"
  by (auto simp: uuid_char_def graphic_def is_digit_def)

lemma uuid_lawsD:
  assumes "uuid_laws E"
  shows "uuid_Parse E (uuid_String E u) = Some u" "length (uuid_String E u) = 36"
    "list_all uuid_char (uuid_String E u)" "TrimSpace (uuid_String E u) = uuid_String E u"
    "uuid_String E u \<noteq> []"
proof -
  from assms show "uuid_Parse E (uuid_String E u) = Some u" and len: "length (uuid_String E u) = 36"
    and c: "list_all uuid_char (uuid_String E u)"
    by (auto simp: uuid_laws_def)
  from c have "list_all graphic (uuid_String E u)"
    by (auto simp: list_all_iff uuid_char_graphic)
  then show "TrimSpace (uuid_String E u) = uuid_String E u" by (rule TrimSpace_id_all)
  show "uuid_String E u \<noteq> []" using len by auto
qed

section \<open>Handles\<close>

text \<open>A handle on something outside (a database, a cache, a node of a chain) was never opened, is open, or was
  closed again.\<close>

datatype resource = Unopened | Opened | Released

section \<open>A concrete environment\<close>

text \<open>
  An environment in which the hypotheses hold, for the witnesses: identifiers are written as
  36 hexadecimal digits without dashes, SQL functions work on ASCII text, and no call fails.
\<close>

definition hex_digit :: "nat \<Rightarrow> char" where
  "hex_digit d = (if d < 10 then char_of (48 + d) else char_of (87 + d))"

definition hex_val :: "char \<Rightarrow> nat" where
  "hex_val c = (if is_digit c then of_char c - 48 else of_char c - 87)"

fun hex_write :: "nat \<Rightarrow> nat \<Rightarrow> string" where
  "hex_write 0 n = []"
| "hex_write (Suc k) n = hex_write k (n div 16) @ [hex_digit (n mod 16)]"

definition hex_read :: "string \<Rightarrow> nat" where
  "hex_read s = foldl (\<lambda>n c. n * 16 + hex_val c) 0 s"

definition demo_env :: env where
  "demo_env =
     \<lparr> uuid_String = (\<lambda>u. hex_write 36 (unat u)),
       uuid_Parse = (\<lambda>s. if length s = 36 \<and> list_all uuid_char s
                         then Some (word_of_nat (hex_read s)) else None),
       unicode_ToLower = (\<lambda>s. s),
       time_ParseLenient = (\<lambda>_. None),
       generateID = Inr 7,
       time_Now = 1700000000000000000,
       sql_Lower = map lower_byte,
       sql_ILike = (\<lambda>s p. Contains (map lower_byte s) (map lower_byte (butlast (tl p)))),
       sql_Timestamp = (\<lambda>t. t - t mod 1000),
       sql_NumericDiv = (\<lambda>a b. of_int a / of_int b),
       sql_Random = (\<lambda>_. 0),
       sql_CollationKey = map of_char,
       sql_Now = 1700000000000000000,
       fault = (\<lambda>_. None) \<rparr>"

lemma hex_val_digit: "d < 16 \<Longrightarrow> hex_val (hex_digit d) = d"
  by (auto simp: hex_val_def hex_digit_def is_digit_def)

lemma hex_digit_char: "d < 16 \<Longrightarrow> uuid_char (hex_digit d)"
  by (auto simp: uuid_char_def hex_digit_def is_digit_def)

lemma hex_read_write: "n < 16 ^ k \<Longrightarrow> hex_read (hex_write k n) = n"
proof (induction k arbitrary: n)
  case 0
  then show ?case by (simp add: hex_read_def)
next
  case (Suc k)
  then have "n div 16 < 16 ^ k" by (simp add: less_mult_imp_div_less mult.commute)
  with Suc.IH [of "n div 16"] show ?case
    by (simp add: hex_read_def hex_val_digit)
qed

lemma hex_write_shape: "length (hex_write k n) = k \<and> list_all uuid_char (hex_write k n)"
  by (induction k arbitrary: n) (auto simp: hex_digit_char)

lemma demo_uuid_laws: "uuid_laws demo_env"
proof -
  have "unat (u :: uuid) < 16 ^ 36" for u
    using unsigned_less [of u, where 'a = nat] by simp
  then show ?thesis
    by (auto simp: uuid_laws_def demo_env_def hex_read_write hex_write_shape)
qed

lemma demo_layout_laws: "layout_laws demo_env"
  by (simp add: layout_laws_def demo_env_def)

lemma demo_timestamp_laws: "timestamp_laws demo_env"
  by (simp add: timestamp_laws_def demo_env_def)

lemma demo_env_sel [simp]:
  "fault demo_env = (\<lambda>_. None)" "generateID demo_env = Inr 7"
  "sql_Lower demo_env = map lower_byte" "sql_Timestamp demo_env = (\<lambda>t. t - t mod 1000)"
  "time_Now demo_env = 1700000000000000000" "sql_Now demo_env = 1700000000000000000"
  by (simp_all add: demo_env_def)

text \<open>Case folding of the characters of a wallet address, for the witnesses.\<close>

lemma lower_byte_hex:
  "lower_byte CHR ''0'' = CHR ''0''"
  "lower_byte CHR ''1'' = CHR ''1''"
  "lower_byte CHR ''2'' = CHR ''2''"
  "lower_byte CHR ''3'' = CHR ''3''"
  "lower_byte CHR ''4'' = CHR ''4''"
  "lower_byte CHR ''5'' = CHR ''5''"
  "lower_byte CHR ''6'' = CHR ''6''"
  "lower_byte CHR ''7'' = CHR ''7''"
  "lower_byte CHR ''8'' = CHR ''8''"
  "lower_byte CHR ''9'' = CHR ''9''"
  "lower_byte CHR ''x'' = CHR ''x''"
  "lower_byte CHR ''a'' = CHR ''a''"
  "lower_byte CHR ''b'' = CHR ''b''"
  "lower_byte CHR ''c'' = CHR ''c''"
  "lower_byte CHR ''d'' = CHR ''d''"
  "lower_byte CHR ''e'' = CHR ''e''"
  "lower_byte CHR ''f'' = CHR ''f''"
  "lower_byte CHR ''A'' = CHR ''a''"
  "lower_byte CHR ''B'' = CHR ''b''"
  "lower_byte CHR ''C'' = CHR ''c''"
  "lower_byte CHR ''D'' = CHR ''d''"
  "lower_byte CHR ''E'' = CHR ''e''"
  "lower_byte CHR ''F'' = CHR ''f''"
  by code_simp+

end
