(* ===== verification/Config.thy ===== *)
theory Config
  imports Environment
begin

text \<open>
  Configuration (\<open>internal/config\<close>): reading and validating the environment variables of the API
  (\<open>config.go\<close>) and of the deployer (\<open>deployer.go\<close>). \<open>getenv\<close> is an argument, as in the code; \<open>url.Parse\<close>
  and \<open>time.ParseDuration\<close> are arguments too, the first as the parts of a URL the code looks at. The
  lemmas say what an accepted configuration satisfies.
\<close>

record url =
  u_Scheme :: string
  u_Host :: string
  u_User :: bool
  u_Path :: string
  u_RawQuery :: string
  u_Fragment :: string

record parsers =
  url_Parse :: "string \<Rightarrow> url result"
  time_ParseDuration :: "string \<Rightarrow> duration option"

text \<open>\<open>err != nil || parsed.Host == "" || (parsed.Scheme != "http" && parsed.Scheme != "https")\<close>, negated.\<close>

definition absoluteHTTP :: "url result \<Rightarrow> bool" where
  "absoluteHTTP r = (case r of Inl _ \<Rightarrow> False | Inr u \<Rightarrow> u_Host u \<noteq> [] \<and> (u_Scheme u = ''http'' \<or> u_Scheme u = ''https''))"

section \<open>The API (config.go)\<close>

definition defaultHTTPAddr :: string where
  "defaultHTTPAddr = '':8080''"

definition defaultSIWEMessageTTL :: duration where
  "defaultSIWEMessageTTL = 5 * Minute"

definition defaultJWTTTL :: duration where
  "defaultJWTTTL = 24 * Hour"

definition defaultStorageRegion :: string where
  "defaultStorageRegion = ''us-east-1''"

definition defaultStorageTTL :: duration where
  "defaultStorageTTL = 15 * Minute"

record Config =
  cf_HTTPAddr :: string
  cf_DatabaseURL :: string
  cf_JWTSecret :: string
  cf_StoragePublicBaseURL :: string
  cf_StorageEndpoint :: string
  cf_StorageAccessKey :: string
  cf_StorageSecretKey :: string
  cf_StorageBucket :: string
  cf_StorageRegion :: string
  cf_StoragePresignTTL :: duration
  cf_CacheURL :: string
  cf_CacheKeyPrefix :: string
  cf_QueueURL :: string
  cf_SIWEDomain :: string
  cf_SIWEURI :: string
  cf_SIWEChainID :: int
  cf_SIWEMessageTTL :: duration
  cf_JWTTTL :: duration
  cf_CORSAllowedOrigins :: "string list"

definition positiveDuration :: "parsers \<Rightarrow> string \<Rightarrow> duration \<Rightarrow> string \<Rightarrow> duration result" where
  "positiveDuration P raw defaultValue name =
     (let raw = TrimSpace raw
      in if raw = [] then Inr defaultValue
         else case time_ParseDuration P raw of
             None \<Rightarrow> Inl (Errorf (''config: '' @ name @ '' must be a positive duration''))
           | Some v \<Rightarrow>
               (if v \<le> 0 then Inl (Errorf (''config: '' @ name @ '' must be a positive duration'')) else Inr v))"

definition validateStorageEndpoint :: "parsers \<Rightarrow> string \<Rightarrow> unit result" where
  "validateStorageEndpoint P rawEndpoint =
     (if \<not> absoluteHTTP (url_Parse P rawEndpoint)
      then Inl (Errorf ''config: STORAGE_ENDPOINT must be an absolute HTTP(S) URL'')
      else case url_Parse P rawEndpoint of
          Inl e \<Rightarrow> Inl e
        | Inr u \<Rightarrow>
            (if u_User u \<or> (u_Path u \<noteq> [] \<and> u_Path u \<noteq> ''/'') \<or> u_RawQuery u \<noteq> [] \<or> u_Fragment u \<noteq> []
             then Inl (Errorf ''config: STORAGE_ENDPOINT must be an HTTP(S) origin without credentials, path, query, or fragment'')
             else Inr ()))"

definition normalizeHTTPOrigin :: "parsers \<Rightarrow> string \<Rightarrow> string result" where
  "normalizeHTTPOrigin P raw =
     (if raw = ''*'' then Inl (Errorf ''config: CORS_ALLOWED_ORIGINS must not include *'')
      else if \<not> absoluteHTTP (url_Parse P raw)
      then Inl (Errorf ''config: CORS_ALLOWED_ORIGINS must contain absolute HTTP(S) origins'')
      else case url_Parse P raw of
          Inl e \<Rightarrow> Inl e
        | Inr u \<Rightarrow>
            (if u_User u \<or> u_RawQuery u \<noteq> [] \<or> u_Fragment u \<noteq> []
             then Inl (Errorf ''config: CORS_ALLOWED_ORIGINS must contain HTTP(S) origins without credentials, query, or fragment'')
             else if u_Path u \<noteq> [] \<and> u_Path u \<noteq> ''/''
             then Inl (Errorf ''config: CORS_ALLOWED_ORIGINS must contain HTTP(S) origins without a path'')
             else Inr (u_Scheme u @ ''://'' @ u_Host u)))"

text \<open>The loop over the parts; \<open>seen\<close> holds exactly the origins collected so far.\<close>

fun collectOrigins :: "parsers \<Rightarrow> string list \<Rightarrow> string list \<Rightarrow> string list result" where
  "collectOrigins P origins [] = Inr origins"
| "collectOrigins P origins (part # parts) =
     (let part = TrimSpace part
      in if part = [] then collectOrigins P origins parts
         else case normalizeHTTPOrigin P part of
             Inl e \<Rightarrow> Inl e
           | Inr origin \<Rightarrow>
               (if origin \<in> set origins then collectOrigins P origins parts
                else collectOrigins P (origins @ [origin]) parts))"

definition parseCORSOrigins :: "parsers \<Rightarrow> string \<Rightarrow> string list result" where
  "parseCORSOrigins P raw = collectOrigins P [] (SplitByte (CHR '','') raw)"

text \<open>The required variables, in the order they are checked.\<close>

fun requireAll :: "(string \<times> string) list \<Rightarrow> unit result" where
  "requireAll [] = Inr ()"
| "requireAll ((name, v) # vs) = (if v = [] then Inl (Errorf (''config: '' @ name @ '' is required'')) else requireAll vs)"

definition positiveChainID :: "string \<Rightarrow> int result" where
  "positiveChainID raw =
     (case ParseInt (TrimSpace raw) of
        None \<Rightarrow> Inl (Errorf ''config: SIWE_CHAIN_ID must be a positive integer'')
      | Some n \<Rightarrow> (if n \<le> 0 then Inl (Errorf ''config: SIWE_CHAIN_ID must be a positive integer'') else Inr n))"

text \<open>The SIWE URI: absolute, and its host is the SIWE domain.\<close>

definition checkSIWE :: "parsers \<Rightarrow> string \<Rightarrow> string \<Rightarrow> unit result" where
  "checkSIWE P uri domain =
     (if \<not> absoluteHTTP (url_Parse P uri) then Inl (Errorf ''config: SIWE_URI must be an absolute HTTP(S) URL'')
      else case url_Parse P uri of
          Inl e \<Rightarrow> Inl e
        | Inr u \<Rightarrow>
            (if u_Host u \<noteq> domain then Inl (Errorf ''config: SIWE_DOMAIN must match the host in SIWE_URI'') else Inr ()))"

definition load :: "parsers \<Rightarrow> (string \<Rightarrow> string) \<Rightarrow> Config result" where
  "load P getenv =
     (let get = (\<lambda>name. TrimSpace (getenv name)); secret = getenv ''JWT_SECRET''
      in case requireAll [(''DATABASE_URL'', get ''DATABASE_URL'')] of Inl e \<Rightarrow> Inl e | Inr _ \<Rightarrow>
         (if length secret < 32 then Inl (Errorf ''config: JWT_SECRET must contain at least 32 bytes'')
          else case requireAll [(''STORAGE_PUBLIC_BASE_URL'', get ''STORAGE_PUBLIC_BASE_URL''),
                                (''STORAGE_ENDPOINT'', get ''STORAGE_ENDPOINT'')] of Inl e \<Rightarrow> Inl e | Inr _ \<Rightarrow>
          (case validateStorageEndpoint P (get ''STORAGE_ENDPOINT'') of Inl e \<Rightarrow> Inl e | Inr _ \<Rightarrow>
          (case requireAll [(''STORAGE_ACCESS_KEY'', get ''STORAGE_ACCESS_KEY''), (''STORAGE_SECRET_KEY'', get ''STORAGE_SECRET_KEY''),
                            (''STORAGE_BUCKET'', get ''STORAGE_BUCKET''), (''CACHE_URL'', get ''CACHE_URL''),
                            (''CACHE_KEY_PREFIX'', get ''CACHE_KEY_PREFIX''), (''QUEUE_URL'', get ''QUEUE_URL''),
                            (''SIWE_DOMAIN'', get ''SIWE_DOMAIN''), (''SIWE_URI'', get ''SIWE_URI'')] of Inl e \<Rightarrow> Inl e | Inr _ \<Rightarrow>
          (case checkSIWE P (get ''SIWE_URI'') (get ''SIWE_DOMAIN'') of Inl e \<Rightarrow> Inl e | Inr _ \<Rightarrow>
          (case positiveChainID (getenv ''SIWE_CHAIN_ID'') of Inl e \<Rightarrow> Inl e | Inr chainID \<Rightarrow>
          (case positiveDuration P (getenv ''SIWE_MESSAGE_TTL'') defaultSIWEMessageTTL ''SIWE_MESSAGE_TTL'' of Inl e \<Rightarrow> Inl e | Inr messageTTL \<Rightarrow>
          (case positiveDuration P (getenv ''JWT_TTL'') defaultJWTTTL ''JWT_TTL'' of Inl e \<Rightarrow> Inl e | Inr jwtTTL \<Rightarrow>
          (case positiveDuration P (getenv ''STORAGE_PRESIGN_TTL'') defaultStorageTTL ''STORAGE_PRESIGN_TTL'' of Inl e \<Rightarrow> Inl e | Inr presignTTL \<Rightarrow>
          (case parseCORSOrigins P (getenv ''CORS_ALLOWED_ORIGINS'') of Inl e \<Rightarrow> Inl e | Inr origins \<Rightarrow>
             Inr \<lparr>cf_HTTPAddr = (if get ''HTTP_ADDR'' = [] then defaultHTTPAddr else get ''HTTP_ADDR''),
                  cf_DatabaseURL = get ''DATABASE_URL'', cf_JWTSecret = secret,
                  cf_StoragePublicBaseURL = get ''STORAGE_PUBLIC_BASE_URL'', cf_StorageEndpoint = get ''STORAGE_ENDPOINT'',
                  cf_StorageAccessKey = get ''STORAGE_ACCESS_KEY'', cf_StorageSecretKey = get ''STORAGE_SECRET_KEY'',
                  cf_StorageBucket = get ''STORAGE_BUCKET'',
                  cf_StorageRegion = (if get ''STORAGE_REGION'' = [] then defaultStorageRegion else get ''STORAGE_REGION''),
                  cf_StoragePresignTTL = presignTTL, cf_CacheURL = get ''CACHE_URL'', cf_CacheKeyPrefix = get ''CACHE_KEY_PREFIX'',
                  cf_QueueURL = get ''QUEUE_URL'', cf_SIWEDomain = get ''SIWE_DOMAIN'', cf_SIWEURI = get ''SIWE_URI'',
                  cf_SIWEChainID = chainID, cf_SIWEMessageTTL = messageTTL, cf_JWTTTL = jwtTTL,
                  cf_CORSAllowedOrigins = origins\<rparr>))))))))))"

section \<open>The deployer (deployer.go)\<close>

definition defaultDeployerHTTPAddr :: string where
  "defaultDeployerHTTPAddr = '':8081''"

definition defaultDeploymentMode :: string where
  "defaultDeploymentMode = ''stub''"

definition defaultDeploymentConfirmWait :: duration where
  "defaultDeploymentConfirmWait = 2 * Minute"

record DeployerConfig =
  dc_HTTPAddr :: string
  dc_DatabaseURL :: string
  dc_QueueURL :: string
  dc_ChainID :: int
  dc_DeploymentMode :: string
  dc_ChainRPCURL :: string
  dc_CampaignFactoryAddress :: string
  dc_DeployerPrivateKey :: string
  dc_ConfirmTimeout :: duration

text \<open>What the mode requires.\<close>

definition checkMode :: "DeployerConfig \<Rightarrow> unit result" where
  "checkMode cfg =
     (if dc_DeploymentMode cfg = ''stub'' then Inr ()
      else if dc_DeploymentMode cfg = ''live''
      then (if dc_ChainRPCURL cfg = [] then Inl (Errorf ''config: CHAIN_RPC_URL is required when DEPLOYMENT_MODE=live'')
            else if dc_CampaignFactoryAddress cfg = []
            then Inl (Errorf ''config: CAMPAIGN_FACTORY_ADDRESS is required when DEPLOYMENT_MODE=live'')
            else if dc_DeployerPrivateKey cfg = []
            then Inl (Errorf ''config: DEPLOYER_PRIVATE_KEY is required when DEPLOYMENT_MODE=live'')
            else Inr ())
      else Inl (Errorf ''config: DEPLOYMENT_MODE must be stub or live''))"

definition loadDeployer :: "env \<Rightarrow> parsers \<Rightarrow> (string \<Rightarrow> string) \<Rightarrow> DeployerConfig result" where
  "loadDeployer E P getenv =
     (let get = (\<lambda>name. TrimSpace (getenv name)); mode = Lower E (get ''DEPLOYMENT_MODE'')
      in case requireAll [(''DATABASE_URL'', get ''DATABASE_URL''), (''QUEUE_URL'', get ''QUEUE_URL'')] of Inl e \<Rightarrow> Inl e | Inr _ \<Rightarrow>
         (case positiveChainID (getenv ''SIWE_CHAIN_ID'') of Inl e \<Rightarrow> Inl e | Inr chainID \<Rightarrow>
         (case positiveDuration P (getenv ''DEPLOYMENT_CONFIRM_TIMEOUT'') defaultDeploymentConfirmWait ''DEPLOYMENT_CONFIRM_TIMEOUT'' of
            Inl e \<Rightarrow> Inl e
          | Inr confirm \<Rightarrow>
              (let cfg = \<lparr>dc_HTTPAddr = (if get ''DEPLOYER_HTTP_ADDR'' = [] then defaultDeployerHTTPAddr else get ''DEPLOYER_HTTP_ADDR''),
                    dc_DatabaseURL = get ''DATABASE_URL'', dc_QueueURL = get ''QUEUE_URL'', dc_ChainID = chainID,
                    dc_DeploymentMode = (if mode = [] then defaultDeploymentMode else mode),
                    dc_ChainRPCURL = get ''CHAIN_RPC_URL'', dc_CampaignFactoryAddress = get ''CAMPAIGN_FACTORY_ADDRESS'',
                    dc_DeployerPrivateKey = get ''DEPLOYER_PRIVATE_KEY'', dc_ConfirmTimeout = confirm\<rparr>
               in case checkMode cfg of Inl e \<Rightarrow> Inl e | Inr _ \<Rightarrow> Inr cfg))))"

section \<open>What an accepted configuration satisfies\<close>

lemma positiveDuration_ok: "positiveDuration P raw v name = Inr d \<Longrightarrow> 0 < v \<Longrightarrow> 0 < d"
  by (auto simp: positiveDuration_def Let_def split: if_splits option.splits)

lemma positiveChainID_ok: "positiveChainID raw = Inr n \<Longrightarrow> 0 < n \<and> ParseInt (TrimSpace raw) = Some n"
  by (auto simp: positiveChainID_def split: if_splits option.splits)

lemma requireAll_ok: "requireAll vs = Inr u \<longleftrightarrow> (\<forall>(name, v) \<in> set vs. v \<noteq> [])"
  by (induction vs) (auto split: if_splits)

lemma validateStorageEndpoint_ok:
  "validateStorageEndpoint P raw = Inr x \<longleftrightarrow>
     (\<exists>u. url_Parse P raw = Inr u \<and> u_Host u \<noteq> [] \<and> (u_Scheme u = ''http'' \<or> u_Scheme u = ''https'')
       \<and> \<not> u_User u \<and> (u_Path u = [] \<or> u_Path u = ''/'') \<and> u_RawQuery u = [] \<and> u_Fragment u = [])"
  by (auto simp: validateStorageEndpoint_def absoluteHTTP_def split: if_splits sum.splits)

lemma normalizeHTTPOrigin_ok:
  "normalizeHTTPOrigin P raw = Inr origin \<Longrightarrow>
     raw \<noteq> ''*'' \<and> (\<exists>u. url_Parse P raw = Inr u \<and> u_Host u \<noteq> [] \<and> (u_Scheme u = ''http'' \<or> u_Scheme u = ''https'')
       \<and> \<not> u_User u \<and> origin = u_Scheme u @ ''://'' @ u_Host u)"
  by (auto simp: normalizeHTTPOrigin_def absoluteHTTP_def split: if_splits sum.splits)

text \<open>The origins are those of the non-blank parts, each once, in the order of their first occurrence.\<close>

lemma collectOrigins_ok:
  assumes "collectOrigins P acc parts = Inr origins" and "distinct acc"
  shows "distinct origins \<and> (\<exists>new. origins = acc @ new) \<and> set origins = set acc \<union>
    {o'. \<exists>part \<in> set parts. TrimSpace part \<noteq> [] \<and> normalizeHTTPOrigin P (TrimSpace part) = Inr o'}"
  using assms
proof (induction parts arbitrary: acc)
  case (Cons part parts)
  show ?case
  proof (cases "TrimSpace part = []")
    case True
    with Cons.prems Cons.IH [of acc] show ?thesis by (auto simp: Let_def)
  next
    case False
    then obtain origin where origin: "normalizeHTTPOrigin P (TrimSpace part) = Inr origin"
      using Cons.prems by (auto simp: Let_def split: sum.splits)
    show ?thesis
    proof (cases "origin \<in> set acc")
      case True
      with Cons.prems Cons.IH [of acc] False origin show ?thesis by (auto simp: Let_def)
    next
      case fresh: False
      with Cons.prems Cons.IH [of "acc @ [origin]"] False origin show ?thesis by (auto simp: Let_def)
    qed
  qed
qed simp

lemma parseCORSOrigins_ok:
  assumes "parseCORSOrigins P raw = Inr origins"
  shows "distinct origins" and "''*'' \<notin> set origins"
    and "o' \<in> set origins \<Longrightarrow> HasPrefix o' ''http://'' \<or> HasPrefix o' ''https://''"
proof -
  from collectOrigins_ok [OF assms [unfolded parseCORSOrigins_def]]
  have *: "distinct origins" "set origins = {o'. \<exists>part \<in> set (SplitByte (CHR '','') raw). TrimSpace part \<noteq> []
      \<and> normalizeHTTPOrigin P (TrimSpace part) = Inr o'}" by auto
  then show "distinct origins" by simp
  have pre: "HasPrefix o' ''http://'' \<or> HasPrefix o' ''https://''" if "o' \<in> set origins" for o'
    using that * by (auto simp: HasPrefix_def dest!: normalizeHTTPOrigin_ok)
  then show "o' \<in> set origins \<Longrightarrow> HasPrefix o' ''http://'' \<or> HasPrefix o' ''https://''" by simp
  from pre [of "''*''"] show "''*'' \<notin> set origins" by (auto simp: HasPrefix_def)
qed

text \<open>Reading a chain of checks backwards.\<close>

lemma check_ok: "(case r of Inl e \<Rightarrow> Inl e | Inr v \<Rightarrow> f v) = Inr c \<longleftrightarrow> (\<exists>v. r = Inr v \<and> f v = Inr c)"
  by (cases r) auto

lemma guard_ok: "(if b then Inl e else r) = Inr c \<longleftrightarrow> \<not> b \<and> r = Inr c"
  by simp

text \<open>An accepted configuration of the API.\<close>

definition acceptedConfig :: "parsers \<Rightarrow> (string \<Rightarrow> string) \<Rightarrow> Config \<Rightarrow> bool" where
  "acceptedConfig P getenv cfg \<longleftrightarrow>
     32 \<le> length (cf_JWTSecret cfg) \<and> validateStorageEndpoint P (cf_StorageEndpoint cfg) = Inr ()
     \<and> (\<forall>v \<in> {cf_HTTPAddr cfg, cf_DatabaseURL cfg, cf_StoragePublicBaseURL cfg, cf_StorageEndpoint cfg, cf_StorageAccessKey cfg,
          cf_StorageSecretKey cfg, cf_StorageBucket cfg, cf_StorageRegion cfg, cf_CacheURL cfg, cf_CacheKeyPrefix cfg, cf_QueueURL cfg}.
          TrimSpace v = v \<and> v \<noteq> [])
     \<and> (\<exists>u. url_Parse P (cf_SIWEURI cfg) = Inr u \<and> u_Host u = cf_SIWEDomain cfg)
     \<and> 0 < cf_SIWEChainID cfg \<and> 0 < cf_SIWEMessageTTL cfg \<and> 0 < cf_JWTTTL cfg \<and> 0 < cf_StoragePresignTTL cfg
     \<and> parseCORSOrigins P (getenv ''CORS_ALLOWED_ORIGINS'') = Inr (cf_CORSAllowedOrigins cfg)"

lemma checkSIWE_ok: "checkSIWE P uri domain = Inr x \<Longrightarrow> \<exists>u. url_Parse P uri = Inr u \<and> u_Host u = domain"
  by (auto simp: checkSIWE_def absoluteHTTP_def split: if_splits sum.splits)

lemma defaults_ok: "TrimSpace defaultHTTPAddr = defaultHTTPAddr" "TrimSpace defaultStorageRegion = defaultStorageRegion"
  "defaultHTTPAddr \<noteq> []" "defaultStorageRegion \<noteq> []" "0 < defaultSIWEMessageTTL" "0 < defaultJWTTTL" "0 < defaultStorageTTL"
  by code_simp+

lemma load_ok:
  assumes "load P getenv = Inr cfg"
  shows "acceptedConfig P getenv cfg"
  using assms unfolding load_def Let_def check_ok guard_ok sum.inject
proof (elim exE conjE, goal_cases)
  case (1 u1 u2 u3 u4 u5 chainID messageTTL jwtTTL presignTTL origins)
  from 1(7-10) have "0 < chainID" "0 < messageTTL" "0 < jwtTTL" "0 < presignTTL"
    using positiveChainID_ok positiveDuration_ok defaults_ok(5-7) by blast+
  then show ?case
    using 1(1-6,11) checkSIWE_ok [OF 1(6)] defaults_ok(1-4)
    unfolding acceptedConfig_def 1(12) [symmetric] by (simp add: requireAll_ok del: requireAll.simps)
qed

text \<open>An accepted configuration of the deployer: the stub, or a chain with its factory and key.\<close>

lemma loadDeployer_ok:
  assumes "loadDeployer E P getenv = Inr cfg"
  shows "0 < dc_ChainID cfg \<and> 0 < dc_ConfirmTimeout cfg \<and> dc_DatabaseURL cfg \<noteq> [] \<and> dc_QueueURL cfg \<noteq> []
    \<and> (dc_DeploymentMode cfg = ''stub'' \<or> dc_DeploymentMode cfg = ''live'' \<and> dc_ChainRPCURL cfg \<noteq> []
        \<and> dc_CampaignFactoryAddress cfg \<noteq> [] \<and> dc_DeployerPrivateKey cfg \<noteq> [])"
  using assms unfolding loadDeployer_def Let_def check_ok guard_ok sum.inject
proof (elim exE conjE, goal_cases)
  case (1 u1 chainID confirm u2)
  have "0 < chainID" "0 < confirm"
    using positiveChainID_ok [OF 1(2)] positiveDuration_ok [OF 1(3)] by (simp_all add: defaultDeploymentConfirmWait_def Minute_def)
  then show ?case
    using 1(1,4) unfolding 1(5) [symmetric] by (auto simp: checkMode_def requireAll_ok split: if_splits simp del: requireAll.simps)
qed

end
