(* ===== verification/Domain.thy ===== *)
theory Domain
  imports Environment
begin

text \<open>
  The domain model (package \<open>internal/domain\<close>): users, supporters, fundraisers, campaigns,
  donations, blockchain events, and the options of the list endpoints. A Go pointer field is an
  \<open>option\<close>, an embedded struct is the parent of a record, a string-typed enumeration with a
  closed set of values is a datatype with its text (\<open>statusText\<close>, \<open>listSortText\<close>).
  A user's role stays a string, because tokens carry arbitrary role text that the code checks.
\<close>

section \<open>Users (internal/domain/user.go, supporter.go, fundraiser.go, auth\_profile.go)\<close>

type_synonym UserRole = string

abbreviation UserRoleFundraiser :: UserRole where
  "UserRoleFundraiser \<equiv> ''fundraiser''"

abbreviation UserRoleSupporter :: UserRole where
  "UserRoleSupporter \<equiv> ''supporter''"

record User =
  u_ID :: uuid
  u_Role :: UserRole
  u_Email :: string
  u_WalletAddress :: string
  u_CreatedAt :: time

record Supporter = User +
  sp_Name :: string
  sp_ImageObjectKey :: "string option"

record Fundraiser = User +
  fr_Name :: string
  fr_ImageObjectKey :: "string option"
  fr_ContactName :: string
  fr_ContactPhone :: string
  fr_SocialURL :: "string option"
  fr_Country :: string
  fr_ZipCode :: string

record AuthProfile =
  ap_Name :: string
  ap_Role :: UserRole
  ap_ImageObjectKey :: "string option"

record ImageObjectKeyUpdate =
  iu_Set :: bool
  iu_Value :: "string option"

record SupporterProfileReplacement =
  spr_Name :: string
  spr_Email :: string
  spr_ImageObjectKey :: ImageObjectKeyUpdate

record FundraiserProfileReplacement =
  fpr_Name :: string
  fpr_Email :: string
  fpr_ImageObjectKey :: ImageObjectKeyUpdate
  fpr_ContactName :: string
  fpr_ContactPhone :: string
  fpr_SocialURL :: string
  fpr_Country :: string
  fpr_ZipCode :: string

section \<open>Campaigns (internal/domain/campaign.go)\<close>

datatype CampaignStatus =
    CampaignStatusPending
  | CampaignStatusActive
  | CampaignStatusCompleted
  | CampaignStatusCancelled
  | CampaignStatusFailed

fun statusText :: "CampaignStatus \<Rightarrow> string" where
  "statusText CampaignStatusPending = ''pending''"
| "statusText CampaignStatusActive = ''active''"
| "statusText CampaignStatusCompleted = ''completed''"
| "statusText CampaignStatusCancelled = ''cancelled''"
| "statusText CampaignStatusFailed = ''failed''"

text \<open>In the schema the status is an enumeration type, \<open>campaign_status\<close>, which the database orders as it is
  declared; so is the datatype.\<close>

fun statusRank :: "CampaignStatus \<Rightarrow> nat" where
  "statusRank CampaignStatusPending = 0"
| "statusRank CampaignStatusActive = 1"
| "statusRank CampaignStatusCompleted = 2"
| "statusRank CampaignStatusCancelled = 3"
| "statusRank CampaignStatusFailed = 4"

instantiation CampaignStatus :: linorder
begin

definition less_eq_CampaignStatus :: "CampaignStatus \<Rightarrow> CampaignStatus \<Rightarrow> bool" where
  "less_eq_CampaignStatus s t \<longleftrightarrow> statusRank s \<le> statusRank t"

definition less_CampaignStatus :: "CampaignStatus \<Rightarrow> CampaignStatus \<Rightarrow> bool" where
  "less_CampaignStatus s t \<longleftrightarrow> statusRank s < statusRank t"

instance
proof
  fix s t :: CampaignStatus
  assume "s \<le> t" "t \<le> s"
  then have "statusRank s = statusRank t" by (simp add: less_eq_CampaignStatus_def)
  then show "s = t" by (cases s; cases t) simp_all
qed (auto simp: less_eq_CampaignStatus_def less_CampaignStatus_def)

end

lemma status_pending_least [simp]: "CampaignStatusPending \<le> s"
  by (simp add: less_eq_CampaignStatus_def)

datatype CampaignListSort =
    CampaignListSortRandom
  | CampaignListSortNewest
  | CampaignListSortOldest
  | CampaignListSortCloseToGoal
  | CampaignListSortMostDonated

fun listSortText :: "CampaignListSort \<Rightarrow> string" where
  "listSortText CampaignListSortRandom = ''random''"
| "listSortText CampaignListSortNewest = ''newest''"
| "listSortText CampaignListSortOldest = ''oldest''"
| "listSortText CampaignListSortCloseToGoal = ''close-to-goal''"
| "listSortText CampaignListSortMostDonated = ''most-donated''"

record CampaignListOptions =
  lo_Search :: string
  lo_Sort :: CampaignListSort
  lo_Status :: "CampaignStatus option"
  lo_Page :: int
  lo_PageSize :: int

record Campaign =
  c_ID :: uuid
  c_FundraiserID :: uuid
  c_EventID :: "uuid option"
  c_Title :: string
  c_ShortDescription :: string
  c_Story :: string
  c_GoalAmount :: int
  c_RaisedAmount :: int
  c_DonorCount :: int
  c_ContractAddress :: "string option"
  c_CreatedAt :: time
  c_EndAt :: time
  c_ImageObjectKey :: string
  c_Country :: string
  c_ZipCode :: string
  c_Status :: CampaignStatus
  c_IdempotencyKey :: string

record PublicCampaignListItem = Campaign +
  li_FundraiserImageObjectKey :: "string option"

record PublicCampaignDetail = Campaign +
  cd_FundraiserName :: string
  cd_FundraiserWalletAddress :: string
  cd_FundraiserImageObjectKey :: "string option"

section \<open>Donations and blockchain events (donation.go, blockchain\_event.go)\<close>

datatype CampaignDonorListSort = CampaignDonorListSortRecent | CampaignDonorListSortTop

record CampaignDonorListOptions =
  do_Sort :: CampaignDonorListSort
  do_Page :: int
  do_PageSize :: int

record PublicCampaignDonor =
  pd_Name :: "string option"
  pd_WalletAddress :: string
  pd_ImageObjectKey :: "string option"
  pd_Amount :: int
  pd_DonatedAt :: time

record DonationListOptions =
  dl_Page :: int
  dl_PageSize :: int

record DonationCampaign =
  dc_Title :: string
  dc_ContractAddress :: string

record Donation =
  dn_Amount :: int
  dn_Campaign :: DonationCampaign
  dn_DonatedAt :: time
  dn_TxHash :: string

type_synonym BlockchainEventType = string

abbreviation BlockchainEventTypeCampaignCreated :: BlockchainEventType where
  "BlockchainEventTypeCampaignCreated \<equiv> ''campaign_created''"

record BlockchainEvent =
  ev_ID :: uuid
  ev_TxHash :: string
  ev_LogIndex :: int
  ev_Type :: BlockchainEventType
  ev_BlockNumber :: int
  ev_CreatedAt :: time

lemma statusText_inj: "statusText a = statusText b \<longleftrightarrow> a = b"
  by (cases a; cases b) simp_all

end
