(* ===== verification/Database.thy ===== *)
theory Database
  imports Domain
begin

text \<open>
  The PostgreSQL database as the migrations declare it (\<open>migrations/*.sql\<close>): tables are lists
  of rows, and each INSERT or UPDATE statement the repositories issue checks the columns' types
  and the constraints of the schema, in the order the server does, and fails with the name of
  the constraint it violates. A transaction (\<open>runTx\<close>) publishes its changes only when it
  commits; every other way out is the deferred rollback. \<open>db_ok\<close> is the schema's invariant:
  primary keys, unique indexes (the partial ones on live users included), foreign keys and
  checks. The lemmas show that every statement keeps it, and that a transaction that reports an
  error has changed nothing.
\<close>

section \<open>Tables\<close>

record user_row = User +
  u_DeletedAt :: "time option"

record supporter_row =
  sr_id :: uuid
  sr_name :: string
  sr_image_object_key :: "string option"

record fundraiser_row =
  fw_id :: uuid
  fw_name :: string
  fw_image_object_key :: "string option"
  fw_contact_name :: string
  fw_contact_phone :: string
  fw_social_url :: "string option"
  fw_country :: string
  fw_zip_code :: string

record donation_row =
  dr_id :: uuid
  dr_campaign_id :: uuid
  dr_supporter_id :: "uuid option"
  dr_donor_address :: string
  dr_event_id :: uuid
  dr_amount :: int

record db =
  users :: "user_row list"
  supporters :: "supporter_row list"
  fundraisers :: "fundraiser_row list"
  blockchain_events :: "BlockchainEvent list"
  campaigns :: "Campaign list"
  donations :: "donation_row list"

definition empty_db :: db where
  "empty_db = \<lparr>users = [], supporters = [], fundraisers = [], blockchain_events = [],
     campaigns = [], donations = []\<rparr>"

abbreviation live :: "user_row \<Rightarrow> bool" where
  "live u \<equiv> u_DeletedAt u = None"

section \<open>Column types\<close>

text \<open>Assignment to a \<open>VARCHAR(n)\<close> column: text of more than \<open>n\<close> characters is refused,
  unless the excess is blank, which is cut off.\<close>

definition varchar :: "nat \<Rightarrow> string \<Rightarrow> string option" where
  "varchar n s =
     (if RuneCountInString s \<le> n then Some s
      else if list_all (\<lambda>r. r = '' '') (drop n (runes s)) then Some (concat (take n (runes s)))
      else None)"

lemma varchar_trimmed:
  assumes "varchar n (TrimSpace s) = Some w"
  shows "w = TrimSpace s"
proof (rule ccontr)
  let ?r = "runes (TrimSpace s)"
  assume "w \<noteq> TrimSpace s"
  with assms have long: "drop n ?r \<noteq> []" "list_all (\<lambda>r. r = '' '') (drop n ?r)"
    by (auto simp: varchar_def RuneCountInString_def split: if_splits)
  from long(1) have ne: "?r \<noteq> []" by auto
  from long(1) have "last (drop n ?r) \<in> set (drop n ?r)" by (rule last_in_set)
  with long have "last ?r = '' ''" by (auto simp: list_all_iff last_drop)
  with ne have "?r = butlast ?r @ ['' '']" by (metis append_butlast_last_id)
  then have "concat ?r = concat (butlast ?r) @ '' ''" by (metis concat_append concat.simps append_Nil2)
  then have "last (TrimSpace s) = CHR '' ''" "TrimSpace s \<noteq> []"
    unfolding concat_runes by (metis last_snoc, metis append_is_Nil_conv list.distinct(1))
  with TrimSpace_last show False by blast
qed

definition int4 :: "int \<Rightarrow> bool" where
  "int4 i \<longleftrightarrow> -2147483648 \<le> i \<and> i \<le> 2147483647"

text \<open>A value that does not fit its column raises an error that names no constraint.\<close>

definition dataError :: err where
  "dataError = PgError []"

lemma varchar_short: "RuneCountInString s \<le> n \<Longrightarrow> varchar n s = Some s"
  by (simp add: varchar_def)

section \<open>INSERT and UPDATE statements\<close>

definition insert_user :: "env \<Rightarrow> uuid \<Rightarrow> UserRole \<Rightarrow> string \<Rightarrow> string \<Rightarrow> db \<Rightarrow> (user_row \<times> db) result" where
  "insert_user E i role email wallet d =
     (case (varchar 255 email, varchar 255 wallet) of
        (Some email', Some wallet') \<Rightarrow>
          (if role \<noteq> ''fundraiser'' \<and> role \<noteq> ''supporter'' then Inl dataError
           else if i \<in> u_ID ` set (users d) then Inl (PgError ''users_pkey'')
           else if \<exists>u\<in>set (users d). live u \<and> u_Email u = email' then Inl (PgError ''users_email_key'')
           else if \<exists>u\<in>set (users d). live u \<and> u_WalletAddress u = wallet'
             then Inl (PgError ''users_wallet_address_key'')
           else
             (let row = \<lparr>u_ID = i, u_Role = role, u_Email = email', u_WalletAddress = wallet',
                         u_CreatedAt = sql_Now E, u_DeletedAt = None\<rparr>
              in Inr (row, d\<lparr>users := users d @ [row]\<rparr>)))
      | _ \<Rightarrow> Inl dataError)"

definition update_user_email :: "string \<Rightarrow> uuid \<Rightarrow> db \<Rightarrow> db result" where
  "update_user_email email i d =
     (case varchar 255 email of
        None \<Rightarrow> Inl dataError
      | Some email' \<Rightarrow>
          (if (\<exists>u\<in>set (users d). u_ID u = i \<and> live u)
              \<and> (\<exists>v\<in>set (users d). u_ID v \<noteq> i \<and> live v \<and> u_Email v = email')
           then Inl (PgError ''users_email_key'')
           else Inr (d\<lparr>users := update_where (\<lambda>u. u_ID u = i) (\<lambda>u. u\<lparr>u_Email := email'\<rparr>) (users d)\<rparr>)))"

definition soft_delete_user :: "env \<Rightarrow> uuid \<Rightarrow> db \<Rightarrow> db" where
  "soft_delete_user E i d =
     d\<lparr>users := update_where (\<lambda>u. u_ID u = i) (\<lambda>u. u\<lparr>u_DeletedAt := Some (sql_Now E)\<rparr>) (users d)\<rparr>"

definition insert_supporter :: "supporter_row \<Rightarrow> db \<Rightarrow> db result" where
  "insert_supporter r d =
     (case varchar 255 (sr_name r) of
        None \<Rightarrow> Inl dataError
      | Some name \<Rightarrow>
          (if sr_id r \<in> sr_id ` set (supporters d) then Inl (PgError ''supporters_pkey'')
           else if sr_id r \<notin> u_ID ` set (users d) then Inl (PgError ''supporters_id_fkey'')
           else Inr (d\<lparr>supporters := supporters d @ [r\<lparr>sr_name := name\<rparr>]\<rparr>)))"

definition insert_fundraiser :: "fundraiser_row \<Rightarrow> db \<Rightarrow> db result" where
  "insert_fundraiser r d =
     (case (varchar 255 (fw_name r), varchar 255 (fw_contact_name r), varchar 255 (fw_contact_phone r),
            varchar 255 (fw_country r), varchar 20 (fw_zip_code r)) of
        (Some name, Some contact, Some phone, Some country, Some zipCode) \<Rightarrow>
          (if fw_id r \<in> fw_id ` set (fundraisers d) then Inl (PgError ''fundraisers_pkey'')
           else if fw_id r \<notin> u_ID ` set (users d) then Inl (PgError ''fundraisers_id_fkey'')
           else Inr (d\<lparr>fundraisers := fundraisers d @
             [r\<lparr>fw_name := name, fw_contact_name := contact, fw_contact_phone := phone,
                fw_country := country, fw_zip_code := zipCode\<rparr>]\<rparr>))
      | _ \<Rightarrow> Inl dataError)"

definition update_supporter_name :: "string \<Rightarrow> uuid \<Rightarrow> db \<Rightarrow> db result" where
  "update_supporter_name name i d =
     (case varchar 255 name of
        None \<Rightarrow> Inl dataError
      | Some name' \<Rightarrow>
          Inr (d\<lparr>supporters := update_where (\<lambda>r. sr_id r = i) (\<lambda>r. r\<lparr>sr_name := name'\<rparr>) (supporters d)\<rparr>))"

definition update_supporter_image :: "string option \<Rightarrow> uuid \<Rightarrow> db \<Rightarrow> db" where
  "update_supporter_image k i d =
     d\<lparr>supporters := update_where (\<lambda>r. sr_id r = i) (\<lambda>r. r\<lparr>sr_image_object_key := k\<rparr>) (supporters d)\<rparr>"

definition update_fundraiser ::
  "string \<Rightarrow> string \<Rightarrow> string \<Rightarrow> string \<Rightarrow> string \<Rightarrow> string \<Rightarrow> uuid \<Rightarrow> db \<Rightarrow> db result" where
  "update_fundraiser name contact phone url country zipCode i d =
     (case (varchar 255 name, varchar 255 contact, varchar 255 phone, varchar 255 country, varchar 20 zipCode) of
        (Some name', Some contact', Some phone', Some country', Some zip') \<Rightarrow>
          Inr (d\<lparr>fundraisers := update_where (\<lambda>r. fw_id r = i)
            (\<lambda>r. r\<lparr>fw_name := name', fw_contact_name := contact', fw_contact_phone := phone',
                   fw_social_url := Some url, fw_country := country', fw_zip_code := zip'\<rparr>)
            (fundraisers d)\<rparr>)
      | _ \<Rightarrow> Inl dataError)"

definition update_fundraiser_image :: "string option \<Rightarrow> uuid \<Rightarrow> db \<Rightarrow> db" where
  "update_fundraiser_image k i d =
     d\<lparr>fundraisers := update_where (\<lambda>r. fw_id r = i) (\<lambda>r. r\<lparr>fw_image_object_key := k\<rparr>) (fundraisers d)\<rparr>"

definition event_types :: "string set" where
  "event_types = {''campaign_created'', ''donation_created'', ''withdrawal'', ''campaign_cancelled'',
     ''refund_claimed''}"

definition insert_event :: "env \<Rightarrow> BlockchainEvent \<Rightarrow> db \<Rightarrow> db result" where
  "insert_event E e d =
     (case varchar 255 (ev_TxHash e) of
        None \<Rightarrow> Inl dataError
      | Some tx \<Rightarrow>
          (if ev_Type e \<notin> event_types \<or> \<not> int4 (ev_LogIndex e) \<or> \<not> int4 (ev_BlockNumber e)
           then Inl dataError
           else if ev_ID e \<in> ev_ID ` set (blockchain_events d) then Inl (PgError ''blockchain_events_pkey'')
           else if (tx, ev_LogIndex e) \<in> (\<lambda>v. (ev_TxHash v, ev_LogIndex v)) ` set (blockchain_events d)
             then Inl (PgError ''blockchain_events_tx_hash_log_index_key'')
           else Inr (d\<lparr>blockchain_events := blockchain_events d @
             [e\<lparr>ev_TxHash := tx, ev_CreatedAt := sql_Timestamp E (ev_CreatedAt e)\<rparr>]\<rparr>)))"

text \<open>\<open>UPDATE campaigns SET status = 'active', event_id, contract_address WHERE id\<close>.\<close>

definition activate_campaign :: "uuid \<Rightarrow> uuid \<Rightarrow> string \<Rightarrow> db \<Rightarrow> db result" where
  "activate_campaign i eventID address d =
     (case varchar 255 address of
        None \<Rightarrow> Inl dataError
      | Some address' \<Rightarrow>
          (if i \<notin> c_ID ` set (campaigns d) then Inr d
           else if \<exists>c\<in>set (campaigns d). c_ID c \<noteq> i \<and> c_EventID c = Some eventID
             then Inl (PgError ''campaigns_event_id_key'')
           else if \<exists>c\<in>set (campaigns d). c_ID c \<noteq> i \<and> c_ContractAddress c = Some address'
             then Inl (PgError ''campaigns_contract_address_key'')
           else if eventID \<notin> ev_ID ` set (blockchain_events d)
             then Inl (PgError ''campaigns_event_id_fkey'')
           else Inr (d\<lparr>campaigns := update_where (\<lambda>c. c_ID c = i)
             (\<lambda>c. c\<lparr>c_Status := CampaignStatusActive, c_EventID := Some eventID,
                    c_ContractAddress := Some address'\<rparr>) (campaigns d)\<rparr>)))"

text \<open>\<open>INSERT INTO campaigns ... ON CONFLICT (fundraiser_id, idempotency_key) DO NOTHING RETURNING\<close>:
  \<open>None\<close> when the conflict suppressed the row.\<close>

definition insert_campaign :: "env \<Rightarrow> Campaign \<Rightarrow> db \<Rightarrow> (Campaign option \<times> db) result" where
  "insert_campaign E c d =
     (case (varchar 255 (c_Title c), varchar 255 (c_ShortDescription c), varchar 255 (c_Country c),
            varchar 20 (c_ZipCode c), varchar 255 (c_IdempotencyKey c)) of
        (Some title, Some short, Some country, Some zipCode, Some key) \<Rightarrow>
          (if c_GoalAmount c \<le> 0 then Inl (PgError ''campaigns_goal_amount_check'')
           else if c_Status c \<in> {CampaignStatusActive, CampaignStatusCompleted, CampaignStatusCancelled}
             then Inl (PgError ''campaigns_live_chain_data_check'')
           else if \<exists>x\<in>set (campaigns d). c_FundraiserID x = c_FundraiserID c \<and> c_IdempotencyKey x = key
             then Inr (None, d)
           else if c_ID c \<in> c_ID ` set (campaigns d) then Inl (PgError ''campaigns_pkey'')
           else if c_FundraiserID c \<notin> fw_id ` set (fundraisers d)
             then Inl (PgError ''campaigns_fundraiser_id_fkey'')
           else
             (let row = c\<lparr>c_EventID := None, c_Title := title, c_ShortDescription := short,
                          c_RaisedAmount := 0, c_DonorCount := 0, c_ContractAddress := None,
                          c_CreatedAt := sql_Now E, c_EndAt := sql_Timestamp E (c_EndAt c),
                          c_Country := country, c_ZipCode := zipCode, c_IdempotencyKey := key\<rparr>
              in Inr (Some row, d\<lparr>campaigns := campaigns d @ [row]\<rparr>)))
      | _ \<Rightarrow> Inl dataError)"

section \<open>Queries and transactions\<close>

definition queryRow :: "env \<Rightarrow> string \<Rightarrow> 'r list \<Rightarrow> 'r result" where
  "queryRow E label rows =
     (case fault E label of
        Some e \<Rightarrow> Inl e
      | None \<Rightarrow> (case rows of [] \<Rightarrow> Inl (Sentinel sql_ErrNoRows) | r # _ \<Rightarrow> Inr r))"

definition query :: "env \<Rightarrow> string \<Rightarrow> 'r list \<Rightarrow> 'r list result" where
  "query E label rows = (case fault E label of Some e \<Rightarrow> Inl e | None \<Rightarrow> Inr rows)"

definition exec :: "env \<Rightarrow> string \<Rightarrow> 'a result \<Rightarrow> 'a result" where
  "exec E label outcome = (case fault E label of Some e \<Rightarrow> Inl e | None \<Rightarrow> outcome)"

lemma exec_Inr: "exec E label outcome = Inr a \<Longrightarrow> outcome = Inr a"
  by (auto simp: exec_def split: option.splits)

text \<open>How a transaction body ends: a return without commit (the deferred \<open>Rollback\<close> takes
  effect), or \<open>tx.Commit\<close> with the message for a failed commit.\<close>

datatype 'a txout = Return "'a result" | Commit string 'a db

definition runTx :: "env \<Rightarrow> string \<Rightarrow> (db \<Rightarrow> 'a txout) \<Rightarrow> db \<Rightarrow> db \<times> 'a result" where
  "runTx E beginMessage body d =
     (case fault E ''BeginTx'' of
        Some e \<Rightarrow> (d, Inl (Wrap beginMessage e))
      | None \<Rightarrow>
          (case body d of
             Return r \<Rightarrow> (d, r)
           | Commit commitMessage a d' \<Rightarrow>
               (case fault E ''Commit'' of
                  Some e \<Rightarrow> (d, Inl (Wrap commitMessage e))
                | None \<Rightarrow> (d', Inr a))))"

lemma runTx_error: "runTx E m body d = (d', Inl e) \<Longrightarrow> d' = d"
  by (auto simp: runTx_def split: option.splits txout.splits)

lemma runTx_changed:
  "runTx E m body d = (d', r) \<Longrightarrow> d' = d \<or> (\<exists>cm a. body d = Commit cm a d' \<and> r = Inr a)"
  by (auto simp: runTx_def split: option.splits txout.splits)

lemma runTx_invariant:
  assumes "P d" and "\<And>cm a d'. body d = Commit cm a d' \<Longrightarrow> P d'"
  shows "P (fst (runTx E m body d))"
  using assms by (auto simp: runTx_def split: option.splits txout.splits)

lemma queryRow_cases:
  "queryRow E l rows = Inr r \<Longrightarrow> \<exists>rs. rows = r # rs"
  by (auto simp: queryRow_def split: option.splits list.splits)

section \<open>Constraint errors (supporter\_postgres.go)\<close>

definition usersEmailConstraint :: string where
  "usersEmailConstraint = ''users_email_key''"

definition usersWalletConstraint :: string where
  "usersWalletConstraint = ''users_wallet_address_key''"

definition mapPostgresError :: "string \<Rightarrow> err \<Rightarrow> err" where
  "mapPostgresError operation e =
     (case errors_AsPg e of
        Some constraintName \<Rightarrow>
          (if constraintName = usersEmailConstraint
           then Wrap operation (Sentinel repository_ErrEmailAlreadyExists)
           else if constraintName = usersWalletConstraint
           then Wrap operation (Sentinel repository_ErrWalletAlreadyExists)
           else Wrap (''repository: '' @ operation) e)
      | None \<Rightarrow> Wrap (''repository: '' @ operation) e)"

section \<open>The invariant of the schema\<close>

definition users_ok :: "db \<Rightarrow> bool" where
  "users_ok d \<longleftrightarrow>
     distinct (map u_ID (users d))
     \<and> distinct (map u_Email (filter live (users d)))
     \<and> distinct (map u_WalletAddress (filter live (users d)))
     \<and> u_Role ` set (users d) \<subseteq> {''fundraiser'', ''supporter''}"

definition profiles_ok :: "db \<Rightarrow> bool" where
  "profiles_ok d \<longleftrightarrow>
     distinct (map sr_id (supporters d)) \<and> sr_id ` set (supporters d) \<subseteq> u_ID ` set (users d)
     \<and> distinct (map fw_id (fundraisers d)) \<and> fw_id ` set (fundraisers d) \<subseteq> u_ID ` set (users d)"

definition events_ok :: "db \<Rightarrow> bool" where
  "events_ok d \<longleftrightarrow>
     distinct (map ev_ID (blockchain_events d))
     \<and> distinct (map (\<lambda>e. (ev_TxHash e, ev_LogIndex e)) (blockchain_events d))"

definition campaign_row_ok :: "db \<Rightarrow> Campaign \<Rightarrow> bool" where
  "campaign_row_ok d c \<longleftrightarrow>
     c_FundraiserID c \<in> fw_id ` set (fundraisers d)
     \<and> (\<forall>e. c_EventID c = Some e \<longrightarrow> e \<in> ev_ID ` set (blockchain_events d))
     \<and> 0 < c_GoalAmount c \<and> 0 \<le> c_RaisedAmount c \<and> 0 \<le> c_DonorCount c
     \<and> (c_Status c \<in> {CampaignStatusActive, CampaignStatusCompleted, CampaignStatusCancelled}
          \<longrightarrow> c_EventID c \<noteq> None \<and> c_ContractAddress c \<noteq> None)"

definition campaigns_ok :: "db \<Rightarrow> bool" where
  "campaigns_ok d \<longleftrightarrow>
     distinct (map c_ID (campaigns d))
     \<and> distinct (map (\<lambda>c. (c_FundraiserID c, c_IdempotencyKey c)) (campaigns d))
     \<and> distinct (List.map_filter c_EventID (campaigns d))
     \<and> distinct (List.map_filter c_ContractAddress (campaigns d))
     \<and> (\<forall>c\<in>set (campaigns d). campaign_row_ok d c)"

definition donations_ok :: "db \<Rightarrow> bool" where
  "donations_ok d \<longleftrightarrow>
     distinct (map dr_id (donations d)) \<and> distinct (map dr_event_id (donations d))
     \<and> (\<forall>r\<in>set (donations d). dr_campaign_id r \<in> c_ID ` set (campaigns d)
          \<and> dr_event_id r \<in> ev_ID ` set (blockchain_events d) \<and> 0 < dr_amount r
          \<and> (\<forall>s. dr_supporter_id r = Some s \<longrightarrow> s \<in> sr_id ` set (supporters d)))"

definition db_ok :: "db \<Rightarrow> bool" where
  "db_ok d \<longleftrightarrow> users_ok d \<and> profiles_ok d \<and> events_ok d \<and> campaigns_ok d \<and> donations_ok d"

lemmas db_ok_defs = db_ok_def users_ok_def profiles_ok_def events_ok_def campaigns_ok_def
  campaign_row_ok_def donations_ok_def

lemma db_ok_empty: "db_ok empty_db"
  by (simp add: db_ok_defs empty_db_def List.map_filter_def)

section \<open>Every statement keeps the invariant\<close>

lemma db_ok_set_users:
  assumes "db_ok d" and "users_ok (d\<lparr>users := us\<rparr>)" and "u_ID ` set (users d) \<subseteq> u_ID ` set us"
  shows "db_ok (d\<lparr>users := us\<rparr>)"
  using assms unfolding db_ok_def profiles_ok_def events_ok_def campaigns_ok_def campaign_row_ok_def
    donations_ok_def by simp blast

lemma db_ok_set_supporters:
  assumes "db_ok d" and "distinct (map sr_id ss)"
    and "sr_id ` set (supporters d) \<subseteq> sr_id ` set ss" and "sr_id ` set ss \<subseteq> u_ID ` set (users d)"
  shows "db_ok (d\<lparr>supporters := ss\<rparr>)"
proof -
  have "donations_ok (d\<lparr>supporters := ss\<rparr>)"
    using assms(1,3) by (fastforce simp: db_ok_def donations_ok_def)
  with assms show ?thesis
    by (simp add: db_ok_def users_ok_def profiles_ok_def events_ok_def campaigns_ok_def campaign_row_ok_def)
qed

lemma db_ok_set_fundraisers:
  assumes "db_ok d" and "distinct (map fw_id fs)"
    and "fw_id ` set (fundraisers d) \<subseteq> fw_id ` set fs" and "fw_id ` set fs \<subseteq> u_ID ` set (users d)"
  shows "db_ok (d\<lparr>fundraisers := fs\<rparr>)"
proof -
  have "campaigns_ok (d\<lparr>fundraisers := fs\<rparr>)"
    using assms(1,3) by (auto simp: db_ok_def campaigns_ok_def campaign_row_ok_def)
  with assms show ?thesis
    by (simp add: db_ok_def users_ok_def profiles_ok_def events_ok_def donations_ok_def)
qed

lemma db_ok_set_events:
  assumes "db_ok d" and "events_ok (d\<lparr>blockchain_events := es\<rparr>)"
    and sub: "ev_ID ` set (blockchain_events d) \<subseteq> ev_ID ` set es"
  shows "db_ok (d\<lparr>blockchain_events := es\<rparr>)"
proof -
  have "campaigns_ok (d\<lparr>blockchain_events := es\<rparr>)"
    using assms(1) sub by (fastforce simp: db_ok_def campaigns_ok_def campaign_row_ok_def)
  moreover have "donations_ok (d\<lparr>blockchain_events := es\<rparr>)"
    using assms(1) sub by (fastforce simp: db_ok_def donations_ok_def)
  ultimately show ?thesis
    using assms by (simp add: db_ok_def users_ok_def profiles_ok_def)
qed

lemma db_ok_set_campaigns:
  assumes "db_ok d" and "campaigns_ok (d\<lparr>campaigns := cs\<rparr>)" and sub: "c_ID ` set (campaigns d) \<subseteq> c_ID ` set cs"
  shows "db_ok (d\<lparr>campaigns := cs\<rparr>)"
proof -
  have "donations_ok (d\<lparr>campaigns := cs\<rparr>)"
    using assms(1) sub by (fastforce simp: db_ok_def donations_ok_def)
  with assms show ?thesis
    by (simp add: db_ok_def users_ok_def profiles_ok_def events_ok_def)
qed

lemma image_update_where:
  assumes "\<And>x. x \<in> set xs \<Longrightarrow> p x \<Longrightarrow> k (f x) = k x"
  shows "k ` set (update_where p f xs) = k ` set xs"
  using map_update_where [of xs p k f] assms by (metis set_map)

lemma profiles_okD:
  assumes "db_ok d"
  shows "distinct (map sr_id (supporters d))" and "distinct (map fw_id (fundraisers d))"
    and "r \<in> set (supporters d) \<Longrightarrow> sr_id r \<in> u_ID ` set (users d)"
    and "f \<in> set (fundraisers d) \<Longrightarrow> fw_id f \<in> u_ID ` set (users d)"
  using assms by (auto simp: db_ok_def profiles_ok_def)

lemma insert_user_ok:
  assumes "db_ok d" and "insert_user E i role email wallet d = Inr (row, d')"
  shows "db_ok d'"
proof -
  from assms(2) have d': "d' = d\<lparr>users := users d @ [row]\<rparr>" and row: "u_ID row = i"
    and new: "u_ID row \<notin> u_ID ` set (users d)" "\<forall>u\<in>set (users d). live u \<longrightarrow> u_Email u \<noteq> u_Email row"
      "\<forall>u\<in>set (users d). live u \<longrightarrow> u_WalletAddress u \<noteq> u_WalletAddress row"
      "u_Role row \<in> {''fundraiser'', ''supporter''}"
    by (auto simp: insert_user_def Let_def split: option.splits if_splits)
  show ?thesis
    unfolding d' using assms(1) new
    by (intro db_ok_set_users) (auto simp: db_ok_def users_ok_def)
qed

lemma update_user_email_ok:
  assumes ok: "db_ok d" and upd: "update_user_email email i d = Inr d'"
  shows "db_ok d'"
proof -
  from upd obtain v where
    v: "\<not> ((\<exists>u\<in>set (users d). u_ID u = i \<and> live u) \<and> (\<exists>w\<in>set (users d). u_ID w \<noteq> i \<and> live w \<and> u_Email w = v))"
    and d': "d' = d\<lparr>users := update_where (\<lambda>u. u_ID u = i) (\<lambda>u. u\<lparr>u_Email := v\<rparr>) (users d)\<rparr>"
    by (auto simp: update_user_email_def split: option.splits if_splits)
  let ?f = "\<lambda>u :: user_row. u\<lparr>u_Email := v\<rparr>"
  let ?us = "update_where (\<lambda>u. u_ID u = i) ?f (users d)"
  have filt: "filter live ?us = update_where (\<lambda>u. u_ID u = i) ?f (filter live (users d))"
    by (simp add: filter_update_where)
  have "distinct (map u_Email (filter live ?us))"
  proof (cases "\<exists>u\<in>set (users d). u_ID u = i \<and> live u")
    case True
    with v have "\<forall>w\<in>set (filter live (users d)). u_ID w \<noteq> i \<longrightarrow> u_Email w \<noteq> v" by auto
    with ok show ?thesis
      unfolding filt
      by (intro distinct_column_update [where v = v])
        (auto simp: db_ok_def users_ok_def distinct_map_filter_list)
  next
    case False
    then have "filter live ?us = filter live (users d)"
      unfolding filt by (intro update_where_none) auto
    with ok show ?thesis by (simp add: db_ok_def users_ok_def)
  qed
  then have "users_ok (d\<lparr>users := ?us\<rparr>)"
    using ok by (simp add: db_ok_def users_ok_def filt map_update_where image_update_where)
  then show ?thesis
    unfolding d' using ok by (intro db_ok_set_users) (simp_all add: image_update_where)
qed

lemma filter_live_soft_delete:
  "filter live (update_where p (\<lambda>u. u\<lparr>u_DeletedAt := Some t\<rparr>) us) = filter (\<lambda>u. \<not> p u) (filter live us)"
  by (induction us) auto

lemma soft_delete_user_ok:
  assumes "db_ok d"
  shows "db_ok (soft_delete_user E i d)"
proof -
  let ?us = "update_where (\<lambda>u. u_ID u = i) (\<lambda>u. u\<lparr>u_DeletedAt := Some (sql_Now E)\<rparr>) (users d)"
  have "users_ok (d\<lparr>users := ?us\<rparr>)"
    using assms
    by (simp add: db_ok_def users_ok_def filter_live_soft_delete map_update_where image_update_where
        distinct_map_filter_list del: filter_filter)
  then show ?thesis
    unfolding soft_delete_user_def using assms
    by (intro db_ok_set_users) (simp_all add: image_update_where)
qed

lemma insert_supporter_ok: "db_ok d \<Longrightarrow> insert_supporter r d = Inr d' \<Longrightarrow> db_ok d'"
  by (auto simp: insert_supporter_def profiles_okD intro!: db_ok_set_supporters
      split: option.splits if_splits)

lemma insert_fundraiser_ok: "db_ok d \<Longrightarrow> insert_fundraiser r d = Inr d' \<Longrightarrow> db_ok d'"
  by (auto simp: insert_fundraiser_def profiles_okD intro!: db_ok_set_fundraisers
      split: option.splits if_splits)

lemma db_ok_update_supporters:
  assumes "db_ok d" and "\<And>r. sr_id (f r) = sr_id r"
  shows "db_ok (d\<lparr>supporters := update_where p f (supporters d)\<rparr>)"
  using profiles_okD(1) [OF assms(1)] profiles_okD(3) [OF assms(1)] assms
  by (intro db_ok_set_supporters) (simp_all add: map_update_where image_update_where image_subset_iff)

lemma db_ok_update_fundraisers:
  assumes "db_ok d" and "\<And>r. fw_id (f r) = fw_id r"
  shows "db_ok (d\<lparr>fundraisers := update_where p f (fundraisers d)\<rparr>)"
  using profiles_okD(2) [OF assms(1)] profiles_okD(4) [OF assms(1)] assms
  by (intro db_ok_set_fundraisers) (simp_all add: map_update_where image_update_where image_subset_iff)

lemma update_supporter_ok:
  "db_ok d \<Longrightarrow> update_supporter_name name i d = Inr d' \<Longrightarrow> db_ok d'"
  "db_ok d \<Longrightarrow> db_ok (update_supporter_image k i d)"
  by (auto simp: update_supporter_name_def update_supporter_image_def db_ok_update_supporters
      split: option.splits)

lemma update_fundraiser_ok:
  "db_ok d \<Longrightarrow> update_fundraiser name contact phone url country zipCode i d = Inr d' \<Longrightarrow> db_ok d'"
  "db_ok d \<Longrightarrow> db_ok (update_fundraiser_image k i d)"
  by (auto simp: update_fundraiser_def update_fundraiser_image_def db_ok_update_fundraisers
      split: option.splits)

lemma insert_event_ok:
  assumes "db_ok d" and "insert_event E e d = Inr d'"
  shows "db_ok d'"
proof -
  from assms(2) obtain e' where d': "d' = d\<lparr>blockchain_events := blockchain_events d @ [e']\<rparr>"
    and new: "ev_ID e' \<notin> ev_ID ` set (blockchain_events d)"
      "(ev_TxHash e', ev_LogIndex e') \<notin> (\<lambda>v. (ev_TxHash v, ev_LogIndex v)) ` set (blockchain_events d)"
    by (auto simp: insert_event_def split: option.splits if_splits)
  show ?thesis
    unfolding d' using assms(1) new
    by (intro db_ok_set_events) (auto simp: db_ok_def events_ok_def)
qed

lemma campaign_row_ok_set [simp]: "campaign_row_ok (d\<lparr>campaigns := cs\<rparr>) c = campaign_row_ok d c"
  by (simp add: campaign_row_ok_def)

lemma activate_campaign_ok:
  assumes ok: "db_ok d" and act: "activate_campaign i e address d = Inr d'"
  shows "db_ok d'"
proof (cases "i \<in> c_ID ` set (campaigns d)")
  case False
  with act ok show ?thesis by (simp add: activate_campaign_def split: option.splits)
next
  case True
  with act obtain a where
    new: "\<forall>c\<in>set (campaigns d). c_ID c \<noteq> i \<longrightarrow> c_EventID c \<noteq> Some e"
      "\<forall>c\<in>set (campaigns d). c_ID c \<noteq> i \<longrightarrow> c_ContractAddress c \<noteq> Some a"
      "e \<in> ev_ID ` set (blockchain_events d)"
    and d': "d' = d\<lparr>campaigns := update_where (\<lambda>c. c_ID c = i)
      (\<lambda>c. c\<lparr>c_Status := CampaignStatusActive, c_EventID := Some e, c_ContractAddress := Some a\<rparr>)
      (campaigns d)\<rparr>" (is "_ = d\<lparr>campaigns := update_where ?p ?f _\<rparr>")
    by (auto simp: activate_campaign_def split: option.splits if_splits)
  let ?cs = "update_where ?p ?f (campaigns d)"
  from ok have cs: "distinct (map c_ID (campaigns d))" "\<And>c. c \<in> set (campaigns d) \<Longrightarrow> campaign_row_ok d c"
    "distinct (List.map_filter c_EventID (campaigns d))"
    "distinct (List.map_filter c_ContractAddress (campaigns d))"
    "distinct (map (\<lambda>c. (c_FundraiserID c, c_IdempotencyKey c)) (campaigns d))"
    by (auto simp: db_ok_def campaigns_ok_def)
  have "distinct (List.map_filter c_EventID ?cs)"
    using cs(1,3) new(1) by (intro distinct_option_column_update [where v = e]) auto
  moreover have "distinct (List.map_filter c_ContractAddress ?cs)"
    using cs(1,4) new(2) by (intro distinct_option_column_update [where v = a]) auto
  moreover have "campaign_row_ok d c" if c: "c \<in> set ?cs" for c
  proof -
    from c obtain c0 where c0: "c0 \<in> set (campaigns d)" "c = (if ?p c0 then ?f c0 else c0)"
      by (auto simp: set_update_where)
    have "campaign_row_ok d (?f c0)"
      using cs(2) [OF c0(1)] new(3) by (simp add: campaign_row_ok_def)
    with cs(2) [OF c0(1)] c0(2) show ?thesis by simp
  qed
  ultimately have "campaigns_ok (d\<lparr>campaigns := ?cs\<rparr>)"
    using cs(1,5) by (simp add: campaigns_ok_def map_update_where)
  then show ?thesis
    unfolding d' using ok by (intro db_ok_set_campaigns) (simp_all add: image_update_where)
qed

lemma insert_campaign_ok:
  assumes ok: "db_ok d" and ins: "insert_campaign E c d = Inr (row, d')"
  shows "db_ok d'"
proof (cases row)
  case None
  with ins ok show ?thesis
    by (auto simp: insert_campaign_def Let_def split: option.splits if_splits)
next
  case (Some r)
  with ins have d': "d' = d\<lparr>campaigns := campaigns d @ [r]\<rparr>"
    and new: "c_ID r \<notin> c_ID ` set (campaigns d)"
      "(c_FundraiserID r, c_IdempotencyKey r) \<notin> (\<lambda>c. (c_FundraiserID c, c_IdempotencyKey c)) ` set (campaigns d)"
      "c_EventID r = None" "c_ContractAddress r = None" "campaign_row_ok d r"
    by (auto simp: insert_campaign_def Let_def campaign_row_ok_def split: option.splits if_splits)
  show ?thesis
    unfolding d' using ok new
    by (intro db_ok_set_campaigns) (auto simp: db_ok_def campaigns_ok_def)
qed

lemmas statement_ok = insert_user_ok update_user_email_ok soft_delete_user_ok insert_supporter_ok
  insert_fundraiser_ok update_supporter_ok update_fundraiser_ok insert_event_ok activate_campaign_ok
  insert_campaign_ok

section \<open>A concrete database\<close>

text \<open>Two users, a fundraiser with one active and one pending campaign and a supporter with one
  donation: the database of the witnesses.\<close>

definition demo_campaign :: Campaign where
  "demo_campaign =
     \<lparr>c_ID = 21, c_FundraiserID = 1, c_EventID = Some 11, c_Title = ''Shelter roof'',
      c_ShortDescription = ''A new roof'', c_Story = ''The old roof leaks.'', c_GoalAmount = 1000,
      c_RaisedAmount = 40, c_DonorCount = 1, c_ContractAddress = Some ''0xC1'',
      c_CreatedAt = 1690000000000000000, c_EndAt = 1800000000000000000,
      c_ImageObjectKey = ''campaigns/a.png'', c_Country = ''Indonesia'', c_ZipCode = ''40111'',
      c_Status = CampaignStatusActive, c_IdempotencyKey = ''key-1''\<rparr>"

definition demo_pending :: Campaign where
  "demo_pending = demo_campaign\<lparr>c_ID := 22, c_EventID := None, c_RaisedAmount := 0, c_DonorCount := 0,
     c_ContractAddress := None, c_Status := CampaignStatusPending, c_IdempotencyKey := ''key-2''\<rparr>"

definition demo_db :: db where
  "demo_db =
     \<lparr>users =
        [\<lparr>u_ID = 1, u_Role = ''fundraiser'', u_Email = ''paws@example.org'', u_WalletAddress = ''0xAb'',
          u_CreatedAt = 0, u_DeletedAt = None\<rparr>,
         \<lparr>u_ID = 2, u_Role = ''supporter'', u_Email = ''ann@example.org'', u_WalletAddress = ''0xCd'',
          u_CreatedAt = 0, u_DeletedAt = None\<rparr>],
      supporters = [\<lparr>sr_id = 2, sr_name = ''Ann'', sr_image_object_key = Some ''profiles/b.png''\<rparr>],
      fundraisers =
        [\<lparr>fw_id = 1, fw_name = ''Paws'', fw_image_object_key = Some ''profiles/a.png'',
          fw_contact_name = ''Budi'', fw_contact_phone = ''+62811'', fw_social_url = None,
          fw_country = ''Indonesia'', fw_zip_code = ''40111''\<rparr>],
      blockchain_events =
        [\<lparr>ev_ID = 11, ev_TxHash = ''0x01'', ev_LogIndex = 0, ev_Type = ''campaign_created'',
          ev_BlockNumber = 1, ev_CreatedAt = 1690000000000000000\<rparr>,
         \<lparr>ev_ID = 12, ev_TxHash = ''0x02'', ev_LogIndex = 0, ev_Type = ''donation_created'',
          ev_BlockNumber = 2, ev_CreatedAt = 1690000100000000000\<rparr>],
      campaigns = [demo_campaign, demo_pending],
      donations =
        [\<lparr>dr_id = 31, dr_campaign_id = 21, dr_supporter_id = Some 2, dr_donor_address = ''0xcd'',
          dr_event_id = 12, dr_amount = 40\<rparr>]\<rparr>"

lemma demo_db_ok: "db_ok demo_db"
  by (simp add: db_ok_defs demo_db_def demo_campaign_def demo_pending_def)

end
