(* ===== verification/Campaign_Queries.thy ===== *)
theory Campaign_Queries
  imports Database "HOL-Library.Multiset"
begin

text \<open>
  The reading half of the campaign repository (\<open>internal/infra/database/campaign_postgres.go\<close>): public and private
  campaign lists with search, status filter, sort and page, the lookups by contract address and
  by owner, and the donor list with its grouping by address. A SELECT is a list expression over
  the tables in the query's own order of joins, conditions and grouping; an external call carries
  the name of its method or SQL constant as the label under which it may fail. The lemmas show
  which campaigns each query can return, that the pages of a list partition it, and that the
  donor list accounts for every donation.
\<close>

section \<open>Common pieces of the repositories\<close>

text \<open>\<open>LIMIT\<close> and \<open>OFFSET\<close>: the server refuses negative values. The offset is the Go
  \<open>int\<close> product of the page number and the page size.\<close>

definition pageOffset :: "int \<Rightarrow> int \<Rightarrow> int" where
  "pageOffset page pageSize = wrap64 (wrap64 (page - 1) * pageSize)"

definition limitOffset :: "int \<Rightarrow> int \<Rightarrow> 'r list \<Rightarrow> 'r list result" where
  "limitOffset limit off rows =
     (if limit < 0 \<or> off < 0 then Inl dataError else Inr (limit_offset limit off rows))"

text \<open>The loop over \<open>rows.Next\<close>: the query itself, the scan of a row and the end of the
  iteration can each fail.\<close>

definition collectRows ::
  "env \<Rightarrow> string \<Rightarrow> string \<Rightarrow> string \<Rightarrow> string \<Rightarrow> ('r \<Rightarrow> 'a result) \<Rightarrow> 'r list result \<Rightarrow> 'a list result" where
  "collectRows E label listMessage scanMessage iterateMessage scan rows =
     (case exec E label rows of
        Inl e \<Rightarrow> Inl (Wrap listMessage e)
      | Inr rs \<Rightarrow>
          (if rs \<noteq> [] \<and> fault E (label @ '': scan'') \<noteq> None
           then Inl (Wrap scanMessage (the (fault E (label @ '': scan''))))
           else
             (case find (\<lambda>r. \<not> is_ok (scan r)) rs of
                Some r \<Rightarrow> Inl (case scan r of Inl e \<Rightarrow> e | Inr _ \<Rightarrow> dataError)
              | None \<Rightarrow>
                  (case fault E (label @ '': iterate'') of
                     Some e \<Rightarrow> Inl (Wrap iterateMessage e)
                   | None \<Rightarrow> Inr (map (\<lambda>r. projr (scan r)) rs)))))"

section \<open>Scanning rows\<close>

definition scanCampaign :: "Campaign \<Rightarrow> Campaign" where
  "scanCampaign row =
     \<lparr>c_ID = c_ID row, c_FundraiserID = c_FundraiserID row,
      c_EventID = (case c_EventID row of Some e \<Rightarrow> Some e | None \<Rightarrow> None),
      c_Title = c_Title row, c_ShortDescription = c_ShortDescription row, c_Story = c_Story row,
      c_GoalAmount = c_GoalAmount row, c_RaisedAmount = c_RaisedAmount row,
      c_DonorCount = c_DonorCount row,
      c_ContractAddress = (case c_ContractAddress row of Some a \<Rightarrow> Some a | None \<Rightarrow> None),
      c_CreatedAt = c_CreatedAt row, c_EndAt = c_EndAt row, c_ImageObjectKey = c_ImageObjectKey row,
      c_Country = c_Country row, c_ZipCode = c_ZipCode row, c_Status = c_Status row,
      c_IdempotencyKey = c_IdempotencyKey row\<rparr>"

definition scanPublicCampaignListItem :: "Campaign \<Rightarrow> string option \<Rightarrow> PublicCampaignListItem" where
  "scanPublicCampaignListItem row fundraiserImageKey =
     Campaign.extend (scanCampaign row) (PublicCampaignListItem.fields fundraiserImageKey)"

definition scanPublicCampaignDetail ::
  "Campaign \<Rightarrow> string \<Rightarrow> string \<Rightarrow> string option \<Rightarrow> PublicCampaignDetail" where
  "scanPublicCampaignDetail row fundraiserName fundraiserWallet fundraiserImageKey =
     Campaign.extend (scanCampaign row)
       (PublicCampaignDetail.fields fundraiserName fundraiserWallet fundraiserImageKey)"

section \<open>Lists of campaigns\<close>

definition campaignListStatusArgument :: "CampaignStatus option \<Rightarrow> string option" where
  "campaignListStatusArgument status =
     (case status of None \<Rightarrow> None | Some s \<Rightarrow> Some (statusText s))"

text \<open>\<open>FROM campaigns c JOIN fundraisers f ON f.id = c.fundraiser_id JOIN users u ON u.id = f.id\<close>\<close>

definition campaignJoin :: "db \<Rightarrow> (Campaign \<times> fundraiser_row \<times> user_row) list" where
  "campaignJoin d =
     [(c, f, u). c \<leftarrow> campaigns d, f \<leftarrow> fundraisers d, fw_id f = c_FundraiserID c,
                 u \<leftarrow> users d, u_ID u = fw_id f]"

definition publicStatus :: "CampaignStatus \<Rightarrow> bool" where
  "publicStatus s \<longleftrightarrow> s = CampaignStatusActive \<or> s = CampaignStatusCompleted \<or> s = CampaignStatusCancelled"

definition searchMatches :: "env \<Rightarrow> string \<Rightarrow> Campaign \<Rightarrow> bool" where
  "searchMatches E search c \<longleftrightarrow>
     search = [] \<or> sql_ILike E (c_Title c) (''%'' @ search @ ''%'')
     \<or> sql_ILike E (c_ShortDescription c) (''%'' @ search @ ''%'')"

definition statusMatches :: "string option \<Rightarrow> Campaign \<Rightarrow> bool" where
  "statusMatches argument c \<longleftrightarrow> (case argument of None \<Rightarrow> True | Some s \<Rightarrow> statusText (c_Status c) = s)"

definition publicCampaignListFromWhere ::
  "env \<Rightarrow> string \<Rightarrow> string option \<Rightarrow> db \<Rightarrow> (Campaign \<times> fundraiser_row \<times> user_row) list" where
  "publicCampaignListFromWhere E search statusArgument d =
     [(c, f, u) \<leftarrow> campaignJoin d.
        u_Role u = ''fundraiser'' \<and> live u \<and> publicStatus (c_Status c) \<and> c_ContractAddress c \<noteq> None
        \<and> searchMatches E search c \<and> statusMatches statusArgument c]"

definition fundraiserCampaignListFromWhere ::
  "env \<Rightarrow> string \<Rightarrow> string \<Rightarrow> string option \<Rightarrow> db \<Rightarrow> (Campaign \<times> fundraiser_row \<times> user_row) list" where
  "fundraiserCampaignListFromWhere E wallet search statusArgument d =
     [(c, f, u) \<leftarrow> campaignJoin d.
        u_Role u = ''fundraiser'' \<and> live u \<and> sql_Lower E (u_WalletAddress u) = sql_Lower E wallet
        \<and> searchMatches E search c \<and> statusMatches statusArgument c]"

text \<open>\<open>ORDER BY\<close>: a descending column is compared by its negation; identifiers are compared as
  unsigned 128-bit numbers.\<close>

definition campaignListOrderBy :: "env \<Rightarrow> CampaignListSort \<Rightarrow> (Campaign \<times> 'b) list \<Rightarrow> (Campaign \<times> 'b) list" where
  "campaignListOrderBy E s =
     (case s of
        CampaignListSortRandom \<Rightarrow> sort_key (\<lambda>(c, _). sql_Random E (c_ID c))
      | CampaignListSortOldest \<Rightarrow> sort_key (\<lambda>(c, _). (c_CreatedAt c, uint (c_ID c)))
      | CampaignListSortCloseToGoal \<Rightarrow>
          sort_key (\<lambda>(c, _). (- sql_NumericDiv E (c_RaisedAmount c) (c_GoalAmount c),
                              - c_CreatedAt c, - uint (c_ID c)))
      | CampaignListSortMostDonated \<Rightarrow>
          sort_key (\<lambda>(c, _). (- c_RaisedAmount c, - c_CreatedAt c, - uint (c_ID c)))
      | _ \<Rightarrow> sort_key (\<lambda>(c, _). (- c_CreatedAt c, - uint (c_ID c))))"

definition ListPublic :: "env \<Rightarrow> CampaignListOptions \<Rightarrow> db \<Rightarrow> (PublicCampaignListItem list \<times> int) result" where
  "ListPublic E options d =
     (let matching = publicCampaignListFromWhere E (lo_Search options)
            (campaignListStatusArgument (lo_Status options)) d
      in case queryRow E ''ListPublic: count'' [int (length matching)] of
        Inl e \<Rightarrow> Inl (Wrap ''repository: count public campaigns'' e)
      | Inr totalRows \<Rightarrow>
          (case collectRows E ''ListPublic'' ''repository: list public campaigns''
             ''repository: scan public campaign list'' ''repository: iterate public campaign list''
             (\<lambda>(c, f, u). Inr (scanPublicCampaignListItem c (fw_image_object_key f)))
             (limitOffset (lo_PageSize options) (pageOffset (lo_Page options) (lo_PageSize options))
               (campaignListOrderBy E (lo_Sort options) matching)) of
             Inl e \<Rightarrow> Inl e
           | Inr items \<Rightarrow> Inr (items, totalRows)))"

definition ListForFundraiser ::
  "env \<Rightarrow> string \<Rightarrow> CampaignListOptions \<Rightarrow> db \<Rightarrow> (Campaign list \<times> int) result" where
  "ListForFundraiser E walletAddress options d =
     (let matching = fundraiserCampaignListFromWhere E (TrimSpace walletAddress) (lo_Search options)
            (campaignListStatusArgument (lo_Status options)) d
      in case queryRow E ''ListForFundraiser: count'' [int (length matching)] of
        Inl e \<Rightarrow> Inl (Wrap ''repository: count campaigns for fundraiser'' e)
      | Inr totalRows \<Rightarrow>
          (case collectRows E ''ListForFundraiser'' ''repository: list campaigns for fundraiser''
             ''repository: scan campaign list for fundraiser''
             ''repository: iterate campaign list for fundraiser''
             (\<lambda>(c, f, u). Inr (scanCampaign c))
             (limitOffset (lo_PageSize options) (pageOffset (lo_Page options) (lo_PageSize options))
               (campaignListOrderBy E (lo_Sort options) matching)) of
             Inl e \<Rightarrow> Inl e
           | Inr items \<Rightarrow> Inr (items, totalRows)))"

section \<open>Lookups\<close>

definition publicByContractAddress ::
  "env \<Rightarrow> string \<Rightarrow> db \<Rightarrow> (Campaign \<times> fundraiser_row \<times> user_row) list" where
  "publicByContractAddress E contractAddress d =
     [(c, f, u) \<leftarrow> campaignJoin d.
        map_option (sql_Lower E) (c_ContractAddress c) = Some (sql_Lower E contractAddress)
        \<and> u_Role u = ''fundraiser'' \<and> live u \<and> publicStatus (c_Status c) \<and> c_ContractAddress c \<noteq> None]"

definition FindPublicByContractAddress :: "env \<Rightarrow> string \<Rightarrow> db \<Rightarrow> PublicCampaignDetail result" where
  "FindPublicByContractAddress E contractAddress d =
     (case queryRow E ''FindPublicByContractAddress''
        (publicByContractAddress E (TrimSpace contractAddress) d) of
        Inl e \<Rightarrow>
          (if errors_Is e sql_ErrNoRows then Inl (Sentinel repository_ErrCampaignNotFound)
           else Inl (Wrap ''repository: find public campaign by contract address'' e))
      | Inr (c, f, u) \<Rightarrow>
          Inr (scanPublicCampaignDetail c (fw_name f) (u_WalletAddress u) (fw_image_object_key f)))"

definition FindByIDForFundraiser :: "env \<Rightarrow> string \<Rightarrow> uuid \<Rightarrow> db \<Rightarrow> Campaign result" where
  "FindByIDForFundraiser E walletAddress campaignID d =
     (case queryRow E ''FindByIDForFundraiser''
        [c. (c, f, u) \<leftarrow> campaignJoin d,
            c_ID c = campaignID \<and> u_Role u = ''fundraiser'' \<and> live u
            \<and> sql_Lower E (u_WalletAddress u) = sql_Lower E (TrimSpace walletAddress)] of
        Inl e \<Rightarrow>
          (if errors_Is e sql_ErrNoRows then Inl (Sentinel repository_ErrCampaignNotFound)
           else Inl (Wrap ''repository: find campaign by ID for fundraiser'' e))
      | Inr c \<Rightarrow> Inr (scanCampaign c))"

definition FindByIDForDeployment :: "env \<Rightarrow> uuid \<Rightarrow> db \<Rightarrow> Campaign result" where
  "FindByIDForDeployment E campaignID d =
     (case queryRow E ''FindByIDForDeployment'' [c \<leftarrow> campaigns d. c_ID c = campaignID] of
        Inl e \<Rightarrow>
          (if errors_Is e sql_ErrNoRows then Inl (Sentinel repository_ErrCampaignNotFound)
           else Inl (Wrap ''repository: find campaign for deployment'' e))
      | Inr c \<Rightarrow> Inr (scanCampaign c))"

section \<open>The donors of a campaign\<close>

record donor_total =
  dt_normalized_address :: string
  dt_donor_address :: string
  dt_amount :: int
  dt_donated_at :: time

text \<open>The newest donation first: \<open>be.created_at DESC, be.block_number DESC, be.log_index DESC,
  d.id DESC\<close>.\<close>

definition newestDonationKey :: "donation_row \<times> BlockchainEvent \<Rightarrow> int \<times> int \<times> int \<times> int" where
  "newestDonationKey = (\<lambda>(r, e). (- ev_CreatedAt e, - ev_BlockNumber e, - ev_LogIndex e, - uint (dr_id r)))"

definition donationJoin :: "db \<Rightarrow> (donation_row \<times> BlockchainEvent) list" where
  "donationJoin d = [(r, e). r \<leftarrow> donations d, e \<leftarrow> blockchain_events d, ev_ID e = dr_event_id r]"

definition donorGroups :: "env \<Rightarrow> uuid \<Rightarrow> db \<Rightarrow> string list" where
  "donorGroups E campaignID d =
     remdups [sql_Lower E (dr_donor_address r). r \<leftarrow> donations d, dr_campaign_id r = campaignID]"

definition donorTotal :: "string \<Rightarrow> (donation_row \<times> BlockchainEvent) list \<Rightarrow> donor_total" where
  "donorTotal address rows =
     \<lparr>dt_normalized_address = address,
      dt_donor_address = dr_donor_address (fst (hd (sort_key newestDonationKey rows))),
      dt_amount = sum_list (map (dr_amount \<circ> fst) rows),
      dt_donated_at = Max (set (map (ev_CreatedAt \<circ> snd) rows))\<rparr>"

definition donor_totals :: "env \<Rightarrow> uuid \<Rightarrow> db \<Rightarrow> donor_total list" where
  "donor_totals E campaignID d =
     (let joined = [(r, e) \<leftarrow> donationJoin d. dr_campaign_id r = campaignID]
      in [donorTotal a [(r, e) \<leftarrow> joined. sql_Lower E (dr_donor_address r) = a].
            a \<leftarrow> remdups [sql_Lower E (dr_donor_address r). (r, e) \<leftarrow> joined]])"

text \<open>\<open>LEFT JOIN\<close>: a row without a partner is kept, with \<open>None\<close>.\<close>

definition leftJoin :: "('a \<Rightarrow> 'b \<Rightarrow> bool) \<Rightarrow> 'b list \<Rightarrow> 'a \<Rightarrow> ('a \<times> 'b option) list" where
  "leftJoin p bs a =
     (case filter (p a) bs of [] \<Rightarrow> [(a, None)] | b # bs' \<Rightarrow> map (\<lambda>b. (a, Some b)) (b # bs'))"

definition donorRows :: "env \<Rightarrow> uuid \<Rightarrow> db \<Rightarrow> (donor_total \<times> PublicCampaignDonor) list" where
  "donorRows E campaignID d =
     [(dt, \<lparr>pd_Name = map_option sr_name s,
            pd_WalletAddress = (case u of Some v \<Rightarrow> u_WalletAddress v | None \<Rightarrow> dt_donor_address dt),
            pd_ImageObjectKey = Option.bind s sr_image_object_key,
            pd_Amount = dt_amount dt, pd_DonatedAt = dt_donated_at dt\<rparr>).
        dt0 \<leftarrow> donor_totals E campaignID d,
        (dt, u) \<leftarrow> leftJoin (\<lambda>t v. sql_Lower E (u_WalletAddress v) = dt_normalized_address t
                                  \<and> u_Role v = ''supporter'' \<and> live v) (users d) dt0,
        (_, s) \<leftarrow> leftJoin (\<lambda>v r. Some (sr_id r) = map_option u_ID v) (supporters d) u]"

definition campaignDonorListOrderBy ::
  "env \<Rightarrow> CampaignDonorListSort \<Rightarrow> (donor_total \<times> 'b) list \<Rightarrow> (donor_total \<times> 'b) list" where
  "campaignDonorListOrderBy E s =
     (case s of
        CampaignDonorListSortTop \<Rightarrow>
          sort_key (\<lambda>(dt, _). (- dt_amount dt, - dt_donated_at dt,
                               sql_CollationKey E (dt_normalized_address dt)))
      | _ \<Rightarrow>
          sort_key (\<lambda>(dt, _). (- dt_donated_at dt, - dt_amount dt,
                               sql_CollationKey E (dt_normalized_address dt))))"

definition ListPublicDonorsByContractAddress ::
  "env \<Rightarrow> string \<Rightarrow> CampaignDonorListOptions \<Rightarrow> db \<Rightarrow> (PublicCampaignDonor list \<times> int) result" where
  "ListPublicDonorsByContractAddress E contractAddress options d =
     (case queryRow E ''findCampaign'' (publicByContractAddress E (TrimSpace contractAddress) d) of
        Inl e \<Rightarrow>
          (if errors_Is e sql_ErrNoRows then Inl (Sentinel repository_ErrCampaignNotFound)
           else Inl (Wrap ''repository: find public campaign for donor list'' e))
      | Inr (c, _, _) \<Rightarrow>
          (case queryRow E ''countDonors'' [int (length (donorGroups E (c_ID c) d))] of
             Inl e \<Rightarrow> Inl (Wrap ''repository: count public campaign donors'' e)
           | Inr totalRows \<Rightarrow>
               (case collectRows E ''ListPublicDonors'' ''repository: list public campaign donors''
                  ''repository: scan public campaign donor'' ''repository: iterate public campaign donors''
                  (\<lambda>(_, donor). Inr donor)
                  (if \<exists>dt\<in>set (donor_totals E (c_ID c) d). \<not> in_int64 (dt_amount dt) then Inl dataError
                   else limitOffset (do_PageSize options) (pageOffset (do_Page options) (do_PageSize options))
                     (campaignDonorListOrderBy E (do_Sort options) (donorRows E (c_ID c) d))) of
                  Inl e \<Rightarrow> Inl e
                | Inr donors \<Rightarrow> Inr (donors, totalRows))))"

section \<open>Facts about the pieces\<close>

lemma scanCampaign_id [simp]: "scanCampaign c = c"
  by (simp add: scanCampaign_def split: option.splits)

lemma campaignListOrderBy_set [simp]:
  "set (campaignListOrderBy E s rows) = set rows"
  "length (campaignListOrderBy E s rows) = length rows"
  by (simp_all add: campaignListOrderBy_def split: CampaignListSort.splits)

lemma pageOffset_exact:
  assumes "1 \<le> page" and "0 \<le> pageSize" and "in_int64 (page * pageSize)" and "in_int64 page"
  shows "pageOffset page pageSize = (page - 1) * pageSize"
proof -
  have "in_int64 (page - 1)" using assms(1,4) by (auto simp: in_int64_def MinInt64_def MaxInt64_def)
  moreover have "in_int64 ((page - 1) * pageSize)"
    using assms(1,2,3) mult_nonneg_nonneg [of "page - 1" pageSize]
    by (auto simp: in_int64_def MinInt64_def MaxInt64_def algebra_simps)
  ultimately show ?thesis by (simp add: pageOffset_def)
qed

lemma collectRows_ok:
  assumes "fault E = (\<lambda>_. None)" and "\<And>r. is_ok (scan r)"
  shows "collectRows E label m1 m2 m3 scan (Inr rows) = Inr (map (\<lambda>r. projr (scan r)) rows)"
proof -
  have "find (\<lambda>r. \<not> is_ok (scan r)) rows = None" using assms(2) by (simp only: find_None_iff_all) simp
  with assms(1) show ?thesis by (simp add: collectRows_def exec_def)
qed

lemma collectRows_Inr:
  assumes "collectRows E label m1 m2 m3 scan outcome = Inr items"
  shows "\<exists>rows. outcome = Inr rows \<and> items = map (\<lambda>r. projr (scan r)) rows \<and> (\<forall>r\<in>set rows. is_ok (scan r))"
  using assms
  by (auto simp: collectRows_def exec_def find_None_iff_all split: option.splits sum.splits if_splits)

lemma collectRows_Inl: "collectRows E label m1 m2 m3 scan (Inl e) = Inr items \<Longrightarrow> False"
  by (auto simp: collectRows_def exec_def split: option.splits)

lemma limitOffset_Inr:
  "limitOffset limit off rows = Inr page \<Longrightarrow> page = limit_offset limit off rows \<and> 0 \<le> limit"
  by (auto simp: limitOffset_def split: if_splits)

lemma campaignJoin_set:
  "(c, f, u) \<in> set (campaignJoin d) \<longleftrightarrow>
     c \<in> set (campaigns d) \<and> f \<in> set (fundraisers d) \<and> u \<in> set (users d)
     \<and> fw_id f = c_FundraiserID c \<and> u_ID u = fw_id f"
  by (auto simp: campaignJoin_def)

text \<open>In a consistent database every campaign has exactly one owner, so the join of campaigns,
  fundraisers and users lists every campaign once.\<close>

lemma concat_map_singletons:
  "(\<And>a. a \<in> set as \<Longrightarrow> \<exists>b. g a = [(a, b)]) \<Longrightarrow> map fst (concat (map g as)) = as"
  by (induction as) (auto, fastforce)

lemma concat_if_filter:
  "concat (map (\<lambda>x. if P x then h x else []) xs) = concat (map h (filter P xs))"
  by (induction xs) auto

lemma comprehension_filter:
  "[c. (c, f, u) \<leftarrow> xs, P c f u] = map fst (filter (\<lambda>(c, f, u). P c f u) xs)"
  by (induction xs) auto

lemma campaignJoin_fst:
  assumes "db_ok d"
  shows "map fst (campaignJoin d) = campaigns d"
  unfolding campaignJoin_def
proof (rule concat_map_singletons)
  fix c assume "c \<in> set (campaigns d)"
  with assms have "c_FundraiserID c \<in> fw_id ` set (fundraisers d)"
    by (auto simp: db_ok_def campaigns_ok_def campaign_row_ok_def)
  then obtain f where f: "f \<in> set (fundraisers d)" "filter (\<lambda>f. fw_id f = c_FundraiserID c) (fundraisers d) = [f]"
    using join_unique [OF profiles_okD(2) [OF assms]] by blast
  have "distinct (map u_ID (users d))" using assms by (simp add: db_ok_def users_ok_def)
  from join_unique [OF this profiles_okD(4) [OF assms f(1)]]
  obtain u where u: "filter (\<lambda>u. u_ID u = fw_id f) (users d) = [u]" by blast
  show "\<exists>b. concat (map (\<lambda>f. if fw_id f = c_FundraiserID c
      then concat (map (\<lambda>u. if u_ID u = fw_id f then [(c, f, u)] else []) (users d)) else [])
      (fundraisers d)) = [(c, b)]"
    unfolding concat_if_filter [where P = "\<lambda>f. fw_id f = c_FundraiserID c"] f(2) list.map concat.simps
      concat_if_filter [where P = "\<lambda>u. u_ID u = fw_id f"] u append_Nil2 by (intro exI, rule refl)
qed

lemma campaignJoin_distinct:
  assumes "db_ok d"
  shows "distinct (map (c_ID \<circ> fst) (filter P (campaignJoin d)))"
proof -
  have "map (c_ID \<circ> fst) (campaignJoin d) = map c_ID (campaigns d)"
    using campaignJoin_fst [OF assms] by (metis map_map)
  moreover have "distinct (map c_ID (campaigns d))" using assms by (simp add: db_ok_def campaigns_ok_def)
  ultimately show ?thesis by (simp add: distinct_map_filter_list)
qed

section \<open>Correctness of the lists\<close>

lemma limitOffset_page:
  assumes "1 \<le> page" and "0 \<le> k" and "in_int64 (page * k)" and "in_int64 page"
  shows "limitOffset k (pageOffset page k) rows = Inr (limit_offset k ((page - 1) * k) rows)"
  using assms by (auto simp: pageOffset_exact limitOffset_def mult_less_0_iff)

lemma ListPublic_page:
  assumes "fault E = (\<lambda>_. None)" and "1 \<le> lo_Page opts" and "0 \<le> lo_PageSize opts"
    and "in_int64 (lo_Page opts * lo_PageSize opts)" and "in_int64 (lo_Page opts)"
  shows "ListPublic E opts d =
    (let matching = publicCampaignListFromWhere E (lo_Search opts) (campaignListStatusArgument (lo_Status opts)) d
     in Inr (map (\<lambda>(c, f, u). scanPublicCampaignListItem c (fw_image_object_key f))
               (limit_offset (lo_PageSize opts) ((lo_Page opts - 1) * lo_PageSize opts)
                  (campaignListOrderBy E (lo_Sort opts) matching)), int (length matching)))"
  using assms
  by (simp add: ListPublic_def Let_def queryRow_def limitOffset_page collectRows_ok split_def)

lemma ListForFundraiser_page:
  assumes "fault E = (\<lambda>_. None)" and "1 \<le> lo_Page opts" and "0 \<le> lo_PageSize opts"
    and "in_int64 (lo_Page opts * lo_PageSize opts)" and "in_int64 (lo_Page opts)"
  shows "ListForFundraiser E wallet opts d =
    (let matching = fundraiserCampaignListFromWhere E (TrimSpace wallet) (lo_Search opts)
           (campaignListStatusArgument (lo_Status opts)) d
     in Inr (map fst (limit_offset (lo_PageSize opts) ((lo_Page opts - 1) * lo_PageSize opts)
                  (campaignListOrderBy E (lo_Sort opts) matching)), int (length matching)))"
  using assms
  by (simp add: ListForFundraiser_def Let_def queryRow_def limitOffset_page collectRows_ok split_def)

text \<open>The pages of any list, one after the other, are the list.\<close>

lemma concat_limit_offset:
  assumes "0 \<le> k" and "int (length xs) \<le> int n * k"
  shows "concat (map (\<lambda>i. limit_offset k (int i * k) xs) [0..<n]) = xs"
proof -
  have "nat (int i * k) = i * nat k" for i using assms(1) by (simp add: nat_mult_distrib)
  then have "concat (map (\<lambda>i. limit_offset k (int i * k) xs) [0..<n]) = take (n * nat k) xs"
    using concat_pages [of "nat k" xs n] by (simp add: limit_offset_def)
  moreover have "int (length xs) \<le> int (n * nat k)" using assms by simp
  then have "length xs \<le> n * nat k" by (simp only: zle_int)
  ultimately show ?thesis by simp
qed

lemma concat_mapped_pages:
  assumes "0 \<le> k" and "int (length xs) \<le> int n * k"
  shows "concat (map (\<lambda>i. map g (limit_offset k (int i * k) xs)) [0..<n]) = map g xs"
  using arg_cong [OF concat_limit_offset [OF assms], of "map g"] by (simp add: map_concat comp_def)

lemma page_in_range:
  assumes "i < n" and "1 \<le> k" and "in_int64 (int n * k)" and "in_int64 (int n)"
  shows "in_int64 ((int i + 1) * k)" and "in_int64 (int i + 1)"
proof -
  have "(int i + 1) * k \<le> int n * k" using assms(1,2) by (intro mult_right_mono) auto
  moreover have "0 \<le> (int i + 1) * k" using assms(2) by simp
  ultimately show "in_int64 ((int i + 1) * k)" using assms(3) by (auto simp: in_int64_def MinInt64_def)
  show "in_int64 (int i + 1)" using assms(1,4) by (auto simp: in_int64_def MinInt64_def)
qed

lemma distinct_campaignListOrderBy:
  "distinct (map f rows) \<Longrightarrow> distinct (map f (campaignListOrderBy E s rows))"
  by (auto simp: distinct_map campaignListOrderBy_def split: CampaignListSort.splits)

lemma scan_id [simp]:
  "c_ID (scanPublicCampaignListItem c k) = c_ID c"
  "Campaign.truncate (scanPublicCampaignListItem c k) = c"
  by (simp_all add: scanPublicCampaignListItem_def Campaign.defs PublicCampaignListItem.defs)

text \<open>What the public list is meant to show: campaigns with a contract that are active, completed
  or cancelled, of a live fundraiser account, that match the search text and the status filter.\<close>

definition publiclyListed :: "env \<Rightarrow> CampaignListOptions \<Rightarrow> db \<Rightarrow> Campaign \<Rightarrow> bool" where
  "publiclyListed E opts d c \<longleftrightarrow>
     publicStatus (c_Status c) \<and> c_ContractAddress c \<noteq> None \<and> searchMatches E (lo_Search opts) c
     \<and> (\<forall>s. lo_Status opts = Some s \<longrightarrow> c_Status c = s)
     \<and> (\<exists>u\<in>set (users d). u_ID u = c_FundraiserID c \<and> u_Role u = ''fundraiser'' \<and> live u)"

lemma statusMatches_argument:
  "statusMatches (campaignListStatusArgument s) c \<longleftrightarrow> (\<forall>t. s = Some t \<longrightarrow> c_Status c = t)"
  by (auto simp: statusMatches_def campaignListStatusArgument_def statusText_inj split: option.splits)

lemma owner_unique:
  assumes "db_ok d" and "(c, f, u) \<in> set (campaignJoin d)"
  shows "(\<exists>v\<in>set (users d). u_ID v = c_FundraiserID c \<and> P v) \<longleftrightarrow> P u"
proof -
  have "distinct (map u_ID (users d))" using assms(1) by (simp add: db_ok_def users_ok_def)
  from assms(2) distinct_map_eq [OF this] show ?thesis by (metis campaignJoin_set)
qed

lemma public_rows:
  assumes ok: "db_ok d"
  shows "map fst (publicCampaignListFromWhere E (lo_Search opts) (campaignListStatusArgument (lo_Status opts)) d)
    = filter (publiclyListed E opts d) (campaigns d)" (is "map fst ?m = _")
proof -
  have "publiclyListed E opts d c \<longleftrightarrow> u_Role u = ''fundraiser'' \<and> live u \<and> publicStatus (c_Status c)
      \<and> c_ContractAddress c \<noteq> None \<and> searchMatches E (lo_Search opts) c
      \<and> statusMatches (campaignListStatusArgument (lo_Status opts)) c"
    if "(c, f, u) \<in> set (campaignJoin d)" for c f u
    unfolding publiclyListed_def statusMatches_argument
      owner_unique [OF ok that, where P = "\<lambda>v. u_Role v = ''fundraiser'' \<and> live v"] by blast
  then have "?m = filter (\<lambda>x. publiclyListed E opts d (fst x)) (campaignJoin d)"
    unfolding publicCampaignListFromWhere_def by (intro filter_cong) auto
  then show ?thesis
    unfolding campaignJoin_fst [OF ok, symmetric] by (simp add: filter_map comp_def)
qed

text \<open>(C35) Paging through the public list: with a fixed sort order, the pages 1 to \<open>n\<close> of a
  page size that covers the total together hold every public campaign that matches the search
  and the status filter exactly once, nothing else, and every page reports the same total, the
  number of matching campaigns.\<close>

theorem ListPublic_pages:
  assumes ok: "db_ok d" and nofault: "fault E = (\<lambda>_. None)" and "lo_Sort opts \<noteq> CampaignListSortRandom"
    and size: "1 \<le> k" "in_int64 (int n * k)" "in_int64 (int n)"
    and cover: "int (length (filter (publiclyListed E opts d) (campaigns d))) \<le> int n * k"
  shows "\<exists>page.
     (\<forall>i<n. ListPublic E (opts\<lparr>lo_Page := int i + 1, lo_PageSize := k\<rparr>) d
            = Inr (page i, int (length (filter (publiclyListed E opts d) (campaigns d)))))
     \<and> distinct (map c_ID (concat (map page [0..<n])))
     \<and> Campaign.truncate ` set (concat (map page [0..<n])) = set (filter (publiclyListed E opts d) (campaigns d))"
proof -
  let ?m = "publicCampaignListFromWhere E (lo_Search opts) (campaignListStatusArgument (lo_Status opts)) d"
  let ?xs = "campaignListOrderBy E (lo_Sort opts) ?m"
  let ?item = "\<lambda>(c, f, u :: user_row). scanPublicCampaignListItem c (fw_image_object_key f)"
  let ?page = "\<lambda>i. map ?item (limit_offset k (int i * k) ?xs)"
  have len: "length ?m = length (filter (publiclyListed E opts d) (campaigns d))"
    by (metis length_map public_rows [OF ok])
  have pages: "ListPublic E (opts\<lparr>lo_Page := int i + 1, lo_PageSize := k\<rparr>) d = Inr (?page i, int (length ?m))"
    if "i < n" for i
    using nofault size page_in_range [OF that size] by (subst ListPublic_page) (simp_all add: Let_def)
  have all: "concat (map ?page [0..<n]) = map ?item ?xs"
    using size(1) cover len by (intro concat_mapped_pages) simp_all
  have "map c_ID (map ?item ?xs) = map (c_ID \<circ> fst) ?xs" by (simp add: split_def)
  moreover have "distinct (map (c_ID \<circ> fst) ?xs)"
    unfolding publicCampaignListFromWhere_def
    by (intro distinct_campaignListOrderBy campaignJoin_distinct [OF ok])
  ultimately have "distinct (map c_ID (map ?item ?xs))" by (simp only:)
  moreover have "Campaign.truncate ` set (map ?item ?xs) = set (map fst ?m)"
    by (simp add: image_image split_def)
  ultimately show ?thesis
    unfolding public_rows [OF ok] using pages len all by (intro exI [of _ ?page]) simp
qed

theorem ListPublic_pages_witness:
  "\<exists>page. (\<forall>i<2. ListPublic demo_env (\<lparr>lo_Search = ''roof'', lo_Sort = CampaignListSortNewest,
        lo_Status = None, lo_Page = int i + 1, lo_PageSize = 1\<rparr>) demo_db = Inr (page i, 1))
     \<and> distinct (map c_ID (concat (map page [0..<2])))
     \<and> Campaign.truncate ` set (concat (map page [0..<2])) = {demo_campaign}"
proof -
  let ?o = "\<lparr>lo_Search = ''roof'', lo_Sort = CampaignListSortNewest, lo_Status = None, lo_Page = 1, lo_PageSize = 1\<rparr>"
  have m: "filter (publiclyListed demo_env ?o demo_db) (campaigns demo_db) = [demo_campaign]"
    by (simp add: publiclyListed_def demo_db_def demo_campaign_def demo_pending_def publicStatus_def
        searchMatches_def demo_env_def) code_simp
  show ?thesis
    using ListPublic_pages [of demo_db demo_env ?o 1 2]
    by (simp add: m demo_db_ok in_int64_def MinInt64_def MaxInt64_def)
qed

text \<open>A fundraiser's own list: the same for the campaigns of the account with the caller's
  wallet address, compared without case; no campaign of another account appears, whatever its
  status.\<close>

lemma ListForFundraiser_own:
  assumes "ListForFundraiser E wallet opts d = Inr (page, totalRows)"
  shows "int (length page) \<le> lo_PageSize opts
     \<and> (\<forall>c\<in>set page. c \<in> set (campaigns d) \<and> searchMatches E (lo_Search opts) c
         \<and> (\<forall>s. lo_Status opts = Some s \<longrightarrow> c_Status c = s)
         \<and> (\<exists>u\<in>set (users d). u_ID u = c_FundraiserID c \<and> u_Role u = ''fundraiser'' \<and> live u
              \<and> sql_Lower E (u_WalletAddress u) = sql_Lower E (TrimSpace wallet)))"
proof -
  let ?m = "fundraiserCampaignListFromWhere E (TrimSpace wallet) (lo_Search opts)
    (campaignListStatusArgument (lo_Status opts)) d"
  from assms obtain rows where rows: "limitOffset (lo_PageSize opts)
      (pageOffset (lo_Page opts) (lo_PageSize opts)) (campaignListOrderBy E (lo_Sort opts) ?m) = Inr rows"
    and page: "page = map fst rows"
    by (auto simp: ListForFundraiser_def Let_def split_def split: sum.splits dest!: collectRows_Inr)
  have "set rows \<subseteq> set ?m"
    using limitOffset_Inr [OF rows] set_limit_offset by (metis campaignListOrderBy_set(1))
  then have sound: "c \<in> set (campaigns d) \<and> u \<in> set (users d) \<and> u_ID u = c_FundraiserID c
      \<and> u_Role u = ''fundraiser'' \<and> live u \<and> sql_Lower E (u_WalletAddress u) = sql_Lower E (TrimSpace wallet)
      \<and> searchMatches E (lo_Search opts) c \<and> (\<forall>s. lo_Status opts = Some s \<longrightarrow> c_Status c = s)"
    if "(c, f, u) \<in> set rows" for c f u
    using that unfolding fundraiserCampaignListFromWhere_def
    by (auto simp: campaignJoin_set statusMatches_argument)
  have "int (length page) \<le> lo_PageSize opts"
    using limitOffset_Inr [OF rows] unfolding page by auto
  with sound show ?thesis unfolding page by fastforce
qed

lemma ListForFundraiser_own_witness:
  "int (length [demo_pending]) \<le> 5 \<and> demo_pending \<in> set (campaigns demo_db)"
proof -
  have trim: "TrimSpace ''0xAB'' = ''0xAB''" by code_simp
  have "ListForFundraiser demo_env ''0xAB'' \<lparr>lo_Search = [], lo_Sort = CampaignListSortNewest,
      lo_Status = Some CampaignStatusPending, lo_Page = 1, lo_PageSize = 5\<rparr> demo_db = Inr ([demo_pending], 1)"
    by (subst ListForFundraiser_page)
      (simp_all add: fundraiserCampaignListFromWhere_def campaignJoin_def demo_db_def demo_campaign_def
        demo_pending_def searchMatches_def statusMatches_argument campaignListOrderBy_def limit_offset_def
        trim in_int64_def MinInt64_def MaxInt64_def lower_byte_hex)
  from ListForFundraiser_own [OF this] show ?thesis by simp
qed

text \<open>(C36) Ownership: without database faults, a lookup by identifier for a fundraiser succeeds
  exactly for the campaigns of the live fundraiser account with the caller's wallet address, and
  otherwise reports that the campaign does not exist; so the answer does not tell another
  fundraiser's campaign from a missing one.\<close>

theorem FindByIDForFundraiser_exact:
  assumes ok: "db_ok d" and nofault: "fault E = (\<lambda>_. None)"
  shows "FindByIDForFundraiser E wallet i d =
    (case find (\<lambda>c. c_ID c = i \<and> (\<exists>u\<in>set (users d). u_ID u = c_FundraiserID c
             \<and> u_Role u = ''fundraiser'' \<and> live u
             \<and> sql_Lower E (u_WalletAddress u) = sql_Lower E (TrimSpace wallet))) (campaigns d) of
       Some c \<Rightarrow> Inr c
     | None \<Rightarrow> Inl (Sentinel repository_ErrCampaignNotFound))"
proof -
  let ?P = "\<lambda>u. u_Role u = ''fundraiser'' \<and> live u \<and> sql_Lower E (u_WalletAddress u) = sql_Lower E (TrimSpace wallet)"
  let ?Q = "\<lambda>c. c_ID c = i \<and> (\<exists>u\<in>set (users d). u_ID u = c_FundraiserID c \<and> ?P u)"
  have "[c. (c, f, u) \<leftarrow> campaignJoin d, c_ID c = i \<and> ?P u] = map fst (filter (\<lambda>(c, f, u). c_ID c = i \<and> ?P u) (campaignJoin d))"
    by (rule comprehension_filter)
  also have "filter (\<lambda>(c, f, u). c_ID c = i \<and> ?P u) (campaignJoin d) = filter (\<lambda>x. ?Q (fst x)) (campaignJoin d)"
    using owner_unique [OF ok, where P = ?P] by (intro filter_cong) (auto simp only: split_paired_all split_beta fst_conv snd_conv)
  also have "map fst \<dots> = filter ?Q (campaigns d)"
    unfolding campaignJoin_fst [OF ok, symmetric] by (simp add: filter_map comp_def)
  finally show ?thesis
    unfolding FindByIDForFundraiser_def using nofault
    by (simp add: queryRow_def find_filter split: list.splits)
qed

theorem FindByIDForFundraiser_exact_witness:
  "FindByIDForFundraiser demo_env '' 0xAB '' 22 demo_db = Inr demo_pending
   \<and> FindByIDForFundraiser demo_env ''0xCd'' 22 demo_db = Inl (Sentinel repository_ErrCampaignNotFound)"
proof -
  have trim: "TrimSpace '' 0xAB '' = ''0xAB''" "TrimSpace ''0xCd'' = ''0xCd''" by code_simp+
  show ?thesis
    unfolding FindByIDForFundraiser_exact [OF demo_db_ok demo_env_sel(1)]
    by (simp add: demo_db_def demo_campaign_def demo_pending_def trim lower_byte_hex)
qed

section \<open>Correctness of the donor list\<close>

lemma donationJoin_fst:
  assumes ok: "db_ok d"
  shows "map fst (donationJoin d) = donations d"
  unfolding donationJoin_def
proof (rule concat_map_singletons)
  fix r assume "r \<in> set (donations d)"
  with ok have "dr_event_id r \<in> ev_ID ` set (blockchain_events d)" "distinct (map ev_ID (blockchain_events d))"
    by (auto simp: db_ok_def donations_ok_def events_ok_def)
  from join_unique [OF this(2,1)]
  obtain e where "filter (\<lambda>e. ev_ID e = dr_event_id r) (blockchain_events d) = [e]" by blast
  then show "\<exists>b. concat (map (\<lambda>e. if ev_ID e = dr_event_id r then [(r, e)] else []) (blockchain_events d)) = [(r, b)]"
    unfolding concat_if_filter by simp
qed

lemma filter_join_fst:
  assumes "map fst xs = ys"
  shows "map fst (filter (\<lambda>(r, e). P r) xs) = filter P ys"
  using assms by (induction xs arbitrary: ys) auto

lemma comprehension_map: "[g r. (r, e) \<leftarrow> xs] = map g (map fst xs)"
  by (induction xs) auto

lemma donor_totals_sum:
  assumes ok: "db_ok d"
  shows "sum_list (map dt_amount (donor_totals E i d))
       = sum_list (map dr_amount (filter (\<lambda>r. dr_campaign_id r = i) (donations d)))"
    and "map dt_normalized_address (donor_totals E i d) = donorGroups E i d"
    and "t \<in> set (donor_totals E i d) \<Longrightarrow> sql_Lower E (dt_donor_address t) = dt_normalized_address t
      \<and> dt_amount t = sum_list (map dr_amount (filter (\<lambda>r. dr_campaign_id r = i
            \<and> sql_Lower E (dr_donor_address r) = dt_normalized_address t) (donations d)))"
proof -
  let ?j = "[(r, e) \<leftarrow> donationJoin d. dr_campaign_id r = i]"
  let ?rs = "filter (\<lambda>r. dr_campaign_id r = i) (donations d)"
  let ?k = "\<lambda>r. sql_Lower E (dr_donor_address r)"
  have j: "map fst ?j = ?rs" by (rule filter_join_fst [OF donationJoin_fst [OF ok]])
  have groups: "donorGroups E i d = remdups (map ?k ?rs)"
    unfolding donorGroups_def concat_if_filter by simp
  have dt: "donor_totals E i d = map (\<lambda>a. donorTotal a [(r, e) \<leftarrow> ?j. ?k r = a]) (remdups (map ?k ?rs))"
    unfolding donor_totals_def Let_def comprehension_map j by simp
  then show "map dt_normalized_address (donor_totals E i d) = donorGroups E i d"
    by (simp add: groups donorTotal_def comp_def)
  have amount: "dt_amount (donorTotal a [(r, e) \<leftarrow> ?j. ?k r = a]) = sum_list (map dr_amount (filter (\<lambda>r. ?k r = a) ?rs))" for a
    using filter_join_fst [OF j, of "\<lambda>r. ?k r = a"] by (simp add: donorTotal_def flip: map_map)
  {
    assume "t \<in> set (donor_totals E i d)"
    then obtain a where a: "a \<in> ?k ` set ?rs" and t: "t = donorTotal a [(r, e) \<leftarrow> ?j. ?k r = a]" unfolding dt by auto
    let ?g = "[(r, e) \<leftarrow> ?j. ?k r = a]"
    have fst_g: "map fst ?g = filter (\<lambda>r. ?k r = a) ?rs" by (rule filter_join_fst [OF j])
    from a have "filter (\<lambda>r. ?k r = a) ?rs \<noteq> []" by (auto simp: filter_empty_conv)
    then have ne: "?g \<noteq> []" using fst_g by (metis list.simps(8))
    then have "sort_key newestDonationKey ?g \<noteq> []" by (metis set_empty set_sort)
    then have "hd (sort_key newestDonationKey ?g) \<in> set ?g" using hd_in_set by (metis set_sort)
    then have "?k (fst (hd (sort_key newestDonationKey ?g))) = a" by auto
    moreover have "filter (\<lambda>r. ?k r = a) ?rs = filter (\<lambda>r. dr_campaign_id r = i \<and> ?k r = a) (donations d)"
      by (simp add: conj_commute)
    ultimately show "sql_Lower E (dt_donor_address t) = dt_normalized_address t
      \<and> dt_amount t = sum_list (map dr_amount (filter (\<lambda>r. dr_campaign_id r = i \<and> ?k r = dt_normalized_address t) (donations d)))"
      using amount [of a] by (simp add: t donorTotal_def del: filter_filter)
  }
  note amount = amount
  then show "sum_list (map dt_amount (donor_totals E i d)) = sum_list (map dr_amount ?rs)"
    unfolding dt map_map comp_def using sum_list_groups [of "remdups (map ?k ?rs)" ?k ?rs dr_amount]
    by (simp del: filter_filter)
qed

lemma leftJoin_single:
  assumes "length (filter (p a) bs) \<le> 1"
  shows "\<exists>b. leftJoin p bs a = [(a, b)]"
  using assms by (auto simp: leftJoin_def split: list.splits)

text \<open>Live supporters have different wallet addresses, also when case is ignored.\<close>

definition wallets_unique :: "env \<Rightarrow> db \<Rightarrow> bool" where
  "wallets_unique E d \<longleftrightarrow>
     distinct (map (\<lambda>u. sql_Lower E (u_WalletAddress u)) (filter (\<lambda>u. u_Role u = ''supporter'' \<and> live u) (users d)))"

lemma filter_key_at_most_one:
  assumes "distinct (map k xs)"
  shows "length (filter (\<lambda>x. k x = a) xs) \<le> 1"
proof (cases "a \<in> k ` set xs")
  case True
  from join_unique [OF assms this] show ?thesis by auto
next
  case False
  then have "filter (\<lambda>x. k x = a) xs = []" by (auto simp: filter_empty_conv)
  then show ?thesis by simp
qed

lemma donorRows_totals:
  assumes ok: "db_ok d" and wallets: "wallets_unique E d"
  shows "map fst (donorRows E i d) = donor_totals E i d"
  unfolding donorRows_def
proof (rule concat_map_singletons, goal_cases)
  case (1 t)
  have "length (filter (\<lambda>v. sql_Lower E (u_WalletAddress v) = dt_normalized_address t
      \<and> u_Role v = ''supporter'' \<and> live v) (users d)) \<le> 1"
    using filter_key_at_most_one [OF wallets [unfolded wallets_unique_def]]
    by (simp add: conj_commute)
  then obtain u where u: "leftJoin (\<lambda>t v. sql_Lower E (u_WalletAddress v) = dt_normalized_address t
      \<and> u_Role v = ''supporter'' \<and> live v) (users d) t = [(t, u)]"
    using leftJoin_single by meson
  have "length (filter (\<lambda>r. Some (sr_id r) = map_option u_ID u) (supporters d)) \<le> 1"
    using filter_key_at_most_one [OF profiles_okD(1) [OF ok]] by (cases u) simp_all
  then obtain s where s: "leftJoin (\<lambda>v r. Some (sr_id r) = map_option u_ID v) (supporters d) u = [(u, s)]"
    using leftJoin_single [of "\<lambda>v r. Some (sr_id r) = map_option u_ID v" u "supporters d"] by blast
  show ?case by (simp add: u s)
qed

lemma campaignDonorListOrderBy_mset [simp]:
  "mset (campaignDonorListOrderBy E s rows) = mset rows"
  by (simp add: campaignDonorListOrderBy_def split: CampaignDonorListSort.splits)

lemma sum_list_mset_cong: "mset xs = mset ys \<Longrightarrow> sum_list (map g xs) = (sum_list (map g ys) :: int)"
  by (metis mset_map sum_mset_sum_list)

lemma donorRows_amount: "(t, donor) \<in> set (donorRows E i d) \<Longrightarrow> pd_Amount donor = dt_amount t"
  by (auto simp: donorRows_def)

lemma leftJoin_set: "(x, y) \<in> set (leftJoin p bs a) \<Longrightarrow> x = a \<and> (\<forall>b. y = Some b \<longrightarrow> b \<in> set bs \<and> p a b)"
  by (auto simp: leftJoin_def split: list.splits dest: filter_eq_ConsD)

lemma donorRows_entry:
  assumes ok: "db_ok d" and row: "(t, donor) \<in> set (donorRows E i d)"
  shows "t \<in> set (donor_totals E i d) \<and> sql_Lower E (pd_WalletAddress donor) = dt_normalized_address t"
proof -
  from row obtain t0 u v s where t0: "t0 \<in> set (donor_totals E i d)"
    and u: "(t, u) \<in> set (leftJoin (\<lambda>t v. sql_Lower E (u_WalletAddress v) = dt_normalized_address t
      \<and> u_Role v = ''supporter'' \<and> live v) (users d) t0)"
    and address: "pd_WalletAddress donor = (case u of Some v \<Rightarrow> u_WalletAddress v | None \<Rightarrow> dt_donor_address t)"
    unfolding donorRows_def by (auto simp del: not_None_eq)
  from leftJoin_set [OF u] t0 donor_totals_sum(3) [OF ok] show ?thesis by (cases u) (simp_all add: address)
qed

text \<open>(C37) The donor list accounts for the donations: when the first page is large enough for the
  reported total, it has exactly one entry for every donor of the campaign with that contract address.
  The wallet addresses of the entries differ also without case, they are the donors' addresses, as many as
  the total says; the amount of an entry is the sum of that donor's donations in any spelling of the address,
  and the amounts add up to the donations recorded for the campaign. This needs live supporters' wallet
  addresses to differ without case, which the unique index on users does not ensure.\<close>

theorem ListPublicDonors_account:
  assumes ok: "db_ok d" and wallets: "wallets_unique E d"
    and list: "ListPublicDonorsByContractAddress E address \<lparr>do_Sort = s, do_Page = 1, do_PageSize = k\<rparr> d
      = Inr (donors, totalRows)"
    and size: "totalRows \<le> k" "in_int64 k"
  shows "int (length donors) = totalRows
    \<and> distinct (map (\<lambda>x. sql_Lower E (pd_WalletAddress x)) donors)
    \<and> (\<exists>c\<in>set (campaigns d).
          map_option (sql_Lower E) (c_ContractAddress c) = Some (sql_Lower E (TrimSpace address))
          \<and> (\<lambda>x. sql_Lower E (pd_WalletAddress x)) ` set donors
            = {sql_Lower E (dr_donor_address r) | r. r \<in> set (donations d) \<and> dr_campaign_id r = c_ID c}
          \<and> (\<forall>x\<in>set donors. pd_Amount x = sum_list (map dr_amount (filter (\<lambda>r. dr_campaign_id r = c_ID c
                \<and> sql_Lower E (dr_donor_address r) = sql_Lower E (pd_WalletAddress x)) (donations d))))
          \<and> sum_list (map pd_Amount donors)
            = sum_list (map dr_amount (filter (\<lambda>r. dr_campaign_id r = c_ID c) (donations d))))"
proof -
  from list obtain c f u others where hit: "publicByContractAddress E (TrimSpace address) d = (c, f, u) # others"
    by (cases "publicByContractAddress E (TrimSpace address) d")
      (auto simp: ListPublicDonorsByContractAddress_def queryRow_def split: option.splits if_splits)
  then have c: "(c, f, u) \<in> set (publicByContractAddress E (TrimSpace address) d)" by simp
  from list hit obtain rows where total: "totalRows = int (length (donorGroups E (c_ID c) d))"
    and rows: "limitOffset k (pageOffset 1 k) (campaignDonorListOrderBy E s (donorRows E (c_ID c) d)) = Inr rows"
    and donors: "donors = map snd rows"
    by (auto simp: ListPublicDonorsByContractAddress_def queryRow_def split_def
        split: sum.splits option.splits list.splits if_splits dest!: collectRows_Inr)
  let ?ts = "donor_totals E (c_ID c) d" and ?rs = "donorRows E (c_ID c) d"
  let ?w = "\<lambda>x. sql_Lower E (pd_WalletAddress x)"
  note totals = donorRows_totals [OF ok wallets]
  have len: "length ?rs = length (donorGroups E (c_ID c) d)"
    using arg_cong [OF totals, of length] arg_cong [OF donor_totals_sum(2) [OF ok], of length]
    by (metis length_map)
  have "0 \<le> k" using size(1) total by linarith
  then have "pageOffset 1 k = 0" using size(2) by (simp add: pageOffset_exact in_int64_def MinInt64_def MaxInt64_def)
  moreover have "length (campaignDonorListOrderBy E s ?rs) = length ?rs"
    by (metis campaignDonorListOrderBy_mset mset_eq_length)
  ultimately have rows': "rows = campaignDonorListOrderBy E s ?rs"
    using limitOffset_Inr [OF rows] size(1) total len by (auto simp: limit_offset_def)
  then have n: "int (length donors) = totalRows"
    unfolding donors by (simp add: len total \<open>length (campaignDonorListOrderBy E s ?rs) = length ?rs\<close>)
  have perm: "mset donors = mset (map snd ?rs)" unfolding donors rows' by simp
  have entries: "map ?w (map snd ?rs) = donorGroups E (c_ID c) d"
  proof -
    have "map ?w (map snd ?rs) = map dt_normalized_address (map fst ?rs)" using donorRows_entry [OF ok] by auto
    then show ?thesis by (simp add: totals donor_totals_sum(2) [OF ok] del: map_map)
  qed
  have mset: "mset (map ?w donors) = mset (donorGroups E (c_ID c) d)"
    unfolding entries [symmetric] mset_map perm ..
  have "distinct (donorGroups E (c_ID c) d)" unfolding donorGroups_def by (rule distinct_remdups)
  then have "distinct (map ?w donors)" by (simp only: mset_eq_imp_distinct_iff [OF mset])
  moreover have "?w ` set donors = set (donorGroups E (c_ID c) d)"
    using mset_eq_setD [OF mset] by (simp only: set_map)
  moreover have "set (donorGroups E (c_ID c) d)
      = {sql_Lower E (dr_donor_address r) | r. r \<in> set (donations d) \<and> dr_campaign_id r = c_ID c}"
    by (auto simp: donorGroups_def)
  moreover have "pd_Amount x = sum_list (map dr_amount (filter (\<lambda>r. dr_campaign_id r = c_ID c
      \<and> sql_Lower E (dr_donor_address r) = ?w x) (donations d)))" if "x \<in> set donors" for x
  proof -
    have "x \<in> set (map snd ?rs)" using that by (simp only: mset_eq_setD [OF perm])
    then obtain t where t: "(t, x) \<in> set ?rs" by force
    from donorRows_entry [OF ok t] have "t \<in> set ?ts" and w: "?w x = dt_normalized_address t" by simp_all
    from donor_totals_sum(3) [OF ok this(1)] show ?thesis unfolding donorRows_amount [OF t] w by (rule conjunct2)
  qed
  moreover have "sum_list (map pd_Amount donors) = sum_list (map (pd_Amount \<circ> snd) ?rs)"
    unfolding donors rows' map_map by (rule sum_list_mset_cong) simp
  moreover have "map (pd_Amount \<circ> snd) ?rs = map dt_amount ?ts"
    unfolding totals [symmetric] using donorRows_amount by auto
  ultimately show ?thesis
    using c n by (auto simp: publicByContractAddress_def campaignJoin_set donor_totals_sum(1) [OF ok])
qed

theorem ListPublicDonors_account_witness:
  "\<exists>c\<in>set (campaigns demo_db).
     map_option (sql_Lower demo_env) (c_ContractAddress c) = Some (sql_Lower demo_env (TrimSpace ''0xC1''))
     \<and> {''0xcd''} = {sql_Lower demo_env (dr_donor_address r) | r. r \<in> set (donations demo_db) \<and> dr_campaign_id r = c_ID c}
     \<and> 40 = sum_list (map dr_amount (filter (\<lambda>r. dr_campaign_id r = c_ID c) (donations demo_db)))"
proof -
  have trim: "TrimSpace ''0xC1'' = ''0xC1''" by code_simp
  have "ListPublicDonorsByContractAddress demo_env ''0xC1''
      \<lparr>do_Sort = CampaignDonorListSortTop, do_Page = 1, do_PageSize = 10\<rparr> demo_db
    = Inr ([\<lparr>pd_Name = Some ''Ann'', pd_WalletAddress = ''0xCd'',
      pd_ImageObjectKey = Some ''profiles/b.png'', pd_Amount = 40, pd_DonatedAt = 1690000100000000000\<rparr>], 1)"
    by (simp add: ListPublicDonorsByContractAddress_def publicByContractAddress_def campaignJoin_def demo_db_def
        demo_campaign_def demo_pending_def queryRow_def trim lower_byte_hex publicStatus_def donorGroups_def
        donor_totals_def donationJoin_def donorTotal_def donorRows_def leftJoin_def limitOffset_page
        campaignDonorListOrderBy_def collectRows_ok limit_offset_def in_int64_def MinInt64_def MaxInt64_def split_def)
  moreover have "wallets_unique demo_env demo_db" by (simp add: wallets_unique_def demo_db_def)
  moreover have "sql_Lower demo_env ''0xCd'' = ''0xcd''" by (simp add: lower_byte_hex)
  moreover have "in_int64 10" by (simp add: in_int64_def MinInt64_def MaxInt64_def)
  ultimately obtain c where "c \<in> set (campaigns demo_db)"
    "map_option (sql_Lower demo_env) (c_ContractAddress c) = Some (sql_Lower demo_env (TrimSpace ''0xC1''))"
    "{''0xcd''} = {sql_Lower demo_env (dr_donor_address r) | r. r \<in> set (donations demo_db) \<and> dr_campaign_id r = c_ID c}"
    "40 = sum_list (map dr_amount (filter (\<lambda>r. dr_campaign_id r = c_ID c) (donations demo_db)))"
    using ListPublicDonors_account [OF demo_db_ok, of demo_env "''0xC1''" CampaignDonorListSortTop 10] by fastforce
  then show ?thesis by blast
qed

end
