(* ===== verification/Go_Json.thy ===== *)
theory Go_Json
  imports Go_Strings
begin

text \<open>
  The parts of \<open>encoding/json\<close> the service uses: \<open>Marshal\<close> of strings and integers with the
  escapes of the standard encoder, the scanner for JSON text, and the decoding of a string
  literal. A parsed document is a value of type \<open>json\<close>; a number keeps its text, which the
  decoder reads with \<open>ParseInt\<close>. The parser's fuel is one more than the length of the text, and
  every call consumes text, so it never runs out. The lemmas: decoding inverts encoding, for
  strings of valid UTF-8 and for 64-bit integers, wherever they stand in a document.
\<close>

section \<open>Runes\<close>

definition encodeRune :: "nat \<Rightarrow> string" where
  "encodeRune n =
     (if n < 0x80 then [char_of n]
      else if n < 0x800 then [char_of (0xC0 + n div 64), char_of (0x80 + n mod 64)]
      else if n < 0x10000
        then [char_of (0xE0 + n div 4096), char_of (0x80 + n div 64 mod 64), char_of (0x80 + n mod 64)]
      else [char_of (0xF0 + n div 262144), char_of (0x80 + n div 4096 mod 64),
            char_of (0x80 + n div 64 mod 64), char_of (0x80 + n mod 64)])"

definition replacementChar :: string where
  "replacementChar = encodeRune 0xFFFD"

lemma drop_rune: "Suc (length r) - fst (DecodeRune (c # r)) < Suc (length r)"
  using DecodeRune_pos [of "c # r"] by simp

section \<open>String literals\<close>

definition lowerHex :: "nat \<Rightarrow> char" where
  "lowerHex d = (if d < 10 then char_of (48 + d) else char_of (87 + d))"

definition hexValue :: "char \<Rightarrow> nat option" where
  "hexValue c =
     (if byte_in c 48 57 then Some (of_char c - 48)
      else if byte_in c 97 102 then Some (of_char c - 87)
      else if byte_in c 65 70 then Some (of_char c - 55)
      else None)"

text \<open>One rune of a string, as \<open>appendString\<close> writes it: characters that are unsafe in JSON or in
  HTML are escaped, and so are invalid bytes and the two Unicode line separators.\<close>

definition escapeByte :: "char \<Rightarrow> string" where
  "escapeByte c =
     (if c = CHR ''\"'' \<or> c = CHR 0x5C then [CHR 0x5C, c]
      else if c = CHR 0x08 then [CHR 0x5C, CHR ''b'']
      else if c = CHR 0x0C then [CHR 0x5C, CHR ''f'']
      else if c = CHR 0x0A then [CHR 0x5C, CHR ''n'']
      else if c = CHR 0x0D then [CHR 0x5C, CHR ''r'']
      else if c = CHR 0x09 then [CHR 0x5C, CHR ''t'']
      else if (of_char c :: nat) < 32 \<or> c = CHR ''<'' \<or> c = CHR ''>'' \<or> c = CHR ''&''
        then [CHR 0x5C, CHR ''u'', CHR ''0'', CHR ''0'', lowerHex (of_char c div 16), lowerHex (of_char c mod 16)]
      else [c])"

function encodeChars :: "string \<Rightarrow> string" where
  "encodeChars s =
     (case s of
        [] \<Rightarrow> []
      | c # r \<Rightarrow>
          (if (of_char c :: nat) < 128 then escapeByte c @ encodeChars r
           else
             (let n = fst (DecodeRune s)
              in (if \<not> snd (DecodeRune s) then [CHR 0x5C, CHR ''u'', CHR ''f'', CHR ''f'', CHR ''f'', CHR ''d'']
                  else if take n s = [CHR 0xE2, CHR 0x80, CHR 0xA8]
                    then [CHR 0x5C, CHR ''u'', CHR ''2'', CHR ''0'', CHR ''2'', CHR ''8'']
                  else if take n s = [CHR 0xE2, CHR 0x80, CHR 0xA9]
                    then [CHR 0x5C, CHR ''u'', CHR ''2'', CHR ''0'', CHR ''2'', CHR ''9'']
                  else take n s) @ encodeChars (drop n s))))"
  by pat_completeness auto
termination
  by (relation "measure length") (auto simp: drop_rune simp del: DecodeRune.simps)

declare encodeChars.simps [simp del]

definition encodeString :: "string \<Rightarrow> string" where
  "encodeString s = CHR ''\"'' # encodeChars s @ [CHR ''\"'']"

definition getu4 :: "string \<Rightarrow> (nat \<times> string) option" where
  "getu4 s =
     (case s of
        a # b # c # d # r \<Rightarrow>
          (case (hexValue a, hexValue b, hexValue c, hexValue d) of
             (Some w, Some x, Some y, Some z) \<Rightarrow> Some (((w * 16 + x) * 16 + y) * 16 + z, r)
           | _ \<Rightarrow> None)
      | _ \<Rightarrow> None)"

definition unescape :: "string \<Rightarrow> (string \<times> string) option" where
  "unescape s =
     (case s of
        [] \<Rightarrow> None
      | c # r \<Rightarrow>
          (if c = CHR ''\"'' \<or> c = CHR 0x5C \<or> c = CHR ''/'' then Some ([c], r)
           else if c = CHR ''b'' then Some ([CHR 0x08], r)
           else if c = CHR ''f'' then Some ([CHR 0x0C], r)
           else if c = CHR ''n'' then Some ([CHR 0x0A], r)
           else if c = CHR ''r'' then Some ([CHR 0x0D], r)
           else if c = CHR ''t'' then Some ([CHR 0x09], r)
           else if c = CHR ''u'' then
             (case getu4 r of
                None \<Rightarrow> None
              | Some (v, r1) \<Rightarrow>
                  (if 0xD800 \<le> v \<and> v < 0xE000 then
                     (case r1 of
                        b # u # r2 \<Rightarrow>
                          (case getu4 r2 of
                             Some (v2, r3) \<Rightarrow>
                               (if b = CHR 0x5C \<and> u = CHR ''u'' \<and> v < 0xDC00 \<and> 0xDC00 \<le> v2 \<and> v2 < 0xE000
                                then Some (encodeRune (0x10000 + (v - 0xD800) * 1024 + (v2 - 0xDC00)), r3)
                                else Some (replacementChar, r1))
                           | None \<Rightarrow> Some (replacementChar, r1))
                      | _ \<Rightarrow> Some (replacementChar, r1))
                   else Some (encodeRune v, r1)))
           else None))"

lemma getu4_shorter: "getu4 s = Some (v, r) \<Longrightarrow> length r < length s"
  by (auto simp: getu4_def split: list.splits option.splits)

lemma unescape_shorter: "unescape s = Some (b, r) \<Longrightarrow> length r < length s"
  by (auto simp: unescape_def dest!: getu4_shorter split: list.splits option.splits if_splits)

text \<open>The body of a string literal, up to the closing quote.\<close>

function scanString :: "string \<Rightarrow> (string \<times> string) option" where
  "scanString s =
     (case s of
        [] \<Rightarrow> None
      | c # r \<Rightarrow>
          (if c = CHR ''\"'' then Some ([], r)
           else if c = CHR 0x5C then
             (case unescape r of
                None \<Rightarrow> None
              | Some (b, r1) \<Rightarrow> map_option (\<lambda>(t, r2). (b @ t, r2)) (scanString r1))
           else if (of_char c :: nat) < 32 then None
           else
             (let n = fst (DecodeRune s)
              in map_option (\<lambda>(t, r2). ((if snd (DecodeRune s) then take n s else replacementChar) @ t, r2))
                   (scanString (drop n s)))))"
  by pat_completeness auto
termination
  by (relation "measure length") (auto simp: drop_rune simp del: DecodeRune.simps dest: unescape_shorter)

declare scanString.simps [simp del]

section \<open>Documents\<close>

datatype json =
    JNull
  | JBool bool
  | JNum string
  | JStr string
  | JArr "json list"
  | JObj "(string \<times> json) list"

definition skipSpace :: "string \<Rightarrow> string" where
  "skipSpace = dropWhile (\<lambda>c. c \<in> {CHR '' '', CHR 0x09, CHR 0x0A, CHR 0x0D})"

definition scanNumber :: "string \<Rightarrow> (string \<times> string) option" where
  "scanNumber s =
     (let sign = (if HasPrefix s ''-'' then ''-'' else []);
          s1 = TrimPrefix s ''-'';
          whole = (if HasPrefix s1 ''0'' then ''0'' else takeWhile is_digit s1);
          s2 = drop (length whole) s1
      in if whole = [] then None
         else
           (let frac = (if HasPrefix s2 ''.'' then CHR ''.'' # takeWhile is_digit (tl s2) else []);
                s3 = drop (length frac) s2;
                mark = (if HasPrefix s3 ''e'' \<or> HasPrefix s3 ''E'' then take 1 s3 else []);
                s4 = drop (length mark) s3;
                expSign = (if mark \<noteq> [] \<and> (HasPrefix s4 ''+'' \<or> HasPrefix s4 ''-'') then take 1 s4 else []);
                digits = (if mark = [] then [] else takeWhile is_digit (drop (length expSign) s4))
            in if frac = ''.'' \<or> (mark \<noteq> [] \<and> digits = []) then None
               else Some (sign @ whole @ frac @ mark @ expSign @ digits,
                          drop (length expSign + length digits) s4)))"

text \<open>Arrays and objects may be nested 10000 deep.\<close>

fun parseValue :: "nat \<Rightarrow> nat \<Rightarrow> string \<Rightarrow> (json \<times> string) option"
  and parseElements :: "nat \<Rightarrow> nat \<Rightarrow> string \<Rightarrow> (json list \<times> string) option"
  and parseMembers :: "nat \<Rightarrow> nat \<Rightarrow> string \<Rightarrow> ((string \<times> json) list \<times> string) option" where
  "parseValue 0 depth s = None"
| "parseValue (Suc n) depth s =
     (case skipSpace s of
        [] \<Rightarrow> None
      | c # r \<Rightarrow>
          (if c = CHR ''\"'' then map_option (\<lambda>(t, r'). (JStr t, r')) (scanString r)
           else if c = CHR ''{'' then
             (if 10000 \<le> depth then None
              else if HasPrefix (skipSpace r) ''}'' then Some (JObj [], tl (skipSpace r))
              else map_option (\<lambda>(ms, r'). (JObj ms, r')) (parseMembers n (Suc depth) r))
           else if c = CHR ''['' then
             (if 10000 \<le> depth then None
              else if HasPrefix (skipSpace r) '']'' then Some (JArr [], tl (skipSpace r))
              else map_option (\<lambda>(vs, r'). (JArr vs, r')) (parseElements n (Suc depth) r))
           else if HasPrefix (c # r) ''null'' then Some (JNull, drop 4 (c # r))
           else if HasPrefix (c # r) ''true'' then Some (JBool True, drop 4 (c # r))
           else if HasPrefix (c # r) ''false'' then Some (JBool False, drop 5 (c # r))
           else map_option (\<lambda>(t, r'). (JNum t, r')) (scanNumber (c # r))))"
| "parseElements 0 depth s = None"
| "parseElements (Suc n) depth s =
     (case parseValue n depth s of
        None \<Rightarrow> None
      | Some (v, r) \<Rightarrow>
          (case skipSpace r of
             c # r1 \<Rightarrow>
               (if c = CHR '','' then map_option (\<lambda>(vs, r2). (v # vs, r2)) (parseElements n depth r1)
                else if c = CHR '']'' then Some ([v], r1) else None)
           | [] \<Rightarrow> None))"
| "parseMembers 0 depth s = None"
| "parseMembers (Suc n) depth s =
     (case skipSpace s of
        [] \<Rightarrow> None
      | q # r \<Rightarrow>
          (if q \<noteq> CHR ''\"'' then None
           else
             (case scanString r of
                None \<Rightarrow> None
              | Some (key, r1) \<Rightarrow>
                  (case skipSpace r1 of
                     [] \<Rightarrow> None
                   | colon # r2 \<Rightarrow>
                       (if colon \<noteq> CHR '':'' then None
                        else
                          (case parseValue n depth r2 of
                             None \<Rightarrow> None
                           | Some (v, r3) \<Rightarrow>
                               (case skipSpace r3 of
                                  c # r4 \<Rightarrow>
                                    (if c = CHR '','' then
                                       map_option (\<lambda>(ms, r5). ((key, v) # ms, r5)) (parseMembers n depth r4)
                                     else if c = CHR ''}'' then Some ([(key, v)], r4) else None)
                                | [] \<Rightarrow> None)))))))"

text \<open>A whole document: one value and nothing but space around it.\<close>

definition parseDocument :: "string \<Rightarrow> json option" where
  "parseDocument s =
     (case parseValue (Suc (length s)) 0 s of
        Some (v, rest) \<Rightarrow> (if skipSpace rest = [] then Some v else None)
      | None \<Rightarrow> None)"

text \<open>Names of struct fields match a key exactly or up to simple case folding; besides ASCII
  letters only the long s and the Kelvin sign fold to a letter of a field's name.\<close>

fun foldName :: "string \<Rightarrow> string" where
  "foldName (a # b # r) =
     (if a = CHR 0xC5 \<and> b = CHR 0xBF then CHR ''s'' # foldName r
      else (case r of
              c # r' \<Rightarrow>
                (if a = CHR 0xE2 \<and> b = CHR 0x84 \<and> c = CHR 0xAA then CHR ''k'' # foldName r'
                 else lower_byte a # foldName (b # r))
            | [] \<Rightarrow> lower_byte a # foldName (b # r)))"
| "foldName [a] = [lower_byte a]"
| "foldName [] = []"

definition fieldFor :: "string list \<Rightarrow> string \<Rightarrow> string option" where
  "fieldFor fields key =
     (if key \<in> set fields then Some key else find (\<lambda>f. foldName f = foldName key) fields)"

text \<open>\<open>Marshal\<close> of a struct of strings and integers.\<close>

datatype field = FStr string | FInt int

definition encodeField :: "field \<Rightarrow> string" where
  "encodeField f = (case f of FStr s \<Rightarrow> encodeString s | FInt i \<Rightarrow> Itoa i)"

definition fieldValue :: "field \<Rightarrow> json" where
  "fieldValue f = (case f of FStr s \<Rightarrow> JStr s | FInt i \<Rightarrow> JNum (Itoa i))"

definition MarshalStruct :: "(string \<times> field) list \<Rightarrow> string" where
  "MarshalStruct fields =
     ''{'' @ JoinWith '','' (map (\<lambda>(k, f). encodeString k @ '':'' @ encodeField f) fields) @ ''}''"

section \<open>Decoding inverts encoding\<close>

lemma hexValue_lowerHex: "d < 16 \<Longrightarrow> hexValue (lowerHex d) = Some d"
  by (auto simp: hexValue_def lowerHex_def byte_in_def)

lemma getu4_escape:
  "(of_char c :: nat) < 128 \<Longrightarrow>
     getu4 (CHR ''0'' # CHR ''0'' # lowerHex (of_char c div 16) # lowerHex (of_char c mod 16) # r)
     = Some (of_char c, r)"
proof -
  assume c: "(of_char c :: nat) < 128"
  have "hexValue CHR ''0'' = Some 0" by (simp add: hexValue_def byte_in_def)
  moreover have "hexValue (lowerHex (of_char c div 16)) = Some (of_char c div 16)"
    "hexValue (lowerHex (of_char c mod 16)) = Some (of_char c mod 16)"
    using c by (intro hexValue_lowerHex; simp)+
  ultimately show ?thesis by (simp add: getu4_def)
qed

lemma scanString_escapeByte:
  assumes "(of_char c :: nat) < 128"
  shows "scanString (escapeByte c @ r) = map_option (\<lambda>(t, r'). (c # t, r')) (scanString r)"
proof -
  have step: "scanString (CHR 0x5C # x) = (case unescape x of None \<Rightarrow> None
      | Some (b, r1) \<Rightarrow> map_option (\<lambda>(t, r2). (b @ t, r2)) (scanString r1))" for x
    by (simp add: scanString.simps [of "CHR 0x5C # x"])
  consider "c = CHR ''\"'' \<or> c = CHR 0x5C" | "c \<in> {CHR 0x08, CHR 0x0C, CHR 0x0A, CHR 0x0D, CHR 0x09}"
    | "c \<noteq> CHR ''\"''" "c \<noteq> CHR 0x5C" "c \<notin> {CHR 0x08, CHR 0x0C, CHR 0x0A, CHR 0x0D, CHR 0x09}"
      "(of_char c :: nat) < 32 \<or> c = CHR ''<'' \<or> c = CHR ''>'' \<or> c = CHR ''&''"
    | "c \<noteq> CHR ''\"''" "c \<noteq> CHR 0x5C" "c \<notin> {CHR 0x08, CHR 0x0C, CHR 0x0A, CHR 0x0D, CHR 0x09}"
      "\<not> ((of_char c :: nat) < 32 \<or> c = CHR ''<'' \<or> c = CHR ''>'' \<or> c = CHR ''&'')"
    by blast
  then show ?thesis
  proof cases
    case 1
    then show ?thesis by (auto simp: escapeByte_def step unescape_def)
  next
    case 2
    then show ?thesis by (auto simp: escapeByte_def step unescape_def)
  next
    case 3
    have "escapeByte c = [CHR 0x5C, CHR ''u'', CHR ''0'', CHR ''0'', lowerHex (of_char c div 16), lowerHex (of_char c mod 16)]"
      using 3 by (simp add: escapeByte_def)
    moreover have "encodeRune (of_char c) = [c]" using assms by (simp add: encodeRune_def)
    ultimately show ?thesis using assms by (simp add: step unescape_def getu4_escape)
  next
    case 4
    then have "escapeByte c = [c]" by (simp add: escapeByte_def)
    with 4 assms show ?thesis by (simp add: scanString.simps [of "c # r"])
  qed
qed

lemma DecodeRune_cases:
  assumes "snd (DecodeRune s)" and "s = c # r" and "\<not> (of_char c :: nat) < 128"
  obtains lo hi more where "utf8_lead c = Some (lo, hi, more)" "fst (DecodeRune s) = 2 + more" "more < length r"
    "byte_in (hd r) lo hi" "list_all (\<lambda>b. byte_in b 128 191) (take more (tl r))"
  using assms by (auto split: option.splits if_splits)

lemma DecodeRune_prefix:
  assumes "snd (DecodeRune s)"
  shows "DecodeRune (take (fst (DecodeRune s)) s @ rest) = DecodeRune s"
proof (cases s)
  case Nil
  with assms show ?thesis by simp
next
  case (Cons c r)
  show ?thesis
  proof (cases "(of_char c :: nat) < 128")
    case True
    with Cons show ?thesis by simp
  next
    case False
    from DecodeRune_cases [OF assms Cons this] obtain lo hi more where
      d: "utf8_lead c = Some (lo, hi, more)" "fst (DecodeRune s) = 2 + more" "more < length r"
        "byte_in (hd r) lo hi" "list_all (\<lambda>b. byte_in b 128 191) (take more (tl r))" .
    then obtain b r' where r: "r = b # r'" by (cases r) auto
    have "take (2 + more) s @ rest = c # b # take more r' @ rest" using Cons r by simp
    with d False Cons r show ?thesis by simp
  qed
qed

lemma scanString_rune:
  assumes ok: "snd (DecodeRune s)" and s: "s = c # r" "\<not> (of_char c :: nat) < 128"
  shows "scanString (take (fst (DecodeRune s)) s @ rest)
    = map_option (\<lambda>(t, r'). (take (fst (DecodeRune s)) s @ t, r')) (scanString rest)"
proof -
  let ?n = "fst (DecodeRune s)"
  obtain more where "?n = 2 + more" "more < length r" by (rule DecodeRune_cases [OF ok s])
  then have n: "?n \<le> length s" "0 < ?n" using s(1) by (simp_all del: DecodeRune.simps)
  obtain w where w: "take ?n s = c # w" using n(2) s(1) by (cases ?n) auto
  have c: "c \<noteq> CHR ''\"''" "c \<noteq> CHR 0x5C" "\<not> (of_char c :: nat) < 32" using s(2) by auto
  have dr: "DecodeRune (c # w @ rest) = DecodeRune s" using DecodeRune_prefix [OF ok, of rest] w by simp
  have len: "length (c # w) = ?n" using arg_cong [OF w, of length] n(1) by (simp del: DecodeRune.simps)
  then have td: "take ?n (c # w @ rest) = c # w" "drop ?n (c # w @ rest) = rest"
    unfolding len [symmetric] by simp_all
  show ?thesis
    unfolding w append_Cons
    by (subst scanString.simps) (simp only: list.case c if_False dr ok if_True Let_def td simp_thms append_Cons)
qed

lemma encodeRune_separator: "encodeRune 8232 = [CHR 0xE2, CHR 0x80, CHR 0xA8]" "encodeRune 8233 = [CHR 0xE2, CHR 0x80, CHR 0xA9]"
  by (simp_all add: encodeRune_def char_of_eq_iff)

lemma unescape_separator:
  "unescape (CHR ''u'' # CHR ''2'' # CHR ''0'' # CHR ''2'' # CHR ''8'' # r) = Some ([CHR 0xE2, CHR 0x80, CHR 0xA8], r)"
  "unescape (CHR ''u'' # CHR ''2'' # CHR ''0'' # CHR ''2'' # CHR ''9'' # r) = Some ([CHR 0xE2, CHR 0x80, CHR 0xA9], r)"
  by (simp_all add: unescape_def getu4_def hexValue_def byte_in_def encodeRune_separator)

lemma scanString_separator:
  "scanString ([CHR 0x5C, CHR ''u'', CHR ''2'', CHR ''0'', CHR ''2'', CHR ''8''] @ r)
    = map_option (\<lambda>(t, r'). ([CHR 0xE2, CHR 0x80, CHR 0xA8] @ t, r')) (scanString r)"
  "scanString ([CHR 0x5C, CHR ''u'', CHR ''2'', CHR ''0'', CHR ''2'', CHR ''9''] @ r)
    = map_option (\<lambda>(t, r'). ([CHR 0xE2, CHR 0x80, CHR 0xA9] @ t, r')) (scanString r)"
  by (subst scanString.simps, simp add: unescape_separator)+

lemma scanString_encodeChars: "ValidString s \<Longrightarrow> scanString (encodeChars s @ CHR ''\"'' # rest) = Some (s, rest)"
proof (induction s rule: encodeChars.induct)
  case (1 s)
  show ?case
  proof (cases s)
    case Nil
    then show ?thesis by (simp add: encodeChars.simps [of "[]"] scanString.simps [of "CHR ''\"'' # rest"])
  next
    case (Cons c r)
    show ?thesis
    proof (cases "(of_char c :: nat) < 128")
      case True
      with "1.prems" Cons have "ValidString r" by (simp add: ValidString.simps [of "c # r"])
      from "1.IH"(1) [OF Cons True this] True Cons show ?thesis
        by (simp add: encodeChars.simps [of "c # r"] scanString_escapeByte)
    next
      case False
      let ?n = "fst (DecodeRune s)"
      from "1.prems" Cons have ok: "snd (DecodeRune s)" and v: "ValidString (drop ?n s)"
        by (simp_all add: ValidString.simps [of "c # r"] del: DecodeRune.simps)
      note IH = "1.IH"(2) [OF Cons False refl v]
      define e where "e = (if take ?n s = [CHR 0xE2, CHR 0x80, CHR 0xA8]
                    then [CHR 0x5C, CHR ''u'', CHR ''2'', CHR ''0'', CHR ''2'', CHR ''8'']
                  else if take ?n s = [CHR 0xE2, CHR 0x80, CHR 0xA9]
                    then [CHR 0x5C, CHR ''u'', CHR ''2'', CHR ''0'', CHR ''2'', CHR ''9'']
                  else take ?n s)"
      have enc: "encodeChars s = e @ encodeChars (drop ?n s)"
        unfolding e_def using Cons False ok
        by (subst encodeChars.simps) (simp add: Let_def del: DecodeRune.simps)
      have "scanString (e @ x) = map_option (\<lambda>(t, r'). (take ?n s @ t, r')) (scanString x)" for x
        unfolding e_def using scanString_rune [OF ok Cons False] scanString_separator
        by (simp del: DecodeRune.simps)
      from this [of "encodeChars (drop ?n s) @ CHR ''\"'' # rest"] show ?thesis
        unfolding enc append_assoc IH by (simp del: DecodeRune.simps)
    qed
  qed
qed

lemma is_digit_byte: "is_digit c \<longleftrightarrow> byte_in c 48 57"
  by (auto simp: is_digit_def byte_in_def)

lemma nat_digits_hd: "hd (nat_digits n) = CHR ''0'' \<Longrightarrow> n = 0"
proof (induction n rule: nat_digits.induct)
  case (1 n)
  show ?case
  proof (cases "n < 10")
    case True
    then have "nat_digits n = [digit_char n]" by (simp add: nat_digits.simps [of n])
    with "1.prems" True digit_val_char [of n] show ?thesis by (simp add: digit_val_def)
  next
    case False
    then have "hd (nat_digits n) = hd (nat_digits (n div 10))" by (simp add: nat_digits.simps [of n] hd_append)
    with "1.IH" [OF False] "1.prems" have "n div 10 = 0" by simp
    with False show ?thesis by simp
  qed
qed

lemma skipSpace_Cons: "c \<notin> {CHR '' '', CHR 0x09, CHR 0x0A, CHR 0x0D} \<Longrightarrow> skipSpace (c # r) = c # r"
  by (simp add: skipSpace_def)

lemma skipSpace_Nil [simp]: "skipSpace [] = []"
  by (simp add: skipSpace_def)

definition numberEnd :: "string \<Rightarrow> bool" where
  "numberEnd r \<longleftrightarrow> r \<noteq> [] \<and> \<not> is_digit (hd r) \<and> hd r \<notin> {CHR ''.'', CHR ''e'', CHR ''E''}"

lemma scanNumber_digits:
  assumes "list_all is_digit ds" and "ds \<noteq> []" and "hd ds = CHR ''0'' \<Longrightarrow> ds = ''0''" and "numberEnd r"
    and "sign \<in> {[], ''-''}"
  shows "scanNumber (sign @ ds @ r) = Some (sign @ ds, r)"
proof -
  obtain c r' where r: "r = c # r'" "\<not> is_digit c" "c \<notin> {CHR ''.'', CHR ''e'', CHR ''E''}"
    using assms(4) by (cases r) (auto simp: numberEnd_def)
  obtain d ds' where ds: "ds = d # ds'" "is_digit d" using assms(1,2) by (cases ds) auto
  have "d \<noteq> CHR ''-''" using ds(2) not_digit_sign by auto
  then have sign: "TrimPrefix (sign @ ds @ r) ''-'' = ds @ r" "(if HasPrefix (sign @ ds @ r) ''-'' then ''-'' else []) = sign"
    using assms(5) ds(1) by (auto simp: HasPrefix_def TrimPrefix_def)
  have tw: "takeWhile is_digit (ds @ r) = ds"
    using assms(1) r by (auto simp: list_all_iff takeWhile_append)
  have whole: "(if HasPrefix (ds @ r) ''0'' then ''0'' else takeWhile is_digit (ds @ r)) = ds"
    using tw assms(3) ds(1) by (auto simp: HasPrefix_def)
  have drop: "drop (length ds) (ds @ r) = r" by simp
  show ?thesis
    unfolding scanNumber_def sign Let_def whole drop
    using r assms(2) by (auto simp: HasPrefix_def)
qed

lemma scanNumber_Itoa:
  assumes "numberEnd r"
  shows "scanNumber (Itoa i @ r) = Some (Itoa i, r)"
proof -
  have d: "list_all is_digit (nat_digits n)" "nat_digits n \<noteq> []"
    "hd (nat_digits n) = CHR ''0'' \<Longrightarrow> nat_digits n = ''0''" for n
  proof -
    assume "hd (nat_digits n) = CHR ''0''"
    then have "n = 0" by (rule nat_digits_hd)
    then show "nat_digits n = ''0''" by (simp add: nat_digits.simps [of 0] digit_char_def char_of_eq_iff)
  qed (simp_all add: nat_digits_all)
  show ?thesis
    using scanNumber_digits [OF d [of "nat (- i)"] assms, where sign = "''-''"]
      scanNumber_digits [OF d [of "nat i"] assms, where sign = "[]"]
    by (simp add: Itoa_def)
qed

definition field_ok :: "field \<Rightarrow> bool" where
  "field_ok f \<longleftrightarrow> (case f of FStr s \<Rightarrow> ValidString s | FInt _ \<Rightarrow> True)"

lemma Itoa_head: "\<exists>c r. Itoa i = c # r \<and> (is_digit c \<or> c = CHR ''-'')"
proof (cases "i < 0")
  case False
  obtain c r where "nat_digits (nat i) = c # r" using nat_digits_not_Nil by (meson neq_Nil_conv)
  with False nat_digits_all [of "nat i"] show ?thesis by (simp add: Itoa_def)
qed (simp add: Itoa_def)

lemma parse_field:
  assumes "field_ok f" and "numberEnd r"
  shows "parseValue (Suc n) depth (encodeField f @ r) = Some (fieldValue f, r)"
proof (cases f)
  case (FStr s)
  with assms(1) have "scanString (encodeChars s @ CHR ''\"'' # r) = Some (s, r)"
    by (simp add: field_ok_def scanString_encodeChars)
  with FStr show ?thesis
    by (simp add: encodeField_def encodeString_def fieldValue_def skipSpace_Cons)
next
  case (FInt i)
  obtain c w where c: "Itoa i = c # w" "is_digit c \<or> c = CHR ''-''" using Itoa_head by blast
  have head: "c \<notin> {CHR '' '', CHR 0x09, CHR 0x0A, CHR 0x0D}" "c \<noteq> CHR ''\"''" "c \<noteq> CHR ''{''" "c \<noteq> CHR ''[''"
    "c \<noteq> CHR ''n''" "c \<noteq> CHR ''t''" "c \<noteq> CHR ''f''"
    using c(2) by (auto simp: is_digit_def)
  have "\<not> HasPrefix (c # w @ r) ''null''" "\<not> HasPrefix (c # w @ r) ''true''" "\<not> HasPrefix (c # w @ r) ''false''"
    using head by (auto simp: HasPrefix_def)
  moreover have "scanNumber (c # w @ r) = Some (c # w, r)"
    using scanNumber_Itoa [OF assms(2), of i] c(1) by simp
  ultimately show ?thesis
    using head FInt c(1) by (simp add: encodeField_def fieldValue_def skipSpace_Cons)
qed

lemma parse_members:
  assumes "fields \<noteq> []" and "\<forall>(k, f)\<in>set fields. ValidString k \<and> field_ok f" and "length fields < n"
  shows "parseMembers n depth (JoinWith '','' (map (\<lambda>(k, f). encodeString k @ '':'' @ encodeField f) fields) @ CHR ''}'' # r)
    = Some (map (\<lambda>(k, f). (k, fieldValue f)) fields, r)"
  using assms
proof (induction fields arbitrary: n)
  case (Cons kf fields)
  obtain k f where kf: "kf = (k, f)" by (cases kf)
  obtain n' where n: "n = Suc (Suc n')" using Cons.prems(3) by (cases n; cases "n - 1") auto
  let ?tail = "if fields = [] then CHR ''}'' # r
     else CHR '','' # JoinWith '','' (map (\<lambda>(k, f). encodeString k @ '':'' @ encodeField f) fields) @ CHR ''}'' # r"
  have enc: "JoinWith '','' (map (\<lambda>(k, f). encodeString k @ '':'' @ encodeField f) (kf # fields)) @ CHR ''}'' # r
      = CHR ''\"'' # encodeChars k @ CHR ''\"'' # CHR '':'' # encodeField f @ ?tail"
    by (simp add: kf JoinWith_Cons encodeString_def)
  have scan_k: "scanString (encodeChars k @ CHR ''\"'' # x) = Some (k, x)" for x
    using Cons.prems(2) kf by (auto intro: scanString_encodeChars)
  have parse_f: "parseValue (Suc n') depth (encodeField f @ ?tail) = Some (fieldValue f, ?tail)"
    using Cons.prems(2) kf by (intro parse_field) (auto simp: numberEnd_def is_digit_def)
  show ?case
  proof (cases "fields = []")
    case True
    with parse_f show ?thesis
      unfolding enc n by (simp add: skipSpace_Cons scan_k kf del: parseValue.simps)
  next
    case False
    with Cons.IH [of "Suc n'"] Cons.prems n parse_f show ?thesis
      unfolding enc n by (simp add: skipSpace_Cons scan_k kf del: parseValue.simps)
  qed
qed simp

lemma length_JoinWith_ge: "length ws \<le> Suc (length (JoinWith '','' ws))"
proof (induction ws)
  case (Cons w ws)
  then show ?case by (cases "ws = []") (simp_all add: JoinWith_Cons)
qed simp

lemma parseDocument_MarshalStruct:
  assumes "fields \<noteq> []" and "\<forall>(k, f)\<in>set fields. ValidString k \<and> field_ok f"
  shows "parseDocument (MarshalStruct fields) = Some (JObj (map (\<lambda>(k, f). (k, fieldValue f)) fields))"
proof -
  let ?ws = "map (\<lambda>(k, f). encodeString k @ '':'' @ encodeField f) fields"
  let ?body = "JoinWith '','' ?ws @ ''}''"
  have "length fields < Suc (Suc (length (JoinWith '','' ?ws)))" using length_JoinWith_ge [of ?ws] by simp
  then have m: "parseMembers (Suc (Suc (length (JoinWith '','' ?ws)))) 1 ?body
      = Some (map (\<lambda>(k, f). (k, fieldValue f)) fields, [])"
    by (rule parse_members [OF assms])
  obtain k f rest where "fields = (k, f) # rest" using assms(1) by (cases fields) auto
  then obtain x where x: "?body = CHR ''\"'' # x"
    by (cases rest) (auto simp: encodeString_def JoinWith_Cons)
  have "\<not> HasPrefix (skipSpace ?body) ''}''"
    unfolding x by (simp add: skipSpace_Cons HasPrefix_def)
  with m show ?thesis
    by (simp add: parseDocument_def MarshalStruct_def skipSpace_Cons del: parseMembers.simps)
qed

end
