(* ===== verification/Object_Storage.thy ===== *)
theory Object_Storage
  imports Domain
begin

text \<open>
  Object storage (package \<open>internal/infra/storage\<close>). The state is the set of objects of the
  S3-compatible server: a map from bucket and key to content. \<open>StatObject\<close>, \<open>CopyObject\<close>
  and \<open>RemoveObject\<close> are the three server calls, with their documented effect or the fault
  the environment injects; \<open>Promote\<close>, \<open>Discard\<close> and \<open>Delete\<close> are the repository's code
  on top of them, and \<open>Build\<close> makes public URLs. The locale \<open>image_promoter\<close> is the
  contract of the service's \<open>ObjectPromoter\<close> interface; it is interpreted on the code's
  \<open>ObjectPromoter\<close>.
\<close>

section \<open>The server calls\<close>

type_synonym store = "string \<times> string \<rightharpoonup> string"

definition NoSuchKey :: err where
  "NoSuchKey = MinioError ''NoSuchKey'' 404"

definition StatObject :: "env \<Rightarrow> string \<Rightarrow> string \<Rightarrow> store \<Rightarrow> unit result" where
  "StatObject E b k st =
     (case fault E ''StatObject'' of
        Some e \<Rightarrow> Inl e
      | None \<Rightarrow> (case st (b, k) of None \<Rightarrow> Inl NoSuchKey | Some _ \<Rightarrow> Inr ()))"

definition CopyObject :: "env \<Rightarrow> string \<Rightarrow> string \<Rightarrow> string \<Rightarrow> store \<Rightarrow> store \<times> unit result" where
  "CopyObject E b dest source st =
     (case fault E ''CopyObject'' of
        Some e \<Rightarrow> (st, Inl e)
      | None \<Rightarrow> (case st (b, source) of
            None \<Rightarrow> (st, Inl NoSuchKey)
          | Some content \<Rightarrow> (st((b, dest) \<mapsto> content), Inr ())))"

definition RemoveObject :: "env \<Rightarrow> string \<Rightarrow> string \<Rightarrow> store \<Rightarrow> store \<times> unit result" where
  "RemoveObject E b k st =
     (case fault E ''RemoveObject'' of
        Some e \<Rightarrow> (st, Inl e)
      | None \<Rightarrow> (st((b, k) := None), Inr ()))"

section \<open>Promotion of staged objects (object\_promoter.go)\<close>

record ObjectPromoter =
  op_bucket :: string

definition isObjectNotFound :: "err \<Rightarrow> bool" where
  "isObjectNotFound e =
     (case e of
        MinioError code status \<Rightarrow> code = ''NoSuchKey'' \<or> code = ''NotFound'' \<or> status = 404
      | _ \<Rightarrow> False)"

definition Promote ::
  "env \<Rightarrow> ObjectPromoter \<Rightarrow> string \<Rightarrow> string \<Rightarrow> store \<Rightarrow> store \<times> unit result" where
  "Promote E p sourceKey destKey st =
     (let source = TrimSpace sourceKey; dest = TrimSpace destKey in
      if source = [] \<or> dest = [] then (st, Inl (Errorf ''storage: object key is required''))
      else if source = dest then (st, Inl (Errorf ''storage: source and destination must differ''))
      else case StatObject E (op_bucket p) dest st of
          Inr _ \<Rightarrow> (st, Inr ())
        | Inl e \<Rightarrow>
            (if \<not> isObjectNotFound e then (st, Inl (Wrap ''storage: stat destination object'' e))
             else case CopyObject E (op_bucket p) dest source st of
                 (st', Inl e') \<Rightarrow>
                   (if isObjectNotFound e'
                    then (st', Inl (Wrap ''storage: copy object'' (Sentinel storage_ErrObjectNotFound)))
                    else (st', Inl (Wrap ''storage: copy object'' e')))
               | (st', Inr _) \<Rightarrow> (st', Inr ())))"

definition deleteBestEffort :: "env \<Rightarrow> ObjectPromoter \<Rightarrow> string \<Rightarrow> store \<Rightarrow> store" where
  "deleteBestEffort E p objectKey st = fst (RemoveObject E (op_bucket p) objectKey st)"

definition Discard :: "env \<Rightarrow> ObjectPromoter \<Rightarrow> string \<Rightarrow> store \<Rightarrow> store" where
  "Discard E p objectKey st =
     (let key = TrimSpace objectKey in if key = [] then st else deleteBestEffort E p key st)"

section \<open>Deletion (object\_deleter.go)\<close>

record ObjectDeleter =
  od_bucket :: string

definition Delete :: "env \<Rightarrow> ObjectDeleter \<Rightarrow> string \<Rightarrow> store \<Rightarrow> store \<times> unit result" where
  "Delete E d objectKey st =
     (let key = TrimSpace objectKey in
      if key = [] then (st, Inl (Errorf ''storage: object key is required''))
      else case RemoveObject E (od_bucket d) key st of
          (st', Inl e) \<Rightarrow> (st', Inl (Wrap ''storage: delete object'' e))
        | (st', Inr _) \<Rightarrow> (st', Inr ()))"

section \<open>The contract of the promoter\<close>

text \<open>
  What the services rely on: a successful promotion leaves the destination in place, promotion
  never removes an object, touches nothing but the destination, and discarding touches nothing
  but the discarded key.
\<close>

locale image_promoter =
  fixes promote :: "string \<Rightarrow> string \<Rightarrow> 's \<Rightarrow> 's \<times> unit result"
    and discard :: "string \<Rightarrow> 's \<Rightarrow> 's"
    and object_at :: "'s \<Rightarrow> string \<Rightarrow> string option"
  assumes promote_present: "promote src dst s = (s', Inr ()) \<Longrightarrow> object_at s' (TrimSpace dst) \<noteq> None"
    and promote_keeps: "object_at s k = Some c \<Longrightarrow> k \<noteq> TrimSpace dst \<Longrightarrow> object_at (fst (promote src dst s)) k = Some c"
    and promote_monotone: "object_at s k \<noteq> None \<Longrightarrow> object_at (fst (promote src dst s)) k \<noteq> None"
    and promote_failed: "promote src dst s = (s', Inl e) \<Longrightarrow> s' = s"
    and discard_other: "k \<noteq> TrimSpace src \<Longrightarrow> object_at (discard src s) k = object_at s k"
begin

lemma promote_then_discard:
  assumes "promote src dst s = (s', Inr ())" and "TrimSpace src \<noteq> TrimSpace dst"
  shows "object_at (discard src s') (TrimSpace dst) \<noteq> None"
  using promote_present [OF assms(1)] discard_other [of "TrimSpace dst" src s'] assms(2) by simp

lemma promote_discard_keeps:
  assumes "object_at s k \<noteq> None" and "k \<noteq> TrimSpace src"
  shows "object_at (discard src (fst (promote src dst s))) k \<noteq> None"
  using assms by (simp add: discard_other promote_monotone)

end

lemma Promote_cases:
  "Promote E p src dst st = (st', r) \<Longrightarrow>
     (st' = st \<or> (\<exists>c. st (op_bucket p, TrimSpace src) = Some c \<and> r = Inr ()
        \<and> st' = st((op_bucket p, TrimSpace dst) \<mapsto> c)))
     \<and> (r = Inr () \<longrightarrow> st' (op_bucket p, TrimSpace dst) \<noteq> None)
     \<and> (\<forall>e. r = Inl e \<longrightarrow> st' = st)"
  by (auto simp: Promote_def StatObject_def CopyObject_def Let_def
      split: if_splits option.splits sum.splits prod.splits)

lemma Discard_other: "(b, k) \<noteq> (op_bucket p, TrimSpace src) \<Longrightarrow> Discard E p src st (b, k) = st (b, k)"
  by (auto simp: Discard_def deleteBestEffort_def RemoveObject_def Let_def split: option.splits)

interpretation s3: image_promoter "Promote E p" "Discard E p" "\<lambda>st k. st (op_bucket p, k)"
  for E p
proof unfold_locales
  fix src dst s s'
  assume "Promote E p src dst s = (s', Inr ())"
  then show "s' (op_bucket p, TrimSpace dst) \<noteq> None" using Promote_cases by blast
next
  fix src dst and s :: store and k c
  assume "s (op_bucket p, k) = Some c" "k \<noteq> TrimSpace dst"
  then show "fst (Promote E p src dst s) (op_bucket p, k) = Some c"
    using Promote_cases [of E p src dst s "fst (Promote E p src dst s)" "snd (Promote E p src dst s)"]
    by auto
next
  fix src dst and s :: store and k
  assume "s (op_bucket p, k) \<noteq> None"
  then show "fst (Promote E p src dst s) (op_bucket p, k) \<noteq> None"
    using Promote_cases [of E p src dst s "fst (Promote E p src dst s)" "snd (Promote E p src dst s)"]
    by auto
next
  fix src dst s s' e
  assume "Promote E p src dst s = (s', Inl e)"
  then show "s' = s" using Promote_cases by blast
next
  fix k src and s :: store
  assume "k \<noteq> TrimSpace src"
  then show "Discard E p src s (op_bucket p, k) = s (op_bucket p, k)" by (simp add: Discard_other)
qed

section \<open>Public URLs (public\_url.go)\<close>

text \<open>\<open>url.PathEscape\<close>: letters, digits and the marks a path segment may hold stay, every
  other byte is percent-encoded with upper-case digits.\<close>

definition segment_byte :: "char \<Rightarrow> bool" where
  "segment_byte c \<longleftrightarrow>
     (let n = (of_char c :: nat) in
      (48 \<le> n \<and> n \<le> 57) \<or> (65 \<le> n \<and> n \<le> 90) \<or> (97 \<le> n \<and> n \<le> 122) \<or> c \<in> set ''-_.~$&+=:@'')"

definition upper_hex :: "nat \<Rightarrow> char" where
  "upper_hex d = (if d < 10 then char_of (48 + d) else char_of (55 + d))"

definition escape_byte :: "char \<Rightarrow> string" where
  "escape_byte c =
     (if segment_byte c then [c]
      else [CHR ''%'', upper_hex (of_char c div 16), upper_hex (of_char c mod 16)])"

definition PathEscape :: "string \<Rightarrow> string" where
  "PathEscape s = concat (map escape_byte s)"

record PublicURLBuilder =
  baseURL :: string

definition escapeSegment :: "string \<Rightarrow> string" where
  "escapeSegment segment =
     (if segment = ''.'' then ''%2E'' else if segment = ''..'' then ''%2E%2E'' else PathEscape segment)"

definition Build :: "PublicURLBuilder \<Rightarrow> string option \<Rightarrow> string option" where
  "Build b objectKey =
     (case objectKey of
        None \<Rightarrow> None
      | Some k \<Rightarrow>
          (let key = TrimSpace k in
           if key = [] then None
           else Some (baseURL b @ ''/'' @ JoinWith ''/'' (map escapeSegment (SplitByte (CHR ''/'') key)))))"

lemma upper_hex_inj: "a < 16 \<Longrightarrow> b < 16 \<Longrightarrow> upper_hex a = upper_hex b \<Longrightarrow> a = b"
proof -
  assume ab: "a < 16" "b < 16" and eq: "upper_hex a = upper_hex b"
  from eq have "(of_char (upper_hex a) :: nat) = of_char (upper_hex b)" by simp
  with ab show "a = b" by (auto simp: upper_hex_def split: if_splits)
qed

lemma segment_byte_not_percent: "\<not> segment_byte CHR ''%''" "\<not> segment_byte CHR ''/''"
  by (simp_all add: segment_byte_def)

lemma escape_byte_inj_append:
  assumes "escape_byte c @ s = escape_byte d @ t"
  shows "c = d \<and> s = t"
proof (cases "segment_byte c"; cases "segment_byte d")
  assume "\<not> segment_byte c" "\<not> segment_byte d"
  with assms have "upper_hex (of_char c div 16) = upper_hex (of_char d div 16)"
    "upper_hex (of_char c mod 16) = upper_hex (of_char d mod 16)" and st: "s = t"
    by (auto simp: escape_byte_def)
  moreover have "(of_char c :: nat) < 256" "(of_char d :: nat) < 256" by simp_all
  ultimately have "(of_char c :: nat) div 16 = of_char d div 16" "(of_char c :: nat) mod 16 = of_char d mod 16"
    by (auto intro!: upper_hex_inj simp: div_less_iff_less_mult)
  then have "(of_char c :: nat) = of_char d" by (metis div_mult_mod_eq)
  with st show ?thesis by simp
qed (use assms segment_byte_not_percent in \<open>auto simp: escape_byte_def\<close>)

lemma escape_byte_not_Nil [simp]: "escape_byte c \<noteq> []"
  by (simp add: escape_byte_def)

lemma PathEscape_inj: "PathEscape s = PathEscape t \<Longrightarrow> s = t"
proof (induction s arbitrary: t)
  case Nil
  then show ?case by (cases t) (auto simp: PathEscape_def)
next
  case (Cons c s)
  then show ?case
    by (cases t) (auto simp: PathEscape_def dest!: escape_byte_inj_append)
qed

lemma escape_byte_dot: "escape_byte c \<noteq> ''%2E''"
proof (cases "segment_byte c")
  case False
  show ?thesis
  proof
    assume "escape_byte c = ''%2E''"
    with False have "upper_hex (of_char c div 16) = upper_hex 2" "upper_hex (of_char c mod 16) = upper_hex 14"
      by (auto simp: escape_byte_def upper_hex_def char_of_def bit_simps)
    moreover have "(of_char c :: nat) < 256" by simp
    ultimately have "(of_char c :: nat) div 16 = 2" "(of_char c :: nat) mod 16 = 14"
      by (auto intro!: upper_hex_inj simp: div_less_iff_less_mult)
    then have "(of_char c :: nat) = 2 * 16 + 14" by (metis div_mult_mod_eq)
    then have "(of_char c :: nat) = of_char (CHR ''.'')" by simp
    then have "c = CHR ''.''" by (simp only: of_char_eq_iff)
    with False show False by (simp add: segment_byte_def)
  qed
qed (simp add: escape_byte_def)

lemma PathEscape_percent: "PathEscape s \<noteq> ''%2E'' @ r"
proof
  assume eq: "PathEscape s = ''%2E'' @ r"
  then obtain c s' where s: "s = c # s'" by (cases s) (auto simp: PathEscape_def)
  show False
  proof (cases "segment_byte c")
    case True
    with eq s segment_byte_not_percent show ?thesis by (auto simp: PathEscape_def escape_byte_def)
  next
    case False
    with eq s escape_byte_dot [of c] show ?thesis by (auto simp: PathEscape_def escape_byte_def)
  qed
qed

lemma escapeSegment_inj: "escapeSegment s = escapeSegment t \<Longrightarrow> s = t"
  using PathEscape_percent [of s "[]"] PathEscape_percent [of t "[]"]
    PathEscape_percent [of s "''%2E''"] PathEscape_percent [of t "''%2E''"]
  by (auto simp: escapeSegment_def dest: PathEscape_inj split: if_splits)

lemma escapeSegment_no_slash: "CHR ''/'' \<notin> set (escapeSegment s)"
proof -
  have "upper_hex d \<noteq> CHR ''/''" if "d < 16" for d
  proof
    assume "upper_hex d = CHR ''/''"
    then have "(of_char (upper_hex d) :: nat) = 47" by simp
    with that show False by (auto simp: upper_hex_def split: if_splits)
  qed
  moreover have "(of_char c :: nat) div 16 < 16" for c
  proof -
    have "(of_char c :: nat) < 256" by simp
    then show ?thesis by (simp add: div_less_iff_less_mult)
  qed
  ultimately have "CHR ''/'' \<notin> set (escape_byte c)" for c
    using segment_byte_not_percent(2)
    by (cases "segment_byte c") (auto simp: escape_byte_def eq_commute [of "CHR ''/''"])
  then show ?thesis by (auto simp: escapeSegment_def PathEscape_def)
qed

lemma Split_Join:
  "ws \<noteq> [] \<Longrightarrow> \<forall>w\<in>set ws. sep \<notin> set w \<Longrightarrow> SplitByte sep (JoinWith [sep] ws) = ws"
proof (induction ws)
  case (Cons w ws)
  have app: "sep \<notin> set v \<Longrightarrow> SplitByte sep (v @ sep # r) = v # SplitByte sep r" for v r
    by (induction v) auto
  have single: "sep \<notin> set v \<Longrightarrow> SplitByte sep v = [v]" for v
    by (induction v) auto
  show ?case
    using Cons by (cases "ws = []") (auto simp: JoinWith_Cons app single)
qed simp

end
