(* ===== verification/Object_Key.thy ===== *)
theory Object_Key
  imports Object_Storage
begin

text \<open>
  Image object keys and uploads (\<open>internal/service/object_key.go\<close>,
  \<open>internal/service/upload.go\<close>, \<open>internal/http/handler/image_object_key.go\<close>). A client
  uploads to a staging key \<open>tmp/DIRECTORY/UUID.EXT\<close>; the services accept only such keys,
  promote the object to \<open>DIRECTORY/UUID.EXT\<close> and discard the staged copy. The lemmas: the
  shape of an accepted key, the round trip of a presigned key, injectivity, and what promotion
  does to the object store.
\<close>

section \<open>Keys\<close>

definition stagingPrefix :: string where [go_defs]:
  "stagingPrefix = ''tmp/''"

definition ProfileImageDirectory :: string where [go_defs]:
  "ProfileImageDirectory = ''profiles''"

definition CampaignImageDirectory :: string where [go_defs]:
  "CampaignImageDirectory = ''campaigns''"

definition profileImageTypes :: "(string \<times> string) list" where
  "profileImageTypes = [(''image/jpeg'', ''.jpg''), (''image/png'', ''.png''), (''image/webp'', ''.webp'')]"

definition stagingImageObjectKey :: "string \<Rightarrow> string \<Rightarrow> string \<Rightarrow> string" where
  "stagingImageObjectKey directory idText extension = stagingPrefix @ directory @ ''/'' @ idText @ extension"

definition profileImageExtensionFromName :: "string \<Rightarrow> string" where
  "profileImageExtensionFromName name =
     (case find (\<lambda>(_, extension). HasSuffix name extension) profileImageTypes of
        Some (_, extension) \<Rightarrow> extension
      | None \<Rightarrow> [])"

definition profileImageExtension :: "env \<Rightarrow> string \<Rightarrow> string result" where
  "profileImageExtension E contentType =
     (let normalized = Lower E (TrimSpace contentType) in
      case find (\<lambda>(ct, _). ct = normalized) profileImageTypes of
        Some (_, extension) \<Rightarrow> Inr extension
      | None \<Rightarrow> Inl (Sentinel service_ErrUnsupportedProfileImageType))"

definition CanonicalImageObjectKey :: "env \<Rightarrow> string \<Rightarrow> string \<Rightarrow> string result" where
  "CanonicalImageObjectKey E stagingKey expectedDirectory =
     (let key = TrimSpace stagingKey in
      if key = [] \<or> HasPrefix key ''/'' \<or> Contains key ''..''
      then Inl (Sentinel service_ErrInvalidImageObjectKey)
      else
        let prefix = stagingPrefix @ expectedDirectory @ ''/'' in
        if \<not> HasPrefix key prefix then Inl (Sentinel service_ErrInvalidImageObjectKey)
        else
          let rest = TrimPrefix key prefix in
          if rest = [] \<or> Contains rest ''/'' then Inl (Sentinel service_ErrInvalidImageObjectKey)
          else
            let extension = profileImageExtensionFromName rest in
            if extension = [] then Inl (Sentinel service_ErrInvalidImageObjectKey)
            else case uuid_Parse E (TrimSuffix rest extension) of
                None \<Rightarrow> Inl (Sentinel service_ErrInvalidImageObjectKey)
              | Some _ \<Rightarrow> Inr (expectedDirectory @ ''/'' @ rest))"

section \<open>Promotion and disposal\<close>

definition normalizeOptionalString :: "string option \<Rightarrow> string option" where
  "normalizeOptionalString value =
     (case value of
        None \<Rightarrow> None
      | Some v \<Rightarrow> (let normalized = TrimSpace v in if normalized = [] then None else Some normalized))"

definition promoteImageObjectKey ::
  "env \<Rightarrow> ObjectPromoter option \<Rightarrow> string \<Rightarrow> string \<Rightarrow> store \<Rightarrow> store \<times> string result" where
  "promoteImageObjectKey E promoter stagingKey directory st =
     (case CanonicalImageObjectKey E stagingKey directory of
        Inl e \<Rightarrow> (st, Inl e)
      | Inr canonical \<Rightarrow>
          (case promoter of
             None \<Rightarrow> (st, Inr canonical)
           | Some p \<Rightarrow>
               (case Promote E p (TrimSpace stagingKey) canonical st of
                  (st', Inl e) \<Rightarrow>
                    (if errors_Is e storage_ErrObjectNotFound
                     then (st', Inl (Sentinel service_ErrImageObjectNotFound))
                     else (st', Inl (Wrap ''service: promote image object'' e)))
                | (st', Inr _) \<Rightarrow> (st', Inr canonical))))"

definition discardStagingImage ::
  "env \<Rightarrow> ObjectPromoter option \<Rightarrow> string option \<Rightarrow> store \<Rightarrow> store" where
  "discardStagingImage E promoter stagingKey st =
     (case (promoter, stagingKey) of
        (Some p, Some k) \<Rightarrow> (let key = TrimSpace k in if key = [] then st else Discard E p key st)
      | _ \<Rightarrow> st)"

definition promoteOptionalImageObjectKey ::
  "env \<Rightarrow> ObjectPromoter option \<Rightarrow> string option \<Rightarrow> string \<Rightarrow> store \<Rightarrow> store \<times> string option result" where
  "promoteOptionalImageObjectKey E promoter stagingKey directory st =
     (case normalizeOptionalString stagingKey of
        None \<Rightarrow> (st, Inr None)
      | Some normalized \<Rightarrow>
          (case promoteImageObjectKey E promoter normalized directory st of
             (st', Inl e) \<Rightarrow> (st', Inl e)
           | (st', Inr canonical) \<Rightarrow> (st', Inr (Some canonical))))"

section \<open>Presigned uploads (internal/service/upload.go)\<close>

definition MinProfileImageSize :: int where
  "MinProfileImageSize = 1"

definition MaxProfileImageSize :: int where
  "MaxProfileImageSize = 5242880"

record PresignProfileImageInput =
  pi_ContentType :: string
  pi_Size :: int

record PresignProfileImageResult =
  pr_ObjectKey :: string
  pr_URL :: string

text \<open>\<open>presigner\<close> is the storage client's \<open>PresignPut\<close>.\<close>

definition presignImage ::
  "env \<Rightarrow> (string \<Rightarrow> string \<Rightarrow> int \<Rightarrow> string result) \<Rightarrow> PresignProfileImageInput \<Rightarrow> string \<Rightarrow> string
     \<Rightarrow> PresignProfileImageResult result" where
  "presignImage E presigner input directory imageKind =
     (let contentType = Lower E (TrimSpace (pi_ContentType input)) in
      case profileImageExtension E contentType of
        Inl e \<Rightarrow> Inl e
      | Inr extension \<Rightarrow>
          (if pi_Size input < MinProfileImageSize \<or> pi_Size input > MaxProfileImageSize
           then Inl (Sentinel service_ErrInvalidProfileImageSize)
           else case generateID E of
               Inl e \<Rightarrow> Inl (Wrap (''service: generate '' @ imageKind @ '' image ID'') e)
             | Inr newID \<Rightarrow>
                 (let objectKey = stagingImageObjectKey directory (uuid_String E newID) extension in
                  case presigner objectKey contentType (pi_Size input) of
                    Inl e \<Rightarrow> Inl (Wrap (''service: presign '' @ imageKind @ '' image upload'') e)
                  | Inr url \<Rightarrow> Inr \<lparr>pr_ObjectKey = objectKey, pr_URL = url\<rparr>)))"

definition PresignProfileImage ::
  "env \<Rightarrow> (string \<Rightarrow> string \<Rightarrow> int \<Rightarrow> string result) \<Rightarrow> PresignProfileImageInput
     \<Rightarrow> PresignProfileImageResult result" where
  "PresignProfileImage E presigner input = presignImage E presigner input ProfileImageDirectory ''profile''"

definition PresignCampaignImage ::
  "env \<Rightarrow> (string \<Rightarrow> string \<Rightarrow> int \<Rightarrow> string result) \<Rightarrow> PresignProfileImageInput
     \<Rightarrow> PresignProfileImageResult result" where
  "PresignCampaignImage E presigner input = presignImage E presigner input CampaignImageDirectory ''campaign''"

section \<open>The shape of accepted keys\<close>

definition imageExtensions :: "string set" where
  "imageExtensions = {''.jpg'', ''.png'', ''.webp''}"

lemma extension_from_name:
  "profileImageExtensionFromName name \<noteq> [] \<Longrightarrow>
     profileImageExtensionFromName name \<in> imageExtensions
     \<and> HasSuffix name (profileImageExtensionFromName name)"
  by (auto simp: profileImageExtensionFromName_def profileImageTypes_def imageExtensions_def
      split: if_splits)

lemma CanonicalImageObjectKey_ok:
  assumes "CanonicalImageObjectKey E stagingKey directory = Inr key"
  obtains nm ext u where "ext \<in> imageExtensions" "uuid_Parse E nm = Some u"
    "TrimSpace stagingKey = stagingPrefix @ directory @ ''/'' @ nm @ ext"
    "key = directory @ ''/'' @ nm @ ext" "CHR ''/'' \<notin> set nm"
    "\<not> Contains (TrimSpace stagingKey) ''..''"
proof -
  define p where "p = stagingPrefix @ directory @ ''/''"
  define rest where "rest = TrimPrefix (TrimSpace stagingKey) p"
  define ext where "ext = profileImageExtensionFromName rest"
  from assms obtain u where
    a: "\<not> Contains (TrimSpace stagingKey) ''..''" "HasPrefix (TrimSpace stagingKey) p"
      "\<not> Contains rest ''/''" "ext \<noteq> []" "uuid_Parse E (TrimSuffix rest ext) = Some u"
      "key = directory @ ''/'' @ rest"
    by (auto simp: CanonicalImageObjectKey_def Let_def p_def rest_def ext_def
        split: if_splits option.splits)
  have rest: "TrimSpace stagingKey = p @ rest"
    using a(2) by (auto simp: HasPrefix_iff rest_def)
  have e: "ext \<in> imageExtensions" "HasSuffix rest ext"
    using extension_from_name a(4) by (auto simp: ext_def)
  then obtain nm where nm: "rest = nm @ ext" by (auto simp: HasSuffix_iff)
  with a(5) have u: "uuid_Parse E nm = Some u" by (metis TrimSuffix_append)
  have slash: "CHR ''/'' \<notin> set nm"
    using a(3) nm Contains_singleton [of rest "CHR ''/''"] by auto
  show ?thesis
    by (rule that [of ext nm u]) (use e(1) u slash a(1,6) rest nm p_def in simp_all)
qed

lemma CanonicalImageObjectKey_error:
  "CanonicalImageObjectKey E stagingKey directory = Inl e \<Longrightarrow>
     e = Sentinel service_ErrInvalidImageObjectKey"
  by (auto simp: CanonicalImageObjectKey_def Let_def split: if_splits option.splits)

lemma Canonical_TrimSpace [simp]:
  "CanonicalImageObjectKey E (TrimSpace k) d = CanonicalImageObjectKey E k d"
  by (simp add: CanonicalImageObjectKey_def)

text \<open>The canonical key determines the staging key, so two uploads never share an image.\<close>

lemma CanonicalImageObjectKey_inj:
  assumes "CanonicalImageObjectKey E k1 d = Inr key" and "CanonicalImageObjectKey E k2 d = Inr key"
  shows "TrimSpace k1 = TrimSpace k2"
  using assms by (elim CanonicalImageObjectKey_ok) auto

lemma not_Contains_dots:
  assumes "list_all uuid_char nm" and "ext \<in> imageExtensions" and "d \<in> {''profiles'', ''campaigns''}"
  shows "\<not> Contains (stagingPrefix @ d @ ''/'' @ nm @ ext) ''..''"
proof -
  have dots: "Contains (c # s) ''..'' = (if c = CHR ''.'' then HasPrefix s ''.'' \<or> Contains s ''..'' else Contains s ''..'')" for c s
    by (auto simp: HasPrefix_def)
  have "Contains (nm @ ext) ''..'' = Contains ext ''..''"
    using assms(1) by (induction nm) (auto simp: dots uuid_char_def is_digit_def simp del: Contains.simps)
  moreover have "\<not> Contains ext ''..''"
    using assms(2) by (auto simp: imageExtensions_def HasPrefix_def)
  ultimately show ?thesis
    using assms(3) by (auto simp: stagingPrefix_def dots simp del: Contains.simps)
qed

lemma extension_of_uuid_name:
  assumes "list_all uuid_char nm" and "ext \<in> imageExtensions"
  shows "profileImageExtensionFromName (nm @ ext) = ext"
  using assms(2)
  by (auto simp: imageExtensions_def profileImageExtensionFromName_def profileImageTypes_def
      HasSuffix_def HasPrefix_def)

text \<open>A key handed out for an upload is accepted, and canonicalised to the same name.\<close>

lemma Canonical_of_staging:
  assumes "uuid_laws E" and "ext \<in> imageExtensions" and "d \<in> {''profiles'', ''campaigns''}"
  shows "CanonicalImageObjectKey E (stagingImageObjectKey d (uuid_String E u) ext) d
     = Inr (d @ ''/'' @ uuid_String E u @ ext)"
proof -
  let ?nm = "uuid_String E u"
  let ?key = "stagingPrefix @ d @ ''/'' @ ?nm @ ext"
  note nm = uuid_lawsD [OF assms(1), of u]
  have trim: "TrimSpace ?key = ?key"
    using assms(2,3) by (intro TrimSpace_id) (auto simp: stagingPrefix_def imageExtensions_def graphic_def)
  have slash: "\<not> Contains (?nm @ ext) ''/''"
    using nm(3) assms(2)
    by (auto simp: Contains_singleton imageExtensions_def list_all_iff uuid_char_def is_digit_def)
  have prefix: "HasPrefix ?key (stagingPrefix @ d @ ''/'')" "TrimPrefix ?key (stagingPrefix @ d @ ''/'') = ?nm @ ext"
    using HasPrefix_append [of "stagingPrefix @ d @ ''/''" "?nm @ ext"]
      TrimPrefix_append [of "stagingPrefix @ d @ ''/''" "?nm @ ext"] by simp_all
  have "ext \<noteq> []" "\<not> HasPrefix ?key ''/''" "?key \<noteq> []"
    using assms(2) by (auto simp: imageExtensions_def stagingPrefix_def HasPrefix_def)
  then show ?thesis
    using not_Contains_dots [OF nm(3) assms(2,3)] extension_of_uuid_name [OF nm(3) assms(2)] slash prefix
      nm(1,5) trim
    by (simp add: CanonicalImageObjectKey_def stagingImageObjectKey_def Let_def)
qed

section \<open>Promotion\<close>

lemma Canonical_TrimSpace_id:
  assumes "CanonicalImageObjectKey E k d = Inr key" and "d \<in> {''profiles'', ''campaigns''}"
  shows "TrimSpace key = key"
  using assms
  by (elim CanonicalImageObjectKey_ok) (auto intro!: TrimSpace_id simp: imageExtensions_def graphic_def)

lemma Canonical_differs:
  assumes "CanonicalImageObjectKey E k d = Inr key"
  shows "TrimSpace k \<noteq> key" "HasPrefix key (d @ ''/'')" "HasPrefix (TrimSpace k) ''tmp/''"
proof -
  from assms obtain nm ext where *: "TrimSpace k = stagingPrefix @ d @ ''/'' @ nm @ ext"
    "key = d @ ''/'' @ nm @ ext"
    by (rule CanonicalImageObjectKey_ok)
  then show "TrimSpace k \<noteq> key" by (auto simp: stagingPrefix_def)
  from * show "HasPrefix key (d @ ''/'')" "HasPrefix (TrimSpace k) ''tmp/''"
    by (auto simp: HasPrefix_iff stagingPrefix_def)
qed

lemma Canonical_staging: "CanonicalImageObjectKey E k d = Inr key \<Longrightarrow> TrimSpace k = ''tmp/'' @ key"
  by (erule CanonicalImageObjectKey_ok) (simp add: stagingPrefix_def)

text \<open>What a successful promotion leaves behind: the canonical key, its object in the store, and
  every object that was there before.\<close>

lemma promoteImageObjectKey_ok:
  assumes "promoteImageObjectKey E promoter k d st = (st', Inr key)"
    and "d \<in> {''profiles'', ''campaigns''}"
  shows "CanonicalImageObjectKey E k d = Inr key"
    and "promoter = Some p \<Longrightarrow> st' (op_bucket p, key) \<noteq> None"
    and "st x \<noteq> None \<Longrightarrow> st' x \<noteq> None"
proof -
  from assms(1) show c: "CanonicalImageObjectKey E k d = Inr key"
    by (auto simp: promoteImageObjectKey_def split: sum.splits option.splits prod.splits if_splits)
  then have t: "TrimSpace key = key" using assms(2) by (rule Canonical_TrimSpace_id)
  {
    assume p: "promoter = Some p"
    with assms(1) c have "Promote E p (TrimSpace k) key st = (st', Inr ())"
      by (auto simp: promoteImageObjectKey_def split: sum.splits prod.splits if_splits)
    from s3.promote_present [OF this] t show "st' (op_bucket p, key) \<noteq> None" by simp
  }
  assume x: "st x \<noteq> None"
  show "st' x \<noteq> None"
  proof (cases promoter)
    case None
    with assms(1) c x show ?thesis by (simp add: promoteImageObjectKey_def)
  next
    case (Some q)
    with assms(1) c have "Promote E q (TrimSpace k) key st = (st', Inr ())"
      by (auto simp: promoteImageObjectKey_def split: sum.splits prod.splits if_splits)
    from Promote_cases [OF this] x show ?thesis by auto
  qed
qed

lemma promoteImageObjectKey_failed:
  "promoteImageObjectKey E promoter k d st = (st', Inl e) \<Longrightarrow> st' = st"
  by (auto simp: promoteImageObjectKey_def dest: s3.promote_failed
      split: sum.splits option.splits prod.splits if_splits)

lemma discardStagingImage_other:
  assumes "\<not> HasPrefix k ''tmp/''" and "\<forall>s. stagingKey = Some s \<longrightarrow> HasPrefix (TrimSpace s) ''tmp/''"
  shows "discardStagingImage E promoter stagingKey st (b, k) = st (b, k)"
  using assms
  by (auto simp: discardStagingImage_def Let_def intro!: Discard_other split: option.splits)

lemma discardStagingImage_gone:
  assumes "st (b, k) \<noteq> None" and "discardStagingImage E promoter stagingKey st (b, k) = None"
  shows "\<exists>s. stagingKey = Some s \<and> k = TrimSpace s"
proof (rule ccontr)
  assume *: "\<not> ?thesis"
  have "Discard E p (TrimSpace s) st (b, k) = st (b, k)" if "stagingKey = Some s" for p s
    using * that by (intro Discard_other) auto
  then have "discardStagingImage E promoter stagingKey st (b, k) = st (b, k)"
    by (auto simp: discardStagingImage_def Let_def split: option.splits)
  with assms show False by simp
qed

end
