(* ===== verification/Http.thy ===== *)
theory Http
  imports Campaign_Queries Go_Json Object_Key
begin

text \<open>
  The HTTP toolkit (package \<open>internal/http/httpx\<close>) and the query parameters of the list
  endpoints (\<open>campaign_dto.go\<close>, \<open>supporter_dto.go\<close>). A request is a record of what the
  handlers read of it: \<open>rq_MediaType\<close> is the result of \<open>mime.ParseMediaType\<close> on the
  content type (\<open>None\<close> for its error), \<open>rq_Query\<close> and \<open>rq_URLParam\<close> are the parsed query
  and path, \<open>rq_Principal\<close> is the principal in the request's context. A response holds the
  status, the headers the code sets and the envelope. The lemmas: accepted list options are in
  range and their offset does not overflow, and the number of pages is exact.
\<close>

section \<open>Requests and responses\<close>

record Principal =
  p_WalletAddress :: string
  p_Role :: string

type_synonym url_Values = "string \<rightharpoonup> string list"

record Request =
  rq_Method :: string
  rq_Path :: "string list"
  rq_Header :: "string \<Rightarrow> string"
  rq_MediaType :: "string option"
  rq_Query :: url_Values
  rq_URLParam :: "string \<Rightarrow> string"
  rq_Body :: string
  rq_Principal :: "Principal option"

definition ContextWithPrincipal :: "Principal \<Rightarrow> Request \<Rightarrow> Request" where
  "ContextWithPrincipal pr r = r\<lparr>rq_Principal := Some pr\<rparr>"

definition PrincipalFromContext :: "Request \<Rightarrow> Principal option" where
  "PrincipalFromContext r = rq_Principal r"

type_synonym FieldErrors = "(string \<times> string list) list"

fun addError :: "string \<Rightarrow> string \<Rightarrow> FieldErrors \<Rightarrow> FieldErrors" where
  "addError field message [] = [(field, [message])]"
| "addError field message ((g, ms) # r) =
     (if g = field then (g, ms @ [message]) # r else (g, ms) # addError field message r)"

text \<open>The header of a response, as \<open>http.Header\<close> with its \<open>Add\<close> and \<open>Set\<close>.\<close>

type_synonym Header = "(string \<times> string list) list"

fun addHeader :: "string \<Rightarrow> string \<Rightarrow> Header \<Rightarrow> Header" where
  "addHeader key v [] = [(key, [v])]"
| "addHeader key v ((g, vs) # r) = (if g = key then (g, vs @ [v]) # r else (g, vs) # addHeader key v r)"

fun setHeader :: "string \<Rightarrow> string \<Rightarrow> Header \<Rightarrow> Header" where
  "setHeader key v [] = [(key, [v])]"
| "setHeader key v ((g, vs) # r) = (if g = key then (g, [v]) # r else (g, vs) # setHeader key v r)"

definition hasError :: "string \<Rightarrow> FieldErrors \<Rightarrow> bool" where
  "hasError field errs \<longleftrightarrow> field \<in> fst ` set errs"

record Pagination =
  pg_Current :: int
  pg_PageSize :: int
  pg_TotalPages :: int
  pg_TotalItems :: int

text \<open>Go's division of integers truncates towards zero.\<close>

definition goDiv :: "int \<Rightarrow> int \<Rightarrow> int" where
  "goDiv a b = sgn a * sgn b * (\<bar>a\<bar> div \<bar>b\<bar>)"

definition NewPagination :: "int \<Rightarrow> int \<Rightarrow> int \<Rightarrow> Pagination" where
  "NewPagination current pageSize totalItems =
     \<lparr>pg_Current = current, pg_PageSize = pageSize,
      pg_TotalPages =
        (if 0 < pageSize \<and> 0 < totalItems then goDiv (wrap64 (wrap64 (totalItems + pageSize) - 1)) pageSize else 0),
      pg_TotalItems = totalItems\<rparr>"

text \<open>The envelope of a response; \<open>'p\<close> is the type of its data. A response without a body (204) has
  no envelope.\<close>

record 'p Envelope =
  en_Success :: bool
  en_Code :: string
  en_Message :: string
  en_Data :: "'p option"
  en_Pagination :: "Pagination option"
  en_Errors :: FieldErrors

record 'p Response =
  hr_Status :: int
  hr_Headers :: Header
  hr_Envelope :: "'p Envelope option"

text \<open>\<open>WriteJSON\<close> of an envelope that \<open>json.Marshal\<close> encodes, as it does those of the code. The error of the
  write itself is only logged by the callers.\<close>

definition WriteJSON :: "Header \<Rightarrow> int \<Rightarrow> 'p Envelope \<Rightarrow> 'p Response" where [simp]:
  "WriteJSON headers status response =
     \<lparr>hr_Status = status, hr_Headers = setHeader ''Content-Type'' ''application/json; charset=utf-8'' headers,
      hr_Envelope = Some response\<rparr>"

definition WriteSuccess :: "Header \<Rightarrow> int \<Rightarrow> string \<Rightarrow> string \<Rightarrow> 'p \<Rightarrow> 'p Response" where
  "WriteSuccess headers status code message data =
     WriteJSON headers status
       \<lparr>en_Success = True, en_Code = code, en_Message = message, en_Data = Some data,
        en_Pagination = None, en_Errors = []\<rparr>"

definition WriteSuccessWithPagination ::
  "Header \<Rightarrow> int \<Rightarrow> string \<Rightarrow> string \<Rightarrow> 'p \<Rightarrow> Pagination \<Rightarrow> 'p Response" where
  "WriteSuccessWithPagination headers status code message data pagination =
     WriteJSON headers status
       \<lparr>en_Success = True, en_Code = code, en_Message = message, en_Data = Some data,
        en_Pagination = Some pagination, en_Errors = []\<rparr>"

definition WriteError :: "Header \<Rightarrow> int \<Rightarrow> string \<Rightarrow> string \<Rightarrow> FieldErrors \<Rightarrow> 'p Response" where
  "WriteError headers status code message errs =
     WriteJSON headers status
       \<lparr>en_Success = False, en_Code = code, en_Message = message, en_Data = None,
        en_Pagination = None, en_Errors = errs\<rparr>"

definition noContent :: "Header \<Rightarrow> 'p Response" where
  "noContent headers = \<lparr>hr_Status = 204, hr_Headers = headers, hr_Envelope = None\<rparr>"

definition noStore :: "Header \<Rightarrow> Header" where
  "noStore headers = setHeader ''Cache-Control'' ''no-store'' headers"

text \<open>\<open>Responder.ValidationError\<close>, \<open>InternalError\<close> and \<open>ReadError\<close>.\<close>

definition ValidationError :: "Header \<Rightarrow> FieldErrors \<Rightarrow> 'p Response" where
  "ValidationError headers errs = WriteError headers 422 ''VALIDATION_ERROR'' ''One or more fields are invalid.'' errs"

definition InternalError :: "Header \<Rightarrow> 'p Response" where
  "InternalError headers = WriteError headers 500 ''INTERNAL_SERVER_ERROR'' ''An internal server error occurred.'' []"

definition ReadError :: "Header \<Rightarrow> err \<Rightarrow> string \<Rightarrow> 'p Response" where
  "ReadError headers e bodyLimitMessage =
     (if errors_Is e httpx_ErrUnsupportedMediaType
      then WriteError headers 415 ''UNSUPPORTED_MEDIA_TYPE'' ''Content-Type must be application/json.'' []
      else if errors_Is e httpx_ErrBodyTooLarge
      then WriteError headers 413 ''REQUEST_TOO_LARGE'' bodyLimitMessage []
      else WriteError headers 400 ''INVALID_REQUEST'' ''Request body must contain one valid JSON object.'' [])"

section \<open>Reading a JSON body (request.go)\<close>

text \<open>What the code uses of other packages, as parameters: \<open>url_ParseRequestURI\<close> gives the scheme and
  the host; \<open>json_Violation\<close> tells, for a body over the limit, whether the bytes within the limit
  already violate the syntax or the target type, in which case the decoder reports that first.\<close>

record http_lib =
  url_ParseRequestURI :: "string \<Rightarrow> (string \<times> string) option"
  json_Violation :: "string \<Rightarrow> bool"

type_synonym 'm setter = "json \<Rightarrow> 'm \<Rightarrow> 'm option"

definition strField :: "(string \<Rightarrow> 'm \<Rightarrow> 'm) \<Rightarrow> 'm setter" where
  "strField assign v m = (case v of JStr s \<Rightarrow> Some (assign s m) | JNull \<Rightarrow> Some m | _ \<Rightarrow> None)"

definition intField :: "(int \<Rightarrow> 'm \<Rightarrow> 'm) \<Rightarrow> 'm setter" where
  "intField assign v m =
     (case v of
        JNum t \<Rightarrow> (case ParseInt t of Some i \<Rightarrow> Some (assign i m) | None \<Rightarrow> None)
      | JNull \<Rightarrow> Some m
      | _ \<Rightarrow> None)"

definition ptrField :: "(string option \<Rightarrow> 'm \<Rightarrow> 'm) \<Rightarrow> 'm setter" where
  "ptrField assign v m = (case v of JStr s \<Rightarrow> Some (assign (Some s) m) | JNull \<Rightarrow> Some (assign None m) | _ \<Rightarrow> None)"

text \<open>The members of an object with \<open>DisallowUnknownFields\<close>: an unknown key is an error, later
  members win; \<open>null\<close> for the whole struct leaves it as it is.\<close>

fun decodeMembers :: "(string \<times> 'm setter) list \<Rightarrow> (string \<times> json) list \<Rightarrow> 'm \<Rightarrow> 'm option" where
  "decodeMembers fs [] m = Some m"
| "decodeMembers fs ((k, v) # ms) m =
     (case fieldFor (map fst fs) k of
        None \<Rightarrow> None
      | Some f \<Rightarrow>
          (case map_of fs f of
             None \<Rightarrow> None
           | Some assign \<Rightarrow> (case assign v m of None \<Rightarrow> None | Some m' \<Rightarrow> decodeMembers fs ms m')))"

definition decodeStruct :: "(string \<times> 'm setter) list \<Rightarrow> 'm setter" where
  "decodeStruct fs v m = (case v of JNull \<Rightarrow> Some m | JObj ms \<Rightarrow> decodeMembers fs ms m | _ \<Rightarrow> None)"

definition structField :: "(string \<times> 's setter) list \<Rightarrow> ('m \<Rightarrow> 's) \<Rightarrow> ('s \<Rightarrow> 'm \<Rightarrow> 'm) \<Rightarrow> 'm setter" where
  "structField fs part assign v m =
     (case decodeStruct fs v (part m) of None \<Rightarrow> None | Some s \<Rightarrow> Some (assign s m))"

definition ReadJSON :: "http_lib \<Rightarrow> Request \<Rightarrow> (string \<times> 'm setter) list \<Rightarrow> 'm \<Rightarrow> nat \<Rightarrow> 'm result" where
  "ReadJSON L r fs zero maxBytes =
     (if rq_MediaType r \<noteq> Some ''application/json'' then Inl (Sentinel httpx_ErrUnsupportedMediaType)
      else if maxBytes < length (rq_Body r)
      then Inl (if json_Violation L (take maxBytes (rq_Body r)) then Wrap ''invalid'' (Sentinel httpx_ErrInvalidJSON)
                else Wrap ''limit'' (Sentinel httpx_ErrBodyTooLarge))
      else
        (case parseDocument (rq_Body r) of
           None \<Rightarrow> Inl (Wrap ''invalid'' (Sentinel httpx_ErrInvalidJSON))
         | Some v \<Rightarrow>
             (case decodeStruct fs v zero of
                None \<Rightarrow> Inl (Wrap ''invalid'' (Sentinel httpx_ErrInvalidJSON))
              | Some m \<Rightarrow> Inr m)))"

section \<open>Query parameters of the lists\<close>

definition firstQueryValue :: "string list \<Rightarrow> string" where
  "firstQueryValue values = (case values of [] \<Rightarrow> [] | v # _ \<Rightarrow> v)"

definition parsePositiveInt64 :: "string \<Rightarrow> int option" where
  "parsePositiveInt64 value =
     (case ParseInt (TrimSpace value) of None \<Rightarrow> None | Some parsed \<Rightarrow> if parsed < 1 then None else Some parsed)"

definition defaultCampaignListPage :: int where
  "defaultCampaignListPage = 1"

definition defaultCampaignListPageSize :: int where
  "defaultCampaignListPageSize = 10"

definition maxCampaignListPageSize :: int where
  "maxCampaignListPageSize = 100"

text \<open>The page and the page size, which the three list endpoints read the same way and with the same
  limits: the values so far, and the errors.\<close>

definition pageFromQuery :: "url_Values \<Rightarrow> FieldErrors \<Rightarrow> int \<times> FieldErrors" where
  "pageFromQuery qvs errs =
     (case qvs ''page'' of
        None \<Rightarrow> (defaultCampaignListPage, errs)
      | Some raw \<Rightarrow>
          (case parsePositiveInt64 (firstQueryValue raw) of
             None \<Rightarrow> (defaultCampaignListPage, addError ''page'' ''page must be a positive integer!'' errs)
           | Some page \<Rightarrow> (page, errs)))"

definition pageSizeFromQuery :: "url_Values \<Rightarrow> FieldErrors \<Rightarrow> int \<times> FieldErrors" where
  "pageSizeFromQuery qvs errs =
     (case qvs ''pageSize'' of
        None \<Rightarrow> (defaultCampaignListPageSize, errs)
      | Some raw \<Rightarrow>
          (case parsePositiveInt64 (firstQueryValue raw) of
             None \<Rightarrow> (defaultCampaignListPageSize, addError ''pageSize'' ''pageSize must be an integer between 1 and 100!'' errs)
           | Some pageSize \<Rightarrow>
               (if maxCampaignListPageSize < pageSize
                then (defaultCampaignListPageSize, addError ''pageSize'' ''pageSize must be an integer between 1 and 100!'' errs)
                else (pageSize, errs))))"

definition pageBound :: "int \<Rightarrow> int \<Rightarrow> FieldErrors \<Rightarrow> FieldErrors" where
  "pageBound page pageSize errs =
     (if \<not> hasError ''page'' errs \<and> goDiv MaxInt64 pageSize < wrap64 (page - 1)
      then addError ''page'' ''page is too large!'' errs else errs)"

definition pagingFromQuery :: "url_Values \<Rightarrow> FieldErrors \<Rightarrow> int \<times> int \<times> FieldErrors" where
  "pagingFromQuery qvs errs =
     (let (page, errs1) = pageFromQuery qvs errs; (pageSize, errs2) = pageSizeFromQuery qvs errs1
      in (page, pageSize, pageBound page pageSize errs2))"

definition publicCampaignListStatuses :: "CampaignStatus list" where
  "publicCampaignListStatuses = [CampaignStatusActive, CampaignStatusCompleted, CampaignStatusCancelled]"

definition fundraiserCampaignListStatuses :: "CampaignStatus list" where
  "fundraiserCampaignListStatuses =
     [CampaignStatusPending, CampaignStatusActive, CampaignStatusCompleted, CampaignStatusCancelled, CampaignStatusFailed]"

definition campaignStatusFromAllowed :: "string \<Rightarrow> CampaignStatus list \<Rightarrow> CampaignStatus option" where
  "campaignStatusFromAllowed name allowed = find (\<lambda>status. name = statusText status) allowed"

definition campaignListFilterError :: "CampaignStatus list \<Rightarrow> string" where
  "campaignListFilterError allowed =
     (let names = map statusText allowed
      in case names of
           [] \<Rightarrow> ''filter is invalid!''
         | [a] \<Rightarrow> ''filter must be '' @ a @ ''!''
         | [a, b] \<Rightarrow> ''filter must be one of '' @ a @ '' or '' @ b @ ''!''
         | _ \<Rightarrow> ''filter must be one of '' @ JoinWith '', '' (butlast names) @ '', or '' @ last names @ ''!'')"

definition listSortFromQuery :: "url_Values \<Rightarrow> FieldErrors \<Rightarrow> CampaignListSort \<times> FieldErrors" where
  "listSortFromQuery qvs errs =
     (case qvs ''sortBy'' of
        None \<Rightarrow> (CampaignListSortNewest, errs)
      | Some raw \<Rightarrow>
          (let sortBy = TrimSpace (firstQueryValue raw)
           in if sortBy = [] \<or> sortBy = listSortText CampaignListSortNewest then (CampaignListSortNewest, errs)
              else if sortBy = listSortText CampaignListSortOldest then (CampaignListSortOldest, errs)
              else if sortBy = listSortText CampaignListSortCloseToGoal then (CampaignListSortCloseToGoal, errs)
              else if sortBy = listSortText CampaignListSortMostDonated then (CampaignListSortMostDonated, errs)
              else (CampaignListSortNewest,
                    addError ''sortBy'' ''sortBy must be one of newest, oldest, close-to-goal, or most-donated!'' errs)))"

definition listFilterFromQuery :: "url_Values \<Rightarrow> CampaignStatus list \<Rightarrow> FieldErrors \<Rightarrow> CampaignStatus option \<times> FieldErrors" where
  "listFilterFromQuery qvs allowed errs =
     (case qvs ''filter'' of
        None \<Rightarrow> (None, errs)
      | Some raw \<Rightarrow>
          (let name = TrimSpace (firstQueryValue raw)
           in if name = [] then (None, errs)
              else case campaignStatusFromAllowed name allowed of
                  Some status \<Rightarrow> (Some status, errs)
                | None \<Rightarrow> (None, addError ''filter'' (campaignListFilterError allowed) errs)))"

definition campaignListOptionsFromQuery ::
  "url_Values \<Rightarrow> CampaignStatus list \<Rightarrow> FieldErrors + CampaignListOptions" where
  "campaignListOptionsFromQuery qvs allowed =
     (let search = TrimSpace (case qvs ''search'' of Some vs \<Rightarrow> firstQueryValue vs | None \<Rightarrow> []);
          (sortBy, errs1) = listSortFromQuery qvs [];
          (status, errs2) = listFilterFromQuery qvs allowed errs1;
          (page, pageSize, errs3) = pagingFromQuery qvs errs2
      in if errs3 = []
         then Inr \<lparr>lo_Search = search, lo_Sort = sortBy, lo_Status = status, lo_Page = page, lo_PageSize = pageSize\<rparr>
         else Inl errs3)"

definition campaignDonorListOptionsFromQuery :: "url_Values \<Rightarrow> FieldErrors + CampaignDonorListOptions" where
  "campaignDonorListOptionsFromQuery qvs =
     (let (sortBy, errs1) =
            (case qvs ''sortBy'' of
               None \<Rightarrow> (CampaignDonorListSortRecent, [])
             | Some raw \<Rightarrow>
                 (let sortBy = TrimSpace (firstQueryValue raw)
                  in if sortBy = [] \<or> sortBy = ''recent'' then (CampaignDonorListSortRecent, [])
                     else if sortBy = ''top'' then (CampaignDonorListSortTop, [])
                     else (CampaignDonorListSortRecent, addError ''sortBy'' ''sortBy must be one of recent or top!'' [])));
          (page, pageSize, errs3) = pagingFromQuery qvs errs1
      in if errs3 = [] then Inr \<lparr>do_Sort = sortBy, do_Page = page, do_PageSize = pageSize\<rparr> else Inl errs3)"

definition donationListOptionsFromQuery :: "url_Values \<Rightarrow> FieldErrors + DonationListOptions" where
  "donationListOptionsFromQuery qvs =
     (let (page, pageSize, errs3) = pagingFromQuery qvs []
      in if errs3 = [] then Inr \<lparr>dl_Page = page, dl_PageSize = pageSize\<rparr> else Inl errs3)"

section \<open>Accepted list options\<close>

lemma addError_not_Nil [simp]: "addError f m errs \<noteq> []"
  by (induction f m errs rule: addError.induct) auto

lemma parsePositiveInt64_range:
  "parsePositiveInt64 v = Some n \<Longrightarrow> 1 \<le> n \<and> n \<le> MaxInt64"
  by (auto simp: parsePositiveInt64_def in_int64_def split: option.splits if_splits dest!: ParseInt_in_int64)

lemma goDiv_pos: "0 \<le> a \<Longrightarrow> 0 < b \<Longrightarrow> goDiv a b = a div b"
  by (cases "a = 0") (simp_all add: goDiv_def)

lemma pageFromQuery_range:
  assumes "pageFromQuery qvs errs = (page, errs')"
  shows "1 \<le> page \<and> page \<le> MaxInt64" and "errs' = [] \<Longrightarrow> errs = []"
  using assms
  by (auto simp: pageFromQuery_def defaultCampaignListPage_def MaxInt64_def split: option.splits
      dest: parsePositiveInt64_range [unfolded MaxInt64_def])

lemma pageSizeFromQuery_range:
  assumes "pageSizeFromQuery qvs errs = (pageSize, errs')"
  shows "1 \<le> pageSize \<and> pageSize \<le> 100" and "errs' = [] \<Longrightarrow> errs = []"
  using assms
  by (auto simp: pageSizeFromQuery_def defaultCampaignListPageSize_def maxCampaignListPageSize_def
      split: option.splits if_splits dest: parsePositiveInt64_range)

text \<open>The offset of an accepted page fits in 64 bits, so the repository's product is exact.\<close>

lemma accepted_offset:
  assumes "1 \<le> page" "page \<le> MaxInt64" "1 \<le> pageSize" and bound: "pageBound page pageSize [] = []"
  shows "pageOffset page pageSize = (page - 1) * pageSize \<and> (page - 1) * pageSize \<le> MaxInt64"
proof -
  have page: "in_int64 (page - 1)" using assms(1,2) by (auto simp: in_int64_def MinInt64_def MaxInt64_def)
  have "page - 1 \<le> MaxInt64 div pageSize"
    using bound page assms(3) by (auto simp: pageBound_def hasError_def goDiv_pos MaxInt64_def split: if_splits)
  then have "(page - 1) * pageSize \<le> MaxInt64 div pageSize * pageSize"
    using assms(3) by (intro mult_right_mono) auto
  also have "\<dots> \<le> MaxInt64" using assms(3) by (metis div_mult_mod_eq le_add_same_cancel1 pos_mod_sign less_le_trans zero_less_one)
  finally have top: "(page - 1) * pageSize \<le> MaxInt64" .
  moreover have "0 \<le> (page - 1) * pageSize" using assms(1,3) by simp
  ultimately have "in_int64 ((page - 1) * pageSize)" by (simp add: in_int64_def MinInt64_def)
  with page top show ?thesis by (simp add: pageOffset_def)
qed

lemma pagingFromQuery_range:
  assumes "pagingFromQuery qvs errs = (page, pageSize, [])"
  shows "1 \<le> page \<and> 1 \<le> pageSize \<and> pageSize \<le> 100
    \<and> pageOffset page pageSize = (page - 1) * pageSize \<and> (page - 1) * pageSize \<le> MaxInt64 \<and> errs = []"
proof -
  obtain errs1 errs2 where q: "pageFromQuery qvs errs = (page, errs1)" "pageSizeFromQuery qvs errs1 = (pageSize, errs2)"
      "pageBound page pageSize errs2 = []"
    using assms by (auto simp: pagingFromQuery_def split: prod.splits)
  then have "errs2 = []" by (auto simp: pageBound_def split: if_splits)
  with q show ?thesis
    using pageFromQuery_range [OF q(1)] pageSizeFromQuery_range [OF q(2)] accepted_offset [of page pageSize] by auto
qed

lemma listFilterFromQuery_allowed:
  "listFilterFromQuery qvs allowed errs = (status, errs') \<Longrightarrow> status \<in> insert None (Some ` set allowed)"
  by (auto simp: listFilterFromQuery_def campaignStatusFromAllowed_def Let_def find_Some_iff
      split: option.splits if_splits)

text \<open>(C39) Whatever the query string, the list options that the endpoints accept are in range: the page
  is at least one, the page size between one and a hundred, the status filter one of the allowed ones,
  and the offset the repository computes from them in 64-bit arithmetic is exact. A rejected query
  reports at least one error.\<close>

theorem list_options_in_range:
  "(case campaignListOptionsFromQuery qvs allowed of
      Inl errs \<Rightarrow> errs \<noteq> []
    | Inr opts \<Rightarrow> 1 \<le> lo_Page opts \<and> 1 \<le> lo_PageSize opts \<and> lo_PageSize opts \<le> 100
        \<and> lo_Status opts \<in> insert None (Some ` set allowed)
        \<and> pageOffset (lo_Page opts) (lo_PageSize opts) = (lo_Page opts - 1) * lo_PageSize opts)
   \<and> (case campaignDonorListOptionsFromQuery qvs of
        Inl errs \<Rightarrow> errs \<noteq> []
      | Inr opts \<Rightarrow> 1 \<le> do_Page opts \<and> 1 \<le> do_PageSize opts \<and> do_PageSize opts \<le> 100
          \<and> pageOffset (do_Page opts) (do_PageSize opts) = (do_Page opts - 1) * do_PageSize opts)
   \<and> (case donationListOptionsFromQuery qvs of
        Inl errs \<Rightarrow> errs \<noteq> []
      | Inr opts \<Rightarrow> 1 \<le> dl_Page opts \<and> 1 \<le> dl_PageSize opts \<and> dl_PageSize opts \<le> 100
          \<and> pageOffset (dl_Page opts) (dl_PageSize opts) = (dl_Page opts - 1) * dl_PageSize opts)"
  by (auto simp: campaignListOptionsFromQuery_def campaignDonorListOptionsFromQuery_def
      donationListOptionsFromQuery_def Let_def split: prod.splits
      dest: pagingFromQuery_range listFilterFromQuery_allowed)

section \<open>The number of pages\<close>

text \<open>The number of pages that the envelope reports is the least that holds all items: the last
  page is not empty, and the pages before it do not suffice; with no items there are no pages. The sum
  in the code does not overflow as long as the total is at most the greatest 64-bit integer less the
  page size.\<close>

lemma NewPagination_exact:
  assumes "1 \<le> pageSize" and "0 \<le> totalItems" and "totalItems + pageSize \<le> MaxInt64"
  shows "totalItems \<le> pg_TotalPages (NewPagination current pageSize totalItems) * pageSize
    \<and> (pg_TotalPages (NewPagination current pageSize totalItems) - 1) * pageSize < max 1 totalItems
    \<and> 0 \<le> pg_TotalPages (NewPagination current pageSize totalItems)
    \<and> (pg_TotalPages (NewPagination current pageSize totalItems) = 0 \<longleftrightarrow> totalItems = 0)"
proof (cases "totalItems = 0")
  case True
  then show ?thesis using assms(1) by (simp add: NewPagination_def)
next
  case False
  let ?n = "(totalItems + pageSize - 1) div pageSize"
  have "in_int64 (totalItems + pageSize)" "in_int64 (totalItems + pageSize - 1)"
    using assms by (auto simp: in_int64_def MinInt64_def MaxInt64_def)
  then have n: "pg_TotalPages (NewPagination current pageSize totalItems) = ?n"
    using False assms by (simp add: NewPagination_def goDiv_pos)
  have eq: "?n * pageSize + (totalItems + pageSize - 1) mod pageSize = totalItems + pageSize - 1" by simp
  have rem: "0 \<le> (totalItems + pageSize - 1) mod pageSize" "(totalItems + pageSize - 1) mod pageSize < pageSize"
    using assms(1) by simp_all
  have "0 < ?n" using False assms by (simp add: pos_imp_zdiv_pos_iff)
  moreover have "(?n - 1) * pageSize = ?n * pageSize - pageSize" by (simp add: algebra_simps)
  moreover have "totalItems \<le> ?n * pageSize" "?n * pageSize - pageSize < totalItems" using eq rem by linarith+
  ultimately show ?thesis unfolding n using False assms(2) by auto
qed

lemma NewPagination_exact_witness:
  "(47::int) \<le> pg_TotalPages (NewPagination 2 25 47) * 25 \<and> pg_TotalPages (NewPagination 2 25 47) = 2"
  using NewPagination_exact [of 25 47 2] by (simp add: MaxInt64_def NewPagination_def goDiv_def wrap64_def)

end
