(* ===== verification/Profile_Repo.thy ===== *)
theory Profile_Repo
  imports Campaign_Queries
begin

text \<open>
  The profile repositories (\<open>internal/infra/database/supporter_postgres.go\<close>,
  \<open>fundraiser_postgres.go\<close>, \<open>auth_postgres.go\<close>): creation of an account with its profile,
  lookup by wallet address, the supporter's donation list, replacement of a profile, and soft
  deletion. Where the Go methods return a result, a found flag and an error, the model returns
  \<open>Inl\<close> of the error, \<open>Inr None\<close> for not found and \<open>Inr (Some r)\<close> for found (callers
  look at the error first). The lemmas show that the schema's invariant and the rules the
  application itself keeps (\<open>app_ok\<close>) survive every operation, and that an image is offered for
  deletion only when no profile refers to it any more.
\<close>

section \<open>Results (internal/repository)\<close>

record ReplaceProfileResult =
  OldImageObjectKey :: "string option"
  DeleteOldImageFile :: bool

record DeleteProfileResult =
  ImageObjectKey :: "string option"
  DeleteImageObjectFile :: bool

definition imageObjectKeyChanged :: "string \<Rightarrow> string option \<Rightarrow> bool" where
  "imageObjectKeyChanged current updated \<longleftrightarrow> updated = None \<or> updated \<noteq> Some current"

section \<open>Shared queries\<close>

definition imageStillReferenced :: "string \<Rightarrow> db \<Rightarrow> bool" where
  "imageStillReferenced key d \<longleftrightarrow>
     (\<exists>f\<in>set (fundraisers d). fw_image_object_key f = Some key)
     \<or> (\<exists>s\<in>set (supporters d). sr_image_object_key s = Some key)"

definition imageStillReferencedLive :: "string \<Rightarrow> db \<Rightarrow> bool" where
  "imageStillReferencedLive key d \<longleftrightarrow>
     (\<exists>f\<in>set (fundraisers d). \<exists>u\<in>set (users d). u_ID u = fw_id f \<and> fw_image_object_key f = Some key \<and> live u)
     \<or> (\<exists>s\<in>set (supporters d). \<exists>u\<in>set (users d). u_ID u = sr_id s \<and> sr_image_object_key s = Some key \<and> live u)"

definition supporterJoin :: "env \<Rightarrow> string \<Rightarrow> db \<Rightarrow> (user_row \<times> supporter_row) list" where
  "supporterJoin E wallet d =
     [(u, s). u \<leftarrow> users d, s \<leftarrow> supporters d,
        sr_id s = u_ID u \<and> u_Role u = ''supporter'' \<and> live u
        \<and> sql_Lower E (u_WalletAddress u) = sql_Lower E wallet]"

definition fundraiserJoin :: "env \<Rightarrow> string \<Rightarrow> db \<Rightarrow> (user_row \<times> fundraiser_row) list" where
  "fundraiserJoin E wallet d =
     [(u, f). u \<leftarrow> users d, f \<leftarrow> fundraisers d,
        fw_id f = u_ID u \<and> u_Role u = ''fundraiser'' \<and> live u
        \<and> sql_Lower E (u_WalletAddress u) = sql_Lower E wallet]"

text \<open>A row or \<open>sql.ErrNoRows\<close>: the first case of every lookup.\<close>

definition findRow :: "env \<Rightarrow> string \<Rightarrow> string \<Rightarrow> 'r list \<Rightarrow> 'r option result" where
  "findRow E label message rows =
     (case queryRow E label rows of
        Inl e \<Rightarrow> (if errors_Is e sql_ErrNoRows then Inr None else Inl (Wrap message e))
      | Inr r \<Rightarrow> Inr (Some r))"

section \<open>Supporters\<close>

definition supporterCreateTx :: "env \<Rightarrow> Supporter \<Rightarrow> db \<Rightarrow> Supporter txout" where
  "supporterCreateTx E supporter d =
     (case exec E ''insertUser''
        (insert_user E (u_ID supporter) (u_Role supporter) (u_Email supporter) (u_WalletAddress supporter) d) of
        Inl e \<Rightarrow> Return (Inl (mapPostgresError ''insert user'' e))
      | Inr (row, d1) \<Rightarrow>
          (case exec E ''insertSupporter''
             (insert_supporter \<lparr>sr_id = u_ID supporter, sr_name = sp_Name supporter,
                sr_image_object_key = sp_ImageObjectKey supporter\<rparr> d1) of
             Inl e \<Rightarrow> Return (Inl (mapPostgresError ''insert supporter'' e))
           | Inr d2 \<Rightarrow>
               Commit ''repository: commit create supporter transaction''
                 (supporter\<lparr>u_CreatedAt := u_CreatedAt row\<rparr>) d2))"

definition SupporterRepo_Create :: "env \<Rightarrow> Supporter \<Rightarrow> db \<Rightarrow> db \<times> Supporter result" where
  "SupporterRepo_Create E supporter =
     runTx E ''repository: begin create supporter transaction'' (supporterCreateTx E supporter)"

definition SupporterRepo_FindByWalletAddress :: "env \<Rightarrow> string \<Rightarrow> db \<Rightarrow> Supporter option result" where
  "SupporterRepo_FindByWalletAddress E walletAddress d =
     (case findRow E ''FindByWalletAddress'' ''repository: find supporter by wallet address''
        (supporterJoin E (TrimSpace walletAddress) d) of
        Inl e \<Rightarrow> Inl e
      | Inr None \<Rightarrow> Inr None
      | Inr (Some (u, s)) \<Rightarrow>
          Inr (Some \<lparr>u_ID = u_ID u, u_Role = u_Role u, u_Email = u_Email u,
            u_WalletAddress = u_WalletAddress u, u_CreatedAt = u_CreatedAt u,
            sp_Name = sr_name s, sp_ImageObjectKey = sr_image_object_key s\<rparr>))"

definition donationRows :: "env \<Rightarrow> string \<Rightarrow> db \<Rightarrow> (donation_row \<times> Campaign \<times> BlockchainEvent) list" where
  "donationRows E wallet d =
     [(r, c, e). r \<leftarrow> donations d, c \<leftarrow> campaigns d, c_ID c = dr_campaign_id r,
        e \<leftarrow> blockchain_events d, ev_ID e = dr_event_id r,
        sql_Lower E (dr_donor_address r) = sql_Lower E wallet]"

definition scanDonation :: "donation_row \<times> Campaign \<times> BlockchainEvent \<Rightarrow> Donation result" where
  "scanDonation = (\<lambda>(r, c, e).
     (case c_ContractAddress c of
        Some a \<Rightarrow>
          (if TrimSpace a = []
           then Inl (Errorf ''repository: scan supporter donation: campaign contract address is missing'')
           else Inr \<lparr>dn_Amount = dr_amount r,
                     dn_Campaign = \<lparr>dc_Title = c_Title c, dc_ContractAddress = a\<rparr>,
                     dn_DonatedAt = ev_CreatedAt e, dn_TxHash = ev_TxHash e\<rparr>)
      | None \<Rightarrow> Inl (Errorf ''repository: scan supporter donation: campaign contract address is missing'')))"

definition ListDonationsByWalletAddress ::
  "env \<Rightarrow> string \<Rightarrow> DonationListOptions \<Rightarrow> db \<Rightarrow> Donation list option result" where
  "ListDonationsByWalletAddress E walletAddress options d =
     (case findRow E ''findSupporter'' ''repository: find supporter for donation list''
        (supporterJoin E (TrimSpace walletAddress) d) of
        Inl e \<Rightarrow> Inl e
      | Inr None \<Rightarrow> Inr None
      | Inr (Some _) \<Rightarrow>
          (case collectRows E ''ListDonations'' ''repository: list supporter donations''
             ''repository: scan supporter donation'' ''repository: iterate supporter donations'' scanDonation
             (limitOffset (dl_PageSize options) (pageOffset (dl_Page options) (dl_PageSize options))
               (sort_key (\<lambda>(r, c, e). newestDonationKey (r, e)) (donationRows E (TrimSpace walletAddress) d))) of
             Inl e \<Rightarrow> Inl e
           | Inr rows \<Rightarrow> Inr (Some rows)))"

text \<open>The image cleanup after a replacement: the old image may go when the profile stopped using
  it and no other row refers to it.\<close>

definition replaceImageCleanup ::
  "env \<Rightarrow> string \<Rightarrow> ImageObjectKeyUpdate \<Rightarrow> string option \<Rightarrow> db \<Rightarrow> ReplaceProfileResult result" where
  "replaceImageCleanup E message update currentImageObject d =
     (case currentImageObject of
        Some current \<Rightarrow>
          (if iu_Set update \<and> imageObjectKeyChanged current (iu_Value update) then
             (case queryRow E ''imageStillReferenced'' [imageStillReferenced current d] of
                Inl e \<Rightarrow> Inl (Wrap message e)
              | Inr referenced \<Rightarrow>
                  (if \<not> referenced then Inr \<lparr>OldImageObjectKey = Some current, DeleteOldImageFile = True\<rparr>
                   else Inr \<lparr>OldImageObjectKey = None, DeleteOldImageFile = False\<rparr>))
           else Inr \<lparr>OldImageObjectKey = None, DeleteOldImageFile = False\<rparr>)
      | None \<Rightarrow> Inr \<lparr>OldImageObjectKey = None, DeleteOldImageFile = False\<rparr>)"

definition deleteImageCleanup :: "env \<Rightarrow> string \<Rightarrow> string option \<Rightarrow> db \<Rightarrow> DeleteProfileResult result" where
  "deleteImageCleanup E message currentImageObject d =
     (case currentImageObject of
        Some current \<Rightarrow>
          (case queryRow E ''imageStillReferenced'' [imageStillReferencedLive current d] of
             Inl e \<Rightarrow> Inl (Wrap message e)
           | Inr referenced \<Rightarrow>
               (if \<not> referenced then Inr \<lparr>ImageObjectKey = Some current, DeleteImageObjectFile = True\<rparr>
                else Inr \<lparr>ImageObjectKey = None, DeleteImageObjectFile = False\<rparr>))
      | None \<Rightarrow> Inr \<lparr>ImageObjectKey = None, DeleteImageObjectFile = False\<rparr>)"

definition supporterReplaceTx ::
  "env \<Rightarrow> string \<Rightarrow> SupporterProfileReplacement \<Rightarrow> db \<Rightarrow> ReplaceProfileResult option txout" where
  "supporterReplaceTx E walletAddress profile d =
     (case findRow E ''lockSupporter'' ''repository: lock supporter profile for replacement''
        (supporterJoin E (TrimSpace walletAddress) d) of
        Inl e \<Rightarrow> Return (Inl e)
      | Inr None \<Rightarrow> Return (Inr None)
      | Inr (Some (u, s)) \<Rightarrow>
          (case exec E ''replaceUserEmail'' (update_user_email (spr_Email profile) (u_ID u) d) of
             Inl e \<Rightarrow> Return (Inl (mapPostgresError ''replace supporter user email'' e))
           | Inr d1 \<Rightarrow>
               (case exec E ''replaceSupporter'' (update_supporter_name (spr_Name profile) (u_ID u) d1) of
                  Inl e \<Rightarrow> Return (Inl (mapPostgresError ''replace supporter profile'' e))
                | Inr d2 \<Rightarrow>
                    (case (if iu_Set (spr_ImageObjectKey profile)
                           then exec E ''replaceImageObjectKey''
                             (Inr (update_supporter_image (iu_Value (spr_ImageObjectKey profile)) (u_ID u) d2))
                           else Inr d2) of
                       Inl e \<Rightarrow> Return (Inl (mapPostgresError ''replace supporter image object key'' e))
                     | Inr d3 \<Rightarrow>
                         (case replaceImageCleanup E ''repository: check old supporter image references''
                            (spr_ImageObjectKey profile) (sr_image_object_key s) d3 of
                            Inl e \<Rightarrow> Return (Inl e)
                          | Inr result \<Rightarrow>
                              Commit ''repository: commit replace supporter profile transaction''
                                (Some result) d3)))))"

definition SupporterRepo_ReplaceProfile ::
  "env \<Rightarrow> string \<Rightarrow> SupporterProfileReplacement \<Rightarrow> db \<Rightarrow> db \<times> ReplaceProfileResult option result" where
  "SupporterRepo_ReplaceProfile E walletAddress profile =
     runTx E ''repository: begin replace supporter profile transaction''
       (supporterReplaceTx E walletAddress profile)"

definition supporterDeleteTx :: "env \<Rightarrow> string \<Rightarrow> db \<Rightarrow> DeleteProfileResult option txout" where
  "supporterDeleteTx E walletAddress d =
     (case findRow E ''lockSupporter'' ''repository: lock supporter profile for deletion''
        (supporterJoin E (TrimSpace walletAddress) d) of
        Inl e \<Rightarrow> Return (Inl e)
      | Inr None \<Rightarrow> Return (Inr None)
      | Inr (Some (u, s)) \<Rightarrow>
          (case exec E ''clearSupporterImage'' (Inr (update_supporter_image None (u_ID u) d)) of
             Inl e \<Rightarrow> Return (Inl (Wrap ''repository: clear supporter profile image'' e))
           | Inr d1 \<Rightarrow>
               (case exec E ''softDeleteUser'' (Inr (soft_delete_user E (u_ID u) d1)) of
                  Inl e \<Rightarrow> Return (Inl (Wrap ''repository: soft delete supporter profile'' e))
                | Inr d2 \<Rightarrow>
                    (case deleteImageCleanup E ''repository: check deleted supporter image references''
                       (sr_image_object_key s) d2 of
                       Inl e \<Rightarrow> Return (Inl e)
                     | Inr result \<Rightarrow>
                         Commit ''repository: commit delete supporter profile transaction'' (Some result) d2))))"

definition SupporterRepo_DeleteProfile :: "env \<Rightarrow> string \<Rightarrow> db \<Rightarrow> db \<times> DeleteProfileResult option result" where
  "SupporterRepo_DeleteProfile E walletAddress =
     runTx E ''repository: begin delete supporter profile transaction'' (supporterDeleteTx E walletAddress)"

section \<open>Fundraisers\<close>

definition fundraiserCreateTx :: "env \<Rightarrow> Fundraiser \<Rightarrow> db \<Rightarrow> Fundraiser txout" where
  "fundraiserCreateTx E fundraiser d =
     (case exec E ''insertUser''
        (insert_user E (u_ID fundraiser) (u_Role fundraiser) (u_Email fundraiser) (u_WalletAddress fundraiser) d) of
        Inl e \<Rightarrow> Return (Inl (mapPostgresError ''insert user'' e))
      | Inr (row, d1) \<Rightarrow>
          (case exec E ''insertFundraiser''
             (insert_fundraiser \<lparr>fw_id = u_ID fundraiser, fw_name = fr_Name fundraiser,
                fw_image_object_key = fr_ImageObjectKey fundraiser, fw_contact_name = fr_ContactName fundraiser,
                fw_contact_phone = fr_ContactPhone fundraiser, fw_social_url = fr_SocialURL fundraiser,
                fw_country = fr_Country fundraiser, fw_zip_code = fr_ZipCode fundraiser\<rparr> d1) of
             Inl e \<Rightarrow> Return (Inl (mapPostgresError ''insert fundraiser'' e))
           | Inr d2 \<Rightarrow>
               Commit ''repository: commit create fundraiser transaction''
                 (fundraiser\<lparr>u_CreatedAt := u_CreatedAt row\<rparr>) d2))"

definition FundraiserRepo_Create :: "env \<Rightarrow> Fundraiser \<Rightarrow> db \<Rightarrow> db \<times> Fundraiser result" where
  "FundraiserRepo_Create E fundraiser =
     runTx E ''repository: begin create fundraiser transaction'' (fundraiserCreateTx E fundraiser)"

definition FundraiserRepo_FindByWalletAddress :: "env \<Rightarrow> string \<Rightarrow> db \<Rightarrow> Fundraiser option result" where
  "FundraiserRepo_FindByWalletAddress E walletAddress d =
     (case findRow E ''FindByWalletAddress'' ''repository: find fundraiser by wallet address''
        (fundraiserJoin E (TrimSpace walletAddress) d) of
        Inl e \<Rightarrow> Inl e
      | Inr None \<Rightarrow> Inr None
      | Inr (Some (u, f)) \<Rightarrow>
          Inr (Some \<lparr>u_ID = u_ID u, u_Role = u_Role u, u_Email = u_Email u,
            u_WalletAddress = u_WalletAddress u, u_CreatedAt = u_CreatedAt u,
            fr_Name = fw_name f, fr_ImageObjectKey = fw_image_object_key f,
            fr_ContactName = fw_contact_name f, fr_ContactPhone = fw_contact_phone f,
            fr_SocialURL = fw_social_url f, fr_Country = fw_country f, fr_ZipCode = fw_zip_code f\<rparr>))"

definition fundraiserReplaceTx ::
  "env \<Rightarrow> string \<Rightarrow> FundraiserProfileReplacement \<Rightarrow> db \<Rightarrow> ReplaceProfileResult option txout" where
  "fundraiserReplaceTx E walletAddress profile d =
     (case findRow E ''lockFundraiser'' ''repository: lock fundraiser profile for replacement''
        (fundraiserJoin E (TrimSpace walletAddress) d) of
        Inl e \<Rightarrow> Return (Inl e)
      | Inr None \<Rightarrow> Return (Inr None)
      | Inr (Some (u, f)) \<Rightarrow>
          (case exec E ''replaceUserEmail'' (update_user_email (fpr_Email profile) (u_ID u) d) of
             Inl e \<Rightarrow> Return (Inl (mapPostgresError ''replace fundraiser user email'' e))
           | Inr d1 \<Rightarrow>
               (case exec E ''replaceFundraiser''
                  (update_fundraiser (fpr_Name profile) (fpr_ContactName profile) (fpr_ContactPhone profile)
                     (fpr_SocialURL profile) (fpr_Country profile) (fpr_ZipCode profile) (u_ID u) d1) of
                  Inl e \<Rightarrow> Return (Inl (mapPostgresError ''replace fundraiser profile'' e))
                | Inr d2 \<Rightarrow>
                    (case (if iu_Set (fpr_ImageObjectKey profile)
                           then exec E ''replaceImageObjectKey''
                             (Inr (update_fundraiser_image (iu_Value (fpr_ImageObjectKey profile)) (u_ID u) d2))
                           else Inr d2) of
                       Inl e \<Rightarrow> Return (Inl (mapPostgresError ''replace fundraiser image object key'' e))
                     | Inr d3 \<Rightarrow>
                         (case replaceImageCleanup E ''repository: check old fundraiser image references''
                            (fpr_ImageObjectKey profile) (fw_image_object_key f) d3 of
                            Inl e \<Rightarrow> Return (Inl e)
                          | Inr result \<Rightarrow>
                              Commit ''repository: commit replace fundraiser profile transaction''
                                (Some result) d3)))))"

definition FundraiserRepo_ReplaceProfile ::
  "env \<Rightarrow> string \<Rightarrow> FundraiserProfileReplacement \<Rightarrow> db \<Rightarrow> db \<times> ReplaceProfileResult option result" where
  "FundraiserRepo_ReplaceProfile E walletAddress profile =
     runTx E ''repository: begin replace fundraiser profile transaction''
       (fundraiserReplaceTx E walletAddress profile)"

definition hasActiveCampaign :: "uuid \<Rightarrow> db \<Rightarrow> bool" where
  "hasActiveCampaign fundraiserID d \<longleftrightarrow>
     (\<exists>c\<in>set (campaigns d). c_FundraiserID c = fundraiserID
        \<and> (c_Status c = CampaignStatusPending \<or> c_Status c = CampaignStatusActive))"

definition fundraiserDeleteTx :: "env \<Rightarrow> string \<Rightarrow> db \<Rightarrow> DeleteProfileResult option txout" where
  "fundraiserDeleteTx E walletAddress d =
     (case findRow E ''lockFundraiser'' ''repository: lock fundraiser profile for deletion''
        (fundraiserJoin E (TrimSpace walletAddress) d) of
        Inl e \<Rightarrow> Return (Inl e)
      | Inr None \<Rightarrow> Return (Inr None)
      | Inr (Some (u, f)) \<Rightarrow>
          (case queryRow E ''hasActiveCampaign'' [hasActiveCampaign (u_ID u) d] of
             Inl e \<Rightarrow> Return (Inl (Wrap ''repository: check fundraiser active campaigns'' e))
           | Inr activeCampaignExists \<Rightarrow>
               (if activeCampaignExists then Return (Inl (Sentinel repository_ErrFundraiserHasActiveCampaigns))
                else
                  (case exec E ''clearFundraiserImage'' (Inr (update_fundraiser_image None (u_ID u) d)) of
                     Inl e \<Rightarrow> Return (Inl (Wrap ''repository: clear fundraiser profile image'' e))
                   | Inr d1 \<Rightarrow>
                       (case exec E ''softDeleteUser'' (Inr (soft_delete_user E (u_ID u) d1)) of
                          Inl e \<Rightarrow> Return (Inl (Wrap ''repository: soft delete fundraiser profile'' e))
                        | Inr d2 \<Rightarrow>
                            (case deleteImageCleanup E ''repository: check deleted fundraiser image references''
                               (fw_image_object_key f) d2 of
                               Inl e \<Rightarrow> Return (Inl e)
                             | Inr result \<Rightarrow>
                                 Commit ''repository: commit delete fundraiser profile transaction''
                                   (Some result) d2))))))"

definition FundraiserRepo_DeleteProfile :: "env \<Rightarrow> string \<Rightarrow> db \<Rightarrow> db \<times> DeleteProfileResult option result" where
  "FundraiserRepo_DeleteProfile E walletAddress =
     runTx E ''repository: begin delete fundraiser profile transaction'' (fundraiserDeleteTx E walletAddress)"

section \<open>The profile of a signed-in wallet (auth\_postgres.go)\<close>

definition coalesce :: "'a option \<Rightarrow> 'a option \<Rightarrow> 'a option" where
  "coalesce a b = (case a of Some x \<Rightarrow> Some x | None \<Rightarrow> b)"

definition authRows :: "env \<Rightarrow> string \<Rightarrow> db \<Rightarrow> (UserRole \<times> string option \<times> string option) list" where
  "authRows E wallet d =
     [(u_Role u, coalesce (map_option sr_name s) (map_option fw_name f),
       coalesce (Option.bind s sr_image_object_key) (Option.bind f fw_image_object_key)).
        u0 \<leftarrow> users d, live u0 \<and> sql_Lower E (u_WalletAddress u0) = sql_Lower E wallet,
        (u, s) \<leftarrow> leftJoin (\<lambda>v r. sr_id r = u_ID v \<and> u_Role v = ''supporter'') (supporters d) u0,
        (_, f) \<leftarrow> leftJoin (\<lambda>v r. fw_id r = u_ID v \<and> u_Role v = ''fundraiser'') (fundraisers d) u]"

definition FindProfileByWalletAddress :: "env \<Rightarrow> string \<Rightarrow> db \<Rightarrow> AuthProfile option result" where
  "FindProfileByWalletAddress E walletAddress d =
     (case findRow E ''FindProfileByWalletAddress'' ''repository: find auth profile''
        (authRows E (TrimSpace walletAddress) d) of
        Inl e \<Rightarrow> Inl e
      | Inr None \<Rightarrow> Inr None
      | Inr (Some (role, name, imageObjectKey)) \<Rightarrow>
          (if role \<noteq> UserRoleSupporter \<and> role \<noteq> UserRoleFundraiser
           then Inl (Errorf ''repository: find auth profile: unsupported role'')
           else
             (case name of
                Some n \<Rightarrow>
                  (if TrimSpace n = [] then Inl (Errorf ''repository: find auth profile: profile is missing'')
                   else Inr (Some \<lparr>ap_Name = n, ap_Role = role, ap_ImageObjectKey = imageObjectKey\<rparr>))
              | None \<Rightarrow> Inl (Errorf ''repository: find auth profile: profile is missing''))))"

section \<open>The rules of the application\<close>

text \<open>What the code keeps beyond the schema: a profile row belongs to a user of its role; the owner
  of a pending or active campaign is a live account; a deleted account keeps no image; a pending
  campaign has no contract yet.\<close>

definition roles_ok :: "user_row list \<Rightarrow> supporter_row list \<Rightarrow> fundraiser_row list \<Rightarrow> bool" where
  "roles_ok us ss fs \<longleftrightarrow>
     (\<forall>u\<in>set us. (u_ID u \<in> sr_id ` set ss \<longrightarrow> u_Role u = ''supporter'')
               \<and> (u_ID u \<in> fw_id ` set fs \<longrightarrow> u_Role u = ''fundraiser''))"

definition openStatus :: "CampaignStatus \<Rightarrow> bool" where
  "openStatus s \<longleftrightarrow> s = CampaignStatusPending \<or> s = CampaignStatusActive"

definition liveIDs :: "user_row list \<Rightarrow> uuid set" where
  "liveIDs us = u_ID ` set (filter live us)"

definition owners_ok :: "user_row list \<Rightarrow> Campaign list \<Rightarrow> bool" where
  "owners_ok us cs \<longleftrightarrow> (\<forall>c\<in>set cs. openStatus (c_Status c) \<longrightarrow> c_FundraiserID c \<in> liveIDs us)"

definition cleared_ok :: "user_row list \<Rightarrow> supporter_row list \<Rightarrow> fundraiser_row list \<Rightarrow> bool" where
  "cleared_ok us ss fs \<longleftrightarrow>
     (\<forall>s\<in>set ss. sr_image_object_key s \<noteq> None \<longrightarrow> sr_id s \<in> liveIDs us)
     \<and> (\<forall>f\<in>set fs. fw_image_object_key f \<noteq> None \<longrightarrow> fw_id f \<in> liveIDs us)"

definition pending_ok :: "Campaign list \<Rightarrow> bool" where
  "pending_ok cs \<longleftrightarrow>
     (\<forall>c\<in>set cs. c_Status c = CampaignStatusPending \<longrightarrow> c_ContractAddress c = None \<and> c_EventID c = None)"

definition app_ok :: "db \<Rightarrow> bool" where
  "app_ok d \<longleftrightarrow> db_ok d \<and> roles_ok (users d) (supporters d) (fundraisers d)
     \<and> owners_ok (users d) (campaigns d) \<and> cleared_ok (users d) (supporters d) (fundraisers d)
     \<and> pending_ok (campaigns d)"

lemma app_ok_empty: "app_ok empty_db"
  using db_ok_empty by (simp add: app_ok_def roles_ok_def owners_ok_def cleared_ok_def pending_ok_def empty_db_def)

lemma liveIDs_email [simp]: "liveIDs (update_where p (\<lambda>u. u\<lparr>u_Email := v\<rparr>) us) = liveIDs us"
  unfolding liveIDs_def by (subst filter_update_where) (simp_all add: image_update_where del: set_filter)

lemma liveIDs_soft_delete:
  "liveIDs (update_where (\<lambda>u. u_ID u = i) (\<lambda>u. u\<lparr>u_DeletedAt := Some t\<rparr>) us) = liveIDs us - {i}"
  unfolding liveIDs_def by (subst filter_live_soft_delete) auto

lemma liveIDs_append [simp]: "liveIDs (us @ vs) = liveIDs us \<union> liveIDs vs" "liveIDs [] = {}"
  "liveIDs [u] = (if live u then {u_ID u} else {})"
  by (auto simp: liveIDs_def)

lemma liveIDs_iff: "i \<in> liveIDs us \<longleftrightarrow> (\<exists>u\<in>set us. u_ID u = i \<and> live u)"
  by (auto simp: liveIDs_def)

lemma insert_user_rows:
  assumes "insert_user E i role email w d = Inr (row, d')"
  shows "d' = d\<lparr>users := users d @ [row]\<rparr>" "u_ID row = i" "u_Role row = role" "live row" "i \<notin> u_ID ` set (users d)"
  using assms by (auto simp: insert_user_def Let_def split: option.splits if_splits)

lemma insert_user_app:
  assumes app: "app_ok d" and ins: "insert_user E i role email w d = Inr (row, d')"
  shows "app_ok d'"
proof -
  note rows = insert_user_rows [OF ins]
  have "db_ok d" using app by (simp add: app_ok_def)
  then have "i \<notin> sr_id ` set (supporters d)" "i \<notin> fw_id ` set (fundraisers d)"
    using rows(5) profiles_okD(3,4) by blast+
  with app rows insert_user_ok [OF \<open>db_ok d\<close> ins] show ?thesis
    by (auto simp: app_ok_def roles_ok_def owners_ok_def cleared_ok_def)
qed

lemma insert_supporter_rows:
  assumes "insert_supporter r d = Inr d'"
  shows "\<exists>n. d' = d\<lparr>supporters := supporters d @ [r\<lparr>sr_name := n\<rparr>]\<rparr>"
  using assms by (auto simp: insert_supporter_def split: option.splits if_splits)

lemma insert_fundraiser_rows:
  assumes "insert_fundraiser r d = Inr d'"
  shows "\<exists>a b c e f. d' = d\<lparr>fundraisers := fundraisers d @ [r\<lparr>fw_name := a, fw_contact_name := b,
     fw_contact_phone := c, fw_country := e, fw_zip_code := f\<rparr>]\<rparr>"
  using assms by (auto simp: insert_fundraiser_def split: option.splits if_splits intro!: exI)

lemma insert_supporter_app:
  assumes app: "app_ok d" and ins: "insert_supporter r d = Inr d'"
    and role: "\<forall>u\<in>set (users d). u_ID u = sr_id r \<longrightarrow> u_Role u = ''supporter''"
    and alive: "sr_id r \<in> liveIDs (users d)"
  shows "app_ok d'"
proof -
  obtain n where d': "d' = d\<lparr>supporters := supporters d @ [r\<lparr>sr_name := n\<rparr>]\<rparr>"
    using insert_supporter_rows [OF ins] by blast
  have "db_ok d'" using app ins insert_supporter_ok by (auto simp: app_ok_def)
  with app role alive show ?thesis
    unfolding d' app_ok_def roles_ok_def cleared_ok_def by auto
qed

lemma insert_fundraiser_app:
  assumes app: "app_ok d" and ins: "insert_fundraiser r d = Inr d'"
    and role: "\<forall>u\<in>set (users d). u_ID u = fw_id r \<longrightarrow> u_Role u = ''fundraiser''"
    and alive: "fw_id r \<in> liveIDs (users d)"
  shows "app_ok d'"
proof -
  obtain a b c e f where d': "d' = d\<lparr>fundraisers := fundraisers d @ [r\<lparr>fw_name := a, fw_contact_name := b,
     fw_contact_phone := c, fw_country := e, fw_zip_code := f\<rparr>]\<rparr>"
    using insert_fundraiser_rows [OF ins] by blast
  have "db_ok d'" using app ins insert_fundraiser_ok by (auto simp: app_ok_def)
  with app role alive show ?thesis
    unfolding d' app_ok_def roles_ok_def cleared_ok_def by auto
qed

lemma roles_ok_update:
  assumes "\<And>u. u_ID (f u) = u_ID u" and "\<And>u. u_Role (f u) = u_Role u" and "roles_ok us ss fs"
  shows "roles_ok (update_where p f us) ss fs"
  using assms by (auto simp: roles_ok_def set_update_where split: if_splits)

lemma update_user_email_app:
  assumes app: "app_ok d" and upd: "update_user_email email i d = Inr d'"
  shows "app_ok d'"
proof -
  obtain v where d': "d' = d\<lparr>users := update_where (\<lambda>u. u_ID u = i) (\<lambda>u. u\<lparr>u_Email := v\<rparr>) (users d)\<rparr>"
    using upd by (auto simp: update_user_email_def split: option.splits if_splits)
  have "db_ok d'" using app upd update_user_email_ok by (auto simp: app_ok_def)
  with app show ?thesis
    unfolding d' app_ok_def owners_ok_def cleared_ok_def by (simp add: roles_ok_update)
qed

lemma update_supporters_app:
  assumes app: "app_ok d" and key: "\<And>r. sr_id (f r) = sr_id r"
    and image: "\<And>r. r \<in> set (supporters d) \<Longrightarrow> p r \<Longrightarrow> sr_image_object_key (f r) = sr_image_object_key r
       \<or> sr_image_object_key (f r) = None \<or> sr_id r \<in> liveIDs (users d)"
  shows "app_ok (d\<lparr>supporters := update_where p f (supporters d)\<rparr>)"
proof -
  have "db_ok (d\<lparr>supporters := update_where p f (supporters d)\<rparr>)"
    using app key by (intro db_ok_update_supporters) (simp_all add: app_ok_def)
  moreover have "roles_ok (users d) (update_where p f (supporters d)) (fundraisers d)"
    using app key by (simp add: app_ok_def roles_ok_def image_update_where)
  moreover have "sr_id r \<in> liveIDs (users d)"
    if r: "r \<in> set (update_where p f (supporters d))" "sr_image_object_key r \<noteq> None" for r
  proof -
    from r(1) obtain r0 where r0: "r0 \<in> set (supporters d)" "r = (if p r0 then f r0 else r0)"
      by (auto simp: set_update_where)
    have "sr_image_object_key r0 \<noteq> None \<Longrightarrow> sr_id r0 \<in> liveIDs (users d)"
      using app r0(1) by (simp add: app_ok_def cleared_ok_def)
    with image [OF r0(1)] r(2) r0(2) key show ?thesis by (cases "p r0") auto
  qed
  then have "cleared_ok (users d) (update_where p f (supporters d)) (fundraisers d)"
    using app by (simp add: app_ok_def cleared_ok_def)
  ultimately show ?thesis using app by (simp add: app_ok_def)
qed

lemma update_fundraisers_app:
  assumes app: "app_ok d" and key: "\<And>r. fw_id (f r) = fw_id r"
    and image: "\<And>r. r \<in> set (fundraisers d) \<Longrightarrow> p r \<Longrightarrow> fw_image_object_key (f r) = fw_image_object_key r
       \<or> fw_image_object_key (f r) = None \<or> fw_id r \<in> liveIDs (users d)"
  shows "app_ok (d\<lparr>fundraisers := update_where p f (fundraisers d)\<rparr>)"
proof -
  have "db_ok (d\<lparr>fundraisers := update_where p f (fundraisers d)\<rparr>)"
    using app key by (intro db_ok_update_fundraisers) (simp_all add: app_ok_def)
  moreover have "roles_ok (users d) (supporters d) (update_where p f (fundraisers d))"
    using app key by (simp add: app_ok_def roles_ok_def image_update_where)
  moreover have "fw_id r \<in> liveIDs (users d)"
    if r: "r \<in> set (update_where p f (fundraisers d))" "fw_image_object_key r \<noteq> None" for r
  proof -
    from r(1) obtain r0 where r0: "r0 \<in> set (fundraisers d)" "r = (if p r0 then f r0 else r0)"
      by (auto simp: set_update_where)
    have "fw_image_object_key r0 \<noteq> None \<Longrightarrow> fw_id r0 \<in> liveIDs (users d)"
      using app r0(1) by (simp add: app_ok_def cleared_ok_def)
    with image [OF r0(1)] r(2) r0(2) key show ?thesis by (cases "p r0") auto
  qed
  then have "cleared_ok (users d) (supporters d) (update_where p f (fundraisers d))"
    using app by (simp add: app_ok_def cleared_ok_def)
  ultimately show ?thesis using app by (simp add: app_ok_def)
qed

lemma soft_delete_user_app:
  assumes app: "app_ok d"
    and images: "\<forall>s\<in>set (supporters d). sr_id s = i \<longrightarrow> sr_image_object_key s = None"
      "\<forall>f\<in>set (fundraisers d). fw_id f = i \<longrightarrow> fw_image_object_key f = None"
    and campaigns: "\<forall>c\<in>set (campaigns d). c_FundraiserID c = i \<longrightarrow> \<not> openStatus (c_Status c)"
  shows "app_ok (soft_delete_user E i d)"
proof -
  have "db_ok (soft_delete_user E i d)" using app by (simp add: app_ok_def soft_delete_user_ok)
  moreover have "owners_ok (users (soft_delete_user E i d)) (campaigns d)"
    using app campaigns by (auto simp: soft_delete_user_def app_ok_def owners_ok_def liveIDs_soft_delete)
  moreover have "cleared_ok (users (soft_delete_user E i d)) (supporters d) (fundraisers d)"
    using app images by (auto simp: soft_delete_user_def app_ok_def cleared_ok_def liveIDs_soft_delete)
  ultimately show ?thesis
    using app by (simp add: app_ok_def soft_delete_user_def roles_ok_update)
qed

section \<open>Every operation keeps the rules\<close>

lemma findRow_Some: "findRow E l m rows = Inr (Some r) \<Longrightarrow> r \<in> set rows"
  by (auto simp: findRow_def split: sum.splits if_splits dest: queryRow_cases)

lemma supporterJoin_row:
  "(u, s) \<in> set (supporterJoin E w d) \<Longrightarrow> u \<in> set (users d) \<and> s \<in> set (supporters d) \<and> sr_id s = u_ID u
     \<and> u_Role u = ''supporter'' \<and> live u \<and> sql_Lower E (u_WalletAddress u) = sql_Lower E w"
  by (auto simp: supporterJoin_def)

lemma fundraiserJoin_row:
  "(u, f) \<in> set (fundraiserJoin E w d) \<Longrightarrow> u \<in> set (users d) \<and> f \<in> set (fundraisers d) \<and> fw_id f = u_ID u
     \<and> u_Role u = ''fundraiser'' \<and> live u \<and> sql_Lower E (u_WalletAddress u) = sql_Lower E w"
  by (auto simp: fundraiserJoin_def)

text \<open>What a committed transaction has done, statement by statement.\<close>

lemma supporterCreate_commit:
  assumes "supporterCreateTx E sp d = Commit m a d'"
  shows "\<exists>row d1. insert_user E (u_ID sp) (u_Role sp) (u_Email sp) (u_WalletAddress sp) d = Inr (row, d1)
    \<and> insert_supporter \<lparr>sr_id = u_ID sp, sr_name = sp_Name sp, sr_image_object_key = sp_ImageObjectKey sp\<rparr> d1 = Inr d'
    \<and> a = sp\<lparr>u_CreatedAt := u_CreatedAt row\<rparr>"
  using assms unfolding supporterCreateTx_def
  by (auto split: sum.splits dest!: exec_Inr intro!: exI)

lemma fundraiserCreate_commit:
  assumes "fundraiserCreateTx E fr d = Commit m a d'"
  shows "\<exists>row d1. insert_user E (u_ID fr) (u_Role fr) (u_Email fr) (u_WalletAddress fr) d = Inr (row, d1)
    \<and> insert_fundraiser \<lparr>fw_id = u_ID fr, fw_name = fr_Name fr, fw_image_object_key = fr_ImageObjectKey fr,
        fw_contact_name = fr_ContactName fr, fw_contact_phone = fr_ContactPhone fr,
        fw_social_url = fr_SocialURL fr, fw_country = fr_Country fr, fw_zip_code = fr_ZipCode fr\<rparr> d1 = Inr d'
    \<and> a = fr\<lparr>u_CreatedAt := u_CreatedAt row\<rparr>"
  using assms unfolding fundraiserCreateTx_def
  by (auto split: sum.splits dest!: exec_Inr intro!: exI)

lemma supporterReplace_commit:
  assumes "supporterReplaceTx E w pr d = Commit m a d'"
  shows "\<exists>u s d1 d2 r. (u, s) \<in> set (supporterJoin E (TrimSpace w) d)
    \<and> update_user_email (spr_Email pr) (u_ID u) d = Inr d1
    \<and> update_supporter_name (spr_Name pr) (u_ID u) d1 = Inr d2
    \<and> d' = (if iu_Set (spr_ImageObjectKey pr)
            then update_supporter_image (iu_Value (spr_ImageObjectKey pr)) (u_ID u) d2 else d2)
    \<and> replaceImageCleanup E ''repository: check old supporter image references''
        (spr_ImageObjectKey pr) (sr_image_object_key s) d' = Inr r \<and> a = Some r"
  using assms unfolding supporterReplaceTx_def
  by (auto split: sum.splits option.splits if_splits dest!: exec_Inr findRow_Some) blast+

lemma fundraiserReplace_commit:
  assumes "fundraiserReplaceTx E w pr d = Commit m a d'"
  shows "\<exists>u f d1 d2 r. (u, f) \<in> set (fundraiserJoin E (TrimSpace w) d)
    \<and> update_user_email (fpr_Email pr) (u_ID u) d = Inr d1
    \<and> update_fundraiser (fpr_Name pr) (fpr_ContactName pr) (fpr_ContactPhone pr) (fpr_SocialURL pr)
        (fpr_Country pr) (fpr_ZipCode pr) (u_ID u) d1 = Inr d2
    \<and> d' = (if iu_Set (fpr_ImageObjectKey pr)
            then update_fundraiser_image (iu_Value (fpr_ImageObjectKey pr)) (u_ID u) d2 else d2)
    \<and> replaceImageCleanup E ''repository: check old fundraiser image references''
        (fpr_ImageObjectKey pr) (fw_image_object_key f) d' = Inr r \<and> a = Some r"
  using assms unfolding fundraiserReplaceTx_def
  by (auto split: sum.splits option.splits if_splits dest!: exec_Inr findRow_Some) blast+

lemma supporterDelete_commit:
  assumes "supporterDeleteTx E w d = Commit m a d'"
  shows "\<exists>u s r. (u, s) \<in> set (supporterJoin E (TrimSpace w) d)
    \<and> d' = soft_delete_user E (u_ID u) (update_supporter_image None (u_ID u) d)
    \<and> deleteImageCleanup E ''repository: check deleted supporter image references'' (sr_image_object_key s) d' = Inr r
    \<and> a = Some r"
  using assms unfolding supporterDeleteTx_def
  by (auto split: sum.splits option.splits dest!: exec_Inr findRow_Some) blast+

lemma fundraiserDelete_commit:
  assumes "fundraiserDeleteTx E w d = Commit m a d'"
  shows "\<exists>u f r. (u, f) \<in> set (fundraiserJoin E (TrimSpace w) d) \<and> \<not> hasActiveCampaign (u_ID u) d
    \<and> d' = soft_delete_user E (u_ID u) (update_fundraiser_image None (u_ID u) d)
    \<and> deleteImageCleanup E ''repository: check deleted fundraiser image references'' (fw_image_object_key f) d' = Inr r
    \<and> a = Some r"
  using assms unfolding fundraiserDeleteTx_def
  by (auto split: sum.splits option.splits if_splits dest!: exec_Inr findRow_Some
      simp: queryRow_def) blast+

lemma app_ok_users:
  assumes "app_ok d" and "u \<in> set (users d)"
  shows "u_Role u = ''supporter'' \<Longrightarrow> u_ID u \<notin> fw_id ` set (fundraisers d)"
    and "u_Role u = ''fundraiser'' \<Longrightarrow> u_ID u \<notin> sr_id ` set (supporters d)"
    and "live u \<Longrightarrow> u_ID u \<in> liveIDs (users d)"
  using assms by (auto simp: app_ok_def roles_ok_def liveIDs_def)

lemma campaign_owner_row: "app_ok d \<Longrightarrow> c \<in> set (campaigns d) \<Longrightarrow> c_FundraiserID c \<in> fw_id ` set (fundraisers d)"
  by (simp add: app_ok_def db_ok_def campaigns_ok_def campaign_row_ok_def)

lemma update_user_email_users:
  "update_user_email email i d = Inr d' \<Longrightarrow> \<exists>v. d' = d\<lparr>users := update_where (\<lambda>u. u_ID u = i) (\<lambda>u. u\<lparr>u_Email := v\<rparr>) (users d)\<rparr>"
  by (auto simp: update_user_email_def split: option.splits if_splits)

lemma update_supporter_name_rows:
  "update_supporter_name n i d = Inr d' \<Longrightarrow>
     \<exists>v. d' = d\<lparr>supporters := update_where (\<lambda>r. sr_id r = i) (\<lambda>r. r\<lparr>sr_name := v\<rparr>) (supporters d)\<rparr>"
  by (auto simp: update_supporter_name_def split: option.splits)

lemma update_fundraiser_rows:
  assumes "update_fundraiser n cn ph url co z i d = Inr d'"
  shows "\<exists>f. (\<forall>r. fw_id (f r) = fw_id r \<and> fw_image_object_key (f r) = fw_image_object_key r)
    \<and> d' = d\<lparr>fundraisers := update_where (\<lambda>r. fw_id r = i) f (fundraisers d)\<rparr>"
proof -
  from assms obtain a b c e z' where "d' = d\<lparr>fundraisers := update_where (\<lambda>r. fw_id r = i)
      (\<lambda>r. r\<lparr>fw_name := a, fw_contact_name := b, fw_contact_phone := c, fw_social_url := Some url,
             fw_country := e, fw_zip_code := z'\<rparr>) (fundraisers d)\<rparr>"
    by (auto simp: update_fundraiser_def split: option.splits)
  then show ?thesis by (intro exI conjI) (auto)
qed

lemma supporterCreate_app:
  assumes app: "app_ok d" and role: "u_Role sp = ''supporter''" and tx: "supporterCreateTx E sp d = Commit m a d'"
  shows "app_ok d'"
proof -
  from supporterCreate_commit [OF tx] obtain row d1 where
    d1: "insert_user E (u_ID sp) (u_Role sp) (u_Email sp) (u_WalletAddress sp) d = Inr (row, d1)"
    and d': "insert_supporter \<lparr>sr_id = u_ID sp, sr_name = sp_Name sp, sr_image_object_key = sp_ImageObjectKey sp\<rparr> d1 = Inr d'"
    by blast
  note rows = insert_user_rows [OF d1]
  show ?thesis
  proof (rule insert_supporter_app [OF insert_user_app [OF app d1] d'])
    show "\<forall>u\<in>set (users d1). u_ID u = sr_id \<lparr>sr_id = u_ID sp, sr_name = sp_Name sp,
        sr_image_object_key = sp_ImageObjectKey sp\<rparr> \<longrightarrow> u_Role u = ''supporter''"
      using rows role by (auto dest: image_eqI [OF sym])
    show "sr_id \<lparr>sr_id = u_ID sp, sr_name = sp_Name sp, sr_image_object_key = sp_ImageObjectKey sp\<rparr>
        \<in> liveIDs (users d1)"
      using rows by simp
  qed
qed

lemma fundraiserCreate_app:
  assumes app: "app_ok d" and role: "u_Role fr = ''fundraiser''" and tx: "fundraiserCreateTx E fr d = Commit m a d'"
  shows "app_ok d'"
proof -
  from fundraiserCreate_commit [OF tx] obtain row d1 where
    d1: "insert_user E (u_ID fr) (u_Role fr) (u_Email fr) (u_WalletAddress fr) d = Inr (row, d1)"
    and d': "insert_fundraiser \<lparr>fw_id = u_ID fr, fw_name = fr_Name fr, fw_image_object_key = fr_ImageObjectKey fr,
        fw_contact_name = fr_ContactName fr, fw_contact_phone = fr_ContactPhone fr,
        fw_social_url = fr_SocialURL fr, fw_country = fr_Country fr, fw_zip_code = fr_ZipCode fr\<rparr> d1 = Inr d'"
    by blast
  note rows = insert_user_rows [OF d1]
  have "\<forall>u\<in>set (users d1). u_ID u = u_ID fr \<longrightarrow> u_Role u = ''fundraiser''" "u_ID fr \<in> liveIDs (users d1)"
    using rows role by (auto dest: image_eqI [OF sym])
  then show ?thesis by (intro insert_fundraiser_app [OF insert_user_app [OF app d1] d']) simp_all
qed

lemma supporterReplace_app:
  assumes app: "app_ok d" and tx: "supporterReplaceTx E w pr d = Commit m a d'"
  shows "app_ok d'"
proof -
  from supporterReplace_commit [OF tx] obtain u s d1 d2 where u: "(u, s) \<in> set (supporterJoin E (TrimSpace w) d)"
    and d1: "update_user_email (spr_Email pr) (u_ID u) d = Inr d1"
    and d2: "update_supporter_name (spr_Name pr) (u_ID u) d1 = Inr d2"
    and d': "d' = (if iu_Set (spr_ImageObjectKey pr)
            then update_supporter_image (iu_Value (spr_ImageObjectKey pr)) (u_ID u) d2 else d2)" by blast
  have app1: "app_ok d1" by (rule update_user_email_app [OF app d1])
  have app2: "app_ok d2"
    using update_supporter_name_rows [OF d2] by (auto intro!: update_supporters_app [OF app1])
  have "u_ID u \<in> liveIDs (users d2)"
    using supporterJoin_row [OF u] app_ok_users(3) [OF app] update_user_email_users [OF d1]
      update_supporter_name_rows [OF d2] by auto
  then show ?thesis
    unfolding d' update_supporter_image_def using app2 by (auto intro!: update_supporters_app)
qed

lemma fundraiserReplace_app:
  assumes app: "app_ok d" and tx: "fundraiserReplaceTx E w pr d = Commit m a d'"
  shows "app_ok d'"
proof -
  from fundraiserReplace_commit [OF tx] obtain u s d1 d2 where u: "(u, s) \<in> set (fundraiserJoin E (TrimSpace w) d)"
    and d1: "update_user_email (fpr_Email pr) (u_ID u) d = Inr d1"
    and d2: "update_fundraiser (fpr_Name pr) (fpr_ContactName pr) (fpr_ContactPhone pr) (fpr_SocialURL pr)
        (fpr_Country pr) (fpr_ZipCode pr) (u_ID u) d1 = Inr d2"
    and d': "d' = (if iu_Set (fpr_ImageObjectKey pr)
            then update_fundraiser_image (iu_Value (fpr_ImageObjectKey pr)) (u_ID u) d2 else d2)" by blast
  have app1: "app_ok d1" by (rule update_user_email_app [OF app d1])
  have app2: "app_ok d2"
    using update_fundraiser_rows [OF d2] by (auto intro!: update_fundraisers_app [OF app1])
  have "u_ID u \<in> liveIDs (users d2)"
    using fundraiserJoin_row [OF u] app_ok_users(3) [OF app] update_user_email_users [OF d1]
      update_fundraiser_rows [OF d2] by auto
  then show ?thesis
    unfolding d' update_fundraiser_image_def using app2 by (auto intro!: update_fundraisers_app)
qed

lemma supporterDelete_app:
  assumes app: "app_ok d" and tx: "supporterDeleteTx E w d = Commit m a d'"
  shows "app_ok d'"
proof -
  from supporterDelete_commit [OF tx] obtain u s where u: "(u, s) \<in> set (supporterJoin E (TrimSpace w) d)"
    and d': "d' = soft_delete_user E (u_ID u) (update_supporter_image None (u_ID u) d)" by blast
  have not_fr: "u_ID u \<notin> fw_id ` set (fundraisers d)"
    using supporterJoin_row [OF u] app_ok_users(1) [OF app] by blast
  have "app_ok (update_supporter_image None (u_ID u) d)"
    unfolding update_supporter_image_def by (rule update_supporters_app [OF app]) simp_all
  then show ?thesis
    unfolding d'
  proof (rule soft_delete_user_app)
    show "\<forall>s\<in>set (supporters (update_supporter_image None (u_ID u) d)). sr_id s = u_ID u \<longrightarrow> sr_image_object_key s = None"
      by (auto simp: update_supporter_image_def set_update_where)
    show "\<forall>f\<in>set (fundraisers (update_supporter_image None (u_ID u) d)). fw_id f = u_ID u \<longrightarrow> fw_image_object_key f = None"
      using not_fr by (auto simp: update_supporter_image_def dest: image_eqI [OF sym])
    show "\<forall>c\<in>set (campaigns (update_supporter_image None (u_ID u) d)). c_FundraiserID c = u_ID u \<longrightarrow> \<not> openStatus (c_Status c)"
      using not_fr campaign_owner_row [OF app] by (force simp: update_supporter_image_def)
  qed
qed

lemma fundraiserDelete_app:
  assumes app: "app_ok d" and tx: "fundraiserDeleteTx E w d = Commit m a d'"
  shows "app_ok d'"
proof -
  from fundraiserDelete_commit [OF tx] obtain u f where u: "(u, f) \<in> set (fundraiserJoin E (TrimSpace w) d)"
    and none: "\<not> hasActiveCampaign (u_ID u) d"
    and d': "d' = soft_delete_user E (u_ID u) (update_fundraiser_image None (u_ID u) d)" by blast
  have not_sp: "u_ID u \<notin> sr_id ` set (supporters d)"
    using fundraiserJoin_row [OF u] app_ok_users(2) [OF app] by blast
  have "app_ok (update_fundraiser_image None (u_ID u) d)"
    unfolding update_fundraiser_image_def by (rule update_fundraisers_app [OF app]) simp_all
  then show ?thesis
    unfolding d'
  proof (rule soft_delete_user_app)
    show "\<forall>s\<in>set (supporters (update_fundraiser_image None (u_ID u) d)). sr_id s = u_ID u \<longrightarrow> sr_image_object_key s = None"
      using not_sp by (auto simp: update_fundraiser_image_def dest: image_eqI [OF sym])
    show "\<forall>f\<in>set (fundraisers (update_fundraiser_image None (u_ID u) d)). fw_id f = u_ID u \<longrightarrow> fw_image_object_key f = None"
      by (auto simp: update_fundraiser_image_def set_update_where)
    show "\<forall>c\<in>set (campaigns (update_fundraiser_image None (u_ID u) d)). c_FundraiserID c = u_ID u \<longrightarrow> \<not> openStatus (c_Status c)"
      using none by (auto simp: update_fundraiser_image_def hasActiveCampaign_def openStatus_def)
  qed
qed

lemma profile_repo_app:
  assumes "app_ok d"
  shows "u_Role sp = ''supporter'' \<Longrightarrow> app_ok (fst (SupporterRepo_Create E sp d))"
    and "u_Role fr = ''fundraiser'' \<Longrightarrow> app_ok (fst (FundraiserRepo_Create E fr d))"
    and "app_ok (fst (SupporterRepo_ReplaceProfile E w spr d))"
    and "app_ok (fst (FundraiserRepo_ReplaceProfile E w fpr d))"
    and "app_ok (fst (SupporterRepo_DeleteProfile E w d))"
    and "app_ok (fst (FundraiserRepo_DeleteProfile E w d))"
  unfolding SupporterRepo_Create_def FundraiserRepo_Create_def SupporterRepo_ReplaceProfile_def
    FundraiserRepo_ReplaceProfile_def SupporterRepo_DeleteProfile_def FundraiserRepo_DeleteProfile_def
  by (rule runTx_invariant [where P = app_ok, OF assms],
      blast intro: assms supporterCreate_app fundraiserCreate_app supporterReplace_app fundraiserReplace_app
        supporterDelete_app fundraiserDelete_app)+

section \<open>Images\<close>

text \<open>The image keys that profile rows refer to.\<close>

definition profileImages :: "db \<Rightarrow> string set" where
  "profileImages d = {k. imageStillReferenced k d}"

lemma imageStillReferencedLive_all:
  assumes "app_ok d"
  shows "imageStillReferencedLive k d = imageStillReferenced k d"
proof -
  have "sr_id s \<in> liveIDs (users d)" if "s \<in> set (supporters d)" "sr_image_object_key s = Some k" for s
    using assms that by (auto simp: app_ok_def cleared_ok_def)
  moreover have "fw_id f \<in> liveIDs (users d)" if "f \<in> set (fundraisers d)" "fw_image_object_key f = Some k" for f
    using assms that by (auto simp: app_ok_def cleared_ok_def)
  ultimately show ?thesis
    unfolding imageStillReferencedLive_def imageStillReferenced_def liveIDs_iff by blast
qed

lemma replaceImageCleanup_safe:
  assumes "replaceImageCleanup E m upd current d = Inr r"
  shows "DeleteOldImageFile r \<longleftrightarrow> OldImageObjectKey r \<noteq> None"
    and "OldImageObjectKey r = Some k \<Longrightarrow> current = Some k \<and> k \<notin> profileImages d"
  using assms
  by (auto simp: replaceImageCleanup_def queryRow_def profileImages_def split: option.splits if_splits)

lemma deleteImageCleanup_safe:
  assumes "deleteImageCleanup E m current d = Inr r"
  shows "DeleteImageObjectFile r \<longleftrightarrow> ImageObjectKey r \<noteq> None"
    and "app_ok d \<Longrightarrow> ImageObjectKey r = Some k \<Longrightarrow> current = Some k \<and> k \<notin> profileImages d"
  using assms
  by (auto simp: deleteImageCleanup_def queryRow_def profileImages_def imageStillReferencedLive_all
      split: option.splits if_splits)

lemma runTx_Inr_Some:
  assumes "runTx E m body d = (d', Inr (Some r))" and "\<And>d x. body d \<noteq> Return (Inr (Some x))"
  shows "\<exists>cm. body d = Commit cm (Some r) d'"
  using assms by (auto simp: runTx_def split: option.splits txout.splits)

lemma profile_tx_returns:
  "supporterReplaceTx E w pr d \<noteq> Return (Inr (Some r))" "fundraiserReplaceTx E w fpr d \<noteq> Return (Inr (Some r))"
  "supporterDeleteTx E w d \<noteq> Return (Inr (Some r'))" "fundraiserDeleteTx E w d \<noteq> Return (Inr (Some r'))"
  by (auto simp: supporterReplaceTx_def fundraiserReplaceTx_def supporterDeleteTx_def fundraiserDeleteTx_def
      split: sum.splits option.splits if_splits)

lemma SupporterRepo_ReplaceProfile_image:
  assumes "SupporterRepo_ReplaceProfile E w pr d = (d', Inr (Some r))" and "OldImageObjectKey r = Some k"
  shows "k \<in> profileImages d \<and> k \<notin> profileImages d'"
proof -
  obtain cm where "supporterReplaceTx E w pr d = Commit cm (Some r) d'"
    using runTx_Inr_Some [OF assms(1) [unfolded SupporterRepo_ReplaceProfile_def]] profile_tx_returns by blast
  from supporterReplace_commit [OF this] assms(2) obtain u s where
    u: "(u, s) \<in> set (supporterJoin E (TrimSpace w) d)"
    and c: "replaceImageCleanup E ''repository: check old supporter image references''
        (spr_ImageObjectKey pr) (sr_image_object_key s) d' = Inr r" by blast
  from replaceImageCleanup_safe(2) [OF c assms(2)] supporterJoin_row [OF u] show ?thesis
    by (auto simp: profileImages_def imageStillReferenced_def)
qed

lemma FundraiserRepo_ReplaceProfile_image:
  assumes "FundraiserRepo_ReplaceProfile E w pr d = (d', Inr (Some r))" and "OldImageObjectKey r = Some k"
  shows "k \<in> profileImages d \<and> k \<notin> profileImages d'"
proof -
  obtain cm where "fundraiserReplaceTx E w pr d = Commit cm (Some r) d'"
    using runTx_Inr_Some [OF assms(1) [unfolded FundraiserRepo_ReplaceProfile_def]] profile_tx_returns by blast
  from fundraiserReplace_commit [OF this] assms(2) obtain u f where
    u: "(u, f) \<in> set (fundraiserJoin E (TrimSpace w) d)"
    and c: "replaceImageCleanup E ''repository: check old fundraiser image references''
        (fpr_ImageObjectKey pr) (fw_image_object_key f) d' = Inr r" by blast
  from replaceImageCleanup_safe(2) [OF c assms(2)] fundraiserJoin_row [OF u] show ?thesis
    by (auto simp: profileImages_def imageStillReferenced_def)
qed

lemma SupporterRepo_DeleteProfile_image:
  assumes app: "app_ok d" and "SupporterRepo_DeleteProfile E w d = (d', Inr (Some r))" and "ImageObjectKey r = Some k"
  shows "k \<in> profileImages d \<and> k \<notin> profileImages d'"
proof -
  obtain cm where tx: "supporterDeleteTx E w d = Commit cm (Some r) d'"
    using runTx_Inr_Some [OF assms(2) [unfolded SupporterRepo_DeleteProfile_def]] profile_tx_returns by blast
  from supporterDelete_commit [OF this] obtain u s where
    u: "(u, s) \<in> set (supporterJoin E (TrimSpace w) d)"
    and c: "deleteImageCleanup E ''repository: check deleted supporter image references''
        (sr_image_object_key s) d' = Inr r" by blast
  from deleteImageCleanup_safe(2) [OF c supporterDelete_app [OF app tx] assms(3)] supporterJoin_row [OF u]
  show ?thesis by (auto simp: profileImages_def imageStillReferenced_def)
qed

lemma FundraiserRepo_DeleteProfile_image:
  assumes app: "app_ok d" and "FundraiserRepo_DeleteProfile E w d = (d', Inr (Some r))" and "ImageObjectKey r = Some k"
  shows "k \<in> profileImages d \<and> k \<notin> profileImages d'"
proof -
  obtain cm where tx: "fundraiserDeleteTx E w d = Commit cm (Some r) d'"
    using runTx_Inr_Some [OF assms(2) [unfolded FundraiserRepo_DeleteProfile_def]] profile_tx_returns by blast
  from fundraiserDelete_commit [OF this] obtain u f where
    u: "(u, f) \<in> set (fundraiserJoin E (TrimSpace w) d)"
    and c: "deleteImageCleanup E ''repository: check deleted fundraiser image references''
        (fw_image_object_key f) d' = Inr r" by blast
  from deleteImageCleanup_safe(2) [OF c fundraiserDelete_app [OF app tx] assms(3)] fundraiserJoin_row [OF u]
  show ?thesis by (auto simp: profileImages_def imageStillReferenced_def)
qed

end
