(* ===== verification/Campaign_Store.thy ===== *)
theory Campaign_Store
  imports Profile_Repo
begin

text \<open>
  The writing half of the campaign repository
  (\<open>internal/infra/database/campaign_postgres.go\<close>): \<open>CreatePending\<close>, which inserts a pending
  campaign once per fundraiser and idempotency key, and \<open>CompleteDeployment\<close>, which moves a
  pending campaign to active together with its blockchain event. Both run in a transaction. The
  lemmas give the result on every branch, show that an error leaves the database as it was, that
  the schema's invariant is kept, and that repeating either operation has no further effect.
\<close>

section \<open>Creating a pending campaign\<close>

definition sameCampaignCreationPayload :: "Campaign \<Rightarrow> Campaign \<Rightarrow> bool" where
  "sameCampaignCreationPayload existing requested \<longleftrightarrow>
     c_Title existing = c_Title requested
     \<and> c_ShortDescription existing = c_ShortDescription requested
     \<and> c_Story existing = c_Story requested
     \<and> c_GoalAmount existing = c_GoalAmount requested
     \<and> c_EndAt existing = c_EndAt requested
     \<and> c_ImageObjectKey existing = c_ImageObjectKey requested
     \<and> c_Country existing = c_Country requested
     \<and> c_ZipCode existing = c_ZipCode requested"

definition findCampaignByIdempotencyKey :: "env \<Rightarrow> string \<Rightarrow> uuid \<Rightarrow> string \<Rightarrow> db \<Rightarrow> Campaign option result" where
  "findCampaignByIdempotencyKey E label fundraiserID idempotencyKey d =
     (case queryRow E label
        [c \<leftarrow> campaigns d. c_FundraiserID c = fundraiserID \<and> c_IdempotencyKey c = idempotencyKey] of
        Inl e \<Rightarrow>
          (if errors_Is e sql_ErrNoRows then Inr None
           else Inl (Wrap ''repository: find campaign by idempotency key'' e))
      | Inr c \<Rightarrow> Inr (Some (scanCampaign c)))"

definition lockFundraiser :: "env \<Rightarrow> string \<Rightarrow> db \<Rightarrow> (user_row \<times> fundraiser_row) list" where
  "lockFundraiser E wallet d =
     [(u, f). u \<leftarrow> users d, f \<leftarrow> fundraisers d,
        fw_id f = u_ID u \<and> u_Role u = ''fundraiser'' \<and> live u
        \<and> sql_Lower E (u_WalletAddress u) = sql_Lower E wallet]"

text \<open>The branch for an insert that \<open>ON CONFLICT DO NOTHING\<close> suppressed.\<close>

definition createPendingConflict :: "env \<Rightarrow> Campaign \<Rightarrow> db \<Rightarrow> Campaign txout" where
  "createPendingConflict E campaign d =
     (case findCampaignByIdempotencyKey E ''findCampaignByIdempotencyKey: conflict'' (c_FundraiserID campaign)
             (c_IdempotencyKey campaign) d of
        Inl e \<Rightarrow> Return (Inl e)
      | Inr None \<Rightarrow>
          Return (Inl (Wrap ''repository: resolve campaign idempotency conflict'' (Sentinel sql_ErrNoRows)))
      | Inr (Some existing) \<Rightarrow>
          (if \<not> sameCampaignCreationPayload existing campaign
           then Return (Inl (Sentinel repository_ErrCampaignIdempotencyConflict))
           else Commit ''repository: commit create pending campaign transaction'' existing d))"

definition createPendingTx :: "env \<Rightarrow> string \<Rightarrow> Campaign \<Rightarrow> time \<Rightarrow> db \<Rightarrow> Campaign txout" where
  "createPendingTx E walletAddress requested minimumEndAt d =
     (case queryRow E ''lockFundraiser'' (lockFundraiser E (TrimSpace walletAddress) d) of
        Inl e \<Rightarrow>
          (if errors_Is e sql_ErrNoRows then Return (Inl (Sentinel repository_ErrCampaignFundraiserNotFound))
           else Return (Inl (Wrap ''repository: lock campaign fundraiser'' e)))
      | Inr (u, _) \<Rightarrow>
          (let campaign = requested\<lparr>c_FundraiserID := u_ID u\<rparr>
           in case findCampaignByIdempotencyKey E ''findCampaignByIdempotencyKey'' (c_FundraiserID campaign)
                     (c_IdempotencyKey campaign) d of
             Inl e \<Rightarrow> Return (Inl e)
           | Inr (Some existing) \<Rightarrow>
               (if \<not> sameCampaignCreationPayload existing campaign
                then Return (Inl (Sentinel repository_ErrCampaignIdempotencyConflict))
                else Commit ''repository: commit campaign idempotency replay'' existing d)
           | Inr None \<Rightarrow>
               (if c_EndAt campaign < minimumEndAt
                then Return (Inl (Sentinel repository_ErrCampaignEndAtTooSoon))
                else
                  (case exec E ''insertCampaign'' (insert_campaign E campaign d) of
                     Inl e \<Rightarrow>
                       (if errors_Is e sql_ErrNoRows
                        then createPendingConflict E campaign d
                        else Return (Inl (mapPostgresError ''insert pending campaign'' e)))
                   | Inr (None, d') \<Rightarrow> createPendingConflict E campaign d'
                   | Inr (Some row, d') \<Rightarrow>
                       Commit ''repository: commit create pending campaign transaction''
                         (campaign\<lparr>c_RaisedAmount := c_RaisedAmount row, c_DonorCount := c_DonorCount row,
                                   c_CreatedAt := c_CreatedAt row\<rparr>) d'))))"

definition CreatePending :: "env \<Rightarrow> string \<Rightarrow> Campaign \<Rightarrow> time \<Rightarrow> db \<Rightarrow> db \<times> Campaign result" where
  "CreatePending E walletAddress campaign minimumEndAt =
     runTx E ''repository: begin create pending campaign transaction''
       (createPendingTx E walletAddress campaign minimumEndAt)"

section \<open>Completing a deployment\<close>

definition completeDeploymentTx :: "env \<Rightarrow> uuid \<Rightarrow> BlockchainEvent \<Rightarrow> string \<Rightarrow> db \<Rightarrow> unit txout" where
  "completeDeploymentTx E campaignID event contractAddress d =
     (case queryRow E ''lockCampaign'' [(c_Status c, c_ContractAddress c). c \<leftarrow> campaigns d, c_ID c = campaignID] of
        Inl e \<Rightarrow>
          (if errors_Is e sql_ErrNoRows then Return (Inl (Sentinel repository_ErrCampaignNotFound))
           else Return (Inl (Wrap ''repository: lock campaign for deployment'' e)))
      | Inr (status, existingAddress) \<Rightarrow>
          (if status = CampaignStatusActive then
             (case existingAddress of
                Some a \<Rightarrow>
                  (if TrimSpace a \<noteq> [] then Return (Inr ())
                   else Return (Inl (Sentinel repository_ErrCampaignNotPendingDeployment)))
              | None \<Rightarrow> Return (Inl (Sentinel repository_ErrCampaignNotPendingDeployment)))
           else if status \<noteq> CampaignStatusPending
             then Return (Inl (Sentinel repository_ErrCampaignNotPendingDeployment))
           else
             (case exec E ''insertEvent'' (insert_event E (event\<lparr>ev_TxHash := TrimSpace (ev_TxHash event)\<rparr>) d) of
                Inl e \<Rightarrow> Return (Inl (Wrap ''repository: insert campaign deployment event'' e))
              | Inr d1 \<Rightarrow>
                  (case exec E ''updateCampaign'' (activate_campaign campaignID (ev_ID event) contractAddress d1) of
                     Inl e \<Rightarrow> Return (Inl (Wrap ''repository: update campaign deployment'' e))
                   | Inr d2 \<Rightarrow> Commit ''repository: commit complete campaign deployment'' () d2))))"

definition CompleteDeployment ::
  "env \<Rightarrow> uuid \<Rightarrow> BlockchainEvent \<Rightarrow> string \<Rightarrow> db \<Rightarrow> db \<times> unit result" where
  "CompleteDeployment E campaignID event address d =
     (let contractAddress = TrimSpace address
      in if contractAddress = []
         then (d, Inl (Errorf ''repository: complete campaign deployment: contract address is required''))
         else if ev_ID event = 0
         then (d, Inl (Errorf ''repository: complete campaign deployment: event id is required''))
         else if TrimSpace (ev_TxHash event) = []
         then (d, Inl (Errorf ''repository: complete campaign deployment: tx hash is required''))
         else if ev_Type event \<noteq> BlockchainEventTypeCampaignCreated
         then (d, Inl (Errorf ''repository: complete campaign deployment: unsupported event type''))
         else runTx E ''repository: begin complete campaign deployment transaction''
                (completeDeploymentTx E campaignID event contractAddress) d)"

section \<open>The invariant and atomicity\<close>

lemma createPendingConflict_commit: "createPendingConflict E c d = Commit m a d' \<Longrightarrow> d' = d"
  by (auto simp: createPendingConflict_def split: sum.splits option.splits if_splits)

lemma insert_campaign_None: "insert_campaign E c d = Inr (None, d') \<Longrightarrow> d' = d"
  by (auto simp: insert_campaign_def Let_def split: option.splits if_splits)

lemma createPending_commit:
  assumes "createPendingTx E w c t d = Commit m a d'"
  shows "d' = d \<or> (\<exists>uf rest row. lockFundraiser E (TrimSpace w) d = uf # rest \<and> t \<le> c_EndAt c
     \<and> insert_campaign E (c\<lparr>c_FundraiserID := u_ID (fst uf)\<rparr>) d = Inr (Some row, d'))"
proof (cases "lockFundraiser E (TrimSpace w) d")
  case Nil
  with assms show ?thesis by (auto simp: createPendingTx_def queryRow_def split: option.splits if_splits)
next
  case (Cons uf rest)
  show ?thesis
  proof (cases "d' = d")
    case False
    with assms Cons show ?thesis
      by (auto simp: createPendingTx_def Let_def split_def queryRow_def
          split: sum.splits option.splits if_splits
          dest!: createPendingConflict_commit exec_Inr dest: insert_campaign_None)
  qed simp
qed

lemma completeDeployment_commit:
  assumes "completeDeploymentTx E i e a d = Commit m r d'"
  shows "\<exists>d1. insert_event E (e\<lparr>ev_TxHash := TrimSpace (ev_TxHash e)\<rparr>) d = Inr d1
    \<and> activate_campaign i (ev_ID e) a d1 = Inr d'"
  using assms unfolding completeDeploymentTx_def
  by (auto split: sum.splits option.splits if_splits dest!: exec_Inr)

lemma CreatePending_ok: "db_ok d \<Longrightarrow> db_ok (fst (CreatePending E w c t d))"
  unfolding CreatePending_def by (rule runTx_invariant) (auto dest!: createPending_commit dest: insert_campaign_ok)

lemma completeDeployment_commit_ok:
  assumes "db_ok d" and "completeDeploymentTx E i e a d = Commit m r d'"
  shows "db_ok d'"
  using completeDeployment_commit [OF assms(2)] insert_event_ok [OF assms(1)] activate_campaign_ok by metis

lemma CompleteDeployment_ok:
  assumes "db_ok d"
  shows "db_ok (fst (CompleteDeployment E i e a d))"
proof -
  have "db_ok (fst (runTx E m (completeDeploymentTx E i e (TrimSpace a)) d))" for m
    using assms by (rule runTx_invariant) (rule completeDeployment_commit_ok [OF assms])
  with assms show ?thesis unfolding CompleteDeployment_def Let_def by simp
qed

lemma update_campaigns_app:
  assumes app: "app_ok d" and ok: "db_ok d'" and d': "users d' = users d" "supporters d' = supporters d"
      "fundraisers d' = fundraisers d"
    and new: "\<And>c. c \<in> set (campaigns d') \<Longrightarrow> c \<notin> set (campaigns d) \<Longrightarrow>
       (openStatus (c_Status c) \<longrightarrow> c_FundraiserID c \<in> liveIDs (users d))
       \<and> (c_Status c = CampaignStatusPending \<longrightarrow> c_ContractAddress c = None \<and> c_EventID c = None)"
  shows "app_ok d'"
proof -
  have "owners_ok (users d) (campaigns d')"
    unfolding owners_ok_def using app new by (auto simp: app_ok_def owners_ok_def)
  moreover have "pending_ok (campaigns d')"
    unfolding pending_ok_def using app new by (auto simp: app_ok_def pending_ok_def)
  ultimately show ?thesis using app ok d' by (simp add: app_ok_def)
qed

lemma lockFundraiser_owner:
  "(u, f) \<in> set (lockFundraiser E w d) \<Longrightarrow> u \<in> set (users d) \<and> f \<in> set (fundraisers d) \<and> fw_id f = u_ID u
     \<and> u_Role u = ''fundraiser'' \<and> live u \<and> sql_Lower E (u_WalletAddress u) = sql_Lower E w"
  by (auto simp: lockFundraiser_def)

lemma insert_campaign_rows:
  assumes "insert_campaign E c d = Inr (Some row, d')"
  shows "d' = d\<lparr>campaigns := campaigns d @ [row]\<rparr>" "c_ID row = c_ID c" "c_Status row = c_Status c"
    "c_GoalAmount row = c_GoalAmount c" "c_ContractAddress row = None" "c_EventID row = None"
    "c_FundraiserID row = c_FundraiserID c" "c_ImageObjectKey row = c_ImageObjectKey c"
    "c_EndAt row = sql_Timestamp E (c_EndAt c)" "c_Story row = c_Story c"
    "c_RaisedAmount row = 0" "c_DonorCount row = 0" "c_CreatedAt row = sql_Now E"
    "varchar 255 (c_Title c) = Some (c_Title row)" "varchar 255 (c_ShortDescription c) = Some (c_ShortDescription row)"
    "varchar 255 (c_Country c) = Some (c_Country row)" "varchar 20 (c_ZipCode c) = Some (c_ZipCode row)"
    "varchar 255 (c_IdempotencyKey c) = Some (c_IdempotencyKey row)"
  using assms by (auto simp: insert_campaign_def Let_def split: option.splits if_splits)

lemma CreatePending_app:
  assumes app: "app_ok d"
  shows "app_ok (fst (CreatePending E w c t d))"
  unfolding CreatePending_def
proof (rule runTx_invariant [where P = app_ok, OF app])
  fix m a d' assume "createPendingTx E w c t d = Commit m a d'"
  from createPending_commit [OF this] show "app_ok d'"
  proof (elim disjE exE conjE)
    fix uf rest row
    assume u: "lockFundraiser E (TrimSpace w) d = uf # rest"
      and ins: "insert_campaign E (c\<lparr>c_FundraiserID := u_ID (fst uf)\<rparr>) d = Inr (Some row, d')"
    note rows = insert_campaign_rows [OF ins]
    have "(fst uf, snd uf) \<in> set (lockFundraiser E (TrimSpace w) d)" using u by simp
    from lockFundraiser_owner [OF this] have "u_ID (fst uf) \<in> liveIDs (users d)" by (auto simp: liveIDs_iff)
    moreover have "db_ok d'" using app ins insert_campaign_ok by (auto simp: app_ok_def)
    ultimately show ?thesis using rows by (intro update_campaigns_app [OF app]) auto
  qed (use app in simp)
qed

lemma activate_campaign_new:
  assumes "activate_campaign i e a d = Inr d'" and "c \<in> set (campaigns d')" and "c \<notin> set (campaigns d)"
  shows "\<exists>c0\<in>set (campaigns d). c_ID c0 = i \<and> c_FundraiserID c = c_FundraiserID c0 \<and> c_Status c = CampaignStatusActive"
proof -
  from assms obtain a' where d': "campaigns d' = update_where (\<lambda>c. c_ID c = i)
      (\<lambda>c. c\<lparr>c_Status := CampaignStatusActive, c_EventID := Some e, c_ContractAddress := Some a'\<rparr>) (campaigns d)"
    by (auto simp: activate_campaign_def split: option.splits if_splits)
  with assms(2,3) obtain c0 where "c0 \<in> set (campaigns d)" "c_ID c0 = i"
    "c = c0\<lparr>c_Status := CampaignStatusActive, c_EventID := Some e, c_ContractAddress := Some a'\<rparr>"
    by (auto simp: set_update_where split: if_splits)
  then show ?thesis by (intro bexI [of _ c0]) simp_all
qed

lemma activate_campaign_other:
  "activate_campaign i e a d = Inr d' \<Longrightarrow> users d' = users d \<and> supporters d' = supporters d
     \<and> fundraisers d' = fundraisers d \<and> blockchain_events d' = blockchain_events d \<and> donations d' = donations d"
  by (auto simp: activate_campaign_def split: option.splits if_splits)

lemma insert_event_rows: "insert_event E e d = Inr d' \<Longrightarrow> campaigns d' = campaigns d \<and> users d' = users d
    \<and> fundraisers d' = fundraisers d \<and> supporters d' = supporters d \<and> donations d' = donations d"
  by (auto simp: insert_event_def split: option.splits if_splits)

lemma completeDeployment_pending:
  assumes "completeDeploymentTx E i e a d = Commit m r d'"
  shows "\<exists>c\<in>set (campaigns d). c_ID c = i \<and> c_Status c = CampaignStatusPending"
proof -
  let ?rows = "[(c_Status c, c_ContractAddress c). c \<leftarrow> campaigns d, c_ID c = i]"
  from assms obtain a' where "queryRow E ''lockCampaign'' ?rows = Inr (CampaignStatusPending, a')"
    by (auto simp: completeDeploymentTx_def split: sum.splits option.splits if_splits)
  from queryRow_cases [OF this] obtain rs where "?rows = (CampaignStatusPending, a') # rs" by blast
  then have "(CampaignStatusPending, a') \<in> set ?rows" by (simp only: list.set_intros(1))
  then show ?thesis by auto
qed

lemma completeDeployment_app:
  assumes app: "app_ok d" and tx: "completeDeploymentTx E i e a d = Commit m r d'"
  shows "app_ok d'"
proof -
  from completeDeployment_commit [OF tx] obtain d1 where
    d1: "insert_event E (e\<lparr>ev_TxHash := TrimSpace (ev_TxHash e)\<rparr>) d = Inr d1"
    and act: "activate_campaign i (ev_ID e) a d1 = Inr d'" by blast
  from completeDeployment_pending [OF tx] obtain p where p: "p \<in> set (campaigns d)" "c_ID p = i"
    "c_Status p = CampaignStatusPending" by blast
  have dist: "distinct (map c_ID (campaigns d))" using app by (simp add: app_ok_def db_ok_def campaigns_ok_def)
  have owner: "c_FundraiserID p \<in> liveIDs (users d)"
    using app p by (auto simp: app_ok_def owners_ok_def openStatus_def)
  have "db_ok d'" using app tx completeDeployment_commit_ok by (auto simp: app_ok_def)
  then show ?thesis
  proof (rule update_campaigns_app [OF app])
    fix c assume "c \<in> set (campaigns d')" "c \<notin> set (campaigns d)"
    with activate_campaign_new [OF act] insert_event_rows [OF d1] obtain c0 where
      c0: "c0 \<in> set (campaigns d)" "c_ID c0 = i" "c_FundraiserID c = c_FundraiserID c0" "c_Status c = CampaignStatusActive"
      by auto
    then have "c0 = p" using distinct_map_eq [OF dist c0(1) p(1)] p(2) by simp
    with c0 owner show "(openStatus (c_Status c) \<longrightarrow> c_FundraiserID c \<in> liveIDs (users d))
       \<and> (c_Status c = CampaignStatusPending \<longrightarrow> c_ContractAddress c = None \<and> c_EventID c = None)" by simp
  qed (use activate_campaign_other [OF act] insert_event_rows [OF d1] in simp_all)
qed

lemma CompleteDeployment_app:
  assumes "app_ok d"
  shows "app_ok (fst (CompleteDeployment E i e a d))"
proof -
  have "app_ok (fst (runTx E m (completeDeploymentTx E i e (TrimSpace a)) d))" for m
    using assms by (rule runTx_invariant) (rule completeDeployment_app [OF assms])
  with assms show ?thesis unfolding CompleteDeployment_def Let_def by simp
qed

lemma CreatePending_error: "CreatePending E w c t d = (d', Inl e) \<Longrightarrow> d' = d"
  unfolding CreatePending_def by (rule runTx_error)

lemma CompleteDeployment_error: "CompleteDeployment E i e a d = (d', Inl x) \<Longrightarrow> d' = d"
  by (auto simp: CompleteDeployment_def Let_def split: if_splits dest: runTx_error)

section \<open>What CreatePending does\<close>

text \<open>The requests the service sends: a new pending campaign, no contract yet, texts that fit
  their columns, an end in whole microseconds.\<close>

definition creatable :: "Campaign \<Rightarrow> bool" where
  "creatable c \<longleftrightarrow>
     RuneCountInString (c_Title c) \<le> 255 \<and> RuneCountInString (c_ShortDescription c) \<le> 255
     \<and> RuneCountInString (c_Country c) \<le> 255 \<and> RuneCountInString (c_ZipCode c) \<le> 20
     \<and> RuneCountInString (c_IdempotencyKey c) \<le> 255 \<and> 0 < c_GoalAmount c
     \<and> c_EndAt c mod 1000 = 0 \<and> c_Status c = CampaignStatusPending
     \<and> c_EventID c = None \<and> c_ContractAddress c = None"

definition createdRow :: "env \<Rightarrow> uuid \<Rightarrow> Campaign \<Rightarrow> Campaign" where
  "createdRow E fundraiserID c =
     c\<lparr>c_FundraiserID := fundraiserID, c_RaisedAmount := 0, c_DonorCount := 0, c_CreatedAt := sql_Now E\<rparr>"

lemma insert_campaign_new:
  assumes "creatable c" and "timestamp_laws E"
    and "\<forall>x\<in>set (campaigns d). \<not> (c_FundraiserID x = i \<and> c_IdempotencyKey x = c_IdempotencyKey c)"
    and "c_ID c \<notin> c_ID ` set (campaigns d)" and "i \<in> fw_id ` set (fundraisers d)"
  shows "insert_campaign E (c\<lparr>c_FundraiserID := i\<rparr>) d
    = Inr (Some (createdRow E i c), d\<lparr>campaigns := campaigns d @ [createdRow E i c]\<rparr>)"
  using assms
  by (auto simp: insert_campaign_def creatable_def varchar_short timestamp_laws_def createdRow_def Let_def)

lemma findCampaignByIdempotencyKey_find:
  assumes "fault E = (\<lambda>_. None)"
  shows "findCampaignByIdempotencyKey E l i k d
    = Inr (find (\<lambda>c. c_FundraiserID c = i \<and> c_IdempotencyKey c = k) (campaigns d))"
  using assms by (simp add: findCampaignByIdempotencyKey_def queryRow_def find_filter split: list.splits)

lemma CreatePending_exact:
  assumes nofault: "fault E = (\<lambda>_. None)" and c: "creatable c" and time: "timestamp_laws E"
    and new: "c_ID c \<notin> c_ID ` set (campaigns d)"
  shows "CreatePending E w c t d =
    (case lockFundraiser E (TrimSpace w) d of
       [] \<Rightarrow> (d, Inl (Sentinel repository_ErrCampaignFundraiserNotFound))
     | (u, _) # _ \<Rightarrow>
         (case find (\<lambda>x. c_FundraiserID x = u_ID u \<and> c_IdempotencyKey x = c_IdempotencyKey c) (campaigns d) of
            Some x \<Rightarrow>
              (if sameCampaignCreationPayload x c then (d, Inr x)
               else (d, Inl (Sentinel repository_ErrCampaignIdempotencyConflict)))
          | None \<Rightarrow>
              (if c_EndAt c < t then (d, Inl (Sentinel repository_ErrCampaignEndAtTooSoon))
               else (d\<lparr>campaigns := campaigns d @ [createdRow E (u_ID u) c]\<rparr>, Inr (createdRow E (u_ID u) c)))))"
proof (cases "lockFundraiser E (TrimSpace w) d")
  case Nil
  with nofault show ?thesis
    by (simp add: CreatePending_def runTx_def createPendingTx_def queryRow_def)
next
  case (Cons uf rest)
  obtain u f where uf: "uf = (u, f)" by (cases uf)
  have own: "u_ID u \<in> fw_id ` set (fundraisers d)"
    using lockFundraiser_owner [of u f E "TrimSpace w" d] Cons uf by force
  have same: "sameCampaignCreationPayload x (c\<lparr>c_FundraiserID := u_ID u\<rparr>) = sameCampaignCreationPayload x c" for x
    by (simp add: sameCampaignCreationPayload_def)
  show ?thesis
  proof (cases "find (\<lambda>x. c_FundraiserID x = u_ID u \<and> c_IdempotencyKey x = c_IdempotencyKey c) (campaigns d)")
    case None
    then have "insert_campaign E (c\<lparr>c_FundraiserID := u_ID u\<rparr>) d
        = Inr (Some (createdRow E (u_ID u) c), d\<lparr>campaigns := campaigns d @ [createdRow E (u_ID u) c]\<rparr>)"
      by (intro insert_campaign_new [OF c time _ new own]) (simp add: find_None_iff_all)
    moreover have "c\<lparr>c_FundraiserID := u_ID u, c_RaisedAmount := c_RaisedAmount (createdRow E (u_ID u) c),
        c_DonorCount := c_DonorCount (createdRow E (u_ID u) c), c_CreatedAt := c_CreatedAt (createdRow E (u_ID u) c)\<rparr>
        = createdRow E (u_ID u) c"
      by (simp add: createdRow_def)
    ultimately show ?thesis
      using nofault None Cons uf
      by (simp add: CreatePending_def runTx_def createPendingTx_def queryRow_def exec_def
          findCampaignByIdempotencyKey_find)
  next
    case (Some x)
    with nofault Cons uf show ?thesis
      by (simp add: CreatePending_def runTx_def createPendingTx_def queryRow_def
          findCampaignByIdempotencyKey_find same)
  qed
qed

lemma lockFundraiser_cong:
  "sql_Lower E' = sql_Lower E \<Longrightarrow> users d' = users d \<Longrightarrow> fundraisers d' = fundraisers d
    \<Longrightarrow> lockFundraiser E' w d' = lockFundraiser E w d"
  by (simp add: lockFundraiser_def)

lemma find_append: "find P (xs @ ys) = (case find P xs of Some x \<Rightarrow> Some x | None \<Rightarrow> find P ys)"
  by (induction xs) auto

lemma CreatePending_success:
  assumes "CreatePending E w c t d = (d1, Inr r)" and "fault E = (\<lambda>_. None)" and "creatable c"
    and "timestamp_laws E" and "c_ID c \<notin> c_ID ` set (campaigns d)"
  shows "\<exists>u f rest. lockFundraiser E (TrimSpace w) d = (u, f) # rest
     \<and> users d1 = users d \<and> fundraisers d1 = fundraisers d \<and> sameCampaignCreationPayload r c
     \<and> find (\<lambda>x. c_FundraiserID x = u_ID u \<and> c_IdempotencyKey x = c_IdempotencyKey c) (campaigns d1) = Some r
     \<and> (d1 = d \<or> t \<le> c_EndAt c \<and> r = createdRow E (u_ID u) c \<and> d1 = d\<lparr>campaigns := campaigns d @ [r]\<rparr>)"
  using assms(1) unfolding CreatePending_exact [OF assms(2-5)]
  by (auto split: list.splits option.splits if_splits
      simp: find_append createdRow_def sameCampaignCreationPayload_def)

text \<open>An idempotency key names one campaign. After a successful \<open>CreatePending\<close>, any later
  request of the same wallet with the same key, at any time and with a new identifier, changes
  nothing: with the same payload it returns the campaign of the first request, with another
  payload it fails with the conflict error. So a client may repeat a request whose answer it
  lost.\<close>

lemma CreatePending_idempotent:
  assumes first: "CreatePending E w c t d = (d1, Inr r)"
    and E: "fault E = (\<lambda>_. None)" "timestamp_laws E"
    and c: "creatable c" "c_ID c \<notin> c_ID ` set (campaigns d)"
    and E': "fault E' = (\<lambda>_. None)" "timestamp_laws E'" "sql_Lower E' = sql_Lower E"
    and c': "creatable c'" "c_ID c' \<notin> c_ID ` set (campaigns d1)" "c_IdempotencyKey c' = c_IdempotencyKey c"
  shows "CreatePending E' w c' t' d1 =
    (d1, if sameCampaignCreationPayload r c' then Inr r
         else Inl (Sentinel repository_ErrCampaignIdempotencyConflict))"
proof -
  from CreatePending_success [OF first E(1) c(1) E(2) c(2)] obtain u f rest where
    u: "lockFundraiser E (TrimSpace w) d = (u, f) # rest" "users d1 = users d" "fundraisers d1 = fundraisers d"
    and r: "find (\<lambda>x. c_FundraiserID x = u_ID u \<and> c_IdempotencyKey x = c_IdempotencyKey c) (campaigns d1) = Some r"
    by blast
  have "lockFundraiser E' (TrimSpace w) d1 = (u, f) # rest"
    using u lockFundraiser_cong [OF E'(3) u(2,3)] by metis
  with r show ?thesis
    unfolding CreatePending_exact [OF E'(1) c'(1) E'(2) c'(2)] by (simp add: c'(3))
qed

lemma demo_creatable:
  "creatable (demo_pending\<lparr>c_ID := i, c_IdempotencyKey := ''key-3''\<rparr>)"
proof -
  have "RuneCountInString ''Shelter roof'' \<le> 255" "RuneCountInString ''A new roof'' \<le> 255"
    "RuneCountInString ''Indonesia'' \<le> 255" "RuneCountInString ''40111'' \<le> 20"
    "RuneCountInString ''key-3'' \<le> 255"
    by code_simp+
  then show ?thesis by (simp add: creatable_def demo_pending_def demo_campaign_def)
qed

definition demo_request :: Campaign where
  "demo_request = demo_pending\<lparr>c_ID := 23, c_IdempotencyKey := ''key-3''\<rparr>"

lemma demo_request_new:
  "creatable demo_request" "23 \<notin> c_ID ` set (campaigns demo_db)" "c_ID demo_request = 23"
  unfolding demo_request_def using demo_creatable by (simp_all add: demo_db_def demo_campaign_def demo_pending_def)

lemma demo_create:
  "CreatePending demo_env ''0xAB'' demo_request 0 demo_db
   = (demo_db\<lparr>campaigns := [demo_campaign, demo_pending, createdRow demo_env 1 demo_request]\<rparr>,
      Inr (createdRow demo_env 1 demo_request))"
proof -
  have trim: "TrimSpace ''0xAB'' = ''0xAB''" by code_simp
  have "c_ID demo_request \<notin> c_ID ` set (campaigns demo_db)" using demo_request_new by simp
  from CreatePending_exact [OF demo_env_sel(1) demo_request_new(1) demo_timestamp_laws this]
  show ?thesis
    by (simp add: trim lockFundraiser_def demo_db_def demo_request_def demo_pending_def demo_campaign_def
        lower_byte_hex)
qed

lemma CreatePending_idempotent_witness:
  "CreatePending demo_env ''0xAB'' (demo_request\<lparr>c_ID := 24\<rparr>) 99 (fst (CreatePending demo_env ''0xAB'' demo_request 0 demo_db))
     = (fst (CreatePending demo_env ''0xAB'' demo_request 0 demo_db), Inr (createdRow demo_env 1 demo_request))
   \<and> CreatePending demo_env ''0xAB'' (demo_request\<lparr>c_ID := 24, c_GoalAmount := 5\<rparr>) 99
       (fst (CreatePending demo_env ''0xAB'' demo_request 0 demo_db))
     = (fst (CreatePending demo_env ''0xAB'' demo_request 0 demo_db),
        Inl (Sentinel repository_ErrCampaignIdempotencyConflict))"
proof -
  have fresh: "creatable (demo_request\<lparr>c_ID := 24\<rparr>)" "creatable (demo_request\<lparr>c_ID := 24, c_GoalAmount := 5\<rparr>)"
    "24 \<notin> c_ID ` set [demo_campaign, demo_pending, createdRow demo_env 1 demo_request]"
    "c_ID demo_request \<notin> c_ID ` set (campaigns demo_db)"
    using demo_request_new
    by (simp_all add: creatable_def createdRow_def demo_db_def demo_campaign_def demo_pending_def)
  have same: "sameCampaignCreationPayload (createdRow demo_env 1 demo_request) (demo_request\<lparr>c_ID := 24\<rparr>)"
    "\<not> sameCampaignCreationPayload (createdRow demo_env 1 demo_request) (demo_request\<lparr>c_ID := 24, c_GoalAmount := 5\<rparr>)"
    by (simp_all add: sameCampaignCreationPayload_def createdRow_def demo_request_def demo_pending_def
        demo_campaign_def)
  note again = CreatePending_idempotent [OF demo_create demo_env_sel(1) demo_timestamp_laws demo_request_new(1) fresh(4)
      demo_env_sel(1) demo_timestamp_laws refl]
  show ?thesis
    using again [OF fresh(1)] again [OF fresh(2)] fresh(3) same by (simp add: demo_create)
qed

text \<open>(C34) Only a live fundraiser account creates campaigns, and never one that ends before the lead time.
  Whatever fails on the way, a campaign that is in the database after \<open>CreatePending\<close> and was not there
  before has the identifier, status, goal, story, image and end of the request, an end at or after the
  minimum, and its title, short description, country, zip code and idempotency key as their columns keep
  them; nothing is raised yet, it has no donor, no event and no contract, it was created at the database's
  clock, and its owner is a live fundraiser account with the caller's wallet address. The end of the request
  is on a whole microsecond, as the service cuts it, which the column keeps.\<close>

theorem CreatePending_new_campaign:
  assumes "CreatePending E w c t d = (d', res)" and "x \<in> set (campaigns d')" and "x \<notin> set (campaigns d)"
    and time: "timestamp_laws E" "c_EndAt c mod 1000 = 0"
  shows "t \<le> c_EndAt x \<and> c_EndAt x = c_EndAt c \<and> c_ID x = c_ID c \<and> c_Status x = c_Status c
    \<and> c_GoalAmount x = c_GoalAmount c \<and> c_Story x = c_Story c \<and> c_ImageObjectKey x = c_ImageObjectKey c
    \<and> varchar 255 (c_Title c) = Some (c_Title x) \<and> varchar 255 (c_ShortDescription c) = Some (c_ShortDescription x)
    \<and> varchar 255 (c_Country c) = Some (c_Country x) \<and> varchar 20 (c_ZipCode c) = Some (c_ZipCode x)
    \<and> varchar 255 (c_IdempotencyKey c) = Some (c_IdempotencyKey x)
    \<and> c_RaisedAmount x = 0 \<and> c_DonorCount x = 0 \<and> c_CreatedAt x = sql_Now E
    \<and> c_ContractAddress x = None \<and> c_EventID x = None \<and> is_ok res
    \<and> (\<exists>u\<in>set (users d). u_ID u = c_FundraiserID x \<and> u_Role u = ''fundraiser'' \<and> live u
         \<and> sql_Lower E (u_WalletAddress u) = sql_Lower E (TrimSpace w))"
proof -
  from assms(1-3) obtain m a where "createPendingTx E w c t d = Commit m a d'" and res: "res = Inr a"
    unfolding CreatePending_def using runTx_changed by metis
  with createPending_commit [OF this(1)] assms(2,3) obtain uf rest row where
    u: "lockFundraiser E (TrimSpace w) d = uf # rest" and t: "t \<le> c_EndAt c"
    and ins: "insert_campaign E (c\<lparr>c_FundraiserID := u_ID (fst uf)\<rparr>) d = Inr (Some row, d')" by blast
  have "(fst uf, snd uf) \<in> set (lockFundraiser E (TrimSpace w) d)" using u by simp
  note owner = lockFundraiser_owner [OF this]
  note row = insert_campaign_rows [OF ins]
  have "sql_Timestamp E (c_EndAt c) = c_EndAt c" using time by (simp add: timestamp_laws_def)
  moreover from assms(2,3) row(1) have "x = row" by auto
  ultimately show ?thesis using owner t row res by auto
qed

theorem CreatePending_new_campaign_witness:
  "\<exists>x. x \<in> set (campaigns demo_db) \<union> {createdRow demo_env 1 demo_request} \<and> 0 \<le> c_EndAt x
   \<and> c_ID x = c_ID demo_request \<and> c_Story x = c_Story demo_request \<and> varchar 20 (c_ZipCode demo_request) = Some (c_ZipCode x)
   \<and> c_Status x = CampaignStatusPending \<and> (\<exists>u\<in>set (users demo_db). u_ID u = c_FundraiserID x \<and> live u)"
proof -
  have "createdRow demo_env 1 demo_request \<notin> set (campaigns demo_db)"
    by (simp add: createdRow_def demo_request_def demo_db_def demo_pending_def demo_campaign_def)
  moreover have "c_EndAt demo_request mod 1000 = 0" using demo_request_new(1) by (simp add: creatable_def)
  ultimately show ?thesis
    using CreatePending_new_campaign [OF demo_create _ _ demo_timestamp_laws, of "createdRow demo_env 1 demo_request"]
    by (intro exI [of _ "createdRow demo_env 1 demo_request"])
      (auto simp: createdRow_def demo_request_def demo_pending_def)
qed

section \<open>What CompleteDeployment does\<close>

definition eventAccepted :: "BlockchainEvent \<Rightarrow> string \<Rightarrow> bool" where
  "eventAccepted e address \<longleftrightarrow>
     TrimSpace address \<noteq> [] \<and> ev_ID e \<noteq> 0 \<and> TrimSpace (ev_TxHash e) \<noteq> []
     \<and> ev_Type e = BlockchainEventTypeCampaignCreated"

text \<open>An event and an address the schema can take: new, and within the columns.\<close>

definition eventFits :: "BlockchainEvent \<Rightarrow> string \<Rightarrow> db \<Rightarrow> bool" where
  "eventFits e address d \<longleftrightarrow>
     RuneCountInString (TrimSpace address) \<le> 255 \<and> RuneCountInString (TrimSpace (ev_TxHash e)) \<le> 255
     \<and> int4 (ev_LogIndex e) \<and> int4 (ev_BlockNumber e)
     \<and> ev_ID e \<notin> ev_ID ` set (blockchain_events d)
     \<and> (TrimSpace (ev_TxHash e), ev_LogIndex e) \<notin> (\<lambda>v. (ev_TxHash v, ev_LogIndex v)) ` set (blockchain_events d)
     \<and> (\<forall>c\<in>set (campaigns d). c_ContractAddress c \<noteq> Some (TrimSpace address))"

definition storedEvent :: "env \<Rightarrow> BlockchainEvent \<Rightarrow> BlockchainEvent" where
  "storedEvent E e = e\<lparr>ev_TxHash := TrimSpace (ev_TxHash e), ev_CreatedAt := sql_Timestamp E (ev_CreatedAt e)\<rparr>"

definition activated :: "uuid \<Rightarrow> string \<Rightarrow> Campaign \<Rightarrow> Campaign" where
  "activated eventID address c =
     c\<lparr>c_Status := CampaignStatusActive, c_EventID := Some eventID, c_ContractAddress := Some address\<rparr>"

lemma CompleteDeployment_guards:
  "eventAccepted e a \<Longrightarrow> CompleteDeployment E i e a d =
     runTx E ''repository: begin complete campaign deployment transaction''
       (completeDeploymentTx E i e (TrimSpace a)) d"
  by (simp add: CompleteDeployment_def eventAccepted_def)

lemma CompleteDeployment_refused: "\<not> eventAccepted e a \<Longrightarrow> \<exists>x. CompleteDeployment E i e a d = (d, Inl x)"
  by (auto simp: CompleteDeployment_def eventAccepted_def Let_def)

lemma lockCampaign_row:
  assumes "db_ok d" and "c \<in> set (campaigns d)"
  shows "[(c_Status x, c_ContractAddress x). x \<leftarrow> campaigns d, c_ID x = c_ID c] = [(c_Status c, c_ContractAddress c)]"
proof -
  have dist: "distinct (map c_ID (campaigns d))" using assms(1) by (simp add: db_ok_def campaigns_ok_def)
  from join_unique [OF this, of "c_ID c"] assms(2)
  obtain b where b: "b \<in> set (campaigns d)" "c_ID b = c_ID c" "filter (\<lambda>x. c_ID x = c_ID c) (campaigns d) = [b]"
    by blast
  then have "b = c" using distinct_map_eq [OF dist] assms(2) by blast
  with b(3) show ?thesis unfolding concat_if_filter by simp
qed

lemma completeDeployment_pending_activates:
  assumes ok: "db_ok d" and nofault: "fault E = (\<lambda>_. None)"
    and c: "c \<in> set (campaigns d)" "c_Status c = CampaignStatusPending"
    and e: "eventAccepted e a" "eventFits e a d"
  shows "CompleteDeployment E (c_ID c) e a d =
    (d\<lparr>blockchain_events := blockchain_events d @ [storedEvent E e],
       campaigns := update_where (\<lambda>x. c_ID x = c_ID c) (activated (ev_ID e) (TrimSpace a)) (campaigns d)\<rparr>, Inr ())"
proof -
  have ins: "insert_event E (e\<lparr>ev_TxHash := TrimSpace (ev_TxHash e)\<rparr>) d
      = Inr (d\<lparr>blockchain_events := blockchain_events d @ [storedEvent E e]\<rparr>)" (is "_ = Inr ?d1")
    using e by (simp add: insert_event_def eventFits_def eventAccepted_def varchar_short storedEvent_def event_types_def)
  have "\<not> (\<exists>x\<in>set (campaigns d). c_ID x \<noteq> c_ID c \<and> c_EventID x = Some (ev_ID e))"
    using ok e(2) by (auto simp: db_ok_def campaigns_ok_def campaign_row_ok_def eventFits_def)
  then have act: "activate_campaign (c_ID c) (ev_ID e) (TrimSpace a) ?d1
      = Inr (?d1\<lparr>campaigns := update_where (\<lambda>x. c_ID x = c_ID c) (activated (ev_ID e) (TrimSpace a)) (campaigns d)\<rparr>)"
    using e c(1) by (auto simp: activate_campaign_def eventFits_def varchar_short activated_def [abs_def] storedEvent_def
        split: if_splits)
  show ?thesis
    unfolding CompleteDeployment_guards [OF e(1)]
    by (simp add: runTx_def completeDeploymentTx_def queryRow_def exec_def nofault lockCampaign_row [OF ok c(1)]
        c(2) ins act)
qed

text \<open>Completing the deployment of a pending campaign records the event and moves exactly
  that campaign to active, with the event's identifier and the contract's address; every other
  row of the database stays as it was.\<close>

lemma CompleteDeployment_activates:
  assumes ok: "db_ok d" and nofault: "fault E = (\<lambda>_. None)"
    and c: "c \<in> set (campaigns d)" "c_Status c = CampaignStatusPending"
    and e: "eventAccepted e a" "eventFits e a d"
  shows "CompleteDeployment E (c_ID c) e a d =
    (d\<lparr>blockchain_events := blockchain_events d @ [storedEvent E e],
       campaigns := update_where (\<lambda>x. c_ID x = c_ID c) (activated (ev_ID e) (TrimSpace a)) (campaigns d)\<rparr>, Inr ())"
  using assms by (rule completeDeployment_pending_activates)

definition demo_event :: BlockchainEvent where
  "demo_event = \<lparr>ev_ID = 13, ev_TxHash = ''0x03'', ev_LogIndex = 0,
     ev_Type = BlockchainEventTypeCampaignCreated, ev_BlockNumber = 3, ev_CreatedAt = 1700000000000000000\<rparr>"

lemma demo_event_ok: "eventAccepted demo_event ''0xC2''" "eventFits demo_event ''0xC2'' demo_db"
proof -
  have "TrimSpace ''0xC2'' = ''0xC2''" "TrimSpace ''0x03'' = ''0x03''"
    "RuneCountInString ''0xC2'' \<le> 255" "RuneCountInString ''0x03'' \<le> 255" by code_simp+
  then show "eventAccepted demo_event ''0xC2''" "eventFits demo_event ''0xC2'' demo_db"
    by (simp_all add: eventAccepted_def eventFits_def demo_event_def int4_def demo_db_def demo_campaign_def
        demo_pending_def)
qed

lemma CompleteDeployment_activates_witness:
  "CompleteDeployment demo_env 22 demo_event ''0xC2'' demo_db =
    (demo_db\<lparr>blockchain_events := blockchain_events demo_db @ [storedEvent demo_env demo_event],
       campaigns := [demo_campaign, activated 13 ''0xC2'' demo_pending]\<rparr>, Inr ())"
proof -
  have "demo_pending \<in> set (campaigns demo_db)" "c_Status demo_pending = CampaignStatusPending"
    by (simp_all add: demo_db_def demo_pending_def)
  note th = CompleteDeployment_activates [OF demo_db_ok demo_env_sel(1) this demo_event_ok]
  have "TrimSpace ''0xC2'' = ''0xC2''" by code_simp
  with th show ?thesis
    by (simp add: demo_db_def demo_pending_def demo_campaign_def demo_event_def)
qed

lemma activate_campaign_rows:
  assumes "activate_campaign i e a d = Inr d'" and "RuneCountInString a \<le> 255"
  shows "campaigns d' = update_where (\<lambda>x. c_ID x = i) (activated e a) (campaigns d)"
proof (cases "i \<in> c_ID ` set (campaigns d)")
  case True
  with assms show ?thesis
    by (auto simp: activate_campaign_def varchar_short activated_def [abs_def] split: if_splits)
next
  case False
  then have "update_where (\<lambda>x. c_ID x = i) (activated e a) (campaigns d) = campaigns d"
    by (intro update_where_none) auto
  with False assms show ?thesis by (simp add: activate_campaign_def varchar_short)
qed

text \<open>A campaign changes only from pending to active. Whatever happens during
  \<open>CompleteDeployment\<close>, a campaign row that is new afterwards is the requested campaign, which
  was pending, with the status active, the event and the address; then the call succeeded, and
  the event is recorded.\<close>

lemma CompleteDeployment_transition:
  assumes ok: "db_ok d" and run: "CompleteDeployment E i e a d = (d', res)"
    and len: "RuneCountInString (TrimSpace a) \<le> 255"
    and x: "x \<in> set (campaigns d')" "x \<notin> set (campaigns d)"
  shows "res = Inr () \<and> ev_ID e \<in> ev_ID ` set (blockchain_events d')
    \<and> (\<exists>c\<in>set (campaigns d). c_ID c = i \<and> c_Status c = CampaignStatusPending \<and> x = activated (ev_ID e) (TrimSpace a) c)"
proof -
  have acc: "eventAccepted e a"
  proof (rule ccontr)
    assume "\<not> eventAccepted e a"
    from CompleteDeployment_refused [OF this, of E i d] run have "d' = d" by auto
    with x show False by simp
  qed
  have "d' \<noteq> d" using x by auto
  with runTx_changed [OF run [unfolded CompleteDeployment_guards [OF acc]]]
  obtain m where tx: "completeDeploymentTx E i e (TrimSpace a) d = Commit m () d'" and res: "res = Inr ()"
    by auto
  from completeDeployment_commit [OF tx] obtain d1 where
    d1: "insert_event E (e\<lparr>ev_TxHash := TrimSpace (ev_TxHash e)\<rparr>) d = Inr d1"
    and act: "activate_campaign i (ev_ID e) (TrimSpace a) d1 = Inr d'" by blast
  have rows: "campaigns d' = update_where (\<lambda>x. c_ID x = i) (activated (ev_ID e) (TrimSpace a)) (campaigns d)"
    using activate_campaign_rows [OF act len] insert_event_rows [OF d1] by metis
  with x obtain c where c: "c \<in> set (campaigns d)" "c_ID c = i" "x = activated (ev_ID e) (TrimSpace a) c"
    by (auto simp: set_update_where split: if_splits)
  from completeDeployment_pending [OF tx] obtain c0 where c0: "c0 \<in> set (campaigns d)" "c_ID c0 = i"
    "c_Status c0 = CampaignStatusPending" by blast
  have "distinct (map c_ID (campaigns d))" using ok by (simp add: db_ok_def campaigns_ok_def)
  from distinct_map_eq [OF this c(1) c0(1)] c(2) c0(2) have "c0 = c" by simp
  have "ev_ID e \<in> ev_ID ` set (blockchain_events d1)"
    using d1 by (auto simp: insert_event_def split: option.splits if_splits)
  then have "ev_ID e \<in> ev_ID ` set (blockchain_events d')"
    using act by (auto simp: activate_campaign_def split: option.splits if_splits)
  with res c c0 \<open>c0 = c\<close> show ?thesis by blast
qed

lemma CompleteDeployment_transition_witness:
  "ev_ID demo_event \<in> ev_ID ` set (blockchain_events (fst (CompleteDeployment demo_env 22 demo_event ''0xC2'' demo_db)))"
proof -
  have p: "demo_pending \<in> set (campaigns demo_db)" "c_Status demo_pending = CampaignStatusPending" "c_ID demo_pending = 22"
    by (simp_all add: demo_db_def demo_pending_def)
  have a: "TrimSpace ''0xC2'' = ''0xC2''" "RuneCountInString ''0xC2'' \<le> 255" by code_simp+
  let ?r = "CompleteDeployment demo_env 22 demo_event ''0xC2'' demo_db"
  have d': "campaigns (fst ?r) = [demo_campaign, activated 13 ''0xC2'' demo_pending]"
    using completeDeployment_pending_activates [OF demo_db_ok demo_env_sel(1) p(1,2) demo_event_ok] p(3) a(1)
    by (simp add: demo_db_def demo_pending_def demo_campaign_def demo_event_def)
  have "activated 13 ''0xC2'' demo_pending \<notin> set (campaigns demo_db)"
    by (simp add: activated_def demo_db_def demo_pending_def demo_campaign_def)
  moreover have "?r = (fst ?r, snd ?r)" by simp
  ultimately show ?thesis
    using CompleteDeployment_transition [of demo_db demo_env 22 demo_event "''0xC2''" "fst ?r" "snd ?r"
        "activated 13 ''0xC2'' demo_pending"]
      d' a demo_db_ok by simp
qed

lemma completeDeployment_done:
  assumes ok: "db_ok d" and run: "CompleteDeployment E i e a d = (d', Inr ())"
    and len: "RuneCountInString (TrimSpace a) \<le> 255"
  shows "\<exists>c\<in>set (campaigns d'). c_ID c = i \<and> c_Status c = CampaignStatusActive
    \<and> (\<exists>b. c_ContractAddress c = Some b \<and> TrimSpace b \<noteq> [])"
proof -
  let ?rows = "[(c_Status c, c_ContractAddress c). c \<leftarrow> campaigns d, c_ID c = i]"
  have acc: "eventAccepted e a" using run CompleteDeployment_refused [of e a E i d] by fastforce
  have "completeDeploymentTx E i e (TrimSpace a) d = Return (Inr ()) \<and> d' = d
      \<or> (\<exists>m. completeDeploymentTx E i e (TrimSpace a) d = Commit m () d')"
    using run unfolding CompleteDeployment_guards [OF acc] runTx_def by (auto split: option.splits txout.splits)
  then show ?thesis
  proof (elim disjE conjE exE)
    assume tx: "completeDeploymentTx E i e (TrimSpace a) d = Return (Inr ())" and [simp]: "d' = d"
    then obtain b where "queryRow E ''lockCampaign'' ?rows = Inr (CampaignStatusActive, Some b)" and b: "TrimSpace b \<noteq> []"
      by (auto simp: completeDeploymentTx_def split: sum.splits option.splits if_splits)
    from queryRow_cases [OF this(1)] obtain rs where "?rows = (CampaignStatusActive, Some b) # rs" by blast
    then have "(CampaignStatusActive, Some b) \<in> set ?rows" by (simp only: list.set_intros(1))
    then obtain c where "c \<in> set (campaigns d)" "c_ID c = i" "c_Status c = CampaignStatusActive" "c_ContractAddress c = Some b"
      by (auto split: if_splits)
    with b show ?thesis by auto
  next
    fix m assume tx: "completeDeploymentTx E i e (TrimSpace a) d = Commit m () d'"
    from completeDeployment_commit [OF tx] obtain d1 where
      d1: "insert_event E (e\<lparr>ev_TxHash := TrimSpace (ev_TxHash e)\<rparr>) d = Inr d1"
      and act: "activate_campaign i (ev_ID e) (TrimSpace a) d1 = Inr d'" by blast
    have rows: "campaigns d' = update_where (\<lambda>x. c_ID x = i) (activated (ev_ID e) (TrimSpace a)) (campaigns d)"
      using activate_campaign_rows [OF act len] insert_event_rows [OF d1] by metis
    from completeDeployment_pending [OF tx] obtain c0 where "c0 \<in> set (campaigns d)" "c_ID c0 = i" by blast
    then have "activated (ev_ID e) (TrimSpace a) c0 \<in> set (campaigns d')"
      unfolding rows set_update_where by force
    with \<open>c_ID c0 = i\<close> acc show ?thesis
      by (intro bexI [of _ "activated (ev_ID e) (TrimSpace a) c0"]) (simp_all add: activated_def eventAccepted_def)
  qed
qed

text \<open>A deployment is completed once: after a success, every further completion of the same
  campaign, with any other event and address, succeeds and changes nothing. So a message that is
  delivered twice cannot replace the contract of an active campaign.\<close>

lemma CompleteDeployment_idempotent:
  assumes ok: "db_ok d" and run: "CompleteDeployment E i e a d = (d', Inr ())"
    and len: "RuneCountInString (TrimSpace a) \<le> 255"
    and again: "fault E' = (\<lambda>_. None)" "eventAccepted e' a'"
  shows "CompleteDeployment E' i e' a' d' = (d', Inr ())"
proof -
  have ok': "db_ok d'" using CompleteDeployment_ok [OF ok, of E i e a] run by simp
  from completeDeployment_done [OF ok run len] obtain c b where c: "c \<in> set (campaigns d')" "c_ID c = i"
    "c_Status c = CampaignStatusActive" "c_ContractAddress c = Some b" "TrimSpace b \<noteq> []" by blast
  from lockCampaign_row [OF ok' c(1)] c again show ?thesis
    unfolding CompleteDeployment_guards [OF again(2)]
    by (simp add: runTx_def completeDeploymentTx_def queryRow_def)
qed

lemma CompleteDeployment_idempotent_witness:
  "CompleteDeployment demo_env 21 demo_event ''0xC3'' demo_db = (demo_db, Inr ())
   \<and> CompleteDeployment demo_env 21 (demo_event\<lparr>ev_ID := 99\<rparr>) ''0xC4'' demo_db = (demo_db, Inr ())"
proof -
  have a: "TrimSpace ''0xC3'' = ''0xC3''" "TrimSpace ''0xC1'' = ''0xC1''" "TrimSpace ''0xC4'' = ''0xC4''"
    "TrimSpace ''0x03'' = ''0x03''" "RuneCountInString ''0xC3'' \<le> 255" by code_simp+
  have acc: "eventAccepted demo_event ''0xC3''" "eventAccepted (demo_event\<lparr>ev_ID := 99\<rparr>) ''0xC4''"
    by (simp_all add: eventAccepted_def demo_event_def a)
  have first: "CompleteDeployment demo_env 21 demo_event ''0xC3'' demo_db = (demo_db, Inr ())"
    unfolding CompleteDeployment_guards [OF acc(1)]
    by (simp add: runTx_def completeDeploymentTx_def queryRow_def demo_db_def demo_campaign_def demo_pending_def a)
  with CompleteDeployment_idempotent [OF demo_db_ok first _ demo_env_sel(1) acc(2)] a show ?thesis by simp
qed

end
