(* ===== verification/Campaign_Service.thy ===== *)
theory Campaign_Service
  imports Campaign_Store Object_Key
begin

text \<open>
  The campaign service (\<open>internal/service/campaign.go\<close>) over the shared state of the application,
  a record of the database, the object store and the broker. \<open>Create\<close> is the use case that
  touches all three: it promotes the staged image, stores the pending campaign, discards the
  staged copy and publishes the deployment task; the publisher and the promoter are optional, as
  in the code. The broker's state is arbitrary. The lemmas give the stored campaign and the
  published task, and show that after a failed publication the same request can be repeated.
\<close>

section \<open>State and inputs\<close>

record 'b world =
  database :: db
  objects :: store
  broker :: 'b

record CreateCampaignInput =
  ci_WalletAddress :: string
  ci_IdempotencyKey :: string
  ci_Title :: string
  ci_ShortDescription :: string
  ci_Story :: string
  ci_GoalAmount :: int
  ci_EndAt :: time
  ci_ImageObjectKey :: string
  ci_Country :: string
  ci_ZipCode :: string

record CampaignDeploymentTask =
  tk_CampaignID :: uuid
  tk_FundraiserID :: uuid
  tk_FundraiserWallet :: string
  tk_GoalAmount :: int
  tk_EndAt :: time
  tk_ChainID :: int

record 'b CampaignService =
  svc_objectPromoter :: "ObjectPromoter option"
  svc_deploymentPublisher :: "(CampaignDeploymentTask \<Rightarrow> 'b \<Rightarrow> 'b \<times> unit result) option"
  svc_chainID :: int

text \<open>The repository is the database of the state; \<open>generateID\<close> and \<open>now\<close> are part of the environment.\<close>

definition NewCampaignService :: "ObjectPromoter option \<Rightarrow> (CampaignDeploymentTask \<Rightarrow> 'b \<Rightarrow> 'b \<times> unit result) option \<Rightarrow> int
    \<Rightarrow> 'b CampaignService" where
  "NewCampaignService objectPromoter deploymentPublisher chainID =
     \<lparr>svc_objectPromoter = objectPromoter, svc_deploymentPublisher = deploymentPublisher, svc_chainID = chainID\<rparr>"

definition CampaignDeploymentLeadTime :: duration where
  "CampaignDeploymentLeadTime = 5 * Minute"

section \<open>Queries\<close>

definition ListPublicCampaigns ::
  "env \<Rightarrow> CampaignListOptions \<Rightarrow> db \<Rightarrow> (PublicCampaignListItem list \<times> int) result" where
  "ListPublicCampaigns E options d =
     (case ListPublic E (options\<lparr>lo_Search := TrimSpace (lo_Search options)\<rparr>) d of
        Inl e \<Rightarrow> Inl (Wrap ''service: list public campaigns'' e)
      | Inr r \<Rightarrow> Inr r)"

definition GetPublicCampaignDetail :: "env \<Rightarrow> string \<Rightarrow> db \<Rightarrow> PublicCampaignDetail result" where
  "GetPublicCampaignDetail E contractAddress d =
     (case FindPublicByContractAddress E (TrimSpace contractAddress) d of
        Inl e \<Rightarrow>
          (if errors_Is e repository_ErrCampaignNotFound then Inl (Sentinel service_ErrCampaignNotFound)
           else Inl (Wrap ''service: get public campaign detail'' e))
      | Inr c \<Rightarrow> Inr c)"

definition ListPublicCampaignDonors ::
  "env \<Rightarrow> string \<Rightarrow> CampaignDonorListOptions \<Rightarrow> db \<Rightarrow> (PublicCampaignDonor list \<times> int) result" where
  "ListPublicCampaignDonors E contractAddress options d =
     (case ListPublicDonorsByContractAddress E (TrimSpace contractAddress) options d of
        Inl e \<Rightarrow>
          (if errors_Is e repository_ErrCampaignNotFound then Inl (Sentinel service_ErrCampaignNotFound)
           else Inl (Wrap ''service: list public campaign donors'' e))
      | Inr r \<Rightarrow> Inr r)"

definition ListMyCampaigns ::
  "env \<Rightarrow> string \<Rightarrow> CampaignListOptions \<Rightarrow> db \<Rightarrow> (Campaign list \<times> int) result" where
  "ListMyCampaigns E walletAddress options d =
     (case ListForFundraiser E (TrimSpace walletAddress) (options\<lparr>lo_Search := TrimSpace (lo_Search options)\<rparr>) d of
        Inl e \<Rightarrow> Inl (Wrap ''service: list fundraiser campaigns'' e)
      | Inr r \<Rightarrow> Inr r)"

definition GetMyCampaignDetail :: "env \<Rightarrow> string \<Rightarrow> uuid \<Rightarrow> db \<Rightarrow> Campaign result" where
  "GetMyCampaignDetail E walletAddress campaignID d =
     (case FindByIDForFundraiser E (TrimSpace walletAddress) campaignID d of
        Inl e \<Rightarrow>
          (if errors_Is e repository_ErrCampaignNotFound then Inl (Sentinel service_ErrCampaignNotFound)
           else Inl (Wrap ''service: get fundraiser campaign detail'' e))
      | Inr c \<Rightarrow> Inr c)"

section \<open>Creating a campaign\<close>

definition needsCampaignDeployment :: "Campaign \<Rightarrow> bool" where
  "needsCampaignDeployment c \<longleftrightarrow>
     (if c_Status c \<noteq> CampaignStatusPending then False
      else case c_ContractAddress c of None \<Rightarrow> True | Some a \<Rightarrow> TrimSpace a = [])"

definition deploymentTask :: "int \<Rightarrow> string \<Rightarrow> Campaign \<Rightarrow> CampaignDeploymentTask" where
  "deploymentTask chainID walletAddress c =
     \<lparr>tk_CampaignID = c_ID c, tk_FundraiserID = c_FundraiserID c, tk_FundraiserWallet = walletAddress,
      tk_GoalAmount = c_GoalAmount c, tk_EndAt = c_EndAt c, tk_ChainID = chainID\<rparr>"

definition publishCampaignDeployment ::
  "'b CampaignService \<Rightarrow> string \<Rightarrow> Campaign \<Rightarrow> 'b \<Rightarrow> 'b \<times> unit result" where
  "publishCampaignDeployment svc walletAddress campaign b =
     (if \<not> needsCampaignDeployment campaign then (b, Inr ())
      else if svc_chainID svc \<le> 0
      then (b, Inl (Errorf ''service: publish campaign deployment: chain ID is required''))
      else
        (case svc_deploymentPublisher svc of
           None \<Rightarrow> (b, Inl (Errorf ''service: publish campaign deployment: publisher is required''))
         | Some publish \<Rightarrow>
             (case publish (deploymentTask (svc_chainID svc) walletAddress campaign) b of
                (b', Inl e) \<Rightarrow> (b', Inl (Wrap ''service: publish campaign deployment'' e))
              | (b', Inr _) \<Rightarrow> (b', Inr ()))))"

definition newCampaign :: "uuid \<Rightarrow> CreateCampaignInput \<Rightarrow> string \<Rightarrow> Campaign" where
  "newCampaign i input imageObjectKey =
     \<lparr>c_ID = i, c_FundraiserID = 0, c_EventID = None, c_Title = TrimSpace (ci_Title input),
      c_ShortDescription = TrimSpace (ci_ShortDescription input), c_Story = TrimSpace (ci_Story input),
      c_GoalAmount = ci_GoalAmount input, c_RaisedAmount = 0, c_DonorCount = 0, c_ContractAddress = None,
      c_CreatedAt = zeroTime, c_EndAt = Truncate Microsecond (ci_EndAt input),
      c_ImageObjectKey = imageObjectKey, c_Country = TrimSpace (ci_Country input),
      c_ZipCode = TrimSpace (ci_ZipCode input), c_Status = CampaignStatusPending,
      c_IdempotencyKey = TrimSpace (ci_IdempotencyKey input)\<rparr>"

definition createError :: "err \<Rightarrow> err" where
  "createError e =
     (if errors_Is e repository_ErrCampaignFundraiserNotFound then Sentinel service_ErrProfileNotFound
      else if errors_Is e repository_ErrCampaignIdempotencyConflict
      then Sentinel service_ErrCampaignIdempotencyConflict
      else if errors_Is e repository_ErrCampaignEndAtTooSoon then Sentinel service_ErrCampaignEndAtTooSoon
      else Wrap ''service: create pending campaign'' e)"

definition Create ::
  "env \<Rightarrow> 'b CampaignService \<Rightarrow> CreateCampaignInput \<Rightarrow> 'b world \<Rightarrow> 'b world \<times> Campaign result" where
  "Create E svc input w =
     (case generateID E of
        Inl e \<Rightarrow> (w, Inl (Wrap ''service: generate campaign ID'' e))
      | Inr i \<Rightarrow>
          (let stagingKey = TrimSpace (ci_ImageObjectKey input)
           in case promoteImageObjectKey E (svc_objectPromoter svc) stagingKey CampaignImageDirectory (objects w) of
             (st, Inl e) \<Rightarrow> (w\<lparr>objects := st\<rparr>, Inl e)
           | (st, Inr imageObjectKey) \<Rightarrow>
               (case CreatePending E (TrimSpace (ci_WalletAddress input)) (newCampaign i input imageObjectKey)
                       (time_Now E + CampaignDeploymentLeadTime) (database w) of
                  (d, Inl e) \<Rightarrow> (w\<lparr>database := d, objects := st\<rparr>, Inl (createError e))
                | (d, Inr created) \<Rightarrow>
                    (let st' = discardStagingImage E (svc_objectPromoter svc) (Some stagingKey) st
                     in case publishCampaignDeployment svc (TrimSpace (ci_WalletAddress input)) created (broker w) of
                       (b, Inl e) \<Rightarrow> (w\<lparr>database := d, objects := st', broker := b\<rparr>, Inl e)
                     | (b, Inr _) \<Rightarrow> (w\<lparr>database := d, objects := st', broker := b\<rparr>, Inr created)))))"

section \<open>What Create stores and publishes\<close>

lemma findCampaignByIdempotencyKey_Some:
  assumes "findCampaignByIdempotencyKey E l i k d = Inr (Some x)"
  shows "x \<in> set (campaigns d) \<and> c_FundraiserID x = i \<and> c_IdempotencyKey x = k"
proof -
  from assms have "queryRow E l [c \<leftarrow> campaigns d. c_FundraiserID c = i \<and> c_IdempotencyKey c = k] = Inr x"
    by (auto simp: findCampaignByIdempotencyKey_def split: sum.splits if_splits)
  from queryRow_cases [OF this] obtain rs where "[c \<leftarrow> campaigns d. c_FundraiserID c = i \<and> c_IdempotencyKey c = k] = x # rs"
    by blast
  then have "x \<in> set [c \<leftarrow> campaigns d. c_FundraiserID c = i \<and> c_IdempotencyKey c = k]" by simp
  then show ?thesis by simp
qed

lemma insert_campaign_created:
  assumes "insert_campaign E (c\<lparr>c_FundraiserID := i\<rparr>) d = Inr (Some row, d')" and "creatable c" and "timestamp_laws E"
  shows "row = createdRow E i c"
  using assms
  by (auto simp: insert_campaign_def creatable_def varchar_short timestamp_laws_def createdRow_def Let_def
      split: if_splits)

lemma createPendingConflict_value:
  assumes "createPendingConflict E c d = Commit m a d'"
  shows "d' = d \<and> a \<in> set (campaigns d) \<and> sameCampaignCreationPayload a c"
  using assms
  by (auto simp: createPendingConflict_def split: sum.splits option.splits if_splits
      dest!: findCampaignByIdempotencyKey_Some)

lemma same_payload_owner: "sameCampaignCreationPayload a (c\<lparr>c_FundraiserID := i\<rparr>) = sameCampaignCreationPayload a c"
  by (simp add: sameCampaignCreationPayload_def)

lemma createPendingTx_returns: "createPendingTx E w c t d = Return r \<Longrightarrow> \<not> is_ok r"
  by (auto simp: createPendingTx_def createPendingConflict_def Let_def split: sum.splits option.splits if_splits)

lemma CreatePending_tx:
  assumes "CreatePending E w c t d = (d1, Inr r)"
  shows "\<exists>m. createPendingTx E w c t d = Commit m r d1"
  using assms by (auto simp: CreatePending_def runTx_def split: option.splits txout.splits dest: createPendingTx_returns)

lemma CreatePending_returns:
  assumes run: "CreatePending E w c t d = (d1, Inr r)"
  obtains (replay) i where "d1 = d" "r \<in> set (campaigns d)" "sameCampaignCreationPayload r (c\<lparr>c_FundraiserID := i\<rparr>)"
  | (new) i row where "insert_campaign E (c\<lparr>c_FundraiserID := i\<rparr>) d = Inr (Some row, d1)"
      "r = c\<lparr>c_FundraiserID := i, c_RaisedAmount := c_RaisedAmount row, c_DonorCount := c_DonorCount row,
         c_CreatedAt := c_CreatedAt row\<rparr>"
proof -
  obtain m where tx: "createPendingTx E w c t d = Commit m r d1" using CreatePending_tx [OF run] ..
  show thesis
  proof (cases "lockFundraiser E (TrimSpace w) d")
    case Nil
    with tx show thesis by (auto simp: createPendingTx_def queryRow_def split: option.splits if_splits)
  next
    case (Cons uf rest)
    let ?c = "c\<lparr>c_FundraiserID := u_ID (fst uf)\<rparr>"
    from tx Cons consider
        "d1 = d" "r \<in> set (campaigns d)" "sameCampaignCreationPayload r ?c"
      | row where "insert_campaign E ?c d = Inr (Some row, d1)"
          "r = ?c\<lparr>c_RaisedAmount := c_RaisedAmount row, c_DonorCount := c_DonorCount row, c_CreatedAt := c_CreatedAt row\<rparr>"
      by (auto simp: createPendingTx_def Let_def split_def queryRow_def
          split: sum.splits option.splits if_splits
          dest!: createPendingConflict_value exec_Inr findCampaignByIdempotencyKey_Some insert_campaign_None)
    then show thesis
    proof cases
      case 1
      then show thesis by (rule replay)
    next
      case (2 row)
      then show thesis by (rule new)
    qed
  qed
qed

lemma CreatePending_value:
  assumes run: "CreatePending E w c t d = (d1, Inr r)" and c: "creatable c" "timestamp_laws E"
  shows "r \<in> set (campaigns d1) \<and> sameCampaignCreationPayload r c"
  using run
proof (cases rule: CreatePending_returns)
  case (replay i)
  then show ?thesis by (simp add: same_payload_owner)
next
  case (new i row)
  have row: "row = createdRow E i c" by (rule insert_campaign_created [OF new(1) c])
  then have "r = row" using new(2) by (simp add: createdRow_def)
  with row insert_campaign_rows(1) [OF new(1)] show ?thesis
    by (simp add: sameCampaignCreationPayload_def createdRow_def)
qed

lemma CreatePending_image:
  assumes "CreatePending E w c t d = (d1, Inr r)"
  shows "c_ImageObjectKey c \<in> c_ImageObjectKey ` set (campaigns d1)"
  using assms
proof (cases rule: CreatePending_returns)
  case (replay i)
  then have "c_ImageObjectKey r = c_ImageObjectKey c" by (simp add: sameCampaignCreationPayload_def)
  with replay(1,2) show ?thesis by (intro image_eqI [of _ _ r]) simp_all
next
  case (new i row)
  from insert_campaign_rows(1,8) [OF new(1)] show ?thesis by simp
qed

lemma createPendingConflict_owner:
  "createPendingConflict E c d = Commit m a d' \<Longrightarrow> c_FundraiserID a = c_FundraiserID c"
  by (auto simp: createPendingConflict_def split: sum.splits option.splits if_splits
      dest!: findCampaignByIdempotencyKey_Some)

lemma CreatePending_owner:
  assumes run: "CreatePending E w c t d = (d1, Inr r)"
  shows "\<exists>uf\<in>set (lockFundraiser E (TrimSpace w) d). c_FundraiserID r = u_ID (fst uf)"
proof -
  obtain m where tx: "createPendingTx E w c t d = Commit m r d1" using CreatePending_tx [OF run] ..
  show ?thesis
  proof (cases "lockFundraiser E (TrimSpace w) d")
    case Nil
    with tx show ?thesis by (auto simp: createPendingTx_def queryRow_def split: option.splits if_splits)
  next
    case (Cons uf rest)
    with tx have "c_FundraiserID r = u_ID (fst uf)"
      by (auto simp: createPendingTx_def Let_def split_def queryRow_def
          split: sum.splits option.splits if_splits
          dest!: createPendingConflict_owner findCampaignByIdempotencyKey_Some)
    with Cons show ?thesis by simp
  qed
qed

lemma publish_ok:
  assumes "publishCampaignDeployment svc wallet c b = (b', Inr ())" and "needsCampaignDeployment c"
  shows "\<exists>publish. svc_deploymentPublisher svc = Some publish
    \<and> publish (deploymentTask (svc_chainID svc) wallet c) b = (b', Inr ()) \<and> 0 < svc_chainID svc"
  using assms by (auto simp: publishCampaignDeployment_def split: if_splits option.splits prod.splits sum.splits)

lemma campaign_directory: "CampaignImageDirectory \<in> {''profiles'', ''campaigns''}"
  "ProfileImageDirectory \<in> {''profiles'', ''campaigns''}"
  by (simp_all add: CampaignImageDirectory_def ProfileImageDirectory_def)

lemma discard_keeps_canonical:
  assumes "CanonicalImageObjectKey E k dir = Inr key" and "dir \<in> {''profiles'', ''campaigns''}"
  shows "discardStagingImage E promoter (Some k) st (b, key) = st (b, key)"
proof (rule discardStagingImage_other)
  show "\<not> HasPrefix key ''tmp/''"
    using Canonical_differs(2) [OF assms(1)] assms(2) by (auto simp: HasPrefix_iff)
  show "\<forall>s. Some k = Some s \<longrightarrow> HasPrefix (TrimSpace s) ''tmp/''"
    using Canonical_differs(3) [OF assms(1)] by simp
qed

lemma Create_cases:
  assumes run: "Create E svc input w = (w', res)"
  obtains (unnamed) e where "w' = w" "res = Inl e"
  | (image) st e where
      "promoteImageObjectKey E (svc_objectPromoter svc) (TrimSpace (ci_ImageObjectKey input)) CampaignImageDirectory (objects w) = (st, Inl e)"
      "w' = w\<lparr>objects := st\<rparr>" "res = Inl e"
  | (refused) i st key d e where
      "promoteImageObjectKey E (svc_objectPromoter svc) (TrimSpace (ci_ImageObjectKey input)) CampaignImageDirectory (objects w) = (st, Inr key)"
      "CreatePending E (TrimSpace (ci_WalletAddress input)) (newCampaign i input key)
         (time_Now E + CampaignDeploymentLeadTime) (database w) = (d, Inl e)"
      "w' = w\<lparr>database := d, objects := st\<rparr>" "res = Inl (createError e)"
  | (stored) i st key d created b r where
      "promoteImageObjectKey E (svc_objectPromoter svc) (TrimSpace (ci_ImageObjectKey input)) CampaignImageDirectory (objects w) = (st, Inr key)"
      "CreatePending E (TrimSpace (ci_WalletAddress input)) (newCampaign i input key)
         (time_Now E + CampaignDeploymentLeadTime) (database w) = (d, Inr created)"
      "publishCampaignDeployment svc (TrimSpace (ci_WalletAddress input)) created (broker w) = (b, r)"
      "w' = w\<lparr>database := d, objects := discardStagingImage E (svc_objectPromoter svc)
         (Some (TrimSpace (ci_ImageObjectKey input))) st, broker := b\<rparr>"
      "res = (case r of Inl e \<Rightarrow> Inl e | Inr _ \<Rightarrow> Inr created)"
proof (cases "generateID E")
  case (Inl e)
  with run show ?thesis by (intro unnamed) (auto simp: Create_def)
next
  case (Inr i)
  obtain st r1 where pr: "promoteImageObjectKey E (svc_objectPromoter svc) (TrimSpace (ci_ImageObjectKey input))
      CampaignImageDirectory (objects w) = (st, r1)" by (cases "promoteImageObjectKey E (svc_objectPromoter svc)
        (TrimSpace (ci_ImageObjectKey input)) CampaignImageDirectory (objects w)")
  show ?thesis
  proof (cases r1)
    case (Inl e)
    with run pr \<open>generateID E = Inr i\<close> show ?thesis by (intro image) (auto simp: Create_def)
  next
    case r1: (Inr key)
    obtain d r2 where cp: "CreatePending E (TrimSpace (ci_WalletAddress input)) (newCampaign i input key)
         (time_Now E + CampaignDeploymentLeadTime) (database w) = (d, r2)"
      by (cases "CreatePending E (TrimSpace (ci_WalletAddress input)) (newCampaign i input key)
         (time_Now E + CampaignDeploymentLeadTime) (database w)")
    show ?thesis
    proof (cases r2)
      case (Inl e)
      with run pr r1 cp \<open>generateID E = Inr i\<close> show ?thesis by (intro refused) (auto simp: Create_def)
    next
      case r2: (Inr created)
      obtain b r where pub: "publishCampaignDeployment svc (TrimSpace (ci_WalletAddress input)) created (broker w) = (b, r)"
        by (cases "publishCampaignDeployment svc (TrimSpace (ci_WalletAddress input)) created (broker w)")
      from run pr r1 cp r2 pub \<open>generateID E = Inr i\<close> show ?thesis
        by (intro stored) (auto simp: Create_def Let_def split: sum.splits)
    qed
  qed
qed

text \<open>What the request handler has checked before it calls the service: lengths and a positive
  goal.\<close>

definition inputFits :: "CreateCampaignInput \<Rightarrow> bool" where
  "inputFits input \<longleftrightarrow>
     RuneCountInString (TrimSpace (ci_Title input)) \<le> 255
     \<and> RuneCountInString (TrimSpace (ci_ShortDescription input)) \<le> 255
     \<and> RuneCountInString (TrimSpace (ci_Country input)) \<le> 255
     \<and> RuneCountInString (TrimSpace (ci_ZipCode input)) \<le> 20
     \<and> RuneCountInString (TrimSpace (ci_IdempotencyKey input)) \<le> 255 \<and> 0 < ci_GoalAmount input"

lemma Truncate_Microsecond_whole: "Truncate Microsecond t mod 1000 = 0"
proof -
  have "(t + 62135596800000000 * 1000) mod 1000 = t mod (1000 :: int)" by (rule mod_mult_self1)
  then have "(t - zeroTime) mod 1000 = t mod 1000" by (simp add: zeroTime_def)
  then show ?thesis by (simp add: Truncate_def Microsecond_def minus_mod_eq_div_mult)
qed

lemma inputFits_creatable: "inputFits input \<Longrightarrow> creatable (newCampaign i input k)"
  by (simp add: inputFits_def creatable_def newCampaign_def Truncate_Microsecond_whole)

lemma Promote_present:
  assumes "fault E = (\<lambda>_. None)" and "CanonicalImageObjectKey E k dir = Inr key"
    and "dir \<in> {''profiles'', ''campaigns''}" and "st (op_bucket p, key) \<noteq> None"
  shows "promoteImageObjectKey E (Some p) k dir st = (st, Inr key)"
proof -
  have key: "TrimSpace key = key" by (rule Canonical_TrimSpace_id [OF assms(2,3)])
  have "key \<noteq> []" "TrimSpace k \<noteq> []" "TrimSpace k \<noteq> key"
    using Canonical_differs [OF assms(2)] by (auto simp: HasPrefix_iff)
  with key assms(1,4) have "Promote E p (TrimSpace k) key st = (st, Inr ())"
    by (auto simp: Promote_def Let_def StatObject_def)
  with assms(2) show ?thesis by (simp add: promoteImageObjectKey_def)
qed

lemma Promote_copies:
  assumes "fault E = (\<lambda>_. None)" and "CanonicalImageObjectKey E k dir = Inr key"
    and "dir \<in> {''profiles'', ''campaigns''}" and "st (op_bucket p, key) = None"
    and "st (op_bucket p, TrimSpace k) = Some content"
  shows "promoteImageObjectKey E (Some p) k dir st = (st((op_bucket p, key) \<mapsto> content), Inr key)"
proof -
  have key: "TrimSpace key = key" by (rule Canonical_TrimSpace_id [OF assms(2,3)])
  have "key \<noteq> []" "TrimSpace k \<noteq> []" "TrimSpace k \<noteq> key"
    using Canonical_differs [OF assms(2)] by (auto simp: HasPrefix_iff)
  with key assms(1,4,5) have "Promote E p (TrimSpace k) key st = (st((op_bucket p, key) \<mapsto> content), Inr ())"
    by (auto simp: Promote_def Let_def StatObject_def CopyObject_def NoSuchKey_def isObjectNotFound_def)
  with assms(2) show ?thesis by (simp add: promoteImageObjectKey_def)
qed

section \<open>A concrete request\<close>

definition demo_staging :: string where
  "demo_staging = stagingImageObjectKey ''campaigns'' (uuid_String demo_env 5) ''.png''"

definition demo_key :: string where
  "demo_key = ''campaigns/'' @ uuid_String demo_env 5 @ ''.png''"

definition demo_input :: CreateCampaignInput where
  "demo_input = \<lparr>ci_WalletAddress = ''0xAB'', ci_IdempotencyKey = ''key-3'', ci_Title = ''Clinic'',
     ci_ShortDescription = ''Vaccines'', ci_Story = ''For the shelter.'', ci_GoalAmount = 500,
     ci_EndAt = 1800000000000000000, ci_ImageObjectKey = demo_staging, ci_Country = ''Indonesia'',
     ci_ZipCode = ''40111''\<rparr>"

definition demo_service :: "bool \<Rightarrow> CampaignDeploymentTask list CampaignService" where
  "demo_service up = \<lparr>svc_objectPromoter = Some \<lparr>op_bucket = ''pawfund''\<rparr>,
     svc_deploymentPublisher = Some (\<lambda>t b. if up then (b @ [t], Inr ()) else (b, Inl (Errorf ''down''))),
     svc_chainID = 1\<rparr>"

definition demo_world :: "CampaignDeploymentTask list world" where
  "demo_world = \<lparr>database = demo_db, objects = [(''pawfund'', demo_staging) \<mapsto> ''png''], broker = []\<rparr>"

lemma demo_canonical: "CanonicalImageObjectKey demo_env demo_staging ''campaigns'' = Inr demo_key"
  unfolding demo_staging_def demo_key_def
  using Canonical_of_staging [OF demo_uuid_laws, of "''.png''" "''campaigns''" 5] by (simp add: imageExtensions_def)

lemma demo_staging_trim: "TrimSpace demo_staging = demo_staging" "demo_staging \<noteq> demo_key" "demo_staging \<noteq> []"
proof -
  show t: "TrimSpace demo_staging = demo_staging"
    unfolding demo_staging_def stagingImageObjectKey_def
    by (intro TrimSpace_id) (auto simp: stagingPrefix_def graphic_def)
  show "demo_staging \<noteq> demo_key" using Canonical_differs(1) [OF demo_canonical] t by simp
  show "demo_staging \<noteq> []" by (simp add: demo_staging_def stagingImageObjectKey_def stagingPrefix_def)
qed

lemma demo_texts:
  "TrimSpace ''Clinic'' = ''Clinic''" "TrimSpace ''Vaccines'' = ''Vaccines''" "TrimSpace ''0xAB'' = ''0xAB''"
  "TrimSpace ''For the shelter.'' = ''For the shelter.''" "TrimSpace ''Indonesia'' = ''Indonesia''"
  "TrimSpace ''40111'' = ''40111''" "TrimSpace ''key-3'' = ''key-3''"
  "RuneCountInString ''Clinic'' = 6" "RuneCountInString ''Vaccines'' = 8" "RuneCountInString ''Indonesia'' = 9"
  "RuneCountInString ''40111'' = 5" "RuneCountInString ''key-3'' = 5"
  by code_simp+

lemma demo_input_fits: "inputFits demo_input"
  by (simp add: inputFits_def demo_input_def demo_texts)

definition demo_created :: Campaign where
  "demo_created = createdRow demo_env 1 (newCampaign 7 demo_input demo_key)"

lemma demo_createPending:
  "CreatePending demo_env ''0xAB'' (newCampaign 7 demo_input demo_key) (1700000000000000000 + CampaignDeploymentLeadTime) demo_db
   = (demo_db\<lparr>campaigns := [demo_campaign, demo_pending, demo_created]\<rparr>, Inr demo_created)"
proof -
  have "c_ID (newCampaign 7 demo_input demo_key) \<notin> c_ID ` set (campaigns demo_db)"
    by (simp add: newCampaign_def demo_db_def demo_campaign_def demo_pending_def)
  note ex = CreatePending_exact [OF demo_env_sel(1) inputFits_creatable [OF demo_input_fits] demo_timestamp_laws this]
  have "Truncate Microsecond 1800000000000000000 = 1800000000000000000"
    by (simp add: Truncate_def Microsecond_def zeroTime_def)
  then show ?thesis
    unfolding ex demo_created_def
    by (simp add: demo_texts lockFundraiser_def demo_db_def demo_pending_def demo_campaign_def
        lower_byte_hex newCampaign_def demo_input_def CampaignDeploymentLeadTime_def Minute_def)
qed

lemma demo_create_with:
  assumes svc: "svc_objectPromoter svc = Some \<lparr>op_bucket = b\<rparr>"
    and published: "publishCampaignDeployment svc ''0xAB'' demo_created bk = (bk', r)"
  shows "Create demo_env svc demo_input \<lparr>database = demo_db, objects = [(b, demo_staging) \<mapsto> ''png''], broker = bk\<rparr> =
    (\<lparr>database = demo_db\<lparr>campaigns := [demo_campaign, demo_pending, demo_created]\<rparr>, objects = [(b, demo_key) \<mapsto> ''png''], broker = bk'\<rparr>,
     case r of Inl e \<Rightarrow> Inl e | Inr _ \<Rightarrow> Inr demo_created)"
proof -
  let ?st = "[(b, demo_staging) \<mapsto> ''png''] :: store"
  have pr: "promoteImageObjectKey demo_env (Some \<lparr>op_bucket = b\<rparr>) demo_staging ''campaigns'' ?st
      = (?st((b, demo_key) \<mapsto> ''png''), Inr demo_key)"
    using Promote_copies [OF demo_env_sel(1) demo_canonical, of ?st "\<lparr>op_bucket = b\<rparr>" "''png''"]
      demo_staging_trim by simp
  have dis: "discardStagingImage demo_env (Some \<lparr>op_bucket = b\<rparr>) (Some demo_staging)
      (?st((b, demo_key) \<mapsto> ''png'')) = [(b, demo_key) \<mapsto> ''png'']"
    using demo_staging_trim
    by (auto simp: discardStagingImage_def Discard_def deleteBestEffort_def RemoveObject_def Let_def fun_eq_iff)
  show ?thesis
    using pr dis svc published demo_createPending
    by (simp add: Create_def demo_input_def demo_staging_trim demo_texts CampaignImageDirectory_def Let_def split: sum.splits)
qed

lemma demo_needs: "needsCampaignDeployment demo_created"
  by (simp add: demo_created_def needsCampaignDeployment_def createdRow_def newCampaign_def)

lemma demo_create_run:
  "Create demo_env (demo_service up) demo_input demo_world =
    (demo_world\<lparr>database := demo_db\<lparr>campaigns := [demo_campaign, demo_pending, demo_created]\<rparr>,
       objects := [(''pawfund'', demo_key) \<mapsto> ''png''],
       broker := (if up then [deploymentTask 1 ''0xAB'' demo_created] else [])\<rparr>,
     if up then Inr demo_created else Inl (Wrap ''service: publish campaign deployment'' (Errorf ''down'')))"
  using demo_create_with [of "demo_service up" "''pawfund''" "[]"] demo_needs
  by (cases up) (simp_all add: demo_world_def demo_service_def publishCampaignDeployment_def)

text \<open>What a successful \<open>Create\<close> leaves behind.\<close>

lemma Create_stored:
  assumes run: "Create E svc input w = (w', Inr c)" and p: "svc_objectPromoter svc = Some p"
    and fits: "inputFits input" and time: "timestamp_laws E"
  shows "c \<in> set (campaigns (database w'))
    \<and> c_Title c = TrimSpace (ci_Title input) \<and> c_ShortDescription c = TrimSpace (ci_ShortDescription input)
    \<and> c_Story c = TrimSpace (ci_Story input) \<and> c_Country c = TrimSpace (ci_Country input)
    \<and> c_ZipCode c = TrimSpace (ci_ZipCode input) \<and> c_GoalAmount c = ci_GoalAmount input
    \<and> c_EndAt c = Truncate Microsecond (ci_EndAt input)
    \<and> (\<exists>u\<in>set (users (database w)). u_ID u = c_FundraiserID c \<and> u_Role u = ''fundraiser'' \<and> live u
         \<and> sql_Lower E (u_WalletAddress u) = sql_Lower E (TrimSpace (ci_WalletAddress input)))
    \<and> CanonicalImageObjectKey E (TrimSpace (ci_ImageObjectKey input)) CampaignImageDirectory = Inr (c_ImageObjectKey c)
    \<and> objects w' (op_bucket p, c_ImageObjectKey c) \<noteq> None
    \<and> (needsCampaignDeployment c \<longrightarrow>
        (\<exists>publish. svc_deploymentPublisher svc = Some publish \<and> 0 < svc_chainID svc
          \<and> publish (deploymentTask (svc_chainID svc) (TrimSpace (ci_WalletAddress input)) c) (broker w) = (broker w', Inr ())))"
proof -
  let ?k = "TrimSpace (ci_ImageObjectKey input)"
  from run obtain i st key d b where
    pr: "promoteImageObjectKey E (svc_objectPromoter svc) ?k CampaignImageDirectory (objects w) = (st, Inr key)"
    and cp: "CreatePending E (TrimSpace (ci_WalletAddress input)) (newCampaign i input key)
       (time_Now E + CampaignDeploymentLeadTime) (database w) = (d, Inr c)"
    and pub: "publishCampaignDeployment svc (TrimSpace (ci_WalletAddress input)) c (broker w) = (b, Inr ())"
    and w': "w' = w\<lparr>database := d, objects := discardStagingImage E (svc_objectPromoter svc) (Some ?k) st, broker := b\<rparr>"
    by (auto simp: Create_def Let_def split: sum.splits prod.splits)
  note pk = promoteImageObjectKey_ok [OF pr campaign_directory(1)]
  note v = CreatePending_value [OF cp inputFits_creatable [OF fits] time]
  have key: "c_ImageObjectKey c = key" using v by (simp add: sameCampaignCreationPayload_def newCampaign_def)
  have "objects w' (op_bucket p, key) = st (op_bucket p, key)"
    unfolding w' using discard_keeps_canonical [OF pk(1) campaign_directory(1)] by simp
  with pk(2) [OF p] key have "objects w' (op_bucket p, c_ImageObjectKey c) \<noteq> None" by simp
  moreover obtain uf where "uf \<in> set (lockFundraiser E (TrimSpace (TrimSpace (ci_WalletAddress input))) (database w))"
    "c_FundraiserID c = u_ID (fst uf)" using CreatePending_owner [OF cp] by blast
  then have "\<exists>u\<in>set (users (database w)). u_ID u = c_FundraiserID c \<and> u_Role u = ''fundraiser'' \<and> live u
      \<and> sql_Lower E (u_WalletAddress u) = sql_Lower E (TrimSpace (ci_WalletAddress input))"
    using lockFundraiser_owner [of "fst uf" "snd uf"] by auto
  ultimately show ?thesis
    using v publish_ok [OF pub] w' pk(1) key by (auto simp: sameCampaignCreationPayload_def newCampaign_def)
qed

text \<open>(C10) A campaign that \<open>Create\<close> returns is stored with the requested content: title, short description,
  story, country and zip code without surrounding blanks, the goal, and the end cut to the microsecond. It
  belongs to a live fundraiser account with the caller's wallet address, its image is in the bucket under
  the canonical key of the staged one, and, while it waits for its contract, the task that was handed to the
  publisher, which reported success, carries exactly its identifier, owner, wallet, goal, end and chain.
  This holds whatever else fails.\<close>

theorem Create_success:
  assumes run: "Create E svc input w = (w', Inr c)" and p: "svc_objectPromoter svc = Some p"
    and fits: "inputFits input" and time: "timestamp_laws E"
  shows "c \<in> set (campaigns (database w'))
    \<and> c_Title c = TrimSpace (ci_Title input) \<and> c_ShortDescription c = TrimSpace (ci_ShortDescription input)
    \<and> c_Story c = TrimSpace (ci_Story input) \<and> c_Country c = TrimSpace (ci_Country input)
    \<and> c_ZipCode c = TrimSpace (ci_ZipCode input) \<and> c_GoalAmount c = ci_GoalAmount input
    \<and> c_EndAt c = Truncate Microsecond (ci_EndAt input)
    \<and> (\<exists>u\<in>set (users (database w)). u_ID u = c_FundraiserID c \<and> u_Role u = ''fundraiser'' \<and> live u
         \<and> sql_Lower E (u_WalletAddress u) = sql_Lower E (TrimSpace (ci_WalletAddress input)))
    \<and> CanonicalImageObjectKey E (TrimSpace (ci_ImageObjectKey input)) CampaignImageDirectory = Inr (c_ImageObjectKey c)
    \<and> objects w' (op_bucket p, c_ImageObjectKey c) \<noteq> None
    \<and> (needsCampaignDeployment c \<longrightarrow>
        (\<exists>publish. svc_deploymentPublisher svc = Some publish \<and> 0 < svc_chainID svc
          \<and> publish \<lparr>tk_CampaignID = c_ID c, tk_FundraiserID = c_FundraiserID c,
                tk_FundraiserWallet = TrimSpace (ci_WalletAddress input), tk_GoalAmount = ci_GoalAmount input,
                tk_EndAt = Truncate Microsecond (ci_EndAt input), tk_ChainID = svc_chainID svc\<rparr> (broker w) = (broker w', Inr ())))"
proof -
  note stored = Create_stored [OF assms]
  from stored have "c_GoalAmount c = ci_GoalAmount input" "c_EndAt c = Truncate Microsecond (ci_EndAt input)" by blast+
  with stored show ?thesis by (simp add: deploymentTask_def)
qed

theorem Create_success_witness:
  "demo_created \<in> set (campaigns (database (fst (Create demo_env (demo_service True) demo_input demo_world))))
   \<and> c_GoalAmount demo_created = 500"
proof -
  have "svc_objectPromoter (demo_service True) = Some \<lparr>op_bucket = ''pawfund''\<rparr>" by (simp add: demo_service_def)
  from Create_success [OF demo_create_run [of True, simplified] this demo_input_fits demo_timestamp_laws]
  show ?thesis by (simp add: demo_create_run) (simp add: demo_input_def)
qed

section \<open>Repeating a request\<close>

lemma CreatePending_changed:
  assumes run: "CreatePending E w c t d = (d1, res)" and new: "d1 \<noteq> d" and c: "creatable c" "timestamp_laws E"
  shows "\<exists>u f rest. lockFundraiser E (TrimSpace w) d = (u, f) # rest \<and> t \<le> c_EndAt c
    \<and> res = Inr (createdRow E (u_ID u) c) \<and> d1 = d\<lparr>campaigns := campaigns d @ [createdRow E (u_ID u) c]\<rparr>
    \<and> find (\<lambda>x. c_FundraiserID x = u_ID u \<and> c_IdempotencyKey x = c_IdempotencyKey c) (campaigns d) = None
    \<and> c_ID c \<notin> c_ID ` set (campaigns d)"
proof -
  from runTx_changed [OF run [unfolded CreatePending_def]] new obtain m a where
    tx: "createPendingTx E w c t d = Commit m a d1" and res: "res = Inr a" by blast
  from createPending_commit [OF tx] new obtain uf rest row where
    u: "lockFundraiser E (TrimSpace w) d = uf # rest" and t: "t \<le> c_EndAt c"
    and ins: "insert_campaign E (c\<lparr>c_FundraiserID := u_ID (fst uf)\<rparr>) d = Inr (Some row, d1)" by blast
  note row = insert_campaign_created [OF ins c]
  note rows = insert_campaign_rows(1) [OF ins]
  have "a \<in> set (campaigns d1)" "sameCampaignCreationPayload a c"
    using CreatePending_value [OF run [unfolded res] c] by auto
  have none: "\<forall>x\<in>set (campaigns d). \<not> (c_FundraiserID x = u_ID (fst uf) \<and> c_IdempotencyKey x = c_IdempotencyKey c)"
    "c_ID c \<notin> c_ID ` set (campaigns d)"
    using ins c(1) by (auto simp: insert_campaign_def creatable_def varchar_short Let_def split: if_splits)
  have "a = row"
  proof -
    from tx u new have "a = c\<lparr>c_FundraiserID := u_ID (fst uf), c_RaisedAmount := c_RaisedAmount row,
        c_DonorCount := c_DonorCount row, c_CreatedAt := c_CreatedAt row\<rparr>"
      using ins
      by (auto simp: createPendingTx_def Let_def split_def queryRow_def
          split: sum.splits option.splits if_splits dest!: exec_Inr dest: createPendingConflict_commit)
    with row show ?thesis by (simp add: createdRow_def)
  qed
  with u t row rows res none show ?thesis
    by (intro exI [of _ "fst uf"] exI [of _ "snd uf"] exI [of _ rest]) (simp add: find_None_iff_all)
qed

text \<open>What the repository answers when a request that stored its campaign is repeated with a fresh identifier.\<close>

lemma CreatePending_again:
  assumes cp: "CreatePending E wallet (newCampaign i input key) t d0 = (d, Inr created)" and changed: "d \<noteq> d0"
    and c: "\<And>j. creatable (newCampaign j input key)" and time: "timestamp_laws E" "timestamp_laws E'"
    and E': "fault E' = (\<lambda>_. None)" "sql_Lower E' = sql_Lower E" and new: "i' \<notin> c_ID ` set (campaigns d)"
  shows "campaigns d = campaigns d0 @ [created]" "needsCampaignDeployment created"
    and "CreatePending E' wallet (newCampaign i' input key) t' d = (d, Inr created)"
proof -
  from CreatePending_changed [OF cp changed c time(1)] obtain u f rest where
    u: "lockFundraiser E (TrimSpace wallet) d0 = (u, f) # rest"
    and cr: "created = createdRow E (u_ID u) (newCampaign i input key)"
    and d: "d = d0\<lparr>campaigns := campaigns d0 @ [created]\<rparr>"
    and none: "find (\<lambda>x. c_FundraiserID x = u_ID u \<and> c_IdempotencyKey x = c_IdempotencyKey (newCampaign i input key))
      (campaigns d0) = None" by auto
  show "campaigns d = campaigns d0 @ [created]" by (simp add: d)
  show "needsCampaignDeployment created" by (simp add: cr needsCampaignDeployment_def createdRow_def newCampaign_def)
  have "c_ID (newCampaign i' input key) \<notin> c_ID ` set (campaigns d)" using new by (simp add: newCampaign_def)
  note again = CreatePending_exact [OF E'(1) c time(2) this, of wallet t']
  have lock: "lockFundraiser E' (TrimSpace wallet) d = (u, f) # rest"
    using u lockFundraiser_cong [OF E'(2), of d d0] d by simp
  have "find (\<lambda>x. c_FundraiserID x = u_ID u \<and> c_IdempotencyKey x = c_IdempotencyKey (newCampaign i' input key)) (campaigns d)
      = Some created"
    using none by (simp add: d find_append cr createdRow_def newCampaign_def)
  moreover have "sameCampaignCreationPayload created (newCampaign i' input key)"
    by (simp add: cr sameCampaignCreationPayload_def createdRow_def newCampaign_def)
  ultimately show "CreatePending E' wallet (newCampaign i' input key) t' d = (d, Inr created)"
    unfolding again lock by simp
qed

text \<open>(C33) A request whose publication failed can be repeated. Once \<open>Create\<close> has stored a new
  campaign, with whatever result and whatever failed after the insert, the same request, sent
  again when nothing fails and the publisher works, returns that campaign, publishes its task and
  leaves the database as it is; the staged image may be gone by then.\<close>

theorem Create_retry:
  assumes first: "Create E svc input w = (w1, res)" and stored: "database w1 \<noteq> database w"
    and p: "svc_objectPromoter svc = Some p" "svc_objectPromoter svc' = Some p"
    and fits: "inputFits input" and time: "timestamp_laws E" "timestamp_laws E'"
    and E': "fault E' = (\<lambda>_. None)" "sql_Lower E' = sql_Lower E" "uuid_Parse E' = uuid_Parse E"
    and new: "generateID E' = Inr i'" "i' \<notin> c_ID ` set (campaigns (database w1))"
    and pub: "0 < svc_chainID svc'" "svc_deploymentPublisher svc' = Some publish" "\<And>t b. snd (publish t b) = Inr ()"
  shows "\<exists>c w2. Create E' svc' input w1 = (w2, Inr c) \<and> database w2 = database w1
    \<and> campaigns (database w1) = campaigns (database w) @ [c]
    \<and> broker w2 = fst (publish (deploymentTask (svc_chainID svc') (TrimSpace (ci_WalletAddress input)) c) (broker w1))"
proof -
  let ?k = "TrimSpace (ci_ImageObjectKey input)" and ?wallet = "TrimSpace (ci_WalletAddress input)"
  let ?t = "time_Now E + CampaignDeploymentLeadTime"
  obtain i st key d created b where
    pr: "promoteImageObjectKey E (svc_objectPromoter svc) ?k CampaignImageDirectory (objects w) = (st, Inr key)"
    and cp: "CreatePending E ?wallet (newCampaign i input key) ?t (database w) = (d, Inr created)"
    and w1: "w1 = w\<lparr>database := d, objects := discardStagingImage E (svc_objectPromoter svc) (Some ?k) st, broker := b\<rparr>"
    by (rule Create_cases [OF first]) (use stored CreatePending_error in auto)
  note pk = promoteImageObjectKey_ok [OF pr campaign_directory(1)]
  have c: "creatable (newCampaign j input key)" for j by (rule inputFits_creatable [OF fits])
  have "d \<noteq> database w" "i' \<notin> c_ID ` set (campaigns d)" using stored new(2) w1 by simp_all
  note again = CreatePending_again [OF cp this(1) c time E'(1,2) this(2)]
  have "objects w1 (op_bucket p, key) = st (op_bucket p, key)"
    unfolding w1 using discard_keeps_canonical [OF pk(1) campaign_directory(1)] by simp
  moreover have "CanonicalImageObjectKey E' ?k CampaignImageDirectory = Inr key"
    using pk(1) by (simp only: CanonicalImageObjectKey_def E'(3))
  ultimately have pr': "promoteImageObjectKey E' (svc_objectPromoter svc') ?k CampaignImageDirectory (objects w1)
      = (objects w1, Inr key)"
    unfolding p(2) using pk(2) [OF p(1)] by (intro Promote_present E'(1) campaign_directory(1)) simp_all
  obtain b2 where b2: "publish (deploymentTask (svc_chainID svc') ?wallet created) (broker w1) = (b2, Inr ())"
    using pub(3) [of "deploymentTask (svc_chainID svc') ?wallet created" "broker w1"] by (metis prod.collapse)
  then have "publishCampaignDeployment svc' ?wallet created (broker w1) = (b2, Inr ())"
    using again(2) pub(1,2) by (simp add: publishCampaignDeployment_def)
  then have "\<exists>w2. Create E' svc' input w1 = (w2, Inr created) \<and> database w2 = database w1 \<and> broker w2 = b2"
    using again(3) pr' new(1) w1 by (simp add: Create_def Let_def)
  with b2 again(1) w1 show ?thesis by auto
qed

theorem Create_retry_witness:
  "\<exists>c w2. Create (demo_env\<lparr>generateID := Inr 8\<rparr>) (demo_service True) demo_input
        (fst (Create demo_env (demo_service False) demo_input demo_world)) = (w2, Inr c)
     \<and> campaigns (database w2) = [demo_campaign, demo_pending, c]
     \<and> broker w2 = [deploymentTask 1 ''0xAB'' c]"
proof -
  let ?E = "demo_env\<lparr>generateID := Inr 8\<rparr>"
  let ?w1 = "demo_world\<lparr>database := demo_db\<lparr>campaigns := [demo_campaign, demo_pending, demo_created]\<rparr>,
       objects := [(''pawfund'', demo_key) \<mapsto> ''png''], broker := []\<rparr>"
  have first: "Create demo_env (demo_service False) demo_input demo_world
      = (?w1, Inl (Wrap ''service: publish campaign deployment'' (Errorf ''down'')))"
    by (simp add: demo_create_run)
  have "database ?w1 \<noteq> database demo_world" by (simp add: demo_world_def demo_db_def)
  moreover have "timestamp_laws ?E" using demo_timestamp_laws by (simp add: timestamp_laws_def)
  moreover have "8 \<notin> c_ID ` set (campaigns (database ?w1))"
    by (simp add: demo_campaign_def demo_pending_def demo_created_def createdRow_def newCampaign_def)
  ultimately have "\<exists>c w2. Create ?E (demo_service True) demo_input ?w1 = (w2, Inr c) \<and> database w2 = database ?w1
    \<and> campaigns (database ?w1) = campaigns (database demo_world) @ [c] \<and> broker w2 = broker ?w1 @ [deploymentTask 1 ''0xAB'' c]"
    using Create_retry [OF first, where i' = 8 and p = "\<lparr>op_bucket = ''pawfund''\<rparr>" and E' = ?E
        and svc' = "demo_service True" and publish = "\<lambda>t b. (b @ [t], Inr ())"]
    by (simp add: demo_service_def demo_input_fits demo_timestamp_laws demo_texts)
      (simp add: demo_input_def demo_texts)
  then obtain c w2 where r: "Create ?E (demo_service True) demo_input ?w1 = (w2, Inr c)" "database w2 = database ?w1"
    "campaigns (database ?w1) = campaigns (database demo_world) @ [c]" "broker w2 = broker ?w1 @ [deploymentTask 1 ''0xAB'' c]"
    by blast
  have "campaigns (database demo_world) = [demo_campaign, demo_pending]" by (simp add: demo_world_def demo_db_def)
  with r show ?thesis by (intro exI [of _ c] exI [of _ w2]) (simp add: first)
qed

end
