(* ===== verification/Profile_Service.thy ===== *)
theory Profile_Service
  imports Campaign_Service
begin

text \<open>
  The profile services (\<open>internal/service/supporter.go\<close> and \<open>fundraiser.go\<close>): registration,
  profile lookup, the donation list, replacement and deletion, over the shared state of the
  application. Both services follow one scheme, promotion of a staged image, one repository
  transaction, disposal of the staged or of the replaced image, which \<open>registerProfile\<close>,
  \<open>replaceProfile\<close> and \<open>deleteProfile\<close> hold; the definitions named after the services
  instantiate it. The locale \<open>profile_repository\<close> is what the services rely on of their
  repository; it is interpreted on the two PostgreSQL repositories. The lemmas show that no
  operation leaves a profile or a campaign that refers to an image that is not in the store.
\<close>

section \<open>Inputs\<close>

record RegisterSupporterInput =
  rs_Name :: string
  rs_Email :: string
  rs_WalletAddress :: string
  rs_ImageObjectKey :: "string option"

record ContactPerson =
  cp_Name :: string
  cp_Phone :: string

record RegisterFundraiserInput =
  rf_Name :: string
  rf_Email :: string
  rf_WalletAddress :: string
  rf_ContactPerson :: ContactPerson
  rf_SocialURL :: string
  rf_Country :: string
  rf_ZipCode :: string
  rf_ImageObjectKey :: "string option"

record ReplaceSupporterProfileInput =
  rsp_WalletAddress :: string
  rsp_Profile :: SupporterProfileReplacement

record ReplaceFundraiserProfileInput =
  rfp_WalletAddress :: string
  rfp_Profile :: FundraiserProfileReplacement

record ProfileService =
  ps_objectDeleter :: "ObjectDeleter option"
  ps_objectPromoter :: "ObjectPromoter option"

definition NewSupporterService :: "ObjectDeleter option \<Rightarrow> ObjectPromoter option \<Rightarrow> ProfileService" where
  "NewSupporterService objectDeleter objectPromoter =
     \<lparr>ps_objectDeleter = objectDeleter, ps_objectPromoter = objectPromoter\<rparr>"

definition NewFundraiserService :: "ObjectDeleter option \<Rightarrow> ObjectPromoter option \<Rightarrow> ProfileService" where
  "NewFundraiserService objectDeleter objectPromoter =
     \<lparr>ps_objectDeleter = objectDeleter, ps_objectPromoter = objectPromoter\<rparr>"

section \<open>The common scheme\<close>

definition registerError :: "string \<Rightarrow> err \<Rightarrow> err" where
  "registerError message e =
     (if errors_Is e repository_ErrEmailAlreadyExists then Sentinel service_ErrEmailAlreadyRegistered
      else if errors_Is e repository_ErrWalletAlreadyExists then Sentinel service_ErrWalletAlreadyRegistered
      else Wrap message e)"

definition replaceError :: "string \<Rightarrow> err \<Rightarrow> err" where
  "replaceError message e =
     (if errors_Is e repository_ErrEmailAlreadyExists then Sentinel service_ErrEmailAlreadyRegistered
      else Wrap message e)"

definition registerProfile ::
  "env \<Rightarrow> ProfileService \<Rightarrow> string \<Rightarrow> (err \<Rightarrow> err) \<Rightarrow> ('p \<Rightarrow> db \<Rightarrow> db \<times> 'p result)
     \<Rightarrow> (uuid \<Rightarrow> string option \<Rightarrow> 'p) \<Rightarrow> string option \<Rightarrow> 'b world \<Rightarrow> 'b world \<times> 'p result" where
  "registerProfile E svc idMessage mapError create profile imageKey w =
     (case generateID E of
        Inl e \<Rightarrow> (w, Inl (Wrap idMessage e))
      | Inr i \<Rightarrow>
          (let stagingKey = normalizeOptionalString imageKey
           in case promoteOptionalImageObjectKey E (ps_objectPromoter svc) stagingKey ProfileImageDirectory (objects w) of
             (st, Inl e) \<Rightarrow> (w\<lparr>objects := st\<rparr>, Inl e)
           | (st, Inr imageObjectKey) \<Rightarrow>
               (case create (profile i imageObjectKey) (database w) of
                  (d, Inl e) \<Rightarrow> (w\<lparr>database := d, objects := st\<rparr>, Inl (mapError e))
                | (d, Inr created) \<Rightarrow>
                    (w\<lparr>database := d, objects := discardStagingImage E (ps_objectPromoter svc) stagingKey st\<rparr>,
                     Inr created))))"

text \<open>The clean-up of an image no profile refers to: a missing deleter or a failed deletion is
  ignored.\<close>

definition deleteUnreferenced :: "env \<Rightarrow> ProfileService \<Rightarrow> bool \<Rightarrow> string option \<Rightarrow> store \<Rightarrow> store" where
  "deleteUnreferenced E svc wanted objectKey st =
     (case (wanted, objectKey, ps_objectDeleter svc) of
        (True, Some k, Some deleter) \<Rightarrow> fst (Delete E deleter k st)
      | _ \<Rightarrow> st)"

definition stagedKey :: "ImageObjectKeyUpdate \<Rightarrow> string option" where
  "stagedKey u = (if iu_Set u then iu_Value u else None)"

definition promoteReplacement ::
  "env \<Rightarrow> ProfileService \<Rightarrow> ('r \<Rightarrow> ImageObjectKeyUpdate) \<Rightarrow> (ImageObjectKeyUpdate \<Rightarrow> 'r \<Rightarrow> 'r) \<Rightarrow> 'r \<Rightarrow> store
     \<Rightarrow> store \<times> 'r result" where
  "promoteReplacement E svc upd setUpd profile st =
     (case stagedKey (upd profile) of
        None \<Rightarrow> (st, Inr profile)
      | Some k \<Rightarrow>
          (case promoteImageObjectKey E (ps_objectPromoter svc) k ProfileImageDirectory st of
             (st', Inl e) \<Rightarrow> (st', Inl e)
           | (st', Inr canonical) \<Rightarrow> (st', Inr (setUpd ((upd profile)\<lparr>iu_Value := Some canonical\<rparr>) profile))))"

definition replaceProfile ::
  "env \<Rightarrow> ProfileService \<Rightarrow> string \<Rightarrow> (string \<Rightarrow> 'r \<Rightarrow> db \<Rightarrow> db \<times> ReplaceProfileResult option result)
     \<Rightarrow> ('r \<Rightarrow> ImageObjectKeyUpdate) \<Rightarrow> (ImageObjectKeyUpdate \<Rightarrow> 'r \<Rightarrow> 'r) \<Rightarrow> string \<Rightarrow> 'r \<Rightarrow> 'b world
     \<Rightarrow> 'b world \<times> unit result" where
  "replaceProfile E svc message repoReplace upd setUpd walletAddress profile w =
     (case promoteReplacement E svc upd setUpd profile (objects w) of
        (st, Inl e) \<Rightarrow> (w\<lparr>objects := st\<rparr>, Inl e)
      | (st, Inr profile') \<Rightarrow>
          (case repoReplace (TrimSpace walletAddress) profile' (database w) of
             (d, Inl e) \<Rightarrow> (w\<lparr>database := d, objects := st\<rparr>, Inl (replaceError message e))
           | (d, Inr None) \<Rightarrow> (w\<lparr>database := d, objects := st\<rparr>, Inl (Sentinel service_ErrProfileNotFound))
           | (d, Inr (Some r)) \<Rightarrow>
               (w\<lparr>database := d,
                  objects := deleteUnreferenced E svc (DeleteOldImageFile r) (OldImageObjectKey r)
                    (discardStagingImage E (ps_objectPromoter svc) (stagedKey (upd profile)) st)\<rparr>, Inr ())))"

definition deleteProfile ::
  "env \<Rightarrow> ProfileService \<Rightarrow> (err \<Rightarrow> err) \<Rightarrow> (string \<Rightarrow> db \<Rightarrow> db \<times> DeleteProfileResult option result) \<Rightarrow> string
     \<Rightarrow> 'b world \<Rightarrow> 'b world \<times> unit result" where
  "deleteProfile E svc mapError repoDelete walletAddress w =
     (case repoDelete (TrimSpace walletAddress) (database w) of
        (d, Inl e) \<Rightarrow> (w\<lparr>database := d\<rparr>, Inl (mapError e))
      | (d, Inr None) \<Rightarrow> (w\<lparr>database := d\<rparr>, Inl (Sentinel service_ErrProfileNotFound))
      | (d, Inr (Some r)) \<Rightarrow>
          (w\<lparr>database := d,
             objects := deleteUnreferenced E svc (DeleteImageObjectFile r) (ImageObjectKey r) (objects w)\<rparr>, Inr ()))"

section \<open>Supporters (supporter.go)\<close>

definition newSupporter :: "env \<Rightarrow> RegisterSupporterInput \<Rightarrow> uuid \<Rightarrow> string option \<Rightarrow> Supporter" where
  "newSupporter E input i imageObjectKey =
     \<lparr>u_ID = i, u_Role = UserRoleSupporter, u_Email = Lower E (TrimSpace (rs_Email input)),
      u_WalletAddress = TrimSpace (rs_WalletAddress input), u_CreatedAt = zeroTime,
      sp_Name = TrimSpace (rs_Name input), sp_ImageObjectKey = imageObjectKey\<rparr>"

definition SupporterService_Register ::
  "env \<Rightarrow> ProfileService \<Rightarrow> RegisterSupporterInput \<Rightarrow> 'b world \<Rightarrow> 'b world \<times> Supporter result" where
  "SupporterService_Register E svc input =
     registerProfile E svc ''service: generate supporter ID'' (registerError ''service: register supporter'')
       (SupporterRepo_Create E) (newSupporter E input) (rs_ImageObjectKey input)"

definition SupporterService_GetProfile :: "env \<Rightarrow> string \<Rightarrow> db \<Rightarrow> Supporter result" where
  "SupporterService_GetProfile E walletAddress d =
     (case SupporterRepo_FindByWalletAddress E (TrimSpace walletAddress) d of
        Inl e \<Rightarrow> Inl (Wrap ''service: get supporter profile'' e)
      | Inr None \<Rightarrow> Inl (Sentinel service_ErrProfileNotFound)
      | Inr (Some supporter) \<Rightarrow> Inr supporter)"

definition ListMyDonations :: "env \<Rightarrow> string \<Rightarrow> DonationListOptions \<Rightarrow> db \<Rightarrow> Donation list result" where
  "ListMyDonations E walletAddress options d =
     (case ListDonationsByWalletAddress E (TrimSpace walletAddress) options d of
        Inl e \<Rightarrow> Inl (Wrap ''service: list supporter donations'' e)
      | Inr None \<Rightarrow> Inl (Sentinel service_ErrProfileNotFound)
      | Inr (Some ds) \<Rightarrow> Inr ds)"

definition normalizeProfileString :: "env \<Rightarrow> string option \<Rightarrow> bool \<Rightarrow> string option" where
  "normalizeProfileString E value lowercase =
     (case value of
        None \<Rightarrow> None
      | Some v \<Rightarrow> (let normalized = TrimSpace v in Some (if lowercase then Lower E normalized else normalized)))"

definition normalizeImageUpdate :: "env \<Rightarrow> ImageObjectKeyUpdate \<Rightarrow> ImageObjectKeyUpdate" where
  "normalizeImageUpdate E u = (if iu_Set u then u\<lparr>iu_Value := normalizeProfileString E (iu_Value u) False\<rparr> else u)"

definition normalizeSupporterProfileReplacement ::
  "env \<Rightarrow> SupporterProfileReplacement \<Rightarrow> SupporterProfileReplacement" where
  "normalizeSupporterProfileReplacement E profile =
     \<lparr>spr_Name = TrimSpace (spr_Name profile), spr_Email = Lower E (TrimSpace (spr_Email profile)),
      spr_ImageObjectKey = normalizeImageUpdate E (spr_ImageObjectKey profile)\<rparr>"

definition SupporterService_ReplaceProfile ::
  "env \<Rightarrow> ProfileService \<Rightarrow> ReplaceSupporterProfileInput \<Rightarrow> 'b world \<Rightarrow> 'b world \<times> unit result" where
  "SupporterService_ReplaceProfile E svc input =
     replaceProfile E svc ''service: replace supporter profile'' (SupporterRepo_ReplaceProfile E)
       spr_ImageObjectKey (\<lambda>u p. p\<lparr>spr_ImageObjectKey := u\<rparr>) (rsp_WalletAddress input)
       (normalizeSupporterProfileReplacement E (rsp_Profile input))"

definition SupporterService_DeleteProfile ::
  "env \<Rightarrow> ProfileService \<Rightarrow> string \<Rightarrow> 'b world \<Rightarrow> 'b world \<times> unit result" where
  "SupporterService_DeleteProfile E svc =
     deleteProfile E svc (Wrap ''service: delete supporter profile'') (SupporterRepo_DeleteProfile E)"

section \<open>Fundraisers (fundraiser.go)\<close>

definition newFundraiser :: "env \<Rightarrow> RegisterFundraiserInput \<Rightarrow> uuid \<Rightarrow> string option \<Rightarrow> Fundraiser" where
  "newFundraiser E input i imageObjectKey =
     \<lparr>u_ID = i, u_Role = UserRoleFundraiser, u_Email = Lower E (TrimSpace (rf_Email input)),
      u_WalletAddress = TrimSpace (rf_WalletAddress input), u_CreatedAt = zeroTime,
      fr_Name = TrimSpace (rf_Name input), fr_ImageObjectKey = imageObjectKey,
      fr_ContactName = TrimSpace (cp_Name (rf_ContactPerson input)),
      fr_ContactPhone = TrimSpace (cp_Phone (rf_ContactPerson input)),
      fr_SocialURL = Some (TrimSpace (rf_SocialURL input)), fr_Country = TrimSpace (rf_Country input),
      fr_ZipCode = TrimSpace (rf_ZipCode input)\<rparr>"

definition FundraiserService_Register ::
  "env \<Rightarrow> ProfileService \<Rightarrow> RegisterFundraiserInput \<Rightarrow> 'b world \<Rightarrow> 'b world \<times> Fundraiser result" where
  "FundraiserService_Register E svc input =
     registerProfile E svc ''service: generate fundraiser ID'' (registerError ''service: register fundraiser'')
       (FundraiserRepo_Create E) (newFundraiser E input) (rf_ImageObjectKey input)"

definition FundraiserService_GetProfile :: "env \<Rightarrow> string \<Rightarrow> db \<Rightarrow> Fundraiser result" where
  "FundraiserService_GetProfile E walletAddress d =
     (case FundraiserRepo_FindByWalletAddress E (TrimSpace walletAddress) d of
        Inl e \<Rightarrow> Inl (Wrap ''service: get fundraiser profile'' e)
      | Inr None \<Rightarrow> Inl (Sentinel service_ErrProfileNotFound)
      | Inr (Some fundraiser) \<Rightarrow> Inr fundraiser)"

definition normalizeFundraiserProfileReplacement ::
  "env \<Rightarrow> FundraiserProfileReplacement \<Rightarrow> FundraiserProfileReplacement" where
  "normalizeFundraiserProfileReplacement E profile =
     \<lparr>fpr_Name = TrimSpace (fpr_Name profile), fpr_Email = Lower E (TrimSpace (fpr_Email profile)),
      fpr_ImageObjectKey = normalizeImageUpdate E (fpr_ImageObjectKey profile),
      fpr_ContactName = TrimSpace (fpr_ContactName profile), fpr_ContactPhone = TrimSpace (fpr_ContactPhone profile),
      fpr_SocialURL = TrimSpace (fpr_SocialURL profile), fpr_Country = TrimSpace (fpr_Country profile),
      fpr_ZipCode = TrimSpace (fpr_ZipCode profile)\<rparr>"

definition FundraiserService_ReplaceProfile ::
  "env \<Rightarrow> ProfileService \<Rightarrow> ReplaceFundraiserProfileInput \<Rightarrow> 'b world \<Rightarrow> 'b world \<times> unit result" where
  "FundraiserService_ReplaceProfile E svc input =
     replaceProfile E svc ''service: replace fundraiser profile'' (FundraiserRepo_ReplaceProfile E)
       fpr_ImageObjectKey (\<lambda>u p. p\<lparr>fpr_ImageObjectKey := u\<rparr>) (rfp_WalletAddress input)
       (normalizeFundraiserProfileReplacement E (rfp_Profile input))"

definition fundraiserDeleteError :: "err \<Rightarrow> err" where
  "fundraiserDeleteError e =
     (if errors_Is e repository_ErrFundraiserHasActiveCampaigns then Sentinel service_ErrActiveCampaignsExist
      else Wrap ''service: delete fundraiser profile'' e)"

definition FundraiserService_DeleteProfile ::
  "env \<Rightarrow> ProfileService \<Rightarrow> string \<Rightarrow> 'b world \<Rightarrow> 'b world \<times> unit result" where
  "FundraiserService_DeleteProfile E svc =
     deleteProfile E svc fundraiserDeleteError (FundraiserRepo_DeleteProfile E)"

section \<open>The contract of a profile repository\<close>

text \<open>What the services rely on: the rules of the application survive, campaigns are not touched,
  the image handed over becomes referenced and no other, and an image is reported for deletion only when
  no profile refers to it any more.\<close>

locale profile_repository =
  fixes create :: "'p \<Rightarrow> db \<Rightarrow> db \<times> 'p result"
    and imageOf :: "'p \<Rightarrow> string option"
    and valid :: "'p \<Rightarrow> bool"
    and replace :: "string \<Rightarrow> 'r \<Rightarrow> db \<Rightarrow> db \<times> ReplaceProfileResult option result"
    and upd :: "'r \<Rightarrow> ImageObjectKeyUpdate"
    and setUpd :: "ImageObjectKeyUpdate \<Rightarrow> 'r \<Rightarrow> 'r"
    and delete :: "string \<Rightarrow> db \<Rightarrow> db \<times> DeleteProfileResult option result"
  assumes create_app: "app_ok d \<Longrightarrow> valid p \<Longrightarrow> app_ok (fst (create p d))"
    and create_images: "create p d = (d', r) \<Longrightarrow> k \<in> profileImages d' \<Longrightarrow> k \<in> profileImages d \<or> imageOf p = Some k"
    and create_campaigns: "create p d = (d', r) \<Longrightarrow> campaigns d' = campaigns d"
    and create_shows: "create p d = (d', Inr c) \<Longrightarrow> imageOf p = Some k \<Longrightarrow> k \<in> profileImages d'"
    and create_error: "create p d = (d', Inl e) \<Longrightarrow> d' = d"
    and replace_app: "app_ok d \<Longrightarrow> app_ok (fst (replace w q d))"
    and replace_images: "replace w q d = (d', x) \<Longrightarrow> k \<in> profileImages d' \<Longrightarrow>
      k \<in> profileImages d \<or> iu_Set (upd q) \<and> iu_Value (upd q) = Some k"
    and replace_campaigns: "replace w q d = (d', x) \<Longrightarrow> campaigns d' = campaigns d"
    and replace_shows: "replace w q d = (d', Inr (Some y)) \<Longrightarrow> iu_Set (upd q) \<Longrightarrow> iu_Value (upd q) = Some k \<Longrightarrow>
      k \<in> profileImages d'"
    and replace_error: "replace w q d = (d', Inl e) \<Longrightarrow> d' = d"
    and replace_unreferenced: "replace w q d = (d', Inr (Some y)) \<Longrightarrow> OldImageObjectKey y = Some k \<Longrightarrow>
      k \<in> profileImages d \<and> k \<notin> profileImages d'"
    and upd_set: "upd (setUpd u q) = u"
    and delete_app: "app_ok d \<Longrightarrow> app_ok (fst (delete w d))"
    and delete_images: "delete w d = (d', z) \<Longrightarrow> k \<in> profileImages d' \<Longrightarrow> k \<in> profileImages d"
    and delete_campaigns: "delete w d = (d', z) \<Longrightarrow> campaigns d' = campaigns d"
    and delete_error: "delete w d = (d', Inl e) \<Longrightarrow> d' = d"
    and delete_unreferenced: "app_ok d \<Longrightarrow> delete w d = (d', Inr (Some v)) \<Longrightarrow> ImageObjectKey v = Some k \<Longrightarrow>
      k \<in> profileImages d \<and> k \<notin> profileImages d'"

text \<open>The images that are referred to, and the invariant: each is in the store, under the directory
  of its kind.\<close>

definition campaignImages :: "db \<Rightarrow> string set" where
  "campaignImages d = c_ImageObjectKey ` set (campaigns d)"

definition profileKey :: "string \<Rightarrow> bool" where
  "profileKey k \<longleftrightarrow> HasPrefix k ''profiles/'' \<and> TrimSpace k = k"

definition images_ok :: "string \<Rightarrow> 'b world \<Rightarrow> bool" where
  "images_ok bucket w \<longleftrightarrow>
     (\<forall>k\<in>profileImages (database w). profileKey k \<and> objects w (bucket, k) \<noteq> None)
     \<and> (\<forall>k\<in>campaignImages (database w). HasPrefix k ''campaigns/'' \<and> objects w (bucket, k) \<noteq> None)"

text \<open>A step of the services: new references are to images in the store \<open>st\<close> the promotion left,
  and the clean-up, which leads from \<open>st\<close> to \<open>st'\<close>, spares what is referred to.\<close>

lemma images_step:
  assumes ok: "images_ok b w"
    and "\<And>k. k \<in> profileImages d \<Longrightarrow> k \<in> profileImages (database w) \<or> profileKey k \<and> st (b, k) \<noteq> None"
    and "\<And>k. k \<in> campaignImages d \<Longrightarrow>
      k \<in> campaignImages (database w) \<or> HasPrefix k ''campaigns/'' \<and> st (b, k) \<noteq> None"
    and mono: "\<And>k. objects w (b, k) \<noteq> None \<Longrightarrow> st (b, k) \<noteq> None"
    and keep: "\<And>k. k \<in> profileImages d \<union> campaignImages d \<Longrightarrow> HasPrefix k ''profiles/'' \<or> HasPrefix k ''campaigns/'' \<Longrightarrow>
      st' (b, k) = st (b, k)"
  shows "images_ok b (w\<lparr>database := d, objects := st'\<rparr>)"
proof -
  have "profileKey k \<and> st' (b, k) \<noteq> None" if "k \<in> profileImages d" for k
  proof -
    have "profileKey k \<and> st (b, k) \<noteq> None"
      using assms(2) [OF that] ok mono [of k] unfolding images_ok_def by blast
    with keep [of k] that show ?thesis by (simp add: profileKey_def)
  qed
  moreover have "HasPrefix k ''campaigns/'' \<and> st' (b, k) \<noteq> None" if "k \<in> campaignImages d" for k
  proof -
    have "HasPrefix k ''campaigns/'' \<and> st (b, k) \<noteq> None"
      using assms(3) [OF that] ok mono [of k] unfolding images_ok_def by blast
    with keep [of k] that show ?thesis by simp
  qed
  ultimately show ?thesis by (simp add: images_ok_def)
qed

lemma prefix_clash: "HasPrefix k ''profiles/'' \<Longrightarrow> \<not> HasPrefix k ''campaigns/''"
  "HasPrefix k ''profiles/'' \<Longrightarrow> \<not> HasPrefix k ''tmp/''" "HasPrefix k ''campaigns/'' \<Longrightarrow> \<not> HasPrefix k ''tmp/''"
  by (auto simp: HasPrefix_iff)

lemma discard_staged:
  assumes "CanonicalImageObjectKey E s dir = Inr key" and "HasPrefix k ''profiles/'' \<or> HasPrefix k ''campaigns/''"
  shows "discardStagingImage E promoter (Some s) st (b, k) = st (b, k)"
  using assms Canonical_differs(3) [OF assms(1)]
  by (intro discardStagingImage_other) (auto dest: prefix_clash)

lemma profile_key:
  "CanonicalImageObjectKey E s ProfileImageDirectory = Inr key \<Longrightarrow> profileKey key"
  using Canonical_differs(2) Canonical_TrimSpace_id [OF _ campaign_directory(2)]
  by (fastforce simp: profileKey_def ProfileImageDirectory_def)

lemma campaign_key:
  "CanonicalImageObjectKey E s CampaignImageDirectory = Inr key \<Longrightarrow> HasPrefix key ''campaigns/''"
  by (drule Canonical_differs(2)) (simp add: CampaignImageDirectory_def)

lemma deleteUnreferenced_other:
  assumes "\<And>j. wanted \<Longrightarrow> objectKey = Some j \<Longrightarrow> TrimSpace j \<noteq> k"
  shows "deleteUnreferenced E svc wanted objectKey st (b, k) = st (b, k)"
  using assms by (auto simp: deleteUnreferenced_def Delete_def RemoveObject_def Let_def
      split: option.splits bool.splits sum.splits prod.splits)

text \<open>An image that was dropped is none of those still referred to.\<close>

lemma dropped_differs:
  assumes "j \<in> profileImages (database w) \<and> j \<notin> profileImages d" and "images_ok b w"
    and "campaigns d = campaigns (database w)" and "k \<in> profileImages d \<union> campaignImages d"
  shows "TrimSpace j \<noteq> k"
proof -
  have j: "profileKey j" using assms(1,2) by (auto simp: images_ok_def)
  have "HasPrefix k ''campaigns/''" if "k \<in> campaignImages d"
    using that assms(2,3) by (auto simp: images_ok_def campaignImages_def)
  with j assms(1,4) prefix_clash(1) show ?thesis by (auto simp: profileKey_def)
qed

text \<open>What may happen to an object that was there: it stays, or it was the staged copy of an image that
  is referred to afterwards, or it was the image of a profile and is referred to no more.\<close>

definition disposed :: "'b world \<Rightarrow> 'b world \<Rightarrow> string \<Rightarrow> bool" where
  "disposed w w' k \<longleftrightarrow>
     (\<exists>key. k = ''tmp/'' @ key \<and> key \<in> profileImages (database w') \<union> campaignImages (database w'))
     \<or> k \<in> profileImages (database w) - profileImages (database w')"

lemma deleteUnreferenced_gone:
  assumes "st (b, k) \<noteq> None" and "deleteUnreferenced E svc wanted objectKey st (b, k) = None"
  shows "\<exists>j. objectKey = Some j \<and> TrimSpace j = k"
  using assms deleteUnreferenced_other [of wanted objectKey k E svc st b] by metis

text \<open>What a promotion of a profile image gives the invariant: the old objects are still there, and
  so is the promoted one.\<close>

lemma promoteOptional_ok:
  assumes "promoteOptionalImageObjectKey E (Some p) staging ProfileImageDirectory st = (st', Inr key)"
  shows "st x \<noteq> None \<Longrightarrow> st' x \<noteq> None"
    and "key = Some k \<Longrightarrow> profileKey k \<and> st' (op_bucket p, k) \<noteq> None"
    and "normalizeOptionalString staging = Some s \<Longrightarrow> \<exists>c. CanonicalImageObjectKey E s ProfileImageDirectory = Inr c"
proof -
  consider (none) "normalizeOptionalString staging = None" "st' = st" "key = None"
    | (some) s' c where "normalizeOptionalString staging = Some s'" "key = Some c"
        "promoteImageObjectKey E (Some p) s' ProfileImageDirectory st = (st', Inr c)"
    using assms by (auto simp: promoteOptionalImageObjectKey_def split: option.splits prod.splits sum.splits)
  note cases = this
  show "st x \<noteq> None \<Longrightarrow> st' x \<noteq> None"
    by (cases rule: cases) (auto dest: promoteImageObjectKey_ok(3) [OF _ campaign_directory(2)])
  show "key = Some k \<Longrightarrow> profileKey k \<and> st' (op_bucket p, k) \<noteq> None"
    using promoteImageObjectKey_ok(1,2) [OF _ campaign_directory(2)] profile_key by (cases rule: cases) (simp, blast)
  show "normalizeOptionalString staging = Some s \<Longrightarrow> \<exists>c. CanonicalImageObjectKey E s ProfileImageDirectory = Inr c"
    by (cases rule: cases) (auto dest: promoteImageObjectKey_ok(1) [OF _ campaign_directory(2)])
qed

lemma normalizeOptionalString_idem [simp]:
  "normalizeOptionalString (normalizeOptionalString k) = normalizeOptionalString k"
  by (auto simp: normalizeOptionalString_def Let_def split: option.splits)

lemma promoteOptional_staging:
  assumes "promoteOptionalImageObjectKey E promoter (normalizeOptionalString staging) ProfileImageDirectory st = (st', Inr key)"
    and "normalizeOptionalString staging = Some s"
  shows "\<exists>j. key = Some j \<and> TrimSpace s = ''tmp/'' @ j"
  using assms normalizeOptionalString_idem [of staging]
  by (auto simp: promoteOptionalImageObjectKey_def split: option.splits prod.splits sum.splits
      dest!: promoteImageObjectKey_ok(1) [OF _ campaign_directory(2)] Canonical_staging)

lemma promoteOptional_failed:
  "promoteOptionalImageObjectKey E promoter staging dir st = (st', Inl e) \<Longrightarrow> st' = st"
  by (auto simp: promoteOptionalImageObjectKey_def split: option.splits prod.splits sum.splits
      dest: promoteImageObjectKey_failed)

lemma world_same [simp]: "w\<lparr>objects := objects w\<rparr> = w" "w\<lparr>database := database w, objects := objects w\<rparr> = w"
  "w\<lparr>database := database w\<rparr> = w"
  by simp_all

context profile_repository
begin

lemma register_app:
  assumes "app_ok (database w)" and "\<And>i k. valid (profile i k)"
  shows "app_ok (database (fst (registerProfile E svc m f create profile key w)))"
  using assms create_app [of "database w"]
  by (auto simp: registerProfile_def Let_def split: sum.splits prod.splits) (metis fst_conv)+

lemma register_images:
  assumes ok: "images_ok (op_bucket p) w" and svc: "ps_objectPromoter svc = Some p" and img: "\<And>i k. imageOf (profile i k) = k"
  shows "images_ok (op_bucket p) (fst (registerProfile E svc m f create profile key w))"
proof (cases "generateID E")
  case (Inl e)
  with ok show ?thesis by (simp add: registerProfile_def)
next
  case (Inr i)
  let ?s = "normalizeOptionalString key"
  obtain st r where pr: "promoteOptionalImageObjectKey E (Some p) ?s ProfileImageDirectory (objects w) = (st, r)"
    by (cases "promoteOptionalImageObjectKey E (Some p) ?s ProfileImageDirectory (objects w)")
  show ?thesis
  proof (cases r)
    case (Inl e)
    with pr have "st = objects w" by (auto dest: promoteOptional_failed)
    with pr Inl \<open>generateID E = Inr i\<close> svc ok show ?thesis by (simp add: registerProfile_def Let_def)
  next
    case (Inr k)
    note ok' = promoteOptional_ok [OF pr [unfolded Inr]]
    obtain d c where cr: "create (profile i k) (database w) = (d, c)" by (cases "create (profile i k) (database w)")
    have imgs: "images_ok (op_bucket p) (w\<lparr>database := d, objects := st'\<rparr>)"
      if keep: "\<And>j. HasPrefix j ''profiles/'' \<or> HasPrefix j ''campaigns/'' \<Longrightarrow> st' (op_bucket p, j) = st (op_bucket p, j)" for st'
    proof (rule images_step [OF ok, of d st])
      fix j assume "j \<in> profileImages d"
      with create_images [OF cr] img ok'(2)
      show "j \<in> profileImages (database w) \<or> profileKey j \<and> st (op_bucket p, j) \<noteq> None" by metis
    qed (use create_campaigns [OF cr] ok'(1) keep in \<open>simp_all add: campaignImages_def\<close>)
    have "discardStagingImage E (Some p) ?s st (op_bucket p, j) = st (op_bucket p, j)"
      if "HasPrefix j ''profiles/'' \<or> HasPrefix j ''campaigns/''" for j
    proof (cases ?s)
      case (Some s)
      have "normalizeOptionalString ?s = Some s" by (rule trans [OF normalizeOptionalString_idem Some])
      from ok'(3) [OF this] obtain c where "CanonicalImageObjectKey E s ProfileImageDirectory = Inr c" ..
      from discard_staged [OF this that] \<open>?s = Some s\<close> show ?thesis by simp
    qed (simp add: discardStagingImage_def)
    with imgs [of st] imgs [of "discardStagingImage E (Some p) ?s st"] \<open>generateID E = Inr i\<close> pr Inr cr svc show ?thesis
      by (cases c) (simp_all add: registerProfile_def Let_def)
  qed
qed

lemma register_profile_app:
  assumes "app_ok (database w)" and "\<And>i k. valid (profile i k)" and "registerProfile E svc m f create profile key w = (w', r)"
  shows "app_ok (database w')"
  using register_app [of w profile E svc m f key, OF assms(1,2)] assms(3) by simp

lemma register_profile_images:
  assumes "images_ok (op_bucket p) w" and "ps_objectPromoter svc = Some p" and "\<And>i k. imageOf (profile i k) = k"
    and "registerProfile E svc m f create profile key w = (w', r)"
  shows "images_ok (op_bucket p) w'"
  using register_images [of p w svc profile E m f key, OF assms(1-3)] assms(4) by simp

lemma register_profile_campaigns:
  assumes "registerProfile E svc m f create profile key w = (w', r)"
  shows "campaigns (database w') = campaigns (database w)"
  using assms create_campaigns by (auto simp: registerProfile_def Let_def split: sum.splits prod.splits)

lemma promoteReplacement_ok:
  assumes pr: "promoteReplacement E svc upd setUpd profile st = (st', Inr q)" and svc: "ps_objectPromoter svc = Some p"
  shows "iu_Set (upd q) \<Longrightarrow> iu_Value (upd q) = Some k \<Longrightarrow> profileKey k \<and> st' (op_bucket p, k) \<noteq> None"
    and "st x \<noteq> None \<Longrightarrow> st' x \<noteq> None"
    and "HasPrefix j ''profiles/'' \<or> HasPrefix j ''campaigns/'' \<Longrightarrow>
      discardStagingImage E (Some p) (stagedKey (upd profile)) st' (b, j) = st' (b, j)"
proof -
  consider (none) "stagedKey (upd profile) = None" "st' = st" "q = profile"
    | (some) s c where "stagedKey (upd profile) = Some s" "q = setUpd ((upd profile)\<lparr>iu_Value := Some c\<rparr>) profile"
        "promoteImageObjectKey E (Some p) s ProfileImageDirectory st = (st', Inr c)"
    using assms by (auto simp: promoteReplacement_def split: option.splits prod.splits sum.splits)
  note cases = this
  show "iu_Set (upd q) \<Longrightarrow> iu_Value (upd q) = Some k \<Longrightarrow> profileKey k \<and> st' (op_bucket p, k) \<noteq> None"
  proof (cases rule: cases)
    case none
    then show "iu_Set (upd q) \<Longrightarrow> iu_Value (upd q) = Some k \<Longrightarrow> ?thesis" by (simp add: stagedKey_def)
  next
    case some
    note pk = promoteImageObjectKey_ok [OF some(3) campaign_directory(2)]
    from pk(2) [of p] profile_key [OF pk(1)] show "iu_Set (upd q) \<Longrightarrow> iu_Value (upd q) = Some k \<Longrightarrow> ?thesis"
      by (auto simp: some(2) upd_set)
  qed
  show "st x \<noteq> None \<Longrightarrow> st' x \<noteq> None"
    by (cases rule: cases) (auto dest: promoteImageObjectKey_ok(3) [OF _ campaign_directory(2)])
  show "HasPrefix j ''profiles/'' \<or> HasPrefix j ''campaigns/'' \<Longrightarrow>
      discardStagingImage E (Some p) (stagedKey (upd profile)) st' (b, j) = st' (b, j)"
    by (cases rule: cases)
      (simp_all add: discardStagingImage_def [of _ _ None] discard_staged [OF promoteImageObjectKey_ok(1) [OF _ campaign_directory(2)]])
qed

lemma promoteReplacement_staging:
  assumes "promoteReplacement E svc upd setUpd profile st = (st', Inr q)" and "stagedKey (upd profile) = Some s"
  shows "\<exists>j. iu_Set (upd q) \<and> iu_Value (upd q) = Some j \<and> TrimSpace s = ''tmp/'' @ j"
  using assms
  by (auto simp: promoteReplacement_def upd_set stagedKey_def split: option.splits prod.splits sum.splits if_splits
      dest!: promoteImageObjectKey_ok(1) [OF _ campaign_directory(2)] Canonical_staging)

lemma replace_profile_cases:
  assumes "replaceProfile E svc m replace upd setUpd wallet profile w = (w', x)"
  obtains (kept) "w' = w"
  | (failed) st q d y where "promoteReplacement E svc upd setUpd profile (objects w) = (st, Inr q)"
      "replace (TrimSpace wallet) q (database w) = (d, y)" "w' = w\<lparr>database := d, objects := st\<rparr>"
  | (replaced) st q d r where "promoteReplacement E svc upd setUpd profile (objects w) = (st, Inr q)"
      "replace (TrimSpace wallet) q (database w) = (d, Inr (Some r))"
      "w' = w\<lparr>database := d, objects := deleteUnreferenced E svc (DeleteOldImageFile r) (OldImageObjectKey r)
         (discardStagingImage E (ps_objectPromoter svc) (stagedKey (upd profile)) st)\<rparr>"
proof -
  obtain st y where pr: "promoteReplacement E svc upd setUpd profile (objects w) = (st, y)"
    by (cases "promoteReplacement E svc upd setUpd profile (objects w)")
  show thesis
  proof (cases y)
    case (Inl e)
    with pr have "st = objects w"
      by (auto simp: promoteReplacement_def split: option.splits prod.splits sum.splits dest: promoteImageObjectKey_failed)
    with assms pr Inl show thesis by (intro kept) (simp add: replaceProfile_def)
  next
    case (Inr q)
    obtain d z where rp: "replace (TrimSpace wallet) q (database w) = (d, z)"
      by (cases "replace (TrimSpace wallet) q (database w)")
    show thesis
    proof (cases "\<exists>r. z = Inr (Some r)")
      case True
      then obtain r where "z = Inr (Some r)" ..
      with assms pr Inr rp show thesis by (intro replaced [of st q d r]) (simp_all add: replaceProfile_def)
    next
      case False
      with assms pr Inr rp have "w' = w\<lparr>database := d, objects := st\<rparr>"
        by (auto simp: replaceProfile_def split: sum.splits option.splits)
      with pr Inr rp show thesis by (intro failed) simp_all
    qed
  qed
qed

text \<open>What the operations do to the objects.\<close>

lemma register_profile_disposed:
  assumes svc: "ps_objectPromoter svc = Some p" and img: "\<And>i k. imageOf (profile i k) = k"
    and run: "registerProfile E svc m f create profile key w = (w', r)"
    and gone: "objects w (op_bucket p, k) \<noteq> None" "objects w' (op_bucket p, k) = None"
  shows "disposed w w' k"
proof (cases "generateID E")
  case (Inl e)
  with run gone show ?thesis by (auto simp: registerProfile_def)
next
  case (Inr i)
  let ?s = "normalizeOptionalString key"
  obtain st x where pr: "promoteOptionalImageObjectKey E (Some p) ?s ProfileImageDirectory (objects w) = (st, x)"
    by (cases "promoteOptionalImageObjectKey E (Some p) ?s ProfileImageDirectory (objects w)")
  show ?thesis
  proof (cases x)
    case (Inl e)
    with pr run gone Inr svc show ?thesis by (auto simp: registerProfile_def Let_def dest: promoteOptional_failed)
  next
    case (Inr key')
    have here: "st (op_bucket p, k) \<noteq> None" using promoteOptional_ok(1) [OF pr [unfolded Inr]] gone(1) .
    obtain d c where cr: "create (profile i key') (database w) = (d, c)" by (cases "create (profile i key') (database w)")
    with run pr Inr here gone(2) svc \<open>generateID E = Inr i\<close> obtain c' where c: "c = Inr c'"
      and w': "w' = w\<lparr>database := d, objects := discardStagingImage E (Some p) ?s st\<rparr>"
      by (cases c) (auto simp: registerProfile_def Let_def)
    obtain s where s: "?s = Some s" "k = TrimSpace s"
      using discardStagingImage_gone [of st "op_bucket p" k E "Some p" ?s] here gone(2) w' by auto
    obtain j where "key' = Some j" "TrimSpace s = ''tmp/'' @ j"
      using promoteOptional_staging [OF pr [unfolded Inr]] s(1) by auto
    with create_shows [OF cr [unfolded c]] img s(2) w' show ?thesis by (simp add: disposed_def)
  qed
qed

lemma replace_profile_disposed:
  assumes ok: "images_ok (op_bucket p) w" and svc: "ps_objectPromoter svc = Some p"
    and run: "replaceProfile E svc m replace upd setUpd wallet profile w = (w', x)"
    and gone: "objects w (op_bucket p, k) \<noteq> None" "objects w' (op_bucket p, k) = None"
  shows "disposed w w' k"
  using run
proof (cases rule: replace_profile_cases)
  case (failed st q d y)
  with promoteReplacement_ok(2) [OF failed(1) svc gone(1)] gone(2) show ?thesis by simp
next
  case (replaced st q d r)
  let ?s = "discardStagingImage E (Some p) (stagedKey (upd profile)) st"
  note here = promoteReplacement_ok(2) [OF replaced(1) svc gone(1)]
  show ?thesis
  proof (cases "?s (op_bucket p, k) = None")
    case True
    from discardStagingImage_gone [OF here True] obtain s where s: "stagedKey (upd profile) = Some s" "k = TrimSpace s"
      by blast
    obtain j where j: "iu_Set (upd q)" "iu_Value (upd q) = Some j" "TrimSpace s = ''tmp/'' @ j"
      using promoteReplacement_staging [OF replaced(1) s(1)] by blast
    from replace_shows [OF replaced(2) j(1,2)] j(3) s(2) replaced(3) show ?thesis by (simp add: disposed_def)
  next
    case False
    with gone(2) replaced(3) svc obtain j where j: "OldImageObjectKey r = Some j" "TrimSpace j = k"
      using deleteUnreferenced_gone [of ?s "op_bucket p" k E svc] by auto
    from replace_unreferenced [OF replaced(2) j(1)] ok j(2) replaced(3) show ?thesis
      by (auto simp: disposed_def images_ok_def profileKey_def)
  qed
qed (use gone in simp)

lemma replace_profile_app:
  assumes "app_ok (database w)" and "replaceProfile E svc m replace upd setUpd wallet profile w = (w', x)"
  shows "app_ok (database w')"
  using assms(2)
proof (cases rule: replace_profile_cases)
  case (failed st q d y)
  with replace_app [OF assms(1), of "TrimSpace wallet" q] show ?thesis by simp
next
  case (replaced st q d r)
  with replace_app [OF assms(1), of "TrimSpace wallet" q] show ?thesis by simp
qed (use assms(1) in simp)

lemma replace_profile_images:
  assumes ok: "images_ok (op_bucket p) w" and svc: "ps_objectPromoter svc = Some p"
    and run: "replaceProfile E svc m replace upd setUpd wallet profile w = (w', x)"
  shows "images_ok (op_bucket p) w'"
proof -
  let ?b = "op_bucket p"
  have imgs: "images_ok ?b (w\<lparr>database := d, objects := st'\<rparr>)"
    if pr: "promoteReplacement E svc upd setUpd profile (objects w) = (st, Inr q)"
      and rp: "replace (TrimSpace wallet) q (database w) = (d, y)"
      and "\<And>k. k \<in> profileImages d \<union> campaignImages d \<Longrightarrow> HasPrefix k ''profiles/'' \<or> HasPrefix k ''campaigns/'' \<Longrightarrow>
        st' (?b, k) = st (?b, k)" for st q d y st'
  proof (rule images_step [OF ok, of d st])
    fix k assume "k \<in> profileImages d"
    with replace_images [OF rp] promoteReplacement_ok(1) [OF pr svc]
    show "k \<in> profileImages (database w) \<or> profileKey k \<and> st (?b, k) \<noteq> None" by blast
  qed (use replace_campaigns [OF rp] promoteReplacement_ok(2) [OF pr svc] that(3) in \<open>simp_all add: campaignImages_def\<close>)
  show ?thesis
    using run
  proof (cases rule: replace_profile_cases)
    case (replaced st q d r)
    show ?thesis unfolding replaced(3)
    proof (rule imgs [OF replaced(1,2)])
      fix k assume k: "k \<in> profileImages d \<union> campaignImages d" "HasPrefix k ''profiles/'' \<or> HasPrefix k ''campaigns/''"
      have "TrimSpace j \<noteq> k" if "OldImageObjectKey r = Some j" for j
        using replace_unreferenced [OF replaced(2) that] ok replace_campaigns [OF replaced(2)] k(1)
        by (rule dropped_differs)
      then show "deleteUnreferenced E svc (DeleteOldImageFile r) (OldImageObjectKey r)
          (discardStagingImage E (ps_objectPromoter svc) (stagedKey (upd profile)) st) (?b, k) = st (?b, k)"
        using promoteReplacement_ok(3) [OF replaced(1) svc k(2)] svc by (simp add: deleteUnreferenced_other)
    qed
  qed (use ok imgs in simp_all)
qed

lemma replace_profile_campaigns:
  assumes "replaceProfile E svc m replace upd setUpd wallet profile w = (w', x)"
  shows "campaigns (database w') = campaigns (database w)"
  using assms by (cases rule: replace_profile_cases) (auto dest: replace_campaigns)

lemma delete_profile_campaigns:
  assumes "deleteProfile E svc f delete wallet w = (w', x)"
  shows "campaigns (database w') = campaigns (database w)"
  using assms delete_campaigns by (auto simp: deleteProfile_def split: sum.splits prod.splits option.splits)

lemma delete_profile_app:
  assumes "app_ok (database w)" and "deleteProfile E svc f delete wallet w = (w', x)"
  shows "app_ok (database w')"
proof -
  obtain d z where "delete (TrimSpace wallet) (database w) = (d, z)" by (cases "delete (TrimSpace wallet) (database w)")
  with delete_app [OF assms(1), of "TrimSpace wallet"] assms(2) show ?thesis
    by (auto simp: deleteProfile_def split: sum.splits option.splits)
qed

lemma delete_profile_images:
  assumes ok: "images_ok b w" and app: "app_ok (database w)" and run: "deleteProfile E svc f delete wallet w = (w', x)"
  shows "images_ok b w'"
proof -
  obtain d z where rp: "delete (TrimSpace wallet) (database w) = (d, z)" by (cases "delete (TrimSpace wallet) (database w)")
  have imgs: "images_ok b (w\<lparr>database := d, objects := st'\<rparr>)"
    if "\<And>k. k \<in> profileImages d \<union> campaignImages d \<Longrightarrow> HasPrefix k ''profiles/'' \<or> HasPrefix k ''campaigns/'' \<Longrightarrow>
        st' (b, k) = objects w (b, k)" for st'
    by (rule images_step [OF ok, of d "objects w"])
      (use delete_images [OF rp] delete_campaigns [OF rp] that in \<open>simp_all add: campaignImages_def\<close>)
  show ?thesis
  proof (cases "\<exists>r. z = Inr (Some r)")
    case True
    then obtain r where r: "z = Inr (Some r)" ..
    have "TrimSpace j \<noteq> k" if "ImageObjectKey r = Some j" "k \<in> profileImages d \<union> campaignImages d" for j k
      using delete_unreferenced [OF app rp [unfolded r] that(1)] ok delete_campaigns [OF rp] that(2)
      by (rule dropped_differs)
    with imgs rp r run show ?thesis by (auto simp: deleteProfile_def deleteUnreferenced_other)
  next
    case False
    with imgs [of "objects w"] rp run show ?thesis
      by (auto simp: deleteProfile_def split: sum.splits option.splits)
  qed
qed

lemma delete_profile_disposed:
  assumes ok: "images_ok b w" and app: "app_ok (database w)" and run: "deleteProfile E svc f delete wallet w = (w', x)"
    and gone: "objects w (c, k) \<noteq> None" "objects w' (c, k) = None"
  shows "disposed w w' k"
proof -
  obtain d z where rp: "delete (TrimSpace wallet) (database w) = (d, z)" by (cases "delete (TrimSpace wallet) (database w)")
  with run gone obtain r where r: "z = Inr (Some r)"
    and w': "w' = w\<lparr>database := d, objects := deleteUnreferenced E svc (DeleteImageObjectFile r) (ImageObjectKey r) (objects w)\<rparr>"
    by (auto simp: deleteProfile_def split: sum.splits option.splits)
  with gone obtain j where j: "ImageObjectKey r = Some j" "TrimSpace j = k"
    using deleteUnreferenced_gone [of "objects w" c k E svc] by auto
  from delete_unreferenced [OF app rp [unfolded r] j(1)] ok j(2) w' show ?thesis
    by (auto simp: disposed_def images_ok_def profileKey_def)
qed

end

section \<open>The two repositories keep the contract\<close>

lemma images_users [simp]: "profileImages (d\<lparr>users := us\<rparr>) = profileImages d"
  by (simp add: profileImages_def imageStillReferenced_def)

lemma images_supporters:
  "profileImages (d\<lparr>supporters := ss\<rparr>) =
     {k. \<exists>f\<in>set (fundraisers d). fw_image_object_key f = Some k} \<union> {k. \<exists>s\<in>set ss. sr_image_object_key s = Some k}"
  "profileImages (d\<lparr>fundraisers := fs\<rparr>) =
     {k. \<exists>f\<in>set fs. fw_image_object_key f = Some k} \<union> {k. \<exists>s\<in>set (supporters d). sr_image_object_key s = Some k}"
  "profileImages d =
     {k. \<exists>f\<in>set (fundraisers d). fw_image_object_key f = Some k}
     \<union> {k. \<exists>s\<in>set (supporters d). sr_image_object_key s = Some k}"
  by (auto simp: profileImages_def imageStillReferenced_def)

lemma images_update_supporter:
  assumes "\<And>s. sr_image_object_key (f s) = sr_image_object_key s \<or> sr_image_object_key (f s) = v"
    and "k \<in> profileImages (d\<lparr>supporters := update_where q f (supporters d)\<rparr>)"
  shows "k \<in> profileImages d \<or> v = Some k"
proof (rule ccontr)
  assume not: "\<not> (k \<in> profileImages d \<or> v = Some k)"
  have "sr_image_object_key y \<noteq> Some k" if "y \<in> set (update_where q f (supporters d))" for y
  proof -
    from that [unfolded set_update_where] obtain x where x: "x \<in> set (supporters d)" "y = (if q x then f x else x)"
      by (elim bexE)
    from x(1) not have "sr_image_object_key x \<noteq> Some k" unfolding images_supporters(3) by blast
    with x(2) not assms(1) [of x] show ?thesis by (cases "q x") auto
  qed
  with assms(2) have "k \<in> profileImages d" unfolding images_supporters(3) by auto
  with not show False by blast
qed

lemma images_update_fundraiser:
  assumes "\<And>s. fw_image_object_key (f s) = fw_image_object_key s \<or> fw_image_object_key (f s) = v"
    and "k \<in> profileImages (d\<lparr>fundraisers := update_where q f (fundraisers d)\<rparr>)"
  shows "k \<in> profileImages d \<or> v = Some k"
proof (rule ccontr)
  assume not: "\<not> (k \<in> profileImages d \<or> v = Some k)"
  have "fw_image_object_key y \<noteq> Some k" if "y \<in> set (update_where q f (fundraisers d))" for y
  proof -
    from that [unfolded set_update_where] obtain x where x: "x \<in> set (fundraisers d)" "y = (if q x then f x else x)"
      by (elim bexE)
    from x(1) not have "fw_image_object_key x \<noteq> Some k" unfolding images_supporters(3) by blast
    with x(2) not assms(1) [of x] show ?thesis by (cases "q x") auto
  qed
  with assms(2) have "k \<in> profileImages d" unfolding images_supporters(3) by auto
  with not show False by blast
qed

lemma supporterCreate_images:
  assumes "supporterCreateTx E sp d = Commit m a d'"
  shows "campaigns d' = campaigns d \<and> (k \<in> profileImages d' \<longrightarrow> k \<in> profileImages d \<or> sp_ImageObjectKey sp = Some k)"
proof -
  from supporterCreate_commit [OF assms] obtain row d1 where
    d1: "insert_user E (u_ID sp) (u_Role sp) (u_Email sp) (u_WalletAddress sp) d = Inr (row, d1)"
    and d': "insert_supporter \<lparr>sr_id = u_ID sp, sr_name = sp_Name sp, sr_image_object_key = sp_ImageObjectKey sp\<rparr> d1 = Inr d'"
    by blast
  from insert_user_rows(1) [OF d1] insert_supporter_rows [OF d'] show ?thesis
    by (auto simp: images_supporters)
qed

lemma fundraiserCreate_images:
  assumes "fundraiserCreateTx E fr d = Commit m a d'"
  shows "campaigns d' = campaigns d \<and> (k \<in> profileImages d' \<longrightarrow> k \<in> profileImages d \<or> fr_ImageObjectKey fr = Some k)"
proof -
  from fundraiserCreate_commit [OF assms] obtain row d1 where
    d1: "insert_user E (u_ID fr) (u_Role fr) (u_Email fr) (u_WalletAddress fr) d = Inr (row, d1)"
    and d': "insert_fundraiser \<lparr>fw_id = u_ID fr, fw_name = fr_Name fr, fw_image_object_key = fr_ImageObjectKey fr,
        fw_contact_name = fr_ContactName fr, fw_contact_phone = fr_ContactPhone fr,
        fw_social_url = fr_SocialURL fr, fw_country = fr_Country fr, fw_zip_code = fr_ZipCode fr\<rparr> d1 = Inr d'"
    by blast
  from insert_user_rows(1) [OF d1] insert_fundraiser_rows [OF d'] show ?thesis
    by (auto simp: images_supporters)
qed

lemma supporterReplace_images:
  assumes "supporterReplaceTx E w pr d = Commit m a d'"
  shows "campaigns d' = campaigns d \<and> (k \<in> profileImages d' \<longrightarrow>
    k \<in> profileImages d \<or> iu_Set (spr_ImageObjectKey pr) \<and> iu_Value (spr_ImageObjectKey pr) = Some k)"
proof -
  from supporterReplace_commit [OF assms] obtain u :: user_row and d1 d2 where
    d1: "update_user_email (spr_Email pr) (u_ID u) d = Inr d1" and d2: "update_supporter_name (spr_Name pr) (u_ID u) d1 = Inr d2"
    and d': "d' = (if iu_Set (spr_ImageObjectKey pr)
            then update_supporter_image (iu_Value (spr_ImageObjectKey pr)) (u_ID u) d2 else d2)" by blast
  have d2': "campaigns d2 = campaigns d \<and> (k \<in> profileImages d2 \<longrightarrow> k \<in> profileImages d)" for k
  proof -
    obtain v where v: "d1 = d\<lparr>users := update_where (\<lambda>ua. u_ID ua = u_ID u) (\<lambda>ua. ua\<lparr>u_Email := v\<rparr>) (users d)\<rparr>"
      using update_user_email_users [OF d1] ..
    obtain n where n: "d2 = d1\<lparr>supporters := update_where (\<lambda>r. sr_id r = u_ID u) (\<lambda>r. r\<lparr>sr_name := n\<rparr>) (supporters d1)\<rparr>"
      using update_supporter_name_rows [OF d2] ..
    have "k \<in> profileImages d2 \<Longrightarrow> k \<in> profileImages d1" for k
      unfolding n by (drule images_update_supporter [where v = None, rotated]) simp_all
    then show ?thesis using v n by simp
  qed
  show ?thesis
    using d2' images_update_supporter [where v = "iu_Value (spr_ImageObjectKey pr)" and k = k and d = d2
        and f = "\<lambda>r. r\<lparr>sr_image_object_key := iu_Value (spr_ImageObjectKey pr)\<rparr>" and q = "\<lambda>r. sr_id r = u_ID u"]
    by (auto simp: d' update_supporter_image_def)
qed

lemma fundraiserReplace_images:
  assumes "fundraiserReplaceTx E w pr d = Commit m a d'"
  shows "campaigns d' = campaigns d \<and> (k \<in> profileImages d' \<longrightarrow>
    k \<in> profileImages d \<or> iu_Set (fpr_ImageObjectKey pr) \<and> iu_Value (fpr_ImageObjectKey pr) = Some k)"
proof -
  from fundraiserReplace_commit [OF assms] obtain u :: user_row and d1 d2 where
    d1: "update_user_email (fpr_Email pr) (u_ID u) d = Inr d1"
    and d2: "update_fundraiser (fpr_Name pr) (fpr_ContactName pr) (fpr_ContactPhone pr) (fpr_SocialURL pr)
        (fpr_Country pr) (fpr_ZipCode pr) (u_ID u) d1 = Inr d2"
    and d': "d' = (if iu_Set (fpr_ImageObjectKey pr)
            then update_fundraiser_image (iu_Value (fpr_ImageObjectKey pr)) (u_ID u) d2 else d2)" by blast
  from update_fundraiser_rows [OF d2] obtain f where
    f: "\<forall>r. fw_id (f r) = fw_id r \<and> fw_image_object_key (f r) = fw_image_object_key r"
      "d2 = d1\<lparr>fundraisers := update_where (\<lambda>r. fw_id r = u_ID u) f (fundraisers d1)\<rparr>" by blast
  have d2': "campaigns d2 = campaigns d \<and> (k \<in> profileImages d2 \<longrightarrow> k \<in> profileImages d)" for k
  proof -
    obtain v where v: "d1 = d\<lparr>users := update_where (\<lambda>ua. u_ID ua = u_ID u) (\<lambda>ua. ua\<lparr>u_Email := v\<rparr>) (users d)\<rparr>"
      using update_user_email_users [OF d1] ..
    have "k \<in> profileImages d2 \<Longrightarrow> k \<in> profileImages d1" for k
      unfolding f(2) by (drule images_update_fundraiser [where v = None, rotated]) (simp_all add: f(1))
    then show ?thesis using v f(2) by simp
  qed
  show ?thesis
    using d2' images_update_fundraiser [where v = "iu_Value (fpr_ImageObjectKey pr)" and k = k and d = d2
        and f = "\<lambda>r. r\<lparr>fw_image_object_key := iu_Value (fpr_ImageObjectKey pr)\<rparr>" and q = "\<lambda>r. fw_id r = u_ID u"]
    by (auto simp: d' update_fundraiser_image_def)
qed

lemma supporterDelete_images:
  assumes "supporterDeleteTx E w d = Commit m a d'"
  shows "campaigns d' = campaigns d \<and> (k \<in> profileImages d' \<longrightarrow> k \<in> profileImages d)"
proof -
  have "k \<in> profileImages (update_supporter_image None i d) \<Longrightarrow> k \<in> profileImages d" for i
    unfolding update_supporter_image_def by (drule images_update_supporter [where v = None, rotated]) simp_all
  moreover obtain i where "d' = soft_delete_user E i (update_supporter_image None i d)"
    using supporterDelete_commit [OF assms] by blast
  ultimately show ?thesis by (simp add: soft_delete_user_def update_supporter_image_def)
qed

lemma fundraiserDelete_images:
  assumes "fundraiserDeleteTx E w d = Commit m a d'"
  shows "campaigns d' = campaigns d \<and> (k \<in> profileImages d' \<longrightarrow> k \<in> profileImages d)"
proof -
  have "k \<in> profileImages (update_fundraiser_image None i d) \<Longrightarrow> k \<in> profileImages d" for i
    unfolding update_fundraiser_image_def by (drule images_update_fundraiser [where v = None, rotated]) simp_all
  moreover obtain i where "d' = soft_delete_user E i (update_fundraiser_image None i d)"
    using fundraiserDelete_commit [OF assms] by blast
  ultimately show ?thesis by (simp add: soft_delete_user_def update_fundraiser_image_def)
qed

lemma runTx_relates:
  assumes "runTx E m body d = (d', r)" and "Q d" and "\<And>cm a. body d = Commit cm a d' \<Longrightarrow> Q d'"
  shows "Q d'"
  using runTx_changed [OF assms(1)] assms(2,3) by blast

text \<open>After a success the image handed over is that of a profile.\<close>

lemma images_row: "s \<in> set (supporters d) \<Longrightarrow> sr_image_object_key s = Some k \<Longrightarrow> k \<in> profileImages d"
  "f \<in> set (fundraisers d) \<Longrightarrow> fw_image_object_key f = Some k \<Longrightarrow> k \<in> profileImages d"
  by (auto simp: images_supporters(3))

lemma updated_row: "x \<in> set xs \<Longrightarrow> q x \<Longrightarrow> f x \<in> set (update_where q f xs)"
  by (auto simp: set_update_where)

lemma runTx_Inr:
  assumes "runTx E m body d = (d', Inr a)" and "\<And>x. body d \<noteq> Return (Inr x)"
  shows "\<exists>cm. body d = Commit cm a d'"
  using assms by (auto simp: runTx_def split: option.splits txout.splits)

lemma SupporterRepo_Create_shows:
  assumes "SupporterRepo_Create E p d = (d', Inr c)" and "sp_ImageObjectKey p = Some k"
  shows "k \<in> profileImages d'"
proof -
  have "supporterCreateTx E p d \<noteq> Return (Inr x)" for x by (auto simp: supporterCreateTx_def split: sum.splits)
  from runTx_Inr [OF assms(1) [unfolded SupporterRepo_Create_def] this] obtain cm where
    "supporterCreateTx E p d = Commit cm c d'" ..
  from supporterCreate_commit [OF this] obtain d1 where
    "insert_supporter \<lparr>sr_id = u_ID p, sr_name = sp_Name p, sr_image_object_key = sp_ImageObjectKey p\<rparr> d1 = Inr d'" by blast
  from insert_supporter_rows [OF this] assms(2) show ?thesis by (auto simp: images_supporters(1))
qed

lemma FundraiserRepo_Create_shows:
  assumes "FundraiserRepo_Create E p d = (d', Inr c)" and "fr_ImageObjectKey p = Some k"
  shows "k \<in> profileImages d'"
proof -
  have "fundraiserCreateTx E p d \<noteq> Return (Inr x)" for x by (auto simp: fundraiserCreateTx_def split: sum.splits)
  from runTx_Inr [OF assms(1) [unfolded FundraiserRepo_Create_def] this] obtain cm where
    "fundraiserCreateTx E p d = Commit cm c d'" ..
  from fundraiserCreate_commit [OF this] obtain d1 where
    "insert_fundraiser \<lparr>fw_id = u_ID p, fw_name = fr_Name p, fw_image_object_key = fr_ImageObjectKey p,
        fw_contact_name = fr_ContactName p, fw_contact_phone = fr_ContactPhone p,
        fw_social_url = fr_SocialURL p, fw_country = fr_Country p, fw_zip_code = fr_ZipCode p\<rparr> d1 = Inr d'" by blast
  from insert_fundraiser_rows [OF this] assms(2) show ?thesis by (auto simp: images_supporters(2))
qed

lemma SupporterRepo_ReplaceProfile_shows:
  assumes "SupporterRepo_ReplaceProfile E w pr d = (d', Inr (Some r))"
    and "iu_Set (spr_ImageObjectKey pr)" "iu_Value (spr_ImageObjectKey pr) = Some k"
  shows "k \<in> profileImages d'"
proof -
  obtain cm where "supporterReplaceTx E w pr d = Commit cm (Some r) d'"
    using runTx_Inr_Some [OF assms(1) [unfolded SupporterRepo_ReplaceProfile_def]] profile_tx_returns by blast
  from supporterReplace_commit [OF this] assms(2,3) obtain u s d1 d2 where
    u: "(u, s) \<in> set (supporterJoin E (TrimSpace w) d)"
    and d: "update_user_email (spr_Email pr) (u_ID u) d = Inr d1" "update_supporter_name (spr_Name pr) (u_ID u) d1 = Inr d2"
      "d' = update_supporter_image (Some k) (u_ID u) d2" by auto
  have "u_ID u \<in> sr_id ` set (supporters d)" using supporterJoin_row [OF u] by (metis image_eqI)
  also have "\<dots> = sr_id ` set (supporters d2)"
    using update_user_email_users [OF d(1)] update_supporter_name_rows [OF d(2)]
    by (elim exE conjE) (simp add: image_update_where)
  finally obtain x where "x \<in> set (supporters d2)" "sr_id x = u_ID u" by auto
  then show ?thesis unfolding d(3) update_supporter_image_def
    by (intro images_row(1) [of "x\<lparr>sr_image_object_key := Some k\<rparr>"]) (simp_all add: updated_row)
qed

lemma FundraiserRepo_ReplaceProfile_shows:
  assumes "FundraiserRepo_ReplaceProfile E w pr d = (d', Inr (Some r))"
    and "iu_Set (fpr_ImageObjectKey pr)" "iu_Value (fpr_ImageObjectKey pr) = Some k"
  shows "k \<in> profileImages d'"
proof -
  obtain cm where "fundraiserReplaceTx E w pr d = Commit cm (Some r) d'"
    using runTx_Inr_Some [OF assms(1) [unfolded FundraiserRepo_ReplaceProfile_def]] profile_tx_returns by blast
  from fundraiserReplace_commit [OF this] assms(2,3) obtain u f d1 d2 where
    u: "(u, f) \<in> set (fundraiserJoin E (TrimSpace w) d)"
    and d: "update_user_email (fpr_Email pr) (u_ID u) d = Inr d1"
      "update_fundraiser (fpr_Name pr) (fpr_ContactName pr) (fpr_ContactPhone pr) (fpr_SocialURL pr)
        (fpr_Country pr) (fpr_ZipCode pr) (u_ID u) d1 = Inr d2"
      "d' = update_fundraiser_image (Some k) (u_ID u) d2" by auto
  have "u_ID u \<in> fw_id ` set (fundraisers d)" using fundraiserJoin_row [OF u] by (metis image_eqI)
  also have "\<dots> = fw_id ` set (fundraisers d2)"
    using update_user_email_users [OF d(1)] update_fundraiser_rows [OF d(2)]
    by (elim exE conjE) (simp add: image_update_where)
  finally obtain x where "x \<in> set (fundraisers d2)" "fw_id x = u_ID u" by auto
  then show ?thesis unfolding d(3) update_fundraiser_image_def
    by (intro images_row(2) [of "x\<lparr>fw_image_object_key := Some k\<rparr>"]) (simp_all add: updated_row)
qed

lemma profile_repo_error:
  "SupporterRepo_Create E p d = (d', Inl e) \<Longrightarrow> d' = d" "FundraiserRepo_Create E f d = (d', Inl e) \<Longrightarrow> d' = d"
  "SupporterRepo_ReplaceProfile E w q d = (d', Inl e) \<Longrightarrow> d' = d"
  "FundraiserRepo_ReplaceProfile E w q' d = (d', Inl e) \<Longrightarrow> d' = d"
  "SupporterRepo_DeleteProfile E w d = (d', Inl e) \<Longrightarrow> d' = d"
  "FundraiserRepo_DeleteProfile E w d = (d', Inl e) \<Longrightarrow> d' = d"
  unfolding SupporterRepo_Create_def FundraiserRepo_Create_def SupporterRepo_ReplaceProfile_def
    FundraiserRepo_ReplaceProfile_def SupporterRepo_DeleteProfile_def FundraiserRepo_DeleteProfile_def
  by (rule runTx_error, assumption)+

interpretation sup: profile_repository "SupporterRepo_Create E" sp_ImageObjectKey "\<lambda>s. u_Role s = ''supporter''"
  "SupporterRepo_ReplaceProfile E" spr_ImageObjectKey "\<lambda>u p. p\<lparr>spr_ImageObjectKey := u\<rparr>" "SupporterRepo_DeleteProfile E"
  for E
proof unfold_locales
  fix p :: Supporter and d d' r k
  assume "SupporterRepo_Create E p d = (d', r)"
  note run = this [unfolded SupporterRepo_Create_def]
  show "k \<in> profileImages d' \<Longrightarrow> k \<in> profileImages d \<or> sp_ImageObjectKey p = Some k"
    by (rule runTx_relates [OF run, where Q = "\<lambda>d'. k \<in> profileImages d' \<longrightarrow> k \<in> profileImages d \<or> sp_ImageObjectKey p = Some k", rule_format])
      (auto dest: supporterCreate_images)
  show "campaigns d' = campaigns d"
    by (rule runTx_relates [OF run, where Q = "\<lambda>d'. campaigns d' = campaigns d"]) (auto dest: supporterCreate_images)
next
  fix w and q :: SupporterProfileReplacement and d d' x k
  assume "SupporterRepo_ReplaceProfile E w q d = (d', x)"
  note run = this [unfolded SupporterRepo_ReplaceProfile_def]
  show "k \<in> profileImages d' \<Longrightarrow> k \<in> profileImages d \<or> iu_Set (spr_ImageObjectKey q) \<and> iu_Value (spr_ImageObjectKey q) = Some k"
    by (rule runTx_relates [OF run, where Q = "\<lambda>d'. k \<in> profileImages d' \<longrightarrow> k \<in> profileImages d
          \<or> iu_Set (spr_ImageObjectKey q) \<and> iu_Value (spr_ImageObjectKey q) = Some k", rule_format])
      (auto dest: supporterReplace_images)
  show "campaigns d' = campaigns d"
    by (rule runTx_relates [OF run, where Q = "\<lambda>d'. campaigns d' = campaigns d"]) (auto dest: supporterReplace_images)
next
  fix w d d' z k
  assume "SupporterRepo_DeleteProfile E w d = (d', z)"
  note run = this [unfolded SupporterRepo_DeleteProfile_def]
  show "k \<in> profileImages d' \<Longrightarrow> k \<in> profileImages d"
    by (rule runTx_relates [OF run, where Q = "\<lambda>d'. k \<in> profileImages d' \<longrightarrow> k \<in> profileImages d", rule_format])
      (auto dest: supporterDelete_images)
  show "campaigns d' = campaigns d"
    by (rule runTx_relates [OF run, where Q = "\<lambda>d'. campaigns d' = campaigns d"]) (auto dest: supporterDelete_images)
qed (auto dest: profile_repo_error SupporterRepo_ReplaceProfile_image SupporterRepo_DeleteProfile_image
      SupporterRepo_Create_shows SupporterRepo_ReplaceProfile_shows
    intro!: profile_repo_app)

interpretation fundr: profile_repository "FundraiserRepo_Create E" fr_ImageObjectKey "\<lambda>s. u_Role s = ''fundraiser''"
  "FundraiserRepo_ReplaceProfile E" fpr_ImageObjectKey "\<lambda>u p. p\<lparr>fpr_ImageObjectKey := u\<rparr>" "FundraiserRepo_DeleteProfile E"
  for E
proof unfold_locales
  fix p :: Fundraiser and d d' r k
  assume "FundraiserRepo_Create E p d = (d', r)"
  note run = this [unfolded FundraiserRepo_Create_def]
  show "k \<in> profileImages d' \<Longrightarrow> k \<in> profileImages d \<or> fr_ImageObjectKey p = Some k"
    by (rule runTx_relates [OF run, where Q = "\<lambda>d'. k \<in> profileImages d' \<longrightarrow> k \<in> profileImages d \<or> fr_ImageObjectKey p = Some k", rule_format])
      (auto dest: fundraiserCreate_images)
  show "campaigns d' = campaigns d"
    by (rule runTx_relates [OF run, where Q = "\<lambda>d'. campaigns d' = campaigns d"]) (auto dest: fundraiserCreate_images)
next
  fix w and q :: FundraiserProfileReplacement and d d' x k
  assume "FundraiserRepo_ReplaceProfile E w q d = (d', x)"
  note run = this [unfolded FundraiserRepo_ReplaceProfile_def]
  show "k \<in> profileImages d' \<Longrightarrow> k \<in> profileImages d \<or> iu_Set (fpr_ImageObjectKey q) \<and> iu_Value (fpr_ImageObjectKey q) = Some k"
    by (rule runTx_relates [OF run, where Q = "\<lambda>d'. k \<in> profileImages d' \<longrightarrow> k \<in> profileImages d
          \<or> iu_Set (fpr_ImageObjectKey q) \<and> iu_Value (fpr_ImageObjectKey q) = Some k", rule_format])
      (auto dest: fundraiserReplace_images)
  show "campaigns d' = campaigns d"
    by (rule runTx_relates [OF run, where Q = "\<lambda>d'. campaigns d' = campaigns d"]) (auto dest: fundraiserReplace_images)
next
  fix w d d' z k
  assume "FundraiserRepo_DeleteProfile E w d = (d', z)"
  note run = this [unfolded FundraiserRepo_DeleteProfile_def]
  show "k \<in> profileImages d' \<Longrightarrow> k \<in> profileImages d"
    by (rule runTx_relates [OF run, where Q = "\<lambda>d'. k \<in> profileImages d' \<longrightarrow> k \<in> profileImages d", rule_format])
      (auto dest: fundraiserDelete_images)
  show "campaigns d' = campaigns d"
    by (rule runTx_relates [OF run, where Q = "\<lambda>d'. campaigns d' = campaigns d"]) (auto dest: fundraiserDelete_images)
qed (auto dest: profile_repo_error FundraiserRepo_ReplaceProfile_image FundraiserRepo_DeleteProfile_image
      FundraiserRepo_Create_shows FundraiserRepo_ReplaceProfile_shows
    intro!: profile_repo_app)

section \<open>Properties\<close>

lemma insert_user_fits:
  assumes "insert_user E i role email wallet d = Inr (row, d')" and "RuneCountInString email \<le> 255" "RuneCountInString wallet \<le> 255"
  shows "row = \<lparr>u_ID = i, u_Role = role, u_Email = email, u_WalletAddress = wallet, u_CreatedAt = sql_Now E, u_DeletedAt = None\<rparr>"
  using assms by (auto simp: insert_user_def varchar_short Let_def split: if_splits)

lemma insert_supporter_fits:
  assumes "insert_supporter r d = Inr d'" and "RuneCountInString (sr_name r) \<le> 255"
  shows "d' = d\<lparr>supporters := supporters d @ [r]\<rparr>"
  using assms by (auto simp: insert_supporter_def varchar_short split: if_splits)

lemma SupporterRepo_Create_row:
  assumes "SupporterRepo_Create E sp d = (d', Inr sp')" and "RuneCountInString (u_Email sp) \<le> 255"
    "RuneCountInString (u_WalletAddress sp) \<le> 255" "RuneCountInString (sp_Name sp) \<le> 255"
  shows "sp' = sp\<lparr>u_CreatedAt := sql_Now E\<rparr> \<and> u_ID sp \<notin> u_ID ` set (users d)
    \<and> d' = d\<lparr>users := users d @ [\<lparr>u_ID = u_ID sp, u_Role = u_Role sp, u_Email = u_Email sp,
          u_WalletAddress = u_WalletAddress sp, u_CreatedAt = sql_Now E, u_DeletedAt = None\<rparr>],
        supporters := supporters d @ [\<lparr>sr_id = u_ID sp, sr_name = sp_Name sp, sr_image_object_key = sp_ImageObjectKey sp\<rparr>]\<rparr>"
proof -
  from assms(1) obtain m where "supporterCreateTx E sp d = Commit m sp' d'"
    by (auto simp: SupporterRepo_Create_def runTx_def supporterCreateTx_def split: option.splits txout.splits sum.splits)
  from supporterCreate_commit [OF this] obtain row d1 where
    d1: "insert_user E (u_ID sp) (u_Role sp) (u_Email sp) (u_WalletAddress sp) d = Inr (row, d1)"
    and d': "insert_supporter \<lparr>sr_id = u_ID sp, sr_name = sp_Name sp, sr_image_object_key = sp_ImageObjectKey sp\<rparr> d1 = Inr d'"
    and sp': "sp' = sp\<lparr>u_CreatedAt := u_CreatedAt row\<rparr>" by blast
  from insert_user_fits [OF d1 assms(2,3)] insert_user_rows [OF d1] insert_supporter_fits [OF d'] assms(4) sp'
  show ?thesis by simp
qed

lemma supporterJoin_new:
  assumes "db_ok d" and new: "i \<notin> u_ID ` set (users d)" and "u_ID row = i" "u_Role row = ''supporter''" "live row" "sr_id srow = i"
    and others: "\<forall>u\<in>set (users d). live u \<longrightarrow> sql_Lower E (u_WalletAddress u) \<noteq> sql_Lower E wallet"
    and wallet: "sql_Lower E (u_WalletAddress row) = sql_Lower E wallet"
  shows "supporterJoin E wallet (d\<lparr>users := users d @ [row], supporters := supporters d @ [srow]\<rparr>) = [(row, srow)]"
proof -
  have "i \<notin> sr_id ` set (supporters d)" using new profiles_okD(3) [OF assms(1)] by blast
  then have none: "concat (map (\<lambda>s. if sr_id s = i then [(row, s)] else []) (supporters d)) = []"
    by (auto dest: image_eqI [OF sym])
  have old: "concat (map (\<lambda>u. concat (map (\<lambda>s. if sr_id s = u_ID u \<and> u_Role u = ''supporter'' \<and> live u
        \<and> sql_Lower E (u_WalletAddress u) = sql_Lower E wallet then [(u, s)] else []) ss)) (users d)) = []" for ss
    using others by auto
  have "supporterJoin E wallet (d\<lparr>users := users d @ [row], supporters := supporters d @ [srow]\<rparr>)
      = concat (map (\<lambda>u. concat (map (\<lambda>s. if sr_id s = u_ID u \<and> u_Role u = ''supporter'' \<and> live u
          \<and> sql_Lower E (u_WalletAddress u) = sql_Lower E wallet then [(u, s)] else []) (supporters d @ [srow]))) (users d))
        @ concat (map (\<lambda>s. if sr_id s = i then [(row, s)] else []) (supporters d)) @ [(row, srow)]"
    using assms(3-6) wallet by (simp add: supporterJoin_def)
  then show ?thesis by (simp only: old none append_Nil)
qed

text \<open>A run for the witnesses: an image is staged, then a supporter registers with it.\<close>

definition demo_photo :: string where
  "demo_photo = stagingImageObjectKey ''profiles'' (uuid_String demo_env 5) ''.png''"

definition demo_photo_key :: string where
  "demo_photo_key = ''profiles/'' @ uuid_String demo_env 5 @ ''.png''"

definition demo_start :: "unit world" where
  "demo_start = \<lparr>database = empty_db, objects = [(''pawfund'', demo_photo) \<mapsto> ''png''], broker = ()\<rparr>"

definition demo_profile_service :: ProfileService where
  "demo_profile_service = \<lparr>ps_objectDeleter = Some \<lparr>od_bucket = ''pawfund''\<rparr>, ps_objectPromoter = Some \<lparr>op_bucket = ''pawfund''\<rparr>\<rparr>"

definition demo_register :: RegisterSupporterInput where
  "demo_register = \<lparr>rs_Name = ''Ann'', rs_Email = ''AB'', rs_WalletAddress = ''0xCd'', rs_ImageObjectKey = Some demo_photo\<rparr>"

definition demo_registered :: db where
  "demo_registered = empty_db\<lparr>
     users := [\<lparr>u_ID = 7, u_Role = ''supporter'', u_Email = ''ab'', u_WalletAddress = ''0xCd'',
       u_CreatedAt = 1700000000000000000, u_DeletedAt = None\<rparr>],
     supporters := [\<lparr>sr_id = 7, sr_name = ''Ann'', sr_image_object_key = Some demo_photo_key\<rparr>]\<rparr>"

lemma demo_photo_facts:
  "CanonicalImageObjectKey demo_env demo_photo ''profiles'' = Inr demo_photo_key" "TrimSpace demo_photo = demo_photo"
  "demo_photo \<noteq> demo_photo_key" "demo_photo \<noteq> []"
proof -
  show c: "CanonicalImageObjectKey demo_env demo_photo ''profiles'' = Inr demo_photo_key"
    unfolding demo_photo_def demo_photo_key_def
    using Canonical_of_staging [OF demo_uuid_laws, of "''.png''" "''profiles''" 5] by (simp add: imageExtensions_def)
  show t: "TrimSpace demo_photo = demo_photo"
    unfolding demo_photo_def stagingImageObjectKey_def
    by (intro TrimSpace_id) (auto simp: stagingPrefix_def graphic_def)
  show "demo_photo \<noteq> demo_photo_key" using Canonical_differs(1) [OF c] t by simp
  show "demo_photo \<noteq> []" by (simp add: demo_photo_def stagingImageObjectKey_def stagingPrefix_def)
qed

lemma demo_register_run:
  "SupporterService_Register demo_env demo_profile_service demo_register demo_start =
    (\<lparr>database = demo_registered, objects = [(''pawfund'', demo_photo_key) \<mapsto> ''png''], broker = ()\<rparr>,
     Inr \<lparr>u_ID = 7, u_Role = ''supporter'', u_Email = ''ab'', u_WalletAddress = ''0xCd'',
       u_CreatedAt = 1700000000000000000, sp_Name = ''Ann'', sp_ImageObjectKey = Some demo_photo_key\<rparr>)"
proof -
  let ?st = "[(''pawfund'', demo_photo) \<mapsto> ''png''] :: store"
  have pr: "promoteImageObjectKey demo_env (Some \<lparr>op_bucket = ''pawfund''\<rparr>) demo_photo ''profiles'' ?st
      = (?st((''pawfund'', demo_photo_key) \<mapsto> ''png''), Inr demo_photo_key)"
    using Promote_copies [OF demo_env_sel(1) demo_photo_facts(1), of ?st "\<lparr>op_bucket = ''pawfund''\<rparr>" "''png''"]
      demo_photo_facts by simp
  have dis: "discardStagingImage demo_env (Some \<lparr>op_bucket = ''pawfund''\<rparr>) (Some demo_photo)
      (?st((''pawfund'', demo_photo_key) \<mapsto> ''png'')) = [(''pawfund'', demo_photo_key) \<mapsto> ''png'']"
    using demo_photo_facts
    by (auto simp: discardStagingImage_def Discard_def deleteBestEffort_def RemoveObject_def Let_def fun_eq_iff)
  have words: "TrimSpace ''Ann'' = ''Ann''" "TrimSpace ''AB'' = ''AB''" "TrimSpace ''0xCd'' = ''0xCd''"
    "RuneCountInString ''Ann'' \<le> 255" "RuneCountInString ''ab'' \<le> 255" "RuneCountInString ''0xCd'' \<le> 255"
    by code_simp+
  have low: "Lower demo_env ''AB'' = ''ab''" by (simp add: ToLower_def is_ascii_def lower_byte_hex)
  have cr: "SupporterRepo_Create demo_env (newSupporter demo_env demo_register 7 (Some demo_photo_key)) empty_db
    = (demo_registered, Inr \<lparr>u_ID = 7, u_Role = ''supporter'', u_Email = ''ab'', u_WalletAddress = ''0xCd'',
       u_CreatedAt = 1700000000000000000, sp_Name = ''Ann'', sp_ImageObjectKey = Some demo_photo_key\<rparr>)"
  proof -
    have u: "insert_user demo_env 7 ''supporter'' ''ab'' ''0xCd'' empty_db
      = Inr (\<lparr>u_ID = 7, u_Role = ''supporter'', u_Email = ''ab'', u_WalletAddress = ''0xCd'',
          u_CreatedAt = 1700000000000000000, u_DeletedAt = None\<rparr>, demo_registered\<lparr>supporters := []\<rparr>)"
      using words by (simp add: insert_user_def varchar_short demo_registered_def empty_db_def Let_def)
    have s: "insert_supporter \<lparr>sr_id = 7, sr_name = ''Ann'', sr_image_object_key = Some demo_photo_key\<rparr>
        (demo_registered\<lparr>supporters := []\<rparr>) = Inr demo_registered"
      using words by (simp add: insert_supporter_def varchar_short demo_registered_def)
    have n: "newSupporter demo_env demo_register 7 (Some demo_photo_key)
      = \<lparr>u_ID = 7, u_Role = ''supporter'', u_Email = ''ab'', u_WalletAddress = ''0xCd'', u_CreatedAt = zeroTime,
          sp_Name = ''Ann'', sp_ImageObjectKey = Some demo_photo_key\<rparr>"
      using words low by (simp add: newSupporter_def demo_register_def)
    show ?thesis
      unfolding SupporterRepo_Create_def runTx_def supporterCreateTx_def n
      using u s by (simp add: exec_def)
  qed
  have norm: "normalizeOptionalString (rs_ImageObjectKey demo_register) = Some demo_photo"
    "normalizeOptionalString (Some demo_photo) = Some demo_photo"
    using demo_photo_facts by (simp_all add: normalizeOptionalString_def demo_register_def)
  show ?thesis
    using pr dis cr norm
    by (simp add: SupporterService_Register_def registerProfile_def promoteOptionalImageObjectKey_def
        demo_profile_service_def demo_start_def ProfileImageDirectory_def Let_def)
qed

text \<open>What a registration keeps of the staged image: none, or the canonical key of the promoted copy.\<close>

lemma register_promoted:
  assumes pr: "promoteOptionalImageObjectKey E promoter (normalizeOptionalString img) ProfileImageDirectory st0 = (st, Inr k)"
    and st': "st' = discardStagingImage E promoter (normalizeOptionalString img) st"
  shows "case normalizeOptionalString img of None \<Rightarrow> k = None
    | Some s \<Rightarrow> \<exists>key. CanonicalImageObjectKey E s ProfileImageDirectory = Inr key \<and> k = Some key
        \<and> (\<forall>p. promoter = Some p \<longrightarrow> st' (op_bucket p, key) \<noteq> None)"
proof (cases "normalizeOptionalString img")
  case None
  with pr show ?thesis by (simp add: promoteOptionalImageObjectKey_def normalizeOptionalString_def)
next
  case (Some s)
  then have norm: "normalizeOptionalString (Some s) = Some s" using normalizeOptionalString_idem [of img] by simp
  from pr [unfolded Some] obtain key where key: "k = Some key"
    "promoteImageObjectKey E promoter s ProfileImageDirectory st0 = (st, Inr key)"
    by (auto simp: promoteOptionalImageObjectKey_def norm split: sum.splits prod.splits)
  note pk = promoteImageObjectKey_ok [OF key(2) campaign_directory(2)]
  have "st' (b, key) = st (b, key)" for b
    unfolding st' Some by (rule discard_keeps_canonical [OF pk(1) campaign_directory(2)])
  with pk(1,2) key(1) Some show ?thesis by simp
qed

text \<open>(C38) A registered supporter is found again. After a successful registration, a lookup with the
  same wallet address, in any case and with any blanks around it, returns exactly the profile
  that registration returned: a supporter with the trimmed name and wallet address and the e-mail in lower
  case; without a staged image the profile has none, and with one it has the image's canonical key, under
  which the promoted image is in the bucket. The hypothesis about other accounts is that none has the
  address in another case, which the database's index does not rule out.\<close>

theorem register_then_get_supporter:
  assumes run: "SupporterService_Register E svc input w = (w', Inr sp)" and ok: "db_ok (database w)"
    and fits: "RuneCountInString (Lower E (TrimSpace (rs_Email input))) \<le> 255"
      "RuneCountInString (TrimSpace (rs_WalletAddress input)) \<le> 255" "RuneCountInString (TrimSpace (rs_Name input)) \<le> 255"
    and E': "fault E' = (\<lambda>_. None)"
    and wallet: "sql_Lower E' (TrimSpace (rs_WalletAddress input)) = sql_Lower E' (TrimSpace wallet)"
    and others: "\<forall>u\<in>set (users (database w)). live u \<longrightarrow> sql_Lower E' (u_WalletAddress u) \<noteq> sql_Lower E' (TrimSpace wallet)"
  shows "SupporterService_GetProfile E' wallet (database w') = Inr sp \<and> u_Email sp = Lower E (TrimSpace (rs_Email input))
    \<and> sp_Name sp = TrimSpace (rs_Name input) \<and> u_WalletAddress sp = TrimSpace (rs_WalletAddress input)
    \<and> u_Role sp = UserRoleSupporter
    \<and> (case normalizeOptionalString (rs_ImageObjectKey input) of None \<Rightarrow> sp_ImageObjectKey sp = None
       | Some s \<Rightarrow> \<exists>key. CanonicalImageObjectKey E s ProfileImageDirectory = Inr key \<and> sp_ImageObjectKey sp = Some key
           \<and> (\<forall>p. ps_objectPromoter svc = Some p \<longrightarrow> objects w' (op_bucket p, key) \<noteq> None))"
proof -
  let ?image = "normalizeOptionalString (rs_ImageObjectKey input)"
  from run obtain i k st where cr: "SupporterRepo_Create E (newSupporter E input i k) (database w) = (database w', Inr sp)"
    and pr: "promoteOptionalImageObjectKey E (ps_objectPromoter svc) ?image ProfileImageDirectory (objects w) = (st, Inr k)"
    and st: "objects w' = discardStagingImage E (ps_objectPromoter svc) ?image st"
    by (auto simp: SupporterService_Register_def registerProfile_def Let_def split: sum.splits prod.splits)
  have row: "sp = (newSupporter E input i k)\<lparr>u_CreatedAt := sql_Now E\<rparr> \<and> i \<notin> u_ID ` set (users (database w))
    \<and> database w' = (database w)\<lparr>users := users (database w) @ [\<lparr>u_ID = i, u_Role = ''supporter'',
          u_Email = Lower E (TrimSpace (rs_Email input)), u_WalletAddress = TrimSpace (rs_WalletAddress input),
          u_CreatedAt = sql_Now E, u_DeletedAt = None\<rparr>],
        supporters := supporters (database w) @ [\<lparr>sr_id = i, sr_name = TrimSpace (rs_Name input), sr_image_object_key = k\<rparr>]\<rparr>"
    using SupporterRepo_Create_row [OF cr] fits by (simp add: newSupporter_def)
  then have new: "i \<notin> u_ID ` set (users (database w))" and w': "database w' = (database w)\<lparr>users := users (database w) @ [\<lparr>u_ID = i,
          u_Role = ''supporter'', u_Email = Lower E (TrimSpace (rs_Email input)),
          u_WalletAddress = TrimSpace (rs_WalletAddress input), u_CreatedAt = sql_Now E, u_DeletedAt = None\<rparr>],
        supporters := supporters (database w) @ [\<lparr>sr_id = i, sr_name = TrimSpace (rs_Name input), sr_image_object_key = k\<rparr>]\<rparr>"
    by blast+
  have "supporterJoin E' (TrimSpace wallet) (database w') = [(\<lparr>u_ID = i, u_Role = ''supporter'',
          u_Email = Lower E (TrimSpace (rs_Email input)), u_WalletAddress = TrimSpace (rs_WalletAddress input),
          u_CreatedAt = sql_Now E, u_DeletedAt = None\<rparr>, \<lparr>sr_id = i, sr_name = TrimSpace (rs_Name input), sr_image_object_key = k\<rparr>)]"
    unfolding w' by (rule supporterJoin_new [OF ok new _ _ _ _ others]) (simp_all add: wallet)
  moreover have k: "k = sp_ImageObjectKey sp" using row by (simp add: newSupporter_def)
  note register_promoted [OF pr st, unfolded k]
  ultimately show ?thesis
    using row E'
    by (simp add: SupporterService_GetProfile_def SupporterRepo_FindByWalletAddress_def findRow_def queryRow_def newSupporter_def)
qed

theorem register_then_get_supporter_witness:
  "SupporterService_GetProfile demo_env '' 0xCD '' demo_registered =
     Inr \<lparr>u_ID = 7, u_Role = ''supporter'', u_Email = ''ab'', u_WalletAddress = ''0xCd'',
       u_CreatedAt = 1700000000000000000, sp_Name = ''Ann'', sp_ImageObjectKey = Some demo_photo_key\<rparr>"
proof -
  have words: "TrimSpace '' 0xCD '' = ''0xCD''" "TrimSpace ''Ann'' = ''Ann''" "TrimSpace ''AB'' = ''AB''" "TrimSpace ''0xCd'' = ''0xCd''"
    "RuneCountInString ''Ann'' \<le> 255" "RuneCountInString ''ab'' \<le> 255" "RuneCountInString ''0xCd'' \<le> 255"
    by code_simp+
  have low: "Lower demo_env ''AB'' = ''ab''" by (simp add: ToLower_def is_ascii_def lower_byte_hex)
  show ?thesis
    using register_then_get_supporter [OF demo_register_run, of demo_env "'' 0xCD ''"] db_ok_empty words low
    by (simp add: demo_start_def demo_register_def lower_byte_hex) (simp add: empty_db_def)
qed

text \<open>A fundraiser with a pending or active campaign cannot delete the profile: the call
  returns \<open>ErrActiveCampaignsExist\<close> and leaves the database, the store and the broker as they
  were.\<close>

lemma delete_refused_open_campaign:
  assumes "fault E = (\<lambda>_. None)" and "fundraiserJoin E (TrimSpace wallet) (database w) = (u, f) # rest"
    and "c \<in> set (campaigns (database w))" "c_FundraiserID c = u_ID u"
    and "c_Status c = CampaignStatusPending \<or> c_Status c = CampaignStatusActive"
  shows "FundraiserService_DeleteProfile E svc wallet w = (w, Inl (Sentinel service_ErrActiveCampaignsExist))"
proof -
  have "hasActiveCampaign (u_ID u) (database w)" using assms(3-5) by (auto simp: hasActiveCampaign_def)
  then have "FundraiserRepo_DeleteProfile E (TrimSpace wallet) (database w)
      = (database w, Inl (Sentinel repository_ErrFundraiserHasActiveCampaigns))"
    using assms(1,2) by (simp add: FundraiserRepo_DeleteProfile_def runTx_def fundraiserDeleteTx_def findRow_def queryRow_def)
  then show ?thesis
    by (simp add: FundraiserService_DeleteProfile_def deleteProfile_def fundraiserDeleteError_def)
qed

lemma delete_refused_open_campaign_witness:
  "FundraiserService_DeleteProfile demo_env demo_profile_service ''0xAB'' demo_world
    = (demo_world, Inl (Sentinel service_ErrActiveCampaignsExist))"
proof -
  have join: "\<exists>u f. fundraiserJoin demo_env (TrimSpace ''0xAB'') (database demo_world) = [(u, f)] \<and> u_ID u = 1"
    by (simp add: demo_texts fundraiserJoin_def demo_world_def demo_db_def lower_byte_hex)
  have "demo_pending \<in> set (campaigns (database demo_world))" "c_FundraiserID demo_pending = 1"
    "c_Status demo_pending = CampaignStatusPending"
    by (simp_all add: demo_world_def demo_db_def demo_pending_def demo_campaign_def)
  with join show ?thesis using delete_refused_open_campaign [OF demo_env_sel(1)] by metis
qed

end
