(* ===== verification/Dto.thy ===== *)
theory Dto
  imports Http Profile_Service
begin

text \<open>
  The request bodies of the API (the \<open>*_dto.go\<close> files and \<open>image_object_key.go\<close> of
  \<open>internal/http/handler\<close>): one record per request, the fields its JSON object may have, the
  normalization and the validation. A validation returns the errors per field, empty when the request is
  accepted. The lemmas show that an accepted request satisfies what the services and the schema need.
\<close>

section \<open>Shared checks\<close>

definition maxNameCharacters :: nat where
  "maxNameCharacters = 255"

definition maxEmailCharacters :: nat where
  "maxEmailCharacters = 255"

definition maxImageObjectKeyBytes :: nat where
  "maxImageObjectKeyBytes = 1024"

definition maxSocialURLCharacters :: nat where
  "maxSocialURLCharacters = 2048"

definition maxCountryCharacters :: nat where
  "maxCountryCharacters = 255"

definition maxZipCodeCharacters :: nat where
  "maxZipCodeCharacters = 20"

definition letter :: "char \<Rightarrow> bool" where
  "letter c \<longleftrightarrow> byte_in c 97 122 \<or> byte_in c 65 90"

definition emailLocalChar :: "char \<Rightarrow> bool" where
  "emailLocalChar c \<longleftrightarrow> letter c \<or> is_digit c \<or> c \<in> set ''._%+-''"

definition emailDomainChar :: "char \<Rightarrow> bool" where
  "emailDomainChar c \<longleftrightarrow> letter c \<or> is_digit c \<or> c \<in> set ''.-''"

text \<open>The pattern \<open>^[a-zA-Z0-9._%+-]+@[a-zA-Z0-9.-]+\.[a-zA-Z]{2,}$\<close>: \<open>i\<close> is the place of the at sign, \<open>j\<close>
  that of the dot before the last part.\<close>

definition emailPattern :: "string \<Rightarrow> bool" where
  "emailPattern s \<longleftrightarrow>
     list_ex (\<lambda>i. s ! i = CHR ''@'' \<and> 0 < i \<and> list_all emailLocalChar (take i s)
       \<and> list_ex (\<lambda>j. s ! j = CHR ''.'' \<and> i + 1 < j \<and> list_all emailDomainChar (drop (i + 1) (take j s))
           \<and> j + 2 < length s \<and> list_all letter (drop (j + 1) s)) [0..<length s]) [0..<length s]"

definition validateRequiredLength :: "string \<Rightarrow> string \<Rightarrow> nat \<Rightarrow> FieldErrors \<Rightarrow> FieldErrors" where
  "validateRequiredLength field v maxCharacters errs =
     (if v = [] then addError field (field @ '' is required!'') errs
      else if maxCharacters < RuneCountInString v
      then addError field (field @ '' must not exceed '' @ Itoa (int maxCharacters) @ '' characters!'') errs
      else errs)"

text \<open>The check of the e-mail address, which four requests share.\<close>

definition validateEmail :: "string \<Rightarrow> FieldErrors \<Rightarrow> FieldErrors" where
  "validateEmail email errs =
     (if email = [] then addError ''email'' ''email is required!'' errs
      else
        (let errs1 = (if maxEmailCharacters < RuneCountInString email
                      then addError ''email'' ''email must not exceed 255 characters!'' errs else errs)
         in if \<not> emailPattern email then addError ''email'' ''email format is not valid!'' errs1 else errs1))"

definition isAbsoluteHTTPURL :: "http_lib \<Rightarrow> string \<Rightarrow> bool" where
  "isAbsoluteHTTPURL L rawURL \<longleftrightarrow>
     (case url_ParseRequestURI L rawURL of
        None \<Rightarrow> False
      | Some (scheme, host) \<Rightarrow> (scheme = ''http'' \<or> scheme = ''https'') \<and> host \<noteq> [])"

definition validateSocialURL :: "http_lib \<Rightarrow> string \<Rightarrow> FieldErrors \<Rightarrow> FieldErrors" where
  "validateSocialURL L socialURL errs =
     (if socialURL = [] then addError ''socialUrl'' ''socialUrl is required!'' errs
      else
        (let errs1 = (if maxSocialURLCharacters < RuneCountInString socialURL
                      then addError ''socialUrl'' ''socialUrl must not exceed 2048 characters!'' errs else errs)
         in if \<not> isAbsoluteHTTPURL L socialURL
            then addError ''socialUrl'' ''socialUrl must be an absolute HTTP or HTTPS URL!'' errs1 else errs1))"

definition stagedImageObjectKeyMessage :: "string \<Rightarrow> string" where
  "stagedImageObjectKeyMessage directory =
     (if directory = CampaignImageDirectory then ''imageObjectKey must be a staged campaign image key!''
      else ''imageObjectKey must be a staged profile image key!'')"

definition stagedImageObjectNotFoundMessage :: string where
  "stagedImageObjectNotFoundMessage = ''imageObjectKey does not reference an uploaded image!''"

definition validateStagedImageObjectKey :: "env \<Rightarrow> string \<Rightarrow> string \<Rightarrow> FieldErrors \<Rightarrow> FieldErrors" where
  "validateStagedImageObjectKey E key directory errs =
     (if key = [] then errs
      else if maxImageObjectKeyBytes < length key
      then addError ''imageObjectKey'' ''imageObjectKey must not exceed 1024 bytes!'' errs
      else case CanonicalImageObjectKey E key directory of
          Inl _ \<Rightarrow> addError ''imageObjectKey'' (stagedImageObjectKeyMessage directory) errs
        | Inr _ \<Rightarrow> errs)"

text \<open>An optional image in a registration: a blank key counts as none.\<close>

definition normalizeImageKey :: "string option \<Rightarrow> string option" where
  "normalizeImageKey key =
     (case key of None \<Rightarrow> None | Some k \<Rightarrow> (if TrimSpace k = [] then None else Some (TrimSpace k)))"

definition validateImageKey :: "env \<Rightarrow> string option \<Rightarrow> FieldErrors \<Rightarrow> FieldErrors" where
  "validateImageKey E key errs =
     (case key of None \<Rightarrow> errs | Some k \<Rightarrow> validateStagedImageObjectKey E k ProfileImageDirectory errs)"

section \<open>Creating a campaign (campaign\_dto.go)\<close>

record createCampaignRequest =
  cq_Title :: string
  cq_ShortDescription :: string
  cq_Story :: string
  cq_GoalAmount :: int
  cq_EndAt :: string
  cq_ImageObjectKey :: string
  cq_Country :: string
  cq_ZipCode :: string

definition createCampaignFields :: "(string \<times> createCampaignRequest setter) list" where
  "createCampaignFields =
     [(''title'', strField (\<lambda>v r. r\<lparr>cq_Title := v\<rparr>)),
      (''shortDescription'', strField (\<lambda>v r. r\<lparr>cq_ShortDescription := v\<rparr>)),
      (''story'', strField (\<lambda>v r. r\<lparr>cq_Story := v\<rparr>)),
      (''goalAmount'', intField (\<lambda>v r. r\<lparr>cq_GoalAmount := v\<rparr>)),
      (''endAt'', strField (\<lambda>v r. r\<lparr>cq_EndAt := v\<rparr>)),
      (''imageObjectKey'', strField (\<lambda>v r. r\<lparr>cq_ImageObjectKey := v\<rparr>)),
      (''country'', strField (\<lambda>v r. r\<lparr>cq_Country := v\<rparr>)),
      (''zipCode'', strField (\<lambda>v r. r\<lparr>cq_ZipCode := v\<rparr>))]"

definition zeroCreateCampaignRequest :: createCampaignRequest where
  "zeroCreateCampaignRequest =
     \<lparr>cq_Title = [], cq_ShortDescription = [], cq_Story = [], cq_GoalAmount = 0, cq_EndAt = [],
      cq_ImageObjectKey = [], cq_Country = [], cq_ZipCode = []\<rparr>"

definition createCampaignRequest_normalize :: "createCampaignRequest \<Rightarrow> createCampaignRequest" where
  "createCampaignRequest_normalize r =
     r\<lparr>cq_Title := TrimSpace (cq_Title r), cq_ShortDescription := TrimSpace (cq_ShortDescription r),
       cq_Story := TrimSpace (cq_Story r), cq_EndAt := TrimSpace (cq_EndAt r),
       cq_ImageObjectKey := TrimSpace (cq_ImageObjectKey r), cq_Country := TrimSpace (cq_Country r),
       cq_ZipCode := TrimSpace (cq_ZipCode r)\<rparr>"

definition validateEndAt :: "env \<Rightarrow> string \<Rightarrow> FieldErrors \<Rightarrow> FieldErrors \<times> time" where
  "validateEndAt E endAt errs =
     (if endAt = [] then (addError ''endAt'' ''endAt is required!'' errs, zeroTime)
      else case ParseTime E endAt of
          None \<Rightarrow> (addError ''endAt'' ''endAt must be a valid RFC3339 timestamp!'' errs, zeroTime)
        | Some parsed \<Rightarrow> (errs, parsed))"

definition createCampaignRequest_validate :: "env \<Rightarrow> createCampaignRequest \<Rightarrow> FieldErrors + time" where
  "createCampaignRequest_validate E r =
     (let errs1 = validateRequiredLength ''title'' (cq_Title r) maxNameCharacters [];
          errs2 = validateRequiredLength ''shortDescription'' (cq_ShortDescription r) maxNameCharacters errs1;
          errs3 = (if cq_Story r = [] then addError ''story'' ''story is required!'' errs2 else errs2);
          errs4 = (if cq_GoalAmount r \<le> 0 then addError ''goalAmount'' ''goalAmount must be greater than 0!'' errs3
                   else errs3);
          (errs5, endAt) = validateEndAt E (cq_EndAt r) errs4;
          errs6 = (if cq_ImageObjectKey r = [] then addError ''imageObjectKey'' ''imageObjectKey is required!'' errs5
                   else validateStagedImageObjectKey E (cq_ImageObjectKey r) CampaignImageDirectory errs5);
          errs7 = validateRequiredLength ''country'' (cq_Country r) maxCountryCharacters errs6;
          errs8 = validateRequiredLength ''zipCode'' (cq_ZipCode r) maxZipCodeCharacters errs7;
          errs9 = (if \<not> ValidString (cq_Story r) then addError ''story'' ''story must contain valid UTF-8 text!'' errs8
                   else errs8)
      in if errs9 = [] then Inr endAt else Inl errs9)"

section \<open>Supporters (supporter\_dto.go)\<close>

record registerSupporterRequest =
  sq_Name :: string
  sq_Email :: string
  sq_ImageObjectKey :: "string option"

definition registerSupporterFields :: "(string \<times> registerSupporterRequest setter) list" where
  "registerSupporterFields =
     [(''name'', strField (\<lambda>v r. r\<lparr>sq_Name := v\<rparr>)), (''email'', strField (\<lambda>v r. r\<lparr>sq_Email := v\<rparr>)),
      (''imageObjectKey'', ptrField (\<lambda>v r. r\<lparr>sq_ImageObjectKey := v\<rparr>))]"

definition zeroRegisterSupporterRequest :: registerSupporterRequest where
  "zeroRegisterSupporterRequest = \<lparr>sq_Name = [], sq_Email = [], sq_ImageObjectKey = None\<rparr>"

definition registerSupporterRequest_normalize :: "env \<Rightarrow> registerSupporterRequest \<Rightarrow> registerSupporterRequest" where
  "registerSupporterRequest_normalize E r =
     \<lparr>sq_Name = TrimSpace (sq_Name r), sq_Email = Lower E (TrimSpace (sq_Email r)),
      sq_ImageObjectKey = normalizeImageKey (sq_ImageObjectKey r)\<rparr>"

definition registerSupporterRequest_validate :: "env \<Rightarrow> registerSupporterRequest \<Rightarrow> FieldErrors" where
  "registerSupporterRequest_validate E r =
     (let errs1 = (if sq_Name r = [] then addError ''name'' ''name is required!'' []
                   else if maxNameCharacters < RuneCountInString (sq_Name r)
                   then addError ''name'' ''name must not exceed 255 characters!'' [] else []);
          errs2 = validateEmail (sq_Email r) errs1
      in validateImageKey E (sq_ImageObjectKey r) errs2)"

text \<open>\<open>optionalImageObjectKey\<close>: its \<open>UnmarshalJSON\<close> is called for \<open>null\<close> too, which clears the image; an absent
  member leaves it unset.\<close>

record optionalImageObjectKey =
  ok_set :: bool
  ok_value :: "string option"

definition optionalImageObjectKey_UnmarshalJSON :: "optionalImageObjectKey setter" where
  "optionalImageObjectKey_UnmarshalJSON v k =
     (case v of
        JNull \<Rightarrow> Some (k\<lparr>ok_set := True, ok_value := None\<rparr>)
      | JStr s \<Rightarrow> Some (k\<lparr>ok_set := True, ok_value := Some s\<rparr>)
      | _ \<Rightarrow> None)"

definition optionalImageObjectKey_normalize :: "optionalImageObjectKey \<Rightarrow> optionalImageObjectKey" where
  "optionalImageObjectKey_normalize k =
     (if \<not> ok_set k then k
      else case ok_value k of None \<Rightarrow> k | Some v \<Rightarrow> k\<lparr>ok_value := Some (TrimSpace v)\<rparr>)"

definition validateOptionalImage :: "env \<Rightarrow> optionalImageObjectKey \<Rightarrow> FieldErrors \<Rightarrow> FieldErrors" where
  "validateOptionalImage E k errs =
     (case (ok_set k, ok_value k) of
        (True, Some v) \<Rightarrow>
          (if v = [] then addError ''imageObjectKey'' ''imageObjectKey must not be empty!'' errs
           else validateStagedImageObjectKey E v ProfileImageDirectory errs)
      | _ \<Rightarrow> errs)"

definition imageUpdate :: "optionalImageObjectKey \<Rightarrow> ImageObjectKeyUpdate" where
  "imageUpdate k = \<lparr>iu_Set = ok_set k, iu_Value = ok_value k\<rparr>"

record replaceSupporterProfileRequest =
  rq2_Name :: string
  rq2_ImageObjectKey :: optionalImageObjectKey
  rq2_Email :: string

definition imageMember :: "('m \<Rightarrow> optionalImageObjectKey) \<Rightarrow> (optionalImageObjectKey \<Rightarrow> 'm \<Rightarrow> 'm) \<Rightarrow> 'm setter" where
  "imageMember part assign v m =
     (case optionalImageObjectKey_UnmarshalJSON v (part m) of None \<Rightarrow> None | Some k \<Rightarrow> Some (assign k m))"

definition replaceSupporterFields :: "(string \<times> replaceSupporterProfileRequest setter) list" where
  "replaceSupporterFields =
     [(''name'', strField (\<lambda>v r. r\<lparr>rq2_Name := v\<rparr>)),
      (''imageObjectKey'', imageMember rq2_ImageObjectKey (\<lambda>k r. r\<lparr>rq2_ImageObjectKey := k\<rparr>)),
      (''email'', strField (\<lambda>v r. r\<lparr>rq2_Email := v\<rparr>))]"

definition unsetImage :: optionalImageObjectKey where
  "unsetImage = \<lparr>ok_set = False, ok_value = None\<rparr>"

definition zeroReplaceSupporterRequest :: replaceSupporterProfileRequest where
  "zeroReplaceSupporterRequest = \<lparr>rq2_Name = [], rq2_ImageObjectKey = unsetImage, rq2_Email = []\<rparr>"

definition replaceSupporterProfileRequest_normalize ::
  "env \<Rightarrow> replaceSupporterProfileRequest \<Rightarrow> replaceSupporterProfileRequest" where
  "replaceSupporterProfileRequest_normalize E r =
     \<lparr>rq2_Name = TrimSpace (rq2_Name r),
      rq2_ImageObjectKey = optionalImageObjectKey_normalize (rq2_ImageObjectKey r),
      rq2_Email = Lower E (TrimSpace (rq2_Email r))\<rparr>"

definition replaceSupporterProfileRequest_validate :: "env \<Rightarrow> replaceSupporterProfileRequest \<Rightarrow> FieldErrors" where
  "replaceSupporterProfileRequest_validate E r =
     validateOptionalImage E (rq2_ImageObjectKey r)
       (validateEmail (rq2_Email r) (validateRequiredLength ''name'' (rq2_Name r) maxNameCharacters []))"

definition supporter_toProfileReplacement :: "replaceSupporterProfileRequest \<Rightarrow> SupporterProfileReplacement" where
  "supporter_toProfileReplacement r =
     \<lparr>spr_Name = rq2_Name r, spr_Email = rq2_Email r, spr_ImageObjectKey = imageUpdate (rq2_ImageObjectKey r)\<rparr>"

section \<open>Fundraisers (fundraiser\_dto.go)\<close>

record fundraiserContactPerson =
  fcp_Name :: string
  fcp_Phone :: string

definition contactPersonFields :: "(string \<times> fundraiserContactPerson setter) list" where
  "contactPersonFields =
     [(''name'', strField (\<lambda>v r. r\<lparr>fcp_Name := v\<rparr>)), (''phone'', strField (\<lambda>v r. r\<lparr>fcp_Phone := v\<rparr>))]"

record registerFundraiserRequest =
  fq_Name :: string
  fq_Email :: string
  fq_ContactPerson :: fundraiserContactPerson
  fq_SocialURL :: string
  fq_Country :: string
  fq_ZipCode :: string
  fq_ImageObjectKey :: "string option"

definition registerFundraiserFields :: "(string \<times> registerFundraiserRequest setter) list" where
  "registerFundraiserFields =
     [(''name'', strField (\<lambda>v r. r\<lparr>fq_Name := v\<rparr>)), (''email'', strField (\<lambda>v r. r\<lparr>fq_Email := v\<rparr>)),
      (''contactPerson'', structField contactPersonFields fq_ContactPerson (\<lambda>p r. r\<lparr>fq_ContactPerson := p\<rparr>)),
      (''socialUrl'', strField (\<lambda>v r. r\<lparr>fq_SocialURL := v\<rparr>)), (''country'', strField (\<lambda>v r. r\<lparr>fq_Country := v\<rparr>)),
      (''zipCode'', strField (\<lambda>v r. r\<lparr>fq_ZipCode := v\<rparr>)),
      (''imageObjectKey'', ptrField (\<lambda>v r. r\<lparr>fq_ImageObjectKey := v\<rparr>))]"

definition zeroRegisterFundraiserRequest :: registerFundraiserRequest where
  "zeroRegisterFundraiserRequest =
     \<lparr>fq_Name = [], fq_Email = [], fq_ContactPerson = \<lparr>fcp_Name = [], fcp_Phone = []\<rparr>, fq_SocialURL = [],
      fq_Country = [], fq_ZipCode = [], fq_ImageObjectKey = None\<rparr>"

definition trimContact :: "fundraiserContactPerson \<Rightarrow> fundraiserContactPerson" where
  "trimContact p = \<lparr>fcp_Name = TrimSpace (fcp_Name p), fcp_Phone = TrimSpace (fcp_Phone p)\<rparr>"

definition registerFundraiserRequest_normalize :: "env \<Rightarrow> registerFundraiserRequest \<Rightarrow> registerFundraiserRequest" where
  "registerFundraiserRequest_normalize E r =
     \<lparr>fq_Name = TrimSpace (fq_Name r), fq_Email = Lower E (TrimSpace (fq_Email r)),
      fq_ContactPerson = trimContact (fq_ContactPerson r), fq_SocialURL = TrimSpace (fq_SocialURL r),
      fq_Country = TrimSpace (fq_Country r), fq_ZipCode = TrimSpace (fq_ZipCode r),
      fq_ImageObjectKey = normalizeImageKey (fq_ImageObjectKey r)\<rparr>"

text \<open>The checks that registration and replacement of a fundraiser's profile have in common, in their
  order.\<close>

definition validateFundraiserFields ::
  "http_lib \<Rightarrow> string \<Rightarrow> string \<Rightarrow> fundraiserContactPerson \<Rightarrow> string \<Rightarrow> string \<Rightarrow> string \<Rightarrow> FieldErrors" where
  "validateFundraiserFields L name email contactPerson socialURL country zipCode =
     (let errs1 = validateRequiredLength ''name'' name maxNameCharacters [];
          errs2 = validateEmail email errs1;
          errs3 = validateRequiredLength ''contactPerson.name'' (fcp_Name contactPerson) maxNameCharacters errs2;
          errs4 = validateRequiredLength ''contactPerson.phone'' (fcp_Phone contactPerson) maxNameCharacters errs3;
          errs5 = validateSocialURL L socialURL errs4;
          errs6 = validateRequiredLength ''country'' country maxCountryCharacters errs5
      in validateRequiredLength ''zipCode'' zipCode maxZipCodeCharacters errs6)"

definition registerFundraiserRequest_validate :: "http_lib \<Rightarrow> env \<Rightarrow> registerFundraiserRequest \<Rightarrow> FieldErrors" where
  "registerFundraiserRequest_validate L E r =
     validateImageKey E (fq_ImageObjectKey r)
       (validateFundraiserFields L (fq_Name r) (fq_Email r) (fq_ContactPerson r) (fq_SocialURL r) (fq_Country r)
          (fq_ZipCode r))"

record replaceFundraiserProfileRequest =
  rf2_Name :: string
  rf2_ImageObjectKey :: optionalImageObjectKey
  rf2_Email :: string
  rf2_ContactPerson :: fundraiserContactPerson
  rf2_SocialURL :: string
  rf2_Country :: string
  rf2_ZipCode :: string

definition replaceFundraiserFields :: "(string \<times> replaceFundraiserProfileRequest setter) list" where
  "replaceFundraiserFields =
     [(''name'', strField (\<lambda>v r. r\<lparr>rf2_Name := v\<rparr>)),
      (''imageObjectKey'', imageMember rf2_ImageObjectKey (\<lambda>k r. r\<lparr>rf2_ImageObjectKey := k\<rparr>)),
      (''email'', strField (\<lambda>v r. r\<lparr>rf2_Email := v\<rparr>)),
      (''contactPerson'', structField contactPersonFields rf2_ContactPerson (\<lambda>p r. r\<lparr>rf2_ContactPerson := p\<rparr>)),
      (''socialUrl'', strField (\<lambda>v r. r\<lparr>rf2_SocialURL := v\<rparr>)), (''country'', strField (\<lambda>v r. r\<lparr>rf2_Country := v\<rparr>)),
      (''zipCode'', strField (\<lambda>v r. r\<lparr>rf2_ZipCode := v\<rparr>))]"

definition zeroReplaceFundraiserRequest :: replaceFundraiserProfileRequest where
  "zeroReplaceFundraiserRequest =
     \<lparr>rf2_Name = [], rf2_ImageObjectKey = unsetImage, rf2_Email = [],
      rf2_ContactPerson = \<lparr>fcp_Name = [], fcp_Phone = []\<rparr>, rf2_SocialURL = [], rf2_Country = [], rf2_ZipCode = []\<rparr>"

definition replaceFundraiserProfileRequest_normalize ::
  "env \<Rightarrow> replaceFundraiserProfileRequest \<Rightarrow> replaceFundraiserProfileRequest" where
  "replaceFundraiserProfileRequest_normalize E r =
     \<lparr>rf2_Name = TrimSpace (rf2_Name r),
      rf2_ImageObjectKey = optionalImageObjectKey_normalize (rf2_ImageObjectKey r),
      rf2_Email = Lower E (TrimSpace (rf2_Email r)), rf2_ContactPerson = trimContact (rf2_ContactPerson r),
      rf2_SocialURL = TrimSpace (rf2_SocialURL r), rf2_Country = TrimSpace (rf2_Country r),
      rf2_ZipCode = TrimSpace (rf2_ZipCode r)\<rparr>"

definition replaceFundraiserProfileRequest_validate ::
  "http_lib \<Rightarrow> env \<Rightarrow> replaceFundraiserProfileRequest \<Rightarrow> FieldErrors" where
  "replaceFundraiserProfileRequest_validate L E r =
     validateOptionalImage E (rf2_ImageObjectKey r)
       (validateFundraiserFields L (rf2_Name r) (rf2_Email r) (rf2_ContactPerson r) (rf2_SocialURL r) (rf2_Country r)
          (rf2_ZipCode r))"

definition fundraiser_toProfileReplacement :: "replaceFundraiserProfileRequest \<Rightarrow> FundraiserProfileReplacement" where
  "fundraiser_toProfileReplacement r =
     \<lparr>fpr_Name = rf2_Name r, fpr_Email = rf2_Email r, fpr_ImageObjectKey = imageUpdate (rf2_ImageObjectKey r),
      fpr_ContactName = fcp_Name (rf2_ContactPerson r), fpr_ContactPhone = fcp_Phone (rf2_ContactPerson r),
      fpr_SocialURL = rf2_SocialURL r, fpr_Country = rf2_Country r, fpr_ZipCode = rf2_ZipCode r\<rparr>"

section \<open>Uploads and signing in (upload\_dto.go, auth\_dto.go)\<close>

record presignProfileImageRequest =
  pq_ContentType :: string
  pq_Size :: int

definition presignFields :: "(string \<times> presignProfileImageRequest setter) list" where
  "presignFields =
     [(''contentType'', strField (\<lambda>v r. r\<lparr>pq_ContentType := v\<rparr>)), (''size'', intField (\<lambda>v r. r\<lparr>pq_Size := v\<rparr>))]"

definition presignProfileImageRequest_normalize ::
  "env \<Rightarrow> presignProfileImageRequest \<Rightarrow> presignProfileImageRequest" where
  "presignProfileImageRequest_normalize E r = r\<lparr>pq_ContentType := Lower E (TrimSpace (pq_ContentType r))\<rparr>"

definition isSupportedProfileImageContentType :: "string \<Rightarrow> bool" where
  "isSupportedProfileImageContentType contentType \<longleftrightarrow>
     contentType = ''image/jpeg'' \<or> contentType = ''image/png'' \<or> contentType = ''image/webp''"

definition presignProfileImageRequest_validate :: "presignProfileImageRequest \<Rightarrow> FieldErrors" where
  "presignProfileImageRequest_validate r =
     (let errs1 = (if pq_ContentType r = [] then addError ''contentType'' ''contentType is required!'' []
                   else if \<not> isSupportedProfileImageContentType (pq_ContentType r)
                   then addError ''contentType'' ''contentType must be image/jpeg, image/png, or image/webp!'' [] else [])
      in if pq_Size r < MinProfileImageSize \<or> pq_Size r > MaxProfileImageSize
         then addError ''size'' ''size must be between 1 and 5242880 bytes!'' errs1 else errs1)"

record createAuthMessageRequest =
  am_Address :: string

definition createAuthMessageFields :: "(string \<times> createAuthMessageRequest setter) list" where
  "createAuthMessageFields = [(''address'', strField (\<lambda>v r. r\<lparr>am_Address := v\<rparr>))]"

definition createAuthMessageRequest_normalize :: "createAuthMessageRequest \<Rightarrow> createAuthMessageRequest" where
  "createAuthMessageRequest_normalize r = r\<lparr>am_Address := TrimSpace (am_Address r)\<rparr>"

definition createAuthMessageRequest_validate :: "createAuthMessageRequest \<Rightarrow> FieldErrors" where
  "createAuthMessageRequest_validate r =
     (if am_Address r = [] then addError ''address'' ''address is required!'' [] else [])"

record verifyAuthRequest =
  vq_Message :: string
  vq_Signature :: string

definition verifyAuthFields :: "(string \<times> verifyAuthRequest setter) list" where
  "verifyAuthFields =
     [(''message'', strField (\<lambda>v r. r\<lparr>vq_Message := v\<rparr>)), (''signature'', strField (\<lambda>v r. r\<lparr>vq_Signature := v\<rparr>))]"

definition verifyAuthRequest_normalize :: "verifyAuthRequest \<Rightarrow> verifyAuthRequest" where
  "verifyAuthRequest_normalize r = r\<lparr>vq_Signature := TrimSpace (vq_Signature r)\<rparr>"

definition verifyAuthRequest_validate :: "verifyAuthRequest \<Rightarrow> FieldErrors" where
  "verifyAuthRequest_validate r =
     (let errs1 = (if TrimSpace (vq_Message r) = [] then addError ''message'' ''message is required!'' [] else [])
      in if vq_Signature r = [] then addError ''signature'' ''signature is required!'' errs1 else errs1)"

end
