(* ===== verification/Auth.thy ===== *)
theory Auth
  imports Http Profile_Repo
begin

text \<open>
  Signing in: the cache client (\<open>internal/infra/cache\<close>), the access tokens
  (\<open>internal/auth/jwt.go\<close>) and the authentication service (\<open>internal/service/auth.go\<close>).
  Redis is a table from keys to values with a deadline; the packages \<open>golang-jwt\<close>, \<open>siwe-go\<close> and
  \<open>go-ethereum/common\<close> are parameters. The locale \<open>message_store\<close> states what the service needs of the
  cache and is interpreted on the cache client. The lemmas: a sign-in message is accepted at most as often
  as it was issued, and the token of a successful sign-in identifies the signer until it expires.
\<close>

section \<open>Libraries\<close>

record Claims =
  cl_WalletAddress :: string
  cl_Role :: UserRole
  cl_ExpiresAt :: time
  cl_IssuedAt :: time

text \<open>\<open>'m\<close> is the type of parsed SIWE messages. \<open>jwt_ParseWithClaims\<close> takes the time of the check and
  stands for the call with the options of \<open>Verify\<close> (HS256 only, expiration required); \<open>siwe_InitMessage\<close>
  takes the domain, the address, the URI, the nonce, the chain and the two formatted times;
  \<open>siwe_Verify\<close> takes the signature, the domain and the time. \<open>redis_Expired\<close> compares a deadline with
  the current time, in the server's own precision.\<close>

record 'm auth_lib =
  jwt_NewNumericDate :: "time \<Rightarrow> time"
  jwt_SignedString :: "string \<Rightarrow> Claims \<Rightarrow> string result"
  jwt_ParseWithClaims :: "string \<Rightarrow> time \<Rightarrow> string \<Rightarrow> Claims result"
  common_IsHexAddress :: "string \<Rightarrow> bool"
  common_HexToAddress_Hex :: "string \<Rightarrow> string"
  rand_Text :: string
  siwe_InitMessage :: "string \<Rightarrow> string \<Rightarrow> string \<Rightarrow> string \<Rightarrow> int \<Rightarrow> string \<Rightarrow> string \<Rightarrow> 'm result"
  siwe_String :: "'m \<Rightarrow> string"
  siwe_ParseMessage :: "string \<Rightarrow> 'm result"
  siwe_GetURI :: "'m \<Rightarrow> string"
  siwe_GetChainID :: "'m \<Rightarrow> int"
  siwe_GetNonce :: "'m \<Rightarrow> string"
  siwe_GetAddress_Hex :: "'m \<Rightarrow> string"
  siwe_Verify :: "'m \<Rightarrow> string \<Rightarrow> string \<Rightarrow> time \<Rightarrow> unit result"
  redis_Expired :: "time \<Rightarrow> time \<Rightarrow> bool"

text \<open>What \<open>golang-jwt\<close> documents: a numeric date is a time cut to the second, and a token that was
  signed with a secret is accepted with the same secret until its expiration, with the claims that were
  signed, when their texts are valid UTF-8 and their times whole seconds that JSON numbers represent.\<close>

definition numericDate :: "time \<Rightarrow> bool" where
  "numericDate t \<longleftrightarrow> t mod 1000000000 = 0 \<and> 0 \<le> t \<and> t < 9007199254740992 * 1000000000"

definition jwt_laws :: "'m auth_lib \<Rightarrow> bool" where
  "jwt_laws L \<longleftrightarrow>
     (\<forall>t. jwt_NewNumericDate L t = t - t mod 1000000000)
     \<and> (\<forall>secret c tok now. jwt_SignedString L secret c = Inr tok \<longrightarrow> now < cl_ExpiresAt c
          \<longrightarrow> ValidString (cl_WalletAddress c) \<longrightarrow> ValidString (cl_Role c)
          \<longrightarrow> numericDate (cl_ExpiresAt c) \<longrightarrow> numericDate (cl_IssuedAt c)
          \<longrightarrow> jwt_ParseWithClaims L secret now tok = Inr c)"

section \<open>The cache (cache.go)\<close>

type_synonym redis = "string \<rightharpoonup> string \<times> time"

record CacheClient =
  cc_keyPrefix :: string

definition buildKey :: "CacheClient \<Rightarrow> string \<Rightarrow> string result" where
  "buildKey c key =
     (let key' = TrimSpace key in
      if key' = [] then Inl (Errorf ''cache: key cannot be empty'')
      else if cc_keyPrefix c = [] then Inr key'
      else Inr (cc_keyPrefix c @ '':'' @ key'))"

text \<open>The commands of the server. A command may fail before it takes effect, or take effect and lose its
  reply.\<close>

definition redis_live :: "'m auth_lib \<Rightarrow> env \<Rightarrow> redis \<Rightarrow> string \<Rightarrow> string option" where
  "redis_live L E s k =
     (case s k of None \<Rightarrow> None | Some (v, deadline) \<Rightarrow> if redis_Expired L deadline (time_Now E) then None else Some v)"

definition redis_reply :: "env \<Rightarrow> string \<Rightarrow> redis \<Rightarrow> redis \<Rightarrow> 'a result \<Rightarrow> redis \<times> 'a result" where
  "redis_reply E command before after reply =
     (case fault E command of
        Some e \<Rightarrow> (before, Inl e)
      | None \<Rightarrow> (after, case fault E (command @ '' reply'') of Some e \<Rightarrow> Inl e | None \<Rightarrow> reply))"

definition redis_value :: "string option \<Rightarrow> string result" where
  "redis_value v = (case v of None \<Rightarrow> Inl (Sentinel redis_Nil) | Some x \<Rightarrow> Inr x)"

definition cacheError :: "string \<Rightarrow> err \<Rightarrow> err" where
  "cacheError message e = (if errors_Is e redis_Nil then Sentinel cache_ErrMiss else Wrap message e)"

definition CacheClient_Get :: "'m auth_lib \<Rightarrow> env \<Rightarrow> CacheClient \<Rightarrow> string \<Rightarrow> redis \<Rightarrow> string result" where
  "CacheClient_Get L E c key s =
     (case buildKey c key of
        Inl e \<Rightarrow> Inl e
      | Inr cacheKey \<Rightarrow>
          (case snd (redis_reply E ''redis get'' s s (redis_value (redis_live L E s cacheKey))) of
             Inl e \<Rightarrow> Inl (cacheError (''cache: get '' @ cacheKey) e)
           | Inr v \<Rightarrow> Inr v))"

definition CacheClient_Set ::
  "env \<Rightarrow> CacheClient \<Rightarrow> string \<Rightarrow> string \<Rightarrow> duration \<Rightarrow> redis \<Rightarrow> redis \<times> unit result" where
  "CacheClient_Set E c key v ttl s =
     (case buildKey c key of
        Inl e \<Rightarrow> (s, Inl e)
      | Inr cacheKey \<Rightarrow>
          (if ttl \<le> 0 then (s, Inl (Errorf ''cache: TTL must be greater than zero''))
           else case redis_reply E ''redis set'' s (s(cacheKey \<mapsto> (v, time_Now E + ttl))) (Inr ()) of
               (s', Inl e) \<Rightarrow> (s', Inl (Wrap (''cache: set '' @ cacheKey) e))
             | (s', Inr _) \<Rightarrow> (s', Inr ())))"

definition CacheClient_Delete :: "env \<Rightarrow> CacheClient \<Rightarrow> string \<Rightarrow> redis \<Rightarrow> redis \<times> unit result" where
  "CacheClient_Delete E c key s =
     (case buildKey c key of
        Inl e \<Rightarrow> (s, Inl e)
      | Inr cacheKey \<Rightarrow>
          (case redis_reply E ''redis del'' s (s(cacheKey := None)) (Inr ()) of
             (s', Inl e) \<Rightarrow> (s', Inl (Wrap (''cache: delete '' @ cacheKey) e))
           | (s', Inr _) \<Rightarrow> (s', Inr ())))"

definition GetDelete :: "'m auth_lib \<Rightarrow> env \<Rightarrow> CacheClient \<Rightarrow> string \<Rightarrow> redis \<Rightarrow> redis \<times> string result" where
  "GetDelete L E c key s =
     (case buildKey c key of
        Inl e \<Rightarrow> (s, Inl e)
      | Inr cacheKey \<Rightarrow>
          (case redis_reply E ''redis getdel'' s (s(cacheKey := None)) (redis_value (redis_live L E s cacheKey)) of
             (s', Inl e) \<Rightarrow> (s', Inl (cacheError (''cache: get and delete '' @ cacheKey) e))
           | (s', Inr v) \<Rightarrow> (s', Inr v)))"

section \<open>Access tokens (jwt.go)\<close>

type_synonym JWTManager = string

definition NewJWTManager :: "string \<Rightarrow> JWTManager result" where
  "NewJWTManager secret =
     (if length secret < 32 then Inl (Errorf ''auth: JWT secret must contain at least 32 bytes'') else Inr secret)"

definition isSupportedRole :: "UserRole \<Rightarrow> bool" where
  "isSupportedRole role \<longleftrightarrow> role = [] \<or> role = UserRoleSupporter \<or> role = UserRoleFundraiser"

definition JWT_Generate ::
  "'m auth_lib \<Rightarrow> env \<Rightarrow> JWTManager \<Rightarrow> string \<Rightarrow> UserRole \<Rightarrow> duration \<Rightarrow> string result" where
  "JWT_Generate L E m walletAddress role ttl =
     (let walletAddress' = TrimSpace walletAddress in
      if walletAddress' = [] then Inl (Errorf ''auth: wallet address is required'')
      else if \<not> isSupportedRole role then Inl (Errorf ''auth: unsupported role'')
      else if ttl \<le> 0 then Inl (Errorf ''auth: token TTL must be positive'')
      else
        (let now = time_Now E
         in jwt_SignedString L m
              \<lparr>cl_WalletAddress = walletAddress', cl_Role = role, cl_ExpiresAt = jwt_NewNumericDate L (now + ttl),
               cl_IssuedAt = jwt_NewNumericDate L now\<rparr>))"

definition JWT_Verify :: "'m auth_lib \<Rightarrow> env \<Rightarrow> JWTManager \<Rightarrow> string \<Rightarrow> Principal result" where
  "JWT_Verify L E m tokenString =
     (case jwt_ParseWithClaims L m (time_Now E) tokenString of
        Inl e \<Rightarrow> Inl (Wrap ''parse'' (Sentinel auth_ErrInvalidToken))
      | Inr claims \<Rightarrow>
          (let walletAddress = TrimSpace (cl_WalletAddress claims) in
           if walletAddress = [] then Inl (Wrap ''wallet_address claim is required'' (Sentinel auth_ErrInvalidToken))
           else if \<not> isSupportedRole (cl_Role claims)
           then Inl (Wrap ''unsupported role'' (Sentinel auth_ErrInvalidToken))
           else Inr \<lparr>p_WalletAddress = walletAddress, p_Role = cl_Role claims\<rparr>))"

section \<open>The authentication service (auth.go)\<close>

record AuthConfig =
  ac_Domain :: string
  ac_URI :: string
  ac_ChainID :: int
  ac_MessageTTL :: duration
  ac_AccessTokenTTL :: duration

record VerifyAuthResult =
  va_AccessToken :: string
  va_Address :: string
  va_Profile :: "AuthProfile option"

record AuthService =
  as_store :: CacheClient
  as_tokenGenerator :: JWTManager
  as_config :: AuthConfig

definition NewAuthService :: "CacheClient \<Rightarrow> JWTManager \<Rightarrow> AuthConfig \<Rightarrow> AuthService" where
  "NewAuthService store tokenGenerator config =
     \<lparr>as_store = store, as_tokenGenerator = tokenGenerator, as_config = config\<rparr>"

definition authMessageKeyPrefix :: string where
  "authMessageKeyPrefix = ''siwe:message:''"

text \<open>The message of a call of \<open>CreateMessage\<close>, before it is stored.\<close>

definition mintMessage :: "'m auth_lib \<Rightarrow> env \<Rightarrow> AuthService \<Rightarrow> string \<Rightarrow> string result" where
  "mintMessage L E svc walletAddress =
     (let address = TrimSpace walletAddress; config = as_config svc in
      if \<not> common_IsHexAddress L address then Inl (Sentinel service_ErrInvalidWalletAddress)
      else
        (let now = time_Now E; expiresAt = now + ac_MessageTTL config
         in case siwe_InitMessage L (ac_Domain config) (common_HexToAddress_Hex L address) (ac_URI config)
                   (rand_Text L) (ac_ChainID config) (FormatRFC3339 now) (FormatRFC3339 expiresAt) of
              Inl e \<Rightarrow> Inl (Wrap ''service: create SIWE message'' e)
            | Inr m \<Rightarrow> Inr (siwe_String L m)))"

definition CreateMessage ::
  "'m auth_lib \<Rightarrow> env \<Rightarrow> AuthService \<Rightarrow> string \<Rightarrow> redis \<Rightarrow> redis \<times> string result" where
  "CreateMessage L E svc walletAddress s =
     (case mintMessage L E svc walletAddress of
        Inl e \<Rightarrow> (s, Inl e)
      | Inr msgStr \<Rightarrow>
          (case CacheClient_Set E (as_store svc) (authMessageKeyPrefix @ rand_Text L) msgStr
                  (ac_MessageTTL (as_config svc)) s of
             (s', Inl e) \<Rightarrow> (s', Inl (Wrap ''service: store SIWE message'' e))
           | (s', Inr _) \<Rightarrow> (s', Inr msgStr)))"

fun hex_DecodeString :: "string \<Rightarrow> nat list option" where
  "hex_DecodeString [] = Some []"
| "hex_DecodeString [a] = None"
| "hex_DecodeString (a # b # r) =
     (case (hexValue a, hexValue b, hex_DecodeString r) of
        (Some x, Some y, Some bs) \<Rightarrow> Some ((x * 16 + y) # bs)
      | _ \<Rightarrow> None)"

definition isValidEthereumSignature :: "string \<Rightarrow> bool" where
  "isValidEthereumSignature signature \<longleftrightarrow>
     (if length signature \<noteq> 2 + 65 * 2 \<or> \<not> HasPrefix signature ''0x'' then False
      else case hex_DecodeString (drop 2 signature) of None \<Rightarrow> False | Some decoded \<Rightarrow> length decoded = 65)"

text \<open>\<open>Verify\<close> in two parts: the checks of the message and of the signature, then the use of the stored
  message and the token.\<close>

definition verifyMessage :: "'m auth_lib \<Rightarrow> env \<Rightarrow> AuthService \<Rightarrow> string \<Rightarrow> string \<Rightarrow> 'm result" where
  "verifyMessage L E svc rawMessage signature =
     (if TrimSpace rawMessage = [] then Inl (Sentinel service_ErrInvalidMessage)
      else if \<not> isValidEthereumSignature (TrimSpace signature) then Inl (Sentinel service_ErrInvalidSignature)
      else case siwe_ParseMessage L rawMessage of
          Inl e \<Rightarrow> Inl (Wrap ''parse'' (Sentinel service_ErrInvalidMessage))
        | Inr siweMsg \<Rightarrow>
            (if siwe_GetURI L siweMsg \<noteq> ac_URI (as_config svc) \<or> siwe_GetChainID L siweMsg \<noteq> ac_ChainID (as_config svc)
             then Inl (Sentinel service_ErrSIWEVerification)
             else case siwe_Verify L siweMsg (TrimSpace signature) (ac_Domain (as_config svc)) (time_Now E) of
                 Inl e \<Rightarrow> Inl (Wrap ''verify'' (Sentinel service_ErrSIWEVerification))
               | Inr _ \<Rightarrow> Inr siweMsg))"

definition issueForAddress ::
  "'m auth_lib \<Rightarrow> env \<Rightarrow> AuthService \<Rightarrow> string \<Rightarrow> db \<Rightarrow> VerifyAuthResult result" where
  "issueForAddress L E svc address d =
     (case FindProfileByWalletAddress E address d of
        Inl e \<Rightarrow> Inl (Wrap ''service: find auth profile'' e)
      | Inr profile \<Rightarrow>
          (let role = (case profile of None \<Rightarrow> [] | Some p \<Rightarrow> ap_Role p)
           in case JWT_Generate L E (as_tokenGenerator svc) address role (ac_AccessTokenTTL (as_config svc)) of
                Inl e \<Rightarrow> Inl (Wrap ''service: generate access token'' e)
              | Inr accessToken \<Rightarrow>
                  Inr \<lparr>va_AccessToken = accessToken, va_Address = address, va_Profile = profile\<rparr>))"

definition AuthService_Verify ::
  "'m auth_lib \<Rightarrow> env \<Rightarrow> AuthService \<Rightarrow> string \<Rightarrow> string \<Rightarrow> db \<Rightarrow> redis \<Rightarrow> redis \<times> VerifyAuthResult result" where
  "AuthService_Verify L E svc rawMessage signature d s =
     (case verifyMessage L E svc rawMessage signature of
        Inl e \<Rightarrow> (s, Inl e)
      | Inr siweMsg \<Rightarrow>
          (case GetDelete L E (as_store svc) (authMessageKeyPrefix @ siwe_GetNonce L siweMsg) s of
             (s', Inl e) \<Rightarrow>
               (s', Inl (if errors_Is e cache_ErrMiss then Sentinel service_ErrSIWEVerification
                         else Wrap ''service: consume SIWE message'' e))
           | (s', Inr storedMessage) \<Rightarrow>
               (if storedMessage \<noteq> rawMessage then (s', Inl (Sentinel service_ErrSIWEVerification))
                else (s', issueForAddress L E svc (siwe_GetAddress_Hex L siweMsg) d))))"

definition IssueAccessToken :: "'m auth_lib \<Rightarrow> env \<Rightarrow> AuthService \<Rightarrow> string \<Rightarrow> UserRole \<Rightarrow> string result" where
  "IssueAccessToken L E svc walletAddress role =
     (case JWT_Generate L E (as_tokenGenerator svc) walletAddress role (ac_AccessTokenTTL (as_config svc)) of
        Inl e \<Rightarrow> Inl (Wrap ''service: generate access token'' e)
      | Inr accessToken \<Rightarrow> Inr accessToken)"

definition GetMe :: "env \<Rightarrow> string \<Rightarrow> db \<Rightarrow> AuthProfile result" where
  "GetMe E walletAddress d =
     (case FindProfileByWalletAddress E (TrimSpace walletAddress) d of
        Inl e \<Rightarrow> Inl (Wrap ''service: find auth profile'' e)
      | Inr None \<Rightarrow> Inl (Sentinel service_ErrProfileNotFound)
      | Inr (Some profile) \<Rightarrow> Inr profile)"

section \<open>What the service needs of the message store\<close>

text \<open>The interface: \<open>put\<close> and \<open>fetch\<close> are the two calls of \<open>MessageStore\<close>, for any environment, \<open>slot\<close> the
  entry a key names and \<open>held\<close> the value of an entry, expired or not.\<close>

locale message_store =
  fixes put :: "'e \<Rightarrow> string \<Rightarrow> string \<Rightarrow> 's \<Rightarrow> 's \<times> unit result"
    and fetch :: "'f \<Rightarrow> string \<Rightarrow> 's \<Rightarrow> 's \<times> string result"
    and slot :: "string \<Rightarrow> string"
    and held :: "'s \<Rightarrow> string \<Rightarrow> string option"
  assumes put_only: "put e k v s = (s', r) \<Longrightarrow> held s' a = held s a \<or> a = slot k \<and> held s' a = Some v"
    and fetch_value: "fetch f k s = (s', Inr v) \<Longrightarrow> held s (slot k) = Some v \<and> held s' (slot k) = None"
    and fetch_only: "fetch f k s = (s', q) \<Longrightarrow> held s' a = held s a \<or> held s' a = None"
begin

definition credit :: "'s \<Rightarrow> string \<Rightarrow> string \<Rightarrow> nat" where
  "credit s a v = (if held s a = Some v then 1 else 0)"

lemma put_credit: "put e k v s = (s', r) \<Longrightarrow> credit s' a w \<le> credit s a w + (if w = v then 1 else 0)"
  by (drule put_only [of _ _ _ _ _ _ a]) (auto simp: credit_def)

lemma fetch_credit: "fetch e k s = (s', r) \<Longrightarrow> credit s' a w \<le> credit s a w"
  by (drule fetch_only [of _ _ _ _ _ a]) (auto simp: credit_def)

lemma fetch_spends: "fetch e k s = (s', Inr v) \<Longrightarrow> credit s' (slot k) v + 1 \<le> credit s (slot k) v"
  by (drule fetch_value) (auto simp: credit_def)

end

definition cacheSlot :: "CacheClient \<Rightarrow> string \<Rightarrow> string" where
  "cacheSlot c key = (case buildKey c key of Inl _ \<Rightarrow> [] | Inr k \<Rightarrow> k)"

definition cacheHeld :: "redis \<Rightarrow> string \<Rightarrow> string option" where
  "cacheHeld s k = map_option fst (s k)"

lemmas cache_defs = CacheClient_Set_def GetDelete_def redis_reply_def redis_value_def redis_live_def cacheSlot_def
  cacheHeld_def

interpretation cache: message_store
  "\<lambda>(E, ttl) k v. CacheClient_Set E c k v ttl" "\<lambda>(L, E) k. GetDelete L E c k" "cacheSlot c" cacheHeld
  for c
  by unfold_locales (auto simp: cache_defs split: sum.splits option.splits if_splits prod.splits)

section \<open>Messages are used once\<close>

text \<open>A history of the service, from an empty cache: calls of \<open>CreateMessage\<close>, each with the nonce it
  draws, and of \<open>Verify\<close>, in any order, in any environment and with any result. \<open>minted\<close> collects the
  messages that were made, returned to a caller or not, \<open>accepted\<close> those of the successful sign-ins.
  Either call makes at most one call of the cache, so calls that overlap are histories too, in the order
  of their cache calls.\<close>

inductive auth_trace :: "'m auth_lib \<Rightarrow> AuthService \<Rightarrow> redis \<Rightarrow> string list \<Rightarrow> string list \<Rightarrow> bool" for L svc where
  start: "auth_trace L svc Map.empty [] []"
| create: "auth_trace L svc s minted accepted
    \<Longrightarrow> CreateMessage (L\<lparr>rand_Text := nonce\<rparr>) E svc walletAddress s = (s', r)
    \<Longrightarrow> auth_trace L svc s'
          ((case mintMessage (L\<lparr>rand_Text := nonce\<rparr>) E svc walletAddress of Inl _ \<Rightarrow> [] | Inr m \<Rightarrow> [m]) @ minted) accepted"
| verify: "auth_trace L svc s minted accepted
    \<Longrightarrow> AuthService_Verify L E svc rawMessage signature d s = (s', r)
    \<Longrightarrow> auth_trace L svc s' minted (if is_ok r then rawMessage # accepted else accepted)"

definition messageSlot :: "'m auth_lib \<Rightarrow> AuthService \<Rightarrow> string \<Rightarrow> string" where
  "messageSlot L svc raw =
     (case siwe_ParseMessage L raw of
        Inl _ \<Rightarrow> []
      | Inr m \<Rightarrow> cacheSlot (as_store svc) (authMessageKeyPrefix @ siwe_GetNonce L m))"

lemma verifyMessage_parse: "verifyMessage L E svc raw signature = Inr m \<Longrightarrow> siwe_ParseMessage L raw = Inr m"
  by (auto simp: verifyMessage_def split: if_splits sum.splits)

lemma CreateMessage_credit:
  assumes "CreateMessage L E svc walletAddress s = (s', r)"
  shows "cache.credit s' a raw
    \<le> cache.credit s a raw + count_list (case mintMessage L E svc walletAddress of Inl _ \<Rightarrow> [] | Inr m \<Rightarrow> [m]) raw"
proof (cases "mintMessage L E svc walletAddress")
  case (Inl e)
  with assms show ?thesis by (simp add: CreateMessage_def)
next
  case (Inr m)
  then obtain q where
    "CacheClient_Set E (as_store svc) (authMessageKeyPrefix @ rand_Text L) m (ac_MessageTTL (as_config svc)) s = (s', q)"
    using assms by (auto simp: CreateMessage_def split: prod.splits sum.splits)
  then show ?thesis
    using cache.put_credit [of "as_store svc" "(E, ac_MessageTTL (as_config svc))" _ m s s' q a raw] Inr by auto
qed

lemma Verify_credit:
  assumes run: "AuthService_Verify L E svc raw signature d s = (s', r)"
  shows "cache.credit s' a x \<le> cache.credit s a x"
    and "is_ok r \<Longrightarrow> cache.credit s' (messageSlot L svc raw) raw + 1 \<le> cache.credit s (messageSlot L svc raw) raw"
proof -
  have "cache.credit s' a x \<le> cache.credit s a x
    \<and> (is_ok r \<longrightarrow> cache.credit s' (messageSlot L svc raw) raw + 1 \<le> cache.credit s (messageSlot L svc raw) raw)"
  proof (cases "verifyMessage L E svc raw signature")
    case (Inl e)
    with run show ?thesis by (auto simp: AuthService_Verify_def)
  next
    case (Inr m)
    let ?k = "authMessageKeyPrefix @ siwe_GetNonce L m"
    have slot: "messageSlot L svc raw = cacheSlot (as_store svc) ?k"
      by (simp add: messageSlot_def verifyMessage_parse [OF Inr])
    obtain s1 q where get: "GetDelete L E (as_store svc) ?k s = (s1, q)" by fastforce
    then have s1: "s1 = s'" using run Inr by (auto simp: AuthService_Verify_def split: sum.splits if_splits)
    have q: "q = Inr raw" if "is_ok r"
      using that run Inr get by (auto simp: AuthService_Verify_def is_ok_def split: sum.splits if_splits)
    show ?thesis
      using cache.fetch_credit [of "as_store svc" "(L, E)" ?k s s' q a x]
        cache.fetch_spends [of "as_store svc" "(L, E)" ?k s s' raw] get s1 q slot by auto
  qed
  then show "cache.credit s' a x \<le> cache.credit s a x"
    and "is_ok r \<Longrightarrow> cache.credit s' (messageSlot L svc raw) raw + 1 \<le> cache.credit s (messageSlot L svc raw) raw"
    by auto
qed

lemma auth_trace_credit:
  "auth_trace L svc s minted accepted \<Longrightarrow>
     count_list accepted raw + cache.credit s (messageSlot L svc raw) raw \<le> count_list minted raw"
proof (induction rule: auth_trace.induct)
  case start
  show ?case unfolding cache.credit_def by (simp add: cacheHeld_def)
next
  case (create s minted accepted nonce E walletAddress s' r)
  with CreateMessage_credit [OF create.hyps(2), of "messageSlot L svc raw" raw] show ?case by simp
next
  case (verify s minted accepted E rawMessage signature d s' r)
  with Verify_credit(1) [OF verify.hyps(2), of "messageSlot L svc raw" raw] Verify_credit(2) [OF verify.hyps(2)]
  show ?case by auto
qed

text \<open>(C14) A sign-in message is good for one sign-in. In every history of the service, whatever calls fail,
  lose their reply or run with whatever clock, a message is accepted at most as often as the service made
  it; nothing the service did not make is ever accepted, and a captured message with its signature cannot be
  replayed.\<close>

theorem message_used_once:
  assumes "auth_trace L svc s minted accepted"
  shows "count_list accepted rawMessage \<le> count_list minted rawMessage"
  using auth_trace_credit [OF assms, of rawMessage] by linarith

section \<open>What a token says\<close>

text \<open>The text form of an address, which \<open>common.Address.Hex\<close> writes with hexadecimal digits.\<close>

definition address_laws :: "'m auth_lib \<Rightarrow> bool" where
  "address_laws L \<longleftrightarrow> (\<forall>m. list_all graphic (siwe_GetAddress_Hex L m))"

lemma graphic_ascii: "list_all graphic s \<Longrightarrow> is_ascii s"
  by (auto simp: list_all_iff is_ascii_def graphic_def)

lemma isSupportedRole_valid: "isSupportedRole role \<Longrightarrow> ValidString role"
  by (auto simp: isSupportedRole_def is_ascii_def intro!: ValidString_ascii)

text \<open>Until its expiration, cut to the second, a generated token is accepted and gives back the trimmed
  address and the role.\<close>

lemma JWT_Generate_Verify:
  assumes laws: "jwt_laws L" and gen: "JWT_Generate L E m walletAddress role ttl = Inr tok"
    and valid: "ValidString (TrimSpace walletAddress)"
    and times: "0 \<le> time_Now E" "time_Now E + ttl < 9007199254740992 * 1000000000"
    and now: "time_Now E' < (time_Now E + ttl) - (time_Now E + ttl) mod 1000000000"
  shows "JWT_Verify L E' m tok = Inr \<lparr>p_WalletAddress = TrimSpace walletAddress, p_Role = role\<rparr>"
proof -
  let ?c = "\<lparr>cl_WalletAddress = TrimSpace walletAddress, cl_Role = role,
    cl_ExpiresAt = jwt_NewNumericDate L (time_Now E + ttl), cl_IssuedAt = jwt_NewNumericDate L (time_Now E)\<rparr>"
  have ok: "TrimSpace walletAddress \<noteq> []" "isSupportedRole role" "0 < ttl" "jwt_SignedString L m ?c = Inr tok"
    using gen by (auto simp: JWT_Generate_def Let_def split: if_splits)
  have date: "jwt_NewNumericDate L t = t - t mod 1000000000" for t using laws by (simp add: jwt_laws_def)
  have cut: "0 \<le> t - t mod 1000000000 \<and> t - t mod 1000000000 \<le> t \<and> (t - t mod 1000000000) mod 1000000000 = 0" if "0 \<le> t" for t :: time
    using that zmod_le_nonneg_dividend [of t 1000000000] by (auto simp: mod_diff_right_eq)
  have "numericDate (cl_ExpiresAt ?c)" "numericDate (cl_IssuedAt ?c)"
    using cut [of "time_Now E + ttl"] cut [of "time_Now E"] times ok(3) by (auto simp: numericDate_def date)
  moreover have "time_Now E' < cl_ExpiresAt ?c" using now by (simp add: date)
  ultimately have "jwt_ParseWithClaims L m (time_Now E') tok = Inr ?c"
    using laws ok(4) valid isSupportedRole_valid [OF ok(2)] unfolding jwt_laws_def by simp
  then show ?thesis using ok(1,2) by (simp add: JWT_Verify_def)
qed

lemma Verify_success:
  assumes "AuthService_Verify L E svc raw signature d s = (s', Inr res)"
  obtains m where "verifyMessage L E svc raw signature = Inr m"
    and "redis_live L E s (messageSlot L svc raw) = Some raw"
    and "issueForAddress L E svc (siwe_GetAddress_Hex L m) d = Inr res"
proof (cases "verifyMessage L E svc raw signature")
  case (Inl e)
  with assms show ?thesis by (simp add: AuthService_Verify_def)
next
  case (Inr m)
  let ?k = "authMessageKeyPrefix @ siwe_GetNonce L m"
  obtain s1 q where get: "GetDelete L E (as_store svc) ?k s = (s1, q)" by fastforce
  with assms Inr have q: "q = Inr raw" and res: "issueForAddress L E svc (siwe_GetAddress_Hex L m) d = Inr res"
    by (auto simp: AuthService_Verify_def split: sum.splits if_splits)
  have "redis_live L E s (cacheSlot (as_store svc) ?k) = Some raw"
    using get q by (auto simp: GetDelete_def redis_reply_def redis_value_def cacheSlot_def
        split: sum.splits option.splits)
  then show ?thesis by (intro that [OF Inr _ res]) (simp add: messageSlot_def verifyMessage_parse [OF Inr])
qed

text \<open>(C15) The token of a successful sign-in identifies the signer. Sign-in succeeds only for a message whose
  signature was verified for the configured domain, address and chain and which the cache still held; the
  access token it returns is then accepted, until it expires, as the signer's address with the role that
  the account of that address has in the database, or with no role when there is none.\<close>

theorem login_identifies_signer:
  assumes run: "AuthService_Verify L E svc rawMessage signature d s = (s', Inr res)"
    and laws: "jwt_laws L" "address_laws L"
    and times: "0 \<le> time_Now E" "time_Now E + ac_AccessTokenTTL (as_config svc) < 9007199254740992 * 1000000000"
    and now: "time_Now E' < (time_Now E + ac_AccessTokenTTL (as_config svc))
      - (time_Now E + ac_AccessTokenTTL (as_config svc)) mod 1000000000"
  shows "\<exists>m. siwe_ParseMessage L rawMessage = Inr m
    \<and> siwe_Verify L m (TrimSpace signature) (ac_Domain (as_config svc)) (time_Now E) = Inr ()
    \<and> siwe_GetURI L m = ac_URI (as_config svc) \<and> siwe_GetChainID L m = ac_ChainID (as_config svc)
    \<and> redis_live L E s (messageSlot L svc rawMessage) = Some rawMessage
    \<and> va_Address res = siwe_GetAddress_Hex L m
    \<and> FindProfileByWalletAddress E (va_Address res) d = Inr (va_Profile res)
    \<and> JWT_Verify L E' (as_tokenGenerator svc) (va_AccessToken res)
        = Inr \<lparr>p_WalletAddress = siwe_GetAddress_Hex L m,
               p_Role = (case va_Profile res of None \<Rightarrow> [] | Some p \<Rightarrow> ap_Role p)\<rparr>"
proof -
  obtain m where m: "verifyMessage L E svc rawMessage signature = Inr m"
      "redis_live L E s (messageSlot L svc rawMessage) = Some rawMessage"
      "issueForAddress L E svc (siwe_GetAddress_Hex L m) d = Inr res"
    by (rule Verify_success [OF run])
  let ?a = "siwe_GetAddress_Hex L m" and ?role = "case va_Profile res of None \<Rightarrow> [] | Some p \<Rightarrow> ap_Role p"
  have a: "list_all graphic ?a" using laws(2) by (simp add: address_laws_def)
  have checks: "siwe_ParseMessage L rawMessage = Inr m"
      "siwe_Verify L m (TrimSpace signature) (ac_Domain (as_config svc)) (time_Now E) = Inr ()"
      "siwe_GetURI L m = ac_URI (as_config svc)" "siwe_GetChainID L m = ac_ChainID (as_config svc)"
    using m(1) by (auto simp: verifyMessage_def split: if_splits sum.splits)
  have issued: "va_Address res = ?a" "FindProfileByWalletAddress E ?a d = Inr (va_Profile res)"
      "JWT_Generate L E (as_tokenGenerator svc) ?a ?role (ac_AccessTokenTTL (as_config svc)) = Inr (va_AccessToken res)"
    using m(3) by (auto simp: issueForAddress_def Let_def split: sum.splits)
  have "JWT_Verify L E' (as_tokenGenerator svc) (va_AccessToken res) = Inr \<lparr>p_WalletAddress = TrimSpace ?a, p_Role = ?role\<rparr>"
    using times now a by (intro JWT_Generate_Verify [OF laws(1) issued(3)]) (auto simp: TrimSpace_id_all ValidString_ascii graphic_ascii)
  with checks issued m(2) a show ?thesis by (intro exI [of _ m]) (simp add: TrimSpace_id_all)
qed

section \<open>A concrete library\<close>

text \<open>An instance of the parameters on which the hypotheses hold: fields are written with a mark before
  each character and one at the end, a token and a message are sequences of fields.\<close>

fun packField :: "string \<Rightarrow> string" where
  "packField [] = ''b''"
| "packField (c # s) = CHR ''a'' # c # packField s"

fun unpackField :: "string \<Rightarrow> (string \<times> string) option" where
  "unpackField (x # s) =
     (if x = CHR ''b'' then Some ([], s)
      else case s of [] \<Rightarrow> None | c # r \<Rightarrow> (case unpackField r of None \<Rightarrow> None | Some (f, q) \<Rightarrow> Some (c # f, q)))"
| "unpackField [] = None"

lemma unpack_pack [simp]: "unpackField (packField f @ r) = Some (f, r)"
  by (induction f) simp_all

fun unpackFields :: "nat \<Rightarrow> string \<Rightarrow> string list option" where
  "unpackFields 0 s = (if s = [] then Some [] else None)"
| "unpackFields (Suc n) s =
     (case unpackField s of
        None \<Rightarrow> None
      | Some (f, r) \<Rightarrow> (case unpackFields n r of None \<Rightarrow> None | Some fs \<Rightarrow> Some (f # fs)))"

lemma unpack_pack_end [simp]: "unpackField (packField f) = Some (f, [])"
  using unpack_pack [of f "[]"] by simp

definition demo_token :: "string \<Rightarrow> Claims \<Rightarrow> string" where
  "demo_token secret c =
     concat (map packField [secret, cl_WalletAddress c, cl_Role c, Itoa (cl_ExpiresAt c div 1000000000),
       Itoa (cl_IssuedAt c div 1000000000)])"

definition demo_claims :: "string \<Rightarrow> time \<Rightarrow> string \<Rightarrow> Claims result" where
  "demo_claims secret now tok =
     (case unpackFields 5 tok of
        Some [k, a, r, x, i] \<Rightarrow>
          (case (ParseInt x, ParseInt i) of
             (Some ex, Some iat) \<Rightarrow>
               (if k = secret \<and> now < ex * 1000000000
                then Inr \<lparr>cl_WalletAddress = a, cl_Role = r, cl_ExpiresAt = ex * 1000000000,
                  cl_IssuedAt = iat * 1000000000\<rparr>
                else Inl (Errorf ''token is invalid''))
           | _ \<Rightarrow> Inl (Errorf ''token is malformed''))
      | _ \<Rightarrow> Inl (Errorf ''token is malformed''))"

definition demo_auth :: "(string \<times> string) auth_lib" where
  "demo_auth =
     \<lparr>jwt_NewNumericDate = (\<lambda>t. t - t mod 1000000000),
      jwt_SignedString = (\<lambda>secret c. Inr (demo_token secret c)),
      jwt_ParseWithClaims = demo_claims,
      common_IsHexAddress = (\<lambda>a. HasPrefix a ''0x''),
      common_HexToAddress_Hex = (\<lambda>a. a),
      rand_Text = ''N1'',
      siwe_InitMessage = (\<lambda>_ address _ nonce _ _ _. Inr (address, nonce)),
      siwe_String = (\<lambda>(a, n). packField a @ packField n),
      siwe_ParseMessage = (\<lambda>raw. case unpackFields 2 raw of Some [a, n] \<Rightarrow> Inr (a, n) | _ \<Rightarrow> Inl (Errorf ''malformed'')),
      siwe_GetURI = (\<lambda>_. ''https://pawfund.org''),
      siwe_GetChainID = (\<lambda>_. 84532),
      siwe_GetNonce = snd,
      siwe_GetAddress_Hex = filter graphic \<circ> fst,
      siwe_Verify = (\<lambda>_ _ _ _. Inr ()),
      redis_Expired = (\<lambda>deadline now. deadline \<le> now)\<rparr>"

lemma demo_auth_sel [simp]:
  "jwt_NewNumericDate demo_auth t = t - t mod 1000000000"
  "jwt_SignedString demo_auth secret c = Inr (demo_token secret c)"
  "jwt_ParseWithClaims demo_auth = demo_claims"
  "common_IsHexAddress demo_auth a \<longleftrightarrow> HasPrefix a ''0x''"
  "common_HexToAddress_Hex demo_auth a = a"
  "rand_Text demo_auth = ''N1''"
  "siwe_InitMessage demo_auth x1 address x2 nonce x3 x4 x5 = Inr (address, nonce)"
  "siwe_String demo_auth (a, n) = packField a @ packField n"
  "siwe_ParseMessage demo_auth raw = (case unpackFields 2 raw of Some [a, n] \<Rightarrow> Inr (a, n) | _ \<Rightarrow> Inl (Errorf ''malformed''))"
  "siwe_GetURI demo_auth m = ''https://pawfund.org''" "siwe_GetChainID demo_auth m = 84532"
  "siwe_GetNonce demo_auth m = snd m" "siwe_GetAddress_Hex demo_auth m = filter graphic (fst m)"
  "siwe_Verify demo_auth m y1 y2 y3 = Inr ()" "redis_Expired demo_auth t now \<longleftrightarrow> t \<le> now"
  by (simp_all add: demo_auth_def)

lemma Itoa_seconds: "numericDate t \<Longrightarrow> ParseInt (Itoa (t div 1000000000)) = Some (t div 1000000000) \<and> t div 1000000000 * 1000000000 = t"
  by (auto simp: numericDate_def in_int64_def MinInt64_def MaxInt64_def intro!: ParseInt_Itoa)

lemma demo_claims_token:
  assumes "numericDate (cl_ExpiresAt c)" and "numericDate (cl_IssuedAt c)" and "now < cl_ExpiresAt c"
  shows "demo_claims secret now (demo_token secret c) = Inr c"
proof -
  have "unpackFields 5 (demo_token secret c) = Some [secret, cl_WalletAddress c, cl_Role c,
      Itoa (cl_ExpiresAt c div 1000000000), Itoa (cl_IssuedAt c div 1000000000)]"
    by (simp add: demo_token_def numeral_eq_Suc)
  then show ?thesis using assms Itoa_seconds by (simp add: demo_claims_def)
qed

lemma demo_jwt_laws: "jwt_laws demo_auth"
  by (auto simp: jwt_laws_def demo_claims_token)

lemma demo_address_laws: "address_laws demo_auth"
  by (auto simp: address_laws_def list_all_iff)

definition demo_auth_service :: AuthService where
  "demo_auth_service =
     \<lparr>as_store = \<lparr>cc_keyPrefix = ''pawfund''\<rparr>, as_tokenGenerator = replicate 32 (CHR ''s''),
      as_config = \<lparr>ac_Domain = ''pawfund.org'', ac_URI = ''https://pawfund.org'', ac_ChainID = 84532,
        ac_MessageTTL = 300000000000, ac_AccessTokenTTL = 3600000000000\<rparr>\<rparr>"

definition demo_message :: string where
  "demo_message = packField ''0xCd'' @ packField ''N1''"

definition demo_signature :: string where
  "demo_signature = ''0x'' @ replicate 130 (CHR ''1'')"

definition demo_cache :: redis where
  "demo_cache = [''pawfund:siwe:message:N1'' \<mapsto> (demo_message, 1700000300000000000)]"

lemma demo_mint:
  "CreateMessage demo_auth demo_env demo_auth_service ''0xCd'' Map.empty = (demo_cache, Inr demo_message)"
  "mintMessage demo_auth demo_env demo_auth_service ''0xCd'' = Inr demo_message"
proof -
  have t: "TrimSpace ''0xCd'' = ''0xCd''" "TrimSpace ''siwe:message:N1'' = ''siwe:message:N1''" by code_simp+
  show m: "mintMessage demo_auth demo_env demo_auth_service ''0xCd'' = Inr demo_message"
    by (simp add: mintMessage_def t HasPrefix_def demo_message_def demo_auth_service_def Let_def)
  show "CreateMessage demo_auth demo_env demo_auth_service ''0xCd'' Map.empty = (demo_cache, Inr demo_message)"
    unfolding CreateMessage_def m
    by (simp add: CacheClient_Set_def buildKey_def redis_reply_def demo_auth_service_def authMessageKeyPrefix_def t
        demo_cache_def)
qed

definition demo_login :: VerifyAuthResult where
  "demo_login =
     \<lparr>va_AccessToken = demo_token (replicate 32 (CHR ''s''))
        \<lparr>cl_WalletAddress = ''0xCd'', cl_Role = ''supporter'', cl_ExpiresAt = 1700003600000000000,
         cl_IssuedAt = 1700000000000000000\<rparr>,
      va_Address = ''0xCd'',
      va_Profile = Some \<lparr>ap_Name = ''Ann'', ap_Role = ''supporter'', ap_ImageObjectKey = Some ''profiles/b.png''\<rparr>\<rparr>"

lemma demo_signature_valid: "isValidEthereumSignature (TrimSpace demo_signature)"
  by code_simp

lemma demo_find_profile:
  "FindProfileByWalletAddress demo_env ''0xCd'' demo_db
     = Inr (Some \<lparr>ap_Name = ''Ann'', ap_Role = ''supporter'', ap_ImageObjectKey = Some ''profiles/b.png''\<rparr>)"
  (is "?l = ?r")
proof -
  have "TrimSpace ''0xCd'' = ''0xCd''" "TrimSpace ''Ann'' = ''Ann''" by code_simp+
  then show ?thesis
    by (simp add: FindProfileByWalletAddress_def findRow_def authRows_def queryRow_def demo_db_def lower_byte_hex coalesce_def
        leftJoin_def)
qed

lemma demo_verify:
  "AuthService_Verify demo_auth demo_env demo_auth_service demo_message demo_signature demo_db demo_cache
     = (Map.empty, Inr demo_login)"
proof -
  have t: "TrimSpace ''0xCd'' = ''0xCd''" "TrimSpace ''siwe:message:N1'' = ''siwe:message:N1''"
    "TrimSpace demo_message = demo_message" by code_simp+
  have msg: "demo_message \<noteq> []" by (simp add: demo_message_def)
  have parse: "unpackFields 2 demo_message = Some [''0xCd'', ''N1'']" by code_simp
  have hex: "filter graphic ''0xCd'' = ''0xCd''" by code_simp
  have vm: "verifyMessage demo_auth demo_env demo_auth_service demo_message demo_signature = Inr (''0xCd'', ''N1'')"
    by (simp add: verifyMessage_def demo_signature_valid t msg parse demo_auth_service_def)
  have key: "buildKey (as_store demo_auth_service) (authMessageKeyPrefix @ ''N1'') = Inr ''pawfund:siwe:message:N1''"
    by (simp add: buildKey_def authMessageKeyPrefix_def t demo_auth_service_def)
  have del: "demo_cache(''pawfund:siwe:message:N1'' := None) = Map.empty" by (auto simp: demo_cache_def)
  have "redis_live demo_auth demo_env demo_cache ''pawfund:siwe:message:N1'' = Some demo_message"
    by (simp add: redis_live_def demo_cache_def)
  then have get: "GetDelete demo_auth demo_env (as_store demo_auth_service) (authMessageKeyPrefix @ ''N1'') demo_cache
      = (Map.empty, Inr demo_message)"
    by (simp add: GetDelete_def key redis_reply_def redis_value_def del)
  have "issueForAddress demo_auth demo_env demo_auth_service ''0xCd'' demo_db = Inr demo_login"
    by (simp add: issueForAddress_def demo_find_profile JWT_Generate_def t isSupportedRole_def demo_auth_service_def
        demo_login_def Let_def)
  with get hex show ?thesis by (simp add: AuthService_Verify_def vm)
qed

theorem message_used_once_witness:
  "count_list [demo_message] demo_message \<le> count_list [demo_message] demo_message \<and> count_list [demo_message] demo_message = 1"
proof -
  have same: "demo_auth\<lparr>rand_Text := ''N1''\<rparr> = demo_auth" by (simp add: demo_auth_def)
  have "auth_trace demo_auth demo_auth_service demo_cache [demo_message] []"
    using auth_trace.create [OF auth_trace.start, where L = demo_auth and svc = demo_auth_service and nonce = "''N1''"
        and E = demo_env and walletAddress = "''0xCd''" and s' = demo_cache and r = "Inr demo_message"]
    by (simp add: same demo_mint)
  from auth_trace.verify [OF this demo_verify]
  have "auth_trace demo_auth demo_auth_service Map.empty [demo_message] [demo_message]" by simp
  from message_used_once [OF this, of demo_message] show ?thesis by simp
qed

theorem login_identifies_signer_witness:
  "JWT_Verify demo_auth (demo_env\<lparr>time_Now := 1700003599999999999\<rparr>) (replicate 32 (CHR ''s'')) (va_AccessToken demo_login)
     = Inr \<lparr>p_WalletAddress = ''0xCd'', p_Role = ''supporter''\<rparr>"
proof -
  have parse: "unpackFields 2 demo_message = Some [''0xCd'', ''N1'']" and hex: "filter graphic ''0xCd'' = ''0xCd''"
    by code_simp+
  let ?E = "demo_env\<lparr>time_Now := 1700003599999999999\<rparr>"
  have times: "0 \<le> time_Now demo_env"
      "time_Now demo_env + ac_AccessTokenTTL (as_config demo_auth_service) < 9007199254740992 * 1000000000"
      "time_Now ?E < (time_Now demo_env + ac_AccessTokenTTL (as_config demo_auth_service))
        - (time_Now demo_env + ac_AccessTokenTTL (as_config demo_auth_service)) mod 1000000000"
    by (simp_all add: demo_auth_service_def)
  obtain m where m: "siwe_ParseMessage demo_auth demo_message = Inr m"
      "JWT_Verify demo_auth ?E (as_tokenGenerator demo_auth_service) (va_AccessToken demo_login)
        = Inr \<lparr>p_WalletAddress = siwe_GetAddress_Hex demo_auth m,
               p_Role = (case va_Profile demo_login of None \<Rightarrow> [] | Some p \<Rightarrow> ap_Role p)\<rparr>"
    using login_identifies_signer [OF demo_verify demo_jwt_laws demo_address_laws times] by (elim exE conjE)
  have "m = (''0xCd'', ''N1'')" using m(1) by (simp add: parse)
  moreover have "as_tokenGenerator demo_auth_service = replicate 32 (CHR ''s'')" by (simp add: demo_auth_service_def)
  moreover have "va_Profile demo_login = Some \<lparr>ap_Name = ''Ann'', ap_Role = ''supporter'', ap_ImageObjectKey = Some ''profiles/b.png''\<rparr>"
    by (simp add: demo_login_def)
  ultimately show ?thesis using m(2) hex by simp
qed

end
