(* ===== verification/Handlers.thy ===== *)
theory Handlers
  imports Dto Auth
begin

text \<open>
  The HTTP handlers (package \<open>internal/http/handler\<close>): the bodies of the responses, one record per
  response struct, and one definition per handler. A handler takes the header that the middleware has set,
  the request and the state it may change, and returns the state and the response. Logging is not modelled.
\<close>

section \<open>Bodies of responses\<close>

record createCampaignResponse =
  cr_ID :: string
  cr_Title :: string
  cr_ShortDescription :: string
  cr_Story :: string
  cr_GoalAmount :: int
  cr_RaisedAmount :: int
  cr_DonorCount :: int
  cr_EndAt :: string
  cr_ImageURL :: "string option"
  cr_Country :: string
  cr_ZipCode :: string
  cr_Status :: CampaignStatus
  cr_ContractAddress :: "string option"
  cr_CreatedAt :: string

record myCampaignResponse =
  mc_Title :: string
  mc_ShortDescription :: string
  mc_Story :: string
  mc_GoalAmount :: int
  mc_RaisedAmount :: int
  mc_DonorCount :: int
  mc_EndAt :: string
  mc_ImageURL :: "string option"
  mc_Country :: string
  mc_ZipCode :: string
  mc_Status :: CampaignStatus
  mc_ContractAddress :: "string option"
  mc_CreatedAt :: string

record myCampaignListItemResponse =
  ml_ID :: uuid
  ml_Title :: string
  ml_ShortDescription :: string
  ml_GoalAmount :: int
  ml_RaisedAmount :: int
  ml_DonorCount :: int
  ml_ImageURL :: "string option"
  ml_EndAt :: string
  ml_CreatedAt :: string
  ml_ContractAddress :: "string option"
  ml_Status :: CampaignStatus

record publicCampaignListItemResponse =
  pl_ID :: uuid
  pl_Title :: string
  pl_ShortDescription :: string
  pl_GoalAmount :: int
  pl_RaisedAmount :: int
  pl_DonorCount :: int
  pl_CampaignImageURL :: "string option"
  pl_FundraiserImageURL :: "string option"
  pl_EndAt :: string
  pl_CreatedAt :: string
  pl_ContractAddress :: "string option"
  pl_Status :: CampaignStatus

record campaignFundraiser =
  cf_ID :: uuid
  cf_Name :: string
  cf_ImageURL :: "string option"
  cf_Address :: string

record publicCampaignDetailResponse =
  pcd_ID :: uuid
  pcd_Title :: string
  pcd_ShortDescription :: string
  pcd_Story :: string
  pcd_Fundraiser :: campaignFundraiser
  pcd_GoalAmount :: int
  pcd_RaisedAmount :: int
  pcd_DonorCount :: int
  pcd_ContractAddress :: string
  pcd_EndAt :: string
  pcd_CreatedAt :: string
  pcd_ImageURL :: string
  pcd_Country :: string
  pcd_ZipCode :: string
  pcd_Status :: CampaignStatus

record publicCampaignDonorsItemResponse =
  pdi_Name :: "string option"
  pdi_Address :: string
  pdi_ImageURL :: "string option"
  pdi_Amount :: int
  pdi_DonatedOn :: string

record registerSupporterResponse =
  rsr_Name :: string
  rsr_Email :: string
  rsr_WalletAddress :: string
  rsr_ImageURL :: "string option"
  rsr_Role :: UserRole
  rsr_AccessToken :: string

record mySupporterProfileResponse =
  msp_Name :: string
  msp_Email :: string
  msp_WalletAddress :: string
  msp_ImageURL :: "string option"

record myDonationCampaignItem =
  mdc_Title :: string
  mdc_ContractAddress :: string

record myDonationItemListResponse =
  mdi_Amount :: int
  mdi_Campaign :: myDonationCampaignItem
  mdi_DonatedOn :: string
  mdi_TxHash :: string

record registerFundraiserResponse =
  rfr_Name :: string
  rfr_Email :: string
  rfr_ContactPerson :: fundraiserContactPerson
  rfr_SocialURL :: string
  rfr_Country :: string
  rfr_ZipCode :: string
  rfr_ImageURL :: "string option"
  rfr_WalletAddress :: string
  rfr_Role :: UserRole
  rfr_AccessToken :: string

record myFundraiserProfileResponse =
  mfp_Name :: string
  mfp_Email :: string
  mfp_ContactPerson :: fundraiserContactPerson
  mfp_SocialURL :: string
  mfp_Country :: string
  mfp_ZipCode :: string
  mfp_ImageURL :: "string option"
  mfp_WalletAddress :: string

record publicFundraiserProfileResponse =
  pfp_Name :: string
  pfp_Email :: string
  pfp_ContactPerson :: fundraiserContactPerson
  pfp_SocialURL :: string
  pfp_Country :: string
  pfp_ZipCode :: string
  pfp_ImageURL :: "string option"
  pfp_CreatedAt :: string

record verifyAuthResponse =
  var_AccessToken :: string
  var_IsNotRegistered :: bool
  var_Address :: string
  var_Name :: "string option"
  var_Role :: "UserRole option"
  var_ImageURL :: "string option"
  var_ChainID :: int

record getMeResponse =
  gm_IsNotRegistered :: bool
  gm_Address :: string
  gm_Name :: "string option"
  gm_Role :: "UserRole option"
  gm_ImageURL :: "string option"
  gm_ChainID :: int

record presignProfileImageResponse =
  ppr_ObjectKey :: string
  ppr_URL :: string

datatype payload =
    PublicCampaigns "publicCampaignListItemResponse list"
  | PublicCampaign publicCampaignDetailResponse
  | CampaignDonors "publicCampaignDonorsItemResponse list"
  | CreatedCampaign createCampaignResponse
  | MyCampaigns "myCampaignListItemResponse list"
  | MyCampaign myCampaignResponse
  | RegisteredSupporter registerSupporterResponse
  | MySupporterProfile mySupporterProfileResponse
  | MyDonations "myDonationItemListResponse list"
  | RegisteredFundraiser registerFundraiserResponse
  | MyFundraiserProfile myFundraiserProfileResponse
  | PublicFundraiserProfile publicFundraiserProfileResponse
  | AuthMessage string
  | Verified verifyAuthResponse
  | Me getMeResponse
  | Presigned presignProfileImageResponse
  | ServiceName string

section \<open>Parts the handlers share\<close>

definition valueOrEmpty :: "string option \<Rightarrow> string" where
  "valueOrEmpty v = (case v of None \<Rightarrow> [] | Some s \<Rightarrow> s)"

text \<open>The caller's trimmed address and role, when there is a principal with an address.\<close>

definition callerWallet :: "Request \<Rightarrow> (string \<times> UserRole) option" where
  "callerWallet r =
     (case PrincipalFromContext r of
        None \<Rightarrow> None
      | Some caller \<Rightarrow>
          (if TrimSpace (p_WalletAddress caller) = [] then None
           else Some (TrimSpace (p_WalletAddress caller), p_Role caller)))"

definition invalidAccessToken :: "Header \<Rightarrow> 'p Response" where
  "invalidAccessToken hs =
     WriteError (setHeader ''WWW-Authenticate'' ''Bearer'' hs) 401 ''INVALID_ACCESS_TOKEN''
       ''The access token is invalid or expired.'' []"

definition fundraiserAccessRequired :: "Header \<Rightarrow> 'p Response" where
  "fundraiserAccessRequired hs =
     WriteError hs 403 ''FUNDRAISER_ACCESS_REQUIRED'' ''A registered fundraiser account is required.'' []"

definition profileNotFound :: "Header \<Rightarrow> string \<Rightarrow> 'p Response" where
  "profileNotFound hs message = WriteError hs 404 ''PROFILE_NOT_FOUND'' message []"

definition oneMiB :: nat where
  "oneMiB = 1048576"

definition sixteenKiB :: nat where
  "sixteenKiB = 16384"

section \<open>Campaigns (campaign\_handler.go)\<close>

record 'b CampaignHandler =
  ch_service :: "'b CampaignService"
  ch_urlBuilder :: PublicURLBuilder

definition NewCampaignHandler :: "'b CampaignService \<Rightarrow> PublicURLBuilder \<Rightarrow> 'b CampaignHandler" where
  "NewCampaignHandler service urlBuilder = \<lparr>ch_service = service, ch_urlBuilder = urlBuilder\<rparr>"

definition maxIdempotencyKeyBytes :: nat where
  "maxIdempotencyKeyBytes = 255"

definition publicCampaignListItem :: "PublicURLBuilder \<Rightarrow> PublicCampaignListItem \<Rightarrow> publicCampaignListItemResponse" where
  "publicCampaignListItem b campaign =
     \<lparr>pl_ID = c_ID campaign, pl_Title = c_Title campaign, pl_ShortDescription = c_ShortDescription campaign,
      pl_GoalAmount = c_GoalAmount campaign, pl_RaisedAmount = c_RaisedAmount campaign,
      pl_DonorCount = c_DonorCount campaign, pl_CampaignImageURL = Build b (Some (c_ImageObjectKey campaign)),
      pl_FundraiserImageURL = Build b (li_FundraiserImageObjectKey campaign),
      pl_EndAt = FormatRFC3339 (c_EndAt campaign), pl_CreatedAt = FormatRFC3339 (c_CreatedAt campaign),
      pl_ContractAddress = c_ContractAddress campaign, pl_Status = c_Status campaign\<rparr>"

text \<open>Without a sort order the public list is random.\<close>

definition publicListSort :: "url_Values \<Rightarrow> CampaignListOptions \<Rightarrow> CampaignListOptions" where
  "publicListSort qvs options =
     (case qvs ''sortBy'' of
        None \<Rightarrow> options\<lparr>lo_Sort := CampaignListSortRandom\<rparr>
      | Some raw \<Rightarrow>
          (if TrimSpace (firstQueryValue raw) = [] then options\<lparr>lo_Sort := CampaignListSortRandom\<rparr> else options))"

definition HandleGetPublicCampaignList ::
  "env \<Rightarrow> 'b CampaignHandler \<Rightarrow> Header \<Rightarrow> Request \<Rightarrow> db \<Rightarrow> payload Response" where
  "HandleGetPublicCampaignList E h hs0 r d =
     (let hs = noStore hs0 in
      case campaignListOptionsFromQuery (rq_Query r) publicCampaignListStatuses of
        Inl fieldErrors \<Rightarrow> ValidationError hs fieldErrors
      | Inr options0 \<Rightarrow>
          (let options = publicListSort (rq_Query r) options0 in
           case ListPublicCampaigns E options d of
             Inl e \<Rightarrow> InternalError hs
           | Inr (items, totalItems) \<Rightarrow>
               WriteSuccessWithPagination hs 200 ''CAMPAIGNS_RETRIEVED'' ''Campaigns retrieved successfully.''
                 (PublicCampaigns (map (publicCampaignListItem (ch_urlBuilder h)) items))
                 (NewPagination (lo_Page options) (lo_PageSize options) totalItems)))"

definition publicCampaignNotFound :: "Header \<Rightarrow> 'p Response" where
  "publicCampaignNotFound hs =
     WriteError hs 404 ''CAMPAIGN_NOT_FOUND'' ''No public campaign was found for the requested contract address.'' []"

definition publicCampaignDetail :: "PublicURLBuilder \<Rightarrow> PublicCampaignDetail \<Rightarrow> publicCampaignDetailResponse" where
  "publicCampaignDetail b campaign =
     \<lparr>pcd_ID = c_ID campaign, pcd_Title = c_Title campaign, pcd_ShortDescription = c_ShortDescription campaign,
      pcd_Story = c_Story campaign,
      pcd_Fundraiser =
        \<lparr>cf_ID = c_FundraiserID campaign, cf_Name = cd_FundraiserName campaign,
         cf_ImageURL = Build b (cd_FundraiserImageObjectKey campaign), cf_Address = cd_FundraiserWalletAddress campaign\<rparr>,
      pcd_GoalAmount = c_GoalAmount campaign, pcd_RaisedAmount = c_RaisedAmount campaign,
      pcd_DonorCount = c_DonorCount campaign, pcd_ContractAddress = valueOrEmpty (c_ContractAddress campaign),
      pcd_EndAt = FormatRFC3339 (c_EndAt campaign), pcd_CreatedAt = FormatRFC3339 (c_CreatedAt campaign),
      pcd_ImageURL = valueOrEmpty (Build b (Some (c_ImageObjectKey campaign))), pcd_Country = c_Country campaign,
      pcd_ZipCode = c_ZipCode campaign, pcd_Status = c_Status campaign\<rparr>"

definition HandleGetPublicCampaignDetail ::
  "env \<Rightarrow> 'b CampaignHandler \<Rightarrow> Header \<Rightarrow> Request \<Rightarrow> db \<Rightarrow> payload Response" where
  "HandleGetPublicCampaignDetail E h hs0 r d =
     (let hs = noStore hs0 in
      case GetPublicCampaignDetail E (TrimSpace (rq_URLParam r ''address'')) d of
        Inl e \<Rightarrow> (if errors_Is e service_ErrCampaignNotFound then publicCampaignNotFound hs else InternalError hs)
      | Inr campaign \<Rightarrow>
          WriteSuccess hs 200 ''CAMPAIGN_RETRIEVED'' ''Campaign retrieved successfully.''
            (PublicCampaign (publicCampaignDetail (ch_urlBuilder h) campaign)))"

definition publicCampaignDonor :: "PublicURLBuilder \<Rightarrow> PublicCampaignDonor \<Rightarrow> publicCampaignDonorsItemResponse" where
  "publicCampaignDonor b donor =
     \<lparr>pdi_Name = pd_Name donor, pdi_Address = pd_WalletAddress donor, pdi_ImageURL = Build b (pd_ImageObjectKey donor),
      pdi_Amount = pd_Amount donor, pdi_DonatedOn = FormatRFC3339 (pd_DonatedAt donor)\<rparr>"

definition HandleGetPublicCampaignDonors ::
  "env \<Rightarrow> 'b CampaignHandler \<Rightarrow> Header \<Rightarrow> Request \<Rightarrow> db \<Rightarrow> payload Response" where
  "HandleGetPublicCampaignDonors E h hs0 r d =
     (let hs = noStore hs0 in
      case campaignDonorListOptionsFromQuery (rq_Query r) of
        Inl fieldErrors \<Rightarrow> ValidationError hs fieldErrors
      | Inr options \<Rightarrow>
          (case ListPublicCampaignDonors E (TrimSpace (rq_URLParam r ''address'')) options d of
             Inl e \<Rightarrow> (if errors_Is e service_ErrCampaignNotFound then publicCampaignNotFound hs else InternalError hs)
           | Inr (donors, totalItems) \<Rightarrow>
               WriteSuccessWithPagination hs 200 ''CAMPAIGN_DONORS_RETRIEVED'' ''Campaign donors retrieved successfully.''
                 (CampaignDonors (map (publicCampaignDonor (ch_urlBuilder h)) donors))
                 (NewPagination (do_Page options) (do_PageSize options) totalItems)))"

text \<open>\<open>HandleCreateCampaign\<close>: the call of the service, the response to its errors, and the response to
  success.\<close>

definition createCampaignInput :: "string \<Rightarrow> string \<Rightarrow> createCampaignRequest \<Rightarrow> time \<Rightarrow> CreateCampaignInput" where
  "createCampaignInput walletAddress idempotencyKey request endAt =
     \<lparr>ci_WalletAddress = walletAddress, ci_IdempotencyKey = idempotencyKey, ci_Title = cq_Title request,
      ci_ShortDescription = cq_ShortDescription request, ci_Story = cq_Story request,
      ci_GoalAmount = cq_GoalAmount request, ci_EndAt = endAt, ci_ImageObjectKey = cq_ImageObjectKey request,
      ci_Country = cq_Country request, ci_ZipCode = cq_ZipCode request\<rparr>"

definition createCampaignFailure :: "Header \<Rightarrow> err \<Rightarrow> 'p Response" where
  "createCampaignFailure hs e =
     (if errors_Is e service_ErrCampaignEndAtTooSoon
      then ValidationError hs [(''endAt'', [''endAt must be at least 5 minutes in the future!''])]
      else if errors_Is e service_ErrInvalidImageObjectKey
      then ValidationError hs [(''imageObjectKey'', [stagedImageObjectKeyMessage CampaignImageDirectory])]
      else if errors_Is e service_ErrImageObjectNotFound
      then ValidationError hs [(''imageObjectKey'', [stagedImageObjectNotFoundMessage])]
      else if errors_Is e service_ErrCampaignIdempotencyConflict
      then WriteError hs 409 ''IDEMPOTENCY_KEY_CONFLICT''
             ''Idempotency-Key was already used with a different request payload.'' []
      else if errors_Is e service_ErrProfileNotFound
      then profileNotFound hs ''No fundraiser profile is registered for the authenticated wallet.''
      else InternalError hs)"

definition createdCampaign :: "env \<Rightarrow> PublicURLBuilder \<Rightarrow> Campaign \<Rightarrow> createCampaignResponse" where
  "createdCampaign E b created =
     \<lparr>cr_ID = uuid_String E (c_ID created), cr_Title = c_Title created, cr_ShortDescription = c_ShortDescription created,
      cr_Story = c_Story created, cr_GoalAmount = c_GoalAmount created, cr_RaisedAmount = c_RaisedAmount created,
      cr_DonorCount = c_DonorCount created, cr_EndAt = FormatRFC3339 (c_EndAt created),
      cr_ImageURL = Build b (Some (c_ImageObjectKey created)), cr_Country = c_Country created,
      cr_ZipCode = c_ZipCode created, cr_Status = c_Status created, cr_ContractAddress = c_ContractAddress created,
      cr_CreatedAt = FormatRFC3339 (c_CreatedAt created)\<rparr>"

definition HandleCreateCampaign ::
  "http_lib \<Rightarrow> env \<Rightarrow> 'b CampaignHandler \<Rightarrow> Header \<Rightarrow> Request \<Rightarrow> 'b world \<Rightarrow> 'b world \<times> payload Response" where
  "HandleCreateCampaign L E h hs0 r w =
     (let hs = noStore hs0 in
      case callerWallet r of
        None \<Rightarrow> (w, invalidAccessToken hs)
      | Some (walletAddress, role) \<Rightarrow>
          (if role \<noteq> UserRoleFundraiser then (w, fundraiserAccessRequired hs)
           else
             (let idempotencyKey = TrimSpace (rq_Header r ''Idempotency-Key'') in
              if idempotencyKey = []
              then (w, WriteError hs 400 ''IDEMPOTENCY_KEY_REQUIRED'' ''Idempotency-Key header is required.'' [])
              else if maxIdempotencyKeyBytes < length idempotencyKey
              then (w, WriteError hs 400 ''INVALID_IDEMPOTENCY_KEY'' ''Idempotency-Key must not exceed 255 bytes.'' [])
              else case ReadJSON L r createCampaignFields zeroCreateCampaignRequest oneMiB of
                  Inl e \<Rightarrow> (w, ReadError hs e ''Request body exceeds the 1 MiB limit.'')
                | Inr body \<Rightarrow>
                    (let request = createCampaignRequest_normalize body in
                     case createCampaignRequest_validate E request of
                       Inl fieldErrors \<Rightarrow> (w, ValidationError hs fieldErrors)
                     | Inr endAt \<Rightarrow>
                         (case Create E (ch_service h) (createCampaignInput walletAddress idempotencyKey request endAt) w of
                            (w', Inl e) \<Rightarrow> (w', createCampaignFailure hs e)
                          | (w', Inr created) \<Rightarrow>
                              (w', WriteSuccess hs 201 ''CAMPAIGN_CREATED'' ''Campaign created successfully.''
                                     (CreatedCampaign (createdCampaign E (ch_urlBuilder h) created))))))))"

definition myCampaignListItem :: "PublicURLBuilder \<Rightarrow> Campaign \<Rightarrow> myCampaignListItemResponse" where
  "myCampaignListItem b campaign =
     \<lparr>ml_ID = c_ID campaign, ml_Title = c_Title campaign, ml_ShortDescription = c_ShortDescription campaign,
      ml_GoalAmount = c_GoalAmount campaign, ml_RaisedAmount = c_RaisedAmount campaign,
      ml_DonorCount = c_DonorCount campaign, ml_ImageURL = Build b (Some (c_ImageObjectKey campaign)),
      ml_EndAt = FormatRFC3339 (c_EndAt campaign), ml_CreatedAt = FormatRFC3339 (c_CreatedAt campaign),
      ml_ContractAddress = c_ContractAddress campaign, ml_Status = c_Status campaign\<rparr>"

definition HandleGetMyCampaignList ::
  "env \<Rightarrow> 'b CampaignHandler \<Rightarrow> Header \<Rightarrow> Request \<Rightarrow> db \<Rightarrow> payload Response" where
  "HandleGetMyCampaignList E h hs0 r d =
     (let hs = noStore hs0 in
      case callerWallet r of
        None \<Rightarrow> invalidAccessToken hs
      | Some (walletAddress, role) \<Rightarrow>
          (if role \<noteq> UserRoleFundraiser then fundraiserAccessRequired hs
           else case campaignListOptionsFromQuery (rq_Query r) fundraiserCampaignListStatuses of
               Inl fieldErrors \<Rightarrow> ValidationError hs fieldErrors
             | Inr options \<Rightarrow>
                 (case ListMyCampaigns E walletAddress options d of
                    Inl e \<Rightarrow> InternalError hs
                  | Inr (items, totalItems) \<Rightarrow>
                      WriteSuccessWithPagination hs 200 ''CAMPAIGNS_RETRIEVED'' ''Campaigns retrieved successfully.''
                        (MyCampaigns (map (myCampaignListItem (ch_urlBuilder h)) items))
                        (NewPagination (lo_Page options) (lo_PageSize options) totalItems))))"

definition myCampaign :: "PublicURLBuilder \<Rightarrow> Campaign \<Rightarrow> myCampaignResponse" where
  "myCampaign b campaign =
     \<lparr>mc_Title = c_Title campaign, mc_ShortDescription = c_ShortDescription campaign, mc_Story = c_Story campaign,
      mc_GoalAmount = c_GoalAmount campaign, mc_RaisedAmount = c_RaisedAmount campaign,
      mc_DonorCount = c_DonorCount campaign, mc_EndAt = FormatRFC3339 (c_EndAt campaign),
      mc_ImageURL = Build b (Some (c_ImageObjectKey campaign)), mc_Country = c_Country campaign,
      mc_ZipCode = c_ZipCode campaign, mc_Status = c_Status campaign, mc_ContractAddress = c_ContractAddress campaign,
      mc_CreatedAt = FormatRFC3339 (c_CreatedAt campaign)\<rparr>"

definition HandleGetMyCampaignDetail ::
  "env \<Rightarrow> 'b CampaignHandler \<Rightarrow> Header \<Rightarrow> Request \<Rightarrow> db \<Rightarrow> payload Response" where
  "HandleGetMyCampaignDetail E h hs0 r d =
     (let hs = noStore hs0 in
      case callerWallet r of
        None \<Rightarrow> invalidAccessToken hs
      | Some (walletAddress, role) \<Rightarrow>
          (if role \<noteq> UserRoleFundraiser then fundraiserAccessRequired hs
           else case uuid_Parse E (TrimSpace (rq_URLParam r ''id'')) of
               None \<Rightarrow> ValidationError hs [(''id'', [''id must be a valid UUID!''])]
             | Some campaignID \<Rightarrow>
                 (case GetMyCampaignDetail E walletAddress campaignID d of
                    Inl e \<Rightarrow>
                      (if errors_Is e service_ErrCampaignNotFound
                       then WriteError hs 404 ''CAMPAIGN_NOT_FOUND''
                              ''No campaign was found for the authenticated fundraiser.'' []
                       else InternalError hs)
                  | Inr campaign \<Rightarrow>
                      WriteSuccess hs 200 ''CAMPAIGN_RETRIEVED'' ''Campaign retrieved successfully.''
                        (MyCampaign (myCampaign (ch_urlBuilder h) campaign)))))"

section \<open>Profiles: what both kinds of handlers share\<close>

text \<open>\<open>handleServiceError\<close> of the supporter and of the fundraiser handler: the two agree.\<close>

definition handleServiceError :: "Header \<Rightarrow> err \<Rightarrow> 'p Response" where
  "handleServiceError hs e =
     (if errors_Is e service_ErrEmailAlreadyRegistered
      then WriteError hs 409 ''EMAIL_ALREADY_REGISTERED'' ''Email is already registered.''
             [(''email'', [''email is already registered!''])]
      else if errors_Is e service_ErrWalletAlreadyRegistered
      then WriteError hs 409 ''WALLET_ALREADY_REGISTERED'' ''Wallet address is already registered.''
             [(''walletAddress'', [''wallet address is already registered!''])]
      else if errors_Is e service_ErrInvalidImageObjectKey
      then ValidationError hs [(''imageObjectKey'', [stagedImageObjectKeyMessage ProfileImageDirectory])]
      else if errors_Is e service_ErrImageObjectNotFound
      then ValidationError hs [(''imageObjectKey'', [stagedImageObjectNotFoundMessage])]
      else InternalError hs)"

definition FundraiserHandler_handleServiceError :: "Header \<Rightarrow> err \<Rightarrow> 'p Response" where
  "FundraiserHandler_handleServiceError hs e =
     (if errors_Is e service_ErrEmailAlreadyRegistered
      then WriteError hs 409 ''EMAIL_ALREADY_REGISTERED'' ''Email is already registered.''
             [(''email'', [''email is already registered!''])]
      else if errors_Is e service_ErrWalletAlreadyRegistered
      then WriteError hs 409 ''WALLET_ALREADY_REGISTERED'' ''Wallet address is already registered.''
             [(''walletAddress'', [''wallet address is already registered!''])]
      else if errors_Is e service_ErrInvalidImageObjectKey
      then ValidationError hs [(''imageObjectKey'', [stagedImageObjectKeyMessage ProfileImageDirectory])]
      else if errors_Is e service_ErrImageObjectNotFound
      then ValidationError hs [(''imageObjectKey'', [stagedImageObjectNotFoundMessage])]
      else InternalError hs)"

lemma FundraiserHandler_handleServiceError [simp]: "FundraiserHandler_handleServiceError = handleServiceError"
  by (simp add: fun_eq_iff handleServiceError_def FundraiserHandler_handleServiceError_def)

text \<open>A registration needs an address that is not empty, without trimming it.\<close>

definition registrationWallet :: "Request \<Rightarrow> string option" where
  "registrationWallet r =
     (case PrincipalFromContext r of
        None \<Rightarrow> None
      | Some caller \<Rightarrow> if p_WalletAddress caller = [] then None else Some (p_WalletAddress caller))"

definition registrationUnauthorized :: "Header \<Rightarrow> 'p Response" where
  "registrationUnauthorized hs =
     WriteError hs 401 ''INVALID_ACCESS_TOKEN'' ''The access token is invalid or expired.'' []"

section \<open>Supporters (supporter\_handler.go)\<close>

record SupporterHandler =
  sh_service :: ProfileService
  sh_tokenIssuer :: AuthService
  sh_urlBuilder :: PublicURLBuilder

definition NewSupporterHandler :: "ProfileService \<Rightarrow> AuthService \<Rightarrow> PublicURLBuilder \<Rightarrow> SupporterHandler" where
  "NewSupporterHandler service tokenIssuer urlBuilder =
     \<lparr>sh_service = service, sh_tokenIssuer = tokenIssuer, sh_urlBuilder = urlBuilder\<rparr>"

definition supporterNotFound :: string where
  "supporterNotFound = ''No supporter profile is registered for the authenticated wallet.''"

definition HandleRegisterSupporter ::
  "http_lib \<Rightarrow> 'm auth_lib \<Rightarrow> env \<Rightarrow> SupporterHandler \<Rightarrow> Header \<Rightarrow> Request \<Rightarrow> 'b world \<Rightarrow> 'b world \<times> payload Response" where
  "HandleRegisterSupporter L A E h hs r w =
     (case ReadJSON L r registerSupporterFields zeroRegisterSupporterRequest oneMiB of
        Inl e \<Rightarrow> (w, ReadError hs e ''Request body exceeds the 1 MiB limit.'')
      | Inr body \<Rightarrow>
          (let request = registerSupporterRequest_normalize E body;
               fieldErrors = registerSupporterRequest_validate E request
           in if fieldErrors \<noteq> [] then (w, ValidationError hs fieldErrors)
              else case registrationWallet r of
                  None \<Rightarrow> (w, registrationUnauthorized hs)
                | Some walletAddress \<Rightarrow>
                    (case SupporterService_Register E (sh_service h)
                            \<lparr>rs_Name = sq_Name request, rs_Email = sq_Email request, rs_WalletAddress = walletAddress,
                             rs_ImageObjectKey = sq_ImageObjectKey request\<rparr> w of
                       (w', Inl e) \<Rightarrow> (w', handleServiceError hs e)
                     | (w', Inr created) \<Rightarrow>
                         (case IssueAccessToken A E (sh_tokenIssuer h) (u_WalletAddress created) (u_Role created) of
                            Inl e \<Rightarrow> (w', InternalError hs)
                          | Inr accessToken \<Rightarrow>
                              (w', WriteSuccess hs 201 ''SUPPORTER_REGISTERED'' ''Supporter account created successfully.''
                                     (RegisteredSupporter
                                        \<lparr>rsr_Name = sp_Name created, rsr_Email = u_Email created,
                                         rsr_WalletAddress = u_WalletAddress created,
                                         rsr_ImageURL = Build (sh_urlBuilder h) (sp_ImageObjectKey created),
                                         rsr_Role = u_Role created, rsr_AccessToken = accessToken\<rparr>))))))"

definition SupporterHandler_HandleGetProfile ::
  "env \<Rightarrow> SupporterHandler \<Rightarrow> Header \<Rightarrow> Request \<Rightarrow> db \<Rightarrow> payload Response" where
  "SupporterHandler_HandleGetProfile E h hs0 r d =
     (let hs = noStore hs0 in
      case callerWallet r of
        None \<Rightarrow> invalidAccessToken hs
      | Some (walletAddress, _) \<Rightarrow>
          (case SupporterService_GetProfile E walletAddress d of
             Inl e \<Rightarrow> (if errors_Is e service_ErrProfileNotFound then profileNotFound hs supporterNotFound else InternalError hs)
           | Inr supporter \<Rightarrow>
               WriteSuccess hs 200 ''PROFILE_RETRIEVED'' ''Profile retrieved successfully.''
                 (MySupporterProfile
                    \<lparr>msp_Name = sp_Name supporter, msp_Email = u_Email supporter,
                     msp_WalletAddress = u_WalletAddress supporter,
                     msp_ImageURL = Build (sh_urlBuilder h) (sp_ImageObjectKey supporter)\<rparr>)))"

definition myDonationItem :: "Donation \<Rightarrow> myDonationItemListResponse" where
  "myDonationItem donation =
     \<lparr>mdi_Amount = dn_Amount donation,
      mdi_Campaign = \<lparr>mdc_Title = dc_Title (dn_Campaign donation), mdc_ContractAddress = dc_ContractAddress (dn_Campaign donation)\<rparr>,
      mdi_DonatedOn = FormatRFC3339 (dn_DonatedAt donation), mdi_TxHash = dn_TxHash donation\<rparr>"

definition HandleGetMyDonations :: "env \<Rightarrow> SupporterHandler \<Rightarrow> Header \<Rightarrow> Request \<Rightarrow> db \<Rightarrow> payload Response" where
  "HandleGetMyDonations E h hs0 r d =
     (let hs = noStore hs0 in
      case callerWallet r of
        None \<Rightarrow> invalidAccessToken hs
      | Some (walletAddress, role) \<Rightarrow>
          (if role \<noteq> UserRoleSupporter
           then WriteError hs 403 ''SUPPORTER_ACCESS_REQUIRED'' ''A registered supporter account is required.'' []
           else case donationListOptionsFromQuery (rq_Query r) of
               Inl fieldErrors \<Rightarrow> ValidationError hs fieldErrors
             | Inr options \<Rightarrow>
                 (case ListMyDonations E walletAddress options d of
                    Inl e \<Rightarrow>
                      (if errors_Is e service_ErrProfileNotFound then profileNotFound hs supporterNotFound
                       else InternalError hs)
                  | Inr items \<Rightarrow>
                      WriteSuccess hs 200 ''DONATIONS_RETRIEVED'' ''Donations retrieved successfully.''
                        (MyDonations (map myDonationItem items)))))"

definition SupporterHandler_HandleReplaceProfile ::
  "http_lib \<Rightarrow> env \<Rightarrow> SupporterHandler \<Rightarrow> Header \<Rightarrow> Request \<Rightarrow> 'b world \<Rightarrow> 'b world \<times> payload Response" where
  "SupporterHandler_HandleReplaceProfile L E h hs0 r w =
     (let hs = noStore hs0 in
      case ReadJSON L r replaceSupporterFields zeroReplaceSupporterRequest oneMiB of
        Inl e \<Rightarrow> (w, ReadError hs e ''Request body exceeds the 1 MiB limit.'')
      | Inr body \<Rightarrow>
          (let request = replaceSupporterProfileRequest_normalize E body;
               fieldErrors = replaceSupporterProfileRequest_validate E request
           in if fieldErrors \<noteq> [] then (w, ValidationError hs fieldErrors)
              else case callerWallet r of
                  None \<Rightarrow> (w, invalidAccessToken hs)
                | Some (walletAddress, _) \<Rightarrow>
                    (case SupporterService_ReplaceProfile E (sh_service h)
                            \<lparr>rsp_WalletAddress = walletAddress, rsp_Profile = supporter_toProfileReplacement request\<rparr> w of
                       (w', Inl e) \<Rightarrow>
                         (w', if errors_Is e service_ErrProfileNotFound then profileNotFound hs supporterNotFound
                              else handleServiceError hs e)
                     | (w', Inr _) \<Rightarrow> (w', noContent hs))))"

definition SupporterHandler_HandleDeleteProfile ::
  "env \<Rightarrow> SupporterHandler \<Rightarrow> Header \<Rightarrow> Request \<Rightarrow> 'b world \<Rightarrow> 'b world \<times> payload Response" where
  "SupporterHandler_HandleDeleteProfile E h hs0 r w =
     (let hs = noStore hs0 in
      case callerWallet r of
        None \<Rightarrow> (w, invalidAccessToken hs)
      | Some (walletAddress, _) \<Rightarrow>
          (case SupporterService_DeleteProfile E (sh_service h) walletAddress w of
             (w', Inl e) \<Rightarrow>
               (w', if errors_Is e service_ErrProfileNotFound then profileNotFound hs supporterNotFound else InternalError hs)
           | (w', Inr _) \<Rightarrow> (w', noContent hs)))"

section \<open>Fundraisers (fundraiser\_handler.go)\<close>

record FundraiserHandler =
  fh_service :: ProfileService
  fh_tokenIssuer :: AuthService
  fh_urlBuilder :: PublicURLBuilder

definition NewFundraiserHandler :: "ProfileService \<Rightarrow> AuthService \<Rightarrow> PublicURLBuilder \<Rightarrow> FundraiserHandler" where
  "NewFundraiserHandler service tokenIssuer urlBuilder =
     \<lparr>fh_service = service, fh_tokenIssuer = tokenIssuer, fh_urlBuilder = urlBuilder\<rparr>"

definition fundraiserNotFound :: string where
  "fundraiserNotFound = ''No fundraiser profile is registered for the authenticated wallet.''"

definition contactPerson :: "Fundraiser \<Rightarrow> fundraiserContactPerson" where
  "contactPerson f = \<lparr>fcp_Name = fr_ContactName f, fcp_Phone = fr_ContactPhone f\<rparr>"

definition HandleRegisterFundraiser ::
  "http_lib \<Rightarrow> 'm auth_lib \<Rightarrow> env \<Rightarrow> FundraiserHandler \<Rightarrow> Header \<Rightarrow> Request \<Rightarrow> 'b world \<Rightarrow> 'b world \<times> payload Response" where
  "HandleRegisterFundraiser L A E h hs r w =
     (case ReadJSON L r registerFundraiserFields zeroRegisterFundraiserRequest oneMiB of
        Inl e \<Rightarrow> (w, ReadError hs e ''Request body exceeds the 1 MiB limit.'')
      | Inr body \<Rightarrow>
          (let request = registerFundraiserRequest_normalize E body;
               fieldErrors = registerFundraiserRequest_validate L E request
           in if fieldErrors \<noteq> [] then (w, ValidationError hs fieldErrors)
              else case registrationWallet r of
                  None \<Rightarrow> (w, registrationUnauthorized hs)
                | Some walletAddress \<Rightarrow>
                    (case FundraiserService_Register E (fh_service h)
                            \<lparr>rf_Name = fq_Name request, rf_Email = fq_Email request, rf_WalletAddress = walletAddress,
                             rf_ContactPerson = \<lparr>cp_Name = fcp_Name (fq_ContactPerson request),
                               cp_Phone = fcp_Phone (fq_ContactPerson request)\<rparr>,
                             rf_SocialURL = fq_SocialURL request, rf_Country = fq_Country request,
                             rf_ZipCode = fq_ZipCode request, rf_ImageObjectKey = fq_ImageObjectKey request\<rparr> w of
                       (w', Inl e) \<Rightarrow> (w', FundraiserHandler_handleServiceError hs e)
                     | (w', Inr created) \<Rightarrow>
                         (case IssueAccessToken A E (fh_tokenIssuer h) (u_WalletAddress created) (u_Role created) of
                            Inl e \<Rightarrow> (w', InternalError hs)
                          | Inr accessToken \<Rightarrow>
                              (w', WriteSuccess hs 201 ''FUNDRAISER_REGISTERED'' ''Fundraiser account created successfully.''
                                     (RegisteredFundraiser
                                        \<lparr>rfr_Name = fr_Name created, rfr_Email = u_Email created,
                                         rfr_ContactPerson = contactPerson created,
                                         rfr_SocialURL = valueOrEmpty (fr_SocialURL created),
                                         rfr_Country = fr_Country created, rfr_ZipCode = fr_ZipCode created,
                                         rfr_ImageURL = Build (fh_urlBuilder h) (fr_ImageObjectKey created),
                                         rfr_WalletAddress = u_WalletAddress created, rfr_Role = u_Role created,
                                         rfr_AccessToken = accessToken\<rparr>))))))"

definition FundraiserHandler_HandleGetProfile ::
  "env \<Rightarrow> FundraiserHandler \<Rightarrow> Header \<Rightarrow> Request \<Rightarrow> db \<Rightarrow> payload Response" where
  "FundraiserHandler_HandleGetProfile E h hs0 r d =
     (let hs = noStore hs0 in
      case callerWallet r of
        None \<Rightarrow> invalidAccessToken hs
      | Some (walletAddress, _) \<Rightarrow>
          (case FundraiserService_GetProfile E walletAddress d of
             Inl e \<Rightarrow> (if errors_Is e service_ErrProfileNotFound then profileNotFound hs fundraiserNotFound else InternalError hs)
           | Inr f \<Rightarrow>
               WriteSuccess hs 200 ''PROFILE_RETRIEVED'' ''Profile retrieved successfully.''
                 (MyFundraiserProfile
                    \<lparr>mfp_Name = fr_Name f, mfp_Email = u_Email f, mfp_ContactPerson = contactPerson f,
                     mfp_SocialURL = valueOrEmpty (fr_SocialURL f), mfp_Country = fr_Country f,
                     mfp_ZipCode = fr_ZipCode f, mfp_ImageURL = Build (fh_urlBuilder h) (fr_ImageObjectKey f),
                     mfp_WalletAddress = u_WalletAddress f\<rparr>)))"

definition FundraiserHandler_HandleReplaceProfile ::
  "http_lib \<Rightarrow> env \<Rightarrow> FundraiserHandler \<Rightarrow> Header \<Rightarrow> Request \<Rightarrow> 'b world \<Rightarrow> 'b world \<times> payload Response" where
  "FundraiserHandler_HandleReplaceProfile L E h hs0 r w =
     (let hs = noStore hs0 in
      case ReadJSON L r replaceFundraiserFields zeroReplaceFundraiserRequest oneMiB of
        Inl e \<Rightarrow> (w, ReadError hs e ''Request body exceeds the 1 MiB limit.'')
      | Inr body \<Rightarrow>
          (let request = replaceFundraiserProfileRequest_normalize E body;
               fieldErrors = replaceFundraiserProfileRequest_validate L E request
           in if fieldErrors \<noteq> [] then (w, ValidationError hs fieldErrors)
              else case callerWallet r of
                  None \<Rightarrow> (w, invalidAccessToken hs)
                | Some (walletAddress, _) \<Rightarrow>
                    (case FundraiserService_ReplaceProfile E (fh_service h)
                            \<lparr>rfp_WalletAddress = walletAddress, rfp_Profile = fundraiser_toProfileReplacement request\<rparr> w of
                       (w', Inl e) \<Rightarrow>
                         (w', if errors_Is e service_ErrProfileNotFound then profileNotFound hs fundraiserNotFound
                              else FundraiserHandler_handleServiceError hs e)
                     | (w', Inr _) \<Rightarrow> (w', noContent hs))))"

definition FundraiserHandler_HandleDeleteProfile ::
  "env \<Rightarrow> FundraiserHandler \<Rightarrow> Header \<Rightarrow> Request \<Rightarrow> 'b world \<Rightarrow> 'b world \<times> payload Response" where
  "FundraiserHandler_HandleDeleteProfile E h hs0 r w =
     (let hs = noStore hs0 in
      case callerWallet r of
        None \<Rightarrow> (w, invalidAccessToken hs)
      | Some (walletAddress, _) \<Rightarrow>
          (case FundraiserService_DeleteProfile E (fh_service h) walletAddress w of
             (w', Inl e) \<Rightarrow>
               (w', if errors_Is e service_ErrProfileNotFound then profileNotFound hs fundraiserNotFound
                    else if errors_Is e service_ErrActiveCampaignsExist
                    then WriteError hs 409 ''ACTIVE_CAMPAIGNS_EXIST''
                           ''Fundraiser profiles with active campaigns cannot be deleted.'' []
                    else InternalError hs)
           | (w', Inr _) \<Rightarrow> (w', noContent hs)))"

definition HandleGetPublicProfile ::
  "env \<Rightarrow> FundraiserHandler \<Rightarrow> Header \<Rightarrow> Request \<Rightarrow> db \<Rightarrow> payload Response" where
  "HandleGetPublicProfile E h hs r d =
     (case FundraiserService_GetProfile E (TrimSpace (rq_URLParam r ''address'')) d of
        Inl e \<Rightarrow>
          (if errors_Is e service_ErrProfileNotFound
           then profileNotFound hs ''No fundraiser profile is registered for the requested wallet.'' else InternalError hs)
      | Inr f \<Rightarrow>
          WriteSuccess hs 200 ''PROFILE_RETRIEVED'' ''Profile retrieved successfully.''
            (PublicFundraiserProfile
               \<lparr>pfp_Name = fr_Name f, pfp_Email = u_Email f, pfp_ContactPerson = contactPerson f,
                pfp_SocialURL = valueOrEmpty (fr_SocialURL f), pfp_Country = fr_Country f, pfp_ZipCode = fr_ZipCode f,
                pfp_ImageURL = Build (fh_urlBuilder h) (fr_ImageObjectKey f),
                pfp_CreatedAt = FormatRFC3339 (u_CreatedAt f)\<rparr>))"

section \<open>Uploads (upload\_handler.go)\<close>

record UploadHandler =
  uh_presigner :: "string \<Rightarrow> string \<Rightarrow> int \<Rightarrow> string result"

definition NewUploadHandler :: "(string \<Rightarrow> string \<Rightarrow> int \<Rightarrow> string result) \<Rightarrow> UploadHandler" where
  "NewUploadHandler presigner = \<lparr>uh_presigner = presigner\<rparr>"

definition presignFailure :: "Header \<Rightarrow> err \<Rightarrow> 'p Response" where
  "presignFailure hs e =
     (if errors_Is e service_ErrUnsupportedProfileImageType
      then ValidationError hs [(''contentType'', [''contentType must be image/jpeg, image/png, or image/webp!''])]
      else if errors_Is e service_ErrInvalidProfileImageSize
      then ValidationError hs [(''size'', [''size must be between 1 and 5242880 bytes!''])]
      else InternalError hs)"

definition presigned :: "PresignProfileImageResult \<Rightarrow> payload" where
  "presigned result = Presigned \<lparr>ppr_ObjectKey = pr_ObjectKey result, ppr_URL = pr_URL result\<rparr>"

definition HandlePresignProfileImage ::
  "http_lib \<Rightarrow> env \<Rightarrow> UploadHandler \<Rightarrow> Header \<Rightarrow> Request \<Rightarrow> payload Response" where
  "HandlePresignProfileImage L E h hs0 r =
     (let hs = noStore hs0 in
      case ReadJSON L r presignFields \<lparr>pq_ContentType = [], pq_Size = 0\<rparr> sixteenKiB of
        Inl e \<Rightarrow> ReadError hs e ''Request body exceeds the 16 KiB limit.''
      | Inr body \<Rightarrow>
          (let request = presignProfileImageRequest_normalize E body;
               fieldErrors = presignProfileImageRequest_validate request
           in if fieldErrors \<noteq> [] then ValidationError hs fieldErrors
              else case callerWallet r of
                  None \<Rightarrow> invalidAccessToken hs
                | Some _ \<Rightarrow>
                    (case PresignProfileImage E (uh_presigner h)
                            \<lparr>pi_ContentType = pq_ContentType request, pi_Size = pq_Size request\<rparr> of
                       Inl e \<Rightarrow> presignFailure hs e
                     | Inr result \<Rightarrow>
                         WriteSuccess hs 200 ''PROFILE_IMAGE_UPLOAD_PRESIGNED''
                           ''Profile image upload presigned successfully.'' (presigned result))))"

definition HandlePresignCampaignImage ::
  "http_lib \<Rightarrow> env \<Rightarrow> UploadHandler \<Rightarrow> Header \<Rightarrow> Request \<Rightarrow> payload Response" where
  "HandlePresignCampaignImage L E h hs0 r =
     (let hs = noStore hs0 in
      case callerWallet r of
        None \<Rightarrow> invalidAccessToken hs
      | Some (_, role) \<Rightarrow>
          (if role \<noteq> UserRoleFundraiser then fundraiserAccessRequired hs
           else case ReadJSON L r presignFields \<lparr>pq_ContentType = [], pq_Size = 0\<rparr> sixteenKiB of
               Inl e \<Rightarrow> ReadError hs e ''Request body exceeds the 16 KiB limit.''
             | Inr body \<Rightarrow>
                 (let request = presignProfileImageRequest_normalize E body;
                      fieldErrors = presignProfileImageRequest_validate request
                  in if fieldErrors \<noteq> [] then ValidationError hs fieldErrors
                     else case PresignCampaignImage E (uh_presigner h)
                                 \<lparr>pi_ContentType = pq_ContentType request, pi_Size = pq_Size request\<rparr> of
                         Inl e \<Rightarrow> presignFailure hs e
                       | Inr result \<Rightarrow>
                           WriteSuccess hs 200 ''CAMPAIGN_IMAGE_UPLOAD_PRESIGNED''
                             ''Campaign image upload presigned successfully.'' (presigned result))))"

section \<open>Signing in (auth\_handler.go)\<close>

record AuthHandler =
  ah_service :: AuthService
  ah_urlBuilder :: PublicURLBuilder
  ah_chainID :: int

definition NewAuthHandler :: "AuthService \<Rightarrow> PublicURLBuilder \<Rightarrow> int \<Rightarrow> AuthHandler" where
  "NewAuthHandler service urlBuilder chainID =
     \<lparr>ah_service = service, ah_urlBuilder = urlBuilder, ah_chainID = chainID\<rparr>"

lemmas handler_constructors = NewCampaignHandler_def NewSupporterHandler_def NewFundraiserHandler_def
  NewUploadHandler_def NewAuthHandler_def

definition HandleCreateMessage ::
  "http_lib \<Rightarrow> 'm auth_lib \<Rightarrow> env \<Rightarrow> AuthHandler \<Rightarrow> Header \<Rightarrow> Request \<Rightarrow> redis \<Rightarrow> redis \<times> payload Response" where
  "HandleCreateMessage L A E h hs0 r s =
     (let hs = noStore hs0 in
      case ReadJSON L r createAuthMessageFields \<lparr>am_Address = []\<rparr> sixteenKiB of
        Inl e \<Rightarrow> (s, ReadError hs e ''Request body exceeds the 16 KiB limit.'')
      | Inr body \<Rightarrow>
          (let request = createAuthMessageRequest_normalize body; fieldErrors = createAuthMessageRequest_validate request
           in if fieldErrors \<noteq> [] then (s, ValidationError hs fieldErrors)
              else case CreateMessage A E (ah_service h) (am_Address request) s of
                  (s', Inl e) \<Rightarrow>
                    (s', if errors_Is e service_ErrInvalidWalletAddress
                         then ValidationError hs [(''address'', [''address must be a valid Ethereum address!''])]
                         else InternalError hs)
                | (s', Inr msg) \<Rightarrow>
                    (s', WriteSuccess hs 200 ''AUTH_MESSAGE_CREATED'' ''Authentication message created successfully.''
                           (AuthMessage msg))))"

definition verifyFailure :: "Header \<Rightarrow> err \<Rightarrow> 'p Response" where
  "verifyFailure hs e =
     (if errors_Is e service_ErrInvalidMessage
      then ValidationError hs [(''message'', [''message must be a valid SIWE message!''])]
      else if errors_Is e service_ErrInvalidSignature
      then ValidationError hs [(''signature'', [''signature must be a valid 65-byte Ethereum signature!''])]
      else if errors_Is e service_ErrSIWEVerification
      then WriteError hs 401 ''SIWE_VERIFICATION_FAILED'' ''The SIWE message or signature is invalid or expired.'' []
      else InternalError hs)"

definition verifiedResponse :: "AuthHandler \<Rightarrow> VerifyAuthResult \<Rightarrow> verifyAuthResponse" where
  "verifiedResponse h result =
     \<lparr>var_AccessToken = va_AccessToken result, var_IsNotRegistered = (va_Profile result = None),
      var_Address = va_Address result, var_Name = map_option ap_Name (va_Profile result),
      var_Role = map_option ap_Role (va_Profile result),
      var_ImageURL = (case va_Profile result of None \<Rightarrow> None | Some p \<Rightarrow> Build (ah_urlBuilder h) (ap_ImageObjectKey p)),
      var_ChainID = ah_chainID h\<rparr>"

definition HandleVerify ::
  "http_lib \<Rightarrow> 'm auth_lib \<Rightarrow> env \<Rightarrow> AuthHandler \<Rightarrow> Header \<Rightarrow> Request \<Rightarrow> db \<Rightarrow> redis \<Rightarrow> redis \<times> payload Response" where
  "HandleVerify L A E h hs0 r d s =
     (let hs = noStore hs0 in
      case ReadJSON L r verifyAuthFields \<lparr>vq_Message = [], vq_Signature = []\<rparr> sixteenKiB of
        Inl e \<Rightarrow> (s, ReadError hs e ''Request body exceeds the 16 KiB limit.'')
      | Inr body \<Rightarrow>
          (let request = verifyAuthRequest_normalize body; fieldErrors = verifyAuthRequest_validate request
           in if fieldErrors \<noteq> [] then (s, ValidationError hs fieldErrors)
              else case AuthService_Verify A E (ah_service h) (vq_Message request) (vq_Signature request) d s of
                  (s', Inl e) \<Rightarrow> (s', verifyFailure hs e)
                | (s', Inr result) \<Rightarrow>
                    (s', WriteSuccess hs 200 ''AUTH_VERIFIED'' ''Wallet signature verified successfully.''
                           (Verified (verifiedResponse h result)))))"

definition HandleGetMe :: "env \<Rightarrow> AuthHandler \<Rightarrow> Header \<Rightarrow> Request \<Rightarrow> db \<Rightarrow> payload Response" where
  "HandleGetMe E h hs0 r d =
     (let hs = noStore hs0 in
      case callerWallet r of
        None \<Rightarrow> invalidAccessToken hs
      | Some (walletAddress, _) \<Rightarrow>
          (case GetMe E walletAddress d of
             Inl e \<Rightarrow>
               (if \<not> errors_Is e service_ErrProfileNotFound then InternalError hs
                else WriteSuccess hs 200 ''PROFILE_RETRIEVED'' ''Profile retrieved successfully.''
                       (Me \<lparr>gm_IsNotRegistered = True, gm_Address = walletAddress, gm_Name = None, gm_Role = None,
                            gm_ImageURL = None, gm_ChainID = ah_chainID h\<rparr>))
           | Inr profile \<Rightarrow>
               WriteSuccess hs 200 ''PROFILE_RETRIEVED'' ''Profile retrieved successfully.''
                 (Me \<lparr>gm_IsNotRegistered = False, gm_Address = walletAddress, gm_Name = Some (ap_Name profile),
                      gm_Role = Some (ap_Role profile),
                      gm_ImageURL = Build (ah_urlBuilder h) (ap_ImageObjectKey profile), gm_ChainID = ah_chainID h\<rparr>)))"

end
