(* ===== verification/Routes.thy ===== *)
theory Routes
  imports Handlers
begin

text \<open>
  The HTTP server: the middleware (\<open>internal/http/middleware\<close>) and the routes
  (\<open>internal/http/routes/routes.go\<close>). The state of the server is the world the services share and the
  cache. A handler answers or panics; \<open>Recover\<close> turns a panic into a response. The choice of a route for a
  request is the router's (\<open>chi\<close>), a parameter: it gives the position in the table of routes and the values
  of the path's variables. Third-party code that a handler calls may panic, a parameter too. What is shown of the
  server is in \<open>Api\<close>.
\<close>

section \<open>Middleware\<close>

record 'b server =
  sv_world :: "'b world"
  sv_cache :: redis

datatype 'p answer = Answer "'p Response" | Panic Header

type_synonym ('s, 'p) handler = "Header \<Rightarrow> Request \<Rightarrow> 's \<Rightarrow> 's \<times> 'p answer"

text \<open>\<open>strings.Fields\<close>.\<close>

fun fieldEnd :: "string \<Rightarrow> string \<times> string" where
  "fieldEnd [] = ([], [])"
| "fieldEnd (c # s) =
     (if list_ex (HasPrefix (c # s)) spaceRunes then ([], c # s)
      else case fieldEnd s of (f, r) \<Rightarrow> (c # f, r))"

lemma fieldEnd_length: "length (fst (fieldEnd s)) + length (snd (fieldEnd s)) = length s"
  by (induction s) (auto simp: split_def)

lemma fieldEnd_progress:
  assumes "t = strip spaceRunes s" and "t \<noteq> []"
  shows "length (snd (fieldEnd t)) < length t"
proof -
  obtain c u where t: "t = c # u" using assms(2) by (cases t) auto
  have "\<not> list_ex (HasPrefix t) spaceRunes"
    using strip_fixed [of spaceRunes s] assms(1) spaceRunes_no_graphic by (auto simp: list_ex_iff find_None_iff)
  then show ?thesis using fieldEnd_length [of u] by (auto simp: t split_def)
qed

function Fields :: "string \<Rightarrow> string list" where
  "Fields s =
     (let t = strip spaceRunes s in if t = [] then [] else fst (fieldEnd t) # Fields (snd (fieldEnd t)))"
  by pat_completeness auto

termination
proof (relation "measure length")
  fix s t assume t: "t = strip spaceRunes s" "t \<noteq> []"
  obtain p where "s = p @ t" using strip_suffix t(1) by blast
  then show "(snd (fieldEnd t), s) \<in> measure length" using fieldEnd_progress [OF t] by simp
qed simp

declare Fields.simps [simp del]

definition writeAuthenticationError :: "Header \<Rightarrow> string \<Rightarrow> string \<Rightarrow> 'p Response" where
  "writeAuthenticationError hs code message = WriteError (setHeader ''WWW-Authenticate'' ''Bearer'' hs) 401 code message []"

text \<open>\<open>strings.EqualFold\<close> with \<open>Bearer\<close> compares the letters without case: no other character folds to one of
  its letters.\<close>

definition Authenticate :: "'m auth_lib \<Rightarrow> env \<Rightarrow> JWTManager \<Rightarrow> ('s, 'p) handler \<Rightarrow> ('s, 'p) handler" where
  "Authenticate A E verifier nxt hs0 r s =
     (let hs = noStore (addHeader ''Vary'' ''Authorization'' hs0);
          authorization = TrimSpace (rq_Header r ''Authorization'')
      in if authorization = []
         then (s, Answer (writeAuthenticationError hs ''ACCESS_TOKEN_REQUIRED'' ''A Bearer access token is required.''))
         else
           (let parts = Fields authorization in
            if length parts \<noteq> 2 \<or> map lower_byte (parts ! 0) \<noteq> ''bearer''
            then (s, Answer (writeAuthenticationError hs ''INVALID_ACCESS_TOKEN'' ''The access token is invalid or expired.''))
            else case JWT_Verify A E verifier (parts ! 1) of
                Inl e \<Rightarrow>
                  (s, Answer (writeAuthenticationError hs ''INVALID_ACCESS_TOKEN'' ''The access token is invalid or expired.''))
              | Inr pr \<Rightarrow> nxt hs (ContextWithPrincipal pr r) s))"

definition corsHeaders :: "string \<Rightarrow> Header \<Rightarrow> Header" where
  "corsHeaders origin hs =
     setHeader ''Access-Control-Max-Age'' ''300''
       (setHeader ''Access-Control-Allow-Credentials'' ''true''
         (setHeader ''Access-Control-Allow-Headers'' ''Accept, Authorization, Content-Type, Idempotency-Key, X-Request-Id''
           (setHeader ''Access-Control-Allow-Methods'' ''GET, POST, PUT, PATCH, DELETE, HEAD, OPTIONS''
             (setHeader ''Access-Control-Allow-Origin'' origin hs))))"

definition CORS :: "string list \<Rightarrow> ('s, 'p) handler \<Rightarrow> ('s, 'p) handler" where
  "CORS allowedOrigins nxt hs0 r s =
     (let allowed = filter (\<lambda>origin. origin \<noteq> []) (map TrimSpace allowedOrigins);
          hs1 = addHeader ''Vary'' ''Origin'' hs0;
          origin = TrimSpace (rq_Header r ''Origin'');
          hs = (if origin \<in> set allowed then corsHeaders origin hs1 else hs1)
      in if rq_Method r = ''OPTIONS'' then (s, Answer (noContent hs)) else nxt hs r s)"

definition Recover :: "('s, 'p) handler \<Rightarrow> ('s, 'p) handler" where
  "Recover nxt hs r s =
     (case nxt hs r s of
        (s', Panic hs') \<Rightarrow>
          (s', Answer (WriteError hs' 500 ''INTERNAL_SERVER_ERROR'' ''An internal server error occurred.'' []))
      | (s', Answer resp) \<Rightarrow> (s', Answer resp))"

section \<open>Routes\<close>

datatype endpoint =
    Health | AuthMessageEP | AuthVerifyEP | PublicCampaignListEP | PublicCampaignDetailEP | PublicCampaignDonorsEP
  | PublicFundraiserEP | AuthMeEP | PresignProfileEP | PresignCampaignEP | RegisterSupporterEP | RegisterFundraiserEP
  | GetSupporterEP | PutSupporterEP | DeleteSupporterEP | DonationsEP | GetFundraiserEP | PutFundraiserEP
  | DeleteFundraiserEP | CreateCampaignEP | MyCampaignListEP | MyCampaignDetailEP

text \<open>The routes in the order of \<open>Setup\<close>: method, path, whether the group with \<open>Authenticate\<close> holds it, and
  the handler.\<close>

definition routes :: "(string \<times> string \<times> bool \<times> endpoint) list" where
  "routes =
     [(''GET'', ''/health'', False, Health),
      (''POST'', ''/v1/auth/message'', False, AuthMessageEP),
      (''POST'', ''/v1/auth/verify'', False, AuthVerifyEP),
      (''GET'', ''/v1/campaigns'', False, PublicCampaignListEP),
      (''GET'', ''/v1/campaigns/{address}'', False, PublicCampaignDetailEP),
      (''GET'', ''/v1/campaigns/{address}/donors'', False, PublicCampaignDonorsEP),
      (''GET'', ''/v1/fundraiser/{address}'', False, PublicFundraiserEP),
      (''GET'', ''/v1/auth/me'', True, AuthMeEP),
      (''POST'', ''/v1/uploads/profile-image/presign'', True, PresignProfileEP),
      (''POST'', ''/v1/uploads/campaign-image/presign'', True, PresignCampaignEP),
      (''POST'', ''/v1/register/supporter'', True, RegisterSupporterEP),
      (''POST'', ''/v1/register/fundraiser'', True, RegisterFundraiserEP),
      (''GET'', ''/v1/supporter/profile'', True, GetSupporterEP),
      (''PUT'', ''/v1/supporter/profile'', True, PutSupporterEP),
      (''DELETE'', ''/v1/supporter/profile'', True, DeleteSupporterEP),
      (''GET'', ''/v1/supporter/donations'', True, DonationsEP),
      (''GET'', ''/v1/fundraiser/profile'', True, GetFundraiserEP),
      (''PUT'', ''/v1/fundraiser/profile'', True, PutFundraiserEP),
      (''DELETE'', ''/v1/fundraiser/profile'', True, DeleteFundraiserEP),
      (''POST'', ''/v1/fundraiser/campaigns'', True, CreateCampaignEP),
      (''GET'', ''/v1/fundraiser/campaigns'', True, MyCampaignListEP),
      (''GET'', ''/v1/fundraiser/campaigns/{id}'', True, MyCampaignDetailEP)]"

text \<open>\<open>app.Application\<close>: the handlers, the verifier of the middleware and the allowed origins.\<close>

record 'b Application =
  ap_AuthHandler :: AuthHandler
  ap_UploadHandler :: UploadHandler
  ap_SupporterHandler :: SupporterHandler
  ap_FundraiserHandler :: FundraiserHandler
  ap_CampaignHandler :: "'b CampaignHandler"
  ap_Authenticate :: JWTManager
  ap_CORSAllowedOrigins :: "string list"

text \<open>A handler panics in third-party code it calls, with the headers it has set so far, before it has changed
  anything or with its work done.\<close>

datatype panicked = BeforeWork Header | AfterWork Header

record 'm libs =
  lb_http :: http_lib
  lb_auth :: "'m auth_lib"
  lb_Panics :: "endpoint \<Rightarrow> Header \<Rightarrow> Request \<Rightarrow> panicked option"
  chi_Find :: "(string \<times> string) list \<Rightarrow> Request \<Rightarrow> (nat \<times> (string \<Rightarrow> string)) option"
  chi_NotFound :: "Header \<Rightarrow> payload Response"

definition readsDB :: "(db \<Rightarrow> payload Response) \<Rightarrow> 'b server \<Rightarrow> 'b server \<times> payload answer" where
  "readsDB f s = (s, Answer (f (database (sv_world s))))"

definition onWorld :: "('b world \<Rightarrow> 'b world \<times> payload Response) \<Rightarrow> 'b server \<Rightarrow> 'b server \<times> payload answer" where
  "onWorld f s = (case f (sv_world s) of (w, resp) \<Rightarrow> (s\<lparr>sv_world := w\<rparr>, Answer resp))"

definition onCache :: "(redis \<Rightarrow> redis \<times> payload Response) \<Rightarrow> 'b server \<Rightarrow> 'b server \<times> payload answer" where
  "onCache f s = (case f (sv_cache s) of (c, resp) \<Rightarrow> (s\<lparr>sv_cache := c\<rparr>, Answer resp))"

definition endpointHandler ::
  "'m libs \<Rightarrow> env \<Rightarrow> 'b Application \<Rightarrow> endpoint \<Rightarrow> ('b server, payload) handler" where
  "endpointHandler L E a ep hs r s =
     (let H = lb_http L; A = lb_auth L; ch = ap_CampaignHandler a; sh = ap_SupporterHandler a;
          fh = ap_FundraiserHandler a; uh = ap_UploadHandler a; ah = ap_AuthHandler a in
      case ep of
        Health \<Rightarrow> (s, Answer (WriteSuccess hs 200 ''HEALTHY'' ''Service is healthy.'' (ServiceName ''pawfund-api'')))
      | AuthMessageEP \<Rightarrow> onCache (HandleCreateMessage H A E ah hs r) s
      | AuthVerifyEP \<Rightarrow> onCache (HandleVerify H A E ah hs r (database (sv_world s))) s
      | PublicCampaignListEP \<Rightarrow> readsDB (HandleGetPublicCampaignList E ch hs r) s
      | PublicCampaignDetailEP \<Rightarrow> readsDB (HandleGetPublicCampaignDetail E ch hs r) s
      | PublicCampaignDonorsEP \<Rightarrow> readsDB (HandleGetPublicCampaignDonors E ch hs r) s
      | PublicFundraiserEP \<Rightarrow> readsDB (HandleGetPublicProfile E fh hs r) s
      | AuthMeEP \<Rightarrow> readsDB (HandleGetMe E ah hs r) s
      | PresignProfileEP \<Rightarrow> (s, Answer (HandlePresignProfileImage H E uh hs r))
      | PresignCampaignEP \<Rightarrow> (s, Answer (HandlePresignCampaignImage H E uh hs r))
      | RegisterSupporterEP \<Rightarrow> onWorld (HandleRegisterSupporter H A E sh hs r) s
      | RegisterFundraiserEP \<Rightarrow> onWorld (HandleRegisterFundraiser H A E fh hs r) s
      | GetSupporterEP \<Rightarrow> readsDB (SupporterHandler_HandleGetProfile E sh hs r) s
      | PutSupporterEP \<Rightarrow> onWorld (SupporterHandler_HandleReplaceProfile H E sh hs r) s
      | DeleteSupporterEP \<Rightarrow> onWorld (SupporterHandler_HandleDeleteProfile E sh hs r) s
      | DonationsEP \<Rightarrow> readsDB (HandleGetMyDonations E sh hs r) s
      | GetFundraiserEP \<Rightarrow> readsDB (FundraiserHandler_HandleGetProfile E fh hs r) s
      | PutFundraiserEP \<Rightarrow> onWorld (FundraiserHandler_HandleReplaceProfile H E fh hs r) s
      | DeleteFundraiserEP \<Rightarrow> onWorld (FundraiserHandler_HandleDeleteProfile E fh hs r) s
      | CreateCampaignEP \<Rightarrow> onWorld (HandleCreateCampaign H E ch hs r) s
      | MyCampaignListEP \<Rightarrow> readsDB (HandleGetMyCampaignList E ch hs r) s
      | MyCampaignDetailEP \<Rightarrow> readsDB (HandleGetMyCampaignDetail E ch hs r) s)"

definition serveEndpoint ::
  "'m libs \<Rightarrow> env \<Rightarrow> 'b Application \<Rightarrow> endpoint \<Rightarrow> ('b server, payload) handler" where
  "serveEndpoint L E a ep hs r s =
     (case lb_Panics L ep hs r of
        None \<Rightarrow> endpointHandler L E a ep hs r s
      | Some (BeforeWork hs') \<Rightarrow> (s, Panic hs')
      | Some (AfterWork hs') \<Rightarrow> (fst (endpointHandler L E a ep hs r s), Panic hs'))"

text \<open>The request that arrives has no principal; the router fills in the values of the path's variables.\<close>

definition router :: "'m libs \<Rightarrow> env \<Rightarrow> 'b Application \<Rightarrow> ('b server, payload) handler" where
  "router L E a hs r s =
     (case chi_Find L (map (\<lambda>(method, path, _). (method, path)) routes) r of
        None \<Rightarrow> (s, Answer (chi_NotFound L hs))
      | Some (i, params) \<Rightarrow>
          (if length routes \<le> i then (s, Answer (chi_NotFound L hs))
           else case routes ! i of (_, _, guarded, ep) \<Rightarrow>
               (let h = serveEndpoint L E a ep
                in (if guarded then Authenticate (lb_auth L) E (ap_Authenticate a) h else h)
                     hs (r\<lparr>rq_URLParam := params, rq_Principal := None\<rparr>) s)))"

definition Setup :: "'m libs \<Rightarrow> env \<Rightarrow> 'b Application \<Rightarrow> ('b server, payload) handler" where
  "Setup L E a = CORS (ap_CORSAllowedOrigins a) (Recover (router L E a))"

end
