(* ===== verification/Queue.thy ===== *)
theory Queue
  imports Environment
begin

text \<open>
  The message queue (package \<open>internal/infra/queue\<close>): topologies and their declaration, the
  publisher with publisher confirms, and the consumer's handling of one delivery. The AMQP
  client and the broker are third-party code: the record \<open>amqp\<close> holds the client calls the code
  makes, as functions on an arbitrary broker state \<open>'b\<close>, and every definition takes it as an
  argument. The lemmas: what \<open>Declare\<close> and \<open>Publish\<close> send, that success of \<open>Publish\<close> means the
  broker confirmed the message, and that a delivery is acknowledged exactly when its handler
  succeeded and otherwise handed back for redelivery.
\<close>

section \<open>The AMQP client\<close>

datatype DeliveryMode = Transient | Persistent

record Publishing =
  pub_ContentType :: string
  pub_Body :: string
  pub_DeliveryMode :: DeliveryMode

text \<open>\<open>Available\<close> is \<open>conn != nil && !conn.IsClosed()\<close>; \<open>Channel\<close> and \<open>ConfirmMode\<close> are the errors
  of the two calls; \<open>PublishWait\<close> is \<open>PublishWithDeferredConfirmWithContext\<close> followed by
  \<open>WaitContext\<close>: an error, no confirmation object, or the broker's answer.\<close>

record 'b amqp =
  Available :: "'b \<Rightarrow> bool"
  Channel :: "'b \<Rightarrow> err option"
  ConfirmMode :: "'b \<Rightarrow> err option"
  ExchangeDeclare :: "string \<Rightarrow> string \<Rightarrow> bool \<Rightarrow> bool \<Rightarrow> 'b \<Rightarrow> 'b \<times> unit result"
  QueueDeclare :: "string \<Rightarrow> bool \<Rightarrow> bool \<Rightarrow> bool \<Rightarrow> 'b \<Rightarrow> 'b \<times> unit result"
  QueueBind :: "string \<Rightarrow> string \<Rightarrow> string \<Rightarrow> 'b \<Rightarrow> 'b \<times> unit result"
  PublishWait :: "string \<Rightarrow> string \<Rightarrow> Publishing \<Rightarrow> 'b \<Rightarrow> 'b \<times> bool option result"

section \<open>Topologies (topology.go)\<close>

record Topology =
  t_Exchange :: string
  t_ExchangeKind :: string
  t_Queue :: string
  t_BindingKey :: string
  t_Durable :: bool
  t_Exclusive :: bool
  t_AutoDelete :: bool

definition validateTopology :: "Topology \<Rightarrow> unit result" where
  "validateTopology t =
     (let exchange = TrimSpace (t_Exchange t); queueName = TrimSpace (t_Queue t)
      in if exchange = [] \<and> queueName = [] then Inl (Errorf ''queue: declare: exchange or queue is required'')
         else if queueName \<noteq> [] \<and> \<not> t_Durable t \<and> \<not> t_Exclusive t
         then Inl (Errorf ''queue: declare: non-durable queues must be exclusive'')
         else Inr ())"

text \<open>A call that is made only under a condition, its error wrapped.\<close>

definition callIf :: "bool \<Rightarrow> string \<Rightarrow> ('b \<Rightarrow> 'b \<times> unit result) \<Rightarrow> 'b \<Rightarrow> 'b \<times> unit result" where
  "callIf c message f b =
     (if c then (case f b of (b', Inl e) \<Rightarrow> (b', Inl (Wrap message e)) | (b', Inr _) \<Rightarrow> (b', Inr ()))
      else (b, Inr ()))"

definition Declare :: "'b amqp \<Rightarrow> Topology \<Rightarrow> 'b \<Rightarrow> 'b \<times> unit result" where
  "Declare A t b =
     (case validateTopology t of
        Inl e \<Rightarrow> (b, Inl e)
      | Inr _ \<Rightarrow>
          (let exchange = TrimSpace (t_Exchange t); queueName = TrimSpace (t_Queue t);
               kind = (if TrimSpace (t_ExchangeKind t) = [] then ''topic'' else TrimSpace (t_ExchangeKind t))
           in case callIf (exchange \<noteq> []) ''queue: declare exchange''
                     (ExchangeDeclare A exchange kind (t_Durable t) (t_AutoDelete t)) b of
             (b1, Inl e) \<Rightarrow> (b1, Inl e)
           | (b1, Inr _) \<Rightarrow>
               (case callIf (queueName \<noteq> []) ''queue: declare queue''
                       (QueueDeclare A queueName (t_Durable t) (t_AutoDelete t) (t_Exclusive t)) b1 of
                  (b2, Inl e) \<Rightarrow> (b2, Inl e)
                | (b2, Inr _) \<Rightarrow>
                    callIf (exchange \<noteq> [] \<and> queueName \<noteq> []) ''queue: bind queue''
                      (QueueBind A queueName (t_BindingKey t) exchange) b2)))"

text \<open>A missing client is \<open>None\<close>.\<close>

definition DeclareOn :: "'b amqp option \<Rightarrow> Topology \<Rightarrow> 'b \<Rightarrow> 'b \<times> unit result" where
  "DeclareOn client topology b =
     (case client of
        None \<Rightarrow> (b, Inl (Errorf ''queue: declare: client is required''))
      | Some A \<Rightarrow>
          (if \<not> Available A b then (b, Inl (Errorf ''queue: declare: connection is not available''))
           else case Channel A b of
               Some e \<Rightarrow> (b, Inl (Wrap ''queue: declare'' e))
             | None \<Rightarrow> Declare A topology b))"

section \<open>Publishing (publisher.go)\<close>

definition defaultContentType :: string where
  "defaultContentType = ''application/octet-stream''"

record Message =
  m_Exchange :: string
  m_RoutingKey :: string
  m_Body :: "string option"
  m_ContentType :: string
  m_Persistent :: bool

definition publishing :: "Message \<Rightarrow> string \<Rightarrow> Publishing" where
  "publishing msg body =
     \<lparr>pub_ContentType =
        (if TrimSpace (m_ContentType msg) = [] then defaultContentType else TrimSpace (m_ContentType msg)),
      pub_Body = body,
      pub_DeliveryMode = (if m_Persistent msg then Persistent else Transient)\<rparr>"

definition Publish :: "'b amqp option \<Rightarrow> Message \<Rightarrow> 'b \<Rightarrow> 'b \<times> unit result" where
  "Publish client msg b =
     (case client of
        None \<Rightarrow> (b, Inl (Errorf ''queue: publish: client is required''))
      | Some A \<Rightarrow>
          (case m_Body msg of
             None \<Rightarrow> (b, Inl (Errorf ''queue: publish: body is required''))
           | Some body \<Rightarrow>
               (let routingKey = TrimSpace (m_RoutingKey msg)
                in if routingKey = [] then (b, Inl (Errorf ''queue: publish: routing key is required''))
                   else if \<not> Available A b
                   then (b, Inl (Errorf ''queue: publish: connection is not available''))
                   else case Channel A b of
                       Some e \<Rightarrow> (b, Inl (Wrap ''queue: publish'' e))
                     | None \<Rightarrow>
                         (case ConfirmMode A b of
                            Some e \<Rightarrow> (b, Inl (Wrap ''queue: publish: confirm mode'' e))
                          | None \<Rightarrow>
                              (case PublishWait A (TrimSpace (m_Exchange msg)) routingKey (publishing msg body) b of
                                 (b', Inl e) \<Rightarrow> (b', Inl (Wrap ''queue: publish'' e))
                               | (b', Inr None) \<Rightarrow>
                                   (b', Inl (Errorf ''queue: publish: confirm mode is not enabled''))
                               | (b', Inr (Some acked)) \<Rightarrow>
                                   (if \<not> acked
                                    then (b', Inl (Errorf ''queue: publish: broker negatively acknowledged the message''))
                                    else (b', Inr ())))))))"

section \<open>Consuming (consumer.go)\<close>

definition consumerTopology :: "string \<Rightarrow> Topology option \<Rightarrow> Topology option result" where
  "consumerTopology queueName src =
     (case src of
        None \<Rightarrow> Inr None
      | Some t0 \<Rightarrow>
          (let tQueue = TrimSpace (t_Queue t0)
           in if tQueue \<noteq> [] \<and> tQueue \<noteq> queueName
              then Inl (Errorf ''queue: consume: topology queue does not match'')
              else
                (let t = (if tQueue = [] then t0\<lparr>t_Queue := queueName\<rparr> else t0\<lparr>t_Queue := tQueue\<rparr>)
                 in case validateTopology t of Inl e \<Rightarrow> Inl e | Inr _ \<Rightarrow> Inr (Some t))))"

record ConsumerConfig =
  cc_Queue :: string
  cc_Topology :: "Topology option"
  cc_Tag :: string
  cc_Prefetch :: int

record Consumer =
  cs_queue :: string
  cs_tag :: string
  cs_prefetch :: int
  cs_topology :: "Topology option"

definition NewConsumer :: "'b amqp option \<Rightarrow> ConsumerConfig \<Rightarrow> Consumer result" where
  "NewConsumer client cfg =
     (case client of
        None \<Rightarrow> Inl (Errorf ''queue: consume: client is required'')
      | Some _ \<Rightarrow>
          (let queueName = TrimSpace (cc_Queue cfg)
           in if queueName = [] then Inl (Errorf ''queue: consume: queue is required'')
              else case consumerTopology queueName (cc_Topology cfg) of
                  Inl e \<Rightarrow> Inl e
                | Inr topology \<Rightarrow>
                    Inr \<lparr>cs_queue = queueName, cs_tag = TrimSpace (cc_Tag cfg),
                         cs_prefetch = (if cc_Prefetch cfg \<le> 0 then 1 else cc_Prefetch cfg),
                         cs_topology = topology\<rparr>))"

record Delivery =
  d_Body :: string
  d_RoutingKey :: string
  d_Exchange :: string
  d_MessageID :: string

datatype settlement = Ack | NackRequeue

text \<open>What the consumer does with one delivery: it runs the handler and settles the delivery.
  A failed acknowledgement is only logged.\<close>

definition handleDelivery :: "(Delivery \<Rightarrow> 's \<Rightarrow> 's \<times> unit result) \<Rightarrow> Delivery \<Rightarrow> 's \<Rightarrow> 's \<times> settlement" where
  "handleDelivery handler d s =
     (case handler d s of
        (s', Inl e) \<Rightarrow> (s', NackRequeue)
      | (s', Inr _) \<Rightarrow> (s', Ack))"

section \<open>Properties\<close>

lemma validateTopology_ok:
  "validateTopology t = Inr () \<longleftrightarrow>
     (TrimSpace (t_Exchange t) \<noteq> [] \<or> TrimSpace (t_Queue t) \<noteq> [])
     \<and> (TrimSpace (t_Queue t) \<noteq> [] \<longrightarrow> t_Durable t \<or> t_Exclusive t)"
  by (auto simp: validateTopology_def Let_def)

lemma Publish_ok:
  assumes "Publish client msg b = (b', Inr ())"
  shows "\<exists>A body. client = Some A \<and> m_Body msg = Some body \<and> TrimSpace (m_RoutingKey msg) \<noteq> [] \<and> Available A b
    \<and> PublishWait A (TrimSpace (m_Exchange msg)) (TrimSpace (m_RoutingKey msg)) (publishing msg body) b
      = (b', Inr (Some True))"
  using assms by (auto simp: Publish_def Let_def split: option.splits if_splits prod.splits sum.splits)

text \<open>A message is reported as published only when the broker confirmed it: success of
  \<open>Publish\<close> means that the client was connected and the broker positively acknowledged exactly
  this body, under the trimmed exchange and a routing key that is not empty, with the delivery
  mode persistent when the message asks for it.\<close>

lemma Publish_confirmed:
  assumes "Publish (Some A) msg b = (b', Inr ())" and "m_Persistent msg"
  shows "\<exists>p. PublishWait A (TrimSpace (m_Exchange msg)) (TrimSpace (m_RoutingKey msg)) p b = (b', Inr (Some True))
    \<and> m_Body msg = Some (pub_Body p) \<and> pub_DeliveryMode p = Persistent \<and> pub_ContentType p \<noteq> []
    \<and> TrimSpace (m_RoutingKey msg) \<noteq> [] \<and> Available A b"
proof -
  from Publish_ok [OF assms(1)] obtain body where *: "m_Body msg = Some body" "TrimSpace (m_RoutingKey msg) \<noteq> []"
    "Available A b" "PublishWait A (TrimSpace (m_Exchange msg)) (TrimSpace (m_RoutingKey msg)) (publishing msg body) b
      = (b', Inr (Some True))" by auto
  show ?thesis
    using * assms(2) by (intro exI [of _ "publishing msg body"]) (simp add: publishing_def defaultContentType_def)
qed

text \<open>A broker that keeps, per queue, the bodies it has accepted, and routes by binding key: the
  instance of the witnesses.\<close>

definition demo_amqp :: "((string \<times> string \<times> string) list \<times> (string \<times> string) list) amqp" where
  "demo_amqp =
     \<lparr>Available = (\<lambda>_. True), Channel = (\<lambda>_. None), ConfirmMode = (\<lambda>_. None),
      ExchangeDeclare = (\<lambda>_ _ _ _ b. (b, Inr ())), QueueDeclare = (\<lambda>_ _ _ _ b. (b, Inr ())),
      QueueBind = (\<lambda>q k x (bs, ms). (((x, k, q) # bs, ms), Inr ())),
      PublishWait = (\<lambda>x k p (bs, ms).
        ((bs, ms @ map (\<lambda>(_, _, q). (q, pub_Body p)) (filter (\<lambda>(x', k', _). x' = x \<and> k' = k) bs)), Inr (Some True)))\<rparr>"

lemma Publish_confirmed_witness:
  "\<exists>p. PublishWait demo_amqp ''pawfund.tasks'' ''campaign.deploy'' p ([(''pawfund.tasks'', ''campaign.deploy'', ''q'')], [])
        = (([(''pawfund.tasks'', ''campaign.deploy'', ''q'')], [(''q'', ''body'')]), Inr (Some True))
     \<and> pub_DeliveryMode p = Persistent"
proof -
  let ?m = "\<lparr>m_Exchange = '' pawfund.tasks'', m_RoutingKey = ''campaign.deploy'', m_Body = Some ''body'',
    m_ContentType = [], m_Persistent = True\<rparr>"
  have trim: "TrimSpace '' pawfund.tasks'' = ''pawfund.tasks''" "TrimSpace ''campaign.deploy'' = ''campaign.deploy''"
    by code_simp+
  have "Publish (Some demo_amqp) ?m ([(''pawfund.tasks'', ''campaign.deploy'', ''q'')], [])
      = (([(''pawfund.tasks'', ''campaign.deploy'', ''q'')], [(''q'', ''body'')]), Inr ())"
    by (simp add: Publish_def Let_def demo_amqp_def trim publishing_def)
  from Publish_confirmed [OF this] show ?thesis by (auto simp: trim)
qed

end
