(* ===== verification/Deployment.thy ===== *)
theory Deployment
  imports Campaign_Service Queue Go_Json
begin

text \<open>
  The deployment of campaigns: the queue message and its codec
  (\<open>internal/app/campaign_deployment.go\<close>), the worker that handles a task
  (\<open>internal/service/campaign_deployment_worker.go\<close>), the stub deployer
  (\<open>internal/infra/blockchain/campaign_deployer.go\<close>) and the deployer application's delivery
  handler (\<open>internal/app/deployer.go\<close>). A deployer is a function on the state \<open>'c\<close> of the chain,
  which is arbitrary. The lemmas: what decoding a published body gives, for every end of a
  campaign (its end cut to whole seconds, or an error when the year has no four digits); a pending campaign that ends
  on a whole second is deployed by its message; one that does not, or ends too late, is acknowledged and never
  deployed; a history of deliveries of one message changes the database at most once.
\<close>

section \<open>The message\<close>

definition campaignDeploymentExchange :: string where
  "campaignDeploymentExchange = ''pawfund.tasks''"

definition campaignDeploymentRoutingKey :: string where
  "campaignDeploymentRoutingKey = ''campaign.deploy''"

definition campaignDeploymentQueue :: string where
  "campaignDeploymentQueue = ''campaign.deploy''"

definition CampaignDeploymentTopology :: Topology where
  "CampaignDeploymentTopology =
     \<lparr>t_Exchange = campaignDeploymentExchange, t_ExchangeKind = ''topic'', t_Queue = campaignDeploymentQueue,
      t_BindingKey = campaignDeploymentRoutingKey, t_Durable = True, t_Exclusive = False, t_AutoDelete = False\<rparr>"

record campaignDeploymentMessage =
  dm_CampaignID :: string
  dm_FundraiserID :: string
  dm_FundraiserWallet :: string
  dm_GoalAmount :: int
  dm_EndAt :: string
  dm_ChainID :: int

definition marshalMessage :: "campaignDeploymentMessage \<Rightarrow> string" where
  "marshalMessage m = MarshalStruct
     [(''campaignId'', FStr (dm_CampaignID m)), (''fundraiserId'', FStr (dm_FundraiserID m)),
      (''fundraiserWallet'', FStr (dm_FundraiserWallet m)), (''goalAmount'', FInt (dm_GoalAmount m)),
      (''endAt'', FStr (dm_EndAt m)), (''chainId'', FInt (dm_ChainID m))]"

definition messageFields :: "string list" where
  "messageFields = [''campaignId'', ''fundraiserId'', ''fundraiserWallet'', ''goalAmount'', ''endAt'', ''chainId'']"

text \<open>\<open>json.Unmarshal\<close> into the struct: \<open>null\<close> leaves a field as it is, a value of the wrong type is
  an error, unknown keys are ignored, later keys win.\<close>

definition setString :: "(string \<Rightarrow> 'm \<Rightarrow> 'm) \<Rightarrow> json \<Rightarrow> 'm \<Rightarrow> 'm result" where
  "setString assign v m =
     (case v of JStr s \<Rightarrow> Inr (assign s m) | JNull \<Rightarrow> Inr m | _ \<Rightarrow> Inl (Errorf ''json: cannot unmarshal into string''))"

definition setInt :: "(int \<Rightarrow> 'm \<Rightarrow> 'm) \<Rightarrow> json \<Rightarrow> 'm \<Rightarrow> 'm result" where
  "setInt assign v m =
     (case v of
        JNum t \<Rightarrow>
          (case ParseInt t of Some i \<Rightarrow> Inr (assign i m) | None \<Rightarrow> Inl (Errorf ''json: cannot unmarshal number''))
      | JNull \<Rightarrow> Inr m
      | _ \<Rightarrow> Inl (Errorf ''json: cannot unmarshal into int''))"

definition assignField :: "string \<Rightarrow> json \<Rightarrow> campaignDeploymentMessage \<Rightarrow> campaignDeploymentMessage result" where
  "assignField key v m =
     (case fieldFor messageFields key of
        None \<Rightarrow> Inr m
      | Some f \<Rightarrow>
          (if f = ''campaignId'' then setString (\<lambda>s m. m\<lparr>dm_CampaignID := s\<rparr>) v m
           else if f = ''fundraiserId'' then setString (\<lambda>s m. m\<lparr>dm_FundraiserID := s\<rparr>) v m
           else if f = ''fundraiserWallet'' then setString (\<lambda>s m. m\<lparr>dm_FundraiserWallet := s\<rparr>) v m
           else if f = ''goalAmount'' then setInt (\<lambda>i m. m\<lparr>dm_GoalAmount := i\<rparr>) v m
           else if f = ''endAt'' then setString (\<lambda>s m. m\<lparr>dm_EndAt := s\<rparr>) v m
           else setInt (\<lambda>i m. m\<lparr>dm_ChainID := i\<rparr>) v m))"

fun assignFields :: "(string \<times> json) list \<Rightarrow> campaignDeploymentMessage \<Rightarrow> campaignDeploymentMessage result" where
  "assignFields [] m = Inr m"
| "assignFields ((k, v) # ms) m =
     (case assignField k v m of Inl e \<Rightarrow> Inl e | Inr m' \<Rightarrow> assignFields ms m')"

definition unmarshalMessage :: "string \<Rightarrow> campaignDeploymentMessage result" where
  "unmarshalMessage body =
     (let zero = \<lparr>dm_CampaignID = [], dm_FundraiserID = [], dm_FundraiserWallet = [], dm_GoalAmount = 0,
                  dm_EndAt = [], dm_ChainID = 0\<rparr>
      in case parseDocument body of
           None \<Rightarrow> Inl (Errorf ''json: invalid document'')
         | Some JNull \<Rightarrow> Inr zero
         | Some (JObj ms) \<Rightarrow> assignFields ms zero
         | Some _ \<Rightarrow> Inl (Errorf ''json: cannot unmarshal into object''))"

definition campaignDeploymentBody :: "env \<Rightarrow> CampaignDeploymentTask \<Rightarrow> string" where
  "campaignDeploymentBody E task = marshalMessage
     \<lparr>dm_CampaignID = uuid_String E (tk_CampaignID task), dm_FundraiserID = uuid_String E (tk_FundraiserID task),
      dm_FundraiserWallet = tk_FundraiserWallet task, dm_GoalAmount = tk_GoalAmount task,
      dm_EndAt = FormatRFC3339 (tk_EndAt task), dm_ChainID = tk_ChainID task\<rparr>"

definition DecodeCampaignDeploymentMessage :: "env \<Rightarrow> string \<Rightarrow> CampaignDeploymentTask result" where
  "DecodeCampaignDeploymentMessage E body =
     (case unmarshalMessage body of
        Inl e \<Rightarrow> Inl (Wrap ''app: decode campaign deployment'' e)
      | Inr message \<Rightarrow>
          (case uuid_Parse E (TrimSpace (dm_CampaignID message)) of
             None \<Rightarrow> Inl (Errorf ''app: decode campaign deployment campaignId'')
           | Some campaignID \<Rightarrow>
               (case uuid_Parse E (TrimSpace (dm_FundraiserID message)) of
                  None \<Rightarrow> Inl (Errorf ''app: decode campaign deployment fundraiserId'')
                | Some fundraiserID \<Rightarrow>
                    (case ParseTime E (TrimSpace (dm_EndAt message)) of
                       None \<Rightarrow> Inl (Errorf ''app: decode campaign deployment endAt'')
                     | Some endAt \<Rightarrow>
                         (if dm_ChainID message \<le> 0
                          then Inl (Errorf ''app: decode campaign deployment: chainId must be positive'')
                          else if TrimSpace (dm_FundraiserWallet message) = []
                          then Inl (Errorf ''app: decode campaign deployment: fundraiserWallet is required'')
                          else if dm_GoalAmount message \<le> 0
                          then Inl (Errorf ''app: decode campaign deployment: goalAmount must be positive'')
                          else Inr \<lparr>tk_CampaignID = campaignID, tk_FundraiserID = fundraiserID,
                                 tk_FundraiserWallet = TrimSpace (dm_FundraiserWallet message),
                                 tk_GoalAmount = dm_GoalAmount message, tk_EndAt = endAt,
                                 tk_ChainID = dm_ChainID message\<rparr>)))))"

definition PublishCampaignDeployment ::
  "env \<Rightarrow> 'b amqp option \<Rightarrow> CampaignDeploymentTask \<Rightarrow> 'b \<Rightarrow> 'b \<times> unit result" where
  "PublishCampaignDeployment E client task b =
     (case client of
        None \<Rightarrow> (b, Inl (Errorf ''app: publish campaign deployment: publisher is required''))
      | Some A \<Rightarrow>
          (case DeclareOn client CampaignDeploymentTopology b of
             (b1, Inl e) \<Rightarrow> (b1, Inl (Wrap ''app: declare campaign deployment topology'' e))
           | (b1, Inr _) \<Rightarrow>
               (case Publish client
                       \<lparr>m_Exchange = t_Exchange CampaignDeploymentTopology,
                        m_RoutingKey = t_BindingKey CampaignDeploymentTopology,
                        m_Body = Some (campaignDeploymentBody E task), m_ContentType = ''application/json'',
                        m_Persistent = True\<rparr> b1 of
                  (b2, Inl e) \<Rightarrow> (b2, Inl (Wrap ''app: publish campaign deployment'' e))
                | (b2, Inr _) \<Rightarrow> (b2, Inr ()))))"

section \<open>Deployers\<close>

record CampaignDeploymentParams =
  cp_CampaignID :: uuid
  cp_FundraiserID :: uuid
  cp_FundraiserWallet :: string
  cp_GoalAmount :: int
  cp_EndAt :: time
  cp_ChainID :: int
  cp_Title :: string

record CampaignDeploymentResult =
  cr_ContractAddress :: string
  cr_TxHash :: string
  cr_LogIndex :: int
  cr_BlockNumber :: int
  cr_EventCreatedAt :: time

type_synonym 'c deployer = "CampaignDeploymentParams \<Rightarrow> 'c \<Rightarrow> 'c \<times> CampaignDeploymentResult result"

text \<open>\<open>strings.ReplaceAll(id.String(), "-", "")\<close>.\<close>

definition compactID :: "env \<Rightarrow> uuid \<Rightarrow> string" where
  "compactID E i = filter (\<lambda>c. c \<noteq> CHR ''-'') (uuid_String E i)"

definition stubContractAddress :: "env \<Rightarrow> uuid \<Rightarrow> string" where
  "stubContractAddress E campaignID =
     (let hex0 = compactID E campaignID;
          hex = (if 40 < length hex0 then drop (length hex0 - 40) hex0 else hex0)
      in ''0x'' @ replicate (40 - length hex) CHR ''0'' @ hex)"

definition stubTxHash :: "env \<Rightarrow> uuid \<Rightarrow> string" where
  "stubTxHash E campaignID =
     (let hex0 = compactID E campaignID; hex = (if 64 < length hex0 then take 64 hex0 else hex0)
      in ''0x'' @ replicate (64 - length hex) CHR ''0'' @ hex)"

definition StubDeployCampaign :: "env \<Rightarrow> unit deployer" where
  "StubDeployCampaign E params ch =
     (case fault E ''ctx'' of
        Some e \<Rightarrow> (ch, Inl e)
      | None \<Rightarrow>
          (if cp_CampaignID params = 0
           then (ch, Inl (Errorf ''blockchain: stub deploy campaign: campaign id is required''))
           else (ch, Inr \<lparr>cr_ContractAddress = stubContractAddress E (cp_CampaignID params),
                          cr_TxHash = stubTxHash E (cp_CampaignID params), cr_LogIndex = 0,
                          cr_BlockNumber = 1, cr_EventCreatedAt = time_Now E\<rparr>)))"

section \<open>The worker\<close>

record 'c CampaignDeploymentWorker =
  wk_chainID :: int
  wk_deployer :: "'c deployer option"

definition NewCampaignDeploymentWorker :: "int \<Rightarrow> 'c deployer option \<Rightarrow> 'c CampaignDeploymentWorker" where
  "NewCampaignDeploymentWorker chainID deploy = \<lparr>wk_chainID = chainID, wk_deployer = deploy\<rparr>"

definition campaignAlreadyDeployed :: "Campaign \<Rightarrow> bool" where
  "campaignAlreadyDeployed c \<longleftrightarrow> (case c_ContractAddress c of Some a \<Rightarrow> TrimSpace a \<noteq> [] | None \<Rightarrow> False)"

definition deploymentTaskMatchesCampaign :: "CampaignDeploymentTask \<Rightarrow> Campaign \<Rightarrow> bool" where
  "deploymentTaskMatchesCampaign task c \<longleftrightarrow>
     c_FundraiserID c = tk_FundraiserID task \<and> c_GoalAmount c = tk_GoalAmount task \<and> c_EndAt c = tk_EndAt task"

definition completeResult :: "unit result \<Rightarrow> unit result" where
  "completeResult r =
     (case r of
        Inl e \<Rightarrow>
          (if errors_Is e repository_ErrCampaignNotPendingDeployment then Inr ()
           else Inl (Wrap ''service: complete campaign deployment'' e))
      | Inr _ \<Rightarrow> Inr ())"

definition deploymentParams :: "CampaignDeploymentTask \<Rightarrow> Campaign \<Rightarrow> CampaignDeploymentParams" where
  "deploymentParams task campaign =
     \<lparr>cp_CampaignID = tk_CampaignID task, cp_FundraiserID = tk_FundraiserID task,
      cp_FundraiserWallet = tk_FundraiserWallet task, cp_GoalAmount = tk_GoalAmount task,
      cp_EndAt = tk_EndAt task, cp_ChainID = tk_ChainID task, cp_Title = c_Title campaign\<rparr>"

definition deploymentEvent :: "uuid \<Rightarrow> CampaignDeploymentResult \<Rightarrow> BlockchainEvent" where
  "deploymentEvent eventID result =
     \<lparr>ev_ID = eventID, ev_TxHash = cr_TxHash result, ev_LogIndex = cr_LogIndex result,
      ev_Type = BlockchainEventTypeCampaignCreated, ev_BlockNumber = cr_BlockNumber result,
      ev_CreatedAt = cr_EventCreatedAt result\<rparr>"

definition Handle ::
  "env \<Rightarrow> 'c CampaignDeploymentWorker \<Rightarrow> CampaignDeploymentTask \<Rightarrow> db \<times> 'c \<Rightarrow> (db \<times> 'c) \<times> unit result" where
  "Handle E wk task s =
     (case fault E ''ctx'' of
        Some e \<Rightarrow> (s, Inl e)
      | None \<Rightarrow>
          (case wk_deployer wk of
             None \<Rightarrow> (s, Inl (Errorf ''service: handle campaign deployment: deployer is required''))
           | Some deploy \<Rightarrow>
               (if tk_ChainID task \<noteq> wk_chainID wk then (s, Inr ())
                else
                  (case FindByIDForDeployment E (tk_CampaignID task) (fst s) of
                     Inl e \<Rightarrow>
                       (if errors_Is e repository_ErrCampaignNotFound then (s, Inr ())
                        else (s, Inl (Wrap ''service: load campaign for deployment'' e)))
                   | Inr campaign \<Rightarrow>
                       (if campaignAlreadyDeployed campaign then (s, Inr ())
                        else if c_Status campaign \<noteq> CampaignStatusPending then (s, Inr ())
                        else if \<not> deploymentTaskMatchesCampaign task campaign then (s, Inr ())
                        else
                          (case deploy (deploymentParams task campaign) (snd s) of
                             (ch, Inl e) \<Rightarrow> ((fst s, ch), Inl (Wrap ''service: deploy campaign'' e))
                           | (ch, Inr result) \<Rightarrow>
                               (case generateID E of
                                  Inl e \<Rightarrow>
                                    ((fst s, ch), Inl (Wrap ''service: generate campaign deployment event id'' e))
                                | Inr eventID \<Rightarrow>
                                    (let (d, r) = CompleteDeployment E (tk_CampaignID task)
                                           (deploymentEvent eventID result) (cr_ContractAddress result) (fst s)
                                     in ((d, ch), completeResult r)))))))))"

text \<open>\<open>Deployer.handleDelivery\<close>: a message that cannot be decoded is logged and dropped.\<close>

definition Deployer_handleDelivery ::
  "env \<Rightarrow> 'c CampaignDeploymentWorker \<Rightarrow> Delivery \<Rightarrow> db \<times> 'c \<Rightarrow> (db \<times> 'c) \<times> unit result" where
  "Deployer_handleDelivery E wk delivery s =
     (case DecodeCampaignDeploymentMessage E (d_Body delivery) of
        Inl e \<Rightarrow> (s, Inr ())
      | Inr task \<Rightarrow>
          (case Handle E wk task s of
             (s', Inl e) \<Rightarrow> (s', Inl (Wrap ''app: handle campaign deployment'' e))
           | (s', Inr _) \<Rightarrow> (s', Inr ())))"

section \<open>The message codec\<close>

lemma is_ascii_append: "is_ascii (a @ b) \<longleftrightarrow> is_ascii a \<and> is_ascii b"
  by (simp add: is_ascii_def)

lemma digits_ascii: "list_all is_digit s \<Longrightarrow> is_ascii s"
  by (auto simp: is_ascii_def list_all_iff is_digit_def)

lemma appendInt_ascii: "is_ascii (appendInt x w)"
proof -
  have "is_ascii (replicate n CHR ''0'')" for n by (simp add: is_ascii_def list_all_iff)
  moreover have "is_ascii ''-''" "is_ascii []" by (simp_all add: is_ascii_def)
  ultimately show ?thesis
    by (simp add: appendInt_def Let_def is_ascii_append digits_ascii [OF nat_digits_all])
qed

lemma FormatRFC3339_ascii: "is_ascii (FormatRFC3339 t)"
proof -
  have "is_ascii ''-''" "is_ascii ''T''" "is_ascii '':''" "is_ascii ''Z''" by (simp_all add: is_ascii_def)
  then show ?thesis
    unfolding FormatRFC3339_def Let_def by (auto simp: is_ascii_append appendInt_ascii simp del: append.simps split: prod.splits)
qed

lemma uuid_ascii: "uuid_laws E \<Longrightarrow> is_ascii (uuid_String E u)"
  using uuid_lawsD(3) [of E u] by (auto simp: is_ascii_def list_all_iff uuid_char_def is_digit_def)

lemma unmarshal_marshal:
  assumes "ValidString (dm_CampaignID m)" "ValidString (dm_FundraiserID m)" "ValidString (dm_FundraiserWallet m)"
    "ValidString (dm_EndAt m)" and "in_int64 (dm_GoalAmount m)" "in_int64 (dm_ChainID m)"
  shows "unmarshalMessage (marshalMessage m) = Inr m"
proof -
  have names: "ValidString ''campaignId''" "ValidString ''fundraiserId''" "ValidString ''fundraiserWallet''"
    "ValidString ''goalAmount''" "ValidString ''endAt''" "ValidString ''chainId''"
    by (rule ValidString_ascii, simp add: is_ascii_def)+
  have "parseDocument (marshalMessage m) = Some (JObj
      [(''campaignId'', JStr (dm_CampaignID m)), (''fundraiserId'', JStr (dm_FundraiserID m)),
       (''fundraiserWallet'', JStr (dm_FundraiserWallet m)), (''goalAmount'', JNum (Itoa (dm_GoalAmount m))),
       (''endAt'', JStr (dm_EndAt m)), (''chainId'', JNum (Itoa (dm_ChainID m)))])"
    unfolding marshalMessage_def
    by (subst parseDocument_MarshalStruct) (simp_all add: assms names field_ok_def fieldValue_def)
  then show ?thesis
    by (simp add: unmarshalMessage_def assignField_def fieldFor_def messageFields_def setString_def setInt_def
        ParseInt_Itoa assms)
qed

text \<open>The tasks the API publishes; and those of them whose message a consumer can decode, for the end of a
  campaign may lie in the year 10000 of UTC, which is written with five digits.\<close>

definition wellFormedTask :: "CampaignDeploymentTask \<Rightarrow> bool" where
  "wellFormedTask task \<longleftrightarrow>
     0 < tk_ChainID task \<and> in_int64 (tk_ChainID task) \<and> 0 < tk_GoalAmount task \<and> in_int64 (tk_GoalAmount task)
     \<and> ValidString (tk_FundraiserWallet task) \<and> TrimSpace (tk_FundraiserWallet task) = tk_FundraiserWallet task
     \<and> tk_FundraiserWallet task \<noteq> []"

definition decodable :: "CampaignDeploymentTask \<Rightarrow> bool" where
  "decodable task \<longleftrightarrow> wellFormedTask task \<and> four_digit_year (tk_EndAt task)"

lemma unmarshal_body:
  assumes "uuid_laws E" and "wellFormedTask task"
  shows "unmarshalMessage (campaignDeploymentBody E task) = Inr
      \<lparr>dm_CampaignID = uuid_String E (tk_CampaignID task), dm_FundraiserID = uuid_String E (tk_FundraiserID task),
       dm_FundraiserWallet = tk_FundraiserWallet task, dm_GoalAmount = tk_GoalAmount task,
       dm_EndAt = FormatRFC3339 (tk_EndAt task), dm_ChainID = tk_ChainID task\<rparr>"
  unfolding campaignDeploymentBody_def using assms
  by (intro unmarshal_marshal) (simp_all add: wellFormedTask_def uuid_ascii FormatRFC3339_ascii ValidString_ascii)

lemma decode_body:
  assumes "uuid_laws E" and "decodable task"
  shows "DecodeCampaignDeploymentMessage E (campaignDeploymentBody E task)
    = Inr (task\<lparr>tk_EndAt := Truncate Second (tk_EndAt task)\<rparr>)"
proof -
  from assms(2) have wf: "wellFormedTask task" "four_digit_year (tk_EndAt task)" by (simp_all add: decodable_def)
  show ?thesis
    using wf assms(1)
    by (simp add: DecodeCampaignDeploymentMessage_def unmarshal_body [OF assms(1) wf(1)] uuid_lawsD wellFormedTask_def
        FormatRFC3339_trimmed parse_format_RFC3339 ParseRFC3339_def Truncate_second)
qed

lemma decode_late:
  assumes "uuid_laws E" "layout_laws E" and "wellFormedTask task" "\<not> four_digit_year (tk_EndAt task)"
  shows "DecodeCampaignDeploymentMessage E (campaignDeploymentBody E task)
    = Inl (Errorf ''app: decode campaign deployment endAt'')"
  using assms
  by (simp add: DecodeCampaignDeploymentMessage_def unmarshal_body [OF assms(1,3)] uuid_lawsD FormatRFC3339_trimmed
      ParseTime_late)

lemma decode_body_exact:
  assumes "uuid_laws E" "layout_laws E" and "wellFormedTask task"
  shows "DecodeCampaignDeploymentMessage E (campaignDeploymentBody E task)
    = (if four_digit_year (tk_EndAt task) then Inr (task\<lparr>tk_EndAt := Truncate Second (tk_EndAt task)\<rparr>)
       else Inl (Errorf ''app: decode campaign deployment endAt''))"
  using decode_body [OF assms(1)] decode_late [OF assms] assms(3) by (simp add: decodable_def)

section \<open>What the worker does\<close>

text \<open>When the worker calls the deployer, and what the call leads to.\<close>

definition claimsCampaign :: "'c CampaignDeploymentWorker \<Rightarrow> CampaignDeploymentTask \<Rightarrow> Campaign \<Rightarrow> bool" where
  "claimsCampaign wk task c \<longleftrightarrow>
     tk_ChainID task = wk_chainID wk \<and> \<not> campaignAlreadyDeployed c \<and> c_Status c = CampaignStatusPending
     \<and> deploymentTaskMatchesCampaign task c"

lemma FindByIDForDeployment_row:
  assumes "FindByIDForDeployment E i d = Inr c"
  shows "c \<in> set (campaigns d) \<and> c_ID c = i"
proof -
  from assms have "queryRow E ''FindByIDForDeployment'' [c \<leftarrow> campaigns d. c_ID c = i] = Inr c"
    by (auto simp: FindByIDForDeployment_def split: sum.splits if_splits)
  from queryRow_cases [OF this] obtain rs where "[c \<leftarrow> campaigns d. c_ID c = i] = c # rs" by blast
  then have "c \<in> set [c \<leftarrow> campaigns d. c_ID c = i]" by simp
  then show ?thesis by simp
qed

lemma FindByIDForDeployment_found:
  assumes "db_ok d" and "c \<in> set (campaigns d)" and "fault E = (\<lambda>_. None)"
  shows "FindByIDForDeployment E (c_ID c) d = Inr c"
proof -
  have dist: "distinct (map c_ID (campaigns d))" using assms(1) by (simp add: db_ok_def campaigns_ok_def)
  from join_unique [OF this, of "c_ID c"] assms(2)
  obtain b where b: "b \<in> set (campaigns d)" "c_ID b = c_ID c" "filter (\<lambda>x. c_ID x = c_ID c) (campaigns d) = [b]"
    by blast
  then have "b = c" using distinct_map_eq [OF dist] assms(2) by blast
  with b(3) assms(3) show ?thesis by (simp add: FindByIDForDeployment_def queryRow_def)
qed

lemma Handle_cases:
  assumes run: "Handle E wk task (d, ch) = ((d', ch'), r)"
  obtains (kept) "d' = d" "ch' = ch"
  | (failed) deploy c where "wk_deployer wk = Some deploy" "FindByIDForDeployment E (tk_CampaignID task) d = Inr c"
      "claimsCampaign wk task c" "fst (deploy (deploymentParams task c) ch) = ch'" "d' = d" "r \<noteq> Inr ()"
  | (deployed) deploy c result i x where "wk_deployer wk = Some deploy"
      "FindByIDForDeployment E (tk_CampaignID task) d = Inr c" "claimsCampaign wk task c"
      "deploy (deploymentParams task c) ch = (ch', Inr result)" "generateID E = Inr i"
      "CompleteDeployment E (tk_CampaignID task) (deploymentEvent i result) (cr_ContractAddress result) d = (d', x)"
      "r = completeResult x"
proof (cases "wk_deployer wk")
  case None
  with run have "d' = d" "ch' = ch" by (auto simp: Handle_def split: option.splits)
  then show ?thesis by (rule kept)
next
  case (Some deploy)
  show ?thesis
  proof (cases "\<exists>c. FindByIDForDeployment E (tk_CampaignID task) d = Inr c \<and> claimsCampaign wk task c \<and> fault E ''ctx'' = None")
    case False
    with run Some have "d' = d \<and> ch' = ch"
      by (auto simp: Handle_def claimsCampaign_def split: option.splits if_splits sum.splits)
    then show ?thesis using kept by blast
  next
    case True
    then obtain c where c: "FindByIDForDeployment E (tk_CampaignID task) d = Inr c" "claimsCampaign wk task c"
      "fault E ''ctx'' = None" by blast
    obtain ch1 y where y: "deploy (deploymentParams task c) ch = (ch1, y)" by (cases "deploy (deploymentParams task c) ch")
    note red = run c(1,3) Some y c(2) [unfolded claimsCampaign_def]
    show ?thesis
    proof (cases y)
      case (Inl e)
      with red have "d' = d" "ch' = ch1" "r \<noteq> Inr ()" by (auto simp: Handle_def)
      with Some c y show ?thesis by (intro failed [of deploy c]) simp_all
    next
      case (Inr result)
      show ?thesis
      proof (cases "generateID E")
        case (Inl e)
        with red \<open>y = Inr result\<close> have "d' = d" "ch' = ch1" "r \<noteq> Inr ()" by (auto simp: Handle_def)
        with Some c y show ?thesis by (intro failed [of deploy c]) simp_all
      next
        case (Inr i)
        obtain d2 x where x: "CompleteDeployment E (tk_CampaignID task) (deploymentEvent i result) (cr_ContractAddress result) d = (d2, x)"
          by (cases "CompleteDeployment E (tk_CampaignID task) (deploymentEvent i result) (cr_ContractAddress result) d")
        from red \<open>y = Inr result\<close> Inr x have "d' = d2" "ch' = ch1" "r = completeResult x" by (auto simp: Handle_def)
        with Some c y \<open>y = Inr result\<close> Inr x show ?thesis by (intro deployed [of deploy c result i x]) simp_all
      qed
    qed
  qed
qed

lemma Handle_invariant:
  assumes "P d" and "Handle E wk task (d, ch) = ((d', ch'), r)"
    and "\<And>i e a. P (fst (CompleteDeployment E i e a d))"
  shows "P d'"
  using assms(2)
proof (cases rule: Handle_cases)
  case (deployed deploy c result i x)
  with assms(3) [of "tk_CampaignID task" "deploymentEvent i result" "cr_ContractAddress result"] show ?thesis by simp
qed (use assms(1) in simp_all)

lemmas Handle_ok = Handle_invariant [where P = db_ok, OF _ _ CompleteDeployment_ok]

lemmas Handle_app = Handle_invariant [where P = app_ok, OF _ _ CompleteDeployment_app]

lemma activate_campaign_status:
  assumes "activate_campaign i e a d = Inr d'" and "c \<in> set (campaigns d')" and "c_ID c = i"
  shows "c_Status c = CampaignStatusActive"
proof (cases "i \<in> c_ID ` set (campaigns d)")
  case True
  obtain a' where a: "varchar 255 a = Some a'"
    using assms(1) by (cases "varchar 255 a") (simp_all add: activate_campaign_def)
  have "campaigns d' = update_where (\<lambda>c. c_ID c = i)
      (\<lambda>c. c\<lparr>c_Status := CampaignStatusActive, c_EventID := Some e, c_ContractAddress := Some a'\<rparr>) (campaigns d)"
    using assms(1) True unfolding activate_campaign_def a option.case
    by (simp split: if_split_asm) (erule subst, simp)
  note rows = this
  from assms(2) [unfolded rows set_update_where] obtain x where "c = (if c_ID x = i
      then x\<lparr>c_Status := CampaignStatusActive, c_EventID := Some e, c_ContractAddress := Some a'\<rparr> else x)"
    by (elim bexE)
  with assms(3) show ?thesis by (cases "c_ID x = i") simp_all
next
  case False
  with assms(1) have "d' = d" by (simp add: activate_campaign_def split: option.splits)
  with False assms(2,3) show ?thesis by blast
qed

lemma CompleteDeployment_leaves_pending:
  assumes run: "CompleteDeployment E i e a d = (d', Inr ())" and c: "c \<in> set (campaigns d')" "c_ID c = i"
    and ok: "db_ok d"
  shows "c_Status c = CampaignStatusActive"
proof -
  let ?rows = "[(c_Status c, c_ContractAddress c). c \<leftarrow> campaigns d, c_ID c = i]"
  have acc: "eventAccepted e a" using run CompleteDeployment_refused [of e a E i d] by fastforce
  have "completeDeploymentTx E i e (TrimSpace a) d = Return (Inr ()) \<and> d' = d
      \<or> (\<exists>m. completeDeploymentTx E i e (TrimSpace a) d = Commit m () d')"
    using run unfolding CompleteDeployment_guards [OF acc] runTx_def by (auto split: option.splits txout.splits)
  then show ?thesis
  proof (elim disjE conjE exE)
    assume tx: "completeDeploymentTx E i e (TrimSpace a) d = Return (Inr ())" and "d' = d"
    then have "?rows = [(c_Status c, c_ContractAddress c)]" using lockCampaign_row [OF ok] c by blast
    with tx show ?thesis
      by (auto simp: completeDeploymentTx_def queryRow_def split: sum.splits option.splits if_splits)
  next
    fix m assume "completeDeploymentTx E i e (TrimSpace a) d = Commit m () d'"
    from completeDeployment_commit [OF this] c show ?thesis using activate_campaign_status by blast
  qed
qed

lemma insert_event_refused: "insert_event E e d = Inl x \<Longrightarrow> \<not> errors_Is x s"
  by (auto simp: insert_event_def dataError_def split: option.splits if_splits)

lemma activate_campaign_refused: "activate_campaign i e a d = Inl x \<Longrightarrow> \<not> errors_Is x s"
  by (auto simp: activate_campaign_def dataError_def split: option.splits if_splits)

text \<open>A call that fails does not fail with one of the program's own sentinels.\<close>

definition foreignFaults :: "env \<Rightarrow> bool" where
  "foreignFaults E \<longleftrightarrow>
     (\<forall>label e. fault E label = Some e \<longrightarrow>
        \<not> errors_Is e sql_ErrNoRows \<and> \<not> errors_Is e repository_ErrCampaignNotFound
        \<and> \<not> errors_Is e repository_ErrCampaignNotPendingDeployment)"

lemma foreignFaultsD:
  assumes "foreignFaults E" and "fault E label = Some e"
  shows "\<not> errors_Is e sql_ErrNoRows" "\<not> errors_Is e repository_ErrCampaignNotFound"
    "\<not> errors_Is e repository_ErrCampaignNotPendingDeployment"
  using assms by (auto simp: foreignFaults_def)

lemma foreignFaults_none: "fault E = (\<lambda>_. None) \<Longrightarrow> foreignFaults E"
  by (simp add: foreignFaults_def)

lemma FindByIDForDeployment_foreign:
  assumes "db_ok d" and "c \<in> set (campaigns d)" and "foreignFaults E"
  shows "FindByIDForDeployment E (c_ID c) d = Inr c
    \<or> (\<exists>e. FindByIDForDeployment E (c_ID c) d = Inl e \<and> \<not> errors_Is e repository_ErrCampaignNotFound)"
proof (cases "fault E ''FindByIDForDeployment''")
  case None
  then have "FindByIDForDeployment E (c_ID c) d = FindByIDForDeployment (E\<lparr>fault := \<lambda>_. None\<rparr>) (c_ID c) d"
    by (simp add: FindByIDForDeployment_def queryRow_def)
  with FindByIDForDeployment_found [OF assms(1,2)] show ?thesis by simp
next
  case (Some e)
  with foreignFaultsD [OF assms(3) Some] show ?thesis by (simp add: FindByIDForDeployment_def queryRow_def)
qed

lemma pending_completes_or_fails:
  assumes "db_ok d" and "foreignFaults E" and "c \<in> set (campaigns d)" and "c_Status c = CampaignStatusPending"
    and "CompleteDeployment E (c_ID c) e a d = (d', x)" and "completeResult x = Inr ()"
  shows "x = Inr ()"
proof (rule ccontr)
  assume "x \<noteq> Inr ()"
  with assms(6) obtain y where x: "x = Inl y" and y: "errors_Is y repository_ErrCampaignNotPendingDeployment"
    by (auto simp: completeResult_def split: sum.splits if_splits)
  have acc: "eventAccepted e a"
  proof (rule ccontr)
    assume "\<not> eventAccepted e a"
    with assms(5) x y show False
      by (auto simp: CompleteDeployment_def eventAccepted_def Let_def split: if_splits)
  qed
  let ?tx = "completeDeploymentTx E (c_ID c) e (TrimSpace a) d"
  have "?tx = Return (Inl y)"
    using foreignFaultsD(3) [OF assms(2)] y assms(5) [unfolded CompleteDeployment_guards [OF acc]] x
    by (auto simp: runTx_def split: txout.splits option.splits)
  then show False
    using foreignFaultsD [OF assms(2)] assms(4) y lockCampaign_row [OF assms(1,3)]
    by (auto simp: completeDeploymentTx_def queryRow_def exec_def split: sum.splits option.splits)
      (metis insert_event_refused activate_campaign_refused)+
qed

lemma Handle_settled:
  assumes ok: "db_ok d" and run: "Handle E wk task (d, ch) = ((d', ch'), r)" and E: "foreignFaults E"
    and settled: "r = Inr () \<or> d' \<noteq> d"
    and c: "c \<in> set (campaigns d')" "c_ID c = tk_CampaignID task"
  shows "\<not> claimsCampaign wk task c"
proof
  assume cl: "claimsCampaign wk task c"
  have kept: "d' = d"
    using run
  proof (cases rule: Handle_cases)
    case (deployed deploy c0 result i x)
    from FindByIDForDeployment_row [OF deployed(2)] have c0: "c0 \<in> set (campaigns d)" "c_ID c0 = tk_CampaignID task" by auto
    show ?thesis
    proof (cases x)
      case (Inl e)
      with deployed(6) CompleteDeployment_error show ?thesis by blast
    next
      case (Inr u)
      with CompleteDeployment_leaves_pending [OF _ c ok] deployed(6) cl show ?thesis by (simp add: claimsCampaign_def)
    qed
  qed
  with settled have r: "r = Inr ()" by simp
  with run obtain deploy where deploy: "wk_deployer wk = Some deploy" and ctx: "fault E ''ctx'' = None"
    by (auto simp: Handle_def split: option.splits)
  have pending: "c \<in> set (campaigns d)" "c_Status c = CampaignStatusPending" using c(1) kept cl by (simp_all add: claimsCampaign_def)
  have "FindByIDForDeployment E (tk_CampaignID task) d = Inr c"
    using FindByIDForDeployment_foreign [OF ok pending(1) E] run r deploy ctx cl c(2)
    by (auto simp: Handle_def claimsCampaign_def split: if_splits)
  with run r deploy ctx cl obtain ch1 result i d2 x where
    x: "CompleteDeployment E (c_ID c) (deploymentEvent i result) (cr_ContractAddress result) d = (d2, x)"
      "completeResult x = Inr ()" "d2 = d'"
    using c(2) by (auto simp: Handle_def claimsCampaign_def split: prod.splits sum.splits)
  from pending_completes_or_fails [OF ok E pending x(1,2)] have "x = Inr ()" .
  with CompleteDeployment_leaves_pending [OF _ c ok] x(1,3) c(2) have "c_Status c = CampaignStatusActive" by simp
  with cl show False by (simp add: claimsCampaign_def)
qed

lemma Handle_unclaimed:
  assumes "\<And>c. c \<in> set (campaigns d) \<Longrightarrow> c_ID c = tk_CampaignID task \<Longrightarrow> \<not> claimsCampaign wk task c"
  shows "fst (Handle E wk task (d, ch)) = (d, ch)"
proof -
  obtain d' ch' r where run: "Handle E wk task (d, ch) = ((d', ch'), r)" by (metis surj_pair)
  then show ?thesis
    by (cases rule: Handle_cases) (auto simp: run dest!: FindByIDForDeployment_row dest: assms)
qed

lemma Handle_unclaimed_ok:
  assumes "db_ok d" and "fault E = (\<lambda>_. None)" and "c \<in> set (campaigns d)" and "c_ID c = tk_CampaignID task"
    and "wk_deployer wk \<noteq> None" and "\<not> claimsCampaign wk task c"
  shows "Handle E wk task (d, ch) = ((d, ch), Inr ())"
  using assms FindByIDForDeployment_found [OF assms(1,3,2)] by (auto simp: Handle_def claimsCampaign_def)

section \<open>Properties\<close>

text \<open>The message of a campaign as the API publishes it and the consumer receives it.\<close>

definition campaignDelivery :: "env \<Rightarrow> int \<Rightarrow> string \<Rightarrow> Campaign \<Rightarrow> Delivery" where
  "campaignDelivery E chainID wallet c =
     \<lparr>d_Body = campaignDeploymentBody E (deploymentTask chainID wallet c),
      d_RoutingKey = campaignDeploymentRoutingKey, d_Exchange = campaignDeploymentExchange, d_MessageID = []\<rparr>"

lemma delivery_task:
  assumes "uuid_laws E" and "decodable (deploymentTask chainID wallet c)"
  shows "DecodeCampaignDeploymentMessage E (d_Body (campaignDelivery E chainID wallet c))
    = Inr (deploymentTask chainID wallet (c\<lparr>c_EndAt := Truncate Second (c_EndAt c)\<rparr>))"
  using decode_body [OF assms] by (simp add: campaignDelivery_def deploymentTask_def)

text \<open>(C25) The message of a deployment task, decoded. For every task the API publishes (a positive goal and chain
  of 64 bits, a wallet that is valid UTF-8, trimmed and not empty) decoding the published body gives back the task,
  identifiers, wallet, goal and chain, with its end cut to the second, when that end lies in the years 0 to 9999 of
  UTC; when it lies outside, the body does not decode, with the error that names \<open>endAt\<close>. Of \<open>google/uuid\<close> and of
  the parser of \<open>time\<close> the theorem takes what their documentation says.\<close>

theorem deployment_message_roundtrip:
  assumes "uuid_laws E" "layout_laws E" and "wellFormedTask task"
  shows "DecodeCampaignDeploymentMessage E (campaignDeploymentBody E task)
    = (if four_digit_year (tk_EndAt task) then Inr (task\<lparr>tk_EndAt := Truncate Second (tk_EndAt task)\<rparr>)
       else Inl (Errorf ''app: decode campaign deployment endAt''))"
  using assms by (rule decode_body_exact)

definition demo_task :: CampaignDeploymentTask where
  "demo_task = deploymentTask 97 ''0xAb'' (demo_pending\<lparr>c_EndAt := 1800000000250000000\<rparr>)"

lemma demo_wallet: "ValidString ''0xAb''" "TrimSpace ''0xAb'' = ''0xAb''"
  by code_simp+

text \<open>An end the endpoint accepts in local time whose year in UTC has five digits.\<close>

definition late_end :: time where
  "late_end = 253402304399000000000"

lemma late_date: "days_of_civil 9999 12 31 = 3652424"
proof -
  have "take 399 yearLens = map (\<lambda>y. if isLeap (int y) then 366 else 365) [0..<399]"
    by (simp add: yearLens_def take_map)
  then have "sum_list (take 399 yearLens) = 145732" using sum_years [of 399] by simp
  then show ?thesis by (simp add: days_of_civil_def monthLens_def isLeap_def)
qed

lemma demo_late_end: "ParseTime demo_env ''9999-12-31T23:59:59-01:00'' = Some late_end" "\<not> four_digit_year late_end"
proof -
  have tail: "parseFraction ''-01:00'' = (0, ''-01:00'')" "parseZone ''-01:00'' = Some (-3600)" by code_simp+
  have digits: "list_all is_digit ''9999''" "list_all is_digit ''12''" "list_all is_digit ''31''"
    "list_all is_digit ''23''" "list_all is_digit ''59''" by code_simp+
  have vals: "digit_val CHR ''9'' = 9" "digit_val CHR ''1'' = 1" "digit_val CHR ''2'' = 2" "digit_val CHR ''3'' = 3"
    "digit_val CHR ''5'' = 5" by code_simp+
  have fields: "parseUint ''9999'' 0 9999 = Some 9999" "parseUint ''12'' (Suc 0) 12 = Some 12"
    "parseUint ''31'' (Suc 0) 31 = Some 31" "parseUint ''23'' 0 23 = Some 23" "parseUint ''59'' 0 59 = Some 59"
    using digits by (simp_all add: parseUint_def vals)
  have "daysIn 12 9999 = 31" by (simp add: daysIn_def monthLens_def isLeap_def)
  with tail fields late_date have "parseRFC3339 ''9999-12-31T23:59:59-01:00'' = Some late_end"
    by (simp add: parseRFC3339_def sub_def late_end_def)
  then show "ParseTime demo_env ''9999-12-31T23:59:59-01:00'' = Some late_end" by (simp add: ParseRFC3339_def)
  show "\<not> four_digit_year late_end" by (simp add: four_digit_year_def late_end_def)
qed

lemma demo_wellFormed: "wellFormedTask demo_task" "wellFormedTask (deploymentTask 97 ''0xAb'' (demo_pending\<lparr>c_EndAt := t\<rparr>))"
  by (simp_all add: wellFormedTask_def demo_task_def deploymentTask_def demo_pending_def demo_campaign_def demo_wallet
      in_int64_def MinInt64_def MaxInt64_def)

lemma demo_decodable: "decodable demo_task" "decodable (deploymentTask 97 ''0xAb'' demo_pending)"
  by (simp_all add: decodable_def wellFormedTask_def demo_task_def deploymentTask_def demo_pending_def demo_campaign_def
      demo_wallet four_digit_year_def in_int64_def MinInt64_def MaxInt64_def)

theorem deployment_message_roundtrip_witness:
  "DecodeCampaignDeploymentMessage demo_env (campaignDeploymentBody demo_env demo_task)
     = Inr (demo_task\<lparr>tk_EndAt := 1800000000000000000\<rparr>)
   \<and> DecodeCampaignDeploymentMessage demo_env
       (campaignDeploymentBody demo_env (deploymentTask 97 ''0xAb'' (demo_pending\<lparr>c_EndAt := late_end\<rparr>)))
     = Inl (Errorf ''app: decode campaign deployment endAt'')"
proof -
  have "four_digit_year (tk_EndAt demo_task)" "Truncate Second (tk_EndAt demo_task) = 1800000000000000000"
    using demo_decodable(1) by (simp_all add: decodable_def demo_task_def deploymentTask_def Truncate_second Unix_def)
  then show ?thesis
    using deployment_message_roundtrip [OF demo_uuid_laws demo_layout_laws demo_wellFormed(1)]
      deployment_message_roundtrip [OF demo_uuid_laws demo_layout_laws demo_wellFormed(2) [of late_end]] demo_late_end(2)
    by (simp add: deploymentTask_def)
qed

text \<open>(C27) A campaign whose end has a fraction of a second is never deployed by its own message.
  The body carries whole seconds, the stored campaign microseconds, so the worker takes the task
  for one of another campaign: it leaves the database and the chain as they are and the delivery
  is acknowledged, which drops it from the queue.\<close>

theorem fractional_end_never_deployed:
  assumes "db_ok d" and "c \<in> set (campaigns d)" and "Truncate Second (c_EndAt c) \<noteq> c_EndAt c"
    and "uuid_laws E" and "decodable (deploymentTask chainID wallet c)"
    and "fault E = (\<lambda>_. None)" and "wk_deployer wk \<noteq> None"
  shows "handleDelivery (Deployer_handleDelivery E wk) (campaignDelivery E chainID wallet c) (d, ch) = ((d, ch), Ack)"
proof -
  let ?task = "deploymentTask chainID wallet (c\<lparr>c_EndAt := Truncate Second (c_EndAt c)\<rparr>)"
  have "\<not> claimsCampaign wk ?task c" "c_ID c = tk_CampaignID ?task"
    using assms(3) by (auto simp: claimsCampaign_def deploymentTaskMatchesCampaign_def deploymentTask_def)
  from Handle_unclaimed_ok [OF assms(1,6,2) this(2) assms(7) this(1)] show ?thesis
    by (simp add: handleDelivery_def Deployer_handleDelivery_def delivery_task [OF assms(4,5)])
qed

definition demo_result :: CampaignDeploymentResult where
  "demo_result = \<lparr>cr_ContractAddress = ''0xC2'', cr_TxHash = ''0x03'', cr_LogIndex = 0, cr_BlockNumber = 3,
     cr_EventCreatedAt = 1700000000000000000\<rparr>"

definition demo_worker :: "nat CampaignDeploymentWorker" where
  "demo_worker = \<lparr>wk_chainID = 97, wk_deployer = Some (\<lambda>p n. (Suc n, Inr demo_result))\<rparr>"

theorem fractional_end_never_deployed_witness:
  "let c = demo_pending\<lparr>c_EndAt := 1800000000250000000\<rparr>; d = demo_db\<lparr>campaigns := [demo_campaign, c]\<rparr>
   in handleDelivery (Deployer_handleDelivery demo_env demo_worker) (campaignDelivery demo_env 97 ''0xAb'' c) (d, 0)
      = ((d, 0), Ack)"
proof -
  let ?c = "demo_pending\<lparr>c_EndAt := 1800000000250000000\<rparr>" let ?d = "demo_db\<lparr>campaigns := [demo_campaign, ?c]\<rparr>"
  have "db_ok ?d" by (simp add: db_ok_defs demo_db_def demo_campaign_def demo_pending_def)
  moreover have "Truncate Second (c_EndAt ?c) \<noteq> c_EndAt ?c" by (simp add: Truncate_second Unix_def)
  ultimately have "handleDelivery (Deployer_handleDelivery demo_env demo_worker) (campaignDelivery demo_env 97 ''0xAb'' ?c) (?d, 0)
      = ((?d, 0), Ack)"
    by (intro fractional_end_never_deployed [OF _ _ _ demo_uuid_laws demo_decodable(1) [unfolded demo_task_def]])
      (simp_all add: demo_worker_def)
  then show ?thesis by simp
qed

text \<open>(C11) A campaign can be accepted and never be deployed because of its time zone. The endpoint takes an end by
  its local date, so \<open>9999-12-31T23:59:59-01:00\<close> passes, and the message is written in UTC, where that end lies in
  the year 10000. Whatever the state and whatever else fails, the delivery of such a campaign's message changes
  neither the database nor the chain and is acknowledged: the broker drops it and the campaign stays pending.\<close>

theorem late_end_never_deployed:
  assumes "uuid_laws E" "layout_laws E" and "wellFormedTask (deploymentTask chainID wallet c)"
    and "\<not> four_digit_year (c_EndAt c)"
  shows "handleDelivery (Deployer_handleDelivery E wk) (campaignDelivery E chainID wallet c) s = (s, Ack)"
  using decode_late [OF assms(1-3)] assms(4)
  by (simp add: handleDelivery_def Deployer_handleDelivery_def campaignDelivery_def deploymentTask_def)

theorem late_end_never_deployed_witness:
  "\<exists>t. ParseTime demo_env ''9999-12-31T23:59:59-01:00'' = Some t
     \<and> (let c = demo_pending\<lparr>c_EndAt := t\<rparr>
        in handleDelivery (Deployer_handleDelivery demo_env demo_worker)
             (campaignDelivery demo_env 97 ''0xAb'' c) (demo_db\<lparr>campaigns := [demo_campaign, c]\<rparr>, 0)
           = ((demo_db\<lparr>campaigns := [demo_campaign, c]\<rparr>, 0), Ack))"
  using late_end_never_deployed [OF demo_uuid_laws demo_layout_laws demo_wellFormed(2) [of late_end]] demo_late_end(1,2)
  by (simp add: Let_def)

text \<open>The message of a pending campaign that ends on a whole second deploys it: when the deployer succeeds and
  the result fits the schema, one delivery calls the deployer once, records the event, makes the campaign
  active at the deployed address and acknowledges the message.\<close>

lemma pending_delivery:
  assumes ok: "db_ok d" and c: "c \<in> set (campaigns d)" "c_Status c = CampaignStatusPending" "\<not> campaignAlreadyDeployed c"
    and sec: "Truncate Second (c_EndAt c) = c_EndAt c"
    and E: "uuid_laws E" "decodable (deploymentTask (wk_chainID wk) wallet c)" "fault E = (\<lambda>_. None)" "generateID E = Inr i"
    and dep: "wk_deployer wk = Some deploy"
      "deploy (deploymentParams (deploymentTask (wk_chainID wk) wallet c) c) ch = (ch', Inr r)"
    and fits: "eventAccepted (deploymentEvent i r) (cr_ContractAddress r)"
      "eventFits (deploymentEvent i r) (cr_ContractAddress r) d"
  shows "handleDelivery (Deployer_handleDelivery E wk) (campaignDelivery E (wk_chainID wk) wallet c) (d, ch) =
    ((d\<lparr>blockchain_events := blockchain_events d @ [storedEvent E (deploymentEvent i r)],
        campaigns := update_where (\<lambda>x. c_ID x = c_ID c) (activated i (TrimSpace (cr_ContractAddress r))) (campaigns d)\<rparr>,
      ch'), Ack)"
proof -
  let ?task = "deploymentTask (wk_chainID wk) wallet c"
  have "DecodeCampaignDeploymentMessage E (d_Body (campaignDelivery E (wk_chainID wk) wallet c)) = Inr ?task"
    using delivery_task [OF E(1,2)] sec by simp
  moreover have "Handle E wk ?task (d, ch) =
    ((d\<lparr>blockchain_events := blockchain_events d @ [storedEvent E (deploymentEvent i r)],
        campaigns := update_where (\<lambda>x. c_ID x = c_ID c) (activated i (TrimSpace (cr_ContractAddress r))) (campaigns d)\<rparr>,
      ch'), Inr ())"
    using FindByIDForDeployment_found [OF ok c(1) E(3)] c E(3,4) dep
      completeDeployment_pending_activates [OF ok E(3) c(1,2) fits]
    by (simp add: Handle_def deploymentTask_def deploymentTaskMatchesCampaign_def completeResult_def)
      (simp add: deploymentEvent_def)
  ultimately show ?thesis by (simp add: handleDelivery_def Deployer_handleDelivery_def)
qed

text \<open>A history of deliveries of one message: each in its own environment, from the state it finds to the state it
  leaves, and how it was settled. Between two deliveries others may work: they may change the chain and the
  database, but put no campaign of the message back to pending.\<close>

type_synonym 'c deliveryRecord = "env \<times> (db \<times> 'c) \<times> (db \<times> 'c) \<times> settlement"

definition leftAlone :: "uuid \<Rightarrow> db \<Rightarrow> db \<Rightarrow> bool" where
  "leftAlone i d d' \<longleftrightarrow> (\<forall>c\<in>set (campaigns d'). c_ID c = i \<and> c_Status c = CampaignStatusPending \<longrightarrow> c \<in> set (campaigns d))"

fun redelivered :: "'c CampaignDeploymentWorker \<Rightarrow> Delivery \<Rightarrow> uuid \<Rightarrow> db \<Rightarrow> 'c deliveryRecord list \<Rightarrow> bool" where
  "redelivered wk m i d [] \<longleftrightarrow> True"
| "redelivered wk m i d ((E, s, s', x) # H) \<longleftrightarrow>
     leftAlone i d (fst s) \<and> db_ok (fst s) \<and> handleDelivery (Deployer_handleDelivery E wk) m s = (s', x)
     \<and> redelivered wk m i (fst s') H"

definition unclaimed :: "'c CampaignDeploymentWorker \<Rightarrow> CampaignDeploymentTask \<Rightarrow> db \<Rightarrow> bool" where
  "unclaimed wk task d \<longleftrightarrow> (\<forall>c\<in>set (campaigns d). c_ID c = tk_CampaignID task \<longrightarrow> \<not> claimsCampaign wk task c)"

lemma unclaimed_leftAlone: "unclaimed wk task d \<Longrightarrow> leftAlone (tk_CampaignID task) d d' \<Longrightarrow> unclaimed wk task d'"
  by (auto simp: unclaimed_def leftAlone_def claimsCampaign_def)

lemma delivery_decoded:
  assumes "DecodeCampaignDeploymentMessage E (d_Body m) = Inr task"
    and "handleDelivery (Deployer_handleDelivery E wk) m s = (s', x)"
  shows "\<exists>r. Handle E wk task s = (s', r) \<and> (x = Ack \<longleftrightarrow> r = Inr ())"
  using assms by (auto simp: handleDelivery_def Deployer_handleDelivery_def split: prod.splits sum.splits)

lemma unclaimed_unchanged:
  assumes "DecodeCampaignDeploymentMessage E (d_Body m) = Inr task"
    and "handleDelivery (Deployer_handleDelivery E wk) m s = (s', x)" and "unclaimed wk task (fst s)"
  shows "s' = s"
proof -
  from delivery_decoded [OF assms(1,2)] obtain r where "Handle E wk task (fst s, snd s) = (s', r)" by auto
  moreover have "fst (Handle E wk task (fst s, snd s)) = (fst s, snd s)"
    using assms(3) by (intro Handle_unclaimed) (simp add: unclaimed_def)
  ultimately show ?thesis by simp
qed

lemma delivery_settles:
  assumes "DecodeCampaignDeploymentMessage E (d_Body m) = Inr task" and "foreignFaults E"
    and "handleDelivery (Deployer_handleDelivery E wk) m s = (s', x)" and "db_ok (fst s)" and "x = Ack \<or> fst s' \<noteq> fst s"
  shows "unclaimed wk task (fst s')"
proof -
  from delivery_decoded [OF assms(1,3)] obtain r where
    run: "Handle E wk task (fst s, snd s) = ((fst s', snd s'), r)" and x: "x = Ack \<longleftrightarrow> r = Inr ()" by auto
  from Handle_settled [OF assms(4) run assms(2)] assms(5) x show ?thesis by (auto simp: unclaimed_def)
qed

lemma redelivered_unclaimed:
  assumes "redelivered wk m (tk_CampaignID task) d H" and "unclaimed wk task d"
    and "\<forall>(E, _)\<in>set H. DecodeCampaignDeploymentMessage E (d_Body m) = Inr task"
  shows "\<forall>(_, s, s', _)\<in>set H. s' = s"
  using assms
proof (induction H arbitrary: d)
  case (Cons h H)
  obtain E s s' x where h: "h = (E, s, s', x)" by (cases h)
  with Cons.prems have "unclaimed wk task (fst s)" using unclaimed_leftAlone by fastforce
  with h Cons.prems have "s' = s" by (intro unclaimed_unchanged [of E m task wk s s' x]) simp_all
  moreover from this h Cons.prems \<open>unclaimed wk task (fst s)\<close> have "\<forall>(_, t, t', _)\<in>set H. t' = t"
    by (intro Cons.IH [of "fst s"]) simp_all
  ultimately show ?case by (simp add: h)
qed simp

lemma redelivered_suffix: "redelivered wk m i d (K @ L) \<Longrightarrow> \<exists>d'. redelivered wk m i d' L"
  by (induction K arbitrary: d) auto

lemma settled_for_good:
  assumes "redelivered wk m (tk_CampaignID task) d ((E, s, s', x) # L)" and "x = Ack \<or> fst s' \<noteq> fst s"
    and "\<forall>(E, _)\<in>set ((E, s, s', x) # L). foreignFaults E \<and> DecodeCampaignDeploymentMessage E (d_Body m) = Inr task"
  shows "\<forall>(_, t, t', _)\<in>set L. t' = t"
  using assms delivery_settles [of E m task wk s s' x]
  by (intro redelivered_unclaimed [of wk m task "fst s'"]) auto

lemma one_change:
  assumes "redelivered wk m (tk_CampaignID task) d H"
    and "\<forall>(E, _)\<in>set H. foreignFaults E \<and> DecodeCampaignDeploymentMessage E (d_Body m) = Inr task"
  shows "length (filter (\<lambda>(_, s, s', _). fst s' \<noteq> fst s) H) \<le> 1"
  using assms
proof (induction H arbitrary: d)
  case (Cons h H)
  obtain E s s' x where h: "h = (E, s, s', x)" by (cases h)
  show ?case
  proof (cases "fst s' = fst s")
    case True
    from Cons.prems h have "redelivered wk m (tk_CampaignID task) (fst s') H" by simp
    from Cons.IH [OF this] Cons.prems True h show ?thesis by simp
  next
    case False
    then have "\<forall>(_, t, t', _)\<in>set H. t' = t"
      using settled_for_good [OF Cons.prems(1) [unfolded h]] Cons.prems(2) h by simp
    then have "filter (\<lambda>(_, t, t', _). fst t' \<noteq> fst t) H = []" by (auto simp: filter_empty_conv)
    with h show ?thesis by simp
  qed
qed simp

text \<open>(C12) A deployment message has its effect at most once. Take any history of deliveries of one message to the
  deployer's worker, first deliveries and redeliveries, by a broker that lost an acknowledgement or got the message
  twice, each with whatever calls fail and with other work in between that puts no campaign of the message back to
  pending. Then at most one of the deliveries changes the database, and after one that did, or that was
  acknowledged, no later one changes the database or the chain. Failing calls fail with errors of their own,
  not with the repository's sentinels, and every delivery decodes the message alike.\<close>

theorem redelivery_no_effect:
  assumes "redelivered wk m (tk_CampaignID task) d H"
    and "\<forall>(E, _)\<in>set H. foreignFaults E \<and> DecodeCampaignDeploymentMessage E (d_Body m) = Inr task"
  shows "length (filter (\<lambda>(_, s, s', _). fst s' \<noteq> fst s) H) \<le> 1
    \<and> (\<forall>K E s s' x L. H = K @ (E, s, s', x) # L \<and> (x = Ack \<or> fst s' \<noteq> fst s) \<longrightarrow> (\<forall>(_, t, t', _)\<in>set L. t' = t))"
proof -
  have "\<forall>(_, t, t', _)\<in>set L. t' = t" if "H = K @ (E, s, s', x) # L" "x = Ack \<or> fst s' \<noteq> fst s" for K E s s' x L
  proof -
    from redelivered_suffix [OF assms(1) [unfolded that(1)]]
    obtain d' where "redelivered wk m (tk_CampaignID task) d' ((E, s, s', x) # L)" by blast
    from settled_for_good [OF this that(2)] assms(2) that(1) show ?thesis by simp
  qed
  with one_change [OF assms] show ?thesis by blast
qed

lemma demo_delivery:
  "handleDelivery (Deployer_handleDelivery demo_env demo_worker) (campaignDelivery demo_env 97 ''0xAb'' demo_campaign) (demo_db, 0)
    = ((demo_db, 0), Ack)"
proof -
  have c: "decodable (deploymentTask 97 ''0xAb'' demo_campaign)"
    by (simp add: decodable_def wellFormedTask_def deploymentTask_def demo_campaign_def demo_wallet four_digit_year_def in_int64_def
        MinInt64_def MaxInt64_def)
  have "\<not> claimsCampaign demo_worker (deploymentTask 97 ''0xAb'' demo_campaign) demo_campaign"
    by (simp add: claimsCampaign_def demo_campaign_def)
  moreover have "demo_campaign \<in> set (campaigns demo_db)" by (simp add: demo_db_def)
  moreover have "demo_campaign\<lparr>c_EndAt := Truncate Second (c_EndAt demo_campaign)\<rparr> = demo_campaign"
    by (simp add: demo_campaign_def Truncate_second Unix_def)
  ultimately show ?thesis
    using Handle_unclaimed_ok [OF demo_db_ok, of demo_env demo_campaign "deploymentTask 97 ''0xAb'' demo_campaign" demo_worker 0]
    by (simp add: handleDelivery_def Deployer_handleDelivery_def delivery_task [OF demo_uuid_laws c])
      (simp add: deploymentTask_def demo_worker_def)
qed

lemma demo_deploys:
  "handleDelivery (Deployer_handleDelivery demo_env demo_worker) (campaignDelivery demo_env 97 ''0xAb'' demo_pending) (demo_db, 0)
    = ((demo_db\<lparr>blockchain_events := blockchain_events demo_db @ [storedEvent demo_env (deploymentEvent 7 demo_result)],
        campaigns := update_where (\<lambda>x. c_ID x = c_ID demo_pending) (activated 7 ''0xC2'') (campaigns demo_db)\<rparr>, 1), Ack)"
proof -
  have trim: "TrimSpace ''0xC2'' = ''0xC2''" "TrimSpace ''0x03'' = ''0x03''"
    "RuneCountInString ''0xC2'' \<le> 255" "RuneCountInString ''0x03'' \<le> 255" by code_simp+
  have fits: "eventAccepted (deploymentEvent 7 demo_result) (cr_ContractAddress demo_result)"
    "eventFits (deploymentEvent 7 demo_result) (cr_ContractAddress demo_result) demo_db"
    by (simp_all add: eventAccepted_def eventFits_def deploymentEvent_def demo_result_def trim int4_def demo_db_def
        demo_campaign_def demo_pending_def)
  have c: "demo_pending \<in> set (campaigns demo_db)" "c_Status demo_pending = CampaignStatusPending"
    "\<not> campaignAlreadyDeployed demo_pending" "Truncate Second (c_EndAt demo_pending) = c_EndAt demo_pending"
    by (simp_all add: demo_db_def demo_pending_def demo_campaign_def campaignAlreadyDeployed_def Truncate_second Unix_def)
  have dep: "wk_chainID demo_worker = 97" "wk_deployer demo_worker = Some (\<lambda>p n. (Suc n, Inr demo_result))"
    "TrimSpace (cr_ContractAddress demo_result) = ''0xC2''"
    by (simp_all add: demo_worker_def demo_result_def trim)
  from pending_delivery [OF demo_db_ok c demo_uuid_laws demo_decodable(2) [folded dep(1)] _ _ dep(2) refl fits]
  show ?thesis by (simp add: dep)
qed

text \<open>The message of a pending campaign: a first delivery fails, the second deploys, the third finds nothing to do.\<close>

theorem redelivery_no_effect_witness:
  "\<exists>H. redelivered demo_worker (campaignDelivery demo_env 97 ''0xAb'' demo_pending) (c_ID demo_pending) demo_db H
     \<and> map (\<lambda>(_, s, s', x). (fst s' \<noteq> fst s, snd s, snd s', x)) H
       = [(False, 0, 0, NackRequeue), (True, 0, 1, Ack), (False, 1, 1, Ack)]
     \<and> length (filter (\<lambda>(_, s, s', _). fst s' \<noteq> fst s) H) \<le> 1"
proof -
  let ?m = "campaignDelivery demo_env 97 ''0xAb'' demo_pending" and ?F = "demo_env\<lparr>fault := \<lambda>_. Some (Sentinel context_Canceled)\<rparr>"
  let ?task = "deploymentTask 97 ''0xAb'' demo_pending"
  obtain d1 where first: "handleDelivery (Deployer_handleDelivery demo_env demo_worker) ?m (demo_db, 0) = ((d1, 1), Ack)"
    and changed: "d1 \<noteq> demo_db"
    and d1: "d1 = demo_db\<lparr>blockchain_events := blockchain_events demo_db @ [storedEvent demo_env (deploymentEvent 7 demo_result)],
        campaigns := update_where (\<lambda>x. c_ID x = c_ID demo_pending) (activated 7 ''0xC2'') (campaigns demo_db)\<rparr>"
    using demo_deploys by (auto simp: demo_db_def)
  have codec: "DecodeCampaignDeploymentMessage demo_env (d_Body ?m) = Inr ?task"
    using delivery_task [OF demo_uuid_laws demo_decodable(2)]
    by (simp add: demo_pending_def demo_campaign_def Truncate_second Unix_def)
  moreover have "DecodeCampaignDeploymentMessage ?F b = DecodeCampaignDeploymentMessage demo_env b" for b
    by (simp add: DecodeCampaignDeploymentMessage_def cong: sum.case_cong option.case_cong)
  ultimately have codecF: "DecodeCampaignDeploymentMessage ?F (d_Body ?m) = Inr ?task" by simp
  have failed: "handleDelivery (Deployer_handleDelivery ?F demo_worker) ?m (demo_db, 0) = ((demo_db, 0), NackRequeue)"
    by (simp add: handleDelivery_def Deployer_handleDelivery_def codecF Handle_def)
  from delivery_decoded [OF codec first] obtain r where "Handle demo_env demo_worker ?task (demo_db, 0) = ((d1, 1), r)" by blast
  from Handle_ok [OF demo_db_ok this] have ok: "db_ok d1" using demo_db_ok by simp
  let ?c1 = "activated 7 ''0xC2'' demo_pending"
  have "demo_pending \<in> set (campaigns demo_db)" by (simp add: demo_db_def)
  then have "?c1 \<in> set (campaigns d1)" by (auto simp: d1 set_update_where)
  moreover have "c_ID ?c1 = tk_CampaignID ?task" "c_Status ?c1 = CampaignStatusActive"
    by (simp_all add: activated_def deploymentTask_def)
  ultimately have c1: "?c1 \<in> set (campaigns d1)" "c_ID ?c1 = tk_CampaignID ?task"
    "\<not> claimsCampaign demo_worker ?task ?c1" by (simp_all add: claimsCampaign_def)
  have "Handle demo_env demo_worker ?task (d1, 1) = ((d1, 1), Inr ())"
    by (rule Handle_unclaimed_ok [OF ok _ c1(1,2) _ c1(3)]) (simp_all add: demo_worker_def)
  then have again: "handleDelivery (Deployer_handleDelivery demo_env demo_worker) ?m (d1, 1) = ((d1, 1), Ack)"
    by (simp add: handleDelivery_def Deployer_handleDelivery_def codec del: One_nat_def)
  let ?H = "[(?F, (demo_db, 0), (demo_db, 0), NackRequeue), (demo_env, (demo_db, 0), (d1, 1), Ack), (demo_env, (d1, 1), (d1, 1), Ack)]"
  have H: "redelivered demo_worker ?m (tk_CampaignID ?task) demo_db ?H"
    using ok by (simp add: failed first again demo_db_ok leftAlone_def del: One_nat_def)
  have "foreignFaults demo_env" "foreignFaults ?F" by (simp_all add: foreignFaults_def)
  with redelivery_no_effect [OF H] codec codecF have "length (filter (\<lambda>(_, s, s', _). fst s' \<noteq> fst s) ?H) \<le> 1" by simp
  with H changed show ?thesis
    by (intro exI [of _ ?H]) (simp add: deploymentTask_def)
qed

text \<open>The worker touches the chain and the database only for a campaign that waits for it: a
  call of \<open>Handle\<close> that changes either has found the campaign of the task, pending, without a
  contract, with the fundraiser, the goal and the end of the task, on the worker's own chain. A
  call that fails leaves the database as it was, so the requeued message finds the same campaign.\<close>

lemma Handle_guarded:
  assumes "Handle E wk task (d, ch) = ((d', ch'), r)" and "(d', ch') \<noteq> (d, ch)"
  shows "(\<exists>c\<in>set (campaigns d). c_ID c = tk_CampaignID task \<and> c_Status c = CampaignStatusPending
      \<and> \<not> campaignAlreadyDeployed c \<and> c_FundraiserID c = tk_FundraiserID task \<and> c_GoalAmount c = tk_GoalAmount task
      \<and> c_EndAt c = tk_EndAt task)
    \<and> tk_ChainID task = wk_chainID wk \<and> (is_ok r \<or> d' = d)"
proof -
  have found: ?thesis
    if "FindByIDForDeployment E (tk_CampaignID task) d = Inr c" "claimsCampaign wk task c" "is_ok r \<or> d' = d" for c
    using FindByIDForDeployment_row [OF that(1)] that(2,3)
    by (auto simp: claimsCampaign_def deploymentTaskMatchesCampaign_def)
  show ?thesis
    using assms(1)
  proof (cases rule: Handle_cases)
    case kept
    with assms(2) show ?thesis by simp
  next
    case failed
    with found show ?thesis by blast
  next
    case (deployed deploy c result i x)
    have "is_ok r \<or> d' = d"
      using deployed(6,7) CompleteDeployment_error [of E "tk_CampaignID task"]
      by (cases x) (auto simp: completeResult_def)
    with found deployed show ?thesis by blast
  qed
qed

lemma Handle_guarded_witness:
  "Handle demo_env (demo_worker\<lparr>wk_deployer := Some (\<lambda>p n. (Suc n, Inl (Errorf ''reverted'')))\<rparr>)
     (deploymentTask 97 ''0xAb'' demo_pending) (demo_db, 0)
   = ((demo_db, 1), Inl (Wrap ''service: deploy campaign'' (Errorf ''reverted'')))
   \<and> (\<exists>c\<in>set (campaigns demo_db). c_ID c = 22 \<and> c_Status c = CampaignStatusPending)"
proof -
  let ?wk = "demo_worker\<lparr>wk_deployer := Some (\<lambda>p n. (Suc n, Inl (Errorf ''reverted'')))\<rparr>"
  have "demo_pending \<in> set (campaigns demo_db)" by (simp add: demo_db_def)
  from FindByIDForDeployment_found [OF demo_db_ok this] have
    "FindByIDForDeployment demo_env (c_ID demo_pending) demo_db = Inr demo_pending" by simp
  then have run: "Handle demo_env ?wk (deploymentTask 97 ''0xAb'' demo_pending) (demo_db, 0)
     = ((demo_db, 1), Inl (Wrap ''service: deploy campaign'' (Errorf ''reverted'')))"
    by (simp add: Handle_def demo_worker_def deploymentTask_def deploymentTaskMatchesCampaign_def)
      (simp add: demo_pending_def demo_campaign_def campaignAlreadyDeployed_def)
  from Handle_guarded [OF run] run show ?thesis by (auto simp: deploymentTask_def demo_pending_def)
qed

end
