(* ===== verification/Queue_Client.thy ===== *)
theory Queue_Client
  imports Queue
begin

text \<open>
  The queue client (\<open>internal/infra/queue/client.go\<close>): dialling, the shared connection, the
  subscriptions of \<open>Notify\<close>, \<open>Close\<close>, and the background goroutine that watches the connection and
  dials again with exponential back-off. The goroutine, the caller of \<open>Close\<close>, the subscribers and the
  network run concurrently: \<open>clientStep\<close> interleaves their atomic sections (what the code does under
  its mutex, and each channel operation), and \<open>clientReach\<close> is what \<open>Open\<close> leads to.

  The lemmas: a failed dial leaves no socket open; in every reachable state at most one connection
  is live, none is once \<open>Close\<close> has returned and the goroutine has ended, no channel is closed twice
  or sent to after it was closed, the back-off stays within 1 and 30 seconds, and after \<open>Close\<close> the
  goroutine ends within a bounded number of its own steps, without waiting for a timer or the network.
\<close>

section \<open>Dialling\<close>

text \<open>What the dial takes from outside: \<open>amqp.ParseURI\<close> (its connection timeout in milliseconds), the
  clock, the context, and the outcomes of the TCP dial, of \<open>SetDeadline\<close> and of the AMQP handshake that
  \<open>amqp.DialConfig\<close> performs on the socket its \<open>Dial\<close> callback returns. \<open>de_setup\<close> is an error of
  \<open>DialConfig\<close> before it calls back.\<close>

record dialEnv =
  de_ParseURI :: "string \<Rightarrow> int result"
  de_now :: time
  de_ctxDeadline :: "time option"
  de_setup :: "string \<Rightarrow> err option"
  de_tcp :: "duration \<Rightarrow> err option"
  de_setDeadline :: "time \<Rightarrow> err option"
  de_handshake :: "string option \<Rightarrow> err option"
  de_ctxErr :: "err option"

datatype socket = NoSocket | SocketOpen | SocketClosed

definition defaultConnectionTimeout :: duration where
  "defaultConnectionTimeout = 30 * Second"

definition Millisecond :: duration where
  "Millisecond = 1000 * Microsecond"

definition connectionTimeout :: "dialEnv \<Rightarrow> string \<Rightarrow> duration result" where
  "connectionTimeout D rawURL =
     (case de_ParseURI D rawURL of
        Inl e \<Rightarrow> Inl e
      | Inr ms \<Rightarrow> (if ms > 0 then Inr (wrap64 (ms * Millisecond)) else Inr defaultConnectionTimeout))"

text \<open>The client properties carry the connection name, when there is one.\<close>

definition connectionConfig :: "string \<Rightarrow> string option" where
  "connectionConfig connectionName = (if connectionName \<noteq> [] then Some connectionName else None)"

definition handshakeDeadline :: "dialEnv \<Rightarrow> duration \<Rightarrow> time" where
  "handshakeDeadline D timeout =
     (let deadline = de_now D + timeout
      in case de_ctxDeadline D of
           Some ctxDeadline \<Rightarrow> (if ctxDeadline < deadline then ctxDeadline else deadline)
         | None \<Rightarrow> deadline)"

text \<open>The \<open>config.Dial\<close> callback: the socket, closed again when its deadline cannot be set. The
  second component is the captured variable \<open>rawConn\<close>: whether it was assigned.\<close>

definition dialCallback :: "dialEnv \<Rightarrow> duration \<Rightarrow> socket \<times> bool \<times> unit result" where
  "dialCallback D timeout =
     (case de_tcp D timeout of
        Some e \<Rightarrow> (NoSocket, False, Inl e)
      | None \<Rightarrow>
          (case de_setDeadline D (handshakeDeadline D timeout) of
             Some e \<Rightarrow> (SocketClosed, False, Inl e)
           | None \<Rightarrow> (SocketOpen, True, Inr ())))"

definition DialConfig :: "dialEnv \<Rightarrow> string \<Rightarrow> string option \<Rightarrow> duration \<Rightarrow> socket \<times> bool \<times> unit result" where
  "DialConfig D rawURL config timeout =
     (case de_setup D rawURL of
        Some e \<Rightarrow> (NoSocket, False, Inl e)
      | None \<Rightarrow>
          (case dialCallback D timeout of
             (k, raw, Inl e) \<Rightarrow> (k, raw, Inl e)
           | (k, raw, Inr _) \<Rightarrow>
               (case de_handshake D config of Some e \<Rightarrow> (k, raw, Inl e) | None \<Rightarrow> (k, raw, Inr ()))))"

definition dialContext :: "dialEnv \<Rightarrow> string \<Rightarrow> string \<Rightarrow> socket \<times> unit result" where
  "dialContext D rawURL connectionName =
     (case connectionTimeout D rawURL of
        Inl e \<Rightarrow> (NoSocket, Inl e)
      | Inr timeout \<Rightarrow>
          (case DialConfig D rawURL (connectionConfig connectionName) timeout of
             (k, raw, Inl e) \<Rightarrow>
               (if raw then SocketClosed else k, Inl (case de_ctxErr D of Some ctxErr \<Rightarrow> ctxErr | None \<Rightarrow> e))
           | (k, raw, Inr _) \<Rightarrow>
               (case de_ctxErr D of Some ctxErr \<Rightarrow> (SocketClosed, Inl ctxErr) | None \<Rightarrow> (k, Inr ()))))"

section \<open>State\<close>

text \<open>Connections are numbered in the order they were established. \<open>Dropped\<close> is a connection that ended
  with an error, \<open>Shut\<close> one the program closed. A subscription is a channel of capacity one.\<close>

datatype connState = Live | Dropped | Shut

record chan =
  ch_full :: bool
  ch_closed :: bool

record QueueClient =
  qc_url :: string
  qc_connectionName :: string
  qc_conn :: nat
  qc_closed :: bool
  qc_notifySubs :: "nat list"
  qc_done :: bool
  qc_closeErr :: "err option"

text \<open>Where the reconnect goroutine stands, and how far the one execution of \<open>closeOnce\<close> has come.
  \<open>LateWatch\<close> is a \<open>select\<close> on a listener that was registered after the connection had ended: the AMQP
  client sends the error only to the listeners registered at that time and closes a later one.\<close>

datatype loopState =
    LoopTop
  | Watching nat
  | LateWatch nat
  | Backoff duration
  | Dialing duration
  | DialFailed duration
  | Installing nat
  | Reconnected
  | LoopExited
  | LoopPanicked

datatype closeState = NotClosed | CloseLocked nat | CloseDone nat | CloseReturned | ClosePanicked

record clientSystem =
  qs_client :: QueueClient
  qs_chans :: "chan list"
  qs_conns :: "connState list"
  qs_loop :: loopState
  qs_closer :: closeState

record ClientConfig =
  cl_URL :: string
  cl_ConnectionName :: string

definition Open :: "dialEnv \<Rightarrow> ClientConfig \<Rightarrow> clientSystem result" where
  "Open D cfg =
     (let rawURL = TrimSpace (cl_URL cfg); connectionName = TrimSpace (cl_ConnectionName cfg)
      in if rawURL = [] then Inl (Errorf ''queue: URL is required'')
         else case dialContext D rawURL connectionName of
             (_, Inl e) \<Rightarrow> Inl (Wrap ''queue: dial'' e)
           | (_, Inr _) \<Rightarrow>
               Inr \<lparr>qs_client = \<lparr>qc_url = rawURL, qc_connectionName = connectionName, qc_conn = 0,
                       qc_closed = False, qc_notifySubs = [], qc_done = False, qc_closeErr = None\<rparr>,
                    qs_chans = [], qs_conns = [Live], qs_loop = LoopTop, qs_closer = NotClosed\<rparr>)"

section \<open>Channels\<close>

text \<open>Closing a closed channel and sending to one panic (\<open>None\<close>). A \<open>select\<close> with a \<open>default\<close> case drops
  a value that does not fit. A receive yields the buffered value, then the end of a closed channel,
  and blocks (\<open>None\<close>) otherwise.\<close>

definition closeChan :: "nat \<Rightarrow> chan list \<Rightarrow> chan list option" where
  "closeChan i chs = (if ch_closed (chs ! i) then None else Some (chs[i := (chs ! i)\<lparr>ch_closed := True\<rparr>]))"

definition trySend :: "nat \<Rightarrow> chan list \<Rightarrow> chan list option" where
  "trySend i chs = (if ch_closed (chs ! i) then None else Some (chs[i := (chs ! i)\<lparr>ch_full := True\<rparr>]))"

definition recvChan :: "nat \<Rightarrow> chan list \<Rightarrow> (bool \<times> chan list) option" where
  "recvChan i chs =
     (if ch_full (chs ! i) then Some (True, chs[i := (chs ! i)\<lparr>ch_full := False\<rparr>])
      else if ch_closed (chs ! i) then Some (False, chs)
      else None)"

fun onEach :: "(nat \<Rightarrow> chan list \<Rightarrow> chan list option) \<Rightarrow> nat list \<Rightarrow> chan list \<Rightarrow> chan list option" where
  "onEach f [] chs = Some chs"
| "onEach f (i # is) chs = (case f i chs of None \<Rightarrow> None | Some chs' \<Rightarrow> onEach f is chs')"

section \<open>The client's methods\<close>

definition Conn :: "clientSystem \<Rightarrow> nat" where
  "Conn q = qc_conn (qs_client q)"

text \<open>\<open>conn != nil && !conn.IsClosed()\<close> for the current connection.\<close>

definition connLive :: "nat \<Rightarrow> clientSystem \<Rightarrow> bool" where
  "connLive c q = (qs_conns q ! c = Live)"

definition Notify :: "clientSystem \<Rightarrow> clientSystem \<times> nat" where
  "Notify q =
     (let ch = length (qs_chans q)
      in if qc_closed (qs_client q)
         then (q\<lparr>qs_chans := qs_chans q @ [\<lparr>ch_full = False, ch_closed = True\<rparr>]\<rparr>, ch)
         else (q\<lparr>qs_chans := qs_chans q @ [\<lparr>ch_full = False, ch_closed = False\<rparr>],
                 qs_client := (qs_client q)\<lparr>qc_notifySubs := qc_notifySubs (qs_client q) @ [ch]\<rparr>\<rparr>, ch))"

text \<open>The body of \<open>closeOnce\<close> in its three atomic parts: under the mutex, closing \<open>done\<close>, closing the
  connection (with the error of \<open>conn.Close\<close>, if it has one).\<close>

definition closeLocked :: "clientSystem \<Rightarrow> clientSystem" where
  "closeLocked q =
     (case onEach closeChan (qc_notifySubs (qs_client q)) (qs_chans q) of
        None \<Rightarrow> q\<lparr>qs_closer := ClosePanicked\<rparr>
      | Some chs \<Rightarrow>
          q\<lparr>qs_client := (qs_client q)\<lparr>qc_closed := True, qc_notifySubs := []\<rparr>,
            qs_chans := chs, qs_closer := CloseLocked (qc_conn (qs_client q))\<rparr>)"

definition closeDone :: "nat \<Rightarrow> clientSystem \<Rightarrow> clientSystem" where
  "closeDone c q =
     (if qc_done (qs_client q) then q\<lparr>qs_closer := ClosePanicked\<rparr>
      else q\<lparr>qs_client := (qs_client q)\<lparr>qc_done := True\<rparr>, qs_closer := CloseDone c\<rparr>)"

definition closeConn :: "err option \<Rightarrow> nat \<Rightarrow> clientSystem \<Rightarrow> clientSystem" where
  "closeConn e c q =
     (if connLive c q
      then q\<lparr>qs_conns := (qs_conns q)[c := Shut],
             qs_client := (qs_client q)\<lparr>qc_closeErr := map_option (Wrap ''queue: close connection'') e\<rparr>,
             qs_closer := CloseReturned\<rparr>
      else q\<lparr>qs_closer := CloseReturned\<rparr>)"

text \<open>\<open>Close\<close> with nothing else running: the first call does the work, every call returns the same
  result.\<close>

definition Close :: "err option \<Rightarrow> clientSystem \<Rightarrow> clientSystem \<times> err option" where
  "Close e q =
     (let q' = (if qs_closer q = NotClosed
                then closeConn e (qc_conn (qs_client q)) (closeDone (qc_conn (qs_client q)) (closeLocked q))
                else q)
      in (q', qc_closeErr (qs_client q')))"

section \<open>The reconnect goroutine\<close>

text \<open>What the goroutine's next step depends on: which ready case of a \<open>select\<close> is taken, the outcome
  of a dial.\<close>

datatype loopEvent = EvStep | EvDone | EvNotifyClose | EvTimer | EvDial dialEnv

definition initialDelay :: duration where
  "initialDelay = Second"

definition maxDelay :: duration where
  "maxDelay = 30 * Second"

definition factor :: int where
  "factor = 2"

text \<open>\<open>waitForDrop\<close>: the listener is registered first. Its channel carries an error when the connection
  ends with one after that, and is closed without a value when it was closed by the program or had
  already ended.\<close>

definition registerNotifyClose :: "nat \<Rightarrow> clientSystem \<Rightarrow> loopState" where
  "registerNotifyClose c q = (if connLive c q then Watching c else LateWatch c)"

definition waitForDrop :: "loopEvent \<Rightarrow> bool \<Rightarrow> nat \<Rightarrow> clientSystem \<Rightarrow> bool option" where
  "waitForDrop ev late c q =
     (case ev of
        EvDone \<Rightarrow> (if qc_done (qs_client q) then Some False else None)
      | EvNotifyClose \<Rightarrow>
          (if late then Some False
           else case qs_conns q ! c of Live \<Rightarrow> None | Dropped \<Rightarrow> Some True | Shut \<Rightarrow> Some False)
      | _ \<Rightarrow> None)"

text \<open>The dial's context is cancelled only by \<open>Close\<close>.\<close>

definition reconnectDial :: "dialEnv \<Rightarrow> clientSystem \<Rightarrow> (socket \<times> unit result) option" where
  "reconnectDial D q =
     (if de_ctxErr D \<noteq> None \<and> \<not> qc_done (qs_client q) then None
      else Some (dialContext D (qc_url (qs_client q)) (qc_connectionName (qs_client q))))"

text \<open>The three points of the back-off loop: the timer, the dial, the check after a failed dial.\<close>

definition backoffWait :: "loopEvent \<Rightarrow> duration \<Rightarrow> clientSystem \<Rightarrow> clientSystem option" where
  "backoffWait ev delay q =
     (case ev of
        EvDone \<Rightarrow> (if qc_done (qs_client q) then Some (q\<lparr>qs_loop := LoopExited\<rparr>) else None)
      | EvTimer \<Rightarrow> Some (q\<lparr>qs_loop := Dialing delay\<rparr>)
      | _ \<Rightarrow> None)"

definition backoffDial :: "loopEvent \<Rightarrow> duration \<Rightarrow> clientSystem \<Rightarrow> clientSystem option" where
  "backoffDial ev delay q =
     (case ev of
        EvDial D \<Rightarrow>
          (case reconnectDial D q of
             None \<Rightarrow> None
           | Some (_, Inl e) \<Rightarrow> Some (q\<lparr>qs_loop := DialFailed delay\<rparr>)
           | Some (_, Inr _) \<Rightarrow>
               Some (q\<lparr>qs_conns := qs_conns q @ [Live], qs_loop := Installing (length (qs_conns q))\<rparr>))
      | _ \<Rightarrow> None)"

definition backoffFailed :: "loopEvent \<Rightarrow> duration \<Rightarrow> clientSystem \<Rightarrow> clientSystem option" where
  "backoffFailed ev delay q =
     (case ev of
        EvStep \<Rightarrow>
          Some (if qc_done (qs_client q) then q\<lparr>qs_loop := LoopExited\<rparr>
                else q\<lparr>qs_loop := Backoff (min (delay * factor) maxDelay)\<rparr>)
      | _ \<Rightarrow> None)"

text \<open>The locked check and swap of \<open>reconnectLoop\<close>.\<close>

definition install :: "nat \<Rightarrow> clientSystem \<Rightarrow> clientSystem" where
  "install c q =
     (if qc_closed (qs_client q) then q\<lparr>qs_conns := (qs_conns q)[c := Shut], qs_loop := LoopExited\<rparr>
      else q\<lparr>qs_client := (qs_client q)\<lparr>qc_conn := c\<rparr>, qs_loop := Reconnected\<rparr>)"

definition notifyReconnect :: "clientSystem \<Rightarrow> clientSystem" where
  "notifyReconnect q =
     (if qc_closed (qs_client q) then q\<lparr>qs_loop := LoopTop\<rparr>
      else case onEach trySend (qc_notifySubs (qs_client q)) (qs_chans q) of
          None \<Rightarrow> q\<lparr>qs_loop := LoopPanicked\<rparr>
        | Some chs \<Rightarrow> q\<lparr>qs_chans := chs, qs_loop := LoopTop\<rparr>)"

definition afterWait :: "bool option \<Rightarrow> clientSystem \<Rightarrow> clientSystem option" where
  "afterWait dropped q =
     map_option (\<lambda>d. q\<lparr>qs_loop := if d then Backoff initialDelay else LoopExited\<rparr>) dropped"

text \<open>One step of the goroutine; \<open>None\<close> when it is blocked on what the event stands for.\<close>

definition reconnectLoop :: "loopEvent \<Rightarrow> clientSystem \<Rightarrow> clientSystem option" where
  "reconnectLoop ev q =
     (case qs_loop q of
        LoopTop \<Rightarrow> (if ev = EvStep then Some (q\<lparr>qs_loop := registerNotifyClose (Conn q) q\<rparr>) else None)
      | Watching c \<Rightarrow> afterWait (waitForDrop ev False c q) q
      | LateWatch c \<Rightarrow> afterWait (waitForDrop ev True c q) q
      | Backoff d \<Rightarrow> backoffWait ev d q
      | Dialing d \<Rightarrow> backoffDial ev d q
      | DialFailed d \<Rightarrow> backoffFailed ev d q
      | Installing c \<Rightarrow> (if ev = EvStep then Some (install c q) else None)
      | Reconnected \<Rightarrow> (if ev = EvStep then Some (notifyReconnect q) else None)
      | LoopExited \<Rightarrow> None
      | LoopPanicked \<Rightarrow> None)"

text \<open>One step of the execution of \<open>closeOnce\<close>.\<close>

definition closeStep :: "err option \<Rightarrow> clientSystem \<Rightarrow> clientSystem option" where
  "closeStep e q =
     (case qs_closer q of
        NotClosed \<Rightarrow> Some (closeLocked q)
      | CloseLocked c \<Rightarrow> Some (closeDone c q)
      | CloseDone c \<Rightarrow> Some (closeConn e c q)
      | CloseReturned \<Rightarrow> None
      | ClosePanicked \<Rightarrow> None)"

text \<open>A connection that ends with an error, and a subscriber's receive.\<close>

definition dropConn :: "nat \<Rightarrow> clientSystem \<Rightarrow> clientSystem" where
  "dropConn c q = (if connLive c q then q\<lparr>qs_conns := (qs_conns q)[c := Dropped]\<rparr> else q)"

definition receive :: "nat \<Rightarrow> clientSystem \<Rightarrow> (bool \<times> clientSystem) option" where
  "receive i q = map_option (\<lambda>(ok, chs). (ok, q\<lparr>qs_chans := chs\<rparr>)) (recvChan i (qs_chans q))"

section \<open>Interleaving\<close>

inductive clientStep :: "clientSystem \<Rightarrow> clientSystem \<Rightarrow> bool" where
  loop: "reconnectLoop ev q = Some q' \<Longrightarrow> clientStep q q'"
| closing: "closeStep e q = Some q' \<Longrightarrow> clientStep q q'"
| notify: "clientStep q (fst (Notify q))"
| dropped: "c < length (qs_conns q) \<Longrightarrow> clientStep q (dropConn c q)"
| received: "i < length (qs_chans q) \<Longrightarrow> receive i q = Some (ok, q') \<Longrightarrow> clientStep q q'"

inductive clientReach :: "clientSystem \<Rightarrow> bool" where
  opened: "Open D cfg = Inr q \<Longrightarrow> clientReach q"
| step: "clientReach q \<Longrightarrow> clientStep q q' \<Longrightarrow> clientReach q'"

section \<open>Dialling: no socket is leaked\<close>

lemma dialCallback_socket:
  "dialCallback D timeout = (k, raw, r) \<Longrightarrow> (raw \<longleftrightarrow> k = SocketOpen) \<and> (r = Inr () \<longleftrightarrow> k = SocketOpen)"
  by (auto simp: dialCallback_def split: option.splits)

lemma DialConfig_socket:
  "DialConfig D rawURL config timeout = (k, raw, r) \<Longrightarrow> (raw \<longleftrightarrow> k = SocketOpen) \<and> (r = Inr () \<longrightarrow> k = SocketOpen)"
  by (auto simp: DialConfig_def split: option.splits prod.splits sum.splits dest: dialCallback_socket)

lemma dialContext_socket:
  assumes "dialContext D rawURL connectionName = (k, r)"
  shows "r = Inr () \<longleftrightarrow> k = SocketOpen"
  using assms by (auto simp: dialContext_def split: sum.splits prod.splits option.splits if_splits
      dest: DialConfig_socket)

lemma dialContext_ok: "dialContext D rawURL connectionName = (k, Inr ()) \<Longrightarrow> de_ctxErr D = None"
  by (auto simp: dialContext_def split: sum.splits prod.splits option.splits)

section \<open>Invariants\<close>

lemma nth_append_last [simp]: "i < length xs \<Longrightarrow> (xs @ [x]) ! i = xs ! i"
  by (simp add: nth_append)

lemma full_update_closed [simp]: "ch_closed (chs[i := (chs ! i)\<lparr>ch_full := b\<rparr>] ! j) = ch_closed (chs ! j)"
  by (cases "i < length chs") (auto simp: nth_list_update list_update_beyond)

lemma onEach_length:
  assumes "onEach f is chs = Some chs'" and "\<And>i c c'. f i c = Some c' \<Longrightarrow> length c' = length c"
  shows "length chs' = length chs"
  using assms(1) by (induction "is" arbitrary: chs) (auto split: option.splits dest: assms(2))

lemma onEach_closeChan:
  assumes "distinct is" and "\<forall>i \<in> set is. i < length chs \<and> \<not> ch_closed (chs ! i)"
  obtains chs' where "onEach closeChan is chs = Some chs'" and "length chs' = length chs"
    and "\<And>j. ch_closed (chs' ! j) \<longleftrightarrow> ch_closed (chs ! j) \<or> j \<in> set is"
    and "\<And>j. ch_full (chs' ! j) \<longleftrightarrow> ch_full (chs ! j)"
proof -
  have "\<exists>chs'. onEach closeChan is chs = Some chs' \<and> length chs' = length chs
    \<and> (\<forall>j. ch_closed (chs' ! j) \<longleftrightarrow> ch_closed (chs ! j) \<or> j \<in> set is) \<and> (\<forall>j. ch_full (chs' ! j) \<longleftrightarrow> ch_full (chs ! j))"
    using assms
  proof (induction "is" arbitrary: chs)
    case (Cons i "is")
    let ?c = "chs[i := (chs ! i)\<lparr>ch_closed := True\<rparr>]"
    have "\<exists>chs'. onEach closeChan is ?c = Some chs' \<and> length chs' = length ?c
      \<and> (\<forall>j. ch_closed (chs' ! j) \<longleftrightarrow> ch_closed (?c ! j) \<or> j \<in> set is) \<and> (\<forall>j. ch_full (chs' ! j) \<longleftrightarrow> ch_full (?c ! j))"
      using Cons.prems by (intro Cons.IH) (auto simp: nth_list_update)
    moreover have "closeChan i chs = Some ?c" using Cons.prems by (simp add: closeChan_def)
    ultimately show ?case using Cons.prems by (auto simp: nth_list_update split: if_splits)
  qed simp
  then show ?thesis using that by auto
qed

lemma onEach_trySend:
  assumes "\<forall>i \<in> set is. i < length chs \<and> \<not> ch_closed (chs ! i)"
  obtains chs' where "onEach trySend is chs = Some chs'" and "length chs' = length chs"
    and "\<And>j. ch_closed (chs' ! j) \<longleftrightarrow> ch_closed (chs ! j)"
    and "\<And>j. ch_full (chs' ! j) \<longleftrightarrow> ch_full (chs ! j) \<or> j \<in> set is"
proof -
  have "\<exists>chs'. onEach trySend is chs = Some chs' \<and> length chs' = length chs
    \<and> (\<forall>j. ch_closed (chs' ! j) \<longleftrightarrow> ch_closed (chs ! j)) \<and> (\<forall>j. ch_full (chs' ! j) \<longleftrightarrow> ch_full (chs ! j) \<or> j \<in> set is)"
    using assms
  proof (induction "is" arbitrary: chs)
    case (Cons i "is")
    let ?c = "chs[i := (chs ! i)\<lparr>ch_full := True\<rparr>]"
    have "\<exists>chs'. onEach trySend is ?c = Some chs' \<and> length chs' = length ?c
      \<and> (\<forall>j. ch_closed (chs' ! j) \<longleftrightarrow> ch_closed (?c ! j)) \<and> (\<forall>j. ch_full (chs' ! j) \<longleftrightarrow> ch_full (?c ! j) \<or> j \<in> set is)"
      using Cons.prems by (intro Cons.IH) (auto simp: nth_list_update)
    moreover have "trySend i chs = Some ?c" using Cons.prems by (simp add: trySend_def)
    ultimately show ?case using Cons.prems by (auto simp: nth_list_update split: if_splits)
  qed simp
  then show ?thesis using that by auto
qed

text \<open>The subscriptions: open and registered until \<open>Close\<close>, all closed and none registered after.\<close>

definition chanInv :: "bool \<Rightarrow> nat list \<Rightarrow> chan list \<Rightarrow> bool" where
  "chanInv cl subs chs \<longleftrightarrow>
     (if cl then subs = [] \<and> (\<forall>i < length chs. ch_closed (chs ! i))
      else subs = [0..<length chs] \<and> (\<forall>i < length chs. \<not> ch_closed (chs ! i)))"

text \<open>The execution of \<open>Close\<close> and the flags it sets.\<close>

fun closeInv :: "closeState \<Rightarrow> nat \<Rightarrow> connState list \<Rightarrow> bool \<Rightarrow> bool \<Rightarrow> bool" where
  "closeInv NotClosed conn conns cl fin \<longleftrightarrow> \<not> cl \<and> \<not> fin"
| "closeInv (CloseLocked c) conn conns cl fin \<longleftrightarrow> c = conn \<and> cl \<and> \<not> fin"
| "closeInv (CloseDone c) conn conns cl fin \<longleftrightarrow> c = conn \<and> cl \<and> fin"
| "closeInv CloseReturned conn conns cl fin \<longleftrightarrow> conns ! conn \<noteq> Live \<and> cl \<and> fin"
| "closeInv ClosePanicked conn conns cl fin \<longleftrightarrow> False"

text \<open>The connections: only the installed one, or the one about to be installed, is live.\<close>

fun loopInv :: "loopState \<Rightarrow> nat \<Rightarrow> connState list \<Rightarrow> bool \<Rightarrow> bool" where
  "loopInv (Watching c) conn conns cl \<longleftrightarrow> c = conn"
| "loopInv (LateWatch c) conn conns cl \<longleftrightarrow> c = conn \<and> conns ! conn \<noteq> Live"
| "loopInv (Installing c) conn conns cl \<longleftrightarrow> c < length conns \<and> c \<noteq> conn \<and> conns ! conn \<noteq> Live"
| "loopInv LoopExited conn conns cl \<longleftrightarrow> cl \<or> conns ! conn \<noteq> Live"
| "loopInv LoopPanicked conn conns cl \<longleftrightarrow> False"
| "loopInv LoopTop conn conns cl \<longleftrightarrow> True"
| "loopInv Reconnected conn conns cl \<longleftrightarrow> True"
| "loopInv _ conn conns cl \<longleftrightarrow> conns ! conn \<noteq> Live"

definition connInv :: "loopState \<Rightarrow> nat \<Rightarrow> connState list \<Rightarrow> bool" where
  "connInv l conn conns \<longleftrightarrow>
     conn < length conns \<and> (\<forall>c < length conns. conns ! c = Live \<longrightarrow> c = conn \<or> l = Installing c)"

definition delays :: "duration set" where
  "delays = {1 * Second, 2 * Second, 4 * Second, 8 * Second, 16 * Second, 30 * Second}"

fun delayInv :: "loopState \<Rightarrow> bool" where
  "delayInv (Backoff d) \<longleftrightarrow> d \<in> delays"
| "delayInv (Dialing d) \<longleftrightarrow> d \<in> delays"
| "delayInv (DialFailed d) \<longleftrightarrow> d \<in> delays"
| "delayInv _ \<longleftrightarrow> True"

definition clientInv :: "clientSystem \<Rightarrow> bool" where
  "clientInv q \<longleftrightarrow>
     chanInv (qc_closed (qs_client q)) (qc_notifySubs (qs_client q)) (qs_chans q)
     \<and> closeInv (qs_closer q) (Conn q) (qs_conns q) (qc_closed (qs_client q)) (qc_done (qs_client q))
     \<and> loopInv (qs_loop q) (Conn q) (qs_conns q) (qc_closed (qs_client q))
     \<and> connInv (qs_loop q) (Conn q) (qs_conns q) \<and> delayInv (qs_loop q)"

lemma next_delay: "d \<in> delays \<Longrightarrow> min (d * factor) maxDelay \<in> delays"
  by (auto simp: delays_def factor_def maxDelay_def Second_def)

lemma initialDelay_delays: "initialDelay \<in> delays"
  by (simp add: delays_def initialDelay_def)

lemma Open_inv: "Open D cfg = Inr q \<Longrightarrow> clientInv q"
  by (auto simp: Open_def Let_def clientInv_def chanInv_def connInv_def Conn_def
      split: if_splits prod.splits sum.splits)

lemma Notify_inv: "clientInv q \<Longrightarrow> clientInv (fst (Notify q))"
  by (auto simp: clientInv_def chanInv_def Notify_def Let_def nth_append less_Suc_eq Conn_def)

lemma receive_inv:
  assumes "clientInv q" and "receive i q = Some (ok, q')"
  shows "clientInv q'"
proof -
  from assms(2) obtain chs where q': "q' = q\<lparr>qs_chans := chs\<rparr>" and chs: "recvChan i (qs_chans q) = Some (ok, chs)"
    by (auto simp: receive_def)
  from chs have "length chs = length (qs_chans q) \<and> (\<forall>j. ch_closed (chs ! j) \<longleftrightarrow> ch_closed (qs_chans q ! j))"
    by (auto simp: recvChan_def split: if_splits)
  with assms(1) show ?thesis
    by (auto simp: clientInv_def chanInv_def Conn_def q')
qed

lemma ended_stays: "conns ! j \<noteq> Live \<Longrightarrow> s \<noteq> Live \<Longrightarrow> conns[i := s] ! j \<noteq> Live"
  by (cases "i = j"; cases "i < length conns") (auto simp: list_update_beyond not_less)

text \<open>A connection that ends keeps every part of the invariant.\<close>

lemma conn_ends_inv:
  assumes "s \<noteq> Live"
  shows "closeInv k conn conns cl fin \<Longrightarrow> closeInv k conn (conns[c := s]) cl fin"
    and "loopInv l conn conns cl \<Longrightarrow> loopInv l conn (conns[c := s]) cl"
    and "connInv l conn conns \<Longrightarrow> connInv l conn (conns[c := s])"
proof -
  have *: "conns[c := s] ! j = Live \<Longrightarrow> conns ! j = Live" for j
    using assms ended_stays by blast
  show "closeInv k conn conns cl fin \<Longrightarrow> closeInv k conn (conns[c := s]) cl fin" using * by (cases k) auto
  show "loopInv l conn conns cl \<Longrightarrow> loopInv l conn (conns[c := s]) cl" using * by (cases l) auto
  show "connInv l conn conns \<Longrightarrow> connInv l conn (conns[c := s])" using * by (auto simp: connInv_def)
qed

lemma dropConn_inv: "clientInv q \<Longrightarrow> clientInv (dropConn c q)"
  by (auto simp: dropConn_def clientInv_def Conn_def intro: conn_ends_inv)

lemma closeLocked_inv:
  assumes "clientInv q" and "qs_closer q = NotClosed"
  shows "clientInv (closeLocked q)"
proof -
  from assms have open_q: "\<not> qc_closed (qs_client q)" "\<not> qc_done (qs_client q)"
    by (auto simp: clientInv_def)
  with assms have subs: "qc_notifySubs (qs_client q) = [0..<length (qs_chans q)]"
    "\<forall>i < length (qs_chans q). \<not> ch_closed (qs_chans q ! i)"
    by (auto simp: clientInv_def chanInv_def)
  obtain chs where chs: "onEach closeChan (qc_notifySubs (qs_client q)) (qs_chans q) = Some chs"
    "length chs = length (qs_chans q)" "\<And>j. ch_closed (chs ! j) \<longleftrightarrow> ch_closed (qs_chans q ! j) \<or> j < length (qs_chans q)"
    by (rule onEach_closeChan [of "qc_notifySubs (qs_client q)" "qs_chans q"]) (use subs in auto)
  moreover have "loopInv (qs_loop q) (Conn q) (qs_conns q) True"
    using assms(1) by (cases "qs_loop q") (auto simp: clientInv_def)
  ultimately show ?thesis
    using assms(1) open_q by (auto simp: closeLocked_def clientInv_def chanInv_def Conn_def)
qed

lemma closeDone_inv: "clientInv q \<Longrightarrow> qs_closer q = CloseLocked c \<Longrightarrow> clientInv (closeDone c q)"
  by (auto simp: closeDone_def clientInv_def Conn_def)

lemma closeConn_inv:
  assumes "clientInv q" and "qs_closer q = CloseDone c"
  shows "clientInv (closeConn e c q)"
  using assms by (auto simp: closeConn_def clientInv_def Conn_def connLive_def connInv_def [of _ _ "qs_conns q"]
      intro: conn_ends_inv)

lemma closeStep_inv: "clientInv q \<Longrightarrow> closeStep e q = Some q' \<Longrightarrow> clientInv q'"
  by (auto simp: closeStep_def split: closeState.splits intro: closeLocked_inv closeDone_inv closeConn_inv)

text \<open>The steps of the goroutine.\<close>

lemma move_inv:
  assumes "clientInv q" and "\<not> (\<exists>c. qs_loop q = Installing c)"
    and "loopInv l (Conn q) (qs_conns q) (qc_closed (qs_client q))" and "delayInv l"
  shows "clientInv (q\<lparr>qs_loop := l\<rparr>)"
  using assms by (auto simp: clientInv_def connInv_def Conn_def)

lemma afterWait_inv:
  assumes "clientInv q" and "qs_loop q = Watching c \<and> \<not> late \<or> qs_loop q = LateWatch c \<and> late"
    and "afterWait (waitForDrop ev late c q) q = Some q'"
  shows "clientInv q'"
proof -
  from assms(1) have done_closed: "qc_done (qs_client q) \<Longrightarrow> qc_closed (qs_client q)"
    by (cases "qs_closer q") (auto simp: clientInv_def)
  from assms obtain d where d: "waitForDrop ev late c q = Some d"
    and q': "q' = q\<lparr>qs_loop := if d then Backoff initialDelay else LoopExited\<rparr>"
    by (auto simp: afterWait_def)
  have "loopInv (if d then Backoff initialDelay else LoopExited) (Conn q) (qs_conns q) (qc_closed (qs_client q))"
    using assms(1,2) d done_closed
    by (auto simp: waitForDrop_def clientInv_def split: loopEvent.splits if_splits connState.splits)
  with assms(1,2) show ?thesis
    unfolding q' by (intro move_inv) (auto simp: initialDelay_delays)
qed

lemma install_inv:
  assumes "clientInv q" and "qs_loop q = Installing c"
  shows "clientInv (install c q)"
proof (cases "qc_closed (qs_client q)")
  case True
  then show ?thesis
    using assms by (auto simp: install_def clientInv_def Conn_def connInv_def nth_list_update intro: conn_ends_inv)
next
  case False
  then have "qs_closer q = NotClosed" using assms(1) by (cases "qs_closer q") (auto simp: clientInv_def)
  with False show ?thesis
    using assms by (auto simp: install_def clientInv_def Conn_def connInv_def)
qed

lemma notifyReconnect_sends:
  assumes "clientInv q" and "\<not> qc_closed (qs_client q)"
  obtains chs where "notifyReconnect q = q\<lparr>qs_chans := chs, qs_loop := LoopTop\<rparr>" and "length chs = length (qs_chans q)"
    and "\<And>j. ch_closed (chs ! j) \<longleftrightarrow> ch_closed (qs_chans q ! j)" and "\<And>j. j < length chs \<Longrightarrow> ch_full (chs ! j)"
proof -
  from assms have subs: "qc_notifySubs (qs_client q) = [0..<length (qs_chans q)]"
    "\<forall>i < length (qs_chans q). \<not> ch_closed (qs_chans q ! i)"
    by (auto simp: clientInv_def chanInv_def)
  obtain chs where "onEach trySend (qc_notifySubs (qs_client q)) (qs_chans q) = Some chs" "length chs = length (qs_chans q)"
    "\<And>j. ch_closed (chs ! j) \<longleftrightarrow> ch_closed (qs_chans q ! j)" "\<And>j. ch_full (chs ! j) \<longleftrightarrow> ch_full (qs_chans q ! j) \<or> j < length (qs_chans q)"
    by (rule onEach_trySend [of "qc_notifySubs (qs_client q)" "qs_chans q"]) (use subs in auto)
  with assms(2) show ?thesis by (intro that [of chs]) (auto simp: notifyReconnect_def)
qed

lemma notifyReconnect_inv:
  assumes "clientInv q" and "qs_loop q = Reconnected"
  shows "clientInv (notifyReconnect q)"
proof (cases "qc_closed (qs_client q)")
  case True
  then show ?thesis using assms move_inv [of q LoopTop] by (simp add: notifyReconnect_def)
next
  case False
  from notifyReconnect_sends [OF assms(1) this] obtain chs where
    *: "notifyReconnect q = q\<lparr>qs_chans := chs, qs_loop := LoopTop\<rparr>" "length chs = length (qs_chans q)"
       "\<And>j. ch_closed (chs ! j) \<longleftrightarrow> ch_closed (qs_chans q ! j)" by metis
  with assms False show ?thesis by (auto simp: clientInv_def chanInv_def Conn_def connInv_def)
qed

lemma backoffDial_cases:
  assumes "backoffDial ev d q = Some q'"
  shows "q' = q\<lparr>qs_loop := DialFailed d\<rparr> \<or> q' = q\<lparr>qs_conns := qs_conns q @ [Live], qs_loop := Installing (length (qs_conns q))\<rparr>"
  using assms unfolding backoffDial_def
  by (cases ev) (auto split: option.splits sum.splits)

lemma backoff_inv:
  assumes "clientInv q"
  shows "qs_loop q = Backoff d \<Longrightarrow> backoffWait ev d q = Some q' \<Longrightarrow> clientInv q'"
    and "qs_loop q = Dialing d \<Longrightarrow> backoffDial ev d q = Some q' \<Longrightarrow> clientInv q'"
    and "qs_loop q = DialFailed d \<Longrightarrow> backoffFailed ev d q = Some q' \<Longrightarrow> clientInv q'"
proof -
  have inv: "loopInv (qs_loop q) (Conn q) (qs_conns q) (qc_closed (qs_client q))" "delayInv (qs_loop q)"
    using assms by (auto simp: clientInv_def)
  show "qs_loop q = Backoff d \<Longrightarrow> backoffWait ev d q = Some q' \<Longrightarrow> clientInv q'"
    using assms inv by (auto simp: backoffWait_def split: loopEvent.splits if_splits intro!: move_inv)
  show "qs_loop q = DialFailed d \<Longrightarrow> backoffFailed ev d q = Some q' \<Longrightarrow> clientInv q'"
    using assms inv by (auto simp: backoffFailed_def next_delay split: loopEvent.splits if_splits intro!: move_inv)
  assume *: "qs_loop q = Dialing d" "backoffDial ev d q = Some q'"
  from assms have "closeInv (qs_closer q) (Conn q) (qs_conns q @ [Live]) (qc_closed (qs_client q)) (qc_done (qs_client q))"
    by (cases "qs_closer q") (auto simp: clientInv_def connInv_def)
  then have "clientInv (q\<lparr>qs_conns := qs_conns q @ [Live], qs_loop := Installing (length (qs_conns q))\<rparr>)"
    using assms inv *(1) by (auto simp: clientInv_def Conn_def connInv_def nth_append less_Suc_eq)
  moreover have "clientInv (q\<lparr>qs_loop := DialFailed d\<rparr>)" using assms inv *(1) by (intro move_inv) auto
  ultimately show "clientInv q'" using backoffDial_cases [OF *(2)] by auto
qed

lemma reconnectLoop_inv:
  assumes "clientInv q" and "reconnectLoop ev q = Some q'"
  shows "clientInv q'"
proof (cases "qs_loop q")
  case LoopTop
  then show ?thesis
    using assms by (auto simp: reconnectLoop_def registerNotifyClose_def connLive_def split: if_splits intro!: move_inv)
next
  case (Watching c)
  then show ?thesis using assms afterWait_inv [of q c False ev q'] by (simp add: reconnectLoop_def)
next
  case (LateWatch c)
  then show ?thesis using assms afterWait_inv [of q c True ev q'] by (simp add: reconnectLoop_def)
qed (use assms in \<open>auto simp: reconnectLoop_def split: if_splits
      intro: backoff_inv(1) backoff_inv(2) backoff_inv(3) install_inv notifyReconnect_inv\<close>)

lemma clientStep_inv: "clientStep q q' \<Longrightarrow> clientInv q \<Longrightarrow> clientInv q'"
  by (induction rule: clientStep.induct) (auto intro: reconnectLoop_inv closeStep_inv Notify_inv dropConn_inv receive_inv)

lemma clientReach_inv: "clientReach q \<Longrightarrow> clientInv q"
  by (induction rule: clientReach.induct) (auto intro: Open_inv clientStep_inv)

section \<open>Properties\<close>

lemma live_where: "clientInv q \<Longrightarrow> c < length (qs_conns q) \<Longrightarrow> connLive c q \<Longrightarrow> c = Conn q \<or> qs_loop q = Installing c"
  unfolding clientInv_def connInv_def connLive_def by blast

lemma installing_dead: "clientInv q \<Longrightarrow> qs_loop q = Installing c \<Longrightarrow> \<not> connLive (Conn q) q"
  by (simp add: clientInv_def connLive_def)

lemma returned_dead: "clientInv q \<Longrightarrow> qs_closer q = CloseReturned \<Longrightarrow> \<not> connLive (Conn q) q"
  by (simp add: clientInv_def connLive_def)

lemma one_live:
  assumes "clientInv q" and "connLive c q" "connLive c' q" and "c < length (qs_conns q)" "c' < length (qs_conns q)"
  shows "c = c'"
  using assms live_where installing_dead by (metis loopState.inject(6))

text \<open>(C16) In every state the client can reach from \<open>Open\<close>, whatever the interleaving of connection
  losses, reconnects, subscriptions and \<open>Close\<close>, at most one connection to the broker is live; once
  \<open>Close\<close> has returned and the reconnect goroutine has ended, none is, so a connection dialled while
  \<open>Close\<close> runs is not leaked; every subscription is open exactly while the client is not closed; and
  no channel is closed twice or sent to after it was closed (the code never panics).\<close>

theorem client_connections:
  assumes "clientReach q"
  shows "card {c. c < length (qs_conns q) \<and> connLive c q} \<le> 1
    \<and> (qs_closer q = CloseReturned \<and> qs_loop q = LoopExited \<longrightarrow> (\<forall>c < length (qs_conns q). \<not> connLive c q))
    \<and> (\<forall>i < length (qs_chans q). ch_closed (qs_chans q ! i) \<longleftrightarrow> qc_closed (qs_client q))
    \<and> qs_loop q \<noteq> LoopPanicked \<and> qs_closer q \<noteq> ClosePanicked"
proof -
  from assms have inv: "clientInv q" by (rule clientReach_inv)
  have "card {c. c < length (qs_conns q) \<and> connLive c q} \<le> Suc 0"
    by (subst card_le_Suc0_iff_eq) (auto intro: one_live [OF inv])
  moreover have "qs_closer q = CloseReturned \<and> qs_loop q = LoopExited \<longrightarrow> (\<forall>c < length (qs_conns q). \<not> connLive c q)"
    using live_where [OF inv] returned_dead [OF inv] by (metis loopState.distinct)
  moreover have "\<forall>i < length (qs_chans q). ch_closed (qs_chans q ! i) \<longleftrightarrow> qc_closed (qs_client q)"
    using inv by (auto simp: clientInv_def chanInv_def split: if_splits)
  moreover have "qs_loop q \<noteq> LoopPanicked" "qs_closer q \<noteq> ClosePanicked" using inv by (auto simp: clientInv_def)
  ultimately show ?thesis by simp
qed

lemma Close_returned:
  assumes "clientInv q" and "qs_closer q = NotClosed"
  shows "qs_closer (fst (Close e q)) = CloseReturned" and "clientInv (fst (Close e q))"
proof -
  from assms have inv: "clientInv (closeLocked q)" by (rule closeLocked_inv)
  have locked: "qs_closer (closeLocked q) = CloseLocked (qc_conn (qs_client q))"
    using inv by (auto simp: closeLocked_def clientInv_def split: option.splits)
  have "clientInv (closeDone (qc_conn (qs_client q)) (closeLocked q))" using inv locked by (rule closeDone_inv)
  moreover from inv locked have "qs_closer (closeDone (qc_conn (qs_client q)) (closeLocked q)) = CloseDone (qc_conn (qs_client q))"
    by (auto simp: closeDone_def clientInv_def)
  ultimately show "clientInv (fst (Close e q))" using assms(2) closeConn_inv by (simp add: Close_def Let_def)
  show "qs_closer (fst (Close e q)) = CloseReturned" using assms(2) by (simp add: Close_def Let_def closeConn_def)
qed

text \<open>Every later call of \<open>Close\<close> changes nothing and returns what the first one returned.\<close>

lemma Close_again: "clientInv q \<Longrightarrow> Close e' (fst (Close e q)) = Close e q"
  using Close_returned [of q e] by (cases "qs_closer q = NotClosed") (auto simp: Close_def Let_def)

text \<open>A run in which the goroutine takes a number of steps, between any steps of the others.\<close>

inductive loopRun :: "clientSystem \<Rightarrow> nat \<Rightarrow> clientSystem \<Rightarrow> bool" where
  start: "loopRun q 0 q"
| own: "loopRun q n q' \<Longrightarrow> reconnectLoop ev q' = Some q'' \<Longrightarrow> loopRun q (Suc n) q''"
| other: "loopRun q n q' \<Longrightarrow> closeStep e q' = Some q'' \<or> q'' = fst (Notify q') \<or> q'' = dropConn c q'
    \<or> receive i q' = Some (ok, q'') \<Longrightarrow> loopRun q n q''"

fun loopRank :: "loopState \<Rightarrow> nat" where
  "loopRank Reconnected = 6"
| "loopRank LoopTop = 5"
| "loopRank (Watching _) = 4"
| "loopRank (LateWatch _) = 4"
| "loopRank (Backoff _) = 3"
| "loopRank (Dialing _) = 2"
| "loopRank (DialFailed _) = 1"
| "loopRank (Installing _) = 1"
| "loopRank LoopExited = 0"
| "loopRank LoopPanicked = 0"

lemma done_closed: "clientInv q \<Longrightarrow> qc_done (qs_client q) \<Longrightarrow> qc_closed (qs_client q)"
  by (cases "qs_closer q") (auto simp: clientInv_def)

lemma reconnectLoop_client:
  assumes "reconnectLoop ev q = Some q'"
  shows "qc_done (qs_client q') = qc_done (qs_client q)"
  using assms
  by (auto simp: reconnectLoop_def afterWait_def backoffWait_def backoffFailed_def install_def notifyReconnect_def
      split: loopState.splits if_splits loopEvent.splits option.splits dest!: backoffDial_cases)

lemma afterWait_rank: "afterWait w q = Some q' \<Longrightarrow> loopRank (qs_loop q') \<le> 3"
  by (auto simp: afterWait_def)

lemma reconnectLoop_rank:
  assumes "clientInv q" and "qc_done (qs_client q)" and "reconnectLoop ev q = Some q'"
  shows "loopRank (qs_loop q') < loopRank (qs_loop q)"
  using assms done_closed [OF assms(1,2)]
  by (auto simp: reconnectLoop_def registerNotifyClose_def backoffWait_def backoffFailed_def install_def notifyReconnect_def
      split: loopState.splits if_splits loopEvent.splits option.splits dest!: backoffDial_cases afterWait_rank)

lemma others_rank:
  assumes "closeStep e q = Some q' \<or> q' = fst (Notify q) \<or> q' = dropConn c q \<or> receive i q = Some (ok, q')"
  shows "qs_loop q' = qs_loop q" and "qc_done (qs_client q) \<Longrightarrow> qc_done (qs_client q')" and "clientInv q \<Longrightarrow> clientInv q'"
  using assms
  by (auto simp: closeStep_def closeLocked_def closeDone_def closeConn_def Notify_def Let_def dropConn_def receive_def
      split: closeState.splits option.splits)
    (use assms in \<open>auto intro: closeStep_inv Notify_inv dropConn_inv receive_inv\<close>)

lemma loopRun_rank:
  assumes "loopRun q n q'" and "clientInv q" and "qc_done (qs_client q)"
  shows "clientInv q' \<and> qc_done (qs_client q') \<and> n + loopRank (qs_loop q') \<le> loopRank (qs_loop q)"
  using assms
proof (induction rule: loopRun.induct)
  case (own q n q' ev q'')
  then show ?case using reconnectLoop_rank [of q' ev q''] reconnectLoop_client [of ev q' q''] reconnectLoop_inv [of q' ev q'']
    by auto
next
  case (other q n q' e q'' c i ok)
  then show ?case using others_rank [OF other.hyps(2)] by simp
qed simp

text \<open>Steps the goroutine takes without waiting for a timer, for the broker or for the network: its own code, a
  \<open>select\<close> whose \<open>done\<close> case is ready, and a dial that comes back because its context was cancelled.\<close>

fun prompt :: "loopEvent \<Rightarrow> bool" where
  "prompt EvStep \<longleftrightarrow> True"
| "prompt EvDone \<longleftrightarrow> True"
| "prompt EvNotifyClose \<longleftrightarrow> False"
| "prompt EvTimer \<longleftrightarrow> False"
| "prompt (EvDial D) \<longleftrightarrow> de_ctxErr D \<noteq> None"

fun runLoop :: "loopEvent list \<Rightarrow> clientSystem \<Rightarrow> clientSystem option" where
  "runLoop [] q = Some q"
| "runLoop (ev # evs) q = (case reconnectLoop ev q of None \<Rightarrow> None | Some q' \<Rightarrow> runLoop evs q')"

text \<open>A dial whose context is cancelled fails, whatever the network did.\<close>

lemma cancelled_dial:
  assumes "qc_done (qs_client q)" and "qs_loop q = Dialing d" and "de_ctxErr D \<noteq> None"
  shows "reconnectLoop (EvDial D) q = Some (q\<lparr>qs_loop := DialFailed d\<rparr>)"
  using assms dialContext_ok [of D "qc_url (qs_client q)" "qc_connectionName (qs_client q)"]
  by (auto simp: reconnectLoop_def backoffDial_def reconnectDial_def split: prod.splits sum.splits)

lemma loop_prompt:
  assumes inv: "clientInv q" and fin: "qc_done (qs_client q)" and D: "de_ctxErr D \<noteq> None"
  shows "\<exists>evs q'. length evs \<le> 3 \<and> list_all prompt evs \<and> set evs \<subseteq> {EvStep, EvDone, EvDial D}
    \<and> runLoop evs q = Some q' \<and> qs_loop q' = LoopExited"
proof -
  have cl: "qc_closed (qs_client q)" using done_closed [OF inv fin] .
  have step: ?thesis if "runLoop evs q = Some q'" "qs_loop q' = LoopExited" "evs \<in> {[], [EvDone], [EvStep], [EvStep, EvDone],
      [EvStep, EvStep, EvDone], [EvDial D, EvStep]}" for evs q'
    using that D by (intro exI [of _ evs] exI [of _ q']) auto
  show ?thesis
  proof (cases "qs_loop q")
    case LoopTop
    with fin show ?thesis
      by (intro step [of "[EvStep, EvDone]" "q\<lparr>qs_loop := LoopExited\<rparr>"])
        (simp_all add: reconnectLoop_def registerNotifyClose_def afterWait_def waitForDrop_def)
  next
    case (Watching c)
    with fin show ?thesis
      by (intro step [of "[EvDone]" "q\<lparr>qs_loop := LoopExited\<rparr>"]) (simp_all add: reconnectLoop_def afterWait_def waitForDrop_def)
  next
    case (LateWatch c)
    with fin show ?thesis
      by (intro step [of "[EvDone]" "q\<lparr>qs_loop := LoopExited\<rparr>"]) (simp_all add: reconnectLoop_def afterWait_def waitForDrop_def)
  next
    case (Backoff d)
    with fin show ?thesis
      by (intro step [of "[EvDone]" "q\<lparr>qs_loop := LoopExited\<rparr>"]) (simp_all add: reconnectLoop_def backoffWait_def)
  next
    case (Dialing d)
    with fin show ?thesis
      by (intro step [of "[EvDial D, EvStep]" "q\<lparr>qs_loop := LoopExited\<rparr>"])
        (simp_all add: cancelled_dial [OF fin Dialing D], simp add: reconnectLoop_def backoffFailed_def)
  next
    case (DialFailed d)
    with fin show ?thesis
      by (intro step [of "[EvStep]" "q\<lparr>qs_loop := LoopExited\<rparr>"]) (simp_all add: reconnectLoop_def backoffFailed_def)
  next
    case (Installing c)
    with cl show ?thesis
      by (intro step [of "[EvStep]" "q\<lparr>qs_conns := (qs_conns q)[c := Shut], qs_loop := LoopExited\<rparr>"])
        (simp_all add: reconnectLoop_def install_def)
  next
    case Reconnected
    with fin cl show ?thesis
      by (intro step [of "[EvStep, EvStep, EvDone]" "q\<lparr>qs_loop := LoopExited\<rparr>"])
        (simp_all add: reconnectLoop_def notifyReconnect_def registerNotifyClose_def afterWait_def waitForDrop_def)
  next
    case LoopExited
    then show ?thesis by (intro step [of "[]" q]) simp_all
  next
    case LoopPanicked
    with inv show ?thesis by (simp add: clientInv_def)
  qed
qed

text \<open>(C19) \<open>Close\<close> ends the reconnect goroutine, and at once. From the moment it has closed \<open>done\<close>, however the steps
  of the others are interleaved, the goroutine takes at most six more steps of its own. And wherever it stands it
  can end without waiting: at most three of its steps lead to its end, and each of them is its own code, a
  \<open>select\<close> whose \<open>done\<close> case is ready (in the wait for a drop and in the back-off), or a dial that returns because
  its context was cancelled, however the network behaves; no timer has to run out and no broker has to answer.\<close>

theorem close_ends_loop:
  assumes "clientReach q" and "qc_done (qs_client q)" and "loopRun q n q'" and "de_ctxErr D \<noteq> None"
  shows "n \<le> 6 \<and> (\<exists>evs q''. length evs \<le> 3 \<and> list_all prompt evs \<and> set evs \<subseteq> {EvStep, EvDone, EvDial D}
    \<and> runLoop evs q' = Some q'' \<and> qs_loop q'' = LoopExited)"
proof -
  have "loopRank (qs_loop q) \<le> 6" by (cases "qs_loop q") auto
  with loopRun_rank [OF assms(3) clientReach_inv [OF assms(1)] assms(2)] loop_prompt [of q' D] assms(4)
  show ?thesis by auto
qed

definition backoffDelay :: "nat \<Rightarrow> duration" where
  "backoffDelay n = min (2 ^ n * Second) (30 * Second)"

lemma backoffDelay_next: "min (backoffDelay n * factor) maxDelay = backoffDelay (Suc n)"
  by (auto simp: backoffDelay_def factor_def maxDelay_def Second_def)

lemma failed_attempt:
  assumes "qs_loop q = Backoff d" and "\<not> qc_done (qs_client q)" and "de_ctxErr D = None"
    and "snd (dialContext D (qc_url (qs_client q)) (qc_connectionName (qs_client q))) \<noteq> Inr ()"
  shows "runLoop [EvTimer, EvDial D, EvStep] q = Some (q\<lparr>qs_loop := Backoff (min (d * factor) maxDelay)\<rparr>)"
  using assms
  by (auto simp: reconnectLoop_def backoffWait_def backoffDial_def reconnectDial_def backoffFailed_def
      split: prod.splits sum.splits)

lemma runLoop_append: "runLoop (xs @ ys) q = (case runLoop xs q of None \<Rightarrow> None | Some q' \<Rightarrow> runLoop ys q')"
  by (induction xs arbitrary: q) (auto split: option.splits)

lemma failed_attempts:
  assumes "qs_loop q = Backoff (backoffDelay n)" and "\<not> qc_done (qs_client q)"
    and "\<forall>D \<in> set Ds. de_ctxErr D = None \<and> snd (dialContext D (qc_url (qs_client q)) (qc_connectionName (qs_client q))) \<noteq> Inr ()"
  shows "runLoop (concat (map (\<lambda>D. [EvTimer, EvDial D, EvStep]) Ds)) q
    = Some (q\<lparr>qs_loop := Backoff (backoffDelay (n + length Ds))\<rparr>)"
  using assms
proof (induction Ds arbitrary: q n)
  case (Cons D Ds)
  let ?q = "q\<lparr>qs_loop := Backoff (backoffDelay (Suc n))\<rparr>"
  have "runLoop [EvTimer, EvDial D, EvStep] q = Some ?q"
    using Cons.prems by (subst failed_attempt) (auto simp: backoffDelay_next)
  moreover have "runLoop (concat (map (\<lambda>D. [EvTimer, EvDial D, EvStep]) Ds)) ?q
    = Some (?q\<lparr>qs_loop := Backoff (backoffDelay (Suc n + length Ds))\<rparr>)"
    using Cons.prems by (intro Cons.IH) auto
  ultimately show ?case by (simp only: list.map concat.simps runLoop_append) simp
qed simp

text \<open>(C32) After a dropped connection the wait before the dial that follows \<open>n\<close> failed ones is
  \<open>min(2^n, 30)\<close> seconds, as long as \<open>Close\<close> has not been called: the goroutine keeps dialling, the wait
  doubles and never leaves the range from 1 to 30 seconds.\<close>

theorem backoff_doubles:
  assumes "qs_loop q = Backoff initialDelay" and "\<not> qc_done (qs_client q)"
    and "\<forall>D \<in> set Ds. de_ctxErr D = None \<and> snd (dialContext D (qc_url (qs_client q)) (qc_connectionName (qs_client q))) \<noteq> Inr ()"
  shows "\<exists>d. runLoop (concat (map (\<lambda>D. [EvTimer, EvDial D, EvStep]) Ds)) q = Some (q\<lparr>qs_loop := Backoff d\<rparr>)
    \<and> d = min (2 ^ length Ds * Second) (30 * Second) \<and> 1 * Second \<le> d \<and> d \<le> 30 * Second"
proof -
  have "initialDelay = backoffDelay 0" by (simp add: initialDelay_def backoffDelay_def Second_def)
  with failed_attempts [of q 0 Ds] assms show ?thesis
    by (auto simp: backoffDelay_def Second_def)
qed

text \<open>A client whose goroutine has stopped, or watches a connection that had already ended.\<close>

definition abandoned :: "clientSystem \<Rightarrow> bool" where
  "abandoned q \<longleftrightarrow> (qs_loop q = LoopExited \<or> qs_loop q = LateWatch (Conn q)) \<and> \<not> connLive (Conn q) q
     \<and> Conn q < length (qs_conns q)"

lemma abandoned_step: "clientStep q q' \<Longrightarrow> abandoned q \<Longrightarrow> abandoned q' \<and> Conn q' = Conn q"
proof (induction rule: clientStep.induct)
  case (loop ev q q')
  then show ?case
    by (auto simp: abandoned_def reconnectLoop_def afterWait_def waitForDrop_def Conn_def connLive_def split: loopEvent.splits if_splits)
next
  case (closing e q q')
  then show ?case
    by (auto simp: abandoned_def closeStep_def closeLocked_def closeDone_def closeConn_def Conn_def connLive_def ended_stays
        split: closeState.splits option.splits if_splits)
next
  case (notify q)
  then show ?case by (auto simp: abandoned_def Notify_def Let_def Conn_def connLive_def)
next
  case (dropped c q)
  then show ?case by (auto simp: abandoned_def dropConn_def Conn_def connLive_def ended_stays)
next
  case (received i q ok q')
  then show ?case by (auto simp: abandoned_def receive_def Conn_def connLive_def)
qed

lemma abandoned_steps: "clientStep\<^sup>*\<^sup>* q q' \<Longrightarrow> abandoned q \<Longrightarrow> abandoned q' \<and> Conn q' = Conn q"
  by (induction rule: rtranclp_induct) (auto dest: abandoned_step)

text \<open>(C28) A connection that is lost before the goroutine has registered its close listener is never
  replaced: the listener is then closed without an error, the goroutine takes this for a clean shutdown
  and ends, although \<open>Close\<close> was not called, and from there no step ever gives the client a live
  connection again.\<close>

theorem early_drop_abandons:
  assumes "Open D cfg = Inr q"
  shows "\<exists>q'. clientStep\<^sup>*\<^sup>* q q' \<and> \<not> qc_closed (qs_client q') \<and> qs_loop q' = LoopExited
    \<and> (\<forall>q''. clientStep\<^sup>*\<^sup>* q' q'' \<longrightarrow> \<not> connLive (Conn q'') q'')"
proof -
  from assms have q: "qs_loop q = LoopTop" "qs_conns q = [Live]" "Conn q = 0" "\<not> qc_closed (qs_client q)"
    by (auto simp: Open_def Let_def Conn_def split: if_splits prod.splits sum.splits)
  let ?q1 = "dropConn 0 q" and ?q2 = "(dropConn 0 q)\<lparr>qs_loop := LateWatch 0\<rparr>" and ?q3 = "(dropConn 0 q)\<lparr>qs_loop := LoopExited\<rparr>"
  have dead: "qs_conns (dropConn 0 q) = [Dropped]" "qs_loop (dropConn 0 q) = LoopTop" "Conn (dropConn 0 q) = 0"
    "qs_client (dropConn 0 q) = qs_client q"
    using q by (simp_all add: dropConn_def connLive_def Conn_def)
  have s1: "clientStep q ?q1" using q by (intro clientStep.dropped) simp
  have "reconnectLoop EvStep ?q1 = Some ?q2"
    using dead by (simp add: reconnectLoop_def registerNotifyClose_def connLive_def)
  then have s2: "clientStep ?q1 ?q2" by (rule clientStep.loop)
  have "reconnectLoop EvNotifyClose ?q2 = Some ?q3"
    by (simp add: reconnectLoop_def afterWait_def waitForDrop_def)
  then have s3: "clientStep ?q2 ?q3" by (rule clientStep.loop)
  have "clientStep\<^sup>*\<^sup>* q ?q3"
    by (rule converse_rtranclp_into_rtranclp [of clientStep, OF s1 converse_rtranclp_into_rtranclp [of clientStep, OF s2 r_into_rtranclp [of clientStep, OF s3]]])
  moreover have ab: "abandoned ?q3" using dead by (simp add: abandoned_def connLive_def Conn_def)
  have "\<not> connLive (Conn q'') q''" if "clientStep\<^sup>*\<^sup>* ?q3 q''" for q''
    using abandoned_steps [OF that ab] unfolding abandoned_def by blast
  ultimately show ?thesis using q(4) dead(4) by (intro exI [of _ ?q3] conjI allI impI) simp_all
qed

section \<open>Witnesses\<close>

definition demo_dial :: "err option \<Rightarrow> dialEnv" where
  "demo_dial e =
     \<lparr>de_ParseURI = (\<lambda>_. Inr 0), de_now = 0, de_ctxDeadline = None, de_setup = (\<lambda>_. None), de_tcp = (\<lambda>_. e),
      de_setDeadline = (\<lambda>_. None), de_handshake = (\<lambda>_. None), de_ctxErr = None\<rparr>"

definition demo_client :: clientSystem where
  "demo_client =
     \<lparr>qs_client = \<lparr>qc_url = ''amqp://mq'', qc_connectionName = ''api'', qc_conn = 0, qc_closed = False,
        qc_notifySubs = [], qc_done = False, qc_closeErr = None\<rparr>,
      qs_chans = [], qs_conns = [Live], qs_loop = LoopTop, qs_closer = NotClosed\<rparr>"

lemma demo_dialContext:
  "dialContext (demo_dial None) url name = (SocketOpen, Inr ())"
  "dialContext (demo_dial (Some e)) url name = (NoSocket, Inl e)"
  by (simp_all add: dialContext_def demo_dial_def connectionTimeout_def DialConfig_def dialCallback_def)

lemma demo_opened: "Open (demo_dial None) \<lparr>cl_URL = ''amqp://mq'', cl_ConnectionName = ''api''\<rparr> = Inr demo_client"
proof -
  have "TrimSpace ''amqp://mq'' = ''amqp://mq''" "TrimSpace ''api'' = ''api''" by code_simp+
  then show ?thesis by (simp add: Open_def demo_dialContext demo_client_def)
qed

text \<open>The client after its connection dropped, \<open>Close\<close> ran and a dial in flight succeeded.\<close>

definition demo_run :: "clientSystem option" where
  "demo_run =
     (case runLoop [EvStep] demo_client of None \<Rightarrow> None | Some q1 \<Rightarrow>
        runLoop [EvNotifyClose, EvTimer] (dropConn 0 q1))"

lemma demo_dialling:
  "demo_run = Some (demo_client\<lparr>qs_conns := [Dropped], qs_loop := Dialing initialDelay\<rparr>)"
  by (simp add: demo_run_def reconnectLoop_def registerNotifyClose_def connLive_def dropConn_def Conn_def afterWait_def
      waitForDrop_def backoffWait_def demo_client_def)

lemma runLoop_reach: "clientReach q \<Longrightarrow> runLoop evs q = Some q' \<Longrightarrow> clientReach q'"
  by (induction evs arbitrary: q) (auto split: option.splits dest: clientReach.step [OF _ clientStep.loop])

lemma demo_reach: "clientReach (demo_client\<lparr>qs_conns := [Dropped], qs_loop := Dialing initialDelay\<rparr>)"
proof -
  from demo_dialling obtain q1 where 1: "runLoop [EvStep] demo_client = Some q1"
    and 2: "runLoop [EvNotifyClose, EvTimer] (dropConn 0 q1) = Some (demo_client\<lparr>qs_conns := [Dropped], qs_loop := Dialing initialDelay\<rparr>)"
    unfolding demo_run_def by (auto split: option.splits)
  from demo_opened have "clientReach demo_client" by (rule clientReach.opened)
  then have r: "clientReach q1" using 1 by (rule runLoop_reach)
  have "clientStep q1 (dropConn 0 q1)"
    by (rule clientStep.dropped) (use clientReach_inv [OF r] in \<open>auto simp: clientInv_def connInv_def\<close>)
  with r have "clientReach (dropConn 0 q1)" by (rule clientReach.step)
  then show ?thesis using 2 by (rule runLoop_reach)
qed

text \<open>While that dial is in flight, \<open>Close\<close> runs to its end; then the dial succeeds.\<close>

definition demo_closing :: clientSystem where
  "demo_closing =
     \<lparr>qs_client = \<lparr>qc_url = ''amqp://mq'', qc_connectionName = ''api'', qc_conn = 0, qc_closed = True,
        qc_notifySubs = [], qc_done = True, qc_closeErr = None\<rparr>,
      qs_chans = [], qs_conns = [Dropped], qs_loop = Dialing initialDelay, qs_closer = CloseDone 0\<rparr>"

lemma demo_closing_reach: "clientReach demo_closing"
proof -
  let ?q = "demo_client\<lparr>qs_conns := [Dropped], qs_loop := Dialing initialDelay\<rparr>"
  have "closeStep None ?q = Some (closeLocked ?q)" "closeStep None (closeLocked ?q) = Some demo_closing"
    by (simp_all add: closeStep_def closeLocked_def closeDone_def demo_client_def demo_closing_def)
  then show ?thesis using demo_reach by (blast intro: clientReach.step clientStep.closing)
qed

lemma demo_late_dial:
  "runLoop [EvDial (demo_dial None), EvStep] demo_closing
    = Some (demo_closing\<lparr>qs_conns := [Dropped, Shut], qs_loop := LoopExited\<rparr>)"
  by (simp add: reconnectLoop_def backoffDial_def reconnectDial_def demo_dialContext demo_closing_def install_def)

lemma demo_ended_reach:
  "clientReach (demo_closing\<lparr>qs_conns := [Dropped, Shut], qs_loop := LoopExited, qs_closer := CloseReturned\<rparr>)"
proof -
  let ?q = "demo_closing\<lparr>qs_conns := [Dropped, Shut], qs_loop := LoopExited\<rparr>"
  have "clientReach ?q" using demo_closing_reach demo_late_dial by (rule runLoop_reach)
  moreover have "closeStep None ?q = Some (?q\<lparr>qs_closer := CloseReturned\<rparr>)"
    by (simp add: closeStep_def closeConn_def connLive_def demo_closing_def)
  ultimately show ?thesis by (blast intro: clientReach.step clientStep.closing)
qed

theorem client_connections_witness:
  "(let q = demo_closing\<lparr>qs_conns := [Dropped, Shut], qs_loop := LoopExited, qs_closer := CloseReturned\<rparr>
    in \<not> connLive 0 q \<and> \<not> connLive 1 q \<and> card {c. c < length (qs_conns q) \<and> connLive c q} \<le> 1)"
  using client_connections [OF demo_ended_reach] by (simp add: Let_def)

text \<open>The same client a step later, with a dial that succeeds although \<open>Close\<close> has run, and one that is cancelled.\<close>

theorem close_ends_loop_witness:
  "\<exists>q'. loopRun demo_closing 1 q' \<and> qs_loop q' = Installing 1
     \<and> (\<exists>evs q''. length evs \<le> 3 \<and> list_all prompt evs \<and> runLoop evs q' = Some q'' \<and> qs_loop q'' = LoopExited)
     \<and> (\<exists>evs q''. length evs \<le> 3 \<and> list_all prompt evs \<and> runLoop evs demo_closing = Some q'' \<and> qs_loop q'' = LoopExited)"
proof -
  let ?D = "(demo_dial None)\<lparr>de_ctxErr := Some (Sentinel context_Canceled)\<rparr>"
  let ?q1 = "demo_closing\<lparr>qs_conns := [Dropped, Live], qs_loop := Installing 1\<rparr>"
  have "reconnectLoop (EvDial (demo_dial None)) demo_closing = Some ?q1"
    by (simp_all add: reconnectLoop_def backoffDial_def reconnectDial_def demo_dialContext demo_closing_def)
  then have run: "loopRun demo_closing (Suc 0) ?q1" by (blast intro: loopRun.start loopRun.own)
  have fin: "qc_done (qs_client demo_closing)" and D: "de_ctxErr ?D \<noteq> None" by (simp_all add: demo_closing_def)
  have "loopRun demo_closing 1 ?q1 \<and> qs_loop ?q1 = Installing 1" using run by simp
  with close_ends_loop [OF demo_closing_reach fin run D] close_ends_loop [OF demo_closing_reach fin loopRun.start D]
  show ?thesis by blast
qed

theorem backoff_doubles_witness:
  "(let q = demo_client\<lparr>qs_conns := [Dropped], qs_loop := Backoff initialDelay\<rparr>;
        D = demo_dial (Some (Errorf ''connection refused''))
    in runLoop (concat (map (\<lambda>D. [EvTimer, EvDial D, EvStep]) [D, D, D])) q = Some (q\<lparr>qs_loop := Backoff (8 * Second)\<rparr>))"
  using backoff_doubles [of "demo_client\<lparr>qs_conns := [Dropped], qs_loop := Backoff initialDelay\<rparr>"
      "[demo_dial (Some (Errorf ''connection refused'')), demo_dial (Some (Errorf ''connection refused'')),
        demo_dial (Some (Errorf ''connection refused''))]"]
  by (simp add: Let_def demo_dialContext demo_client_def Second_def) (simp add: demo_dial_def)

theorem early_drop_abandons_witness:
  "\<exists>q'. clientStep\<^sup>*\<^sup>* demo_client q' \<and> \<not> qc_closed (qs_client q') \<and> (\<forall>q''. clientStep\<^sup>*\<^sup>* q' q'' \<longrightarrow> \<not> connLive (Conn q'') q'')"
  using early_drop_abandons [OF demo_opened] by blast

end
