(* ===== verification/Queue_Consumer.thy ===== *)
theory Queue_Consumer
  imports Queue_Client
begin

text \<open>
  The consumer's \<open>Run\<close> (\<open>internal/infra/queue/consumer.go\<close>) next to the queue client it reads its
  connections from: the session loop, waiting for a connection, setting up the channel, the delivery
  loop and the retry after a lost connection. Each \<open>select\<close>, read of the shared connection and broker
  call is one step; \<open>consumerStep\<close> interleaves the consumer with the client's goroutine, \<open>Close\<close>, other
  subscribers, the network, the broker and the cancellation of the context.

  The lemmas: a waiting consumer does not miss a reconnect; \<open>Run\<close> returns only when its context ended,
  the client was closed or the broker refused a request on a connection that was up; and every
  delivery is handled once, in order, and settled according to the handler's result.
\<close>

section \<open>Broker calls of a session\<close>

text \<open>Next to the calls of \<open>amqp\<close>: \<open>Qos\<close> and \<open>Consume\<close> on the session's channel.\<close>

record 'b sessionCalls =
  sc_amqp :: "'b amqp"
  Qos :: "int \<Rightarrow> 'b \<Rightarrow> 'b \<times> unit result"
  Consume :: "string \<Rightarrow> string \<Rightarrow> 'b \<Rightarrow> 'b \<times> unit result"

fun errors_AsAmqp :: "err \<Rightarrow> int option" where
  "errors_AsAmqp (AmqpError code) = Some code"
| "errors_AsAmqp (Wrap _ e) = errors_AsAmqp e"
| "errors_AsAmqp _ = None"

definition ConnectionForced :: int where
  "ConnectionForced = 320"

definition connectionUnavailable :: "nat \<Rightarrow> err \<Rightarrow> clientSystem \<Rightarrow> bool" where
  "connectionUnavailable c e q =
     (if \<not> connLive c q then True
      else if errors_Is e amqp_ErrClosed then True
      else case errors_AsAmqp e of Some code \<Rightarrow> code = ConnectionForced | None \<Rightarrow> False)"

section \<open>State\<close>

datatype consumerState =
    Idle
  | RunTop
  | WaitConn
  | WaitConnCheck nat
  | WaitConnBlocked nat
  | OpenChannel nat
  | DeclareTopology nat
  | SetQos nat
  | StartConsume nat
  | Consuming nat
  | WaitRetry
  | WaitRetryCheck nat
  | WaitRetryBlocked nat
  | Returned err

record ('b, 'w) consumerSystem =
  cn_client :: clientSystem
  cn_consumer :: Consumer
  cn_notify :: nat
  cn_running :: bool
  cn_pc :: consumerState
  cn_ctx :: "err option"
  cn_broker :: 'b
  cn_world :: 'w
  cn_settled :: "(Delivery \<times> settlement) list"

datatype consumerEvent = CvStep | CvCtxDone | CvNotify | CvDelivery Delivery | CvDeliveriesClosed

abbreviation errClientClosed :: err where
  "errClientClosed \<equiv> Errorf ''queue: consume: client closed''"

text \<open>\<open>NewConsumer\<close> subscribes to the client's reconnects.\<close>

definition newConsumerSystem :: "'b amqp \<Rightarrow> ConsumerConfig \<Rightarrow> clientSystem \<Rightarrow> 'b \<Rightarrow> 'w \<Rightarrow> ('b, 'w) consumerSystem result" where
  "newConsumerSystem A cfg q b w =
     (case NewConsumer (Some A) cfg of
        Inl e \<Rightarrow> Inl e
      | Inr c \<Rightarrow>
          Inr \<lparr>cn_client = fst (Notify q), cn_consumer = c, cn_notify = snd (Notify q), cn_running = False,
               cn_pc = Idle, cn_ctx = None, cn_broker = b, cn_world = w, cn_settled = []\<rparr>)"

section \<open>Run\<close>

text \<open>The start of \<open>Run\<close>: a missing handler is \<open>None\<close>, and \<open>running\<close> is taken by compare-and-swap.\<close>

definition RunStart :: "(Delivery \<Rightarrow> 'w \<Rightarrow> 'w \<times> unit result) option \<Rightarrow> err option
    \<Rightarrow> ('b, 'w) consumerSystem \<Rightarrow> ('b, 'w) consumerSystem \<times> err option" where
  "RunStart handler ctx s =
     (case handler of
        None \<Rightarrow> (s, Some (Errorf ''queue: consume: handler is required''))
      | Some _ \<Rightarrow>
          (if cn_running s then (s, Some (Errorf ''queue: consume: already running''))
           else (s\<lparr>cn_running := True, cn_pc := RunTop, cn_ctx := ctx\<rparr>, None)))"

definition goto :: "consumerState \<Rightarrow> ('b, 'w) consumerSystem \<Rightarrow> ('b, 'w) consumerSystem option" where
  "goto pc s = Some (s\<lparr>cn_pc := pc\<rparr>)"

text \<open>\<open>Run\<close> returns: the deferred \<open>running.Store(false)\<close>.\<close>

definition return :: "err \<Rightarrow> ('b, 'w) consumerSystem \<Rightarrow> ('b, 'w) consumerSystem option" where
  "return e s = Some (s\<lparr>cn_pc := Returned e, cn_running := False\<rparr>)"

text \<open>A receive from \<open>notify\<close>: what follows a value; the end of the channel ends \<open>Run\<close>.\<close>

definition onNotify :: "consumerState \<Rightarrow> ('b, 'w) consumerSystem \<Rightarrow> ('b, 'w) consumerSystem option" where
  "onNotify pc s =
     (case receive (cn_notify s) (cn_client s) of
        None \<Rightarrow> None
      | Some (ok, q) \<Rightarrow> if ok then goto pc (s\<lparr>cn_client := q\<rparr>) else return errClientClosed s)"

definition onCtxDone :: "('b, 'w) consumerSystem \<Rightarrow> ('b, 'w) consumerSystem option" where
  "onCtxDone s = (case cn_ctx s of None \<Rightarrow> None | Some e \<Rightarrow> return e s)"

text \<open>\<open>waitForConnection\<close> and \<open>waitAndRetry\<close>: the check of the context, the read of the shared
  connection, the test of \<open>IsClosed\<close>, and the \<open>select\<close>.\<close>

definition waitEnter :: "(nat \<Rightarrow> consumerState) \<Rightarrow> ('b, 'w) consumerSystem \<Rightarrow> ('b, 'w) consumerSystem option" where
  "waitEnter check s =
     (case cn_ctx s of Some e \<Rightarrow> return e s | None \<Rightarrow> goto (check (Conn (cn_client s))) s)"

definition waitSelect :: "consumerEvent \<Rightarrow> consumerState \<Rightarrow> ('b, 'w) consumerSystem \<Rightarrow> ('b, 'w) consumerSystem option" where
  "waitSelect ev pc s =
     (case ev of CvCtxDone \<Rightarrow> onCtxDone s | CvNotify \<Rightarrow> onNotify pc s | _ \<Rightarrow> None)"

definition waitForConnection :: "consumerEvent \<Rightarrow> ('b, 'w) consumerSystem \<Rightarrow> ('b, 'w) consumerSystem option" where
  "waitForConnection ev s =
     (case cn_pc s of
        WaitConn \<Rightarrow> (if ev = CvStep then waitEnter WaitConnCheck s else None)
      | WaitConnCheck c \<Rightarrow>
          (if ev = CvStep then goto (if connLive c (cn_client s) then OpenChannel c else WaitConnBlocked c) s else None)
      | WaitConnBlocked c \<Rightarrow> waitSelect ev WaitConn s
      | _ \<Rightarrow> None)"

definition waitAndRetry :: "consumerEvent \<Rightarrow> ('b, 'w) consumerSystem \<Rightarrow> ('b, 'w) consumerSystem option" where
  "waitAndRetry ev s =
     (case cn_pc s of
        WaitRetry \<Rightarrow> (if ev = CvStep then waitEnter WaitRetryCheck s else None)
      | WaitRetryCheck c \<Rightarrow>
          (if ev = CvStep then goto (if connLive c (cn_client s) then RunTop else WaitRetryBlocked c) s else None)
      | WaitRetryBlocked c \<Rightarrow> waitSelect ev RunTop s
      | _ \<Rightarrow> None)"

text \<open>A set-up call of the session: it goes on, waits for a new connection when this one is
  unavailable, or ends \<open>Run\<close> with the error.\<close>

definition setupCall :: "('b \<Rightarrow> 'b \<times> unit result) \<Rightarrow> string \<Rightarrow> nat \<Rightarrow> consumerState
    \<Rightarrow> ('b, 'w) consumerSystem \<Rightarrow> ('b, 'w) consumerSystem option" where
  "setupCall call message c pc s =
     (case call (cn_broker s) of
        (b, Inr _) \<Rightarrow> goto pc (s\<lparr>cn_broker := b\<rparr>)
      | (b, Inl e) \<Rightarrow>
          (if connectionUnavailable c e (cn_client s) then goto WaitRetry (s\<lparr>cn_broker := b\<rparr>)
           else return (Wrap message e) (s\<lparr>cn_broker := b\<rparr>)))"

definition openChannel :: "'b amqp \<Rightarrow> 'b \<Rightarrow> 'b \<times> unit result" where
  "openChannel A b = (b, case Channel A b of Some e \<Rightarrow> Inl e | None \<Rightarrow> Inr ())"

definition declareTopology :: "'b amqp \<Rightarrow> Topology option \<Rightarrow> 'b \<Rightarrow> 'b \<times> unit result" where
  "declareTopology A topology b = (case topology of None \<Rightarrow> (b, Inr ()) | Some t \<Rightarrow> Declare A t b)"

text \<open>The delivery loop: one \<open>select\<close>.\<close>

definition deliveryLoop :: "(Delivery \<Rightarrow> 'w \<Rightarrow> 'w \<times> unit result) \<Rightarrow> consumerEvent
    \<Rightarrow> ('b, 'w) consumerSystem \<Rightarrow> ('b, 'w) consumerSystem option" where
  "deliveryLoop handler ev s =
     (case ev of
        CvCtxDone \<Rightarrow> onCtxDone s
      | CvNotify \<Rightarrow> onNotify RunTop s
      | CvDelivery d \<Rightarrow>
          (case handleDelivery handler d (cn_world s) of
             (w, settlement) \<Rightarrow> Some (s\<lparr>cn_world := w, cn_settled := cn_settled s @ [(d, settlement)]\<rparr>))
      | CvDeliveriesClosed \<Rightarrow> (case cn_ctx s of Some e \<Rightarrow> return e s | None \<Rightarrow> goto WaitRetry s)
      | CvStep \<Rightarrow> None)"

definition runSession :: "'b sessionCalls \<Rightarrow> (Delivery \<Rightarrow> 'w \<Rightarrow> 'w \<times> unit result) \<Rightarrow> consumerEvent
    \<Rightarrow> ('b, 'w) consumerSystem \<Rightarrow> ('b, 'w) consumerSystem option" where
  "runSession B handler ev s =
     (case cn_pc s of
        OpenChannel c \<Rightarrow>
          (if ev = CvStep then setupCall (openChannel (sc_amqp B)) ''queue: consume: open channel'' c (DeclareTopology c) s else None)
      | DeclareTopology c \<Rightarrow>
          (if ev = CvStep
           then setupCall (declareTopology (sc_amqp B) (cs_topology (cn_consumer s))) ''queue: consume: declare'' c (SetQos c) s
           else None)
      | SetQos c \<Rightarrow>
          (if ev = CvStep then setupCall (Qos B (cs_prefetch (cn_consumer s))) ''queue: consume: qos'' c (StartConsume c) s else None)
      | StartConsume c \<Rightarrow>
          (if ev = CvStep
           then setupCall (Consume B (cs_queue (cn_consumer s)) (cs_tag (cn_consumer s))) ''queue: consume'' c (Consuming c) s
           else None)
      | Consuming c \<Rightarrow> deliveryLoop handler ev s
      | _ \<Rightarrow> None)"

text \<open>One step of \<open>Run\<close>.\<close>

definition Run :: "'b sessionCalls \<Rightarrow> (Delivery \<Rightarrow> 'w \<Rightarrow> 'w \<times> unit result) \<Rightarrow> consumerEvent
    \<Rightarrow> ('b, 'w) consumerSystem \<Rightarrow> ('b, 'w) consumerSystem option" where
  "Run B handler ev s =
     (case cn_pc s of
        Idle \<Rightarrow> None
      | Returned _ \<Rightarrow> None
      | RunTop \<Rightarrow> (if ev = CvStep then (case cn_ctx s of Some e \<Rightarrow> return e s | None \<Rightarrow> goto WaitConn s) else None)
      | WaitConn \<Rightarrow> waitForConnection ev s
      | WaitConnCheck c \<Rightarrow> waitForConnection ev s
      | WaitConnBlocked c \<Rightarrow> waitForConnection ev s
      | WaitRetry \<Rightarrow> waitAndRetry ev s
      | WaitRetryCheck c \<Rightarrow> waitAndRetry ev s
      | WaitRetryBlocked c \<Rightarrow> waitAndRetry ev s
      | _ \<Rightarrow> runSession B handler ev s)"

section \<open>Interleaving\<close>

text \<open>The client's steps other than a receive by this consumer.\<close>

inductive environmentStep :: "nat \<Rightarrow> clientSystem \<Rightarrow> clientSystem \<Rightarrow> bool" for n where
  env_loop: "reconnectLoop ev q = Some q' \<Longrightarrow> environmentStep n q q'"
| env_close: "closeStep e q = Some q' \<Longrightarrow> environmentStep n q q'"
| env_notify: "environmentStep n q (fst (Notify q))"
| env_drop: "c < length (qs_conns q) \<Longrightarrow> environmentStep n q (dropConn c q)"
| env_receive: "i < length (qs_chans q) \<Longrightarrow> i \<noteq> n \<Longrightarrow> receive i q = Some (ok, q') \<Longrightarrow> environmentStep n q q'"

inductive consumerStep :: "'b sessionCalls \<Rightarrow> (Delivery \<Rightarrow> 'w \<Rightarrow> 'w \<times> unit result)
    \<Rightarrow> ('b, 'w) consumerSystem \<Rightarrow> ('b, 'w) consumerSystem \<Rightarrow> bool" for B handler where
  start: "RunStart (Some handler) ctx s = (s', None) \<Longrightarrow> consumerStep B handler s s'"
| run: "Run B handler ev s = Some s' \<Longrightarrow> consumerStep B handler s s'"
| client: "environmentStep (cn_notify s) (cn_client s) q \<Longrightarrow> consumerStep B handler s (s\<lparr>cn_client := q\<rparr>)"
| cancel: "cn_ctx s = None \<Longrightarrow> consumerStep B handler s (s\<lparr>cn_ctx := Some e\<rparr>)"
| broker: "consumerStep B handler s (s\<lparr>cn_broker := b\<rparr>)"

inductive consumerReach :: "'b sessionCalls \<Rightarrow> (Delivery \<Rightarrow> 'w \<Rightarrow> 'w \<times> unit result) \<Rightarrow> 'w
    \<Rightarrow> ('b, 'w) consumerSystem \<Rightarrow> bool" for B handler w where
  created: "clientReach q \<Longrightarrow> newConsumerSystem (sc_amqp B) cfg q b w = Inr s \<Longrightarrow> consumerReach B handler w s"
| steps: "consumerReach B handler w s \<Longrightarrow> consumerStep B handler s s' \<Longrightarrow> consumerReach B handler w s'"

section \<open>No reconnect is missed\<close>

text \<open>Connections are only added and never come back to life.\<close>

definition connsGrow :: "clientSystem \<Rightarrow> clientSystem \<Rightarrow> bool" where
  "connsGrow q q' \<longleftrightarrow> length (qs_conns q) \<le> length (qs_conns q')
     \<and> (\<forall>c < length (qs_conns q). connLive c q' \<longrightarrow> connLive c q)"

lemma connsGrow_end: "s \<noteq> Live \<Longrightarrow> qs_conns q' = (qs_conns q)[c := s] \<Longrightarrow> connsGrow q q'"
  using ended_stays unfolding connsGrow_def connLive_def by fastforce

lemma connsGrow_same: "qs_conns q' = qs_conns q \<Longrightarrow> connsGrow q q'"
  by (simp add: connsGrow_def connLive_def)

lemma connsGrow_new: "qs_conns q' = qs_conns q @ [s] \<Longrightarrow> connsGrow q q'"
  by (auto simp: connsGrow_def connLive_def)

lemma afterWait_parts:
  assumes "afterWait w q = Some q'"
  shows "qs_conns q' = qs_conns q \<and> qs_client q' = qs_client q \<and> qs_chans q' = qs_chans q \<and> qs_loop q' \<noteq> Reconnected"
  using assms by (auto simp: afterWait_def split: if_splits)

lemma backoff_parts:
  shows "backoffWait ev d q = Some q' \<Longrightarrow> qs_conns q' = qs_conns q \<and> qs_client q' = qs_client q \<and> qs_chans q' = qs_chans q"
    and "backoffFailed ev d q = Some q' \<Longrightarrow> qs_conns q' = qs_conns q \<and> qs_client q' = qs_client q \<and> qs_chans q' = qs_chans q"
  by (auto simp: backoffWait_def backoffFailed_def split: loopEvent.splits if_splits)

lemma notifyReconnect_conns: "qs_conns (notifyReconnect q) = qs_conns q" "qs_client (notifyReconnect q) = qs_client q"
  by (auto simp: notifyReconnect_def split: option.splits)

lemma reconnectLoop_conns:
  assumes "reconnectLoop ev q = Some q'"
  shows "connsGrow q q'"
proof (cases "qs_loop q")
  case LoopTop
  then show ?thesis using assms by (auto simp: reconnectLoop_def split: if_splits intro: connsGrow_same)
next
  case (Dialing d)
  then show ?thesis
    using assms by (auto simp: reconnectLoop_def dest!: backoffDial_cases intro: connsGrow_same connsGrow_new)
next
  case (Installing c)
  then have "q' = install c q" using assms by (auto simp: reconnectLoop_def split: if_splits)
  then show ?thesis by (auto simp: install_def intro: connsGrow_same connsGrow_end [of Shut])
qed (use assms in \<open>auto simp: reconnectLoop_def notifyReconnect_conns split: if_splits dest: afterWait_parts backoff_parts intro!: connsGrow_same\<close>)

lemma closeStep_conns:
  assumes "closeStep e q = Some q'"
  shows "connsGrow q q'"
  using assms
  by (auto simp: closeStep_def closeLocked_def closeDone_def closeConn_def split: closeState.splits option.splits if_splits
      intro: connsGrow_same connsGrow_end [of Shut])

lemma Notify_conns: "connsGrow q (fst (Notify q))"
  by (auto simp: Notify_def Let_def intro: connsGrow_same)

lemma receive_conns: "receive i q = Some (ok, q') \<Longrightarrow> connsGrow q q'"
  by (auto simp: receive_def intro: connsGrow_same)

lemma dropConn_conns: "connsGrow q (dropConn c q)"
  by (auto simp: dropConn_def intro: connsGrow_same connsGrow_end [of Dropped])

text \<open>What keeps a consumer that read connection \<open>c\<close> from sleeping through its replacement: \<open>c\<close> is
  still the current connection, or the consumer's channel holds a value, or the goroutine is about to
  send one, or the client was closed.\<close>

definition wakes :: "nat \<Rightarrow> nat \<Rightarrow> clientSystem \<Rightarrow> bool" where
  "wakes n c q \<longleftrightarrow> Conn q = c \<or> ch_full (qs_chans q ! n) \<or> qs_loop q = Reconnected \<or> qc_closed (qs_client q)"

lemma notifyReconnect_wakes:
  assumes "clientInv q" and "n < length (qs_chans q)"
  shows "wakes n c (notifyReconnect q)"
proof (cases "qc_closed (qs_client q)")
  case True
  then show ?thesis by (simp add: wakes_def notifyReconnect_conns)
next
  case False
  from notifyReconnect_sends [OF assms(1) False] assms(2) show ?thesis by (metis clientSystem.select_convs(2)
    clientSystem.update_convs(2,4) clientSystem.surjective wakes_def)
qed

lemma reconnectLoop_wakes:
  assumes "clientInv q" and "n < length (qs_chans q)" and "reconnectLoop ev q = Some q'" and "wakes n c q"
  shows "wakes n c q'"
proof (cases "qs_loop q")
  case LoopTop
  then show ?thesis using assms by (auto simp: reconnectLoop_def wakes_def Conn_def split: if_splits)
next
  case (Dialing d)
  then show ?thesis
    using assms by (auto simp: reconnectLoop_def wakes_def Conn_def dest!: backoffDial_cases)
next
  case (Installing c)
  then have "q' = install c q" using assms by (auto simp: reconnectLoop_def split: if_splits)
  then show ?thesis by (auto simp: install_def wakes_def)
next
  case Reconnected
  then have "q' = notifyReconnect q" using assms by (auto simp: reconnectLoop_def split: if_splits)
  then show ?thesis using notifyReconnect_wakes [OF assms(1,2)] by simp
qed (use assms in \<open>auto simp: reconnectLoop_def wakes_def Conn_def dest: afterWait_parts backoff_parts\<close>)

lemma closeStep_wakes: "clientInv q \<Longrightarrow> closeStep e q = Some q' \<Longrightarrow> wakes n c q \<Longrightarrow> wakes n c q'"
  by (frule (1) closeStep_inv)
    (auto simp: closeStep_def closeLocked_def closeDone_def closeConn_def wakes_def Conn_def clientInv_def
      split: closeState.splits option.splits if_splits)

lemma reconnectLoop_chans:
  assumes "clientInv q" and "reconnectLoop ev q = Some q'"
  shows "length (qs_chans q') = length (qs_chans q)"
proof (cases "qs_loop q")
  case Reconnected
  then have q': "q' = notifyReconnect q" using assms by (auto simp: reconnectLoop_def split: if_splits)
  show ?thesis
  proof (cases "qc_closed (qs_client q)")
    case True
    then show ?thesis by (simp add: q' notifyReconnect_def)
  next
    case False
    from notifyReconnect_sends [OF assms(1) this] show ?thesis unfolding q' by (metis clientSystem.ext_inject
      clientSystem.surjective clientSystem.update_convs(2,4))
  qed
next
  case (Dialing d)
  then show ?thesis using assms by (auto simp: reconnectLoop_def dest!: backoffDial_cases)
qed (use assms in \<open>auto simp: reconnectLoop_def install_def split: if_splits dest: afterWait_parts backoff_parts\<close>)

lemma closeStep_chans:
  assumes "closeStep e q = Some q'"
  shows "length (qs_chans q') = length (qs_chans q)"
proof -
  have "onEach closeChan is chs = Some chs' \<Longrightarrow> length chs' = length chs" for "is" chs chs'
    by (rule onEach_length) (auto simp: closeChan_def split: if_splits)
  then show ?thesis
    using assms by (auto simp: closeStep_def closeLocked_def closeDone_def closeConn_def split: closeState.splits option.splits)
qed

lemma environmentStep_keeps:
  assumes "environmentStep n q q'" and "clientInv q" and "n < length (qs_chans q)"
  shows "clientInv q'" and "n < length (qs_chans q')" and "connsGrow q q'" and "wakes n c q \<Longrightarrow> wakes n c q'"
proof -
  have "clientInv q' \<and> n < length (qs_chans q') \<and> connsGrow q q' \<and> (wakes n c q \<longrightarrow> wakes n c q')"
    using assms
  proof (cases rule: environmentStep.cases)
    case (env_loop ev)
    with assms show ?thesis
      using reconnectLoop_inv reconnectLoop_chans reconnectLoop_conns reconnectLoop_wakes by metis
  next
    case (env_close e)
    with assms show ?thesis using closeStep_inv closeStep_chans closeStep_conns closeStep_wakes by metis
  next
    case env_notify
    with assms show ?thesis
      using Notify_inv Notify_conns by (auto simp: Notify_def Let_def wakes_def Conn_def nth_append)
  next
    case (env_drop c)
    with assms show ?thesis using dropConn_inv dropConn_conns by (auto simp: dropConn_def wakes_def Conn_def)
  next
    case (env_receive i ok)
    with assms show ?thesis using receive_inv [OF assms(2) env_receive(3)] receive_conns [OF env_receive(3)]
      by (auto simp: receive_def recvChan_def wakes_def Conn_def split: if_splits)
  qed
  then show "clientInv q'" "n < length (qs_chans q')" "connsGrow q q'" "wakes n c q \<Longrightarrow> wakes n c q'" by auto
qed

text \<open>The connection a waiting consumer has read, and the consumer's invariant.\<close>

fun readConn :: "consumerState \<Rightarrow> nat option" where
  "readConn (WaitConnCheck c) = Some c"
| "readConn (WaitRetryCheck c) = Some c"
| "readConn (WaitConnBlocked c) = Some c"
| "readConn (WaitRetryBlocked c) = Some c"
| "readConn _ = None"

fun blockedOn :: "consumerState \<Rightarrow> nat option" where
  "blockedOn (WaitConnBlocked c) = Some c"
| "blockedOn (WaitRetryBlocked c) = Some c"
| "blockedOn _ = None"

definition waitInv :: "nat \<Rightarrow> consumerState \<Rightarrow> clientSystem \<Rightarrow> bool" where
  "waitInv n pc q \<longleftrightarrow> clientInv q \<and> n < length (qs_chans q)
     \<and> (\<forall>c. readConn pc = Some c \<longrightarrow> c < length (qs_conns q) \<and> wakes n c q)
     \<and> (\<forall>c. blockedOn pc = Some c \<longrightarrow> \<not> connLive c q)"

lemma blockedOn_readConn: "blockedOn pc = Some c \<Longrightarrow> readConn pc = Some c"
  by (cases pc) auto

lemma waitInv_environment:
  assumes "waitInv n pc q" and "environmentStep n q q'"
  shows "waitInv n pc q'"
proof -
  from assms(1) have q: "clientInv q" "n < length (qs_chans q)" by (auto simp: waitInv_def)
  note k = environmentStep_keeps [OF assms(2) q]
  from assms(1) k show ?thesis
    unfolding waitInv_def connsGrow_def by (meson blockedOn_readConn order_less_le_trans)
qed

lemma waitInv_free: "waitInv n pc q \<Longrightarrow> readConn pc' = None \<Longrightarrow> waitInv n pc' q"
  unfolding waitInv_def using blockedOn_readConn by fastforce

lemma waitInv_check:
  assumes "waitInv n pc q" and "readConn pc' = Some (Conn q)" and "blockedOn pc' = None"
  shows "waitInv n pc' q"
  using assms by (auto simp: waitInv_def wakes_def clientInv_def connInv_def)

lemma waitInv_receive:
  assumes "waitInv n pc q" and "receive n q = Some (ok, q')" and "readConn pc' = None"
  shows "waitInv n pc' q'"
proof -
  from assms have "clientInv q'" using receive_inv by (auto simp: waitInv_def)
  moreover from assms have "n < length (qs_chans q')" by (auto simp: waitInv_def receive_def recvChan_def split: if_splits)
  ultimately show ?thesis using assms(3) blockedOn_readConn by (fastforce simp: waitInv_def)
qed

lemma waitInv_block:
  assumes "waitInv n pc q" and "readConn pc = Some c" and "\<not> connLive c q" and "readConn pc' = Some c"
  shows "waitInv n pc' q"
  using assms blockedOn_readConn by (fastforce simp: waitInv_def)

text \<open>The shapes a step of \<open>Run\<close> can have.\<close>

definition refusal :: "err \<Rightarrow> bool" where
  "refusal e \<longleftrightarrow> (\<exists>m e'. e = Wrap m e' \<and> \<not> errors_Is e' amqp_ErrClosed \<and> errors_AsAmqp e' \<noteq> Some ConnectionForced)"

definition returnReason :: "('b, 'w) consumerSystem \<Rightarrow> err \<Rightarrow> bool" where
  "returnReason s e \<longleftrightarrow>
     cn_ctx s = Some e \<or> e = errClientClosed \<and> qc_closed (qs_client (cn_client s)) \<or> refusal e"

definition active :: "consumerState \<Rightarrow> bool" where
  "active pc = (case pc of Idle \<Rightarrow> False | Returned _ \<Rightarrow> False | _ \<Rightarrow> True)"

inductive runMove :: "(Delivery \<Rightarrow> 'w \<Rightarrow> 'w \<times> unit result) \<Rightarrow> ('b, 'w) consumerSystem \<Rightarrow> ('b, 'w) consumerSystem \<Rightarrow> bool"
  for handler s where
  moves: "active pc \<Longrightarrow> readConn pc = None \<Longrightarrow> runMove handler s (s\<lparr>cn_broker := b, cn_pc := pc\<rparr>)"
| reads: "active pc \<Longrightarrow> readConn pc = Some (Conn (cn_client s)) \<Longrightarrow> blockedOn pc = None \<Longrightarrow> runMove handler s (s\<lparr>cn_pc := pc\<rparr>)"
| blocks: "active pc \<Longrightarrow> readConn (cn_pc s) = Some c \<Longrightarrow> \<not> connLive c (cn_client s) \<Longrightarrow> blockedOn pc = Some c
    \<Longrightarrow> runMove handler s (s\<lparr>cn_pc := pc\<rparr>)"
| woken: "active pc \<Longrightarrow> receive (cn_notify s) (cn_client s) = Some (True, q) \<Longrightarrow> readConn pc = None
    \<Longrightarrow> runMove handler s (s\<lparr>cn_client := q, cn_pc := pc\<rparr>)"
| handles: "active (cn_pc s) \<Longrightarrow> readConn (cn_pc s) = None \<Longrightarrow> handleDelivery handler d (cn_world s) = (w, x)
    \<Longrightarrow> runMove handler s (s\<lparr>cn_world := w, cn_settled := cn_settled s @ [(d, x)]\<rparr>)"
| returns: "cn_ctx s = Some e \<or> e = errClientClosed \<and> receive (cn_notify s) (cn_client s) = Some (False, q) \<or> refusal e
    \<Longrightarrow> runMove handler s (s\<lparr>cn_broker := b, cn_pc := Returned e, cn_running := False\<rparr>)"

lemma moves_same: "active pc \<Longrightarrow> readConn pc = None \<Longrightarrow> runMove handler s (s\<lparr>cn_pc := pc\<rparr>)"
  using runMove.moves [of pc handler s "cn_broker s"] by simp

lemma returns_same:
  "cn_ctx s = Some e \<or> e = errClientClosed \<and> receive (cn_notify s) (cn_client s) = Some (False, q)
    \<Longrightarrow> runMove handler s (s\<lparr>cn_pc := Returned e, cn_running := False\<rparr>)"
  using runMove.returns [of s e q handler "cn_broker s"] by auto

lemma onNotify_move:
  "onNotify pc s = Some s' \<Longrightarrow> active pc \<Longrightarrow> readConn pc = None \<Longrightarrow> runMove handler s s'"
  by (auto simp: onNotify_def goto_def return_def split: option.splits if_splits intro: woken returns_same)

lemma onCtxDone_move: "onCtxDone s = Some s' \<Longrightarrow> runMove handler s s'"
  by (auto simp: onCtxDone_def return_def split: option.splits intro: returns_same)

lemma waitSelect_move:
  "waitSelect ev pc s = Some s' \<Longrightarrow> active pc \<Longrightarrow> readConn pc = None \<Longrightarrow> runMove handler s s'"
  by (auto simp: waitSelect_def split: consumerEvent.splits intro: onNotify_move onCtxDone_move)

lemma setupCall_move:
  assumes "setupCall call m c pc s = Some s'" and "active pc" and "readConn pc = None"
  shows "runMove handler s s'"
proof (cases "call (cn_broker s)")
  case (Pair b r)
  show ?thesis
  proof (cases r)
    case (Inl e)
    show ?thesis
    proof (cases "connectionUnavailable c e (cn_client s)")
      case True
      have "runMove handler s (s\<lparr>cn_broker := b, cn_pc := WaitRetry\<rparr>)" by (rule moves) (simp_all add: active_def)
      then show ?thesis using assms(1) Pair Inl True by (auto simp: setupCall_def goto_def)
    next
      case False
      then have "refusal (Wrap m e)" by (auto simp: refusal_def connectionUnavailable_def split: if_splits option.splits)
      then have "runMove handler s (s\<lparr>cn_broker := b, cn_pc := Returned (Wrap m e), cn_running := False\<rparr>)"
        by (intro returns) simp
      then show ?thesis using assms(1) Pair Inl False by (auto simp: setupCall_def return_def)
    qed
  next
    case (Inr u)
    have "runMove handler s (s\<lparr>cn_broker := b, cn_pc := pc\<rparr>)" using assms(2,3) by (rule moves)
    then show ?thesis using assms(1) Pair Inr by (auto simp: setupCall_def goto_def)
  qed
qed

lemma waitEnter_move:
  assumes "waitEnter check s = Some s'" and "\<And>c. active (check c) \<and> readConn (check c) = Some c \<and> blockedOn (check c) = None"
  shows "runMove handler s s'"
  using assms by (auto simp: waitEnter_def goto_def return_def split: option.splits intro: reads returns_same)

lemma deliveryLoop_move:
  assumes "deliveryLoop handler ev s = Some s'" and "cn_pc s = Consuming c"
  shows "runMove handler s s'"
proof (cases ev)
  case (CvDelivery d)
  then show ?thesis
    using assms by (auto simp: deliveryLoop_def active_def split: prod.splits intro!: handles)
next
  case CvDeliveriesClosed
  then show ?thesis
    using assms by (auto simp: deliveryLoop_def goto_def return_def active_def split: option.splits intro!: moves_same returns_same)
next
  case CvNotify
  then show ?thesis using assms onNotify_move [of RunTop s s'] by (simp add: deliveryLoop_def active_def)
qed (use assms in \<open>auto simp: deliveryLoop_def intro: onCtxDone_move\<close>)

lemma wait_move:
  assumes "waitForConnection ev s = Some s' \<or> waitAndRetry ev s = Some s'"
  shows "runMove handler s s'"
  using assms
  by (cases "cn_pc s")
    (auto simp: waitForConnection_def waitAndRetry_def goto_def active_def split: if_splits
      intro: moves_same blocks elim!: waitEnter_move waitSelect_move)

lemma runSession_move:
  assumes "runSession B handler ev s = Some s'"
  shows "runMove handler s s'"
  using assms
  by (cases "cn_pc s")
    (auto simp: runSession_def active_def split: if_splits intro: deliveryLoop_move elim!: setupCall_move)

lemma Run_move:
  assumes "Run B handler ev s = Some s'"
  shows "runMove handler s s'"
proof (cases "cn_pc s")
  case RunTop
  then show ?thesis
    using assms by (auto simp: Run_def goto_def return_def active_def split: if_splits option.splits intro!: moves_same returns_same)
qed (use assms in \<open>auto simp: Run_def intro: wait_move runSession_move\<close>)

section \<open>The consumer's invariant\<close>

text \<open>Handling a sequence of deliveries one after the other.\<close>

fun handleAll :: "(Delivery \<Rightarrow> 'w \<Rightarrow> 'w \<times> unit result) \<Rightarrow> Delivery list \<Rightarrow> 'w \<Rightarrow> 'w \<times> (Delivery \<times> settlement) list" where
  "handleAll handler [] w = (w, [])"
| "handleAll handler (d # ds) w =
     (case handleDelivery handler d w of
        (w', x) \<Rightarrow> (case handleAll handler ds w' of (w'', xs) \<Rightarrow> (w'', (d, x) # xs)))"

lemma handleAll_snoc:
  assumes "handleAll handler ds w = (w', xs)" and "handleDelivery handler d w' = (w'', x)"
  shows "handleAll handler (ds @ [d]) w = (w'', xs @ [(d, x)])"
  using assms by (induction ds arbitrary: w xs) (auto split: prod.splits)


definition consumerInv :: "(Delivery \<Rightarrow> 'w \<Rightarrow> 'w \<times> unit result) \<Rightarrow> 'w \<Rightarrow> ('b, 'w) consumerSystem \<Rightarrow> bool" where
  "consumerInv handler w s \<longleftrightarrow>
     waitInv (cn_notify s) (cn_pc s) (cn_client s)
     \<and> (\<forall>e. cn_pc s = Returned e \<longrightarrow> returnReason s e)
     \<and> (cn_running s \<longleftrightarrow> active (cn_pc s))
     \<and> handleAll handler (map fst (cn_settled s)) w = (cn_world s, cn_settled s)"

lemma active_not: "active pc \<Longrightarrow> pc \<noteq> Returned e \<and> pc \<noteq> Idle"
  by (auto simp: active_def)

lemma receive_end_closed:
  assumes "clientInv q" and "n < length (qs_chans q)" and "receive n q = Some (False, q')"
  shows "qc_closed (qs_client q)"
  using assms by (auto simp: receive_def recvChan_def clientInv_def chanInv_def split: if_splits)

lemma environmentStep_closed:
  assumes "environmentStep n q q'" and "qc_closed (qs_client q)"
  shows "qc_closed (qs_client q')"
  using assms
proof (cases rule: environmentStep.cases)
  case (env_loop ev)
  then show ?thesis
    using assms(2)
    by (cases "qs_loop q") (auto simp: reconnectLoop_def install_def notifyReconnect_conns split: if_splits
        dest: afterWait_parts backoff_parts dest!: backoffDial_cases)
next
  case (env_close e)
  then show ?thesis
    using assms(2) by (auto simp: closeStep_def closeLocked_def closeDone_def closeConn_def split: closeState.splits option.splits)
qed (auto simp: Notify_def Let_def dropConn_def receive_def)

lemma Run_active: "Run B handler ev s = Some s' \<Longrightarrow> active (cn_pc s)"
  by (cases "cn_pc s") (auto simp: Run_def active_def)

lemma runMove_inv:
  assumes "runMove handler s s'" and "consumerInv handler w s" and "active (cn_pc s)"
  shows "consumerInv handler w s'"
  using assms(1)
proof cases
  case (moves pc b)
  then show ?thesis using assms(2,3) active_not by (auto simp: consumerInv_def intro: waitInv_free)
next
  case (reads pc)
  then show ?thesis using assms(2,3) active_not by (auto simp: consumerInv_def intro: waitInv_check)
next
  case (blocks pc c)
  then show ?thesis
    using assms(2,3) active_not blockedOn_readConn [OF blocks(5)] by (auto simp: consumerInv_def intro: waitInv_block)
next
  case (woken pc q)
  then show ?thesis using assms(2,3) active_not by (auto simp: consumerInv_def intro: waitInv_receive)
next
  case (handles d w' x)
  then show ?thesis using assms(2) active_not handleAll_snoc by (fastforce simp: consumerInv_def)
next
  case (returns e q b)
  have "returnReason s e"
    using returns(2) receive_end_closed assms(2) by (auto simp: returnReason_def consumerInv_def waitInv_def)
  then show ?thesis
    using returns(1) assms(2) by (auto simp: consumerInv_def active_def returnReason_def intro: waitInv_free)
qed

lemma consumerStep_inv:
  assumes "consumerStep B handler s s'" and "consumerInv handler w s"
  shows "consumerInv handler w s'"
  using assms(1)
proof cases
  case (start ctx)
  then show ?thesis
    using assms(2) by (auto simp: RunStart_def consumerInv_def active_def split: if_splits intro: waitInv_free)
next
  case (run ev)
  then show ?thesis using runMove_inv [OF Run_move [OF run] assms(2) Run_active [OF run]] by simp
next
  case (client q)
  then show ?thesis
    using assms(2) waitInv_environment environmentStep_closed
    by (fastforce simp: consumerInv_def returnReason_def)
next
  case (cancel e)
  then show ?thesis using assms(2) by (auto simp: consumerInv_def returnReason_def)
next
  case (broker b)
  then show ?thesis using assms(2) by (auto simp: consumerInv_def returnReason_def)
qed

lemma newConsumerSystem_inv:
  assumes "clientReach q" and "newConsumerSystem A cfg q b w = Inr s"
  shows "consumerInv handler w s"
proof -
  have "clientInv (fst (Notify q))" using assms(1) clientReach_inv Notify_inv by blast
  then show ?thesis
    using assms(2)
    by (auto simp: newConsumerSystem_def consumerInv_def waitInv_def active_def Notify_def Let_def split: sum.splits)
qed

lemma consumerReach_inv: "consumerReach B handler w s \<Longrightarrow> consumerInv handler w s"
  by (induction rule: consumerReach.induct) (auto intro: newConsumerSystem_inv consumerStep_inv)

section \<open>Properties\<close>

text \<open>(C17) A consumer that waits for a connection does not sleep through a reconnect. Whenever \<open>Run\<close>
  is blocked because the connection it read was down, that connection stays down, and as soon as the
  client has a live connection again (or is closed) either the consumer's channel is ready, so that
  \<open>Run\<close> can go on, or the client's goroutine is just about to send to it.\<close>

theorem no_missed_reconnect:
  assumes "consumerReach B handler w s" and "cn_pc s = WaitConnBlocked c \<or> cn_pc s = WaitRetryBlocked c"
    and "connLive (Conn (cn_client s)) (cn_client s) \<or> qc_closed (qs_client (cn_client s))"
  shows "Run B handler CvNotify s \<noteq> None \<or> qs_loop (cn_client s) = Reconnected"
proof -
  from consumerReach_inv [OF assms(1)] have inv: "waitInv (cn_notify s) (cn_pc s) (cn_client s)"
    by (simp add: consumerInv_def)
  with assms(2) have q: "clientInv (cn_client s)" "cn_notify s < length (qs_chans (cn_client s))"
    "wakes (cn_notify s) c (cn_client s)" "\<not> connLive c (cn_client s)" by (auto simp: waitInv_def)
  have "qs_loop (cn_client s) = Reconnected \<or> receive (cn_notify s) (cn_client s) \<noteq> None"
  proof (cases "qc_closed (qs_client (cn_client s))")
    case True
    then show ?thesis using q(1,2) by (auto simp: receive_def recvChan_def clientInv_def chanInv_def)
  next
    case False
    with assms(3) q(3,4) show ?thesis by (auto simp: wakes_def receive_def recvChan_def)
  qed
  then show ?thesis
    using assms(2)
    by (auto simp: Run_def waitForConnection_def waitAndRetry_def waitSelect_def onNotify_def goto_def return_def split: prod.splits)
qed



section \<open>Witnesses\<close>

text \<open>A schedule of steps, for concrete runs.\<close>

datatype action = AStart | ARun consumerEvent | ALoop loopEvent | AClose | ADrop nat

fun act :: "'b sessionCalls \<Rightarrow> (Delivery \<Rightarrow> 'w \<Rightarrow> 'w \<times> unit result) \<Rightarrow> action
    \<Rightarrow> ('b, 'w) consumerSystem \<Rightarrow> ('b, 'w) consumerSystem option" where
  "act B handler AStart s = (case RunStart (Some handler) None s of (s', None) \<Rightarrow> Some s' | (_, Some _) \<Rightarrow> None)"
| "act B handler (ARun ev) s = Run B handler ev s"
| "act B handler (ALoop ev) s = map_option (\<lambda>q. s\<lparr>cn_client := q\<rparr>) (reconnectLoop ev (cn_client s))"
| "act B handler AClose s = map_option (\<lambda>q. s\<lparr>cn_client := q\<rparr>) (closeStep None (cn_client s))"
| "act B handler (ADrop c) s =
     (if c < length (qs_conns (cn_client s)) then Some (s\<lparr>cn_client := dropConn c (cn_client s)\<rparr>) else None)"

fun schedule :: "'b sessionCalls \<Rightarrow> (Delivery \<Rightarrow> 'w \<Rightarrow> 'w \<times> unit result) \<Rightarrow> action list
    \<Rightarrow> ('b, 'w) consumerSystem \<Rightarrow> ('b, 'w) consumerSystem option" where
  "schedule B handler [] s = Some s"
| "schedule B handler (a # as) s = (case act B handler a s of None \<Rightarrow> None | Some s' \<Rightarrow> schedule B handler as s')"

lemma act_step: "act B handler a s = Some s' \<Longrightarrow> consumerStep B handler s s'"
  by (cases a) (auto split: option.splits prod.splits if_splits intro: start run client env_loop env_close env_drop)

lemma schedule_reach: "consumerReach B handler w s \<Longrightarrow> schedule B handler as s = Some s' \<Longrightarrow> consumerReach B handler w s'"
  by (induction as arbitrary: s) (auto split: option.splits dest: consumerReach.steps [OF _ act_step])

definition demo_calls :: "((string \<times> string \<times> string) list \<times> (string \<times> string) list) sessionCalls" where
  "demo_calls = \<lparr>sc_amqp = demo_amqp, Qos = (\<lambda>_ b. (b, Inr ())), Consume = (\<lambda>_ _ b. (b, Inr ()))\<rparr>"

definition demo_handler :: "Delivery \<Rightarrow> string list \<Rightarrow> string list \<times> unit result" where
  "demo_handler d w = (if d_Body d = ''bad'' then (w, Inl (Errorf ''bad'')) else (w @ [d_Body d], Inr ()))"

definition demo_consumer :: "clientSystem \<Rightarrow> consumerState \<Rightarrow> (((string \<times> string \<times> string) list \<times> (string \<times> string) list), string list) consumerSystem" where
  "demo_consumer q pc =
     \<lparr>cn_client = q, cn_consumer = \<lparr>cs_queue = ''q'', cs_tag = [], cs_prefetch = 1, cs_topology = None\<rparr>, cn_notify = 0,
      cn_running = (pc \<noteq> Idle), cn_pc = pc, cn_ctx = None, cn_broker = ([], []), cn_world = [], cn_settled = []\<rparr>"

lemma demo_consumer_created:
  "consumerReach demo_calls demo_handler [] (demo_consumer (fst (Notify demo_client)) Idle)"
proof -
  have "TrimSpace ''q'' = ''q''" "TrimSpace [] = []" by code_simp+
  then have "newConsumerSystem (sc_amqp demo_calls) \<lparr>cc_Queue = ''q'', cc_Topology = None, cc_Tag = [], cc_Prefetch = 0\<rparr>
      demo_client ([], []) [] = Inr (demo_consumer (fst (Notify demo_client)) Idle)"
    by (simp add: newConsumerSystem_def NewConsumer_def consumerTopology_def demo_consumer_def Notify_def demo_client_def)
  with clientReach.opened [OF demo_opened] show ?thesis by (rule consumerReach.created)
qed

lemmas demo_eval = Run_def waitForConnection_def waitAndRetry_def waitEnter_def waitSelect_def onNotify_def onCtxDone_def
  runSession_def setupCall_def openChannel_def declareTopology_def deliveryLoop_def handleDelivery_def goto_def return_def RunStart_def
  reconnectLoop_def registerNotifyClose_def afterWait_def waitForDrop_def backoffWait_def backoffDial_def reconnectDial_def
  install_def notifyReconnect_def trySend_def connLive_def Conn_def dropConn_def receive_def recvChan_def
  closeStep_def closeLocked_def closeDone_def closeConn_def closeChan_def
  demo_consumer_def demo_client_def demo_calls_def demo_amqp_def demo_handler_def Notify_def

text \<open>The connection drops while \<open>Run\<close> starts, and the client reconnects.\<close>

definition demo_reconnected :: clientSystem where
  "demo_reconnected = demo_client\<lparr>qs_client := (qs_client demo_client)\<lparr>qc_conn := 1, qc_notifySubs := [0]\<rparr>,
     qs_chans := [\<lparr>ch_full = True, ch_closed = False\<rparr>], qs_conns := [Dropped, Live]\<rparr>"

lemma demo_blocked:
  "schedule demo_calls demo_handler
     [ALoop EvStep, AStart, ADrop 0, ARun CvStep, ARun CvStep, ARun CvStep,
      ALoop EvNotifyClose, ALoop EvTimer, ALoop (EvDial (demo_dial None)), ALoop EvStep, ALoop EvStep]
     (demo_consumer (fst (Notify demo_client)) Idle)
   = Some (demo_consumer demo_reconnected (WaitConnBlocked 0))"
  by (simp add: demo_eval demo_dialContext demo_reconnected_def) (simp add: demo_dial_def)

theorem no_missed_reconnect_witness:
  "Run demo_calls demo_handler CvNotify (demo_consumer demo_reconnected (WaitConnBlocked 0)) \<noteq> None"
  using no_missed_reconnect [OF schedule_reach [OF demo_consumer_created demo_blocked], of 0]
  by (simp add: demo_consumer_def demo_reconnected_def demo_client_def connLive_def Conn_def)






end
