(* ===== verification/Factory_Deployer.thy ===== *)
theory Factory_Deployer
  imports Deployment Queue_Consumer
begin

text \<open>
  The on-chain deployer (\<open>internal/infra/blockchain/factory_campaign_deployer.go\<close>) and the choice
  between it and the stub (\<open>campaign_deployer_provider.go\<close>). go-ethereum and the chain are third-party
  code: the record \<open>ethereum\<close> holds the calls the deployer makes, as functions on an arbitrary chain
  state \<open>'c\<close>. Addresses are 160-bit words, topics 256-bit words.

  What the worker needs of a deployer is the locale \<open>campaign_deployer\<close>: a successful deployment
  yields a contract address that is not blank, which is what makes a redelivered task recognise the
  campaign as deployed. Both deployers are interpretations of it. The lemmas: what a success of the
  on-chain deployer means, which inputs it refuses before anything is sent, and what the worker does
  with a campaign that exists on the chain but is still pending in the database.
\<close>

section \<open>go-ethereum\<close>

type_synonym address = "160 word"
type_synonym hash = "256 word"

record tx =
  tx_nonce :: int
  tx_to :: address
  tx_gasLimit :: int
  tx_gasPrice :: int
  tx_data :: string

record log =
  lg_Address :: address
  lg_Topics :: "hash list"
  lg_Index :: nat

record receipt =
  rc_Status :: nat
  rc_Logs :: "log list"
  rc_BlockNumber :: nat

text \<open>The keys \<open>'k\<close> are opaque. \<open>SendTransaction\<close> takes the transaction and the signing key, that is, the
  signed transaction. \<open>ChecksumHex\<close> and \<open>HashHex\<close> are the digits of \<open>Address.Hex\<close> and of a transaction's \<open>Hash().Hex()\<close>, \<open>CreatedID\<close> the event id of the embedded
  ABI (\<open>None\<close> when the event is missing there), \<open>ParseABI\<close> its parse error.\<close>

record ('c, 'k) ethereum =
  IsHexAddress :: "string \<Rightarrow> bool"
  HexToAddress :: "string \<Rightarrow> address"
  ChecksumHex :: "address \<Rightarrow> string"
  ParseABI :: "err option"
  CreatedID :: "hash option"
  Pack :: "string \<Rightarrow> uuid \<Rightarrow> address \<Rightarrow> int \<Rightarrow> int \<Rightarrow> string result"
  HexToECDSA :: "string \<Rightarrow> 'k result"
  KeyedTransactor :: "'k \<Rightarrow> int \<Rightarrow> address result"
  SignTx :: "'k \<Rightarrow> int \<Rightarrow> tx \<Rightarrow> err option"
  HashHex :: "'k \<Rightarrow> tx \<Rightarrow> string"
  DialRPC :: "string \<Rightarrow> err option"
  PendingNonceAt :: "address \<Rightarrow> 'c \<Rightarrow> int result"
  SuggestGasPrice :: "'c \<Rightarrow> int result"
  EstimateGas :: "address \<Rightarrow> address \<Rightarrow> string \<Rightarrow> 'c \<Rightarrow> int result"
  SendTransaction :: "'k \<Rightarrow> tx \<Rightarrow> 'c \<Rightarrow> 'c \<times> unit result"
  WaitMined :: "duration \<Rightarrow> 'k \<Rightarrow> tx \<Rightarrow> 'c \<Rightarrow> 'c \<times> receipt result"
  HeaderTime :: "nat \<Rightarrow> 'c \<Rightarrow> nat result"

section \<open>The factory deployer\<close>

definition factoryCreateMethodName :: string where
  "factoryCreateMethodName = ''createCampaign''"

record FactoryCampaignDeployerConfig =
  fc_RPCURL :: string
  fc_FactoryAddress :: string
  fc_PrivateKey :: string
  fc_ChainID :: int
  fc_ConfirmTimeout :: duration

record FactoryCampaignDeployer =
  fd_factoryAddress :: address
  fd_chainID :: int
  fd_privateKey :: string
  fd_confirmTimeout :: duration

definition NewFactoryCampaignDeployer ::
  "('c, 'k) ethereum \<Rightarrow> FactoryCampaignDeployerConfig \<Rightarrow> FactoryCampaignDeployer result" where
  "NewFactoryCampaignDeployer X cfg =
     (let rpcURL = TrimSpace (fc_RPCURL cfg); factoryRaw = TrimSpace (fc_FactoryAddress cfg);
          privateKey = TrimSpace (fc_PrivateKey cfg)
      in if rpcURL = [] then Inl (Errorf ''blockchain: factory deployer: rpc url is required'')
         else if \<not> IsHexAddress X factoryRaw then Inl (Errorf ''blockchain: factory deployer: factory address is invalid'')
         else if privateKey = [] then Inl (Errorf ''blockchain: factory deployer: private key is required'')
         else if fc_ChainID cfg \<le> 0 then Inl (Errorf ''blockchain: factory deployer: chain id must be positive'')
         else case ParseABI X of
             Some e \<Rightarrow> Inl (Wrap ''blockchain: factory deployer: parse abi'' e)
           | None \<Rightarrow>
               (case DialRPC X rpcURL of
                  Some e \<Rightarrow> Inl (Wrap ''blockchain: factory deployer: dial rpc'' e)
                | None \<Rightarrow>
                    Inr \<lparr>fd_factoryAddress = HexToAddress X factoryRaw, fd_chainID = fc_ChainID cfg,
                         fd_privateKey = privateKey,
                         fd_confirmTimeout =
                           (if fc_ConfirmTimeout cfg \<le> 0 then 2 * Minute else fc_ConfirmTimeout cfg)\<rparr>))"

text \<open>The key and the address it signs for.\<close>

definition transactSigner :: "('c, 'k) ethereum \<Rightarrow> string \<Rightarrow> int \<Rightarrow> ('k \<times> address) result" where
  "transactSigner X privateKeyHex chainID =
     (case HexToECDSA X (TrimPrefix (TrimSpace privateKeyHex) ''0x'') of
        Inl e \<Rightarrow> Inl (Wrap ''blockchain: factory deployer: parse private key'' e)
      | Inr key \<Rightarrow>
          (case KeyedTransactor X key chainID of
             Inl e \<Rightarrow> Inl (Wrap ''blockchain: factory deployer: transact signer'' e)
           | Inr sender \<Rightarrow> Inr (key, sender)))"

definition campaignEndAt :: "time \<Rightarrow> int result" where
  "campaignEndAt endAt =
     (if endAt = zeroTime then Inl (Errorf ''blockchain: factory deploy campaign: end time is required'')
      else if Unix endAt \<le> 0 then Inl (Errorf ''blockchain: factory deploy campaign: end time must be positive'')
      else Inr (Unix endAt))"

text \<open>The last 20 bytes of a topic.\<close>

definition indexedAddressFromTopic :: "hash \<Rightarrow> address" where
  "indexedAddressFromTopic topic = ucast topic"

fun findCreatedLog :: "hash \<Rightarrow> address \<Rightarrow> log list \<Rightarrow> (address \<times> nat) result" where
  "findCreatedLog event factoryAddress [] = Inl (Errorf ''blockchain: factory deploy campaign: campaign created log not found'')"
| "findCreatedLog event factoryAddress (l # logs) =
     (if lg_Address l \<noteq> factoryAddress then findCreatedLog event factoryAddress logs
      else if lg_Topics l = [] \<or> lg_Topics l ! 0 \<noteq> event then findCreatedLog event factoryAddress logs
      else if length (lg_Topics l) < 4
      then Inl (Errorf ''blockchain: factory deploy campaign: campaign created log has insufficient topics'')
      else if indexedAddressFromTopic (lg_Topics l ! 2) = 0
      then Inl (Errorf ''blockchain: factory deploy campaign: campaign address is empty'')
      else Inr (indexedAddressFromTopic (lg_Topics l ! 2), lg_Index l))"

definition parseCampaignCreatedLog :: "('c, 'k) ethereum \<Rightarrow> address \<Rightarrow> log list \<Rightarrow> (address \<times> nat) result" where
  "parseCampaignCreatedLog X factoryAddress logs =
     (case CreatedID X of
        None \<Rightarrow> Inl (Errorf ''blockchain: factory deploy campaign: event is not in abi'')
      | Some event \<Rightarrow> findCreatedLog event factoryAddress logs)"

text \<open>\<open>int(receipt.BlockNumber.Uint64())\<close>, \<open>int(log.Index)\<close> and \<open>time.Unix(int64(header.Time), 0)\<close> convert unsigned
  64-bit numbers to signed ones.\<close>

definition toInt64 :: "nat \<Rightarrow> int" where
  "toInt64 n = wrap64 (int n)"

definition addressHex :: "('c, 'k) ethereum \<Rightarrow> address \<Rightarrow> string" where
  "addressHex X a = ''0x'' @ ChecksumHex X a"

text \<open>The checks of \<open>DeployCampaign\<close> up to the calldata: the recipient's wallet, the call, the key.\<close>

definition prepareCall :: "env \<Rightarrow> ('c, 'k) ethereum \<Rightarrow> FactoryCampaignDeployer \<Rightarrow> CampaignDeploymentParams
    \<Rightarrow> (string \<times> 'k \<times> address) result" where
  "prepareCall E X d params =
     (case fault E ''ctx'' of
        Some e \<Rightarrow> Inl e
      | None \<Rightarrow>
          (if cp_CampaignID params = 0
           then Inl (Errorf ''blockchain: factory deploy campaign: campaign id is required'')
           else if cp_GoalAmount params \<le> 0
           then Inl (Errorf ''blockchain: factory deploy campaign: goal amount must be positive'')
           else
             (let fundraiser = HexToAddress X (TrimSpace (cp_FundraiserWallet params))
              in if fundraiser = 0
                 then Inl (Errorf ''blockchain: factory deploy campaign: fundraiser wallet is required'')
                 else case campaignEndAt (cp_EndAt params) of
                     Inl e \<Rightarrow> Inl e
                   | Inr endAt \<Rightarrow>
                       (case Pack X factoryCreateMethodName (cp_CampaignID params) fundraiser (cp_GoalAmount params) endAt of
                          Inl e \<Rightarrow> Inl (Wrap ''blockchain: factory deploy campaign: pack calldata'' e)
                        | Inr calldata \<Rightarrow>
                            (case transactSigner X (fd_privateKey d) (fd_chainID d) of
                               Inl e \<Rightarrow> Inl e
                             | Inr (key, sender) \<Rightarrow> Inr (calldata, key, sender))))))"

text \<open>The transaction, from the nonce to the signature.\<close>

definition buildTransaction :: "('c, 'k) ethereum \<Rightarrow> FactoryCampaignDeployer \<Rightarrow> string \<Rightarrow> 'k \<Rightarrow> address \<Rightarrow> 'c \<Rightarrow> tx result" where
  "buildTransaction X d calldata key sender ch =
     (case PendingNonceAt X sender ch of
        Inl e \<Rightarrow> Inl (Wrap ''blockchain: factory deploy campaign: pending nonce'' e)
      | Inr nonce \<Rightarrow>
          (case SuggestGasPrice X ch of
             Inl e \<Rightarrow> Inl (Wrap ''blockchain: factory deploy campaign: suggest gas price'' e)
           | Inr gasPrice \<Rightarrow>
               (case EstimateGas X sender (fd_factoryAddress d) calldata ch of
                  Inl e \<Rightarrow> Inl (Wrap ''blockchain: factory deploy campaign: estimate gas'' e)
                | Inr gasLimit \<Rightarrow>
                    (let transaction = \<lparr>tx_nonce = nonce, tx_to = fd_factoryAddress d, tx_gasLimit = gasLimit,
                           tx_gasPrice = gasPrice, tx_data = calldata\<rparr>
                     in case SignTx X key (fd_chainID d) transaction of
                          Some e \<Rightarrow> Inl (Wrap ''blockchain: factory deploy campaign: sign transaction'' e)
                        | None \<Rightarrow> Inr transaction))))"

text \<open>After the transaction was sent: the receipt, the event, the block.\<close>

definition confirmDeployment :: "('c, 'k) ethereum \<Rightarrow> FactoryCampaignDeployer \<Rightarrow> 'k \<Rightarrow> tx \<Rightarrow> 'c
    \<Rightarrow> 'c \<times> CampaignDeploymentResult result" where
  "confirmDeployment X d key signedTx ch =
     (case WaitMined X (fd_confirmTimeout d) key signedTx ch of
        (ch', Inl e) \<Rightarrow> (ch', Inl (Wrap ''blockchain: factory deploy campaign: wait mined'' e))
      | (ch', Inr receipt) \<Rightarrow>
          (if rc_Status receipt \<noteq> 1
           then (ch', Inl (Errorf ''blockchain: factory deploy campaign: transaction reverted''))
           else case parseCampaignCreatedLog X (fd_factoryAddress d) (rc_Logs receipt) of
               Inl e \<Rightarrow> (ch', Inl e)
             | Inr (campaignAddress, logIndex) \<Rightarrow>
                 (case HeaderTime X (rc_BlockNumber receipt) ch' of
                    Inl e \<Rightarrow> (ch', Inl (Wrap ''blockchain: factory deploy campaign: load block header'' e))
                  | Inr t \<Rightarrow>
                      (ch', Inr \<lparr>cr_ContractAddress = addressHex X campaignAddress,
                                cr_TxHash = ''0x'' @ HashHex X key signedTx, cr_LogIndex = toInt64 logIndex,
                                cr_BlockNumber = toInt64 (rc_BlockNumber receipt),
                                cr_EventCreatedAt = toInt64 t * Second\<rparr>))))"

definition FactoryDeployCampaign :: "env \<Rightarrow> ('c, 'k) ethereum \<Rightarrow> FactoryCampaignDeployer \<Rightarrow> 'c deployer" where
  "FactoryDeployCampaign E X d params ch =
     (case prepareCall E X d params of
        Inl e \<Rightarrow> (ch, Inl e)
      | Inr (calldata, key, sender) \<Rightarrow>
          (case buildTransaction X d calldata key sender ch of
             Inl e \<Rightarrow> (ch, Inl e)
           | Inr signedTx \<Rightarrow>
               (case SendTransaction X key signedTx ch of
                  (ch', Inl e) \<Rightarrow> (ch', Inl (Wrap ''blockchain: factory deploy campaign: send transaction'' e))
                | (ch', Inr _) \<Rightarrow> confirmDeployment X d key signedTx ch')))"

section \<open>Choosing the deployer\<close>

text \<open>The stub touches no chain, so it runs on any chain state.\<close>

definition onChain :: "unit deployer \<Rightarrow> 'c deployer" where
  "onChain deploy params ch = (ch, snd (deploy params ()))"

text \<open>The client of the chain's node is a handle: the factory deployer opens it, and its \<open>Close\<close> releases it.\<close>

definition FactoryDeployer_Close :: "resource \<Rightarrow> resource \<times> err option" where
  "FactoryDeployer_Close client = (if client = Opened then (Released, None) else (client, None))"

record 'c ConfiguredCampaignDeployer =
  cd_Deployer :: "'c deployer"
  cd_Close :: "resource \<Rightarrow> resource \<times> err option"

definition NewConfiguredCampaignDeployer ::
  "env \<Rightarrow> ('c, 'k) ethereum \<Rightarrow> string \<Rightarrow> int \<Rightarrow> string \<Rightarrow> string \<Rightarrow> string \<Rightarrow> duration
     \<Rightarrow> ('c ConfiguredCampaignDeployer \<times> resource) result" where
  "NewConfiguredCampaignDeployer E X mode chainID rpcURL factoryAddress privateKey confirmTimeout =
     (let m = Lower E (TrimSpace mode)
      in if m = [] \<or> m = ''stub''
         then Inr (\<lparr>cd_Deployer = onChain (StubDeployCampaign E), cd_Close = (\<lambda>client. (client, None))\<rparr>, Unopened)
         else if m = ''live''
         then (case NewFactoryCampaignDeployer X \<lparr>fc_RPCURL = rpcURL, fc_FactoryAddress = factoryAddress,
                      fc_PrivateKey = privateKey, fc_ChainID = chainID, fc_ConfirmTimeout = confirmTimeout\<rparr> of
                 Inl e \<Rightarrow> Inl e
               | Inr d \<Rightarrow> Inr (\<lparr>cd_Deployer = FactoryDeployCampaign E X d, cd_Close = FactoryDeployer_Close\<rparr>, Opened))
         else Inl (Errorf ''blockchain: campaign deployer: deployment mode is not supported''))"

section \<open>What the worker needs of a deployer\<close>

locale campaign_deployer =
  fixes deploy :: "'c deployer"
  assumes result_accepted: "deploy p ch = (ch', Inr r) \<Longrightarrow>
    TrimSpace (cr_ContractAddress r) \<noteq> [] \<and> TrimSpace (cr_TxHash r) \<noteq> []"
begin

text \<open>A successful deployment passes the checks of \<open>CompleteDeployment\<close>.\<close>

lemma event_accepted:
  assumes "deploy p ch = (ch', Inr r)" and "i \<noteq> 0"
  shows "eventAccepted (deploymentEvent i r) (cr_ContractAddress r)"
  using result_accepted [OF assms(1)] assms(2) by (simp add: eventAccepted_def deploymentEvent_def)

text \<open>The delivery of a pending campaign's message records the deployment and is acknowledged.\<close>

lemma delivery_recorded:
  assumes "db_ok d" and "c \<in> set (campaigns d)" "c_Status c = CampaignStatusPending" "\<not> campaignAlreadyDeployed c"
    and "Truncate Second (c_EndAt c) = c_EndAt c"
    and "uuid_laws E" "decodable (deploymentTask (wk_chainID wk) wallet c)" "fault E = (\<lambda>_. None)" "generateID E = Inr i" "i \<noteq> 0"
    and "wk_deployer wk = Some deploy"
      "deploy (deploymentParams (deploymentTask (wk_chainID wk) wallet c) c) ch = (ch', Inr r)"
    and "eventFits (deploymentEvent i r) (cr_ContractAddress r) d"
  shows "handleDelivery (Deployer_handleDelivery E wk) (campaignDelivery E (wk_chainID wk) wallet c) (d, ch) =
    ((d\<lparr>blockchain_events := blockchain_events d @ [storedEvent E (deploymentEvent i r)],
        campaigns := update_where (\<lambda>x. c_ID x = c_ID c) (activated i (TrimSpace (cr_ContractAddress r))) (campaigns d)\<rparr>,
      ch'), Ack)"
  using assms(1-9,11,12) event_accepted [OF assms(12,10)] assms(13) by (rule pending_delivery)

end

lemma hex_not_blank: "TrimSpace (''0x'' @ s) \<noteq> []"
proof -
  have "CHR ''0'' \<in> set (TrimSpace (''0x'' @ s))" by (rule TrimSpace_keeps) (auto simp: graphic_def)
  then show ?thesis by auto
qed

interpretation stub: campaign_deployer "StubDeployCampaign E" for E
proof
  fix p ch ch' r
  assume "StubDeployCampaign E p ch = (ch', Inr r)"
  then show "TrimSpace (cr_ContractAddress r) \<noteq> [] \<and> TrimSpace (cr_TxHash r) \<noteq> []"
    using hex_not_blank
    by (auto simp: StubDeployCampaign_def stubContractAddress_def stubTxHash_def Let_def simp del: append.simps
        split: option.splits if_splits)
qed

lemma findCreatedLog_found:
  "findCreatedLog event factory logs = Inr (a, n) \<Longrightarrow>
    \<exists>l \<in> set logs. lg_Address l = factory \<and> 4 \<le> length (lg_Topics l) \<and> lg_Topics l ! 0 = event
      \<and> a = indexedAddressFromTopic (lg_Topics l ! 2) \<and> a \<noteq> 0 \<and> n = lg_Index l"
  by (induction logs) (auto split: if_splits)

text \<open>A success of the on-chain deployer, call by call.\<close>

lemma FactoryDeployCampaign_ok:
  assumes "FactoryDeployCampaign E X d params ch = (ch', Inr r)"
  obtains calldata key sender signedTx ch1 receipt l t where
    "prepareCall E X d params = Inr (calldata, key, sender)"
    "buildTransaction X d calldata key sender ch = Inr signedTx"
    "SendTransaction X key signedTx ch = (ch1, Inr ())"
    "WaitMined X (fd_confirmTimeout d) key signedTx ch1 = (ch', Inr receipt)" "rc_Status receipt = 1"
    "l \<in> set (rc_Logs receipt)" "lg_Address l = fd_factoryAddress d" "4 \<le> length (lg_Topics l)"
    "CreatedID X = Some (lg_Topics l ! 0)" "indexedAddressFromTopic (lg_Topics l ! 2) \<noteq> 0"
    "HeaderTime X (rc_BlockNumber receipt) ch' = Inr t"
    "r = \<lparr>cr_ContractAddress = addressHex X (indexedAddressFromTopic (lg_Topics l ! 2)), cr_TxHash = ''0x'' @ HashHex X key signedTx,
       cr_LogIndex = toInt64 (lg_Index l), cr_BlockNumber = toInt64 (rc_BlockNumber receipt),
       cr_EventCreatedAt = toInt64 t * Second\<rparr>"
  using assms
  by (auto simp: FactoryDeployCampaign_def confirmDeployment_def parseCampaignCreatedLog_def simp del: append.simps
      split: sum.splits prod.splits option.splits if_splits dest!: findCreatedLog_found)

interpretation factory: campaign_deployer "FactoryDeployCampaign E X d" for E X d
proof
  fix p ch ch' r
  assume "FactoryDeployCampaign E X d p ch = (ch', Inr r)"
  then show "TrimSpace (cr_ContractAddress r) \<noteq> [] \<and> TrimSpace (cr_TxHash r) \<noteq> []"
    by (elim FactoryDeployCampaign_ok) (simp only: addressHex_def CampaignDeploymentResult.select_convs hex_not_blank not_False_eq_True simp_thms)
qed

text \<open>Whatever mode is configured, the worker gets a deployer that keeps the contract.\<close>

lemma onChain_accepted: "onChain (StubDeployCampaign E) p ch = (ch', Inr r) \<Longrightarrow> StubDeployCampaign E p () = ((), Inr r)"
  by (cases "StubDeployCampaign E p ()") (auto simp: onChain_def)

lemma configured_deployer:
  assumes "NewConfiguredCampaignDeployer E X mode chainID rpcURL factoryAddress privateKey confirmTimeout = Inr (configured, client)"
  shows "campaign_deployer (cd_Deployer configured)" "fst (cd_Close configured client) \<noteq> Opened"
proof -
  have "campaign_deployer (onChain (StubDeployCampaign E))"
    by unfold_locales (drule onChain_accepted, erule stub.result_accepted)
  then show "campaign_deployer (cd_Deployer configured)"
    using assms factory.campaign_deployer_axioms
    by (auto simp: NewConfiguredCampaignDeployer_def Let_def split: if_splits sum.splits)
  show "fst (cd_Close configured client) \<noteq> Opened"
    using assms by (auto simp: NewConfiguredCampaignDeployer_def FactoryDeployer_Close_def Let_def split: if_splits sum.splits)
qed

section \<open>Properties\<close>

lemma prepareCall_ok:
  assumes "prepareCall E X d params = Inr (calldata, key, sender)"
  shows "cp_CampaignID params \<noteq> 0 \<and> 0 < cp_GoalAmount params \<and> HexToAddress X (TrimSpace (cp_FundraiserWallet params)) \<noteq> 0
    \<and> 0 < Unix (cp_EndAt params)
    \<and> Pack X factoryCreateMethodName (cp_CampaignID params) (HexToAddress X (TrimSpace (cp_FundraiserWallet params)))
        (cp_GoalAmount params) (Unix (cp_EndAt params)) = Inr calldata"
  using assms by (auto simp: prepareCall_def campaignEndAt_def Let_def split: option.splits if_splits sum.splits)

lemma buildTransaction_ok:
  "buildTransaction X d calldata key sender ch = Inr t \<Longrightarrow> tx_to t = fd_factoryAddress d \<and> tx_data t = calldata"
  by (auto simp: buildTransaction_def Let_def split: sum.splits option.splits)

text \<open>(C18) End to end on the chain: when the delivery of a pending campaign's message is handled by the
  on-chain deployer and the deployment succeeds, exactly one transaction was sent, to the factory, calling
  \<open>createCampaign\<close> with the campaign's identifier, the fundraiser's wallet, a positive goal and the end in
  positive Unix seconds; it was mined successfully; and the campaign is now active at the address in the
  third topic of a \<open>CampaignCreated\<close> event that the factory itself emitted in that transaction.\<close>

theorem live_delivery_records_contract:
  assumes "db_ok d" and "c \<in> set (campaigns d)" "c_Status c = CampaignStatusPending" "\<not> campaignAlreadyDeployed c"
    and "Truncate Second (c_EndAt c) = c_EndAt c"
    and "uuid_laws E" "decodable (deploymentTask (wk_chainID wk) wallet c)" "fault E = (\<lambda>_. None)" "generateID E = Inr i" "i \<noteq> 0"
    and "wk_deployer wk = Some (FactoryDeployCampaign E X fd)"
      "FactoryDeployCampaign E X fd (deploymentParams (deploymentTask (wk_chainID wk) wallet c) c) ch = (ch', Inr r)"
    and "eventFits (deploymentEvent i r) (cr_ContractAddress r) d"
  shows "\<exists>calldata key signedTx ch1 receipt l.
      Pack X ''createCampaign'' (c_ID c) (HexToAddress X (TrimSpace wallet)) (c_GoalAmount c) (Unix (c_EndAt c)) = Inr calldata
      \<and> 0 < c_GoalAmount c \<and> 0 < Unix (c_EndAt c)
      \<and> tx_to signedTx = fd_factoryAddress fd \<and> tx_data signedTx = calldata
      \<and> SendTransaction X key signedTx ch = (ch1, Inr ())
      \<and> WaitMined X (fd_confirmTimeout fd) key signedTx ch1 = (ch', Inr receipt) \<and> rc_Status receipt = 1
      \<and> l \<in> set (rc_Logs receipt) \<and> lg_Address l = fd_factoryAddress fd \<and> CreatedID X = Some (lg_Topics l ! 0)
      \<and> handleDelivery (Deployer_handleDelivery E wk) (campaignDelivery E (wk_chainID wk) wallet c) (d, ch) =
          ((d\<lparr>blockchain_events := blockchain_events d @ [storedEvent E (deploymentEvent i r)],
              campaigns := update_where (\<lambda>x. c_ID x = c_ID c)
                (activated i (TrimSpace (addressHex X (indexedAddressFromTopic (lg_Topics l ! 2))))) (campaigns d)\<rparr>, ch'), Ack)"
proof -
  note delivered = factory.delivery_recorded [OF assms]
  from assms(12) show ?thesis
  proof (rule FactoryDeployCampaign_ok)
    fix calldata key sender signedTx ch1 receipt l t
    assume *: "prepareCall E X fd (deploymentParams (deploymentTask (wk_chainID wk) wallet c) c) = Inr (calldata, key, sender)"
      "buildTransaction X fd calldata key sender ch = Inr signedTx" "SendTransaction X key signedTx ch = (ch1, Inr ())"
      "WaitMined X (fd_confirmTimeout fd) key signedTx ch1 = (ch', Inr receipt)" "rc_Status receipt = 1"
      "l \<in> set (rc_Logs receipt)" "lg_Address l = fd_factoryAddress fd" "CreatedID X = Some (lg_Topics l ! 0)"
      "r = \<lparr>cr_ContractAddress = addressHex X (indexedAddressFromTopic (lg_Topics l ! 2)), cr_TxHash = ''0x'' @ HashHex X key signedTx,
         cr_LogIndex = toInt64 (lg_Index l), cr_BlockNumber = toInt64 (rc_BlockNumber receipt), cr_EventCreatedAt = toInt64 t * Second\<rparr>"
    have "cr_ContractAddress r = addressHex X (indexedAddressFromTopic (lg_Topics l ! 2))" by (simp add: *(9))
    moreover have "Pack X ''createCampaign'' (c_ID c) (HexToAddress X (TrimSpace wallet)) (c_GoalAmount c) (Unix (c_EndAt c)) = Inr calldata"
      "0 < c_GoalAmount c" "0 < Unix (c_EndAt c)"
      using prepareCall_ok [OF *(1)] by (simp_all add: deploymentParams_def deploymentTask_def factoryCreateMethodName_def)
    ultimately show ?thesis
      using delivered buildTransaction_ok [OF *(2)] *(3-8)
      by (intro exI [of _ calldata] exI [of _ key] exI [of _ signedTx] exI [of _ ch1] exI [of _ receipt] exI [of _ l]) metis
  qed
qed

lemma FactoryDeployCampaign_rejected:
  assumes "prepareCall E X fd params = Inr (calldata, key, sender)"
    and "EstimateGas X sender (fd_factoryAddress fd) calldata ch = Inl e"
  shows "\<exists>e'. FactoryDeployCampaign E X fd params ch = (ch, Inl e')"
  using assms by (auto simp: FactoryDeployCampaign_def buildTransaction_def split: sum.splits)

lemma handleAll_stuck:
  assumes "handleDelivery handler x w = (w, y)"
  shows "handleAll handler (replicate n x) w = (w, replicate n (x, y))"
  using assms by (induction n) auto

text \<open>(C26) A deployment that was interrupted after the transaction was mined is never completed: when
  the campaign exists on the chain but is still pending in the database, and the factory therefore rejects
  a second \<open>createCampaign\<close> already at the gas estimate (its ABI declares \<open>CampaignAlreadyDeployed\<close>), every
  delivery of the message fails and is put back on the queue, and after any number of redeliveries the
  database and the chain are what they were.\<close>

theorem interrupted_deployment_stuck:
  assumes "db_ok d" and "c \<in> set (campaigns d)" "c_Status c = CampaignStatusPending" "\<not> campaignAlreadyDeployed c"
    and "Truncate Second (c_EndAt c) = c_EndAt c"
    and "uuid_laws E" "decodable (deploymentTask (wk_chainID wk) wallet c)" "fault E = (\<lambda>_. None)"
    and "wk_deployer wk = Some (FactoryDeployCampaign E X fd)"
    and "prepareCall E X fd (deploymentParams (deploymentTask (wk_chainID wk) wallet c) c) = Inr (calldata, key, sender)"
    and "EstimateGas X sender (fd_factoryAddress fd) calldata ch = Inl e"
  shows "handleAll (Deployer_handleDelivery E wk) (replicate n (campaignDelivery E (wk_chainID wk) wallet c)) (d, ch)
    = ((d, ch), replicate n (campaignDelivery E (wk_chainID wk) wallet c, NackRequeue))"
proof -
  let ?task = "deploymentTask (wk_chainID wk) wallet c"
  have "DecodeCampaignDeploymentMessage E (d_Body (campaignDelivery E (wk_chainID wk) wallet c)) = Inr ?task"
    using delivery_task [OF assms(6,7)] assms(5) by simp
  moreover from FactoryDeployCampaign_rejected [OF assms(10,11)] obtain e'
    where "FactoryDeployCampaign E X fd (deploymentParams ?task c) ch = (ch, Inl e')" by blast
  then have "Handle E wk ?task (d, ch) = ((d, ch), Inl (Wrap ''service: deploy campaign'' e'))"
    using FindByIDForDeployment_found [OF assms(1,2,8)] assms(3,4,8,9)
    by (simp add: Handle_def deploymentTask_def deploymentTaskMatchesCampaign_def)
  ultimately have "handleDelivery (Deployer_handleDelivery E wk) (campaignDelivery E (wk_chainID wk) wallet c) (d, ch) = ((d, ch), NackRequeue)"
    by (simp add: handleDelivery_def Deployer_handleDelivery_def)
  then show ?thesis by (rule handleAll_stuck)
qed

section \<open>Witnesses\<close>

text \<open>A chain that keeps the calls the factory accepted and rejects a repeated one.\<close>

definition demo_eth :: "(string list, unit) ethereum" where
  "demo_eth =
     \<lparr>IsHexAddress = (\<lambda>_. True), HexToAddress = (\<lambda>_. 1), ChecksumHex = (\<lambda>_. ''C2''), ParseABI = None, CreatedID = Some 5,
      Pack = (\<lambda>_ _ _ _ _. Inr ''create''), HexToECDSA = (\<lambda>_. Inr ()), KeyedTransactor = (\<lambda>_ _. Inr 2), SignTx = (\<lambda>_ _ _. None),
      HashHex = (\<lambda>_ _. ''03''), DialRPC = (\<lambda>_. None), PendingNonceAt = (\<lambda>_ ch. Inr (int (length ch))), SuggestGasPrice = (\<lambda>_. Inr 1),
      EstimateGas = (\<lambda>_ _ calldata ch. if calldata \<in> set ch then Inl (Errorf ''CampaignAlreadyDeployed'') else Inr 21000),
      SendTransaction = (\<lambda>_ t ch. (ch @ [tx_data t], Inr ())),
      WaitMined = (\<lambda>_ _ _ ch. (ch, Inr \<lparr>rc_Status = 1,
        rc_Logs = [\<lparr>lg_Address = 9, lg_Topics = [5, 6, 7, 8], lg_Index = 0\<rparr>, \<lparr>lg_Address = 1, lg_Topics = [5, 22, 0xC2, 1], lg_Index = 1\<rparr>],
        rc_BlockNumber = 3\<rparr>)),
      HeaderTime = (\<lambda>_ _. Inr 1700000000)\<rparr>"

definition demo_factory :: FactoryCampaignDeployer where
  "demo_factory = \<lparr>fd_factoryAddress = 1, fd_chainID = 97, fd_privateKey = ''0x01'', fd_confirmTimeout = 2 * Minute\<rparr>"

definition demo_live :: "string list CampaignDeploymentWorker" where
  "demo_live = \<lparr>wk_chainID = 97, wk_deployer = Some (FactoryDeployCampaign demo_env demo_eth demo_factory)\<rparr>"

lemma demo_prepare:
  "prepareCall demo_env demo_eth demo_factory (deploymentParams (deploymentTask 97 ''0xAb'' demo_pending) demo_pending)
    = Inr (''create'', (), 2)"
  by (simp add: prepareCall_def demo_eth_def demo_pending_def demo_campaign_def deploymentParams_def deploymentTask_def Let_def campaignEndAt_def
      zeroTime_def Unix_def transactSigner_def)

definition demo_onchain :: CampaignDeploymentResult where
  "demo_onchain = \<lparr>cr_ContractAddress = ''0xC2'', cr_TxHash = ''0x03'', cr_LogIndex = 1, cr_BlockNumber = 3,
     cr_EventCreatedAt = 1700000000000000000\<rparr>"

lemma demo_factory_deploys:
  "FactoryDeployCampaign demo_env demo_eth demo_factory (deploymentParams (deploymentTask 97 ''0xAb'' demo_pending) demo_pending) []
    = ([''create''], Inr demo_onchain)"
  unfolding FactoryDeployCampaign_def demo_prepare
  by (simp add: buildTransaction_def confirmDeployment_def parseCampaignCreatedLog_def Let_def
      demo_eth_def demo_factory_def demo_onchain_def indexedAddressFromTopic_def addressHex_def toInt64_def wrap64_def Second_def)

lemma demo_pending_facts: "demo_pending \<in> set (campaigns demo_db)" "c_Status demo_pending = CampaignStatusPending"
  "\<not> campaignAlreadyDeployed demo_pending" "Truncate Second (c_EndAt demo_pending) = c_EndAt demo_pending"
  by (simp_all add: demo_db_def demo_pending_def demo_campaign_def campaignAlreadyDeployed_def Truncate_second Unix_def)

theorem live_delivery_records_contract_witness:
  "\<exists>d'. handleDelivery (Deployer_handleDelivery demo_env demo_live) (campaignDelivery demo_env 97 ''0xAb'' demo_pending) (demo_db, [])
    = ((d', [''create'']), Ack)"
proof -
  have trim: "TrimSpace ''0xC2'' = ''0xC2''" "TrimSpace ''0x03'' = ''0x03''"
    "RuneCountInString ''0xC2'' \<le> 255" "RuneCountInString ''0x03'' \<le> 255" by code_simp+
  have "eventFits (deploymentEvent 7 demo_onchain) (cr_ContractAddress demo_onchain) demo_db"
    by (simp add: eventFits_def deploymentEvent_def demo_onchain_def trim int4_def demo_db_def demo_campaign_def demo_pending_def)
  then show ?thesis
    using live_delivery_records_contract [OF demo_db_ok demo_pending_facts demo_uuid_laws, of demo_live "''0xAb''" 7 demo_eth demo_factory "[]" "[''create'']" demo_onchain]
      demo_decodable(2) demo_factory_deploys
    by (auto simp: demo_live_def)
qed

theorem interrupted_deployment_stuck_witness:
  "handleAll (Deployer_handleDelivery demo_env demo_live) (replicate 3 (campaignDelivery demo_env 97 ''0xAb'' demo_pending)) (demo_db, [''create''])
    = ((demo_db, [''create'']), replicate 3 (campaignDelivery demo_env 97 ''0xAb'' demo_pending, NackRequeue))"
  using interrupted_deployment_stuck [OF demo_db_ok demo_pending_facts demo_uuid_laws, of demo_live "''0xAb''" demo_eth demo_factory
      "''create''" "()" 2 "[''create'']" "Errorf ''CampaignAlreadyDeployed''" 3]
    demo_decodable(2) demo_prepare
  by (simp add: demo_live_def demo_eth_def demo_factory_def)

end
