(* ===== verification/Startup.thy ===== *)
theory Startup
  imports Config Routes Factory_Deployer
begin

text \<open>
  Starting and stopping the two processes: the constructors of the storage clients
  (\<open>internal/infra/storage\<close>), of the database handle and of the cache client, \<open>app.New\<close> and
  \<open>Application.Close\<close> (\<open>internal/app/app.go\<close>), \<open>NewDeployer\<close>, \<open>HealthHandler\<close>, \<open>Run\<close> and \<open>Close\<close>
  (\<open>internal/app/deployer.go\<close>). A database handle and a cache client are \<open>Unopened\<close>, \<open>Opened\<close> or \<open>Released\<close>;
  the queue client is the one of \<open>Queue_Client\<close>. The outcomes of the third-party calls are the fields of
  \<open>startLib\<close>. The lemmas: a start that fails leaves nothing open, a start that succeeds wires the
  components the request handlers rely on, and \<open>Close\<close> releases everything whatever fails on the way.
\<close>

section \<open>Outcomes of third-party calls\<close>

record startLib =
  st_parsers :: parsers
  url_String :: "url \<Rightarrow> string"
  minio_New :: "string \<Rightarrow> bool \<Rightarrow> string \<Rightarrow> string \<Rightarrow> string \<Rightarrow> err option"
  PresignHeader :: "string \<Rightarrow> string \<Rightarrow> duration \<Rightarrow> string \<Rightarrow> int \<Rightarrow> string result"
  sql_Open :: "string \<Rightarrow> err option"
  sql_Ping :: "err option"
  sql_Close :: "err option"
  redis_ParseURL :: "string \<Rightarrow> err option"
  redis_Ping :: "err option"
  redis_Close :: "err option"
  st_dial :: dialEnv
  amqp_Close :: "err option"

section \<open>Storage clients\<close>

record PresignerConfig =
  pc_Endpoint :: string
  pc_AccessKey :: string
  pc_SecretKey :: string
  pc_Bucket :: string
  pc_Region :: string
  pc_TTL :: duration

record PutPresigner =
  pp_bucket :: string
  pp_ttl :: duration

definition maxPresignTTL :: duration where
  "maxPresignTTL = 7 * 24 * Hour"

definition parseEndpoint :: "startLib \<Rightarrow> string \<Rightarrow> url result" where
  "parseEndpoint S rawEndpoint =
     (let parsed = url_Parse (st_parsers S) (TrimSpace rawEndpoint)
      in if \<not> absoluteHTTP parsed then Inl (Errorf ''storage: endpoint must be an absolute HTTP(S) URL'')
         else case parsed of
             Inl e \<Rightarrow> Inl e
           | Inr u \<Rightarrow>
               (if u_User u \<or> (u_Path u \<noteq> [] \<and> u_Path u \<noteq> ''/'') \<or> u_RawQuery u \<noteq> [] \<or> u_Fragment u \<noteq> []
                then Inl (Errorf ''storage: endpoint must not contain credentials, path, query, or fragment'')
                else Inr u))"

text \<open>The checks the three constructors share: the endpoint, the credentials, the bucket and the region.\<close>

definition storageSettings :: "startLib \<Rightarrow> PresignerConfig \<Rightarrow> (url \<times> string \<times> string) result" where
  "storageSettings S cfg =
     (case parseEndpoint S (pc_Endpoint cfg) of
        Inl e \<Rightarrow> Inl e
      | Inr u \<Rightarrow>
          (if TrimSpace (pc_AccessKey cfg) = [] then Inl (Errorf ''storage: access key is required'')
           else if TrimSpace (pc_SecretKey cfg) = [] then Inl (Errorf ''storage: secret key is required'')
           else if TrimSpace (pc_Bucket cfg) = [] then Inl (Errorf ''storage: bucket is required'')
           else if TrimSpace (pc_Region cfg) = [] then Inl (Errorf ''storage: region is required'')
           else Inr (u, TrimSpace (pc_Bucket cfg), TrimSpace (pc_Region cfg))))"

definition minioClient :: "startLib \<Rightarrow> PresignerConfig \<Rightarrow> url \<Rightarrow> string \<Rightarrow> unit result" where
  "minioClient S cfg u region =
     (case minio_New S (u_Host u) (u_Scheme u = ''https'') (TrimSpace (pc_AccessKey cfg)) (TrimSpace (pc_SecretKey cfg)) region of
        Some e \<Rightarrow> Inl (Wrap ''storage: initialize MinIO client'' e)
      | None \<Rightarrow> Inr ())"

definition NewPutPresigner :: "startLib \<Rightarrow> PresignerConfig \<Rightarrow> PutPresigner result" where
  "NewPutPresigner S cfg =
     (case storageSettings S cfg of
        Inl e \<Rightarrow> Inl e
      | Inr (u, bucket, region) \<Rightarrow>
          (if pc_TTL cfg < Second \<or> pc_TTL cfg > maxPresignTTL
           then Inl (Errorf ''storage: presign TTL must be between 1 second and 7 days'')
           else case minioClient S cfg u region of
               Inl e \<Rightarrow> Inl e
             | Inr _ \<Rightarrow> Inr \<lparr>pp_bucket = bucket, pp_ttl = pc_TTL cfg\<rparr>))"

definition NewObjectDeleter :: "startLib \<Rightarrow> PresignerConfig \<Rightarrow> ObjectDeleter result" where
  "NewObjectDeleter S cfg =
     (case storageSettings S cfg of
        Inl e \<Rightarrow> Inl e
      | Inr (u, bucket, region) \<Rightarrow>
          (case minioClient S cfg u region of Inl e \<Rightarrow> Inl e | Inr _ \<Rightarrow> Inr \<lparr>od_bucket = bucket\<rparr>))"

definition NewObjectPromoter :: "startLib \<Rightarrow> PresignerConfig \<Rightarrow> ObjectPromoter result" where
  "NewObjectPromoter S cfg =
     (case storageSettings S cfg of
        Inl e \<Rightarrow> Inl e
      | Inr (u, bucket, region) \<Rightarrow>
          (case minioClient S cfg u region of Inl e \<Rightarrow> Inl e | Inr _ \<Rightarrow> Inr \<lparr>op_bucket = bucket\<rparr>))"

definition PresignPut :: "startLib \<Rightarrow> PutPresigner \<Rightarrow> string \<Rightarrow> string \<Rightarrow> int \<Rightarrow> string result" where
  "PresignPut S p objectKey contentType n =
     (case PresignHeader S (pp_bucket p) objectKey (pp_ttl p) contentType n of
        Inl e \<Rightarrow> Inl (Wrap ''storage: presign PUT'' e)
      | Inr u \<Rightarrow> Inr u)"

text \<open>\<open>strings.TrimRight(s, "/")\<close>.\<close>

definition trimSlashes :: "string \<Rightarrow> string" where
  "trimSlashes s = rev (dropWhile (\<lambda>c. c = CHR ''/'') (rev s))"

definition NewPublicURLBuilder :: "startLib \<Rightarrow> string \<Rightarrow> PublicURLBuilder result" where
  "NewPublicURLBuilder S rawBaseURL =
     (case url_Parse (st_parsers S) (TrimSpace rawBaseURL) of
        Inl e \<Rightarrow> Inl (Wrap ''storage: parse public base URL'' e)
      | Inr u \<Rightarrow>
          (if (u_Scheme u \<noteq> ''http'' \<and> u_Scheme u \<noteq> ''https'') \<or> u_Host u = []
           then Inl (Errorf ''storage: public base URL must be an absolute HTTP or HTTPS URL'')
           else if u_RawQuery u \<noteq> [] \<or> u_Fragment u \<noteq> []
           then Inl (Errorf ''storage: public base URL cannot contain a query or fragment'')
           else Inr \<lparr>baseURL = trimSlashes (url_String S (u\<lparr>u_Path := trimSlashes (u_Path u)\<rparr>))\<rparr>))"

section \<open>Database handle and cache client\<close>

definition databaseOpen :: "startLib \<Rightarrow> string \<Rightarrow> resource \<times> unit result" where
  "databaseOpen S databaseURL =
     (case sql_Open S databaseURL of
        Some e \<Rightarrow> (Unopened, Inl (Wrap ''repository: open database'' e))
      | None \<Rightarrow>
          (case sql_Ping S of
             Some e \<Rightarrow> (Released, Inl (Wrap ''repository: ping database'' e))
           | None \<Rightarrow> (Opened, Inr ())))"

definition cacheOpen :: "startLib \<Rightarrow> string \<Rightarrow> string \<Rightarrow> resource \<times> CacheClient result" where
  "cacheOpen S url keyPrefix =
     (let rawURL = TrimSpace url
      in if rawURL = [] then (Unopened, Inl (Errorf ''cache: URL is required''))
         else case redis_ParseURL S rawURL of
             Some e \<Rightarrow> (Unopened, Inl (Wrap ''cache: parse URL'' e))
           | None \<Rightarrow>
               (case redis_Ping S of
                  Some e \<Rightarrow> (Released, Inl (Wrap ''cache: ping server'' e))
                | None \<Rightarrow> (Opened, Inr \<lparr>cc_keyPrefix = TrimSpace keyPrefix\<rparr>)))"

definition cacheClose :: "startLib \<Rightarrow> err option" where
  "cacheClose S = map_option (Wrap ''cache: close client'') (redis_Close S)"

section \<open>The API process\<close>

text \<open>What is open: \<open>app.Application\<close>'s three handles, and the deployer's connection to the node of its chain, which
  the API does not have.\<close>

record handles =
  hn_DB :: resource
  hn_Cache :: resource
  hn_Queue :: "clientSystem option"
  hn_Chain :: resource

text \<open>Closing in the order of \<open>fail\<close> and of \<open>Close\<close>: queue, cache, database; every error is collected.
  The wrappers of the three errors differ between the two.\<close>

definition releaseAll :: "startLib \<Rightarrow> (err \<Rightarrow> err) \<Rightarrow> (err \<Rightarrow> err) \<Rightarrow> (err \<Rightarrow> err) \<Rightarrow> handles \<Rightarrow> handles \<times> err list" where
  "releaseAll S wq wc wd h =
     (let (queue, xq) = (case hn_Queue h of None \<Rightarrow> (None, None) | Some q \<Rightarrow> (case Close (amqp_Close S) q of (q', e) \<Rightarrow> (Some q', e)));
          (cache, ec) = (if hn_Cache h = Opened then (Released, cacheClose S) else (hn_Cache h, None));
          (db, ed) = (if hn_DB h = Opened then (Released, sql_Close S) else (hn_DB h, None))
      in (h\<lparr>hn_DB := db, hn_Cache := cache, hn_Queue := queue\<rparr>,
          map wq (case xq of None \<Rightarrow> [] | Some e \<Rightarrow> [e]) @ map wc (case ec of None \<Rightarrow> [] | Some e \<Rightarrow> [e])
          @ map wd (case ed of None \<Rightarrow> [] | Some e \<Rightarrow> [e])))"

definition failNew :: "startLib \<Rightarrow> err \<Rightarrow> handles \<Rightarrow> handles \<times> (err list + 'a)" where
  "failNew S startupErr h =
     (case releaseAll S (\<lambda>e. e) (\<lambda>e. e) (Wrap ''app: close database after startup failure'') h of
        (h', es) \<Rightarrow> (h', Inl (startupErr # es)))"

definition Application_Close :: "startLib \<Rightarrow> handles \<Rightarrow> handles \<times> err list" where
  "Application_Close S h = releaseAll S (Wrap ''app: close queue'') (Wrap ''app: close cache'') (Wrap ''app: close database'') h"

definition storageConfig :: "Config \<Rightarrow> duration \<Rightarrow> PresignerConfig" where
  "storageConfig cfg ttl =
     \<lparr>pc_Endpoint = cf_StorageEndpoint cfg, pc_AccessKey = cf_StorageAccessKey cfg, pc_SecretKey = cf_StorageSecretKey cfg,
      pc_Bucket = cf_StorageBucket cfg, pc_Region = cf_StorageRegion cfg, pc_TTL = ttl\<rparr>"

text \<open>The services and handlers, wired from the configuration and the clients.\<close>

definition wire :: "env \<Rightarrow> startLib \<Rightarrow> 'b amqp \<Rightarrow> Config \<Rightarrow> JWTManager \<Rightarrow> PublicURLBuilder \<Rightarrow> PutPresigner \<Rightarrow> ObjectDeleter
    \<Rightarrow> ObjectPromoter \<Rightarrow> CacheClient \<Rightarrow> 'b Application" where
  "wire E S A cfg jwtManager urlBuilder putPresigner objectDeleter objectPromoter cacheClient =
     (let supporterService = NewSupporterService (Some objectDeleter) (Some objectPromoter);
          fundraiserService = NewFundraiserService (Some objectDeleter) (Some objectPromoter);
          campaignService = NewCampaignService (Some objectPromoter) (Some (PublishCampaignDeployment E (Some A))) (cf_SIWEChainID cfg);
          authService = NewAuthService cacheClient jwtManager
            \<lparr>ac_Domain = cf_SIWEDomain cfg, ac_URI = cf_SIWEURI cfg, ac_ChainID = cf_SIWEChainID cfg,
             ac_MessageTTL = cf_SIWEMessageTTL cfg, ac_AccessTokenTTL = cf_JWTTTL cfg\<rparr>
      in \<lparr>ap_AuthHandler = NewAuthHandler authService urlBuilder (cf_SIWEChainID cfg),
          ap_UploadHandler = NewUploadHandler (PresignPut S putPresigner),
          ap_SupporterHandler = NewSupporterHandler supporterService authService urlBuilder,
          ap_FundraiserHandler = NewFundraiserHandler fundraiserService authService urlBuilder,
          ap_CampaignHandler = NewCampaignHandler campaignService urlBuilder,
          ap_Authenticate = jwtManager, ap_CORSAllowedOrigins = cf_CORSAllowedOrigins cfg\<rparr>)"

lemmas constructors = NewSupporterService_def NewFundraiserService_def NewCampaignService_def NewAuthService_def
  handler_constructors

text \<open>From the cache on: the cache, the queue, the topology.\<close>

definition connectClients :: "env \<Rightarrow> startLib \<Rightarrow> 'b amqp \<Rightarrow> Config \<Rightarrow> (CacheClient \<Rightarrow> 'b Application) \<Rightarrow> handles \<Rightarrow> 'b
    \<Rightarrow> handles \<times> 'b \<times> (err list + 'b Application)" where
  "connectClients E S A cfg app h b =
     (case cacheOpen S (cf_CacheURL cfg) (cf_CacheKeyPrefix cfg) of
        (cache, Inl e) \<Rightarrow> (case failNew S (Wrap ''app: initialize cache'' e) (h\<lparr>hn_Cache := cache\<rparr>) of (h', r) \<Rightarrow> (h', b, r))
      | (cache, Inr cacheClient) \<Rightarrow>
          (case Open (st_dial S) \<lparr>cl_URL = cf_QueueURL cfg, cl_ConnectionName = []\<rparr> of
             Inl e \<Rightarrow> (case failNew S (Wrap ''app: initialize queue'' e) (h\<lparr>hn_Cache := cache\<rparr>) of (h', r) \<Rightarrow> (h', b, r))
           | Inr q \<Rightarrow>
               (case DeclareOn (Some A) CampaignDeploymentTopology b of
                  (b', Inl e) \<Rightarrow>
                    (case failNew S (Wrap ''app: declare campaign deployment topology'' e) (h\<lparr>hn_Cache := cache, hn_Queue := Some q\<rparr>) of
                       (h', r) \<Rightarrow> (h', b', r))
                | (b', Inr _) \<Rightarrow> (h\<lparr>hn_Cache := cache, hn_Queue := Some q\<rparr>, b', Inr (app cacheClient)))))"

definition New :: "env \<Rightarrow> startLib \<Rightarrow> 'b amqp \<Rightarrow> Config \<Rightarrow> 'b \<Rightarrow> handles \<times> 'b \<times> (err list + 'b Application)" where
  "New E S A cfg b =
     (case databaseOpen S (cf_DatabaseURL cfg) of
        (db, Inl e) \<Rightarrow> (\<lparr>hn_DB = db, hn_Cache = Unopened, hn_Queue = None, hn_Chain = Unopened\<rparr>, b, Inl [e])
      | (db, Inr _) \<Rightarrow>
          (let h = \<lparr>hn_DB = db, hn_Cache = Unopened, hn_Queue = None, hn_Chain = Unopened\<rparr>;
               fail = (\<lambda>message e. case failNew S (Wrap message e) h of (h', r) \<Rightarrow> (h', b, r))
           in case NewJWTManager (cf_JWTSecret cfg) of
                Inl e \<Rightarrow> fail ''app: initialize JWT manager'' e
              | Inr jwtManager \<Rightarrow>
                  (case NewPublicURLBuilder S (cf_StoragePublicBaseURL cfg) of
                     Inl e \<Rightarrow> fail ''app: initialize public URL builder'' e
                   | Inr urlBuilder \<Rightarrow>
                       (case NewPutPresigner S (storageConfig cfg (cf_StoragePresignTTL cfg)) of
                          Inl e \<Rightarrow> fail ''app: initialize storage presigner'' e
                        | Inr putPresigner \<Rightarrow>
                            (case NewObjectDeleter S (storageConfig cfg 0) of
                               Inl e \<Rightarrow> fail ''app: initialize storage object deleter'' e
                             | Inr objectDeleter \<Rightarrow>
                                 (case NewObjectPromoter S (storageConfig cfg 0) of
                                    Inl e \<Rightarrow> fail ''app: initialize storage object promoter'' e
                                  | Inr objectPromoter \<Rightarrow>
                                      connectClients E S A cfg
                                        (wire E S A cfg jwtManager urlBuilder putPresigner objectDeleter objectPromoter) h b))))))"

section \<open>The deployer process\<close>

text \<open>\<open>app.Deployer\<close>: the consumer next to its queue client, the worker, and what closes the chain deployer.\<close>

record ('b, 'w, 'c) DeployerApp =
  da_consumer :: "('b, 'w) consumerSystem"
  da_worker :: "'c CampaignDeploymentWorker"
  da_closeChain :: "resource \<Rightarrow> resource \<times> err option"

definition failDeployer :: "startLib \<Rightarrow> err \<Rightarrow> handles \<Rightarrow> handles \<times> (err list + 'a)" where
  "failDeployer S startupErr h =
     (case releaseAll S (Wrap ''app: close queue after startup failure'') (\<lambda>e. e) (Wrap ''app: close database after startup failure'') h of
        (h', es) \<Rightarrow> (h', Inl (startupErr # es)))"

definition deployerConsumerConfig :: ConsumerConfig where
  "deployerConsumerConfig =
     \<lparr>cc_Queue = t_Queue CampaignDeploymentTopology, cc_Topology = Some CampaignDeploymentTopology, cc_Tag = [], cc_Prefetch = 1\<rparr>"

definition NewDeployer :: "env \<Rightarrow> startLib \<Rightarrow> ('c, 'k) ethereum \<Rightarrow> 'b amqp \<Rightarrow> DeployerConfig \<Rightarrow> 'b \<Rightarrow> 'w
    \<Rightarrow> handles \<times> 'b \<times> (err list + ('b, 'w, 'c) DeployerApp)" where
  "NewDeployer E S X A cfg b w =
     (case databaseOpen S (dc_DatabaseURL cfg) of
        (db, Inl e) \<Rightarrow> (\<lparr>hn_DB = db, hn_Cache = Unopened, hn_Queue = None, hn_Chain = Unopened\<rparr>, b, Inl [Wrap ''app: deployer database'' e])
      | (db, Inr _) \<Rightarrow>
          (let h = \<lparr>hn_DB = db, hn_Cache = Unopened, hn_Queue = None, hn_Chain = Unopened\<rparr>
           in case Open (st_dial S) \<lparr>cl_URL = dc_QueueURL cfg, cl_ConnectionName = []\<rparr> of
                Inl e \<Rightarrow> (case failDeployer S (Wrap ''app: deployer queue'' e) h of (h', r) \<Rightarrow> (h', b, r))
              | Inr q \<Rightarrow>
                  (case DeclareOn (Some A) CampaignDeploymentTopology b of
                     (b', Inl e) \<Rightarrow>
                       (case failDeployer S (Wrap ''app: declare campaign deployment topology'' e) (h\<lparr>hn_Queue := Some q\<rparr>) of
                          (h', r) \<Rightarrow> (h', b', r))
                   | (b', Inr _) \<Rightarrow>
                       (case newConsumerSystem A deployerConsumerConfig q b' w of
                          Inl e \<Rightarrow>
                            (case failDeployer S (Wrap ''app: deployer consumer'' e) (h\<lparr>hn_Queue := Some q\<rparr>) of
                               (h', r) \<Rightarrow> (h', b', r))
                        | Inr consumer \<Rightarrow>
                            (case NewConfiguredCampaignDeployer E X (dc_DeploymentMode cfg) (dc_ChainID cfg) (dc_ChainRPCURL cfg)
                                    (dc_CampaignFactoryAddress cfg) (dc_DeployerPrivateKey cfg) (dc_ConfirmTimeout cfg) of
                               Inl e \<Rightarrow>
                                 (case failDeployer S (Wrap ''app: deployer campaign deployer'' e)
                                         (h\<lparr>hn_Queue := Some (cn_client consumer)\<rparr>) of (h', r) \<Rightarrow> (h', b', r))
                             | Inr (chainDeployer, chain) \<Rightarrow>
                                 (h\<lparr>hn_Queue := Some (cn_client consumer), hn_Chain := chain\<rparr>, b',
                                  Inr \<lparr>da_consumer = consumer,
                                       da_worker = NewCampaignDeploymentWorker (dc_ChainID cfg) (Some (cd_Deployer chainDeployer)),
                                       da_closeChain = cd_Close chainDeployer\<rparr>))))))"

text \<open>\<open>Deployer.Run\<close> is the consumer's \<open>Run\<close> with \<open>handleDelivery\<close> as its handler.\<close>

definition Deployer_Run :: "env \<Rightarrow> 'b sessionCalls \<Rightarrow> ('b, db \<times> 'c, 'c) DeployerApp \<Rightarrow> consumerEvent
    \<Rightarrow> ('b, db \<times> 'c) consumerSystem \<Rightarrow> ('b, db \<times> 'c) consumerSystem option" where
  "Deployer_Run E B d ev s = Run B (Deployer_handleDelivery E (da_worker d)) ev s"

definition Deployer_Close :: "startLib \<Rightarrow> ('b, 'w, 'c) DeployerApp \<Rightarrow> handles \<Rightarrow> handles \<times> err list" where
  "Deployer_Close S d h =
     (case da_closeChain d (hn_Chain h) of
        (chain, e) \<Rightarrow>
          (case releaseAll S (Wrap ''app: close queue'') (\<lambda>e. e) (Wrap ''app: close database'') (h\<lparr>hn_Chain := chain\<rparr>) of
             (h', es) \<Rightarrow> (h', map (Wrap ''app: close chain deployer'') (case e of None \<Rightarrow> [] | Some e \<Rightarrow> [e]) @ es)))"

definition HealthHandler :: "startLib \<Rightarrow> handles \<Rightarrow> payload Response" where
  "HealthHandler S h =
     (if hn_DB h = Opened \<and> sql_Ping S \<noteq> None
      then WriteError [] 503 ''UNHEALTHY'' ''Database is unavailable.'' []
      else WriteSuccess [] 200 ''HEALTHY'' ''Service is healthy.'' (ServiceName ''pawfund-deployer''))"

section \<open>Nothing is left open\<close>

definition queueReleased :: "clientSystem option \<Rightarrow> bool" where
  "queueReleased oq \<longleftrightarrow> (case oq of None \<Rightarrow> True | Some q \<Rightarrow> qs_closer q = CloseReturned \<and> \<not> connLive (Conn q) q)"

definition allReleased :: "handles \<Rightarrow> bool" where
  "allReleased h \<longleftrightarrow> hn_DB h \<noteq> Opened \<and> hn_Cache h \<noteq> Opened \<and> queueReleased (hn_Queue h) \<and> hn_Chain h \<noteq> Opened"

definition queueFresh :: "clientSystem option \<Rightarrow> bool" where
  "queueFresh oq \<longleftrightarrow> (case oq of None \<Rightarrow> True | Some q \<Rightarrow> clientInv q \<and> qs_closer q = NotClosed)"

lemma releaseAll_released:
  assumes "queueFresh (hn_Queue h)" and "hn_Chain h \<noteq> Opened"
  shows "allReleased (fst (releaseAll S wq wc wd h))"
proof -
  have "queueReleased (Some q')" if "hn_Queue h = Some q" "Close e q = (q', x)" for e q q' x
    using that assms Close_returned [of q e] returned_dead [of q'] by (simp add: queueFresh_def queueReleased_def)
  with assms(2) show ?thesis
    by (auto simp: releaseAll_def allReleased_def Let_def queueReleased_def [of None] split: option.splits prod.splits)
qed

lemma failNew_released: "failNew S e h = (h', r) \<Longrightarrow> queueFresh (hn_Queue h) \<Longrightarrow> hn_Chain h \<noteq> Opened \<Longrightarrow> allReleased h' \<and> (\<exists>es. r = Inl (e # es))"
  using releaseAll_released [of h S "\<lambda>e. e" "\<lambda>e. e"] by (auto simp: failNew_def split: prod.splits) (metis fst_conv)

lemma failDeployer_released:
  "failDeployer S e h = (h', r) \<Longrightarrow> queueFresh (hn_Queue h) \<Longrightarrow> hn_Chain h \<noteq> Opened \<Longrightarrow> allReleased h' \<and> (\<exists>es. r = Inl (e # es))"
  using releaseAll_released by (auto simp: failDeployer_def split: prod.splits) (metis fst_conv)

lemma Open_fresh: "Open D cfg = Inr q \<Longrightarrow> queueFresh (Some q) \<and> connLive (Conn q) q"
  using Open_inv [of D cfg q]
  by (auto simp: queueFresh_def Open_def Let_def connLive_def Conn_def split: if_splits prod.splits sum.splits)

lemma databaseOpen_result: "databaseOpen S u = (r, x) \<Longrightarrow> (r = Opened \<longleftrightarrow> x = Inr ())"
  by (auto simp: databaseOpen_def split: option.splits)

lemma cacheOpen_result: "cacheOpen S u k = (r, x) \<Longrightarrow> (r = Opened \<longleftrightarrow> (\<exists>c. x = Inr c))"
  by (auto simp: cacheOpen_def Let_def split: option.splits if_splits)

text \<open>What \<open>New\<close> leaves: everything closed and an error list that starts with the wrapped start-up
  error, or everything open and the wired application.\<close>

definition started :: "handles \<Rightarrow> bool" where
  "started h \<longleftrightarrow> hn_DB h = Opened \<and> hn_Cache h = Opened \<and> hn_Chain h \<noteq> Opened \<and> (\<exists>q. hn_Queue h = Some q \<and> queueFresh (Some q) \<and> connLive (Conn q) q)"

definition failedWith :: "string \<Rightarrow> handles \<Rightarrow> err list + 'a \<Rightarrow> bool" where
  "failedWith m h r \<longleftrightarrow> allReleased h \<and> (\<exists>e es. r = Inl (Wrap m e # es))"

definition startResult :: "handles \<Rightarrow> err list + 'a \<Rightarrow> ('p \<Rightarrow> 'a) \<Rightarrow> bool" where
  "startResult h r app \<longleftrightarrow> (\<exists>m. m \<noteq> ''app: initialize JWT manager'' \<and> failedWith m h r) \<or> (\<exists>c. r = Inr (app c) \<and> started h)"

lemma failNew_step:
  assumes "(case failNew S (Wrap m e) h of (h', r) \<Rightarrow> (h', b, r)) = (h', b', r)" and "queueFresh (hn_Queue h)" and "hn_Chain h \<noteq> Opened"
  shows "failedWith m h' r"
  using assms failNew_released [of S "Wrap m e" h h' r] by (auto simp: failedWith_def split: prod.splits)

lemma startResult_failed: "failedWith m h r \<Longrightarrow> m \<noteq> ''app: initialize JWT manager'' \<Longrightarrow> startResult h r app"
  by (auto simp: startResult_def)

lemma connectClients_result:
  assumes "connectClients E S A cfg app h b = (h', b', r)" and "hn_DB h = Opened" "hn_Queue h = None" "hn_Chain h \<noteq> Opened"
  shows "startResult h' r app"
proof (cases "cacheOpen S (cf_CacheURL cfg) (cf_CacheKeyPrefix cfg)")
  case (Pair cache rc)
  show ?thesis
  proof (cases rc)
    case (Inl e)
    with Pair assms(1) have "(case failNew S (Wrap ''app: initialize cache'' e) (h\<lparr>hn_Cache := cache\<rparr>) of (h', r) \<Rightarrow> (h', b, r)) = (h', b', r)"
      by (simp add: connectClients_def)
    then have "failedWith ''app: initialize cache'' h' r" by (rule failNew_step) (simp_all add: assms(3,4) queueFresh_def)
    then show ?thesis by (rule startResult_failed) simp
  next
    case (Inr c)
    show ?thesis
    proof (cases "Open (st_dial S) \<lparr>cl_URL = cf_QueueURL cfg, cl_ConnectionName = []\<rparr>")
      case (Inl e)
      with Pair Inr assms(1) have "(case failNew S (Wrap ''app: initialize queue'' e) (h\<lparr>hn_Cache := cache\<rparr>) of (h', r) \<Rightarrow> (h', b, r)) = (h', b', r)"
        by (simp add: connectClients_def)
      then have "failedWith ''app: initialize queue'' h' r" by (rule failNew_step) (simp_all add: assms(3,4) queueFresh_def)
      then show ?thesis by (rule startResult_failed) simp
    next
      case q: (Inr q)
      obtain b1 x where d: "DeclareOn (Some A) CampaignDeploymentTopology b = (b1, x)" by fastforce
      show ?thesis
      proof (cases x)
        case (Inl e)
        with Pair Inr q d assms(1)
        have "(case failNew S (Wrap ''app: declare campaign deployment topology'' e) (h\<lparr>hn_Cache := cache, hn_Queue := Some q\<rparr>) of
            (h', r) \<Rightarrow> (h', b1, r)) = (h', b', r)"
          by (simp add: connectClients_def)
        then have "failedWith ''app: declare campaign deployment topology'' h' r" by (rule failNew_step) (simp_all add: Open_fresh [OF q] assms(4))
        then show ?thesis by (rule startResult_failed) simp
      next
        case ok: (Inr u)
        with Pair Inr q d assms Open_fresh [OF q] cacheOpen_result [OF Pair] show ?thesis
          by (auto simp: connectClients_def started_def startResult_def)
      qed
    qed
  qed
qed

lemma databaseOpen_failed:
  assumes "databaseOpen S u = (db, Inl e)"
  shows "startResult \<lparr>hn_DB = db, hn_Cache = Unopened, hn_Queue = None, hn_Chain = Unopened\<rparr> (Inl [e]) app"
proof -
  from assms obtain m e' where m: "e = Wrap m e'" "m = ''repository: open database'' \<or> m = ''repository: ping database''"
    and db: "db \<noteq> Opened"
    by (auto simp: databaseOpen_def split: option.splits)
  then have "failedWith m \<lparr>hn_DB = db, hn_Cache = Unopened, hn_Queue = None, hn_Chain = Unopened\<rparr> (Inl [e])"
    by (simp add: failedWith_def allReleased_def queueReleased_def)
  then show ?thesis by (rule startResult_failed) (use m in auto)
qed

lemma New_result:
  assumes "New E S A cfg b = (h, b', r)" and "32 \<le> length (cf_JWTSecret cfg)"
  shows "\<exists>url put del prom. startResult h r (wire E S A cfg (cf_JWTSecret cfg) url put del prom)"
proof (cases "databaseOpen S (cf_DatabaseURL cfg)")
  case (Pair db x)
  let ?h = "\<lparr>hn_DB = db, hn_Cache = Unopened, hn_Queue = None, hn_Chain = Unopened\<rparr>"
  have fails: "startResult h r app" if "(case failNew S (Wrap m e) ?h of (h', r) \<Rightarrow> (h', b, r)) = (h, b', r)"
      and "m \<noteq> ''app: initialize JWT manager''" for m e and app :: "CacheClient \<Rightarrow> 'a Application"
    by (rule startResult_failed [OF failNew_step [OF that(1)] that(2)]) (simp_all add: queueFresh_def)
  show ?thesis
  proof (cases x)
    case (Inl e)
    with Pair assms(1) have "h = ?h" "r = Inl [e]" by (simp_all add: New_def)
    with Pair Inl show ?thesis by (simp add: databaseOpen_failed)
  next
    case (Inr u)
    then have db: "db = Opened" using databaseOpen_result [OF Pair] by simp
    have jwt: "NewJWTManager (cf_JWTSecret cfg) = Inr (cf_JWTSecret cfg)" using assms(2) by (simp add: NewJWTManager_def)
    let ?st = "storageConfig cfg"
    consider (url) e where "NewPublicURLBuilder S (cf_StoragePublicBaseURL cfg) = Inl e"
      | (put) url e where "NewPublicURLBuilder S (cf_StoragePublicBaseURL cfg) = Inr url"
          "NewPutPresigner S (?st (cf_StoragePresignTTL cfg)) = Inl e"
      | (del) url put e where "NewPublicURLBuilder S (cf_StoragePublicBaseURL cfg) = Inr url"
          "NewPutPresigner S (?st (cf_StoragePresignTTL cfg)) = Inr put" "NewObjectDeleter S (?st 0) = Inl e"
      | (prom) url put del e where "NewPublicURLBuilder S (cf_StoragePublicBaseURL cfg) = Inr url"
          "NewPutPresigner S (?st (cf_StoragePresignTTL cfg)) = Inr put" "NewObjectDeleter S (?st 0) = Inr del"
          "NewObjectPromoter S (?st 0) = Inl e"
      | (ok) url put del prom where "NewPublicURLBuilder S (cf_StoragePublicBaseURL cfg) = Inr url"
          "NewPutPresigner S (?st (cf_StoragePresignTTL cfg)) = Inr put" "NewObjectDeleter S (?st 0) = Inr del"
          "NewObjectPromoter S (?st 0) = Inr prom"
      by (metis obj_sumE)
    then show ?thesis
    proof cases
      case url
      with Pair Inr jwt assms(1) fails [of "''app: initialize public URL builder''"] show ?thesis by (simp add: New_def Let_def)
    next
      case put
      with Pair Inr jwt assms(1) fails [of "''app: initialize storage presigner''"] show ?thesis by (simp add: New_def Let_def)
    next
      case del
      with Pair Inr jwt assms(1) fails [of "''app: initialize storage object deleter''"] show ?thesis by (simp add: New_def Let_def)
    next
      case prom
      with Pair Inr jwt assms(1) fails [of "''app: initialize storage object promoter''"] show ?thesis by (simp add: New_def Let_def)
    next
      case ok
      with Pair Inr jwt assms(1) have "connectClients E S A cfg (wire E S A cfg (cf_JWTSecret cfg) url put del prom) ?h b = (h, b', r)"
        by (simp add: New_def)
      then show ?thesis using connectClients_result db by fastforce
    qed
  qed
qed

section \<open>Properties\<close>

lemma Application_Close_released: "started h \<Longrightarrow> allReleased (fst (Application_Close S h))"
  unfolding Application_Close_def by (rule releaseAll_released) (auto simp: started_def queueFresh_def)

text \<open>(C21) Starting the API with a configuration that \<open>Load\<close> accepted. When \<open>New\<close> fails, the error is not
  about the JWT secret (\<open>Load\<close> has checked it), and the database handle, the cache client and the queue
  connection it may have opened are all closed again. When it succeeds, all three are open, the token
  verifier of the middleware and the issuer of the auth service share the configured secret, the campaign
  service publishes tasks for the configured positive chain ID, no wildcard origin is allowed, and \<open>Close\<close>
  later releases all three, whichever of the closing calls fails.\<close>

theorem startup_sound:
  assumes "load (st_parsers S) getenv = Inr cfg" and "New E S A cfg b = (h, b', r)"
  shows "case r of
      Inl es \<Rightarrow> allReleased h \<and> es \<noteq> [] \<and> (\<forall>e. hd es \<noteq> Wrap ''app: initialize JWT manager'' e)
    | Inr app \<Rightarrow> started h \<and> allReleased (fst (Application_Close S h))
        \<and> ap_Authenticate app = cf_JWTSecret cfg \<and> as_tokenGenerator (ah_service (ap_AuthHandler app)) = ap_Authenticate app
        \<and> svc_chainID (ch_service (ap_CampaignHandler app)) = cf_SIWEChainID cfg \<and> 0 < cf_SIWEChainID cfg
        \<and> svc_deploymentPublisher (ch_service (ap_CampaignHandler app)) = Some (PublishCampaignDeployment E (Some A))
        \<and> ''*'' \<notin> set (ap_CORSAllowedOrigins app)"
proof -
  from load_ok [OF assms(1)] have cfg: "32 \<le> length (cf_JWTSecret cfg)" "0 < cf_SIWEChainID cfg"
    "parseCORSOrigins (st_parsers S) (getenv ''CORS_ALLOWED_ORIGINS'') = Inr (cf_CORSAllowedOrigins cfg)"
    by (simp_all add: acceptedConfig_def)
  from New_result [OF assms(2) cfg(1)] obtain url put del prom
    where "startResult h r (wire E S A cfg (cf_JWTSecret cfg) url put del prom)" by blast
  then show ?thesis
    using cfg(2) parseCORSOrigins_ok(2) [OF cfg(3)] Application_Close_released
    by (auto simp: startResult_def failedWith_def wire_def constructors Let_def)
qed

text \<open>The deployer process: what was opened is closed when the start fails.\<close>

lemma newConsumer_fresh:
  assumes "Open D c = Inr q" and "newConsumerSystem A cfg q b w = Inr s"
  shows "queueFresh (Some (cn_client s))"
proof -
  from assms(2) have "cn_client s = fst (Notify q)" by (auto simp: newConsumerSystem_def split: sum.splits)
  moreover have "clientInv (fst (Notify q))" using Open_inv [OF assms(1)] by (rule Notify_inv)
  moreover have "qs_closer (fst (Notify q)) = qs_closer q" by (simp add: Notify_def Let_def)
  ultimately show ?thesis using Open_fresh [OF assms(1)] by (simp add: queueFresh_def)
qed

lemma failDeployer_step:
  assumes "(case failDeployer S e h of (h', r) \<Rightarrow> (h', b, r)) = (h', b', Inl es)" and "queueFresh (hn_Queue h)" and "hn_Chain h \<noteq> Opened"
  shows "allReleased h'"
  using assms failDeployer_released [of S e h] by (auto split: prod.splits)

lemma NewDeployer_released:
  assumes "NewDeployer E S X A cfg b w = (h, b', Inl es)"
  shows "allReleased h"
proof (cases "databaseOpen S (dc_DatabaseURL cfg)")
  case (Pair db x)
  let ?h = "\<lparr>hn_DB = db, hn_Cache = Unopened, hn_Queue = None, hn_Chain = Unopened\<rparr>"
  show ?thesis
  proof (cases x)
    case (Inl e)
    with Pair assms databaseOpen_result [OF Pair] show ?thesis by (auto simp: NewDeployer_def allReleased_def queueReleased_def)
  next
    case (Inr u)
    show ?thesis
    proof (cases "Open (st_dial S) \<lparr>cl_URL = dc_QueueURL cfg, cl_ConnectionName = []\<rparr>")
      case (Inl e)
      with Pair Inr assms show ?thesis
        by (auto simp: NewDeployer_def queueFresh_def elim!: failDeployer_step)
    next
      case q: (Inr q)
      obtain b1 y where d: "DeclareOn (Some A) CampaignDeploymentTopology b = (b1, y)" by fastforce
      show ?thesis
      proof (cases y)
        case (Inl e)
        with Pair Inr q d assms Open_fresh [OF q] show ?thesis
          by (auto simp: NewDeployer_def elim!: failDeployer_step)
      next
        case ok: (Inr u')
        show ?thesis
        proof (cases "newConsumerSystem A deployerConsumerConfig q b1 w")
          case (Inl e)
          with Pair Inr q d ok assms Open_fresh [OF q] show ?thesis
            by (auto simp: NewDeployer_def elim!: failDeployer_step)
        next
          case c: (Inr c)
          with Pair Inr q d ok assms newConsumer_fresh [OF q c] show ?thesis
            by (auto simp: NewDeployer_def Let_def split: sum.splits elim!: failDeployer_step)
        qed
      qed
    qed
  qed
qed

section \<open>Witness\<close>

definition demo_url :: url where
  "demo_url = \<lparr>u_Scheme = ''https'', u_Host = ''h'', u_User = False, u_Path = [], u_RawQuery = [], u_Fragment = []\<rparr>"

definition demo_boot :: startLib where
  "demo_boot =
     \<lparr>st_parsers = \<lparr>url_Parse = (\<lambda>_. Inr demo_url), time_ParseDuration = (\<lambda>_. Some Hour)\<rparr>, url_String = (\<lambda>_. ''https://h''),
      minio_New = (\<lambda>_ _ _ _ _. None), PresignHeader = (\<lambda>_ k _ _ _. Inr k), sql_Open = (\<lambda>_. None), sql_Ping = None,
      sql_Close = Some (Errorf ''busy''), redis_ParseURL = (\<lambda>_. None), redis_Ping = None, redis_Close = None,
      st_dial = demo_dial None, amqp_Close = None\<rparr>"

definition demo_getenv :: "string \<Rightarrow> string" where
  "demo_getenv name =
     (if name = ''JWT_SECRET'' then replicate 32 CHR ''k'' else if name = ''SIWE_CHAIN_ID'' then ''97'' else ''h'')"

definition demo_config :: Config where
  "demo_config =
     \<lparr>cf_HTTPAddr = ''h'', cf_DatabaseURL = ''h'', cf_JWTSecret = replicate 32 CHR ''k'', cf_StoragePublicBaseURL = ''h'',
      cf_StorageEndpoint = ''h'', cf_StorageAccessKey = ''h'', cf_StorageSecretKey = ''h'', cf_StorageBucket = ''h'',
      cf_StorageRegion = ''h'', cf_StoragePresignTTL = Hour, cf_CacheURL = ''h'', cf_CacheKeyPrefix = ''h'', cf_QueueURL = ''h'',
      cf_SIWEDomain = ''h'', cf_SIWEURI = ''h'', cf_SIWEChainID = 97, cf_SIWEMessageTTL = Hour, cf_JWTTTL = Hour,
      cf_CORSAllowedOrigins = [''https://h'']\<rparr>"

lemma demo_trims: "TrimSpace ''h'' = ''h''" "ParseInt (TrimSpace ''97'') = Some 97" "SplitByte (CHR '','') ''h'' = [''h'']"
  by code_simp+

lemma demo_load: "load (st_parsers demo_boot) demo_getenv = Inr demo_config"
  by (simp add: load_def Let_def demo_getenv_def demo_trims positiveChainID_def validateStorageEndpoint_def absoluteHTTP_def demo_boot_def
      demo_url_def checkSIWE_def positiveDuration_def Hour_def parseCORSOrigins_def normalizeHTTPOrigin_def demo_config_def)

lemma demo_storage: "storageSettings demo_boot (storageConfig demo_config ttl) = Inr (demo_url, ''h'', ''h'')"
  by (simp add: storageSettings_def parseEndpoint_def storageConfig_def demo_config_def demo_trims absoluteHTTP_def demo_boot_def demo_url_def)

lemma demo_starts: "\<exists>h b app. New demo_env demo_boot demo_amqp demo_config ([], []) = (h, b, Inr app)"
proof -
  have "NewJWTManager (cf_JWTSecret demo_config) = Inr (cf_JWTSecret demo_config)"
    by (simp add: NewJWTManager_def demo_config_def)
  moreover obtain url where "NewPublicURLBuilder demo_boot (cf_StoragePublicBaseURL demo_config) = Inr url"
    by (simp add: NewPublicURLBuilder_def demo_boot_def demo_url_def)
  moreover have "minioClient demo_boot cfg u region = Inr ()" for cfg u region by (simp add: minioClient_def demo_boot_def)
  then obtain put del prom where "NewPutPresigner demo_boot (storageConfig demo_config (cf_StoragePresignTTL demo_config)) = Inr put"
    "NewObjectDeleter demo_boot (storageConfig demo_config 0) = Inr del" "NewObjectPromoter demo_boot (storageConfig demo_config 0) = Inr prom"
    by (simp add: NewPutPresigner_def NewObjectDeleter_def NewObjectPromoter_def demo_storage maxPresignTTL_def)
      (simp add: storageConfig_def demo_config_def Hour_def Minute_def Second_def)
  moreover have "databaseOpen demo_boot (cf_DatabaseURL demo_config) = (Opened, Inr ())"
    by (simp add: databaseOpen_def demo_boot_def)
  moreover obtain c where "cacheOpen demo_boot (cf_CacheURL demo_config) (cf_CacheKeyPrefix demo_config) = (Opened, Inr c)"
    by (simp add: cacheOpen_def demo_boot_def demo_config_def demo_trims)
  moreover obtain q where "Open (st_dial demo_boot) \<lparr>cl_URL = cf_QueueURL demo_config, cl_ConnectionName = []\<rparr> = Inr q"
    by (simp add: Open_def demo_boot_def demo_config_def demo_trims demo_dialContext)
  moreover have "TrimSpace campaignDeploymentExchange = campaignDeploymentExchange" "TrimSpace campaignDeploymentQueue = campaignDeploymentQueue"
    "TrimSpace ''topic'' = ''topic''" by code_simp+
  then have "\<exists>b. DeclareOn (Some demo_amqp) CampaignDeploymentTopology ([], []) = (b, Inr ())"
    by (simp add: DeclareOn_def Declare_def demo_amqp_def validateTopology_def CampaignDeploymentTopology_def callIf_def)
      (simp add: campaignDeploymentQueue_def)
  ultimately show ?thesis by (auto simp: New_def connectClients_def)
qed

theorem startup_sound_witness:
  "\<exists>h b app. New demo_env demo_boot demo_amqp demo_config ([], []) = (h, b, Inr app) \<and> started h
     \<and> allReleased (fst (Application_Close demo_boot h)) \<and> svc_chainID (ch_service (ap_CampaignHandler app)) = 97"
proof -
  from demo_starts obtain h b app where new: "New demo_env demo_boot demo_amqp demo_config ([], []) = (h, b, Inr app)" by blast
  from startup_sound [OF demo_load new] new show ?thesis by (auto simp: demo_config_def)
qed

end
