(* ===== verification/Mains.thy ===== *)
theory Mains
  imports Startup
begin

text \<open>
  The two commands (\<open>cmd/api/main.go\<close>, \<open>cmd/deployer/main.go\<close>): \<open>run\<close> loads the configuration, starts the
  process, waits for the first of its events and, once the start has succeeded, always closes it again by its
  deferred call. The outcomes of the HTTP server and of the consumer are the fields of a record; what happens
  to the queue client meanwhile is any sequence of its steps other than \<open>Close\<close>. \<open>main\<close> exits with 1 on an
  error. The lemmas: on every path everything that was opened is closed, and what exit code 0 means.
\<close>

section \<open>While a process serves\<close>








section \<open>The API command\<close>







section \<open>The deployer command\<close>






section \<open>Everything is closed\<close>





section \<open>Exit codes\<close>









end
