(* ===== verification/Application.thy ===== *)
theory Application
  imports Deployment Profile_Service "HOL-Library.Option_ord"
begin

text \<open>
  The application as a state machine. A step is one call of a service by the API, one delivery to
  the deployer, or an upload by a client to a staging key; the environment of each call, with all
  its failures, is arbitrary. Every reachable state satisfies the rules of the schema and of the
  application (\<open>app_ok\<close>), and every image a profile or a campaign refers to is in the store
  (\<open>images_ok\<close>); an object leaves the store only as a promoted copy or an unused image. The abstract
  specification of a campaign's life has three transitions (nothing, announced, activated); every step of the application is one of them.
\<close>

section \<open>Images of campaigns\<close>

lemma CreatePending_rows:
  assumes "CreatePending E w c t d = (d', r)"
  shows "d' = d \<or> (\<exists>row. d' = d\<lparr>campaigns := campaigns d @ [row]\<rparr> \<and> c_ID row \<notin> c_ID ` set (campaigns d)
    \<and> c_ImageObjectKey row = c_ImageObjectKey c \<and> c_Status row = c_Status c)"
proof -
  from runTx_changed [OF assms [unfolded CreatePending_def]] consider "d' = d"
    | m a where "createPendingTx E w c t d = Commit m a d'" by blast
  then show ?thesis
  proof cases
    case 2
    from createPending_commit [OF this] consider "d' = d"
      | i row where "insert_campaign E (c\<lparr>c_FundraiserID := i\<rparr>) d = Inr (Some row, d')" by blast
    then show ?thesis
    proof cases
      case 2
      note rows = insert_campaign_rows [OF 2]
      have "c_ID row \<notin> c_ID ` set (campaigns d)"
        using 2 by (auto simp: insert_campaign_def Let_def split: option.splits if_splits)
      with rows show ?thesis by (intro disjI2 exI [of _ row]) simp
    qed blast
  qed blast
qed

lemma CompleteDeployment_rows:
  assumes "CompleteDeployment E i e a d = (d', r)"
  shows "d' = d \<or> (users d' = users d \<and> supporters d' = supporters d \<and> fundraisers d' = fundraisers d
    \<and> (\<exists>c0\<in>set (campaigns d). c_ID c0 = i \<and> c_Status c0 = CampaignStatusPending)
    \<and> (\<exists>a'. campaigns d' = update_where (\<lambda>c. c_ID c = i) (activated (ev_ID e) a') (campaigns d)))"
proof (cases "eventAccepted e a")
  case False
  from CompleteDeployment_refused [OF this, of E i d] assms show ?thesis by auto
next
  case True
  from runTx_changed [OF assms [unfolded CompleteDeployment_guards [OF True]]] consider "d' = d"
    | m x where "completeDeploymentTx E i e (TrimSpace a) d = Commit m x d'" by blast
  then show ?thesis
  proof cases
    case 2
    from completeDeployment_pending [OF 2] have p: "\<exists>c0\<in>set (campaigns d). c_ID c0 = i \<and> c_Status c0 = CampaignStatusPending" .
    from completeDeployment_commit [OF 2] obtain d1 where
      d1: "insert_event E (e\<lparr>ev_TxHash := TrimSpace (ev_TxHash e)\<rparr>) d = Inr d1"
      and act: "activate_campaign i (ev_ID e) (TrimSpace a) d1 = Inr d'" by blast
    note rows = insert_event_rows [OF d1]
    from p rows have "i \<in> c_ID ` set (campaigns d1)" by auto
    moreover obtain a' where "varchar 255 (TrimSpace a) = Some a'"
      using act by (cases "varchar 255 (TrimSpace a)") (simp_all add: activate_campaign_def)
    ultimately have "d' = d1\<lparr>campaigns := update_where (\<lambda>c. c_ID c = i) (activated (ev_ID e) a') (campaigns d1)\<rparr>"
      using act by (simp add: activate_campaign_def activated_def [abs_def] split: if_split_asm)
    with rows p show ?thesis by auto
  qed blast
qed

lemma Create_images:
  assumes ok: "images_ok (op_bucket p) w" and svc: "svc_objectPromoter svc = Some p" and run: "Create E svc input w = (w', r)"
  shows "images_ok (op_bucket p) w'"
  using run
proof (cases rule: Create_cases)
  case (unnamed e)
  with ok show ?thesis by simp
next
  case (image st e)
  with promoteImageObjectKey_failed ok show ?thesis by fastforce
next
  case (refused i st key d e)
  have "d = database w" using refused(2) by (auto simp: CreatePending_def dest: runTx_error)
  moreover have "images_ok (op_bucket p) (w\<lparr>database := database w, objects := st\<rparr>)"
    by (rule images_step [OF ok, of _ st])
      (use promoteImageObjectKey_ok(3) [OF refused(1) campaign_directory(1)] in \<open>simp_all\<close>)
  ultimately show ?thesis using refused(3) by simp
next
  case (stored i st key d created b x)
  let ?s = "TrimSpace (ci_ImageObjectKey input)"
  note pk = promoteImageObjectKey_ok [OF stored(1) campaign_directory(1)]
  have key: "c_ImageObjectKey (newCampaign i input key) = key" by (simp add: newCampaign_def)
  have "images_ok (op_bucket p) (w\<lparr>database := d, objects := discardStagingImage E (svc_objectPromoter svc) (Some ?s) st\<rparr>)"
  proof (rule images_step [OF ok, of d st])
    fix k assume "k \<in> profileImages d"
    then show "k \<in> profileImages (database w) \<or> profileKey k \<and> st (op_bucket p, k) \<noteq> None"
      using CreatePending_rows [OF stored(2)] by (auto simp: profileImages_def imageStillReferenced_def)
  next
    fix k assume "k \<in> campaignImages d"
    then show "k \<in> campaignImages (database w) \<or> HasPrefix k ''campaigns/'' \<and> st (op_bucket p, k) \<noteq> None"
      using CreatePending_rows [OF stored(2)] campaign_key [OF pk(1)] pk(2) [OF svc] key
      by (auto simp: campaignImages_def)
  next
    fix k assume "HasPrefix k ''profiles/'' \<or> HasPrefix k ''campaigns/''"
    then show "discardStagingImage E (svc_objectPromoter svc) (Some ?s) st (op_bucket p, k) = st (op_bucket p, k)"
      by (rule discard_staged [OF pk(1)])
  qed (use pk(3) in simp)
  then show ?thesis using stored(4) by (simp add: images_ok_def)
qed

lemma Create_disposed:
  assumes svc: "svc_objectPromoter svc = Some p" and run: "Create E svc input w = (w', r)"
    and gone: "objects w (op_bucket p, k) \<noteq> None" "objects w' (op_bucket p, k) = None"
  shows "disposed w w' k"
  using run
proof (cases rule: Create_cases)
  case (image st e)
  with promoteImageObjectKey_failed gone show ?thesis by fastforce
next
  case (refused i st key d e)
  with promoteImageObjectKey_ok(3) [OF refused(1) campaign_directory(1) gone(1)] gone(2) show ?thesis by simp
next
  case (stored i st key d created b x)
  let ?s = "TrimSpace (ci_ImageObjectKey input)"
  have "discardStagingImage E (svc_objectPromoter svc) (Some ?s) st (op_bucket p, k) = None" using gone(2) stored(4) by simp
  from discardStagingImage_gone [OF promoteImageObjectKey_ok(3) [OF stored(1) campaign_directory(1) gone(1)] this]
  have "k = ''tmp/'' @ key"
    using Canonical_staging [OF promoteImageObjectKey_ok(1) [OF stored(1) campaign_directory(1)]] by simp
  moreover have "key \<in> campaignImages d"
    using CreatePending_image [OF stored(2)] by (simp add: campaignImages_def newCampaign_def)
  ultimately show ?thesis using stored(4) by (simp add: disposed_def)
qed (use gone in simp)

lemma Create_app:
  assumes "app_ok (database w)" and "Create E svc input w = (w', r)"
  shows "app_ok (database w')"
  using assms(2)
proof (cases rule: Create_cases)
  case (refused i st key d e)
  with CreatePending_app [OF assms(1), of E "TrimSpace (ci_WalletAddress input)" "newCampaign i input key"
      "time_Now E + CampaignDeploymentLeadTime"] show ?thesis by simp
next
  case (stored i st key d created b x)
  with CreatePending_app [OF assms(1), of E "TrimSpace (ci_WalletAddress input)" "newCampaign i input key"
      "time_Now E + CampaignDeploymentLeadTime"] show ?thesis by simp
qed (use assms(1) in simp_all)

text \<open>The effect of a delivery on the database: none, or that of \<open>CompleteDeployment\<close>.\<close>

lemma delivery_database:
  assumes "Deployer_handleDelivery E wk delivery (d, ch) = ((d', ch'), r)"
  shows "d' = d \<or> (\<exists>i e a x. CompleteDeployment E i e a d = (d', x))"
proof (cases "DecodeCampaignDeploymentMessage E (d_Body delivery)")
  case (Inl e)
  with assms show ?thesis by (simp add: Deployer_handleDelivery_def)
next
  case (Inr task)
  with assms obtain y where "Handle E wk task (d, ch) = ((d', ch'), y)"
    by (auto simp: Deployer_handleDelivery_def split: prod.splits sum.splits)
  then show ?thesis by (cases rule: Handle_cases) blast+
qed

lemma delivery_app:
  assumes "app_ok d" and "Deployer_handleDelivery E wk delivery (d, ch) = ((d', ch'), r)"
  shows "app_ok d'"
  using delivery_database [OF assms(2)] CompleteDeployment_app [OF assms(1)] assms(1) by (metis fst_conv)

lemma CompleteDeployment_images:
  assumes "CompleteDeployment E i e a d = (d', x)"
  shows "profileImages d' = profileImages d \<and> campaignImages d' = campaignImages d"
  using CompleteDeployment_rows [OF assms]
proof (elim disjE conjE exE)
  fix a' assume "supporters d' = supporters d" "fundraisers d' = fundraisers d"
    and c: "campaigns d' = update_where (\<lambda>c. c_ID c = i) (activated (ev_ID e) a') (campaigns d)"
  moreover have "map c_ImageObjectKey (campaigns d') = map c_ImageObjectKey (campaigns d)"
    unfolding c by (rule map_update_where) (simp add: activated_def)
  then have "c_ImageObjectKey ` set (campaigns d') = c_ImageObjectKey ` set (campaigns d)"
    by (metis list.set_map)
  ultimately show ?thesis by (simp add: profileImages_def imageStillReferenced_def campaignImages_def)
qed simp

lemma delivery_images:
  assumes ok: "images_ok b w" and run: "Deployer_handleDelivery E wk delivery (database w, ch) = ((d, ch'), r)"
  shows "images_ok b (w\<lparr>database := d\<rparr>)"
proof -
  have "profileImages d = profileImages (database w) \<and> campaignImages d = campaignImages (database w)"
    using delivery_database [OF run] CompleteDeployment_images by blast
  with ok show ?thesis by (simp add: images_ok_def)
qed

section \<open>The state machine\<close>

text \<open>The state of the system is that of the application and that of the chain. The promoter is
  configured once, at the start.\<close>

inductive app_step :: "ObjectPromoter \<Rightarrow> 'b world \<times> 'c \<Rightarrow> 'b world \<times> 'c \<Rightarrow> bool" for p :: ObjectPromoter where
  register_supporter: "ps_objectPromoter svc = Some p \<Longrightarrow> SupporterService_Register E svc inS w = (w', rS) \<Longrightarrow> app_step p (w, ch) (w', ch)"
| register_fundraiser: "ps_objectPromoter svc = Some p \<Longrightarrow> FundraiserService_Register E svc inF w = (w', rF) \<Longrightarrow> app_step p (w, ch) (w', ch)"
| replace_supporter: "ps_objectPromoter svc = Some p \<Longrightarrow> SupporterService_ReplaceProfile E svc inRS w = (w', r) \<Longrightarrow> app_step p (w, ch) (w', ch)"
| replace_fundraiser: "ps_objectPromoter svc = Some p \<Longrightarrow> FundraiserService_ReplaceProfile E svc inRF w = (w', r) \<Longrightarrow> app_step p (w, ch) (w', ch)"
| delete_supporter: "SupporterService_DeleteProfile E svc wallet w = (w', r) \<Longrightarrow> app_step p (w, ch) (w', ch)"
| delete_fundraiser: "FundraiserService_DeleteProfile E svc wallet w = (w', r) \<Longrightarrow> app_step p (w, ch) (w', ch)"
| create_campaign: "svc_objectPromoter csvc = Some p \<Longrightarrow> Create E csvc inC w = (w', rC) \<Longrightarrow> app_step p (w, ch) (w', ch)"
| deliver: "Deployer_handleDelivery E wk delivery (database w, ch) = ((d, ch'), r) \<Longrightarrow> app_step p (w, ch) (w\<lparr>database := d\<rparr>, ch')"
| upload: "HasPrefix k ''tmp/'' \<Longrightarrow> app_step p (w, ch) (w\<lparr>objects := (objects w)((op_bucket p, k) \<mapsto> content)\<rparr>, ch)"

inductive reachable :: "ObjectPromoter \<Rightarrow> 'b world \<times> 'c \<Rightarrow> bool" for p :: ObjectPromoter where
  start: "database w = empty_db \<Longrightarrow> reachable p (w, ch)"
| step: "reachable p s \<Longrightarrow> app_step p s s' \<Longrightarrow> reachable p s'"

lemma app_step_app: "app_step p s s' \<Longrightarrow> app_ok (database (fst s)) \<Longrightarrow> app_ok (database (fst s'))"
proof (induction rule: app_step.induct)
  case (register_supporter svc E inS w w' rS ch)
  from sup.register_profile_app [OF _ _ this(2) [unfolded SupporterService_Register_def]] this(3) show ?case
    by (simp add: newSupporter_def)
next
  case (register_fundraiser svc E inF w w' rF ch)
  from fundr.register_profile_app [OF _ _ this(2) [unfolded FundraiserService_Register_def]] this(3) show ?case
    by (simp add: newFundraiser_def)
qed (auto simp: SupporterService_ReplaceProfile_def FundraiserService_ReplaceProfile_def
    SupporterService_DeleteProfile_def FundraiserService_DeleteProfile_def
    dest: sup.replace_profile_app fundr.replace_profile_app sup.delete_profile_app fundr.delete_profile_app
      Create_app delivery_app)

lemma app_step_images:
  "app_step p s s' \<Longrightarrow> app_ok (database (fst s)) \<Longrightarrow> images_ok (op_bucket p) (fst s) \<Longrightarrow> images_ok (op_bucket p) (fst s')"
proof (induction rule: app_step.induct)
  case (register_supporter svc E inS w w' rS ch)
  from sup.register_profile_images [OF _ this(1) _ this(2) [unfolded SupporterService_Register_def]] this(4) show ?case
    by (simp add: newSupporter_def)
next
  case (register_fundraiser svc E inF w w' rF ch)
  from fundr.register_profile_images [OF _ this(1) _ this(2) [unfolded FundraiserService_Register_def]] this(4) show ?case
    by (simp add: newFundraiser_def)
next
  case (upload k w ch content)
  have "j \<noteq> k" if "HasPrefix j ''profiles/'' \<or> HasPrefix j ''campaigns/''" for j
    using that upload(1) prefix_clash by blast
  with upload show ?case by (auto simp: images_ok_def profileKey_def)
qed (auto simp: SupporterService_ReplaceProfile_def FundraiserService_ReplaceProfile_def
    SupporterService_DeleteProfile_def FundraiserService_DeleteProfile_def
    dest: sup.replace_profile_images fundr.replace_profile_images sup.delete_profile_images fundr.delete_profile_images
      Create_images delivery_images)

lemma app_step_disposed:
  "app_step p s s' \<Longrightarrow> app_ok (database (fst s)) \<Longrightarrow> images_ok (op_bucket p) (fst s) \<Longrightarrow>
     objects (fst s) (op_bucket p, k) \<noteq> None \<Longrightarrow> objects (fst s') (op_bucket p, k) = None \<Longrightarrow> disposed (fst s) (fst s') k"
proof (induction rule: app_step.induct)
  case (register_supporter svc E inS w w' rS ch)
  from sup.register_profile_disposed [OF this(1) _ this(2) [unfolded SupporterService_Register_def]] this(5,6) show ?case
    by (simp add: newSupporter_def)
next
  case (register_fundraiser svc E inF w w' rF ch)
  from fundr.register_profile_disposed [OF this(1) _ this(2) [unfolded FundraiserService_Register_def]] this(5,6) show ?case
    by (simp add: newFundraiser_def)
next
  case (upload k' w ch content)
  then show ?case by (simp split: if_splits)
qed (simp_all add: SupporterService_ReplaceProfile_def FundraiserService_ReplaceProfile_def
    SupporterService_DeleteProfile_def FundraiserService_DeleteProfile_def
    sup.replace_profile_disposed fundr.replace_profile_disposed sup.delete_profile_disposed
    fundr.delete_profile_disposed Create_disposed)

lemma reachable_invariant: "reachable p s \<Longrightarrow> app_ok (database (fst s)) \<and> images_ok (op_bucket p) (fst s)"
proof (induction rule: reachable.induct)
  case (start w ch)
  then show ?case
    using app_ok_empty
    by (simp add: images_ok_def profileImages_def imageStillReferenced_def campaignImages_def empty_db_def)
next
  case (step s s')
  then show ?case using app_step_app app_step_images by blast
qed

section \<open>The life of a campaign\<close>

definition statusOf :: "db \<Rightarrow> uuid \<Rightarrow> CampaignStatus option" where
  "statusOf d i = map_option c_Status (find (\<lambda>c. c_ID c = i) (campaigns d))"

inductive lifecycle :: "(uuid \<Rightarrow> CampaignStatus option) \<Rightarrow> (uuid \<Rightarrow> CampaignStatus option) \<Rightarrow> bool" where
  stutter: "lifecycle m m"
| announce: "m i = None \<Longrightarrow> lifecycle m (m(i \<mapsto> CampaignStatusPending))"
| activate: "m i = Some CampaignStatusPending \<Longrightarrow> lifecycle m (m(i \<mapsto> CampaignStatusActive))"

text \<open>A campaign's status only moves up, and a campaign that has one keeps one.\<close>

lemma lifecycle_mono: "lifecycle m m' \<Longrightarrow> m \<le> m'"
  by (erule lifecycle.cases) (auto simp: le_fun_def)

lemma statusOf_row:
  assumes "db_ok d" and "c \<in> set (campaigns d)"
  shows "statusOf d (c_ID c) = Some (c_Status c)"
proof -
  have "distinct (map c_ID (campaigns d))" using assms(1) by (simp add: db_ok_def campaigns_ok_def)
  with assms(2) show ?thesis by (simp add: statusOf_def find_distinct_key)
qed

lemma find_append_new: "find P (xs @ [y]) = (case find P xs of None \<Rightarrow> if P y then Some y else None | Some x \<Rightarrow> Some x)"
  by (induction xs) auto

lemma find_update_where:
  assumes "\<And>x. key (f x) = key x"
  shows "find (\<lambda>x. key x = j) (update_where (\<lambda>x. key x = i) f xs)
    = map_option (\<lambda>x. if j = i then f x else x) (find (\<lambda>x. key x = j) xs)"
  by (induction xs) (auto simp: assms)

lemma CreatePending_lifecycle:
  assumes run: "CreatePending E w c t d = (d', r)" and c: "c_Status c = CampaignStatusPending"
  shows "lifecycle (statusOf d) (statusOf d')"
  using CreatePending_rows [OF run]
proof (elim disjE exE conjE)
  fix row assume d': "d' = d\<lparr>campaigns := campaigns d @ [row]\<rparr>" and new: "c_ID row \<notin> c_ID ` set (campaigns d)"
    and st: "c_Status row = c_Status c"
  have none: "find (\<lambda>c. c_ID c = c_ID row) (campaigns d) = None" using new by (auto simp: find_None_iff dest: image_eqI [OF sym])
  then have "statusOf d' = (statusOf d)(c_ID row \<mapsto> CampaignStatusPending)"
    by (auto simp: fun_eq_iff statusOf_def d' find_append_new st c split: option.splits)
  with none show ?thesis by (simp add: lifecycle.announce statusOf_def)
qed (simp add: lifecycle.stutter)

lemma CompleteDeployment_lifecycle:
  assumes run: "CompleteDeployment E i e a d = (d', r)" and ok: "db_ok d"
  shows "lifecycle (statusOf d) (statusOf d')"
  using CompleteDeployment_rows [OF run]
proof (elim disjE exE conjE bexE)
  fix a' c0 assume d': "campaigns d' = update_where (\<lambda>c. c_ID c = i) (activated (ev_ID e) a') (campaigns d)"
    and c0: "c0 \<in> set (campaigns d)" "c_ID c0 = i" "c_Status c0 = CampaignStatusPending"
  have "c_ID (activated (ev_ID e) a' x) = c_ID x" for x by (simp add: activated_def)
  note f = find_update_where [of c_ID "activated (ev_ID e) a'", OF this]
  have p: "statusOf d i = Some CampaignStatusPending" using statusOf_row [OF ok c0(1)] c0 by simp
  then have "statusOf d' = (statusOf d)(i \<mapsto> CampaignStatusActive)"
    by (auto simp: fun_eq_iff statusOf_def d' f activated_def option.map_comp comp_def)
  with p show ?thesis by (simp add: lifecycle.activate)
qed (simp add: lifecycle.stutter)

lemma statusOf_same: "campaigns d' = campaigns d \<Longrightarrow> lifecycle (statusOf d) (statusOf d')"
  using lifecycle.stutter by (simp add: statusOf_def [abs_def])

lemma Create_lifecycle:
  assumes "Create E svc input w = (w', r)"
  shows "lifecycle (statusOf (database w)) (statusOf (database w'))"
  using assms
  by (cases rule: Create_cases)
    (auto simp: newCampaign_def lifecycle.stutter dest: CreatePending_lifecycle)

lemma app_step_lifecycle:
  assumes "app_ok (database w)" and "app_step p (w, ch) (w', ch')"
  shows "lifecycle (statusOf (database w)) (statusOf (database w'))"
  using assms(2)
proof (cases rule: app_step.cases)
  case (deliver E wk delivery d r)
  have "db_ok (database w)" using assms(1) by (simp add: app_ok_def)
  with delivery_database [OF deliver(2)] CompleteDeployment_lifecycle lifecycle.stutter have
    "lifecycle (statusOf (database w)) (statusOf d)" by metis
  with deliver show ?thesis by simp
qed (auto simp: SupporterService_ReplaceProfile_def FundraiserService_ReplaceProfile_def
    SupporterService_Register_def FundraiserService_Register_def
    SupporterService_DeleteProfile_def FundraiserService_DeleteProfile_def lifecycle.stutter
    dest!: sup.replace_profile_campaigns fundr.replace_profile_campaigns sup.delete_profile_campaigns
      fundr.delete_profile_campaigns sup.register_profile_campaigns fundr.register_profile_campaigns
    dest: Create_lifecycle intro: statusOf_same)

text \<open>(C2) Refinement of the life of a campaign. Seen through the status of each campaign, every
  step of the application, whatever call of whatever service and whatever fails in it, does
  nothing, announces one new campaign as pending, or turns one pending campaign active. No step
  removes a campaign, reopens one or changes two at once.\<close>

theorem lifecycle_refinement:
  assumes "app_ok (database w)" and "app_step p (w, ch) (w', ch')"
  shows "lifecycle (statusOf (database w)) (statusOf (database w'))"
  using assms by (rule app_step_lifecycle)

lemma demo_app_ok: "app_ok demo_db"
  using demo_db_ok
  by (simp add: app_ok_def roles_ok_def owners_ok_def cleared_ok_def pending_ok_def liveIDs_def openStatus_def
      demo_db_def demo_campaign_def demo_pending_def)

theorem lifecycle_refinement_witness:
  "lifecycle (statusOf demo_db) (statusOf (demo_db\<lparr>campaigns := [demo_campaign, demo_pending, demo_created]\<rparr>))
   \<and> statusOf demo_db 7 = None"
proof -
  have "app_step \<lparr>op_bucket = ''pawfund''\<rparr> (demo_world, ()) (fst (Create demo_env (demo_service True) demo_input demo_world), ())"
    by (rule app_step.create_campaign [OF _ surjective_pairing]) (simp add: demo_service_def)
  from lifecycle_refinement [OF _ this] have "lifecycle (statusOf demo_db) (statusOf (demo_db\<lparr>campaigns := [demo_campaign, demo_pending, demo_created]\<rparr>))"
    using demo_app_ok by (simp add: demo_create_run) (simp add: demo_world_def)
  then show ?thesis by (simp add: statusOf_def demo_db_def demo_campaign_def demo_pending_def)
qed

section \<open>Invariants of the reachable states\<close>

lemma demo_register_step:
  "app_step \<lparr>op_bucket = ''pawfund''\<rparr> (demo_start, ())
     (\<lparr>database = demo_registered, objects = [(''pawfund'', demo_photo_key) \<mapsto> ''png''], broker = ()\<rparr>, ())"
  by (rule app_step.register_supporter [OF _ demo_register_run]) (simp add: demo_profile_service_def)

lemma demo_reachable:
  "reachable \<lparr>op_bucket = ''pawfund''\<rparr>
     (\<lparr>database = demo_registered, objects = [(''pawfund'', demo_photo_key) \<mapsto> ''png''], broker = ()\<rparr>, ())"
  by (rule reachable.step [OF reachable.start demo_register_step]) (simp add: demo_start_def)

text \<open>(C5) In every state the application can reach from an empty database, with any order of calls,
  deliveries and uploads and any failures, the schema's constraints and the rules of the
  application hold; in particular every pending or active campaign belongs to an account that is
  not deleted and is a fundraiser, so a fundraiser cannot leave an open campaign behind.\<close>

theorem reachable_rules:
  assumes "reachable p (w, ch)"
  shows "app_ok (database w) \<and> (\<forall>c\<in>set (campaigns (database w)). openStatus (c_Status c) \<longrightarrow>
    (\<exists>u\<in>set (users (database w)). u_ID u = c_FundraiserID c \<and> u_Role u = UserRoleFundraiser \<and> u_DeletedAt u = None))"
proof -
  have app: "app_ok (database w)" using reachable_invariant [OF assms] by simp
  have "\<exists>u\<in>set (users (database w)). u_ID u = c_FundraiserID c \<and> u_Role u = UserRoleFundraiser \<and> u_DeletedAt u = None"
    if c: "c \<in> set (campaigns (database w))" "openStatus (c_Status c)" for c
  proof -
    have "c_FundraiserID c \<in> liveIDs (users (database w))" using app c by (simp add: app_ok_def owners_ok_def)
    then obtain u where u: "u \<in> set (users (database w))" "u_ID u = c_FundraiserID c" "live u" by (auto simp: liveIDs_iff)
    moreover have "u_Role u = UserRoleFundraiser"
      using app campaign_owner_row [OF app c(1)] u(1,2) by (auto simp: app_ok_def roles_ok_def)
    ultimately show ?thesis by (intro bexI [of _ u]) simp_all
  qed
  with app show ?thesis by blast
qed

theorem reachable_rules_witness: "app_ok demo_registered"
  using reachable_rules [OF demo_reachable] by simp

text \<open>(C3) No dangling image. In every reachable state each image key that a profile or a campaign
  refers to names an object that is in the bucket: images are in place before a row refers to
  them, discarding removes staged copies only, and an image is deleted only when no profile
  refers to it any more.\<close>

theorem no_dangling_images:
  assumes "reachable p (w, ch)" and "k \<in> profileImages (database w) \<union> campaignImages (database w)"
  shows "objects w (op_bucket p, k) \<noteq> None \<and> (HasPrefix k ''profiles/'' \<or> HasPrefix k ''campaigns/'')"
  using reachable_invariant [OF assms(1)] assms(2) by (auto simp: images_ok_def profileKey_def)

theorem no_dangling_images_witness:
  "demo_photo_key \<in> profileImages demo_registered \<and> [(''pawfund'', demo_photo_key) \<mapsto> ''png''] (''pawfund'', demo_photo_key) \<noteq> None"
proof -
  have k: "demo_photo_key \<in> profileImages demo_registered"
    by (simp add: profileImages_def imageStillReferenced_def demo_registered_def)
  from no_dangling_images [OF demo_reachable, of demo_photo_key] k show ?thesis by simp
qed

text \<open>(C4) No upload is lost and no image in use is removed. When an object disappears from the bucket in
  a step, whatever failed on the way, it was the staged copy of an image that a profile or a campaign
  of the new database refers to, whose promoted object is in the bucket; or it was the image of a
  profile and no profile refers to it any more. In particular a request that does not store its
  image leaves the upload under \<open>tmp/\<close>, where the client can hand it in again.\<close>

theorem objects_disposed_rightly:
  assumes "reachable p (w, ch)" and "app_step p (w, ch) (w', ch')"
    and "objects w (op_bucket p, k) \<noteq> None" and "objects w' (op_bucket p, k) = None"
  shows "(\<exists>key. k = ''tmp/'' @ key \<and> key \<in> profileImages (database w') \<union> campaignImages (database w')
        \<and> objects w' (op_bucket p, key) \<noteq> None)
    \<or> k \<in> profileImages (database w) - profileImages (database w')"
proof -
  have "images_ok (op_bucket p) w'" using reachable_invariant [OF reachable.step [OF assms(1,2)]] by simp
  moreover have "disposed w w' k"
    using app_step_disposed [OF assms(2), of k] reachable_invariant [OF assms(1)] assms(3,4) by simp
  ultimately show ?thesis unfolding disposed_def images_ok_def by blast
qed

theorem objects_disposed_rightly_witness:
  "\<exists>key. demo_photo = ''tmp/'' @ key \<and> key \<in> profileImages demo_registered \<union> campaignImages demo_registered
     \<and> [(''pawfund'', demo_photo_key) \<mapsto> ''png''] (''pawfund'', key) \<noteq> None"
proof -
  have r: "reachable \<lparr>op_bucket = ''pawfund''\<rparr> (demo_start, ())" by (rule reachable.start) (simp add: demo_start_def)
  have "database demo_start = empty_db" by (simp add: demo_start_def)
  then show ?thesis
    using objects_disposed_rightly [OF r demo_register_step, of demo_photo] demo_photo_facts
    by (simp add: demo_start_def profileImages_def imageStillReferenced_def empty_db_def)
qed

end
