(* ===== verification/Api.thy ===== *)
theory Api
  imports Deployment Routes
begin

text \<open>
  Properties of the HTTP interface as a whole, from \<open>Setup\<close> down to the repositories: every request is answered with
  a well-formed envelope, a request changes the world only with a valid access token and then touches and adds
  only what belongs to the account of the token, an answer that blames the client means that nothing was stored,
  and a campaign that was created over HTTP satisfies what the service and the worker need.
\<close>

section \<open>Answers are well formed\<close>

text \<open>An answer without a body is 204; an answer with an envelope succeeds with 200 or 201 and data, or fails
  with one of the codes below and no data, a validation error with at least one field.\<close>

definition response_ok :: "'p Response \<Rightarrow> bool" where
  "response_ok resp \<longleftrightarrow>
     (case hr_Envelope resp of
        None \<Rightarrow> hr_Status resp = 204
      | Some en \<Rightarrow>
          (if en_Success en
           then hr_Status resp \<in> {200, 201} \<and> en_Data en \<noteq> None \<and> en_Errors en = []
           else hr_Status resp \<in> {400, 401, 403, 404, 409, 413, 415, 422, 500} \<and> en_Data en = None
             \<and> (hr_Status resp = 422 \<longrightarrow> en_Errors en \<noteq> [])))"

lemma response_ok_write [simp]:
  "response_ok (WriteSuccess hs st code msg dat) \<longleftrightarrow> st \<in> {200, 201}"
  "response_ok (WriteSuccessWithPagination hs st code msg dat pg) \<longleftrightarrow> st \<in> {200, 201}"
  "response_ok (WriteError hs st code msg errs)
     \<longleftrightarrow> st \<in> {400, 401, 403, 404, 409, 413, 415, 422, 500} \<and> (st = 422 \<longrightarrow> errs \<noteq> [])"
  "response_ok (noContent hs)"
  by (auto simp: response_ok_def WriteSuccess_def WriteSuccessWithPagination_def WriteError_def noContent_def)

lemma response_ok_error [simp]:
  "response_ok (ValidationError hs errs) \<longleftrightarrow> errs \<noteq> []"
  "response_ok (InternalError hs)"
  "response_ok (ReadError hs e msg)"
  "response_ok (invalidAccessToken hs)"
  "response_ok (fundraiserAccessRequired hs)"
  "response_ok (profileNotFound hs msg)"
  "response_ok (publicCampaignNotFound hs)"
  "response_ok (createCampaignFailure hs e)"
  "response_ok (handleServiceError hs e)"
  "response_ok (registrationUnauthorized hs)"
  "response_ok (presignFailure hs e)"
  "response_ok (verifyFailure hs e)"
  "response_ok (writeAuthenticationError hs code msg)"
  by (simp_all add: ValidationError_def InternalError_def ReadError_def invalidAccessToken_def
      fundraiserAccessRequired_def profileNotFound_def publicCampaignNotFound_def createCampaignFailure_def
      handleServiceError_def registrationUnauthorized_def presignFailure_def verifyFailure_def
      writeAuthenticationError_def)

lemma options_errors:
  "campaignListOptionsFromQuery qvs allowed = Inl errs \<Longrightarrow> errs \<noteq> []"
  "campaignDonorListOptionsFromQuery qvs = Inl errs \<Longrightarrow> errs \<noteq> []"
  "donationListOptionsFromQuery qvs = Inl errs \<Longrightarrow> errs \<noteq> []"
  "createCampaignRequest_validate E q = Inl errs \<Longrightarrow> errs \<noteq> []"
  by (auto simp: campaignListOptionsFromQuery_def campaignDonorListOptionsFromQuery_def
      donationListOptionsFromQuery_def createCampaignRequest_validate_def Let_def split: prod.splits if_splits)

lemmas read_handler_defs = HandleGetPublicCampaignList_def HandleGetPublicCampaignDetail_def
  HandleGetPublicCampaignDonors_def HandleGetMyCampaignList_def HandleGetMyCampaignDetail_def
  SupporterHandler_HandleGetProfile_def HandleGetMyDonations_def FundraiserHandler_HandleGetProfile_def
  HandleGetPublicProfile_def HandlePresignProfileImage_def HandlePresignCampaignImage_def HandleGetMe_def

lemmas write_handler_defs = HandleCreateCampaign_def HandleRegisterSupporter_def SupporterHandler_HandleReplaceProfile_def
  SupporterHandler_HandleDeleteProfile_def HandleRegisterFundraiser_def FundraiserHandler_HandleReplaceProfile_def
  FundraiserHandler_HandleDeleteProfile_def

lemmas auth_handler_defs = HandleCreateMessage_def HandleVerify_def

lemma read_handlers_ok:
  "response_ok (HandleGetPublicCampaignList E ch hs r d)"
  "response_ok (HandleGetPublicCampaignDetail E ch hs r d)"
  "response_ok (HandleGetPublicCampaignDonors E ch hs r d)"
  "response_ok (HandleGetMyCampaignList E ch hs r d)"
  "response_ok (HandleGetMyCampaignDetail E ch hs r d)"
  "response_ok (SupporterHandler_HandleGetProfile E sh hs r d)"
  "response_ok (HandleGetMyDonations E sh hs r d)"
  "response_ok (FundraiserHandler_HandleGetProfile E fh hs r d)"
  "response_ok (HandleGetPublicProfile E fh hs r d)"
  "response_ok (HandlePresignProfileImage H E uh hs r)"
  "response_ok (HandlePresignCampaignImage H E uh hs r)"
  "response_ok (HandleGetMe E ah hs r d)"
  by (auto simp: read_handler_defs Let_def options_errors split: sum.splits option.splits prod.splits)

lemma write_handlers_ok:
  "response_ok (snd (HandleCreateCampaign H E ch hs r w))"
  "response_ok (snd (HandleRegisterSupporter H A E sh hs r w))"
  "response_ok (snd (SupporterHandler_HandleReplaceProfile H E sh hs r w))"
  "response_ok (snd (SupporterHandler_HandleDeleteProfile E sh hs r w))"
  "response_ok (snd (HandleRegisterFundraiser H A E fh hs r w))"
  "response_ok (snd (FundraiserHandler_HandleReplaceProfile H E fh hs r w))"
  "response_ok (snd (FundraiserHandler_HandleDeleteProfile E fh hs r w))"
  "response_ok (snd (HandleCreateMessage H A E ah hs r c))"
  "response_ok (snd (HandleVerify H A E ah hs r d c))"
  by (auto simp: write_handler_defs auth_handler_defs Let_def options_errors split: sum.splits option.splits prod.splits)

lemma endpointHandler_ok:
  "\<exists>resp. snd (endpointHandler L E a ep hs r s) = Answer resp \<and> response_ok resp"
  by (cases ep) (auto simp: endpointHandler_def onCache_def readsDB_def onWorld_def read_handlers_ok write_handlers_ok split_def Let_def)

definition bearerToken :: "Request \<Rightarrow> string option" where
  "bearerToken r =
     (case Fields (TrimSpace (rq_Header r ''Authorization'')) of
        [scheme, tok] \<Rightarrow> if map lower_byte scheme = ''bearer'' then Some tok else None
      | _ \<Rightarrow> None)"

lemma serveEndpoint_ok: "snd (serveEndpoint L E a ep hs r s) = Answer resp \<Longrightarrow> response_ok resp"
  using endpointHandler_ok [of L E a ep hs r s] by (auto simp: serveEndpoint_def split: option.splits panicked.splits)

lemma serveEndpoint_state:
  "fst (serveEndpoint L E a ep hs r s) = s
   \<or> fst (serveEndpoint L E a ep hs r s) = fst (endpointHandler L E a ep hs r s)"
  by (auto simp: serveEndpoint_def split: option.splits panicked.splits)

lemma serveEndpoint_answer:
  assumes "serveEndpoint L E a ep hs r s = (s', Answer resp)"
  shows "endpointHandler L E a ep hs r s = (s', Answer resp)"
  using assms by (auto simp: serveEndpoint_def split: option.splits panicked.splits)

text \<open>\<open>Recover\<close> keeps the state and turns a panic into an answer.\<close>

lemma Recover_state: "fst (Recover nxt hs r s) = fst (nxt hs r s)"
  by (auto simp: Recover_def split: prod.splits answer.splits)

lemma Recover_same: "nxt hs r s = nxt' hs' r' s \<Longrightarrow> Recover nxt hs r s = Recover nxt' hs' r' s"
  by (simp add: Recover_def)

lemma Recover_answered: "nxt hs r s = (s', Answer resp) \<Longrightarrow> Recover nxt hs r s = (s', Answer resp)"
  by (simp add: Recover_def)

lemma Recover_cases:
  assumes "Recover nxt hs r s = (s', x)"
  obtains (answered) resp where "nxt hs r s = (s', Answer resp)" "x = Answer resp"
  | (panicked) hs' where "nxt hs r s = (s', Panic hs')"
      "x = Answer (WriteError hs' 500 ''INTERNAL_SERVER_ERROR'' ''An internal server error occurred.'' [])"
  using assms by (auto simp: Recover_def split: prod.splits answer.splits)

lemma public_endpoints_read_only:
  assumes "(m, p, False, ep) \<in> set routes"
  shows "sv_world (fst (serveEndpoint L E a ep hs r s)) = sv_world s"
proof -
  have "sv_world (fst (endpointHandler L E a ep hs r s)) = sv_world s"
    using assms by (auto simp: routes_def endpointHandler_def onCache_def readsDB_def split_def Let_def)
  with serveEndpoint_state [of L E a ep hs r s] show ?thesis by auto
qed

text \<open>How a request is served: a preflight answer, no route, an open route, or a guarded one.\<close>

abbreviation routed :: "Request \<Rightarrow> (string \<Rightarrow> string) \<Rightarrow> Request" where
  "routed r params \<equiv> r\<lparr>rq_URLParam := params, rq_Principal := None\<rparr>"

lemma router_cases:
  obtains (none) "router L E a hs r s = (s, Answer (chi_NotFound L hs))"
  | (unguarded) m p ep params where "(m, p, False, ep) \<in> set routes"
      "router L E a hs r s = serveEndpoint L E a ep hs (routed r params) s"
  | (guarded) m p ep params where "(m, p, True, ep) \<in> set routes"
      "router L E a hs r s
        = Authenticate (lb_auth L) E (ap_Authenticate a) (serveEndpoint L E a ep) hs (routed r params) s"
proof (cases "chi_Find L (map (\<lambda>(method, path, _). (method, path)) routes) r")
  case None
  then show ?thesis by (intro none) (simp add: router_def)
next
  case (Some ip)
  obtain i params where ip: "ip = (i, params)" by (cases ip)
  show ?thesis
  proof (cases "length routes \<le> i")
    case True
    with Some ip show ?thesis by (intro none) (simp add: router_def)
  next
    case False
    obtain m p g ep where route: "routes ! i = (m, p, g, ep)" by (cases "routes ! i")
    have mem: "(m, p, g, ep) \<in> set routes" using False route nth_mem [of i routes] by simp
    show ?thesis
    proof (cases g)
      case True
      with mem Some ip False route show ?thesis by (intro guarded) (auto simp: router_def)
    next
      case g: False
      with mem Some ip False route show ?thesis by (intro unguarded) (auto simp: router_def)
    qed
  qed
qed

lemma Authenticate_cases:
  obtains (rejected) resp where "Authenticate A E m nxt hs r s = (s, Answer resp)" "hr_Status resp = 401" "response_ok resp"
  | (accepted) tok pr hs' where "bearerToken r = Some tok" "JWT_Verify A E m tok = Inr pr"
      "Authenticate A E m nxt hs r s = nxt hs' (ContextWithPrincipal pr r) s"
proof -
  let ?auth = "TrimSpace (rq_Header r ''Authorization'')"
  let ?hs = "noStore (addHeader ''Vary'' ''Authorization'' hs)"
  have status: "hr_Status (writeAuthenticationError hs' code msg) = 401" for hs' code msg
    by (simp add: writeAuthenticationError_def WriteError_def)
  show ?thesis
  proof (cases "?auth = [] \<or> length (Fields ?auth) \<noteq> 2 \<or> map lower_byte (Fields ?auth ! 0) \<noteq> ''bearer''")
    case True
    then show ?thesis
      by (cases "?auth = []") (auto intro!: rejected [OF _ status] simp: Authenticate_def Let_def)
  next
    case False
    then have tok: "bearerToken r = Some (Fields ?auth ! 1)"
      by (auto simp: bearerToken_def length_Suc_conv numeral_2_eq_2)
    show ?thesis
    proof (cases "JWT_Verify A E m (Fields ?auth ! 1)")
      case (Inl e)
      with False show ?thesis by (intro rejected [OF _ status]) (auto simp: Authenticate_def Let_def)
    next
      case (Inr pr)
      with False tok show ?thesis by (intro accepted [of _ _ ?hs]) (auto simp: Authenticate_def Let_def)
    qed
  qed
qed

lemma Setup_cases:
  obtains (preflight) hs' where "Setup L E a hs r s = (s, Answer (noContent hs'))"
  | (none) hs' where "Setup L E a hs r s = (s, Answer (chi_NotFound L hs'))"
  | (unguarded) m p ep params hs' where "(m, p, False, ep) \<in> set routes"
      "Setup L E a hs r s = Recover (serveEndpoint L E a ep) hs' (routed r params) s"
  | (rejected) resp where "Setup L E a hs r s = (s, Answer resp)" "hr_Status resp = 401" "response_ok resp"
  | (accepted) m p ep params hs' tok pr where "(m, p, True, ep) \<in> set routes"
      "bearerToken r = Some tok" "JWT_Verify (lb_auth L) E (ap_Authenticate a) tok = Inr pr"
      "Setup L E a hs r s = Recover (serveEndpoint L E a ep) hs' (ContextWithPrincipal pr (routed r params)) s"
proof (cases "rq_Method r = ''OPTIONS''")
  case True
  then show ?thesis by (intro preflight) (simp add: Setup_def CORS_def Let_def)
next
  case False
  then obtain hs' where route: "Setup L E a hs r s = Recover (router L E a) hs' r s"
    by (auto simp: Setup_def CORS_def Let_def)
  show ?thesis
  proof (rule router_cases [of L E a hs' r s])
    assume "router L E a hs' r s = (s, Answer (chi_NotFound L hs'))"
    then show ?thesis using route by (intro none) (simp add: Recover_answered)
  next
    fix m p ep params
    assume *: "(m, p, False, ep) \<in> set routes" "router L E a hs' r s = serveEndpoint L E a ep hs' (routed r params) s"
    have "Recover (router L E a) hs' r s = Recover (serveEndpoint L E a ep) hs' (routed r params) s"
      using *(2) by (rule Recover_same)
    then show ?thesis using route by (intro unguarded [OF *(1)]) simp
  next
    fix m p ep params
    assume *: "(m, p, True, ep) \<in> set routes" "router L E a hs' r s
      = Authenticate (lb_auth L) E (ap_Authenticate a) (serveEndpoint L E a ep) hs' (routed r params) s"
    show ?thesis
    proof (rule Authenticate_cases [of "lb_auth L" E "ap_Authenticate a" "serveEndpoint L E a ep" hs' "routed r params" s])
      fix resp
      assume "Authenticate (lb_auth L) E (ap_Authenticate a) (serveEndpoint L E a ep) hs' (routed r params) s = (s, Answer resp)"
        "hr_Status resp = 401" "response_ok resp"
      then show ?thesis using route * by (intro rejected) (simp_all add: Recover_answered)
    next
      fix tok pr hs2
      assume auth: "bearerToken (routed r params) = Some tok" "JWT_Verify (lb_auth L) E (ap_Authenticate a) tok = Inr pr"
        "Authenticate (lb_auth L) E (ap_Authenticate a) (serveEndpoint L E a ep) hs' (routed r params) s
          = serveEndpoint L E a ep hs2 (ContextWithPrincipal pr (routed r params)) s"
      have "bearerToken r = Some tok" using auth(1) by (simp add: bearerToken_def)
      moreover have "Recover (router L E a) hs' r s = Recover (serveEndpoint L E a ep) hs2 (ContextWithPrincipal pr (routed r params)) s"
        using *(2) auth(3) by (intro Recover_same) simp
      ultimately show ?thesis using route by (intro accepted [OF *(1) _ auth(2)]) simp_all
    qed
  qed
qed

text \<open>(C40) Every request is answered, and every answer is well formed, also when third-party code panics in a
  handler, before its work or after it: the panic does not escape. Either the router knows no route, or the
  answer is 204 without a body, or a success (200, 201) with data and no errors, or a failure (400, 401, 403, 404,
  409, 413, 415, 422, 500) without data, and with at least one field when the code is 422. When the handler of a
  routed request panicked, the answer is 500 with the headers it had set.\<close>

theorem responses_well_formed:
  "(\<exists>resp. snd (Setup L E a hs r s) = Answer resp \<and> (response_ok resp \<or> resp \<in> range (chi_NotFound L)))
   \<and> (rq_Method r = ''OPTIONS'' \<or> (\<exists>hs1. Setup L E a hs r s =
        (case router L E a hs1 r s of
           (s', Panic hs') \<Rightarrow> (s', Answer (WriteError hs' 500 ''INTERNAL_SERVER_ERROR'' ''An internal server error occurred.'' []))
         | (s', Answer resp) \<Rightarrow> (s', Answer resp))))"
proof -
  have recovered: "\<exists>resp. snd (Recover (serveEndpoint L E a ep) hs' r' s) = Answer resp \<and> response_ok resp" for ep hs' r'
  proof -
    obtain s' x where run: "Recover (serveEndpoint L E a ep) hs' r' s = (s', x)" by fastforce
    then show ?thesis
    proof (cases rule: Recover_cases)
      case (answered resp)
      then show ?thesis using run serveEndpoint_ok [of L E a ep hs' r' s resp] by simp
    next
      case (panicked hs2)
      then show ?thesis using run by simp
    qed
  qed
  have "\<exists>resp. snd (Setup L E a hs r s) = Answer resp \<and> (response_ok resp \<or> resp \<in> range (chi_NotFound L))"
    by (rule Setup_cases [of L E a hs r s]) (metis recovered response_ok_write(4) rangeI snd_conv)+
  moreover have "rq_Method r = ''OPTIONS'' \<or> (\<exists>hs1. Setup L E a hs r s = Recover (router L E a) hs1 r s)"
    by (auto simp: Setup_def CORS_def Let_def)
  ultimately show ?thesis by (simp add: Recover_def)
qed

section \<open>Client errors store nothing\<close>

text \<open>The sentinels the endpoint tells apart are the service's own; an error that matches none of them is answered
  with 500.\<close>

definition foreignError :: "err \<Rightarrow> bool" where
  "foreignError e \<longleftrightarrow>
     (\<forall>t\<in>{service_ErrCampaignEndAtTooSoon, service_ErrInvalidImageObjectKey, service_ErrImageObjectNotFound,
          service_ErrCampaignIdempotencyConflict, service_ErrProfileNotFound}. \<not> errors_Is e t)"

lemma foreignError_simps [simp]:
  "foreignError (Errorf m)" "foreignError (Wrap m e) \<longleftrightarrow> foreignError e" "foreignError (AmqpError n)"
  by (simp_all add: foreignError_def)

lemma foreignError_answer: "foreignError e \<Longrightarrow> createCampaignFailure hs e = InternalError hs"
  by (simp add: foreignError_def createCampaignFailure_def)

text \<open>The publisher of the API has that property when the errors of the AMQP client are not the service's own.\<close>

definition amqp_foreign :: "'b amqp \<Rightarrow> bool" where
  "amqp_foreign A \<longleftrightarrow>
     (\<forall>b e. Channel A b = Some e \<or> ConfirmMode A b = Some e \<longrightarrow> foreignError e)
     \<and> (\<forall>n k d x b b' e. ExchangeDeclare A n k d x b = (b', Inl e) \<longrightarrow> foreignError e)
     \<and> (\<forall>n d x y b b' e. QueueDeclare A n d x y b = (b', Inl e) \<longrightarrow> foreignError e)
     \<and> (\<forall>q k x b b' e. QueueBind A q k x b = (b', Inl e) \<longrightarrow> foreignError e)
     \<and> (\<forall>x k p b b' e. PublishWait A x k p b = (b', Inl e) \<longrightarrow> foreignError e)"

definition publisher_foreign :: "'b CampaignService \<Rightarrow> bool" where
  "publisher_foreign svc \<longleftrightarrow>
     (\<forall>publish t b b' e. svc_deploymentPublisher svc = Some publish \<longrightarrow> publish t b = (b', Inl e) \<longrightarrow> foreignError e)"

definition clientError :: "'p Response \<Rightarrow> bool" where
  "clientError resp \<longleftrightarrow> 400 \<le> hr_Status resp \<and> hr_Status resp < 500"

lemma clientError_simps [simp]:
  "\<not> clientError (WriteSuccess hs 201 code msg dat)"
  "\<not> clientError (InternalError hs)" "\<not> clientError (noContent hs)"
  by (simp_all add: clientError_def WriteSuccess_def InternalError_def WriteError_def noContent_def)

definition stored :: "'b world \<Rightarrow> db \<times> 'b" where
  "stored w = (database w, broker w)"

lemma register_refused:
  "SupporterService_Register E svc i w = (w', Inl e) \<Longrightarrow> stored w' = stored w"
  "FundraiserService_Register E svc j w = (w', Inl e) \<Longrightarrow> stored w' = stored w"
  by (auto simp: stored_def SupporterService_Register_def FundraiserService_Register_def registerProfile_def Let_def
      SupporterRepo_Create_def FundraiserRepo_Create_def dest: runTx_error
      split: sum.splits prod.splits)

lemma absent_unchanged:
  "SupporterRepo_ReplaceProfile E k q d = (d', Inr None) \<Longrightarrow> d' = d"
  "FundraiserRepo_ReplaceProfile E k q' d = (d', Inr None) \<Longrightarrow> d' = d"
  "SupporterRepo_DeleteProfile E k d = (d', Inr None) \<Longrightarrow> d' = d"
  "FundraiserRepo_DeleteProfile E k d = (d', Inr None) \<Longrightarrow> d' = d"
  by (auto simp: SupporterRepo_ReplaceProfile_def FundraiserRepo_ReplaceProfile_def SupporterRepo_DeleteProfile_def
      FundraiserRepo_DeleteProfile_def runTx_def split: option.splits txout.splits
      dest: supporterReplace_commit fundraiserReplace_commit supporterDelete_commit fundraiserDelete_commit)

lemma replace_refused:
  "SupporterService_ReplaceProfile E svc i w = (w', Inl e) \<Longrightarrow> stored w' = stored w"
  "FundraiserService_ReplaceProfile E svc j w = (w', Inl e) \<Longrightarrow> stored w' = stored w"
  by (auto simp: stored_def SupporterService_ReplaceProfile_def FundraiserService_ReplaceProfile_def replaceProfile_def
      dest: absent_unchanged sup.replace_error fundr.replace_error
      split: sum.splits prod.splits option.splits)

lemma delete_refused:
  "SupporterService_DeleteProfile E svc i w = (w', Inl e) \<Longrightarrow> stored w' = stored w"
  "FundraiserService_DeleteProfile E svc j w = (w', Inl e) \<Longrightarrow> stored w' = stored w"
  by (auto simp: stored_def SupporterService_DeleteProfile_def FundraiserService_DeleteProfile_def deleteProfile_def
      dest: absent_unchanged sup.delete_error fundr.delete_error
      split: sum.splits prod.splits option.splits)

lemma callIf_error: "callIf c m f b = (b', Inl e) \<Longrightarrow> \<exists>e'. f b = (b', Inl e') \<and> e = Wrap m e'"
  by (auto simp: callIf_def split: if_splits prod.splits sum.splits)

lemma Declare_foreign:
  assumes "amqp_foreign A" and "Declare A t b = (b', Inl e)"
  shows "foreignError e"
proof -
  have "foreignError e'" if "validateTopology t = Inl e'" for e'
    using that by (auto simp: validateTopology_def Let_def split: if_splits)
  with assms show ?thesis
    unfolding amqp_foreign_def Declare_def Let_def
    by (auto split: prod.splits sum.splits dest!: callIf_error)
qed

lemma DeclareOn_foreign: "amqp_foreign A \<Longrightarrow> DeclareOn (Some A) t b = (b', Inl e) \<Longrightarrow> foreignError e"
  using Declare_foreign [of A t b b' e]
  by (auto simp: amqp_foreign_def DeclareOn_def split: if_splits option.splits)

lemma Publish_foreign: "amqp_foreign A \<Longrightarrow> Publish (Some A) m b = (b', Inl e) \<Longrightarrow> foreignError e"
  unfolding amqp_foreign_def Publish_def
  by (auto simp: Let_def split: if_splits option.splits prod.splits sum.splits)

lemma PublishCampaignDeployment_foreign:
  assumes "svc_deploymentPublisher svc = Some (PublishCampaignDeployment E (Some A))" and "amqp_foreign A"
  shows "publisher_foreign svc"
  using assms
  by (auto simp: publisher_foreign_def PublishCampaignDeployment_def split: prod.splits sum.splits
      dest: DeclareOn_foreign Publish_foreign)

lemma publish_error:
  assumes "publishCampaignDeployment svc k c b = (b', Inl e)" and "publisher_foreign svc"
  shows "foreignError e"
  using assms by (auto simp: publishCampaignDeployment_def publisher_foreign_def split: if_splits option.splits prod.splits sum.splits)

lemma create_refused:
  assumes run: "Create E svc input w = (w', Inl e)" and "publisher_foreign svc"
    and "clientError (createCampaignFailure hs e)"
  shows "stored w' = stored w"
  using run
proof (cases rule: Create_cases)
  case (refused i st key d e')
  then show ?thesis using runTx_error by (auto simp: stored_def CreatePending_def)
next
  case (stored i st key d created b r)
  then have "publishCampaignDeployment svc (TrimSpace (ci_WalletAddress input)) created (broker w) = (b, Inl e)"
    by (auto split: sum.splits)
  then have "foreignError e" by (rule publish_error [OF _ assms(2)])
  then show ?thesis using assms(3) by (simp add: foreignError_answer)
qed (auto simp: stored_def)

lemma write_handlers_client_error:
  "HandleRegisterSupporter H A E sh hs r w = (w', resp) \<Longrightarrow> clientError resp \<Longrightarrow> stored w' = stored w"
  "SupporterHandler_HandleReplaceProfile H E sh hs r w = (w', resp) \<Longrightarrow> clientError resp \<Longrightarrow> stored w' = stored w"
  "SupporterHandler_HandleDeleteProfile E sh hs r w = (w', resp) \<Longrightarrow> clientError resp \<Longrightarrow> stored w' = stored w"
  "HandleRegisterFundraiser H A E fh hs r w = (w', resp) \<Longrightarrow> clientError resp \<Longrightarrow> stored w' = stored w"
  "FundraiserHandler_HandleReplaceProfile H E fh hs r w = (w', resp) \<Longrightarrow> clientError resp \<Longrightarrow> stored w' = stored w"
  "FundraiserHandler_HandleDeleteProfile E fh hs r w = (w', resp) \<Longrightarrow> clientError resp \<Longrightarrow> stored w' = stored w"
  by (auto simp: write_handler_defs Let_def split: sum.splits option.splits prod.splits if_splits
      dest: register_refused replace_refused delete_refused)

lemma create_handler_client_error:
  "HandleCreateCampaign H E ch hs r w = (w', resp) \<Longrightarrow> clientError resp \<Longrightarrow> publisher_foreign (ch_service ch)
    \<Longrightarrow> stored w' = stored w"
  by (auto simp: HandleCreateCampaign_def Let_def split: sum.splits option.splits prod.splits if_splits
      dest: create_refused)

section \<open>Requests act for their caller\<close>

definition callerIDs :: "env \<Rightarrow> string \<Rightarrow> db \<Rightarrow> uuid set" where
  "callerIDs E wallet d =
     u_ID ` {u \<in> set (users d). live u \<and> sql_Lower E (u_WalletAddress u) = sql_Lower E wallet}"

text \<open>The rows that are gone or changed, and the rows that are new, belong to the accounts of one wallet: of those
  before the request or those after it.\<close>

definition touchesOnly :: "env \<Rightarrow> string \<Rightarrow> db \<Rightarrow> db \<Rightarrow> bool" where
  "touchesOnly E wallet d d' \<longleftrightarrow>
     (\<forall>u\<in>set (users d). u_ID u \<in> callerIDs E wallet d \<or> u \<in> set (users d'))
     \<and> (\<forall>x\<in>set (supporters d). sr_id x \<in> callerIDs E wallet d \<or> x \<in> set (supporters d'))
     \<and> (\<forall>x\<in>set (fundraisers d). fw_id x \<in> callerIDs E wallet d \<or> x \<in> set (fundraisers d'))
     \<and> (\<forall>u\<in>set (users d'). u_ID u \<in> callerIDs E wallet d \<union> callerIDs E wallet d' \<or> u \<in> set (users d))
     \<and> (\<forall>x\<in>set (supporters d'). sr_id x \<in> callerIDs E wallet d \<union> callerIDs E wallet d' \<or> x \<in> set (supporters d))
     \<and> (\<forall>x\<in>set (fundraisers d'). fw_id x \<in> callerIDs E wallet d \<union> callerIDs E wallet d' \<or> x \<in> set (fundraisers d))
     \<and> set (campaigns d) \<subseteq> set (campaigns d')
     \<and> (\<forall>c\<in>set (campaigns d'). c \<in> set (campaigns d) \<or> c_FundraiserID c \<in> callerIDs E wallet d)
     \<and> donations d' = donations d \<and> blockchain_events d' = blockchain_events d"

lemma callerIDs_intro:
  "u \<in> set (users d) \<Longrightarrow> live u \<Longrightarrow> sql_Lower E (u_WalletAddress u) = sql_Lower E k \<Longrightarrow> u_ID u \<in> callerIDs E k d"
  by (auto simp: callerIDs_def)

lemma touchesOnly_refl [simp]: "touchesOnly E wallet d d"
  by (simp add: touchesOnly_def)

lemma touchesOnly_tx:
  assumes "runTx E m body d = (d', r)" and "\<And>cm a d2. body d = Commit cm a d2 \<Longrightarrow> touchesOnly E wallet d d2"
  shows "touchesOnly E wallet d d'"
  using runTx_changed [OF assms(1)] assms(2) by auto

lemma callerIDs_join:
  "(u, x) \<in> set (supporterJoin E wallet d) \<Longrightarrow> u_ID u \<in> callerIDs E wallet d"
  "(u, y) \<in> set (fundraiserJoin E wallet d) \<Longrightarrow> u_ID u \<in> callerIDs E wallet d"
  "(u, y) \<in> set (lockFundraiser E wallet d) \<Longrightarrow> u_ID u \<in> callerIDs E wallet d"
  by (auto simp: callerIDs_def lockFundraiser_def dest: supporterJoin_row fundraiserJoin_row)

lemma update_where_keeps: "x \<in> set xs \<Longrightarrow> \<not> p x \<Longrightarrow> x \<in> set (update_where p f xs)"
  by (auto simp: set_update_where)

lemma insert_user_caller:
  assumes "insert_user E i role email (TrimSpace k) d = Inr (row, d')"
  shows "d' = d\<lparr>users := users d @ [row]\<rparr> \<and> u_ID row = i \<and> live row \<and> u_WalletAddress row = TrimSpace k"
  using assms by (auto simp: insert_user_def Let_def split: option.splits if_splits dest: varchar_trimmed)

lemma supporterCreate_touches:
  assumes "supporterCreateTx E sp d = Commit m a d'" and "u_WalletAddress sp = TrimSpace k"
  shows "touchesOnly E (TrimSpace k) d d'"
proof -
  from supporterCreate_commit [OF assms(1)] obtain row d1 where
    u: "insert_user E (u_ID sp) (u_Role sp) (u_Email sp) (TrimSpace k) d = Inr (row, d1)"
    and p: "insert_supporter \<lparr>sr_id = u_ID sp, sr_name = sp_Name sp, sr_image_object_key = sp_ImageObjectKey sp\<rparr> d1 = Inr d'"
    using assms(2) by auto
  from insert_user_caller [OF u] insert_supporter_rows [OF p] have "row \<in> set (users d')" "live row" "u_ID row = u_ID sp"
    "u_WalletAddress row = TrimSpace k" by auto
  with callerIDs_intro [of row d' E "TrimSpace k"] have "u_ID sp \<in> callerIDs E (TrimSpace k) d'" by simp
  with insert_user_caller [OF u] insert_supporter_rows [OF p] show ?thesis by (auto simp: touchesOnly_def)
qed

lemma fundraiserCreate_touches:
  assumes "fundraiserCreateTx E fr d = Commit m a d'" and "u_WalletAddress fr = TrimSpace k"
  shows "touchesOnly E (TrimSpace k) d d'"
proof -
  from fundraiserCreate_commit [OF assms(1)] obtain row d1 x where
    u: "insert_user E (u_ID fr) (u_Role fr) (u_Email fr) (TrimSpace k) d = Inr (row, d1)"
    and p: "insert_fundraiser x d1 = Inr d'" "fw_id x = u_ID fr"
    using assms(2) by auto
  from insert_user_caller [OF u] insert_fundraiser_rows [OF p(1)] have "row \<in> set (users d')" "live row" "u_ID row = u_ID fr"
    "u_WalletAddress row = TrimSpace k" by auto
  with callerIDs_intro [of row d' E "TrimSpace k"] have "u_ID fr \<in> callerIDs E (TrimSpace k) d'" by simp
  with insert_user_caller [OF u] insert_fundraiser_rows [OF p(1)] p(2) show ?thesis by (auto simp: touchesOnly_def)
qed

lemma callerIDs_users [simp]:
  "callerIDs E k (d\<lparr>supporters := ss\<rparr>) = callerIDs E k d" "callerIDs E k (d\<lparr>fundraisers := fs\<rparr>) = callerIDs E k d"
  by (simp_all add: callerIDs_def)

lemma callerIDs_update:
  "callerIDs E k d \<subseteq> insert i (callerIDs E k (d\<lparr>users := update_where (\<lambda>u. u_ID u = i) f (users d)\<rparr>))"
proof
  fix j assume "j \<in> callerIDs E k d"
  then obtain u where u: "u \<in> set (users d)" "j = u_ID u" "live u" "sql_Lower E (u_WalletAddress u) = sql_Lower E k"
    by (auto simp: callerIDs_def)
  then show "j \<in> insert i (callerIDs E k (d\<lparr>users := update_where (\<lambda>u. u_ID u = i) f (users d)\<rparr>))"
    using update_where_keeps [of u "users d" "\<lambda>u. u_ID u = i" f] by (auto simp: callerIDs_def)
qed

text \<open>Updates of the rows of one of the caller's accounts, which keep its identifier.\<close>

lemma own_update:
  assumes "i \<in> A" and "\<And>x. key (f x) = key x"
  shows "\<forall>x\<in>set xs. key x \<in> A \<or> x \<in> set ys \<Longrightarrow> \<forall>x\<in>set xs. key x \<in> A \<or> x \<in> set (update_where (\<lambda>x. key x = i) f ys)"
    and "\<forall>y\<in>set ys. key y \<in> A \<union> B \<or> y \<in> set xs
      \<Longrightarrow> \<forall>y\<in>set (update_where (\<lambda>x. key x = i) f ys). key y \<in> A \<union> B \<or> y \<in> set xs"
proof -
  show "\<forall>x\<in>set xs. key x \<in> A \<or> x \<in> set (update_where (\<lambda>x. key x = i) f ys)"
    if "\<forall>x\<in>set xs. key x \<in> A \<or> x \<in> set ys"
  proof
    fix x assume "x \<in> set xs"
    with that have "key x \<in> A \<or> x \<in> set ys" by blast
    with assms(1) show "key x \<in> A \<or> x \<in> set (update_where (\<lambda>x. key x = i) f ys)"
      using update_where_keeps [of x ys "\<lambda>x. key x = i" f] by (cases "key x = i") auto
  qed
  show "\<forall>y\<in>set (update_where (\<lambda>x. key x = i) f ys). key y \<in> A \<union> B \<or> y \<in> set xs"
    if "\<forall>y\<in>set ys. key y \<in> A \<union> B \<or> y \<in> set xs"
  proof
    fix y assume "y \<in> set (update_where (\<lambda>x. key x = i) f ys)"
    then obtain x where "x \<in> set ys" "y = (if key x = i then f x else x)" by (auto simp: set_update_where)
    with that assms show "key y \<in> A \<union> B \<or> y \<in> set xs" by (cases "key x = i") auto
  qed
qed

lemma touches_update:
  assumes t: "touchesOnly E k d d1" and i: "i \<in> callerIDs E k d"
  shows "(\<And>u. u_ID (f u) = u_ID u) \<Longrightarrow> touchesOnly E k d (d1\<lparr>users := update_where (\<lambda>u. u_ID u = i) f (users d1)\<rparr>)"
    and "(\<And>x. sr_id (g x) = sr_id x) \<Longrightarrow> touchesOnly E k d (d1\<lparr>supporters := update_where (\<lambda>x. sr_id x = i) g (supporters d1)\<rparr>)"
    and "(\<And>y. fw_id (h y) = fw_id y) \<Longrightarrow> touchesOnly E k d (d1\<lparr>fundraisers := update_where (\<lambda>x. fw_id x = i) h (fundraisers d1)\<rparr>)"
proof -
  let ?d2 = "d1\<lparr>users := update_where (\<lambda>u. u_ID u = i) f (users d1)\<rparr>"
  have "callerIDs E k d1 \<subseteq> callerIDs E k d \<union> callerIDs E k ?d2"
    using callerIDs_update [of E k d1 i f] i by auto
  with t have t2: "\<forall>u\<in>set (users d1). u_ID u \<in> callerIDs E k d \<union> callerIDs E k ?d2 \<or> u \<in> set (users d)"
      "\<forall>x\<in>set (supporters d1). sr_id x \<in> callerIDs E k d \<union> callerIDs E k ?d2 \<or> x \<in> set (supporters d)"
      "\<forall>x\<in>set (fundraisers d1). fw_id x \<in> callerIDs E k d \<union> callerIDs E k ?d2 \<or> x \<in> set (fundraisers d)"
    by (fastforce simp: touchesOnly_def)+
  show "touchesOnly E k d ?d2" if f: "\<And>u. u_ID (f u) = u_ID u"
    using t t2 own_update(1) [where key = u_ID, OF i f, of "users d" "users d1"]
      own_update(2) [where key = u_ID, OF i f, of "users d1" "callerIDs E k ?d2" "users d"] by (simp add: touchesOnly_def)
  show "touchesOnly E k d (d1\<lparr>supporters := update_where (\<lambda>x. sr_id x = i) g (supporters d1)\<rparr>)" if g: "\<And>x. sr_id (g x) = sr_id x"
    using t own_update(1) [where key = sr_id, OF i g, of "supporters d" "supporters d1"]
      own_update(2) [where key = sr_id, OF i g, of "supporters d1" "callerIDs E k d1" "supporters d"] by (simp add: touchesOnly_def)
  show "touchesOnly E k d (d1\<lparr>fundraisers := update_where (\<lambda>x. fw_id x = i) h (fundraisers d1)\<rparr>)" if h: "\<And>y. fw_id (h y) = fw_id y"
    using t own_update(1) [where key = fw_id, OF i h, of "fundraisers d" "fundraisers d1"]
      own_update(2) [where key = fw_id, OF i h, of "fundraisers d1" "callerIDs E k d1" "fundraisers d"] by (simp add: touchesOnly_def)
qed

lemma touches_ops:
  assumes "touchesOnly E k d d1" and "i \<in> callerIDs E k d"
  shows "update_user_email email i d1 = Inr d2 \<Longrightarrow> touchesOnly E k d d2"
    and "update_supporter_name n i d1 = Inr d2 \<Longrightarrow> touchesOnly E k d d2"
    and "update_fundraiser n cn ph url co z i d1 = Inr d2 \<Longrightarrow> touchesOnly E k d d2"
    and "touchesOnly E k d (update_supporter_image key i d1)"
    and "touchesOnly E k d (update_fundraiser_image key i d1)"
    and "touchesOnly E k d (soft_delete_user E i d1)"
  by (auto simp: update_supporter_image_def update_fundraiser_image_def soft_delete_user_def intro!: touches_update [OF assms]
      dest!: update_user_email_users update_supporter_name_rows update_fundraiser_rows)

lemma supporterReplace_touches:
  assumes "supporterReplaceTx E wallet q d = Commit m a d'"
  shows "touchesOnly E (TrimSpace wallet) d d'"
proof -
  from supporterReplace_commit [OF assms] obtain u s d1 d2 where
    u: "(u, s) \<in> set (supporterJoin E (TrimSpace wallet) d)" "update_user_email (spr_Email q) (u_ID u) d = Inr d1"
      "update_supporter_name (spr_Name q) (u_ID u) d1 = Inr d2"
    and d': "d' = (if iu_Set (spr_ImageObjectKey q)
      then update_supporter_image (iu_Value (spr_ImageObjectKey q)) (u_ID u) d2 else d2)" by blast
  note own = callerIDs_join(1) [OF u(1)]
  have "touchesOnly E (TrimSpace wallet) d d2"
    by (rule touches_ops(2) [OF touches_ops(1) [OF touchesOnly_refl own u(2)] own u(3)])
  then show ?thesis using touches_ops(4) [OF _ own] by (simp add: d')
qed

lemma fundraiserReplace_touches:
  assumes "fundraiserReplaceTx E wallet q d = Commit m a d'"
  shows "touchesOnly E (TrimSpace wallet) d d'"
proof -
  from fundraiserReplace_commit [OF assms] obtain u s d1 d2 where
    u: "(u, s) \<in> set (fundraiserJoin E (TrimSpace wallet) d)" "update_user_email (fpr_Email q) (u_ID u) d = Inr d1"
      "update_fundraiser (fpr_Name q) (fpr_ContactName q) (fpr_ContactPhone q) (fpr_SocialURL q)
        (fpr_Country q) (fpr_ZipCode q) (u_ID u) d1 = Inr d2"
    and d': "d' = (if iu_Set (fpr_ImageObjectKey q)
      then update_fundraiser_image (iu_Value (fpr_ImageObjectKey q)) (u_ID u) d2 else d2)" by blast
  note own = callerIDs_join(2) [OF u(1)]
  have "touchesOnly E (TrimSpace wallet) d d2"
    by (rule touches_ops(3) [OF touches_ops(1) [OF touchesOnly_refl own u(2)] own u(3)])
  then show ?thesis using touches_ops(5) [OF _ own] by (simp add: d')
qed

lemma supporterDelete_touches:
  "supporterDeleteTx E wallet d = Commit m a d' \<Longrightarrow> touchesOnly E (TrimSpace wallet) d d'"
  by (drule supporterDelete_commit)
    (auto dest!: callerIDs_join intro!: touches_ops(6) [OF touches_ops(4) [OF touchesOnly_refl]])

lemma fundraiserDelete_touches:
  "fundraiserDeleteTx E wallet d = Commit m a d' \<Longrightarrow> touchesOnly E (TrimSpace wallet) d d'"
  by (drule fundraiserDelete_commit)
    (auto dest!: callerIDs_join intro!: touches_ops(6) [OF touches_ops(5) [OF touchesOnly_refl]])

lemma repo_touches:
  "SupporterRepo_Create E sp d = (d', r1) \<Longrightarrow> u_WalletAddress sp = TrimSpace k \<Longrightarrow> touchesOnly E (TrimSpace k) d d'"
  "FundraiserRepo_Create E fr d = (d', r2) \<Longrightarrow> u_WalletAddress fr = TrimSpace k \<Longrightarrow> touchesOnly E (TrimSpace k) d d'"
  "SupporterRepo_ReplaceProfile E wallet q d = (d', r3) \<Longrightarrow> touchesOnly E (TrimSpace wallet) d d'"
  "FundraiserRepo_ReplaceProfile E wallet q' d = (d', r4) \<Longrightarrow> touchesOnly E (TrimSpace wallet) d d'"
  "SupporterRepo_DeleteProfile E wallet d = (d', r5) \<Longrightarrow> touchesOnly E (TrimSpace wallet) d d'"
  "FundraiserRepo_DeleteProfile E wallet d = (d', r6) \<Longrightarrow> touchesOnly E (TrimSpace wallet) d d'"
  unfolding SupporterRepo_Create_def FundraiserRepo_Create_def SupporterRepo_ReplaceProfile_def
    FundraiserRepo_ReplaceProfile_def SupporterRepo_DeleteProfile_def FundraiserRepo_DeleteProfile_def
  by (erule touchesOnly_tx, erule (1) supporterCreate_touches fundraiserCreate_touches)+
    (erule touchesOnly_tx, erule supporterReplace_touches fundraiserReplace_touches supporterDelete_touches
      fundraiserDelete_touches)+

lemma CreatePending_touches:
  assumes "CreatePending E wallet c t d = (d', r)"
  shows "touchesOnly E (TrimSpace wallet) d d'"
  using assms unfolding CreatePending_def
proof (rule touchesOnly_tx)
  fix cm a d2 assume "createPendingTx E wallet c t d = Commit cm a d2"
  from createPending_commit [OF this] show "touchesOnly E (TrimSpace wallet) d d2"
  proof (elim disjE exE conjE)
    fix uf rest row
    assume u: "lockFundraiser E (TrimSpace wallet) d = uf # rest"
      and ins: "insert_campaign E (c\<lparr>c_FundraiserID := u_ID (fst uf)\<rparr>) d = Inr (Some row, d2)"
    have "u_ID (fst uf) \<in> callerIDs E (TrimSpace wallet) d"
      using callerIDs_join(3) [of "fst uf" "snd uf" E "TrimSpace wallet" d] u by simp
    with insert_campaign_rows [OF ins] show ?thesis by (auto simp: touchesOnly_def)
  qed simp
qed

lemma callerWallet_principal:
  "callerWallet (ContextWithPrincipal pr r) = Some (wallet, role) \<Longrightarrow> wallet = TrimSpace (p_WalletAddress pr)"
  by (auto simp: callerWallet_def ContextWithPrincipal_def PrincipalFromContext_def split: if_splits)

lemma registrationWallet_principal:
  "registrationWallet (ContextWithPrincipal pr r) = Some wallet \<Longrightarrow> wallet = p_WalletAddress pr"
  by (auto simp: registrationWallet_def ContextWithPrincipal_def PrincipalFromContext_def split: if_splits)

lemma service_touches:
  "SupporterService_Register E svc i w = (w', r1)
     \<Longrightarrow> touchesOnly E (TrimSpace (rs_WalletAddress i)) (database w) (database w')"
  "FundraiserService_Register E svc j w = (w', r2)
     \<Longrightarrow> touchesOnly E (TrimSpace (rf_WalletAddress j)) (database w) (database w')"
  "SupporterService_ReplaceProfile E svc \<lparr>rsp_WalletAddress = wallet, rsp_Profile = q\<rparr> w = (w', r3)
     \<Longrightarrow> touchesOnly E (TrimSpace wallet) (database w) (database w')"
  "FundraiserService_ReplaceProfile E svc \<lparr>rfp_WalletAddress = wallet, rfp_Profile = q'\<rparr> w = (w', r4)
     \<Longrightarrow> touchesOnly E (TrimSpace wallet) (database w) (database w')"
  "SupporterService_DeleteProfile E svc wallet w = (w', r5) \<Longrightarrow> touchesOnly E (TrimSpace wallet) (database w) (database w')"
  "FundraiserService_DeleteProfile E svc wallet w = (w', r6) \<Longrightarrow> touchesOnly E (TrimSpace wallet) (database w) (database w')"
  using repo_touches(3,4,5,6) [of E "TrimSpace wallet"]
  by (auto simp: SupporterService_Register_def FundraiserService_Register_def registerProfile_def Let_def
      SupporterService_ReplaceProfile_def FundraiserService_ReplaceProfile_def replaceProfile_def
      SupporterService_DeleteProfile_def FundraiserService_DeleteProfile_def deleteProfile_def
      newSupporter_def newFundraiser_def dest: repo_touches(1,2) split: sum.splits prod.splits option.splits)

lemma Create_touches:
  assumes "Create E svc input w = (w', r)"
  shows "touchesOnly E (TrimSpace (ci_WalletAddress input)) (database w) (database w')"
  using assms by (cases rule: Create_cases) (auto dest: CreatePending_touches)

lemma write_handlers_touch:
  defines "q \<equiv> \<lambda>pr r. ContextWithPrincipal pr r"
  shows "touchesOnly E (TrimSpace (p_WalletAddress pr)) (database w) (database (fst (HandleCreateCampaign H E ch hs (q pr r) w)))"
    and "touchesOnly E (TrimSpace (p_WalletAddress pr)) (database w) (database (fst (HandleRegisterSupporter H A E sh hs (q pr r) w)))"
    and "touchesOnly E (TrimSpace (p_WalletAddress pr)) (database w)
      (database (fst (SupporterHandler_HandleReplaceProfile H E sh hs (q pr r) w)))"
    and "touchesOnly E (TrimSpace (p_WalletAddress pr)) (database w)
      (database (fst (SupporterHandler_HandleDeleteProfile E sh hs (q pr r) w)))"
    and "touchesOnly E (TrimSpace (p_WalletAddress pr)) (database w) (database (fst (HandleRegisterFundraiser H A E fh hs (q pr r) w)))"
    and "touchesOnly E (TrimSpace (p_WalletAddress pr)) (database w)
      (database (fst (FundraiserHandler_HandleReplaceProfile H E fh hs (q pr r) w)))"
    and "touchesOnly E (TrimSpace (p_WalletAddress pr)) (database w)
      (database (fst (FundraiserHandler_HandleDeleteProfile E fh hs (q pr r) w)))"
  unfolding q_def
  by (auto simp: write_handler_defs Let_def createCampaignInput_def split: sum.splits option.splits prod.splits
      dest!: callerWallet_principal registrationWallet_principal Create_touches service_touches)

lemma serveEndpoint_touches:
  "touchesOnly E (TrimSpace (p_WalletAddress pr)) (database (sv_world s))
     (database (sv_world (fst (serveEndpoint L E a ep hs (ContextWithPrincipal pr r) s))))"
proof -
  have "touchesOnly E (TrimSpace (p_WalletAddress pr)) (database (sv_world s))
     (database (sv_world (fst (endpointHandler L E a ep hs (ContextWithPrincipal pr r) s))))"
    by (cases ep) (auto simp: endpointHandler_def onCache_def readsDB_def onWorld_def write_handlers_touch split_def Let_def)
  with serveEndpoint_state [of L E a ep hs "ContextWithPrincipal pr r" s] show ?thesis by auto
qed

text \<open>(C13) A request acts for its caller only. Whatever the request and whatever fails, either the database, the
  object store and the broker stay as they were, or the request carries a bearer token that the JWT manager
  accepts, and then only rows of the account with the token's wallet address change: a user or profile that is
  gone or changed belongs to a live account of that wallet before the request, one that is new belongs to a
  live account of that wallet afterwards, so nobody is registered for another wallet; the campaigns of other
  accounts, the donations and the events stay, no campaign disappears, and a new campaign belongs to that account.\<close>

theorem requests_act_for_caller:
  "sv_world (fst (Setup L E a hs r s)) = sv_world s
   \<or> (\<exists>tok pr. bearerToken r = Some tok \<and> JWT_Verify (lb_auth L) E (ap_Authenticate a) tok = Inr pr
        \<and> touchesOnly E (TrimSpace (p_WalletAddress pr)) (database (sv_world s))
            (database (sv_world (fst (Setup L E a hs r s)))))"
  by (rule Setup_cases [of L E a hs r s]) (auto simp: Recover_state public_endpoints_read_only serveEndpoint_touches)

lemma endpointHandler_client_error:
  assumes "endpointHandler L E a ep hs r s = (s', Answer resp)" and "clientError resp"
    and "publisher_foreign (ch_service (ap_CampaignHandler a))"
  shows "stored (sv_world s') = stored (sv_world s)"
  using assms
  by (cases ep) (auto simp: endpointHandler_def onCache_def readsDB_def onWorld_def Let_def split: prod.splits
      dest: write_handlers_client_error create_handler_client_error)

lemma Recover_client_error:
  assumes "Recover (serveEndpoint L E a ep) hs r s = (s', Answer resp)" and "clientError resp"
    and "publisher_foreign (ch_service (ap_CampaignHandler a))"
  shows "stored (sv_world s') = stored (sv_world s)"
  using assms(1)
proof (cases rule: Recover_cases)
  case (answered resp')
  then have "serveEndpoint L E a ep hs r s = (s', Answer resp)" by simp
  from endpointHandler_client_error [OF serveEndpoint_answer [OF this] assms(2,3)] show ?thesis .
next
  case (panicked hs')
  with assms(2) show ?thesis by (simp add: clientError_def WriteError_def)
qed

text \<open>(C24) An answer that blames the client means that nothing was stored: when any request is answered with a
  code from 400 to 499, the database and the broker are as they were, so the client may correct the request
  and send it again. The hypothesis is on third-party code alone: the API publishes through an AMQP client whose
  errors (a cancelled context, a refused channel) are not the five errors of the service that the endpoint
  turns into client errors.\<close>

theorem client_errors_store_nothing:
  assumes "Setup L E a hs r s = (s', Answer resp)" and "400 \<le> hr_Status resp" and "hr_Status resp < 500"
    and "svc_deploymentPublisher (ch_service (ap_CampaignHandler a)) = Some (PublishCampaignDeployment E0 (Some A))"
    and "amqp_foreign A"
  shows "database (sv_world s') = database (sv_world s) \<and> broker (sv_world s') = broker (sv_world s)"
proof -
  have "clientError resp" using assms(2,3) by (simp add: clientError_def)
  moreover have "publisher_foreign (ch_service (ap_CampaignHandler a))"
    using assms(4,5) by (rule PublishCampaignDeployment_foreign)
  ultimately have "stored (sv_world s') = stored (sv_world s)"
    using assms(1) by (rule_tac Setup_cases [of L E a hs r s]) (auto intro: Recover_client_error)
  then show ?thesis by (simp add: stored_def)
qed

section \<open>Creating a campaign over HTTP\<close>

lemma validateRequiredLength_Nil:
  "validateRequiredLength f v n errs = [] \<longleftrightarrow> errs = [] \<and> v \<noteq> [] \<and> RuneCountInString v \<le> n"
  by (auto simp: validateRequiredLength_def)

lemma validateStaged_Nil: "validateStagedImageObjectKey E k dir errs = [] \<Longrightarrow> errs = []"
  by (auto simp: validateStagedImageObjectKey_def split: if_splits sum.splits)

text \<open>What an accepted request satisfies.\<close>

lemma createCampaignRequest_accepted:
  assumes "createCampaignRequest_validate E q = Inr endAt"
  shows "RuneCountInString (cq_Title q) \<le> 255 \<and> RuneCountInString (cq_ShortDescription q) \<le> 255
    \<and> RuneCountInString (cq_Country q) \<le> 255 \<and> RuneCountInString (cq_ZipCode q) \<le> 20 \<and> 0 < cq_GoalAmount q
    \<and> ParseTime E (cq_EndAt q) = Some endAt"
  using assms
  by (auto simp: createCampaignRequest_validate_def Let_def validateRequiredLength_Nil validateEndAt_def
      maxNameCharacters_def maxCountryCharacters_def maxZipCodeCharacters_def
      split: if_splits prod.splits option.splits dest!: validateStaged_Nil)

text \<open>What every field of a body keeps, the decoded body has.\<close>

lemma decodeMembers_invariant:
  assumes "\<And>k assign v m m'. (k, assign) \<in> set fs \<Longrightarrow> P m \<Longrightarrow> assign v m = Some m' \<Longrightarrow> P m'"
  shows "P m \<Longrightarrow> decodeMembers fs ms m = Some m' \<Longrightarrow> P m'"
proof (induction ms arbitrary: m)
  case (Cons kv ms)
  obtain k v where kv: "kv = (k, v)" by (cases kv)
  with Cons.prems(2) obtain f assign m1 where "fieldFor (map fst fs) k = Some f" and f: "map_of fs f = Some assign"
    "assign v m = Some m1" and rest: "decodeMembers fs ms m1 = Some m'"
    by (auto split: option.splits)
  from assms [OF map_of_SomeD [OF f(1)] Cons.prems(1) f(2)] have "P m1" .
  from Cons.IH [OF this rest] show ?case .
qed simp

lemma ReadJSON_invariant:
  assumes fs: "\<And>k assign v m m'. (k, assign) \<in> set fs \<Longrightarrow> P m \<Longrightarrow> assign v m = Some m' \<Longrightarrow> P m'"
    and zero: "P zero" and read: "ReadJSON L r fs zero n = Inr q"
  shows "P q"
proof -
  from read obtain v where "decodeStruct fs v zero = Some q"
    by (auto simp: ReadJSON_def split: if_splits option.splits)
  then have "q = zero \<or> (\<exists>ms. decodeMembers fs ms zero = Some q)" by (cases v) (auto simp: decodeStruct_def)
  then show ?thesis
  proof
    assume "\<exists>ms. decodeMembers fs ms zero = Some q"
    then obtain ms where "decodeMembers fs ms zero = Some q" ..
    with fs zero show ?thesis by (rule decodeMembers_invariant)
  qed (use zero in simp)
qed

lemma ReadJSON_goal:
  assumes "ReadJSON L r createCampaignFields zeroCreateCampaignRequest n = Inr q"
  shows "in_int64 (cq_GoalAmount q)"
  using _ _ assms
proof (rule ReadJSON_invariant [where P = "\<lambda>q. in_int64 (cq_GoalAmount q)"])
  show "in_int64 (cq_GoalAmount zeroCreateCampaignRequest)"
    by (simp add: zeroCreateCampaignRequest_def in_int64_def MinInt64_def MaxInt64_def)
  show "in_int64 (cq_GoalAmount m')"
    if "(k, assign) \<in> set createCampaignFields" "in_int64 (cq_GoalAmount m)" "assign v m = Some m'" for k assign v m m'
    using that by (auto simp: createCampaignFields_def strField_def intField_def split: json.splits option.splits)
      (rule ParseInt_in_int64)
qed

lemma accepted_inputFits:
  assumes "createCampaignRequest_validate E (createCampaignRequest_normalize q) = Inr endAt"
    and "length idempotencyKey \<le> maxIdempotencyKeyBytes"
  shows "inputFits (createCampaignInput wallet idempotencyKey (createCampaignRequest_normalize q) endAt)"
proof -
  have "RuneCountInString (TrimSpace idempotencyKey) \<le> 255"
    using assms(2) RuneCount_le_length [of "TrimSpace idempotencyKey"] TrimSpace_sublist [of idempotencyKey]
    by (metis maxIdempotencyKeyBytes_def le_trans length_append le_add1 le_add2)
  with createCampaignRequest_accepted [OF assms(1)] show ?thesis
    by (simp add: inputFits_def createCampaignInput_def createCampaignRequest_normalize_def)
qed

lemma HandleCreateCampaign_created:
  assumes run: "HandleCreateCampaign L E h hs r w = (w', resp)" and status: "hr_Status resp = 201"
  obtains wallet key q endAt c where "callerWallet r = Some (wallet, UserRoleFundraiser)"
    and "createCampaignRequest_validate E (createCampaignRequest_normalize q) = Inr endAt"
    and "length key \<le> maxIdempotencyKeyBytes"
    and "ReadJSON L r createCampaignFields zeroCreateCampaignRequest oneMiB = Inr q"
    and "Create E (ch_service h) (createCampaignInput wallet key (createCampaignRequest_normalize q) endAt) w = (w', Inr c)"
    and "hr_Envelope resp = Some \<lparr>en_Success = True, en_Code = ''CAMPAIGN_CREATED'', en_Message = ''Campaign created successfully.'',
      en_Data = Some (CreatedCampaign (createdCampaign E (ch_urlBuilder h) c)), en_Pagination = None, en_Errors = []\<rparr>"
proof -
  have errors: "hr_Status (createCampaignFailure hs' e) \<noteq> 201" "hr_Status (ReadError hs' e m) \<noteq> 201"
    "hr_Status (ValidationError hs' fe) \<noteq> 201" "hr_Status (invalidAccessToken hs') \<noteq> 201"
    "hr_Status (fundraiserAccessRequired hs') \<noteq> 201" "hr_Status (WriteError hs' 400 code m []) \<noteq> 201"
    for hs' e m fe code
    by (simp_all add: createCampaignFailure_def ReadError_def ValidationError_def invalidAccessToken_def
        fundraiserAccessRequired_def WriteError_def InternalError_def profileNotFound_def)
  show ?thesis
    using run status
    by (auto simp: HandleCreateCampaign_def Let_def errors WriteSuccess_def
        split: option.splits if_splits sum.splits prod.splits intro!: that [OF _ _ leI])
qed

lemma HandleCreateCampaign_stored:
  assumes run: "HandleCreateCampaign L E h hs r w = (w', resp)" and status: "hr_Status resp = 201"
    and promoter: "svc_objectPromoter (ch_service h) = Some p" and time: "timestamp_laws E"
  shows "\<exists>wallet q endAt c en. callerWallet r = Some (wallet, UserRoleFundraiser)
    \<and> ReadJSON L r createCampaignFields zeroCreateCampaignRequest oneMiB = Inr q
    \<and> ParseTime E (TrimSpace (cq_EndAt q)) = Some endAt
    \<and> hr_Envelope resp = Some en \<and> en_Data en = Some (CreatedCampaign (createdCampaign E (ch_urlBuilder h) c))
    \<and> c \<in> set (campaigns (database w')) \<and> c_FundraiserID c \<in> callerIDs E wallet (database w)
    \<and> 0 < c_GoalAmount c \<and> c_GoalAmount c = cq_GoalAmount q \<and> c_EndAt c = Truncate Microsecond endAt
    \<and> objects w' (op_bucket p, c_ImageObjectKey c) \<noteq> None
    \<and> (needsCampaignDeployment c \<longrightarrow>
        (\<exists>publish. svc_deploymentPublisher (ch_service h) = Some publish \<and> 0 < svc_chainID (ch_service h)
          \<and> publish (deploymentTask (svc_chainID (ch_service h)) wallet c) (broker w) = (broker w', Inr ())))"
proof -
  from HandleCreateCampaign_created [OF run status] obtain wallet key q endAt c where
    wallet: "callerWallet r = Some (wallet, UserRoleFundraiser)"
    and valid: "createCampaignRequest_validate E (createCampaignRequest_normalize q) = Inr endAt"
    and key: "length key \<le> maxIdempotencyKeyBytes"
    and body: "ReadJSON L r createCampaignFields zeroCreateCampaignRequest oneMiB = Inr q"
    and created: "Create E (ch_service h) (createCampaignInput wallet key (createCampaignRequest_normalize q) endAt) w = (w', Inr c)"
    and envelope: "hr_Envelope resp = Some \<lparr>en_Success = True, en_Code = ''CAMPAIGN_CREATED'',
      en_Message = ''Campaign created successfully.'',
      en_Data = Some (CreatedCampaign (createdCampaign E (ch_urlBuilder h) c)), en_Pagination = None, en_Errors = []\<rparr>" .
  let ?in = "createCampaignInput wallet key (createCampaignRequest_normalize q) endAt"
  have trim: "TrimSpace wallet = wallet" using wallet by (auto simp: callerWallet_def split: option.splits if_splits)
  have "c_FundraiserID c \<in> callerIDs E wallet (database w)"
    using created
  proof (cases rule: Create_cases)
    case (stored i st key' d created' b r')
    then have "CreatePending E (TrimSpace (ci_WalletAddress ?in)) (newCampaign i ?in key')
       (time_Now E + CampaignDeploymentLeadTime) (database w) = (d, Inr c)" by (auto split: sum.splits)
    from CreatePending_owner [OF this] callerIDs_join(3) show ?thesis
      by (fastforce simp: createCampaignInput_def trim)
  qed auto
  with wallet body envelope Create_stored [OF created promoter accepted_inputFits [OF valid key] time]
    createCampaignRequest_accepted [OF valid]
  show ?thesis
    by (intro exI [of _ wallet] exI [of _ q] exI [of _ endAt] exI [of _ c])
      (simp add: createCampaignInput_def createCampaignRequest_normalize_def trim)
qed

text \<open>(C23) A campaign that was created over HTTP. When the endpoint answers 201, the caller is a fundraiser, the
  campaign in the answer is stored and belongs to the live account with the caller's wallet address, it has
  the goal and the end of the request's body, its image is in the bucket, and, while it waits for its
  contract, its deployment task was published. The checks of the endpoint are those the service and the
  schema need: no further hypothesis on the request is used.\<close>

theorem create_campaign_endpoint:
  assumes run: "HandleCreateCampaign L E h hs r w = (w', resp)" and status: "hr_Status resp = 201"
    and promoter: "svc_objectPromoter (ch_service h) = Some p" and time: "timestamp_laws E"
  shows "\<exists>wallet q endAt c en. callerWallet r = Some (wallet, UserRoleFundraiser)
    \<and> ReadJSON L r createCampaignFields zeroCreateCampaignRequest oneMiB = Inr q
    \<and> ParseTime E (TrimSpace (cq_EndAt q)) = Some endAt
    \<and> hr_Envelope resp = Some en \<and> en_Data en = Some (CreatedCampaign (createdCampaign E (ch_urlBuilder h) c))
    \<and> c \<in> set (campaigns (database w')) \<and> c_FundraiserID c \<in> callerIDs E wallet (database w)
    \<and> 0 < c_GoalAmount c \<and> c_GoalAmount c = cq_GoalAmount q \<and> c_EndAt c = Truncate Microsecond endAt
    \<and> objects w' (op_bucket p, c_ImageObjectKey c) \<noteq> None
    \<and> (needsCampaignDeployment c \<longrightarrow>
        (\<exists>publish. svc_deploymentPublisher (ch_service h) = Some publish \<and> 0 < svc_chainID (ch_service h)
          \<and> publish (deploymentTask (svc_chainID (ch_service h)) wallet c) (broker w) = (broker w', Inr ())))"
  using assms by (rule HandleCreateCampaign_stored)

section \<open>An example request\<close>

definition demo_http :: http_lib where
  "demo_http = \<lparr>url_ParseRequestURI = (\<lambda>s. if HasPrefix s ''https://'' then Some (''https'', drop 8 s) else None), json_Violation = (\<lambda>_. False)\<rparr>"

definition demo_fields :: "(string \<times> field) list" where
  "demo_fields =
     [(''title'', FStr ''Clinic''), (''shortDescription'', FStr ''Vaccines''), (''story'', FStr ''For the shelter.''),
      (''goalAmount'', FInt 500), (''endAt'', FStr ''2027-01-15T08:00:00Z''), (''imageObjectKey'', FStr demo_staging),
      (''country'', FStr ''Indonesia''), (''zipCode'', FStr ''40111'')]"

definition demo_create_request :: createCampaignRequest where
  "demo_create_request =
     \<lparr>cq_Title = ''Clinic'', cq_ShortDescription = ''Vaccines'', cq_Story = ''For the shelter.'', cq_GoalAmount = 500,
      cq_EndAt = ''2027-01-15T08:00:00Z'', cq_ImageObjectKey = demo_staging, cq_Country = ''Indonesia'', cq_ZipCode = ''40111''\<rparr>"

definition demo_post :: "string \<Rightarrow> Request" where
  "demo_post token =
     \<lparr>rq_Method = ''POST'', rq_Path = [''v1'', ''fundraiser'', ''campaigns''],
      rq_Header = (\<lambda>k. if k = ''Idempotency-Key'' then ''key-3'' else if k = ''Authorization'' then token else []),
      rq_MediaType = Some ''application/json'', rq_Query = Map.empty, rq_URLParam = (\<lambda>_. []),
      rq_Body = MarshalStruct demo_fields, rq_Principal = Some \<lparr>p_WalletAddress = ''0xAB'', p_Role = ''fundraiser''\<rparr>\<rparr>"

lemma demo_staging_text: "demo_staging = ''tmp/campaigns/000000000000000000000000000000000005.png''"
proof -
  have "uuid_String demo_env 5 = hex_write 36 5" by (simp add: demo_env_def)
  also have "\<dots> = ''000000000000000000000000000000000005''" by code_simp
  finally show ?thesis by (simp add: demo_staging_def stagingImageObjectKey_def stagingPrefix_def)
qed

lemma demo_fields_text: "demo_fields =
     [(''title'', FStr ''Clinic''), (''shortDescription'', FStr ''Vaccines''), (''story'', FStr ''For the shelter.''),
      (''goalAmount'', FInt 500), (''endAt'', FStr ''2027-01-15T08:00:00Z''),
      (''imageObjectKey'', FStr ''tmp/campaigns/000000000000000000000000000000000005.png''),
      (''country'', FStr ''Indonesia''), (''zipCode'', FStr ''40111'')]"
  by (simp add: demo_fields_def demo_staging_text)

lemma demo_body_length: "length (MarshalStruct demo_fields) < 300" 
  unfolding demo_fields_text by code_simp

lemma demo_days: "days_of_civil 2027 1 15 = 740361"
proof -
  have "take 27 yearLens = map (\<lambda>y. if isLeap (int y) then 366 else 365) [0..<27]"
    by (simp add: yearLens_def take_map)
  then have "sum_list (take 27 yearLens) + 1 = 9863" using sum_years [of 27] by simp
  then show ?thesis by (simp add: days_of_civil_def)
qed

lemma demo_end: "ParseTime demo_env ''2027-01-15T08:00:00Z'' = Some 1800000000000000000"
proof -
  have "parseUint ''2027'' 0 9999 = Some 2027" "parseUint ''01'' 1 12 = Some 1" "parseUint ''08'' 0 23 = Some 8"
    "parseUint ''00'' 0 59 = Some 0" "parseUint ''15'' 1 31 = Some 15" by code_simp+
  then have "parseRFC3339 ''2027-01-15T08:00:00Z'' = Some 1800000000000000000"
    by (simp add: parseRFC3339_def sub_def demo_days daysIn_def monthLens_def isLeap_def parseFraction_def
        parseZone_def demo_days [unfolded One_nat_def])
  then show ?thesis by (simp add: ParseRFC3339_def)
qed

lemma demo_texts_http: "TrimSpace ''2027-01-15T08:00:00Z'' = ''2027-01-15T08:00:00Z''"
  "ValidString ''For the shelter.''"
  "ValidString ''2027-01-15T08:00:00Z''" "ValidString ''Clinic''" "ValidString ''Vaccines''" "ValidString ''Indonesia''"
  "ValidString ''40111''" "ValidString ''tmp/campaigns/000000000000000000000000000000000005.png''"
  "ValidString ''title''" "ValidString ''shortDescription''" "ValidString ''story''" "ValidString ''goalAmount''"
  "ValidString ''endAt''" "ValidString ''imageObjectKey''" "ValidString ''country''" "ValidString ''zipCode''"
  by code_simp+

lemma demo_read:
  "ReadJSON demo_http (demo_post token) createCampaignFields zeroCreateCampaignRequest oneMiB = Inr demo_create_request"
proof -
  have doc: "parseDocument (MarshalStruct demo_fields) = Some (JObj (map (\<lambda>(k, f). (k, fieldValue f)) demo_fields))"
    by (rule parseDocument_MarshalStruct)
      (simp_all add: demo_fields_text demo_texts_http field_ok_def in_int64_def MinInt64_def MaxInt64_def)
  have int: "ParseInt (Itoa 500) = Some 500" by (simp add: ParseInt_Itoa in_int64_def MinInt64_def MaxInt64_def)
  have "\<not> oneMiB < length (MarshalStruct demo_fields)" using demo_body_length by (simp add: oneMiB_def)
  then show ?thesis
    by (simp add: ReadJSON_def demo_post_def doc decodeStruct_def)
      (simp add: demo_fields_def createCampaignFields_def fieldFor_def fieldValue_def strField_def intField_def int
        zeroCreateCampaignRequest_def demo_create_request_def)
qed

lemma demo_valid:
  "createCampaignRequest_normalize demo_create_request = demo_create_request"
  "createCampaignRequest_validate demo_env demo_create_request = Inr 1800000000000000000"
proof -
  show "createCampaignRequest_normalize demo_create_request = demo_create_request"
    by (simp add: createCampaignRequest_normalize_def demo_create_request_def demo_texts demo_texts_http demo_staging_trim)
  have "length demo_staging \<le> 1024" by (simp add: demo_staging_text)
  then show "createCampaignRequest_validate demo_env demo_create_request = Inr 1800000000000000000"
    using demo_canonical demo_staging_trim(3)
    by (simp add: createCampaignRequest_validate_def demo_create_request_def validateRequiredLength_def demo_texts
        validateEndAt_def demo_end validateStagedImageObjectKey_def maxNameCharacters_def maxCountryCharacters_def
        maxZipCodeCharacters_def maxImageObjectKeyBytes_def CampaignImageDirectory_def demo_texts_http)
qed

lemma demo_post_with:
  assumes "Create demo_env svc demo_input w = (w', r)"
  shows "HandleCreateCampaign demo_http demo_env \<lparr>ch_service = svc, ch_urlBuilder = b\<rparr> hs (demo_post token) w
    = (w', case r of
         Inl e \<Rightarrow> createCampaignFailure (noStore hs) e
       | Inr c \<Rightarrow> WriteSuccess (noStore hs) 201 ''CAMPAIGN_CREATED'' ''Campaign created successfully.''
           (CreatedCampaign (createdCampaign demo_env b c)))"
proof -
  have "createCampaignInput ''0xAB'' ''key-3'' demo_create_request 1800000000000000000 = demo_input"
    by (simp add: createCampaignInput_def demo_create_request_def demo_input_def)
  moreover have "callerWallet (demo_post token) = Some (''0xAB'', ''fundraiser'')"
    by (simp add: callerWallet_def PrincipalFromContext_def demo_post_def demo_texts)
  moreover have "rq_Header (demo_post token) ''Idempotency-Key'' = ''key-3''" by (simp add: demo_post_def)
  ultimately show ?thesis
    using assms by (cases r) (simp_all add: HandleCreateCampaign_def demo_texts maxIdempotencyKeyBytes_def demo_read demo_valid)
qed

lemma demo_post_run:
  "HandleCreateCampaign demo_http demo_env \<lparr>ch_service = demo_service up, ch_urlBuilder = b\<rparr> hs (demo_post token) demo_world
    = (fst (Create demo_env (demo_service up) demo_input demo_world),
       if up then WriteSuccess (noStore hs) 201 ''CAMPAIGN_CREATED'' ''Campaign created successfully.''
               (CreatedCampaign (createdCampaign demo_env b demo_created))
       else InternalError (noStore hs))"
  by (cases up) (simp_all add: demo_post_with [OF demo_create_run] demo_create_run createCampaignFailure_def)

theorem create_campaign_endpoint_witness:
  "\<exists>c\<in>set (campaigns (database (fst (HandleCreateCampaign demo_http demo_env
      \<lparr>ch_service = demo_service True, ch_urlBuilder = \<lparr>baseURL = ''https://cdn''\<rparr>\<rparr> [] (demo_post []) demo_world)))).
     c_GoalAmount c = 500 \<and> c_EndAt c = Truncate Microsecond 1800000000000000000"
proof -
  let ?h = "\<lparr>ch_service = demo_service True, ch_urlBuilder = \<lparr>baseURL = ''https://cdn''\<rparr>\<rparr>"
  let ?w = "fst (Create demo_env (demo_service True) demo_input demo_world)"
  have run: "HandleCreateCampaign demo_http demo_env ?h [] (demo_post []) demo_world
      = (?w, WriteSuccess (noStore []) 201 ''CAMPAIGN_CREATED'' ''Campaign created successfully.''
               (CreatedCampaign (createdCampaign demo_env \<lparr>baseURL = ''https://cdn''\<rparr> demo_created)))"
    by (simp add: demo_post_run)
  have p: "svc_objectPromoter (ch_service ?h) = Some \<lparr>op_bucket = ''pawfund''\<rparr>" by (simp add: demo_service_def)
  obtain q endAt c where "ReadJSON demo_http (demo_post []) createCampaignFields zeroCreateCampaignRequest oneMiB = Inr q"
      "ParseTime demo_env (TrimSpace (cq_EndAt q)) = Some endAt" "c \<in> set (campaigns (database ?w))"
      "c_GoalAmount c = cq_GoalAmount q" "c_EndAt c = Truncate Microsecond endAt"
    using create_campaign_endpoint [OF run _ p demo_timestamp_laws] by (auto simp: WriteSuccess_def)
  then show ?thesis
    unfolding run by (intro bexI [of _ c]) (auto simp: demo_read demo_create_request_def demo_texts_http demo_end)
qed

definition demo_libs :: "(string \<times> string) libs" where
  "demo_libs = \<lparr>lb_http = demo_http, lb_auth = demo_auth, lb_Panics = (\<lambda>_ _ _. None), chi_Find = (\<lambda>_ _. Some (19, \<lambda>_. [])),
     chi_NotFound = (\<lambda>hs. WriteError hs 404 ''NOT_FOUND'' ''404 page not found'' [])\<rparr>"

definition demo_application :: "'b CampaignService \<Rightarrow> 'b Application" where
  "demo_application svc =
     \<lparr>ap_AuthHandler = \<lparr>ah_service = demo_auth_service, ah_urlBuilder = \<lparr>baseURL = ''https://cdn''\<rparr>, ah_chainID = 84532\<rparr>,
      ap_UploadHandler = \<lparr>uh_presigner = (\<lambda>k _ _. Inr k)\<rparr>,
      ap_SupporterHandler = \<lparr>sh_service = demo_profile_service, sh_tokenIssuer = demo_auth_service,
        sh_urlBuilder = \<lparr>baseURL = ''https://cdn''\<rparr>\<rparr>,
      ap_FundraiserHandler = \<lparr>fh_service = demo_profile_service, fh_tokenIssuer = demo_auth_service,
        fh_urlBuilder = \<lparr>baseURL = ''https://cdn''\<rparr>\<rparr>,
      ap_CampaignHandler = \<lparr>ch_service = svc, ch_urlBuilder = \<lparr>baseURL = ''https://cdn''\<rparr>\<rparr>,
      ap_Authenticate = as_tokenGenerator demo_auth_service, ap_CORSAllowedOrigins = []\<rparr>"

text \<open>An AMQP client whose context is cancelled, behind an API that knows one token. A creation reaches the service,
  finds no uploaded image and is answered with 422.\<close>

definition cancelled_amqp :: "unit amqp" where
  "cancelled_amqp =
     \<lparr>Available = (\<lambda>_. True), Channel = (\<lambda>_. Some (Sentinel context_Canceled)), ConfirmMode = (\<lambda>_. None),
      ExchangeDeclare = (\<lambda>_ _ _ _ b. (b, Inr ())), QueueDeclare = (\<lambda>_ _ _ _ b. (b, Inr ())),
      QueueBind = (\<lambda>_ _ _ b. (b, Inr ())), PublishWait = (\<lambda>_ _ _ b. (b, Inl (Sentinel context_Canceled)))\<rparr>"

definition cancelled_service :: "unit CampaignService" where
  "cancelled_service = \<lparr>svc_objectPromoter = Some \<lparr>op_bucket = ''pawfund''\<rparr>,
     svc_deploymentPublisher = Some (PublishCampaignDeployment demo_env (Some cancelled_amqp)), svc_chainID = 1\<rparr>"

definition token_libs :: "(string \<times> string) libs" where
  "token_libs = demo_libs\<lparr>lb_auth := demo_auth\<lparr>jwt_ParseWithClaims := (\<lambda>_ _ tok.
     if tok = ''t0'' then Inr \<lparr>cl_WalletAddress = ''0xAB'', cl_Role = ''fundraiser'', cl_ExpiresAt = 1800000000000000000,
       cl_IssuedAt = 1700000000000000000\<rparr> else Inl (Errorf ''token is malformed''))\<rparr>\<rparr>"

lemma cancelled_create:
  "Create demo_env cancelled_service demo_input \<lparr>database = demo_db, objects = Map.empty, broker = ()\<rparr>
    = (\<lparr>database = demo_db, objects = Map.empty, broker = ()\<rparr>, Inl (Sentinel service_ErrImageObjectNotFound))"
proof -
  have "TrimSpace demo_key = demo_key" "demo_key \<noteq> []"
    using Canonical_TrimSpace_id [OF demo_canonical] by (simp_all add: demo_key_def)
  then have "promoteImageObjectKey demo_env (Some \<lparr>op_bucket = ''pawfund''\<rparr>) demo_staging ''campaigns'' Map.empty
      = (Map.empty, Inl (Sentinel service_ErrImageObjectNotFound))"
    using demo_canonical demo_staging_trim
    by (simp add: promoteImageObjectKey_def Promote_def StatObject_def CopyObject_def isObjectNotFound_def NoSuchKey_def Let_def)
  then show ?thesis
    by (simp add: Create_def cancelled_service_def demo_input_def demo_staging_trim CampaignImageDirectory_def)
qed

theorem client_errors_store_nothing_witness:
  "\<exists>resp. Setup token_libs demo_env (demo_application cancelled_service) [] (demo_post ''Bearer t0'')
       \<lparr>sv_world = \<lparr>database = demo_db, objects = Map.empty, broker = ()\<rparr>, sv_cache = Map.empty\<rparr>
     = (\<lparr>sv_world = \<lparr>database = demo_db, objects = Map.empty, broker = ()\<rparr>, sv_cache = Map.empty\<rparr>, Answer resp)
   \<and> hr_Status resp = 422"
proof -
  let ?w = "\<lparr>database = demo_db, objects = Map.empty, broker = ()\<rparr>"
  let ?s = "\<lparr>sv_world = ?w, sv_cache = Map.empty\<rparr>" and ?a = "demo_application cancelled_service"
  have t: "TrimSpace ''Bearer t0'' = ''Bearer t0''" "Fields ''Bearer t0'' = [''Bearer'', ''t0'']" "TrimSpace ''0xAB'' = ''0xAB''"
    "map lower_byte ''Bearer'' = ''bearer''" by code_simp+
  have request: "ContextWithPrincipal \<lparr>p_WalletAddress = ''0xAB'', p_Role = ''fundraiser''\<rparr> (routed (demo_post ''Bearer t0'') (\<lambda>_. []))
      = demo_post ''Bearer t0''" by (simp add: ContextWithPrincipal_def demo_post_def)
  have token: "JWT_Verify (lb_auth token_libs) demo_env (ap_Authenticate ?a) ''t0''
      = Inr \<lparr>p_WalletAddress = ''0xAB'', p_Role = ''fundraiser''\<rparr>"
    by (simp add: JWT_Verify_def token_libs_def t isSupportedRole_def)
  obtain hs resp where run: "Setup token_libs demo_env ?a [] (demo_post ''Bearer t0'') ?s = (?s, Answer resp)"
    and resp: "resp = createCampaignFailure hs (Sentinel service_ErrImageObjectNotFound)"
  proof -
    have find: "chi_Find token_libs rs r = Some (19, \<lambda>_. [])" for rs r by (simp add: token_libs_def demo_libs_def)
    have header: "rq_Header (routed (demo_post x) p) ''Authorization'' = x" for x p by (simp add: demo_post_def)
    have auth: "Authenticate (lb_auth token_libs) demo_env (ap_Authenticate ?a) nxt hs' (routed (demo_post ''Bearer t0'') (\<lambda>_. [])) x
        = nxt (noStore (addHeader ''Vary'' ''Authorization'' hs')) (demo_post ''Bearer t0'') x" for nxt hs' x
      using token request t(4) unfolding Authenticate_def Let_def header t(1,2) by simp
    have route: "router token_libs demo_env ?a hs' (demo_post ''Bearer t0'') ?s
        = serveEndpoint token_libs demo_env ?a CreateCampaignEP (noStore (addHeader ''Vary'' ''Authorization'' hs'))
            (demo_post ''Bearer t0'') ?s" for hs'
      using auth by (simp add: router_def find routes_def)
    have served: "serveEndpoint token_libs demo_env ?a CreateCampaignEP hs' (demo_post ''Bearer t0'') ?s
        = (?s, Answer (createCampaignFailure (noStore hs') (Sentinel service_ErrImageObjectNotFound)))" for hs'
      using demo_post_with [OF cancelled_create, of "\<lparr>baseURL = ''https://cdn''\<rparr>" hs' "''Bearer t0''"]
      by (simp add: serveEndpoint_def endpointHandler_def onWorld_def token_libs_def demo_libs_def demo_application_def)
    have "\<exists>hs1. Setup token_libs demo_env ?a [] (demo_post ''Bearer t0'') ?s
        = Recover (router token_libs demo_env ?a) hs1 (demo_post ''Bearer t0'') ?s"
      by (auto simp: Setup_def CORS_def Let_def demo_post_def)
    then show ?thesis using that by (auto simp: Recover_def route served)
  qed
  have status: "hr_Status resp = 422"
    by (simp add: resp createCampaignFailure_def ValidationError_def WriteError_def)
  have publisher: "svc_deploymentPublisher (ch_service (ap_CampaignHandler ?a))
      = Some (PublishCampaignDeployment demo_env (Some cancelled_amqp))"
    by (simp add: demo_application_def cancelled_service_def)
  have "amqp_foreign cancelled_amqp" by (auto simp: amqp_foreign_def cancelled_amqp_def foreignError_def)
  from client_errors_store_nothing [OF run _ _ publisher this] run status show ?thesis by blast
qed

end
