(* ===== verification/System.thy ===== *)
theory System
  imports Application Api Startup
begin

text \<open>
  The two processes together. The state is that of the API server (database, objects, broker, cache) and of
  the deployer's consumer; the database and the chain that the worker sees are shared with the server. A
  step is one HTTP request through \<open>Setup\<close>, one step of the deployer's consumer (its own, its queue client's
  or its environment's), or an upload to a presigned URL. The theorem: the whole system refines the state
  machine of \<open>Application\<close>, so that its invariants hold of it.
\<close>

record ('b, 'c) system =
  sy_server :: "'b server"
  sy_consumer :: "('b, db \<times> 'c) consumerSystem"

text \<open>What the state machine of the application sees of it: the server's world and the chain. The deployer
  reads and writes the server's database.\<close>

definition systemAbs :: "('b, 'c) system \<Rightarrow> 'b world \<times> 'c" where
  "systemAbs y = (sv_world (sy_server y), snd (cn_world (sy_consumer y)))"

definition sharesDatabase :: "('b, 'c) system \<Rightarrow> bool" where
  "sharesDatabase y \<longleftrightarrow> fst (cn_world (sy_consumer y)) = database (sv_world (sy_server y))"

definition withDatabase :: "db \<Rightarrow> 'b server \<Rightarrow> 'b server" where
  "withDatabase d s = s\<lparr>sv_world := (sv_world s)\<lparr>database := d\<rparr>\<rparr>"

definition uploadTo :: "string \<Rightarrow> string \<Rightarrow> string \<Rightarrow> 'b server \<Rightarrow> 'b server" where
  "uploadTo b k content s = s\<lparr>sv_world := (sv_world s)\<lparr>objects := (objects (sv_world s))((b, k) \<mapsto> content)\<rparr>\<rparr>"

text \<open>The bucket all storage clients of a process use.\<close>

definition bucketOf :: "Config \<Rightarrow> ObjectPromoter" where
  "bucketOf cfg = \<lparr>op_bucket = TrimSpace (cf_StorageBucket cfg)\<rparr>"

inductive systemStep :: "'m libs \<Rightarrow> 'b sessionCalls \<Rightarrow> Config \<Rightarrow> 'b Application \<Rightarrow> 'c CampaignDeploymentWorker
    \<Rightarrow> ('b, 'c) system \<Rightarrow> ('b, 'c) system \<Rightarrow> bool" for L B cfg a wk where
  request: "Setup L E a [] r (sy_server y) = (srv, answer) \<Longrightarrow>
    systemStep L B cfg a wk y
      (y\<lparr>sy_server := srv,
         sy_consumer := (sy_consumer y)\<lparr>cn_world := (database (sv_world srv), snd (cn_world (sy_consumer y)))\<rparr>\<rparr>)"
| consume: "consumerStep B (Deployer_handleDelivery E wk) (sy_consumer y) c \<Longrightarrow>
    systemStep L B cfg a wk y (y\<lparr>sy_server := withDatabase (fst (cn_world c)) (sy_server y), sy_consumer := c\<rparr>)"
| uploaded: "HasPrefix k ''tmp/'' \<Longrightarrow>
    systemStep L B cfg a wk y (y\<lparr>sy_server := uploadTo (op_bucket (bucketOf cfg)) k content (sy_server y)\<rparr>)"

text \<open>Both processes have started, on an empty database, as their \<open>main\<close> starts them.\<close>

inductive systemReach :: "('c, 'k) ethereum \<Rightarrow> 'm libs \<Rightarrow> 'b sessionCalls \<Rightarrow> Config \<Rightarrow> 'b Application \<Rightarrow> 'c CampaignDeploymentWorker
    \<Rightarrow> ('b, 'c) system \<Rightarrow> bool" for X L B cfg a wk where
  boot: "load (st_parsers S) getenv = Inr cfg \<Longrightarrow> New E S (sc_amqp B) cfg b = (h, b', Inr a)
    \<Longrightarrow> loadDeployer E' (st_parsers S') getenv' = Inr dcfg
    \<Longrightarrow> NewDeployer E' S' X (sc_amqp B) dcfg b' (empty_db, ch) = (h', b'', Inr \<lparr>da_consumer = c, da_worker = wk, da_closeChain = cl\<rparr>)
    \<Longrightarrow> systemReach X L B cfg a wk
          \<lparr>sy_server = \<lparr>sv_world = \<lparr>database = empty_db, objects = os, broker = b''\<rparr>, sv_cache = r\<rparr>, sy_consumer = c\<rparr>"
| steps: "systemReach X L B cfg a wk y \<Longrightarrow> systemStep L B cfg a wk y y' \<Longrightarrow> systemReach X L B cfg a wk y'"

section \<open>What the start leaves\<close>

text \<open>The services of a wired application share one promoter.\<close>

definition promoterOf :: "'b Application \<Rightarrow> ObjectPromoter \<Rightarrow> bool" where
  "promoterOf a p \<longleftrightarrow>
     ps_objectPromoter (sh_service (ap_SupporterHandler a)) = Some p
     \<and> ps_objectPromoter (fh_service (ap_FundraiserHandler a)) = Some p
     \<and> svc_objectPromoter (ch_service (ap_CampaignHandler a)) = Some p"

lemma connectClients_app: "connectClients E S A cfg app h b = (h', b', Inr a) \<Longrightarrow> \<exists>c. a = app c"
  by (auto simp: connectClients_def failNew_def split: prod.splits sum.splits)

lemma New_promoter:
  assumes "New E S A cfg b = (h, b', Inr a)"
  shows "promoterOf a (bucketOf cfg)"
proof -
  from assms obtain jwt url put del prom g where
    clients: "connectClients E S A cfg (wire E S A cfg jwt url put del prom) g b = (h, b', Inr a)"
    and prom: "NewObjectPromoter S (storageConfig cfg 0) = Inr prom"
    by (auto simp: New_def Let_def failNew_def split: prod.splits sum.splits)
  from connectClients_app [OF clients] obtain c where a: "a = wire E S A cfg jwt url put del prom c" by blast
  have "prom = bucketOf cfg"
    using prom by (auto simp: NewObjectPromoter_def storageSettings_def storageConfig_def bucketOf_def split: sum.splits if_splits)
  then show ?thesis by (simp add: a wire_def constructors Let_def promoterOf_def)
qed

lemma NewDeployer_world:
  assumes "NewDeployer E S X A cfg b w = (h, b', Inr d)"
  shows "cn_world (da_consumer d) = w"
  using assms
  by (auto simp: NewDeployer_def Let_def failDeployer_def newConsumerSystem_def split: prod.splits sum.splits)

section \<open>Requests\<close>

text \<open>A handler that changes the world has called one operation of a service.\<close>

lemma handler_calls:
  "fst (HandleCreateCampaign H E ch hs r w) = w \<or> (\<exists>i x. Create E (ch_service ch) i w = (fst (HandleCreateCampaign H E ch hs r w), x))"
  "fst (HandleRegisterSupporter H A E sh hs r w) = w
    \<or> (\<exists>i x. SupporterService_Register E (sh_service sh) i w = (fst (HandleRegisterSupporter H A E sh hs r w), x))"
  "fst (SupporterHandler_HandleReplaceProfile H E sh hs r w) = w
    \<or> (\<exists>i x. SupporterService_ReplaceProfile E (sh_service sh) i w = (fst (SupporterHandler_HandleReplaceProfile H E sh hs r w), x))"
  "fst (SupporterHandler_HandleDeleteProfile E sh hs r w) = w
    \<or> (\<exists>i x. SupporterService_DeleteProfile E (sh_service sh) i w = (fst (SupporterHandler_HandleDeleteProfile E sh hs r w), x))"
  "fst (HandleRegisterFundraiser H A E fh hs r w) = w
    \<or> (\<exists>i x. FundraiserService_Register E (fh_service fh) i w = (fst (HandleRegisterFundraiser H A E fh hs r w), x))"
  "fst (FundraiserHandler_HandleReplaceProfile H E fh hs r w) = w
    \<or> (\<exists>i x. FundraiserService_ReplaceProfile E (fh_service fh) i w = (fst (FundraiserHandler_HandleReplaceProfile H E fh hs r w), x))"
  "fst (FundraiserHandler_HandleDeleteProfile E fh hs r w) = w
    \<or> (\<exists>i x. FundraiserService_DeleteProfile E (fh_service fh) i w = (fst (FundraiserHandler_HandleDeleteProfile E fh hs r w), x))"
  by (auto simp: write_handler_defs Let_def split: sum.split option.split prod.split if_split)

abbreviation stepsTo :: "ObjectPromoter \<Rightarrow> 'c \<Rightarrow> 'b world \<Rightarrow> 'b world \<Rightarrow> bool" where
  "stepsTo p ch w w' \<equiv> w' = w \<or> app_step p (w, ch) (w', ch)"

lemma handler_steps:
  "svc_objectPromoter (ch_service h1) = Some p \<Longrightarrow> stepsTo p c w (fst (HandleCreateCampaign H E h1 hs r w))"
  "ps_objectPromoter (sh_service sh) = Some p \<Longrightarrow> stepsTo p c w (fst (HandleRegisterSupporter H A E sh hs r w))"
  "ps_objectPromoter (sh_service sh) = Some p \<Longrightarrow> stepsTo p c w (fst (SupporterHandler_HandleReplaceProfile H E sh hs r w))"
  "stepsTo p c w (fst (SupporterHandler_HandleDeleteProfile E sh hs r w))"
  "ps_objectPromoter (fh_service fh) = Some p \<Longrightarrow> stepsTo p c w (fst (HandleRegisterFundraiser H A E fh hs r w))"
  "ps_objectPromoter (fh_service fh) = Some p \<Longrightarrow> stepsTo p c w (fst (FundraiserHandler_HandleReplaceProfile H E fh hs r w))"
  "stepsTo p c w (fst (FundraiserHandler_HandleDeleteProfile E fh hs r w))"
  by (use handler_calls in \<open>metis create_campaign register_supporter replace_supporter delete_supporter
      register_fundraiser replace_fundraiser delete_fundraiser\<close>)+

lemma serveEndpoint_step:
  assumes "promoterOf a p"
  shows "stepsTo p c (sv_world s) (sv_world (fst (serveEndpoint L E a ep hs r s)))"
proof -
  from assms have a: "ps_objectPromoter (sh_service (ap_SupporterHandler a)) = Some p"
    "ps_objectPromoter (fh_service (ap_FundraiserHandler a)) = Some p"
    "svc_objectPromoter (ch_service (ap_CampaignHandler a)) = Some p" by (simp_all add: promoterOf_def)
  have "stepsTo p c (sv_world s) (sv_world (fst (endpointHandler L E a ep hs r s)))"
    by (cases ep) (use handler_steps(1) [OF a(3)] handler_steps(2,3) [OF a(1)] handler_steps(5,6) [OF a(2)] handler_steps(4,7) in
      \<open>simp_all add: endpointHandler_def onCache_def readsDB_def onWorld_def split_def Let_def\<close>)
  with serveEndpoint_state [of L E a ep hs r s] show ?thesis by auto
qed

lemma Setup_step:
  assumes "promoterOf a p" and "Setup L E a hs r s = (s', answer)"
  shows "stepsTo p c (sv_world s) (sv_world s')"
proof (rule Setup_cases [of L E a hs r s])
  fix m q ep params hs'
  assume "Setup L E a hs r s = Recover (serveEndpoint L E a ep) hs' (routed r params) s"
  with serveEndpoint_step [OF assms(1)] assms(2) show ?thesis by (metis Recover_state fst_conv)
next
  fix m q ep params hs' tok pr
  assume "Setup L E a hs r s = Recover (serveEndpoint L E a ep) hs' (ContextWithPrincipal pr (routed r params)) s"
  with serveEndpoint_step [OF assms(1)] assms(2) show ?thesis by (metis Recover_state fst_conv)
qed (use assms(2) in simp_all)

section \<open>Deliveries\<close>

text \<open>A step of the consumer changes its world only by handling one delivery.\<close>

lemma consumerStep_world:
  assumes "consumerStep B handler s s'"
  shows "cn_world s' = cn_world s \<or> (\<exists>d x. handleDelivery handler d (cn_world s) = (cn_world s', x))"
  using assms
proof cases
  case (start ctx)
  then show ?thesis by (auto simp: RunStart_def split: if_splits)
next
  case (run ev)
  from Run_move [OF run] show ?thesis by cases auto
qed auto

lemma delivery_step:
  assumes "handleDelivery (Deployer_handleDelivery E wk) d (database w, c) = ((d', c'), x)"
  shows "app_step p (w, c) (w\<lparr>database := d'\<rparr>, c')"
  using assms by (auto simp: handleDelivery_def split: prod.splits sum.splits intro: app_step.deliver)

section \<open>The refinement\<close>

lemma systemStep_refines:
  assumes "systemStep L B cfg a wk y y'" and "sharesDatabase y" and "promoterOf a (bucketOf cfg)"
  shows "sharesDatabase y' \<and> (systemAbs y' = systemAbs y \<or> app_step (bucketOf cfg) (systemAbs y) (systemAbs y'))"
  using assms(1)
proof cases
  case (request E r srv answer)
  from Setup_step [OF assms(3) request(2)]
  have "stepsTo (bucketOf cfg) (snd (cn_world (sy_consumer y))) (sv_world (sy_server y)) (sv_world srv)" .
  with request(1) show ?thesis by (auto simp: sharesDatabase_def systemAbs_def)
next
  case (consume E c)
  obtain d ch where world: "cn_world (sy_consumer y) = (d, ch)" "d = database (sv_world (sy_server y))"
    using assms(2) by (cases "cn_world (sy_consumer y)") (auto simp: sharesDatabase_def)
  obtain d' ch' where new: "cn_world c = (d', ch')" by fastforce
  from consumerStep_world [OF consume(2)] show ?thesis
    using delivery_step [of E wk _ "sv_world (sy_server y)" ch d' ch' _ "bucketOf cfg"]
    by (auto simp: consume(1) new world sharesDatabase_def systemAbs_def withDatabase_def)
next
  case (uploaded k content)
  with assms(2) show ?thesis
    by (auto simp: sharesDatabase_def systemAbs_def uploadTo_def intro: app_step.upload)
qed

lemma systemReach_start:
  "systemReach X L B cfg a wk y \<Longrightarrow> promoterOf a (bucketOf cfg)"
  by (induction rule: systemReach.induct) (auto dest: New_promoter)

lemma systemReach_refines:
  "systemReach X L B cfg a wk y \<Longrightarrow> sharesDatabase y \<and> reachable (bucketOf cfg) (systemAbs y)"
proof (induction rule: systemReach.induct)
  case (boot S getenv E b h b' E' S' getenv' dcfg ch h' b'' c os r)
  from NewDeployer_world [OF boot(4)] show ?case by (auto simp: sharesDatabase_def systemAbs_def intro: reachable.start)
next
  case (steps y y')
  with systemStep_refines [OF steps(2) _ systemReach_start [OF steps(1)]] show ?case by (auto intro: reachable.step)
qed

text \<open>(C1) The running system refines the state machine. Once both processes have started on an empty database,
  every step of either (a request that \<open>Setup\<close> serves, a step of the deployer's consumer, of its queue client
  or of their environment, or an upload) is, seen through \<open>systemAbs\<close>, no step at all or one step of the
  machine, and the two processes keep seeing the same database. So the rules of the application hold, every image
  referred to is in the bucket, and a campaign only ever moves from announced to active.\<close>

theorem system_refines_application:
  assumes "systemReach X L B cfg a wk y" and "systemStep L B cfg a wk y y'"
  shows "sharesDatabase y' \<and> reachable (bucketOf cfg) (systemAbs y')
    \<and> (systemAbs y' = systemAbs y \<or> app_step (bucketOf cfg) (systemAbs y) (systemAbs y'))
    \<and> app_ok (database (sv_world (sy_server y'))) \<and> images_ok (op_bucket (bucketOf cfg)) (sv_world (sy_server y'))
    \<and> lifecycle (statusOf (database (sv_world (sy_server y)))) (statusOf (database (sv_world (sy_server y'))))"
proof -
  note y = systemReach_refines [OF assms(1)]
  note y' = systemReach_refines [OF systemReach.steps [OF assms]]
  note inv = reachable_invariant [OF conjunct2 [OF y]] reachable_invariant [OF conjunct2 [OF y']]
  have step: "systemAbs y' = systemAbs y \<or> app_step (bucketOf cfg) (systemAbs y) (systemAbs y')"
    using systemStep_refines [OF assms(2) conjunct1 [OF y] systemReach_start [OF assms(1)]] by blast
  then have "lifecycle (statusOf (database (fst (systemAbs y)))) (statusOf (database (fst (systemAbs y'))))"
    using app_step_lifecycle [of "fst (systemAbs y)"] inv(1) lifecycle.stutter by (metis prod.collapse)
  with y' inv(2) step show ?thesis by (simp add: systemAbs_def)
qed

section \<open>Witness\<close>

definition demo_deployer_getenv :: "string \<Rightarrow> string" where
  "demo_deployer_getenv name =
     (if name = ''DEPLOYMENT_MODE'' then ''stub'' else if name = ''SIWE_CHAIN_ID'' then ''97'' else ''h'')"

definition demo_deployer_config :: DeployerConfig where
  "demo_deployer_config =
     \<lparr>dc_HTTPAddr = ''h'', dc_DatabaseURL = ''h'', dc_QueueURL = ''h'', dc_ChainID = 97, dc_DeploymentMode = ''stub'',
      dc_ChainRPCURL = ''h'', dc_CampaignFactoryAddress = ''h'', dc_DeployerPrivateKey = ''h'', dc_ConfirmTimeout = Hour\<rparr>"

lemma demo_stub: "TrimSpace ''stub'' = ''stub''" "Lower demo_env ''stub'' = ''stub''"
proof -
  have "is_ascii ''stub''" "map lower_byte ''stub'' = ''stub''" by code_simp+
  then show "Lower demo_env ''stub'' = ''stub''" by (simp only: ToLower_def if_True)
qed code_simp

lemma demo_deployer_settings:
  "demo_deployer_getenv ''DATABASE_URL'' = ''h''" "demo_deployer_getenv ''QUEUE_URL'' = ''h''"
  "demo_deployer_getenv ''DEPLOYMENT_MODE'' = ''stub''" "demo_deployer_getenv ''SIWE_CHAIN_ID'' = ''97''"
  "demo_deployer_getenv ''DEPLOYMENT_CONFIRM_TIMEOUT'' = ''h''" "demo_deployer_getenv ''DEPLOYER_HTTP_ADDR'' = ''h''"
  "demo_deployer_getenv ''CHAIN_RPC_URL'' = ''h''" "demo_deployer_getenv ''CAMPAIGN_FACTORY_ADDRESS'' = ''h''"
  "demo_deployer_getenv ''DEPLOYER_PRIVATE_KEY'' = ''h''"
  by code_simp+

lemma demo_loadDeployer: "loadDeployer demo_env (st_parsers demo_boot) demo_deployer_getenv = Inr demo_deployer_config"
proof -
  have "positiveChainID ''97'' = Inr 97" by code_simp
  moreover have "positiveDuration (st_parsers demo_boot) ''h'' d name = Inr Hour" for d name
    by (simp add: positiveDuration_def demo_trims demo_boot_def Hour_def Minute_def Second_def Let_def)
  ultimately show ?thesis
    unfolding loadDeployer_def Let_def demo_deployer_settings demo_trims demo_stub
    by (simp add: checkMode_def demo_deployer_config_def)
qed

lemma demo_topology_texts:
  "TrimSpace campaignDeploymentExchange = campaignDeploymentExchange" "TrimSpace campaignDeploymentQueue = campaignDeploymentQueue"
  "TrimSpace ''topic'' = ''topic''" "campaignDeploymentQueue \<noteq> []" "campaignDeploymentExchange \<noteq> []" "TrimSpace [] = []"
  by code_simp+

lemma demo_validTopology: "validateTopology CampaignDeploymentTopology = Inr ()"
  by (simp add: validateTopology_def CampaignDeploymentTopology_def demo_topology_texts)

lemma demo_declared: "\<exists>b'. DeclareOn (Some demo_amqp) CampaignDeploymentTopology b = (b', Inr ())"
  by (cases b) (simp add: DeclareOn_def Declare_def demo_amqp_def demo_validTopology callIf_def Let_def)

lemma demo_newConsumer: "\<exists>c. newConsumerSystem demo_amqp deployerConsumerConfig q b w = Inr c"
proof -
  have same: "t_Queue CampaignDeploymentTopology = campaignDeploymentQueue"
    "CampaignDeploymentTopology\<lparr>t_Queue := campaignDeploymentQueue\<rparr> = CampaignDeploymentTopology"
    by (simp_all add: CampaignDeploymentTopology_def)
  have "consumerTopology campaignDeploymentQueue (Some CampaignDeploymentTopology) = Inr (Some CampaignDeploymentTopology)"
    by (simp add: consumerTopology_def Let_def demo_topology_texts same demo_validTopology)
  then show ?thesis
    by (simp add: newConsumerSystem_def NewConsumer_def deployerConsumerConfig_def CampaignDeploymentTopology_def demo_topology_texts Let_def
        split: sum.splits)
qed

lemma demo_deployer_starts:
  "\<exists>h b' d. NewDeployer demo_env demo_boot demo_eth demo_amqp demo_deployer_config b w = (h, b', Inr d)"
proof -
  have "databaseOpen demo_boot (dc_DatabaseURL demo_deployer_config) = (Opened, Inr ())"
    by (simp add: databaseOpen_def demo_boot_def)
  moreover obtain q where "Open (st_dial demo_boot) \<lparr>cl_URL = dc_QueueURL demo_deployer_config, cl_ConnectionName = []\<rparr> = Inr q"
    by (simp add: Open_def demo_boot_def demo_deployer_config_def demo_trims demo_dialContext)
  moreover obtain b' where "DeclareOn (Some demo_amqp) CampaignDeploymentTopology b = (b', Inr ())" using demo_declared by blast
  moreover obtain c where "newConsumerSystem demo_amqp deployerConsumerConfig q b' w = Inr c"
    using demo_newConsumer [of q b' w] by blast
  moreover have "NewConfiguredCampaignDeployer demo_env demo_eth ''stub'' n u f k t = Inr (\<lparr>cd_Deployer = onChain (StubDeployCampaign demo_env), cd_Close = (\<lambda>client. (client, None))\<rparr>, Unopened)" for n u f k t
    by (simp add: NewConfiguredCampaignDeployer_def demo_stub)
  then have "NewConfiguredCampaignDeployer demo_env demo_eth (dc_DeploymentMode demo_deployer_config) n u f k t
    = Inr (\<lparr>cd_Deployer = onChain (StubDeployCampaign demo_env), cd_Close = (\<lambda>client. (client, None))\<rparr>, Unopened)" for n u f k t by (simp add: demo_deployer_config_def)
  ultimately show ?thesis by (auto simp: NewDeployer_def Let_def)
qed

theorem system_refines_application_witness:
  "\<exists>y' :: ((string \<times> string \<times> string) list \<times> (string \<times> string) list, string list) system.
     reachable \<lparr>op_bucket = ''h''\<rparr> (systemAbs y') \<and> objects (fst (systemAbs y')) (''h'', ''tmp/x'') = Some ''png''"
proof -
  from demo_starts obtain h b and a :: "((string \<times> string \<times> string) list \<times> (string \<times> string) list) Application"
    where new: "New demo_env demo_boot demo_amqp demo_config ([], []) = (h, b, Inr a)" by blast
  obtain h' b' d where "NewDeployer demo_env demo_boot demo_eth demo_amqp demo_deployer_config b (empty_db, [] :: string list) = (h', b', Inr d)"
    using demo_deployer_starts [of b "(empty_db, [] :: string list)"] by blast
  then have deployer: "NewDeployer demo_env demo_boot demo_eth (sc_amqp demo_calls) demo_deployer_config b (empty_db, [])
      = (h', b', Inr \<lparr>da_consumer = da_consumer d, da_worker = da_worker d, da_closeChain = da_closeChain d\<rparr>)" by (simp add: demo_calls_def)
  let ?y = "\<lparr>sy_server = \<lparr>sv_world = \<lparr>database = empty_db, objects = Map.empty, broker = b'\<rparr>, sv_cache = Map.empty\<rparr>,
    sy_consumer = da_consumer d\<rparr>"
  let ?y' = "?y\<lparr>sy_server := uploadTo ''h'' ''tmp/x'' ''png'' (sy_server ?y)\<rparr>"
  have "systemReach demo_eth L demo_calls demo_config a (da_worker d) ?y" for L :: "unit libs"
    by (rule systemReach.boot [OF demo_load _ demo_loadDeployer deployer]) (simp add: demo_calls_def, rule new)
  moreover have b: "bucketOf demo_config = \<lparr>op_bucket = ''h''\<rparr>" by (simp add: bucketOf_def demo_config_def demo_trims)
  have "systemStep L demo_calls demo_config a (da_worker d) ?y ?y'" for L :: "unit libs"
    using systemStep.uploaded [where y = ?y and cfg = demo_config and k = "''tmp/x''" and content = "''png''"]
    by (simp add: b HasPrefix_def)
  ultimately have r: "reachable (bucketOf demo_config) (systemAbs ?y')" using system_refines_application by blast
  have "reachable \<lparr>op_bucket = ''h''\<rparr> (systemAbs ?y')"
    by (rule subst [OF b, of "\<lambda>p. reachable p (systemAbs ?y')"]) (rule r)
  moreover have "objects (fst (systemAbs ?y')) (''h'', ''tmp/x'') = Some ''png''"
    by (simp add: systemAbs_def uploadTo_def)
  ultimately show ?thesis by blast
qed

end
