(* ===== verification/Campaign_Life.thy ===== *)
theory Campaign_Life
  imports System
begin

text \<open>
  A campaign's life across the two processes: its row is immutable but for its activation, whatever requests
  and deliveries are interleaved, and the delivery of its deployment message makes it public on the API for good; what a creation leaves on the queue
  decodes to the campaign's task, or not at all when its end lies too late.
\<close>

section \<open>Rows of campaigns\<close>

definition advanced :: "Campaign \<Rightarrow> Campaign \<Rightarrow> bool" where
  "advanced c c' \<longleftrightarrow> c' = c \<or> c_Status c = CampaignStatusPending \<and> (\<exists>i a. c' = activated i a c)"

lemma advanced_refl [simp]: "advanced c c"
  by (simp add: advanced_def)

lemma advanced_trans: "advanced c c' \<Longrightarrow> advanced c' c'' \<Longrightarrow> advanced c c''"
  by (auto simp: advanced_def activated_def)

lemma advanced_id: "advanced c c' \<Longrightarrow> c_ID c' = c_ID c"
  by (auto simp: advanced_def activated_def)

definition rowsAdvance :: "db \<Rightarrow> db \<Rightarrow> bool" where
  "rowsAdvance d d' \<longleftrightarrow> (\<forall>c\<in>set (campaigns d). \<exists>c'\<in>set (campaigns d'). advanced c c')"

lemma rowsAdvance_keep: "set (campaigns d) \<subseteq> set (campaigns d') \<Longrightarrow> rowsAdvance d d'"
  unfolding rowsAdvance_def using advanced_refl by blast

lemma rowsAdvance_trans: "rowsAdvance d d' \<Longrightarrow> rowsAdvance d' d'' \<Longrightarrow> rowsAdvance d d''"
  unfolding rowsAdvance_def using advanced_trans by blast

lemma CreatePending_advance: "CreatePending E w c t d = (d', r) \<Longrightarrow> rowsAdvance d d'"
  by (drule CreatePending_rows) (auto intro!: rowsAdvance_keep)

lemma CompleteDeployment_advance:
  assumes "CompleteDeployment E i e a d = (d', r)" and ok: "db_ok d"
  shows "rowsAdvance d d'"
  using CompleteDeployment_rows [OF assms(1)]
proof (elim disjE exE conjE bexE)
  fix a' c0 assume d': "campaigns d' = update_where (\<lambda>c. c_ID c = i) (activated (ev_ID e) a') (campaigns d)"
    and c0: "c0 \<in> set (campaigns d)" "c_ID c0 = i" "c_Status c0 = CampaignStatusPending"
  have "c = c0" if "c \<in> set (campaigns d)" "c_ID c = i" for c
    using ok c0(1,2) that distinct_map_eq [of c_ID "campaigns d"] by (auto simp: db_ok_def campaigns_ok_def)
  then have "advanced c (if c_ID c = i then activated (ev_ID e) a' c else c)" if "c \<in> set (campaigns d)" for c
    using that c0(3) by (auto simp: advanced_def)
  then show ?thesis unfolding rowsAdvance_def d' update_where_def set_map by blast
qed (auto intro: rowsAdvance_keep)

lemma app_step_advance:
  assumes "app_step p (w, ch) (w', ch')" and "db_ok (database w)"
  shows "rowsAdvance (database w) (database w')"
  using assms(1)
proof (cases rule: app_step.cases)
  case (create_campaign csvc E inC r)
  from create_campaign(3) show ?thesis
    by (cases rule: Create_cases) (auto intro: CreatePending_advance rowsAdvance_keep)
next
  case (deliver E wk delivery d r)
  from delivery_database [OF deliver(2)] have "rowsAdvance (database w) d"
    using CompleteDeployment_advance [OF _ assms(2)] rowsAdvance_keep by blast
  with deliver show ?thesis by simp
qed (auto simp: SupporterService_ReplaceProfile_def FundraiserService_ReplaceProfile_def
    SupporterService_Register_def FundraiserService_Register_def
    SupporterService_DeleteProfile_def FundraiserService_DeleteProfile_def
    dest!: sup.replace_profile_campaigns fundr.replace_profile_campaigns sup.delete_profile_campaigns
      fundr.delete_profile_campaigns sup.register_profile_campaigns fundr.register_profile_campaigns
    intro: rowsAdvance_keep)

section \<open>Sequences of steps of the system\<close>

abbreviation dbOf :: "('b, 'c) system \<Rightarrow> db" where
  "dbOf y \<equiv> database (sv_world (sy_server y))"

lemma systemStep_advance:
  assumes "systemStep L B cfg a wk y y'" and "sharesDatabase y" and "promoterOf a (bucketOf cfg)" and "app_ok (dbOf y)"
  shows "sharesDatabase y' \<and> app_ok (dbOf y') \<and> rowsAdvance (dbOf y) (dbOf y') \<and> statusOf (dbOf y) \<le> statusOf (dbOf y')"
proof -
  from systemStep_refines [OF assms(1-3)] have share: "sharesDatabase y'"
    and step: "systemAbs y' = systemAbs y \<or> app_step (bucketOf cfg) (systemAbs y) (systemAbs y')" by blast+
  have "db_ok (dbOf y)" using assms(4) by (simp add: app_ok_def)
  with step have "rowsAdvance (dbOf y) (dbOf y')"
    using app_step_advance by (auto simp: systemAbs_def intro: rowsAdvance_keep)
  moreover have "app_ok (dbOf y')" using step app_step_app assms(4) by (fastforce simp: systemAbs_def)
  moreover have "statusOf (dbOf y) \<le> statusOf (dbOf y')"
    using step app_step_lifecycle [THEN lifecycle_mono] assms(4) by (auto simp: systemAbs_def)
  ultimately show ?thesis using share by blast
qed

lemma systemSteps_advance:
  assumes "(systemStep L B cfg a wk)\<^sup>*\<^sup>* y y'" and "sharesDatabase y" and "promoterOf a (bucketOf cfg)" and "app_ok (dbOf y)"
  shows "sharesDatabase y' \<and> app_ok (dbOf y') \<and> rowsAdvance (dbOf y) (dbOf y') \<and> statusOf (dbOf y) \<le> statusOf (dbOf y')"
  using assms(1)
proof (induction rule: rtranclp_induct)
  case base
  then show ?case using assms by (auto intro: rowsAdvance_keep)
next
  case (step y' y'')
  from systemStep_advance [OF step(2) _ assms(3)] step(3) show ?case
    using rowsAdvance_trans order_trans by blast
qed

text \<open>(C8) A campaign's row is immutable but for its activation. However many requests, deliveries, uploads and
  steps of the environment are interleaved, every campaign stored before is stored afterwards with the same
  identifier, owner, text, goal, end and image; the one change it can undergo is that, while it was pending, it
  became active and got its event and its contract address. So no campaign disappears and the status of each only
  moves up in the order of the schema's enumeration.\<close>

theorem campaign_rows_immutable:
  assumes "(systemStep L B cfg a wk)\<^sup>*\<^sup>* y y'" and "sharesDatabase y" and "promoterOf a (bucketOf cfg)" and "app_ok (dbOf y)"
    and "c \<in> set (campaigns (dbOf y))"
  shows "(\<exists>c'\<in>set (campaigns (dbOf y')). c_ID c' = c_ID c
      \<and> (c' = c \<or> c_Status c = CampaignStatusPending \<and> (\<exists>i addr. c' = activated i addr c)))
    \<and> statusOf (dbOf y) \<le> statusOf (dbOf y')"
  using systemSteps_advance [OF assms(1-4)] assms(5) advanced_id unfolding rowsAdvance_def advanced_def by blast

section \<open>From the queue to the public page\<close>

lemma FindPublicByContractAddress_found:
  assumes app: "app_ok d" and c: "c \<in> set (campaigns d)" "c_Status c = CampaignStatusActive" "c_ContractAddress c = Some addr"
    and only: "\<And>c'. c' \<in> set (campaigns d) \<Longrightarrow> map_option (sql_Lower E) (c_ContractAddress c') = Some (sql_Lower E addr) \<Longrightarrow> c' = c"
    and E: "fault E = (\<lambda>_. None)" and trim: "TrimSpace addr = addr"
  shows "\<exists>name wallet pic. FindPublicByContractAddress E addr d = Inr (scanPublicCampaignDetail c name wallet pic)"
proof -
  have ok: "db_ok d" using app by (simp add: app_ok_def)
  have "c_FundraiserID c \<in> liveIDs (users d)" using app c by (simp add: app_ok_def owners_ok_def openStatus_def)
  then obtain u where u: "u \<in> set (users d)" "u_ID u = c_FundraiserID c" "live u" by (auto simp: liveIDs_iff)
  obtain f where f: "f \<in> set (fundraisers d)" "fw_id f = c_FundraiserID c" using campaign_owner_row [OF app c(1)] by auto
  have "u_ID u \<in> fw_id ` set (fundraisers d)" using u(2) f by (metis image_eqI)
  then have "u_Role u = ''fundraiser''" using app u(1) by (simp add: app_ok_def roles_ok_def)
  then have "(c, f, u) \<in> set (publicByContractAddress E addr d)"
    using c u f by (simp add: publicByContractAddress_def campaignJoin_set publicStatus_def)
  then obtain c' f' u' rest where rows: "publicByContractAddress E addr d = (c', f', u') # rest"
    by (cases "publicByContractAddress E addr d") auto
  then have "(c', f', u') \<in> set (publicByContractAddress E addr d)" by simp
  then have "c' = c" using only by (auto simp: publicByContractAddress_def campaignJoin_set)
  then show ?thesis using rows E by (auto simp: FindPublicByContractAddress_def queryRow_def trim)
qed

lemma public_page:
  assumes "FindPublicByContractAddress E addr d = Inr (scanPublicCampaignDetail c name wallet pic)"
    and "TrimSpace (rq_URLParam r ''address'') = addr" and "TrimSpace addr = addr"
  shows "\<exists>page. HandleGetPublicCampaignDetail E h hs r d
      = WriteSuccess (noStore hs) 200 ''CAMPAIGN_RETRIEVED'' ''Campaign retrieved successfully.'' (PublicCampaign page)
    \<and> pcd_ID page = c_ID c \<and> pcd_Title page = c_Title c \<and> pcd_GoalAmount page = c_GoalAmount c
    \<and> pcd_ContractAddress page = valueOrEmpty (c_ContractAddress c) \<and> pcd_Status page = c_Status c"
  using assms
  by (intro exI [of _ "publicCampaignDetail (ch_urlBuilder h) (scanPublicCampaignDetail c name wallet pic)"])
    (simp add: HandleGetPublicCampaignDetail_def GetPublicCampaignDetail_def Let_def publicCampaignDetail_def
      scanPublicCampaignDetail_def scanCampaign_def Campaign.defs PublicCampaignDetail.defs)

lemma consuming_step:
  assumes "cn_pc s = Consuming n" and "handleDelivery handler m (cn_world s) = (w, x)"
  shows "Run B handler (CvDelivery m) s = Some (s\<lparr>cn_world := w, cn_settled := cn_settled s @ [(m, x)]\<rparr>)"
  using assms by (simp add: Run_def runSession_def deliveryLoop_def)

text \<open>An active campaign whose address no other campaign shares answers at its page.\<close>

lemma active_page:
  assumes "app_ok d" and "c \<in> set (campaigns d)" "c_Status c = CampaignStatusActive" "c_ContractAddress c = Some addr"
    and "\<forall>c'\<in>set (campaigns d). map_option (sql_Lower E) (c_ContractAddress c') = Some (sql_Lower E addr) \<longrightarrow> c_ID c' = c_ID c"
    and "fault E = (\<lambda>_. None)" "TrimSpace (rq_URLParam q ''address'') = addr" "TrimSpace addr = addr"
  shows "\<exists>page. HandleGetPublicCampaignDetail E h hs q d
      = WriteSuccess (noStore hs) 200 ''CAMPAIGN_RETRIEVED'' ''Campaign retrieved successfully.'' (PublicCampaign page)
    \<and> pcd_ID page = c_ID c \<and> pcd_Title page = c_Title c \<and> pcd_GoalAmount page = c_GoalAmount c
    \<and> pcd_ContractAddress page = addr \<and> pcd_Status page = CampaignStatusActive"
proof -
  have "distinct (map c_ID (campaigns d))" using assms(1) by (simp add: app_ok_def db_ok_def campaigns_ok_def)
  then have only: "c' = c" if "c' \<in> set (campaigns d)"
      "map_option (sql_Lower E) (c_ContractAddress c') = Some (sql_Lower E addr)" for c'
    using distinct_map_eq [of c_ID "campaigns d" c' c] assms(2,5) that by blast
  from FindPublicByContractAddress_found [OF assms(1-4) only assms(6,8)] obtain name wallet pic where
    "FindPublicByContractAddress E addr d = Inr (scanPublicCampaignDetail c name wallet pic)" by blast
  from public_page [OF this assms(7,8), of h hs] assms(3,4) show ?thesis by (auto simp: valueOrEmpty_def)
qed

text \<open>(C7) From the queue to the public page. While the deployer's consumer is in its delivery loop, the message
  of a pending campaign that ends on a whole second, and whose message decodes, arrives. No call of the worker
  fails, the deployer returns a result, and the result fits the schema. Then that one step of \<open>Run\<close> is a step of
  the system and the message is acknowledged. From then on, whatever steps the two processes take, in every later
  state in which no other campaign has that address up to the case of its letters, the API's public endpoint,
  asked for the address while the database answers, returns 200 and the campaign: its identifier, title and
  goal, its address, and the status active.\<close>

theorem delivered_campaign_is_public:
  assumes y: "sharesDatabase y" "app_ok (dbOf y)" "cn_pc (sy_consumer y) = Consuming n" and a: "promoterOf a (bucketOf cfg)"
    and c: "c \<in> set (campaigns (dbOf y))" "c_Status c = CampaignStatusPending" "Truncate Second (c_EndAt c) = c_EndAt c"
    and E: "uuid_laws E" "decodable (deploymentTask (wk_chainID wk) wallet c)" "fault E = (\<lambda>_. None)" "generateID E = Inr i"
    and dep: "wk_deployer wk = Some deploy"
      "deploy (deploymentParams (deploymentTask (wk_chainID wk) wallet c) c) (snd (cn_world (sy_consumer y))) = (ch', Inr r)"
    and fits: "eventAccepted (deploymentEvent i r) (CampaignDeploymentResult.cr_ContractAddress r)"
      "eventFits (deploymentEvent i r) (CampaignDeploymentResult.cr_ContractAddress r) (dbOf y)"
  shows "\<exists>y'. Run B (Deployer_handleDelivery E wk) (CvDelivery (campaignDelivery E (wk_chainID wk) wallet c)) (sy_consumer y)
        = Some (sy_consumer y')
    \<and> systemStep L B cfg a wk y y'
    \<and> cn_settled (sy_consumer y') = cn_settled (sy_consumer y) @ [(campaignDelivery E (wk_chainID wk) wallet c, Ack)]
    \<and> (\<forall>y'' E' q h hs. (systemStep L B cfg a wk)\<^sup>*\<^sup>* y' y'' \<and> fault E' = (\<lambda>_. None)
        \<and> TrimSpace (rq_URLParam q ''address'') = TrimSpace (CampaignDeploymentResult.cr_ContractAddress r)
        \<and> (\<forall>c'\<in>set (campaigns (dbOf y'')). map_option (sql_Lower E') (c_ContractAddress c')
              = Some (sql_Lower E' (TrimSpace (CampaignDeploymentResult.cr_ContractAddress r))) \<longrightarrow> c_ID c' = c_ID c)
        \<longrightarrow> (\<exists>page. HandleGetPublicCampaignDetail E' h hs q (dbOf y'')
              = WriteSuccess (noStore hs) 200 ''CAMPAIGN_RETRIEVED'' ''Campaign retrieved successfully.'' (PublicCampaign page)
            \<and> pcd_ID page = c_ID c \<and> pcd_Title page = c_Title c \<and> pcd_GoalAmount page = c_GoalAmount c
            \<and> pcd_ContractAddress page = TrimSpace (CampaignDeploymentResult.cr_ContractAddress r)
            \<and> pcd_Status page = CampaignStatusActive))"
proof -
  let ?m = "campaignDelivery E (wk_chainID wk) wallet c" and ?handler = "Deployer_handleDelivery E wk"
  let ?addr = "TrimSpace (CampaignDeploymentResult.cr_ContractAddress r)" and ?s = "sy_consumer y"
  let ?c = "activated i ?addr c"
  let ?d = "(dbOf y)\<lparr>blockchain_events := blockchain_events (dbOf y) @ [storedEvent E (deploymentEvent i r)],
    campaigns := update_where (\<lambda>x. c_ID x = c_ID c) (activated i ?addr) (campaigns (dbOf y))\<rparr>"
  have ok: "db_ok (dbOf y)" using y(2) by (simp add: app_ok_def)
  have "\<not> campaignAlreadyDeployed c"
    using y(2) c(1,2) by (simp add: app_ok_def pending_ok_def campaignAlreadyDeployed_def)
  note handled = pending_delivery [OF ok c(1,2) this c(3) E dep fits]
  have world: "cn_world ?s = (dbOf y, snd (cn_world ?s))" using y(1) by (simp add: sharesDatabase_def prod_eq_iff)
  with handled have handled': "handleDelivery ?handler ?m (cn_world ?s) = ((?d, ch'), Ack)" by metis
  let ?s' = "?s\<lparr>cn_world := (?d, ch'), cn_settled := cn_settled ?s @ [(?m, Ack)]\<rparr>"
  let ?y' = "y\<lparr>sy_server := withDatabase ?d (sy_server y), sy_consumer := ?s'\<rparr>"
  have run: "Run B ?handler (CvDelivery ?m) ?s = Some ?s'" by (rule consuming_step [OF y(3) handled'])
  have step: "systemStep L B cfg a wk y ?y'" using systemStep.consume [OF consumerStep.run [OF run]] by simp
  have new: "?c \<in> set (campaigns (dbOf ?y'))" using c(1) by (auto simp: set_update_where withDatabase_def)
  have page: "\<exists>page. HandleGetPublicCampaignDetail E' h hs q (dbOf y'')
        = WriteSuccess (noStore hs) 200 ''CAMPAIGN_RETRIEVED'' ''Campaign retrieved successfully.'' (PublicCampaign page)
      \<and> pcd_ID page = c_ID c \<and> pcd_Title page = c_Title c \<and> pcd_GoalAmount page = c_GoalAmount c
      \<and> pcd_ContractAddress page = ?addr \<and> pcd_Status page = CampaignStatusActive"
    if later: "(systemStep L B cfg a wk)\<^sup>*\<^sup>* ?y' y''" and q: "fault E' = (\<lambda>_. None)" "TrimSpace (rq_URLParam q ''address'') = ?addr"
      and fresh: "\<forall>c'\<in>set (campaigns (dbOf y'')). map_option (sql_Lower E') (c_ContractAddress c') = Some (sql_Lower E' ?addr)
        \<longrightarrow> c_ID c' = c_ID c"
    for y'' E' q h hs
  proof -
    from systemStep_advance [OF step y(1) a y(2)] have y': "sharesDatabase ?y'" "app_ok (dbOf ?y')" by simp_all
    from systemSteps_advance [OF later y'(1) a y'(2)] have app: "app_ok (dbOf y'')" and rows: "rowsAdvance (dbOf ?y') (dbOf y'')"
      by simp_all
    from rows new obtain c'' where c'': "c'' \<in> set (campaigns (dbOf y''))" "advanced ?c c''" unfolding rowsAdvance_def by blast
    then have "c'' = ?c" by (simp add: advanced_def activated_def)
    with c''(1) have "?c \<in> set (campaigns (dbOf y''))" by simp
    from active_page [OF app this _ _ _ q(1,2), of h hs] fresh show ?thesis by (simp add: activated_def)
  qed
  show ?thesis
  proof (intro exI [of _ ?y'] conjI allI impI)
    show "Run B ?handler (CvDelivery ?m) ?s = Some (sy_consumer ?y')" using run by simp
    show "systemStep L B cfg a wk y ?y'" by (rule step)
    show "cn_settled (sy_consumer ?y') = cn_settled ?s @ [(?m, Ack)]" by simp
  qed (elim conjE, rule page)
qed

section \<open>From the request to the queue\<close>

text \<open>The campaign service of a started API publishes through the queue.\<close>

lemma New_campaigns:
  assumes "New E S A cfg b = (h, b', Inr a)"
  shows "ch_service (ap_CampaignHandler a) = \<lparr>svc_objectPromoter = Some (bucketOf cfg),
    svc_deploymentPublisher = Some (PublishCampaignDeployment E (Some A)), svc_chainID = cf_SIWEChainID cfg\<rparr>"
proof -
  from assms obtain jwt url put del prom g where
    clients: "connectClients E S A cfg (wire E S A cfg jwt url put del prom) g b = (h, b', Inr a)"
    by (auto simp: New_def Let_def failNew_def split: prod.splits sum.splits)
  from connectClients_app [OF clients] obtain c where "a = wire E S A cfg jwt url put del prom c" by blast
  with New_promoter [OF assms] show ?thesis by (simp add: wire_def constructors Let_def promoterOf_def)
qed

lemma topology_texts: "TrimSpace (t_Exchange CampaignDeploymentTopology) = campaignDeploymentExchange"
  "TrimSpace (t_BindingKey CampaignDeploymentTopology) = campaignDeploymentRoutingKey"
  by code_simp+

lemma PublishCampaignDeployment_confirmed:
  assumes "PublishCampaignDeployment E (Some A) task b = (b', Inr ())"
  shows "\<exists>p b1. PublishWait A campaignDeploymentExchange campaignDeploymentRoutingKey p b1 = (b', Inr (Some True))
    \<and> pub_DeliveryMode p = Persistent \<and> pub_Body p = campaignDeploymentBody E task"
proof -
  from assms obtain b1 where "Publish (Some A)
      \<lparr>m_Exchange = t_Exchange CampaignDeploymentTopology, m_RoutingKey = t_BindingKey CampaignDeploymentTopology,
       m_Body = Some (campaignDeploymentBody E task), m_ContentType = ''application/json'', m_Persistent = True\<rparr> b1 = (b', Inr ())"
    by (auto simp: PublishCampaignDeployment_def split: prod.splits sum.splits)
  from Publish_confirmed [OF this] show ?thesis by (auto simp: topology_texts)
qed

text \<open>(C6) From the request to the queue. When the started API answers a creation with 201, the caller is a
  fundraiser and the campaign of the answer is stored; while it waits for its contract, the last thing that
  happened to the broker is that it confirmed, on the deployment exchange and routing key, a persistent message.
  A consumer decodes the body of that message to the campaign's task on the configured chain, with the end cut
  to the second, if the end lies in the years 0 to 9999 of UTC, and rejects it for its end otherwise. Besides the
  documented behaviour of \<open>google/uuid\<close>, \<open>time\<close> and PostgreSQL the hypotheses are that the chain fits its 64-bit field
  and that the wallet of the token is valid UTF-8.\<close>

theorem created_campaign_is_queued:
  assumes new: "New E S A cfg b0 = (h, b1, Inr a)"
    and run: "HandleCreateCampaign L E' (ap_CampaignHandler a) hs r w = (w', resp)" and status: "hr_Status resp = 201"
    and laws: "uuid_laws E" "layout_laws E" "timestamp_laws E'"
    and types: "in_int64 (cf_SIWEChainID cfg)" "\<forall>wallet role. callerWallet r = Some (wallet, role) \<longrightarrow> ValidString wallet"
  shows "\<exists>c wallet en. callerWallet r = Some (wallet, UserRoleFundraiser) \<and> hr_Envelope resp = Some en
    \<and> en_Data en = Some (CreatedCampaign (createdCampaign E' (ch_urlBuilder (ap_CampaignHandler a)) c))
    \<and> c \<in> set (campaigns (database w'))
    \<and> (needsCampaignDeployment c \<longrightarrow>
        (\<exists>p b. PublishWait A campaignDeploymentExchange campaignDeploymentRoutingKey p b = (broker w', Inr (Some True))
          \<and> pub_DeliveryMode p = Persistent
          \<and> DecodeCampaignDeploymentMessage E (pub_Body p)
              = (if four_digit_year (c_EndAt c)
                 then Inr (deploymentTask (cf_SIWEChainID cfg) wallet (c\<lparr>c_EndAt := Truncate Second (c_EndAt c)\<rparr>))
                 else Inl (Errorf ''app: decode campaign deployment endAt''))))"
proof -
  have svc: "svc_objectPromoter (ch_service (ap_CampaignHandler a)) = Some (bucketOf cfg)"
    by (simp add: New_campaigns [OF new])
  from HandleCreateCampaign_stored [OF run status svc laws(3)] obtain wallet q c en where
    wallet: "callerWallet r = Some (wallet, UserRoleFundraiser)" "hr_Envelope resp = Some en"
      "en_Data en = Some (CreatedCampaign (createdCampaign E' (ch_urlBuilder (ap_CampaignHandler a)) c))"
      "c \<in> set (campaigns (database w'))"
    and goal: "ReadJSON L r createCampaignFields zeroCreateCampaignRequest oneMiB = Inr q" "0 < c_GoalAmount c"
      "c_GoalAmount c = cq_GoalAmount q"
    and published: "needsCampaignDeployment c \<longrightarrow>
        (\<exists>publish. svc_deploymentPublisher (ch_service (ap_CampaignHandler a)) = Some publish
          \<and> 0 < svc_chainID (ch_service (ap_CampaignHandler a))
          \<and> publish (deploymentTask (svc_chainID (ch_service (ap_CampaignHandler a))) wallet c) (broker w) = (broker w', Inr ()))"
    by (elim exE conjE) (rule that)
  then have sent: "0 < cf_SIWEChainID cfg"
    "PublishCampaignDeployment E (Some A) (deploymentTask (cf_SIWEChainID cfg) wallet c) (broker w) = (broker w', Inr ())"
    if "needsCampaignDeployment c"
    using that by (auto simp: New_campaigns [OF new])
  let ?task = "deploymentTask (cf_SIWEChainID cfg) wallet c"
  have "\<exists>p b. PublishWait A campaignDeploymentExchange campaignDeploymentRoutingKey p b = (broker w', Inr (Some True))
      \<and> pub_DeliveryMode p = Persistent
      \<and> DecodeCampaignDeploymentMessage E (pub_Body p)
          = (if four_digit_year (c_EndAt c)
             then Inr (deploymentTask (cf_SIWEChainID cfg) wallet (c\<lparr>c_EndAt := Truncate Second (c_EndAt c)\<rparr>))
             else Inl (Errorf ''app: decode campaign deployment endAt''))"
    if "needsCampaignDeployment c"
  proof -
    have "TrimSpace wallet = wallet" "wallet \<noteq> []" "ValidString wallet"
      using wallet(1) types(2) by (auto simp: callerWallet_def split: option.splits if_splits)
    with goal(2,3) sent(1) [OF that] types(1) ReadJSON_goal [OF goal(1)] have "wellFormedTask ?task"
      by (simp add: wellFormedTask_def deploymentTask_def)
    from decode_body_exact [OF laws(1,2) this] PublishCampaignDeployment_confirmed [OF sent(2) [OF that]]
    show ?thesis by (auto simp: deploymentTask_def)
  qed
  with wallet show ?thesis by blast
qed

section \<open>Witnesses\<close>

text \<open>A system whose database holds one active and one pending campaign, with the consumer in its delivery loop.\<close>

definition demo_system :: "((string \<times> string \<times> string) list \<times> (string \<times> string) list, nat) system" where
  "demo_system =
     \<lparr>sy_server = \<lparr>sv_world = \<lparr>database = demo_db, objects = Map.empty, broker = ([], [])\<rparr>, sv_cache = Map.empty\<rparr>,
      sy_consumer = \<lparr>cn_client = demo_client, cn_consumer = \<lparr>cs_queue = ''q'', cs_tag = [], cs_prefetch = 1, cs_topology = None\<rparr>,
        cn_notify = 0, cn_running = True, cn_pc = Consuming 0, cn_ctx = None, cn_broker = ([], []), cn_world = (demo_db, 0),
        cn_settled = []\<rparr>\<rparr>"

lemma demo_system_ok: "sharesDatabase demo_system" "app_ok (dbOf demo_system)" "dbOf demo_system = demo_db"
  "cn_pc (sy_consumer demo_system) = Consuming 0" "cn_world (sy_consumer demo_system) = (demo_db, 0)"
  using demo_app_ok by (simp_all add: demo_system_def sharesDatabase_def)

text \<open>The message of the active campaign is delivered again.\<close>

theorem campaign_rows_immutable_witness:
  "\<exists>a y'. promoterOf a (bucketOf demo_config) \<and> systemStep demo_libs demo_calls demo_config a demo_worker demo_system y'
     \<and> length (cn_settled (sy_consumer y')) = 1 \<and> (\<exists>c'\<in>set (campaigns (dbOf y')). c_ID c' = c_ID demo_campaign \<and> c' = demo_campaign)"
proof -
  from demo_starts obtain h b and a :: "((string \<times> string \<times> string) list \<times> (string \<times> string) list) Application"
    where "New demo_env demo_boot demo_amqp demo_config ([], []) = (h, b, Inr a)" by blast
  then have p: "promoterOf a (bucketOf demo_config)" by (rule New_promoter)
  let ?m = "campaignDelivery demo_env 97 ''0xAb'' demo_campaign"
  have "handleDelivery (Deployer_handleDelivery demo_env demo_worker) ?m (cn_world (sy_consumer demo_system)) = ((demo_db, 0), Ack)"
    by (simp add: demo_system_ok demo_delivery)
  from consuming_step [OF demo_system_ok(4) this, of demo_calls] obtain s where
    run: "Run demo_calls (Deployer_handleDelivery demo_env demo_worker) (CvDelivery ?m) (sy_consumer demo_system) = Some s"
    and settled: "length (cn_settled s) = 1" by (auto simp: demo_system_def)
  from systemStep.consume [OF consumerStep.run [OF run]]
  obtain y' where step: "systemStep demo_libs demo_calls demo_config a demo_worker demo_system y'" and s: "sy_consumer y' = s" by fastforce
  have "demo_campaign \<in> set (campaigns (dbOf demo_system))" "c_Status demo_campaign \<noteq> CampaignStatusPending"
    by (simp_all add: demo_system_ok demo_db_def demo_campaign_def)
  with campaign_rows_immutable [OF r_into_rtranclp [of "systemStep demo_libs demo_calls demo_config a demo_worker", OF step] demo_system_ok(1) p demo_system_ok(2)] p step s settled
  show ?thesis by blast
qed

theorem delivered_campaign_is_public_witness:
  "\<exists>a. \<exists>y' :: ((string \<times> string \<times> string) list \<times> (string \<times> string) list, nat) system. \<exists>page.
     systemStep demo_libs demo_calls demo_config a demo_worker demo_system y'
     \<and> HandleGetPublicCampaignDetail demo_env \<lparr>ch_service = demo_service True, ch_urlBuilder = \<lparr>baseURL = ''https://cdn''\<rparr>\<rparr> []
       ((demo_post [])\<lparr>rq_URLParam := (\<lambda>_. ''0xC2'')\<rparr>) (dbOf y')
     = WriteSuccess (noStore []) 200 ''CAMPAIGN_RETRIEVED'' ''Campaign retrieved successfully.'' (PublicCampaign page)
     \<and> pcd_ID page = c_ID demo_pending \<and> pcd_Status page = CampaignStatusActive"
proof -
  from demo_starts obtain h b and a :: "((string \<times> string \<times> string) list \<times> (string \<times> string) list) Application"
    where "New demo_env demo_boot demo_amqp demo_config ([], []) = (h, b, Inr a)" by blast
  then have p: "promoterOf a (bucketOf demo_config)" by (rule New_promoter)
  have trim: "TrimSpace ''0xC2'' = ''0xC2''" "TrimSpace ''0x03'' = ''0x03''"
    "RuneCountInString ''0xC2'' \<le> 255" "RuneCountInString ''0x03'' \<le> 255" by code_simp+
  have fits: "eventAccepted (deploymentEvent 7 demo_result) (CampaignDeploymentResult.cr_ContractAddress demo_result)"
    "eventFits (deploymentEvent 7 demo_result) (CampaignDeploymentResult.cr_ContractAddress demo_result) (dbOf demo_system)"
    by (simp_all add: demo_system_ok eventAccepted_def eventFits_def deploymentEvent_def demo_result_def trim int4_def demo_db_def
        demo_campaign_def demo_pending_def)
  have c: "demo_pending \<in> set (campaigns (dbOf demo_system))" using demo_pending_facts(1) by (simp add: demo_system_ok)
  have dep: "wk_deployer demo_worker = Some (\<lambda>p n. (Suc n, Inr demo_result))" "wk_chainID demo_worker = 97"
    by (simp_all add: demo_worker_def)
  have address: "TrimSpace (CampaignDeploymentResult.cr_ContractAddress demo_result) = ''0xC2''" by (simp add: demo_result_def trim)
  let ?q = "(demo_post [])\<lparr>rq_URLParam := (\<lambda>_. ''0xC2'')\<rparr>"
    and ?h = "\<lparr>ch_service = demo_service True, ch_urlBuilder = \<lparr>baseURL = ''https://cdn''\<rparr>\<rparr>"
    and ?m = "campaignDelivery demo_env 97 ''0xAb'' demo_pending"
  note public = delivered_campaign_is_public [OF demo_system_ok(1,2,4) p c demo_pending_facts(2,4) demo_uuid_laws
      demo_decodable(2) [folded dep(2)] demo_env_sel(1,2) dep(1) refl fits, of demo_calls demo_libs, unfolded address dep(2)]
  from public obtain y' where run: "Run demo_calls (Deployer_handleDelivery demo_env demo_worker) (CvDelivery ?m) (sy_consumer demo_system)
        = Some (sy_consumer y')"
    and step: "systemStep demo_libs demo_calls demo_config a demo_worker demo_system y'"
    and page: "\<And>y'' E' q (h :: CampaignDeploymentTask list CampaignHandler) hs. (systemStep demo_libs demo_calls demo_config a demo_worker)\<^sup>*\<^sup>* y' y'' \<Longrightarrow> fault E' = (\<lambda>_. None)
      \<Longrightarrow> TrimSpace (rq_URLParam q ''address'') = ''0xC2''
      \<Longrightarrow> \<forall>c'\<in>set (campaigns (dbOf y'')). map_option (sql_Lower E') (c_ContractAddress c') = Some (sql_Lower E' ''0xC2'')
            \<longrightarrow> c_ID c' = c_ID demo_pending
      \<Longrightarrow> \<exists>page. HandleGetPublicCampaignDetail E' h hs q (dbOf y'')
          = WriteSuccess (noStore hs) 200 ''CAMPAIGN_RETRIEVED'' ''Campaign retrieved successfully.'' (PublicCampaign page)
        \<and> pcd_ID page = c_ID demo_pending \<and> pcd_Status page = CampaignStatusActive"
    by (elim exE conjE) (rule that, assumption, assumption, blast)
  have share: "sharesDatabase y'" using systemStep_advance [OF step demo_system_ok(1) p demo_system_ok(2)] by simp
  note handled = demo_deploys [folded demo_system_ok(5)]
  from consuming_step [OF demo_system_ok(4) handled, of demo_calls] run
  have "cn_world (sy_consumer y') = fst (handleDelivery (Deployer_handleDelivery demo_env demo_worker) ?m (demo_db, 0))"
    unfolding demo_deploys by fastforce
  with share have db: "dbOf y' = fst (fst (handleDelivery (Deployer_handleDelivery demo_env demo_worker) ?m (demo_db, 0)))"
    by (simp add: sharesDatabase_def)
  have "\<forall>c'\<in>set (campaigns (dbOf y')). map_option (sql_Lower demo_env) (c_ContractAddress c') = Some (sql_Lower demo_env ''0xC2'')
      \<longrightarrow> c_ID c' = c_ID demo_pending"
    unfolding db demo_deploys
    by (simp add: demo_db_def update_where_def demo_campaign_def demo_pending_def lower_byte_hex activated_def)
  from page [OF rtranclp.rtrancl_refl _ _ this, of ?q ?h "[]"] step trim(1) show ?thesis by auto
qed

theorem created_campaign_is_queued_witness:
  "\<exists>(a :: ((string \<times> string \<times> string) list \<times> (string \<times> string) list) Application) w' resp.
     HandleCreateCampaign demo_http demo_env (ap_CampaignHandler a) [] (demo_post [])
       \<lparr>database = demo_db, objects = [(''h'', demo_staging) \<mapsto> ''png''], broker = ([], [])\<rparr> = (w', resp)
     \<and> hr_Status resp = 201 \<and> demo_created \<in> set (campaigns (database w'))
     \<and> (\<exists>p b. PublishWait demo_amqp campaignDeploymentExchange campaignDeploymentRoutingKey p b = (broker w', Inr (Some True))
          \<and> pub_DeliveryMode p = Persistent)"
proof -
  from demo_starts obtain h b and a :: "((string \<times> string \<times> string) list \<times> (string \<times> string) list) Application"
    where new: "New demo_env demo_boot demo_amqp demo_config ([], []) = (h, b, Inr a)" by blast
  let ?svc = "ch_service (ap_CampaignHandler a)"
  have bucket: "bucketOf demo_config = \<lparr>op_bucket = ''h''\<rparr>" by (simp add: bucketOf_def demo_config_def demo_trims)
  obtain bk where "DeclareOn (Some demo_amqp) CampaignDeploymentTopology ([], []) = (bk, Inr ())" using demo_declared by blast
  then obtain bk' where "PublishCampaignDeployment demo_env (Some demo_amqp) (deploymentTask 97 ''0xAB'' demo_created) ([], [])
      = (bk', Inr ())"
    by (cases bk) (simp add: PublishCampaignDeployment_def Publish_def demo_amqp_def Let_def topology_texts campaignDeploymentRoutingKey_def)
  then have "publishCampaignDeployment ?svc ''0xAB'' demo_created ([], []) = (bk', Inr ())"
    by (simp add: publishCampaignDeployment_def demo_needs New_campaigns [OF new] demo_config_def)
  from demo_create_with [OF _ this] New_campaigns [OF new] bucket
  have created: "Create demo_env ?svc demo_input \<lparr>database = demo_db, objects = [(''h'', demo_staging) \<mapsto> ''png''], broker = ([], [])\<rparr> =
    (\<lparr>database = demo_db\<lparr>campaigns := [demo_campaign, demo_pending, demo_created]\<rparr>, objects = [(''h'', demo_key) \<mapsto> ''png''], broker = bk'\<rparr>,
     Inr demo_created)" by simp
  have handler: "\<lparr>ch_service = ?svc, ch_urlBuilder = ch_urlBuilder (ap_CampaignHandler a)\<rparr> = ap_CampaignHandler a" by simp
  from demo_post_with [OF created, of "ch_urlBuilder (ap_CampaignHandler a)" "[]" "[]", unfolded handler]
  obtain w' resp where run: "HandleCreateCampaign demo_http demo_env (ap_CampaignHandler a) [] (demo_post [])
       \<lparr>database = demo_db, objects = [(''h'', demo_staging) \<mapsto> ''png''], broker = ([], [])\<rparr> = (w', resp)"
    and r: "hr_Status resp = 201" "demo_created \<in> set (campaigns (database w'))"
      "hr_Envelope resp = Some \<lparr>en_Success = True, en_Code = ''CAMPAIGN_CREATED'', en_Message = ''Campaign created successfully.'',
        en_Data = Some (CreatedCampaign (createdCampaign demo_env (ch_urlBuilder (ap_CampaignHandler a)) demo_created)),
        en_Pagination = None, en_Errors = []\<rparr>"
    by (simp add: WriteSuccess_def)
  have types: "in_int64 (cf_SIWEChainID demo_config)"
    "\<forall>wallet role. callerWallet (demo_post []) = Some (wallet, role) \<longrightarrow> ValidString wallet"
  proof -
    show "in_int64 (cf_SIWEChainID demo_config)" by (simp add: demo_config_def in_int64_def MinInt64_def MaxInt64_def)
    have "ValidString ''0xAB''" by code_simp
    then show "\<forall>wallet role. callerWallet (demo_post []) = Some (wallet, role) \<longrightarrow> ValidString wallet"
      by (simp add: callerWallet_def PrincipalFromContext_def demo_post_def demo_texts)
  qed
  from created_campaign_is_queued [OF new run r(1) demo_uuid_laws demo_layout_laws demo_timestamp_laws types] r(3) obtain c where
    c: "createdCampaign demo_env (ch_urlBuilder (ap_CampaignHandler a)) c
        = createdCampaign demo_env (ch_urlBuilder (ap_CampaignHandler a)) demo_created"
    and sent: "needsCampaignDeployment c \<longrightarrow> (\<exists>p b.
      PublishWait demo_amqp campaignDeploymentExchange campaignDeploymentRoutingKey p b = (broker w', Inr (Some True))
      \<and> pub_DeliveryMode p = Persistent)" by auto
  have "needsCampaignDeployment c" using c demo_needs by (simp add: createdCampaign_def needsCampaignDeployment_def split: if_splits)
  with sent run r(1,2) show ?thesis by blast
qed

end
