(* ===== verification/Programs.thy ===== *)
theory Programs
  imports Application
begin

text \<open>
  The services as programs. A call of a service is a sequence of calls of the database, the object store, the
  broker and the chain, and what the code computes in between; a transaction of the database is one such call.
  A program (\<open>prog\<close>) is the tree of these calls: each action reads and changes the shared state and goes on
  with its answer. Run with nothing in between, the program of a service does what the sequential definition of
  the service does; \<open>Interleaving\<close> runs programs next to each other.
\<close>

section \<open>Programs\<close>

datatype ('s, 'r) prog =
    Done 'r
  | Act "'s \<Rightarrow> 's \<times> ('s, 'r) prog"

primrec runAlone :: "('s, 'r) prog \<Rightarrow> 's \<Rightarrow> 's \<times> 'r" where
  "runAlone (Done r) = (\<lambda>s. (s, r))"
| "runAlone (Act f) = (\<lambda>s. case map_prod id runAlone (f s) of (s', k) \<Rightarrow> k s')"

lemma runAlone_Act: "runAlone (Act f) s = runAlone (snd (f s)) (fst (f s))"
  by (simp add: split_def)

declare runAlone.simps(2) [simp del]

lemma prog_induct [case_names Done Act]:
  assumes "\<And>r. P (Done r)" and "\<And>f. (\<And>s. P (snd (f s))) \<Longrightarrow> P (Act f)"
  shows "P p"
proof (induction p)
  case (Act f)
  have "P (snd (f s))" for s by (rule Act [of "f s"]) (simp_all add: snds.simps prod_set_defs)
  then show ?case by (rule assms(2))
qed (rule assms(1))

lemma map_prog_Act: "map_prog g (Act f) = Act (\<lambda>s. (fst (f s), map_prog g (snd (f s))))"
  by (simp add: fun_eq_iff map_prod_def split_def)

declare prog.map(2) [simp del]

lemma runAlone_map: "runAlone (map_prog g p) s = (case runAlone p s of (s', r) \<Rightarrow> (s', g r))"
  by (induction p arbitrary: s rule: prog_induct) (simp_all add: map_prog_Act runAlone_Act split_def)

text \<open>The actions: one call on one part of the shared state, and how the program goes on with its answer.\<close>

type_synonym ('b, 'c) shared = "'b world \<times> 'c"

definition onObjects :: "(store \<Rightarrow> store \<times> 'x) \<Rightarrow> ('x \<Rightarrow> (('b, 'c) shared, 'r) prog) \<Rightarrow> (('b, 'c) shared, 'r) prog" where
  "onObjects f k = Act (\<lambda>(w, c). case f (objects w) of (st, x) \<Rightarrow> ((w\<lparr>objects := st\<rparr>, c), k x))"

definition onDatabase :: "(db \<Rightarrow> db \<times> 'x) \<Rightarrow> ('x \<Rightarrow> (('b, 'c) shared, 'r) prog) \<Rightarrow> (('b, 'c) shared, 'r) prog" where
  "onDatabase f k = Act (\<lambda>(w, c). case f (database w) of (d, x) \<Rightarrow> ((w\<lparr>database := d\<rparr>, c), k x))"

definition onBroker :: "('b \<Rightarrow> 'b \<times> 'x) \<Rightarrow> ('x \<Rightarrow> (('b, 'c) shared, 'r) prog) \<Rightarrow> (('b, 'c) shared, 'r) prog" where
  "onBroker f k = Act (\<lambda>(w, c). case f (broker w) of (b, x) \<Rightarrow> ((w\<lparr>broker := b\<rparr>, c), k x))"

definition onChain :: "('c \<Rightarrow> 'c \<times> 'x) \<Rightarrow> ('x \<Rightarrow> (('b, 'c) shared, 'r) prog) \<Rightarrow> (('b, 'c) shared, 'r) prog" where
  "onChain f k = Act (\<lambda>(w, c). case f c of (c', x) \<Rightarrow> ((w, c'), k x))"

lemma runAlone_actions [simp]:
  "runAlone (onObjects f k) (w, c) = (case f (objects w) of (st, x) \<Rightarrow> runAlone (k x) (w\<lparr>objects := st\<rparr>, c))"
  "runAlone (onDatabase g l) (w, c) = (case g (database w) of (d, y) \<Rightarrow> runAlone (l y) (w\<lparr>database := d\<rparr>, c))"
  "runAlone (onBroker h m) (w, c) = (case h (broker w) of (b, z) \<Rightarrow> runAlone (m z) (w\<lparr>broker := b\<rparr>, c))"
  "runAlone (onChain i n) (w, c) = (case i c of (c', u) \<Rightarrow> runAlone (n u) (w, c'))"
  by (simp_all add: onObjects_def onDatabase_def onBroker_def onChain_def runAlone_Act split_def)

section \<open>The services as programs\<close>

text \<open>\<open>Promote\<close>: \<open>StatObject\<close>, then \<open>CopyObject\<close>.\<close>

definition PromoteProg :: "env \<Rightarrow> ObjectPromoter \<Rightarrow> string \<Rightarrow> string \<Rightarrow> (unit result \<Rightarrow> (('b, 'c) shared, 'r) prog)
    \<Rightarrow> (('b, 'c) shared, 'r) prog" where
  "PromoteProg E p sourceKey destKey k =
     (let source = TrimSpace sourceKey; dest = TrimSpace destKey in
      if source = [] \<or> dest = [] then k (Inl (Errorf ''storage: object key is required''))
      else if source = dest then k (Inl (Errorf ''storage: source and destination must differ''))
      else onObjects (\<lambda>st. (st, StatObject E (op_bucket p) dest st)) (\<lambda>r.
        case r of
          Inr _ \<Rightarrow> k (Inr ())
        | Inl e \<Rightarrow>
            (if \<not> isObjectNotFound e then k (Inl (Wrap ''storage: stat destination object'' e))
             else onObjects (CopyObject E (op_bucket p) dest source) (\<lambda>r.
               case r of
                 Inl e' \<Rightarrow>
                   k (Inl (if isObjectNotFound e' then Wrap ''storage: copy object'' (Sentinel storage_ErrObjectNotFound)
                           else Wrap ''storage: copy object'' e'))
               | Inr _ \<Rightarrow> k (Inr ())))))"

lemma PromoteProg_alone [simp]:
  "runAlone (PromoteProg E p src dst k) (w, c) = (case Promote E p src dst (objects w) of (st, r) \<Rightarrow> runAlone (k r) (w\<lparr>objects := st\<rparr>, c))"
  by (auto simp: PromoteProg_def Promote_def Let_def split: prod.splits sum.splits)

definition promoteImageProg :: "env \<Rightarrow> ObjectPromoter option \<Rightarrow> string \<Rightarrow> string \<Rightarrow> (string result \<Rightarrow> (('b, 'c) shared, 'r) prog)
    \<Rightarrow> (('b, 'c) shared, 'r) prog" where
  "promoteImageProg E promoter stagingKey directory k =
     (case CanonicalImageObjectKey E stagingKey directory of
        Inl e \<Rightarrow> k (Inl e)
      | Inr canonical \<Rightarrow>
          (case promoter of
             None \<Rightarrow> k (Inr canonical)
           | Some p \<Rightarrow>
               PromoteProg E p (TrimSpace stagingKey) canonical (\<lambda>r.
                 case r of
                   Inl e \<Rightarrow>
                     k (Inl (if errors_Is e storage_ErrObjectNotFound then Sentinel service_ErrImageObjectNotFound
                             else Wrap ''service: promote image object'' e))
                 | Inr _ \<Rightarrow> k (Inr canonical))))"

lemma promoteImageProg_alone [simp]:
  "runAlone (promoteImageProg E promoter key dir k) (w, c)
    = (case promoteImageObjectKey E promoter key dir (objects w) of (st, r) \<Rightarrow> runAlone (k r) (w\<lparr>objects := st\<rparr>, c))"
  by (auto simp: promoteImageProg_def promoteImageObjectKey_def split: prod.splits sum.splits option.splits)

definition promoteOptionalProg :: "env \<Rightarrow> ObjectPromoter option \<Rightarrow> string option \<Rightarrow> string
    \<Rightarrow> (string option result \<Rightarrow> (('b, 'c) shared, 'r) prog) \<Rightarrow> (('b, 'c) shared, 'r) prog" where
  "promoteOptionalProg E promoter stagingKey directory k =
     (case normalizeOptionalString stagingKey of
        None \<Rightarrow> k (Inr None)
      | Some normalized \<Rightarrow>
          promoteImageProg E promoter normalized directory (\<lambda>r. k (case r of Inl e \<Rightarrow> Inl e | Inr canonical \<Rightarrow> Inr (Some canonical))))"

lemma promoteOptionalProg_alone [simp]:
  "runAlone (promoteOptionalProg E promoter key dir k) (w, c)
    = (case promoteOptionalImageObjectKey E promoter key dir (objects w) of (st, r) \<Rightarrow> runAlone (k r) (w\<lparr>objects := st\<rparr>, c))"
  by (auto simp: promoteOptionalProg_def promoteOptionalImageObjectKey_def split: prod.splits sum.splits option.splits)

definition discardProg :: "env \<Rightarrow> ObjectPromoter option \<Rightarrow> string option \<Rightarrow> (('b, 'c) shared, 'r) prog \<Rightarrow> (('b, 'c) shared, 'r) prog" where
  "discardProg E promoter stagingKey p = onObjects (\<lambda>st. (discardStagingImage E promoter stagingKey st, ())) (\<lambda>_. p)"

definition cleanupProg :: "env \<Rightarrow> ProfileService \<Rightarrow> bool \<Rightarrow> string option \<Rightarrow> (('b, 'c) shared, 'r) prog \<Rightarrow> (('b, 'c) shared, 'r) prog" where
  "cleanupProg E svc wanted objectKey p = onObjects (\<lambda>st. (deleteUnreferenced E svc wanted objectKey st, ())) (\<lambda>_. p)"

definition registerProg :: "env \<Rightarrow> ProfileService \<Rightarrow> string \<Rightarrow> (err \<Rightarrow> err) \<Rightarrow> ('p \<Rightarrow> db \<Rightarrow> db \<times> 'p result)
    \<Rightarrow> (uuid \<Rightarrow> string option \<Rightarrow> 'p) \<Rightarrow> string option \<Rightarrow> (('b, 'c) shared, 'p result) prog" where
  "registerProg E svc idMessage mapError create profile imageKey =
     (case generateID E of
        Inl e \<Rightarrow> Done (Inl (Wrap idMessage e))
      | Inr i \<Rightarrow>
          (let stagingKey = normalizeOptionalString imageKey
           in promoteOptionalProg E (ps_objectPromoter svc) stagingKey ProfileImageDirectory (\<lambda>r.
                case r of
                  Inl e \<Rightarrow> Done (Inl e)
                | Inr imageObjectKey \<Rightarrow>
                    onDatabase (create (profile i imageObjectKey)) (\<lambda>r.
                      case r of
                        Inl e \<Rightarrow> Done (Inl (mapError e))
                      | Inr created \<Rightarrow> discardProg E (ps_objectPromoter svc) stagingKey (Done (Inr created))))))"

definition replaceProg :: "env \<Rightarrow> ProfileService \<Rightarrow> string \<Rightarrow> (string \<Rightarrow> 'q \<Rightarrow> db \<Rightarrow> db \<times> ReplaceProfileResult option result)
    \<Rightarrow> ('q \<Rightarrow> ImageObjectKeyUpdate) \<Rightarrow> (ImageObjectKeyUpdate \<Rightarrow> 'q \<Rightarrow> 'q) \<Rightarrow> string \<Rightarrow> 'q \<Rightarrow> (('b, 'c) shared, unit result) prog" where
  "replaceProg E svc message repoReplace upd setUpd walletAddress profile =
     (let store = (\<lambda>profile'.
        onDatabase (repoReplace (TrimSpace walletAddress) profile') (\<lambda>r.
          case r of
            Inl e \<Rightarrow> Done (Inl (replaceError message e))
          | Inr None \<Rightarrow> Done (Inl (Sentinel service_ErrProfileNotFound))
          | Inr (Some x) \<Rightarrow>
              discardProg E (ps_objectPromoter svc) (stagedKey (upd profile))
                (cleanupProg E svc (DeleteOldImageFile x) (OldImageObjectKey x) (Done (Inr ())))))
      in case stagedKey (upd profile) of
           None \<Rightarrow> store profile
         | Some k \<Rightarrow>
             promoteImageProg E (ps_objectPromoter svc) k ProfileImageDirectory (\<lambda>r.
               case r of
                 Inl e \<Rightarrow> Done (Inl e)
               | Inr canonical \<Rightarrow> store (setUpd ((upd profile)\<lparr>iu_Value := Some canonical\<rparr>) profile)))"

definition deleteProg :: "env \<Rightarrow> ProfileService \<Rightarrow> (err \<Rightarrow> err) \<Rightarrow> (string \<Rightarrow> db \<Rightarrow> db \<times> DeleteProfileResult option result) \<Rightarrow> string
    \<Rightarrow> (('b, 'c) shared, unit result) prog" where
  "deleteProg E svc mapError repoDelete walletAddress =
     onDatabase (repoDelete (TrimSpace walletAddress)) (\<lambda>r.
       case r of
         Inl e \<Rightarrow> Done (Inl (mapError e))
       | Inr None \<Rightarrow> Done (Inl (Sentinel service_ErrProfileNotFound))
       | Inr (Some x) \<Rightarrow> cleanupProg E svc (DeleteImageObjectFile x) (ImageObjectKey x) (Done (Inr ())))"

definition createProg :: "env \<Rightarrow> 'b CampaignService \<Rightarrow> CreateCampaignInput \<Rightarrow> (('b, 'c) shared, Campaign result) prog" where
  "createProg E svc input =
     (case generateID E of
        Inl e \<Rightarrow> Done (Inl (Wrap ''service: generate campaign ID'' e))
      | Inr i \<Rightarrow>
          (let stagingKey = TrimSpace (ci_ImageObjectKey input)
           in promoteImageProg E (svc_objectPromoter svc) stagingKey CampaignImageDirectory (\<lambda>r.
                case r of
                  Inl e \<Rightarrow> Done (Inl e)
                | Inr imageObjectKey \<Rightarrow>
                    onDatabase (CreatePending E (TrimSpace (ci_WalletAddress input)) (newCampaign i input imageObjectKey)
                        (time_Now E + CampaignDeploymentLeadTime)) (\<lambda>r.
                      case r of
                        Inl e \<Rightarrow> Done (Inl (createError e))
                      | Inr created \<Rightarrow>
                          discardProg E (svc_objectPromoter svc) (Some stagingKey)
                            (onBroker (publishCampaignDeployment svc (TrimSpace (ci_WalletAddress input)) created) (\<lambda>r.
                               Done (case r of Inl e \<Rightarrow> Inl e | Inr _ \<Rightarrow> Inr created)))))))"

definition handleProg :: "env \<Rightarrow> 'c CampaignDeploymentWorker \<Rightarrow> CampaignDeploymentTask \<Rightarrow> (('b, 'c) shared, unit result) prog" where
  "handleProg E wk task =
     (case fault E ''ctx'' of
        Some e \<Rightarrow> Done (Inl e)
      | None \<Rightarrow>
          (case wk_deployer wk of
             None \<Rightarrow> Done (Inl (Errorf ''service: handle campaign deployment: deployer is required''))
           | Some deploy \<Rightarrow>
               (if tk_ChainID task \<noteq> wk_chainID wk then Done (Inr ())
                else onDatabase (\<lambda>d. (d, FindByIDForDeployment E (tk_CampaignID task) d)) (\<lambda>r.
                  case r of
                    Inl e \<Rightarrow>
                      Done (if errors_Is e repository_ErrCampaignNotFound then Inr ()
                            else Inl (Wrap ''service: load campaign for deployment'' e))
                  | Inr campaign \<Rightarrow>
                      (if campaignAlreadyDeployed campaign then Done (Inr ())
                       else if c_Status campaign \<noteq> CampaignStatusPending then Done (Inr ())
                       else if \<not> deploymentTaskMatchesCampaign task campaign then Done (Inr ())
                       else onChain (deploy (deploymentParams task campaign)) (\<lambda>r.
                         case r of
                           Inl e \<Rightarrow> Done (Inl (Wrap ''service: deploy campaign'' e))
                         | Inr result \<Rightarrow>
                             (case generateID E of
                                Inl e \<Rightarrow> Done (Inl (Wrap ''service: generate campaign deployment event id'' e))
                              | Inr eventID \<Rightarrow>
                                  onDatabase (CompleteDeployment E (tk_CampaignID task) (deploymentEvent eventID result)
                                      (cr_ContractAddress result)) (\<lambda>r. Done (completeResult r)))))))))"

section \<open>A program that runs alone does what the service does\<close>

lemma registerProg_alone:
  "runAlone (registerProg E svc m f create profile key) (w, c)
    = (case registerProfile E svc m f create profile key w of (w', r) \<Rightarrow> ((w', c), r))"
  by (auto simp: registerProg_def registerProfile_def discardProg_def Let_def split: sum.splits prod.splits)

lemma replaceProg_alone:
  "runAlone (replaceProg E svc m repoReplace upd setUpd wallet profile) (w, c)
    = (case replaceProfile E svc m repoReplace upd setUpd wallet profile w of (w', r) \<Rightarrow> ((w', c), r))"
  by (auto simp: replaceProg_def replaceProfile_def promoteReplacement_def discardProg_def cleanupProg_def Let_def
      split: sum.splits prod.splits option.splits)

lemma deleteProg_alone:
  "runAlone (deleteProg E svc f repoDelete wallet) (w, c)
    = (case deleteProfile E svc f repoDelete wallet w of (w', r) \<Rightarrow> ((w', c), r))"
  by (auto simp: deleteProg_def deleteProfile_def cleanupProg_def split: sum.splits prod.splits option.splits)

lemma createProg_alone:
  "runAlone (createProg E svc input) (w, c) = (case Create E svc input w of (w', r) \<Rightarrow> ((w', c), r))"
  by (auto simp: createProg_def Create_def discardProg_def Let_def split: sum.splits prod.splits)

lemma handleProg_alone:
  "runAlone (handleProg E wk task) (w, c)
    = (case Handle E wk task (database w, c) of ((d, c'), r) \<Rightarrow> ((w\<lparr>database := d\<rparr>, c'), r))"
  by (auto simp: handleProg_def Handle_def Let_def split: sum.splits prod.splits option.splits)


text \<open>The services, each with the arguments its sequential definition gives the common scheme. What the
  caller is told does not matter to other requests: a request in flight is its program with the answer
  forgotten.\<close>

definition SupporterService_RegisterProg :: "env \<Rightarrow> ProfileService \<Rightarrow> RegisterSupporterInput \<Rightarrow> (('b, 'c) shared, Supporter result) prog" where
  "SupporterService_RegisterProg E svc input =
     registerProg E svc ''service: generate supporter ID'' (registerError ''service: register supporter'')
       (SupporterRepo_Create E) (newSupporter E input) (rs_ImageObjectKey input)"

definition FundraiserService_RegisterProg :: "env \<Rightarrow> ProfileService \<Rightarrow> RegisterFundraiserInput \<Rightarrow> (('b, 'c) shared, Fundraiser result) prog" where
  "FundraiserService_RegisterProg E svc input =
     registerProg E svc ''service: generate fundraiser ID'' (registerError ''service: register fundraiser'')
       (FundraiserRepo_Create E) (newFundraiser E input) (rf_ImageObjectKey input)"

definition SupporterService_ReplaceProfileProg ::
  "env \<Rightarrow> ProfileService \<Rightarrow> ReplaceSupporterProfileInput \<Rightarrow> (('b, 'c) shared, unit result) prog" where
  "SupporterService_ReplaceProfileProg E svc input =
     replaceProg E svc ''service: replace supporter profile'' (SupporterRepo_ReplaceProfile E)
       spr_ImageObjectKey (\<lambda>u p. p\<lparr>spr_ImageObjectKey := u\<rparr>) (rsp_WalletAddress input)
       (normalizeSupporterProfileReplacement E (rsp_Profile input))"

definition FundraiserService_ReplaceProfileProg ::
  "env \<Rightarrow> ProfileService \<Rightarrow> ReplaceFundraiserProfileInput \<Rightarrow> (('b, 'c) shared, unit result) prog" where
  "FundraiserService_ReplaceProfileProg E svc input =
     replaceProg E svc ''service: replace fundraiser profile'' (FundraiserRepo_ReplaceProfile E)
       fpr_ImageObjectKey (\<lambda>u p. p\<lparr>fpr_ImageObjectKey := u\<rparr>) (rfp_WalletAddress input)
       (normalizeFundraiserProfileReplacement E (rfp_Profile input))"

definition SupporterService_DeleteProfileProg :: "env \<Rightarrow> ProfileService \<Rightarrow> string \<Rightarrow> (('b, 'c) shared, unit result) prog" where
  "SupporterService_DeleteProfileProg E svc =
     deleteProg E svc (Wrap ''service: delete supporter profile'') (SupporterRepo_DeleteProfile E)"

definition FundraiserService_DeleteProfileProg :: "env \<Rightarrow> ProfileService \<Rightarrow> string \<Rightarrow> (('b, 'c) shared, unit result) prog" where
  "FundraiserService_DeleteProfileProg E svc = deleteProg E svc fundraiserDeleteError (FundraiserRepo_DeleteProfile E)"

definition deliveryProg :: "env \<Rightarrow> 'c CampaignDeploymentWorker \<Rightarrow> Delivery \<Rightarrow> (('b, 'c) shared, unit result) prog" where
  "deliveryProg E wk delivery =
     (case DecodeCampaignDeploymentMessage E (d_Body delivery) of
        Inl e \<Rightarrow> Done (Inr ())
      | Inr task \<Rightarrow>
          map_prog (\<lambda>r. case r of Inl e \<Rightarrow> Inl (Wrap ''app: handle campaign deployment'' e) | Inr _ \<Rightarrow> Inr ()) (handleProg E wk task))"

lemma deliveryProg_alone:
  "runAlone (deliveryProg E wk delivery) (w, c)
    = (case Deployer_handleDelivery E wk delivery (database w, c) of ((d, c'), r) \<Rightarrow> ((w\<lparr>database := d\<rparr>, c'), r))"
  by (auto simp: deliveryProg_def Deployer_handleDelivery_def runAlone_map handleProg_alone split: sum.splits prod.splits)


lemma service_programs_alone:
  "runAlone (SupporterService_RegisterProg E svc inS) (w, c) = (case SupporterService_Register E svc inS w of (w', r) \<Rightarrow> ((w', c), r))"
  "runAlone (FundraiserService_RegisterProg E svc inF) (w, c) = (case FundraiserService_Register E svc inF w of (w', r) \<Rightarrow> ((w', c), r))"
  "runAlone (SupporterService_ReplaceProfileProg E svc inRS) (w, c) = (case SupporterService_ReplaceProfile E svc inRS w of (w', r) \<Rightarrow> ((w', c), r))"
  "runAlone (FundraiserService_ReplaceProfileProg E svc inRF) (w, c) = (case FundraiserService_ReplaceProfile E svc inRF w of (w', r) \<Rightarrow> ((w', c), r))"
  "runAlone (SupporterService_DeleteProfileProg E svc wallet) (w, c) = (case SupporterService_DeleteProfile E svc wallet w of (w', r) \<Rightarrow> ((w', c), r))"
  "runAlone (FundraiserService_DeleteProfileProg E svc wallet) (w, c) = (case FundraiserService_DeleteProfile E svc wallet w of (w', r) \<Rightarrow> ((w', c), r))"
  unfolding SupporterService_RegisterProg_def SupporterService_Register_def FundraiserService_RegisterProg_def
    FundraiserService_Register_def SupporterService_ReplaceProfileProg_def SupporterService_ReplaceProfile_def
    FundraiserService_ReplaceProfileProg_def FundraiserService_ReplaceProfile_def SupporterService_DeleteProfileProg_def
    SupporterService_DeleteProfile_def FundraiserService_DeleteProfileProg_def FundraiserService_DeleteProfile_def
  by (rule registerProg_alone registerProg_alone replaceProg_alone replaceProg_alone deleteProg_alone deleteProg_alone)+

text \<open>The programs are the services. A program is the sequence of calls a service makes of the database, the
  object store, the broker and the chain; run with nothing in between, it leaves the state and gives the
  answer of the sequential definition of the service: for the registration, replacement and deletion of both
  kinds of profile, for the creation of a campaign and for the delivery of a deployment message.\<close>

lemma programs_are_the_services:
  "runAlone (SupporterService_RegisterProg E svc inS) (w, c) = (case SupporterService_Register E svc inS w of (w', r) \<Rightarrow> ((w', c), r))
   \<and> runAlone (FundraiserService_RegisterProg E svc inF) (w, c) = (case FundraiserService_Register E svc inF w of (w', r) \<Rightarrow> ((w', c), r))
   \<and> runAlone (SupporterService_ReplaceProfileProg E svc inRS) (w, c) = (case SupporterService_ReplaceProfile E svc inRS w of (w', r) \<Rightarrow> ((w', c), r))
   \<and> runAlone (FundraiserService_ReplaceProfileProg E svc inRF) (w, c) = (case FundraiserService_ReplaceProfile E svc inRF w of (w', r) \<Rightarrow> ((w', c), r))
   \<and> runAlone (SupporterService_DeleteProfileProg E svc wallet) (w, c) = (case SupporterService_DeleteProfile E svc wallet w of (w', r) \<Rightarrow> ((w', c), r))
   \<and> runAlone (FundraiserService_DeleteProfileProg E svc wallet) (w, c) = (case FundraiserService_DeleteProfile E svc wallet w of (w', r) \<Rightarrow> ((w', c), r))
   \<and> runAlone (createProg E csvc inC) (w, c) = (case Create E csvc inC w of (w', r) \<Rightarrow> ((w', c), r))
   \<and> runAlone (deliveryProg E wk delivery) (w, c)
       = (case Deployer_handleDelivery E wk delivery (database w, c) of ((d, c'), r) \<Rightarrow> ((w\<lparr>database := d\<rparr>, c'), r))"
  by (intro conjI service_programs_alone createProg_alone deliveryProg_alone)

end
