(* ===== verification/Interleaving.thy ===== *)
theory Interleaving
  imports Programs
begin

text \<open>
  Requests that overlap. The API serves requests concurrently and the deployer is another process, so the
  programs of \<open>Programs\<close> interleave action by action (\<open>overlapStep\<close>). The locale \<open>rely_guarantee\<close> holds the
  argument for such machines once: a program is \<open>safe\<close> when each of its actions, taken in any state the others
  may leave behind, keeps the invariant and what the others rely on. Every program of the services is safe for the rules
  of the schema and of the application, the life of a campaign and the images of campaigns. The images of
  profiles are not among them: two overlapping replacements can lose one.
\<close>

section \<open>Rely and guarantee\<close>

locale rely_guarantee =
  fixes inv :: "'s \<Rightarrow> bool" and rely :: "'s \<Rightarrow> 's \<Rightarrow> bool" and guar :: "'s \<Rightarrow> 's \<Rightarrow> bool"
  assumes rely_refl: "rely s s"
    and rely_trans: "rely s t \<Longrightarrow> rely t u \<Longrightarrow> rely s u"
    and guar_inv: "guar s t \<Longrightarrow> inv t"
    and guar_rely: "guar s t \<Longrightarrow> rely s t"
begin

inductive safe :: "'s \<Rightarrow> ('s, 'r) prog \<Rightarrow> bool" where
  finished: "safe s (Done r)"
| act: "(\<And>t. rely s t \<Longrightarrow> inv t \<Longrightarrow> guar t (fst (f t)) \<and> safe (fst (f t)) (snd (f t))) \<Longrightarrow> safe s (Act f)"

lemma safe_rely: "safe s p \<Longrightarrow> rely s t \<Longrightarrow> safe t p"
  by (cases rule: safe.cases) (auto intro: safe.intros rely_trans)

lemma safe_map: "safe s p \<Longrightarrow> safe s (map_prog g p)"
  by (induction rule: safe.induct) (auto simp: map_prog_Act intro: safe.intros)

lemma safe_act:
  assumes "safe s (Act f)" and "inv s" and "f s = (t, q)"
  shows "guar s t \<and> safe t q"
  using assms(1) by cases (use assms(2,3) rely_refl in fastforce)

lemma threads_act:
  assumes "\<forall>q\<in>set ts. safe s q" and "inv s" and "i < length ts" and "ts ! i = Act f" and "f s = (t, q)"
  shows "guar s t \<and> (\<forall>q\<in>set (ts[i := q]). safe t q)"
proof -
  have "safe s (Act f)" using assms(1,3,4) by (metis nth_mem)
  from safe_act [OF this assms(2,5)] have g: "guar s t" "safe t q" by simp_all
  moreover have "safe t q'" if "q' \<in> set ts" for q'
    using that assms(1) safe_rely guar_rely [OF g(1)] by blast
  ultimately show ?thesis using set_update_subset_insert [of ts i q] by blast
qed

end

section \<open>What every action keeps\<close>

definition sharedOK :: "string \<Rightarrow> ('b, 'c) shared \<Rightarrow> bool" where
  "sharedOK b s \<longleftrightarrow> app_ok (database (fst s)) \<and> (\<forall>k\<in>profileImages (database (fst s)). profileKey k)
     \<and> (\<forall>k\<in>campaignImages (database (fst s)). HasPrefix k ''campaigns/'' \<and> objects (fst s) (b, k) \<noteq> None)"

definition keepsCampaignImages :: "string \<Rightarrow> store \<Rightarrow> store \<Rightarrow> bool" where
  "keepsCampaignImages b st st' \<longleftrightarrow> (\<forall>k. HasPrefix k ''campaigns/'' \<longrightarrow> st (b, k) \<noteq> None \<longrightarrow> st' (b, k) \<noteq> None)"

definition sharedStep :: "string \<Rightarrow> ('b, 'c) shared \<Rightarrow> ('b, 'c) shared \<Rightarrow> bool" where
  "sharedStep b s t \<longleftrightarrow> sharedOK b t \<and> keepsCampaignImages b (objects (fst s)) (objects (fst t))
     \<and> lifecycle (statusOf (database (fst s))) (statusOf (database (fst t)))"

lemma keeps_refl [simp]: "keepsCampaignImages b st st"
  by (simp add: keepsCampaignImages_def)

lemma keepsI: "(\<And>k. HasPrefix k ''campaigns/'' \<Longrightarrow> st (b, k) \<noteq> None \<Longrightarrow> st' (b, k) \<noteq> None) \<Longrightarrow> keepsCampaignImages b st st'"
  by (simp add: keepsCampaignImages_def)

lemma keeps_trans: "keepsCampaignImages b st st' \<Longrightarrow> keepsCampaignImages b st' st'' \<Longrightarrow> keepsCampaignImages b st st''"
  by (simp add: keepsCampaignImages_def)

definition sharedRely :: "string \<Rightarrow> ('b, 'c) shared \<Rightarrow> ('b, 'c) shared \<Rightarrow> bool" where
  "sharedRely b s t \<longleftrightarrow> keepsCampaignImages b (objects (fst s)) (objects (fst t))"

lemma sharedRely_intros [simp]: "sharedRely b s s" "sharedRely b s (w, c) \<Longrightarrow> sharedRely b s (w, c')"
  by (simp_all add: sharedRely_def)

interpretation rg: rely_guarantee "sharedOK b" "sharedRely b" "sharedStep b" for b
  by unfold_locales (auto simp: sharedRely_def sharedStep_def intro: keeps_trans)

lemma sharedOK_objects: "sharedOK b (w, c) \<Longrightarrow> keepsCampaignImages b (objects w) st \<Longrightarrow> sharedOK b (w\<lparr>objects := st\<rparr>, c)"
  by (auto simp: sharedOK_def keepsCampaignImages_def)

lemma sharedStep_objects:
  "sharedOK b (w, c) \<Longrightarrow> keepsCampaignImages b (objects w) st \<Longrightarrow> sharedStep b (w, c) (w\<lparr>objects := st\<rparr>, c)"
  by (simp add: sharedStep_def sharedOK_objects lifecycle.stutter)

lemma sharedOK_other [simp]: "sharedOK b (w\<lparr>broker := x\<rparr>, c) = sharedOK b (w, c)" "sharedOK b (w, c) \<Longrightarrow> sharedOK b (w, c')"
  by (simp_all add: sharedOK_def)

text \<open>The actions.\<close>

lemma safe_onObjects:
  assumes "\<And>w c st x. sharedRely b s (w, c) \<Longrightarrow> sharedOK b (w, c) \<Longrightarrow> f (objects w) = (st, x) \<Longrightarrow>
    keepsCampaignImages b (objects w) st \<and> rg.safe b (w\<lparr>objects := st\<rparr>, c) (k x)"
  shows "rg.safe b s (onObjects f k)"
  unfolding onObjects_def
  by (rule rg.safe.act) (auto simp: sharedStep_objects split: prod.splits dest!: assms)

lemma safe_onDatabase:
  assumes "\<And>w c d x. sharedRely b s (w, c) \<Longrightarrow> sharedOK b (w, c) \<Longrightarrow> f (database w) = (d, x) \<Longrightarrow>
    sharedOK b (w\<lparr>database := d\<rparr>, c) \<and> lifecycle (statusOf (database w)) (statusOf d) \<and> rg.safe b (w\<lparr>database := d\<rparr>, c) (k x)"
  shows "rg.safe b s (onDatabase f k)"
  unfolding onDatabase_def
  by (rule rg.safe.act) (auto simp: sharedStep_def split: prod.splits dest!: assms)

lemma safe_onBroker:
  assumes "\<And>t x. rg.safe b t (k x)"
  shows "rg.safe b s (onBroker f k)"
  unfolding onBroker_def
  by (rule rg.safe.act) (auto simp: sharedStep_def lifecycle.stutter assms split: prod.splits)

lemma safe_onChain:
  assumes "\<And>t x. sharedRely b s t \<Longrightarrow> rg.safe b t (k x)"
  shows "rg.safe b s (onChain f k)"
  unfolding onChain_def
  by (rule rg.safe.act) (auto simp: sharedStep_def lifecycle.stutter assms split: prod.splits)


section \<open>The programs are safe\<close>

lemma safe_Promote:
  fixes s :: "('b, 'c) shared"
  assumes "sharedOK b s" and p: "op_bucket p = b"
    and k: "\<And>t r. sharedRely b s t \<Longrightarrow> sharedOK b t \<Longrightarrow> (r = Inr () \<Longrightarrow> objects (fst t) (b, TrimSpace dest) \<noteq> None)
      \<Longrightarrow> rg.safe b t (k r)"
  shows "rg.safe b s (PromoteProg E p src dest k)"
proof -
  have copy: "rg.safe b t (onObjects (CopyObject E (op_bucket p) (TrimSpace dest) (TrimSpace src)) (\<lambda>r. case r of
      Inl e \<Rightarrow> k (Inl (h e)) | Inr _ \<Rightarrow> k (Inr ())))" if "sharedRely b s t" for t h
  proof (rule safe_onObjects)
    fix w :: "'b world" and c :: 'c and st x
    assume t: "sharedRely b t (w, c)" and ok: "sharedOK b (w, c)"
      and cp: "CopyObject E (op_bucket p) (TrimSpace dest) (TrimSpace src) (objects w) = (st, x)"
    have keep: "keepsCampaignImages b (objects w) st" and "x = Inr () \<Longrightarrow> st (b, TrimSpace dest) \<noteq> None"
      using cp p by (auto simp: CopyObject_def intro!: keepsI split: option.splits)
    moreover have "sharedRely b s (w\<lparr>objects := st\<rparr>, c)"
      using that t keep by (auto simp: sharedRely_def intro: keeps_trans)
    ultimately show "keepsCampaignImages b (objects w) st \<and> rg.safe b (w\<lparr>objects := st\<rparr>, c)
        (case x of Inl e \<Rightarrow> k (Inl (h e)) | Inr _ \<Rightarrow> k (Inr ()))"
      using sharedOK_objects [OF ok keep] by (auto intro!: k split: sum.splits)
  qed
  have stat: "rg.safe b s (onObjects (\<lambda>st. (st, StatObject E (op_bucket p) (TrimSpace dest) st)) (\<lambda>r. case r of
      Inr _ \<Rightarrow> k (Inr ())
    | Inl e \<Rightarrow> if g e then k (Inl (h e)) else onObjects (CopyObject E (op_bucket p) (TrimSpace dest) (TrimSpace src)) (\<lambda>r.
        case r of Inl e \<Rightarrow> k (Inl (h' e)) | Inr _ \<Rightarrow> k (Inr ()))))" for g h h'
  proof (rule safe_onObjects)
    fix w :: "'b world" and c :: 'c and st x
    assume t: "sharedRely b s (w, c)" "sharedOK b (w, c)"
      and st: "(objects w, StatObject E (op_bucket p) (TrimSpace dest) (objects w)) = (st, x)"
    have "x = Inr () \<Longrightarrow> objects w (b, TrimSpace dest) \<noteq> None"
      using st p by (auto simp: StatObject_def split: option.splits)
    moreover have "w\<lparr>objects := st\<rparr> = w" using st by simp
    ultimately show "keepsCampaignImages b (objects w) st \<and> rg.safe b (w\<lparr>objects := st\<rparr>, c) (case x of
      Inr _ \<Rightarrow> k (Inr ())
    | Inl e \<Rightarrow> if g e then k (Inl (h e)) else onObjects (CopyObject E (op_bucket p) (TrimSpace dest) (TrimSpace src)) (\<lambda>r.
        case r of Inl e \<Rightarrow> k (Inl (h' e)) | Inr _ \<Rightarrow> k (Inr ())))"
      using t st copy [OF t(1)] by (cases x) (auto intro: k)
  qed
  have "rg.safe b s (k (Inl e))" for e by (rule k) (simp_all add: assms(1))
  with stat show ?thesis unfolding PromoteProg_def Let_def by simp
qed

lemma safe_promoteImage:
  assumes "sharedOK b s" and "promoter = Some p" and "op_bucket p = b" and "dir \<in> {''profiles'', ''campaigns''}"
    and failed: "\<And>t e. sharedRely b s t \<Longrightarrow> sharedOK b t \<Longrightarrow> rg.safe b t (k (Inl e))"
    and promoted: "\<And>t key. sharedRely b s t \<Longrightarrow> sharedOK b t \<Longrightarrow> CanonicalImageObjectKey E stagingKey dir = Inr key
      \<Longrightarrow> objects (fst t) (b, key) \<noteq> None \<Longrightarrow> rg.safe b t (k (Inr key))"
  shows "rg.safe b s (promoteImageProg E promoter stagingKey dir k)"
proof (cases "CanonicalImageObjectKey E stagingKey dir")
  case (Inl e)
  with assms(1) show ?thesis by (simp add: promoteImageProg_def failed)
next
  case (Inr canonical)
  have "TrimSpace canonical = canonical" by (rule Canonical_TrimSpace_id [OF Inr assms(4)])
  with promoted [OF _ _ Inr] have next_step: "rg.safe b t (case r of Inl e \<Rightarrow> k (Inl (h e)) | Inr _ \<Rightarrow> k (Inr canonical))"
    if "sharedRely b s t" "sharedOK b t" "r = Inr () \<Longrightarrow> objects (fst t) (b, TrimSpace canonical) \<noteq> None" for t h and r :: "unit result"
    using that by (cases r) (simp_all add: failed)
  show ?thesis
    unfolding promoteImageProg_def assms(2) Inr sum.case option.case by (rule safe_Promote [OF assms(1,3)]) (rule next_step)
qed

lemma safe_discard:
  assumes "\<And>k. stagingKey = Some k \<Longrightarrow> HasPrefix (TrimSpace k) ''tmp/''" and "\<And>t. rg.safe b t q"
  shows "rg.safe b s (discardProg E promoter stagingKey q)"
  unfolding discardProg_def
  by (rule safe_onObjects)
    (use assms prefix_clash(3) in \<open>auto intro!: keepsI simp: discardStagingImage_other\<close>)

lemma safe_cleanup:
  assumes "\<And>k. objectKey = Some k \<Longrightarrow> profileKey k" and "\<And>t. rg.safe b t q"
  shows "rg.safe b s (cleanupProg E svc wanted objectKey q)"
proof -
  have "deleteUnreferenced E svc wanted objectKey st (b, k) = st (b, k)" if "HasPrefix k ''campaigns/''" for st k
    using that assms(1) prefix_clash(1) by (intro deleteUnreferenced_other) (auto simp: profileKey_def)
  then show ?thesis
    unfolding cleanupProg_def by (intro safe_onObjects) (auto intro!: keepsI assms(2))
qed

lemma sharedOK_profiles:
  assumes "sharedOK b (w, c)" and "app_ok d" and "campaigns d = campaigns (database w)"
    and "\<And>k. k \<in> profileImages d \<Longrightarrow> k \<in> profileImages (database w) \<or> profileKey k"
  shows "sharedOK b (w\<lparr>database := d\<rparr>, c)" "lifecycle (statusOf (database w)) (statusOf d)"
  using assms by (auto simp: sharedOK_def campaignImages_def intro: statusOf_same)

context profile_repository
begin

lemma safe_register:
  assumes p: "ps_objectPromoter svc = Some p" "op_bucket p = b" and "sharedOK b s"
    and v: "\<And>i k. valid (profile i k)" and img: "\<And>i k. imageOf (profile i k) = k"
  shows "rg.safe b s (registerProg E svc m f create profile key)"
proof (cases "generateID E")
  case (Inl e)
  then show ?thesis by (simp add: registerProg_def rg.safe.finished)
next
  case (Inr i)
  let ?s = "normalizeOptionalString key"
  have tx: "rg.safe b t (onDatabase (create (profile i img)) (\<lambda>r. case r of Inl e \<Rightarrow> Done (Inl (f e))
      | Inr created \<Rightarrow> discardProg E (ps_objectPromoter svc) ?s (Done (Inr created))))"
    if "\<And>k. img = Some k \<Longrightarrow> profileKey k" "\<And>k. ?s = Some k \<Longrightarrow> HasPrefix (TrimSpace k) ''tmp/''" for img t
  proof (rule safe_onDatabase)
    fix w c d x assume ok: "sharedOK b (w, c)" and cr: "create (profile i img) (database w) = (d, x)"
    have "app_ok d" using create_app [of "database w" "profile i img"] v ok cr by (simp add: sharedOK_def)
    note ok' = sharedOK_profiles [OF ok this create_campaigns [OF cr]]
    have "k \<in> profileImages (database w) \<or> profileKey k" if "k \<in> profileImages d" for k
      using create_images [OF cr that] \<open>\<And>k. img = Some k \<Longrightarrow> profileKey k\<close> unfolding assms(5) by blast
    with ok' that(2) show "sharedOK b (w\<lparr>database := d\<rparr>, c) \<and> lifecycle (statusOf (database w)) (statusOf d)
        \<and> rg.safe b (w\<lparr>database := d\<rparr>, c) (case x of Inl e \<Rightarrow> Done (Inl (f e))
           | Inr created \<Rightarrow> discardProg E (ps_objectPromoter svc) ?s (Done (Inr created)))"
      by (auto intro!: rg.safe.finished safe_discard split: sum.splits)
  qed
  show ?thesis
  proof (cases ?s)
    case None
    then have n: "normalizeOptionalString ?s = None" by (metis normalizeOptionalString_idem)
    show ?thesis using Inr n None tx [of None]
      by (simp add: registerProg_def promoteOptionalProg_def Let_def)
  next
    case (Some a)
    then have n: "normalizeOptionalString (Some a) = Some a" by (metis normalizeOptionalString_idem)
    show ?thesis unfolding registerProg_def Inr Let_def Some promoteOptionalProg_def n sum.case option.case
      by (rule safe_promoteImage [OF assms(3) p campaign_directory(2)])
        (auto intro!: rg.safe.finished tx [unfolded Some] dest: profile_key Canonical_differs(3))
  qed
qed

lemma safe_replace:
  assumes p: "ps_objectPromoter svc = Some p" "op_bucket p = b" and "sharedOK b s"
  shows "rg.safe b s (replaceProg E svc m replace upd setUpd wallet profile)"
proof -
  let ?k = "stagedKey (upd profile)"
  let ?then = "\<lambda>r. case r of Inl e \<Rightarrow> Done (Inl (replaceError m e)) | Inr None \<Rightarrow> Done (Inl (Sentinel service_ErrProfileNotFound))
      | Inr (Some x) \<Rightarrow> discardProg E (ps_objectPromoter svc) ?k
          (cleanupProg E svc (DeleteOldImageFile x) (OldImageObjectKey x) (Done (Inr ())))"
  have tx: "rg.safe b t (onDatabase (replace (TrimSpace wallet) q) ?then)"
    if "\<And>k. iu_Set (upd q) \<Longrightarrow> iu_Value (upd q) = Some k \<Longrightarrow> profileKey k" "\<And>k. ?k = Some k \<Longrightarrow> HasPrefix (TrimSpace k) ''tmp/''" for q t
  proof (rule safe_onDatabase)
    fix w c d x assume ok: "sharedOK b (w, c)" and rp: "replace (TrimSpace wallet) q (database w) = (d, x)"
    have "app_ok d" using replace_app [of "database w" "TrimSpace wallet" q] ok rp by (simp add: sharedOK_def)
    note ok' = sharedOK_profiles [OF ok this replace_campaigns [OF rp]]
    have "k \<in> profileImages (database w) \<or> profileKey k" if "k \<in> profileImages d" for k
      using replace_images [OF rp that] \<open>\<And>k. iu_Set (upd q) \<Longrightarrow> iu_Value (upd q) = Some k \<Longrightarrow> profileKey k\<close> by blast
    moreover have "profileKey k" if "x = Inr (Some y)" "OldImageObjectKey y = Some k" for y k
      using replace_unreferenced [OF rp [unfolded that(1)] that(2)] ok by (simp add: sharedOK_def)
    ultimately show "sharedOK b (w\<lparr>database := d\<rparr>, c) \<and> lifecycle (statusOf (database w)) (statusOf d)
        \<and> rg.safe b (w\<lparr>database := d\<rparr>, c) (?then x)"
      using ok' that(2) by (auto intro!: rg.safe.finished safe_discard safe_cleanup split: sum.splits option.splits)
  qed
  show ?thesis
  proof (cases ?k)
    case None
    with tx [of profile] show ?thesis by (simp add: replaceProg_def Let_def stagedKey_def split: if_splits)
  next
    case (Some a)
    show ?thesis unfolding replaceProg_def Let_def Some option.case
      by (rule safe_promoteImage [OF assms(3) p campaign_directory(2)])
        (auto intro!: rg.safe.finished tx [unfolded Some] simp: upd_set dest: profile_key Canonical_differs(3))
  qed
qed

lemma safe_delete: "rg.safe b s (deleteProg E svc f delete wallet)"
  unfolding deleteProg_def
proof (rule safe_onDatabase)
  fix w c d x assume ok: "sharedOK b (w, c)" and dl: "delete (TrimSpace wallet) (database w) = (d, x)"
  have "app_ok (database w)" using ok by (simp add: sharedOK_def)
  moreover from this have "app_ok d" using delete_app [of "database w" "TrimSpace wallet"] dl by simp
  note ok' = sharedOK_profiles [OF ok this delete_campaigns [OF dl]]
  moreover have "profileKey k" if "x = Inr (Some y)" "ImageObjectKey y = Some k" for y k
    using delete_unreferenced [OF calculation(1) dl [unfolded that(1)] that(2)] ok by (simp add: sharedOK_def)
  ultimately show "sharedOK b (w\<lparr>database := d\<rparr>, c) \<and> lifecycle (statusOf (database w)) (statusOf d)
      \<and> rg.safe b (w\<lparr>database := d\<rparr>, c) (case x of Inl e \<Rightarrow> Done (Inl (f e)) | Inr None \<Rightarrow> Done (Inl (Sentinel service_ErrProfileNotFound))
         | Inr (Some x) \<Rightarrow> cleanupProg E svc (DeleteImageObjectFile x) (ImageObjectKey x) (Done (Inr ())))"
    using delete_images [OF dl] by (auto intro!: rg.safe.finished safe_cleanup split: sum.splits option.splits)
qed

end


lemma safe_Done [simp, intro!]: "rg.safe b s (Done r)"
  by (rule rg.safe.finished)

lemma profileImages_campaigns [simp]: "profileImages (d\<lparr>campaigns := cs\<rparr>) = profileImages d"
  by (simp add: profileImages_def imageStillReferenced_def)

lemma safe_create:
  fixes s :: "('b, 'c) shared"
  assumes p: "svc_objectPromoter svc = Some p" "op_bucket p = b" and "sharedOK b s"
  shows "rg.safe b s (createProg E svc input)"
proof (cases "generateID E")
  case (Inl e)
  then show ?thesis by (simp add: createProg_def)
next
  case (Inr i)
  let ?staging = "TrimSpace (ci_ImageObjectKey input)"
  let ?then = "\<lambda>r. case r of Inl e \<Rightarrow> Done (Inl (createError e)) | Inr created \<Rightarrow>
      discardProg E (svc_objectPromoter svc) (Some ?staging)
        (onBroker (publishCampaignDeployment svc (TrimSpace (ci_WalletAddress input)) created) (\<lambda>r.
           Done (case r of Inl e \<Rightarrow> Inl e | Inr _ \<Rightarrow> Inr created)))"
  have "rg.safe b t (onDatabase (CreatePending E wallet (newCampaign i input key) time) ?then)"
    if key: "CanonicalImageObjectKey E ?staging CampaignImageDirectory = Inr key" and t: "objects (fst t) (b, key) \<noteq> None" for t :: "('b, 'c) shared" and key wallet time
  proof (rule safe_onDatabase)
    fix w :: "'b world" and c :: 'c and d x
    assume rely: "sharedRely b t (w, c)" and ok: "sharedOK b (w, c)"
      and cr: "CreatePending E wallet (newCampaign i input key) time (database w) = (d, x)"
    have "app_ok d" using CreatePending_app [of "database w" E wallet "newCampaign i input key" time] ok cr by (simp add: sharedOK_def)
    moreover have "HasPrefix key ''campaigns/''" by (rule campaign_key [OF key])
    moreover from this have "objects w (b, key) \<noteq> None" using rely t by (simp add: sharedRely_def keepsCampaignImages_def)
    moreover have "c_ImageObjectKey (newCampaign i input key) = key" by (simp add: newCampaign_def)
    ultimately have "sharedOK b (w\<lparr>database := d\<rparr>, c)"
      using CreatePending_rows [OF cr] ok
      by (auto simp: sharedOK_def campaignImages_def)
    moreover have "lifecycle (statusOf (database w)) (statusOf d)"
      by (rule CreatePending_lifecycle [OF cr]) (simp add: newCampaign_def)
    moreover have "rg.safe b (w\<lparr>database := d\<rparr>, c) (?then x)"
      using Canonical_differs(3) [OF key] by (cases x) (auto intro!: safe_discard safe_onBroker)
    ultimately show "sharedOK b (w\<lparr>database := d\<rparr>, c) \<and> lifecycle (statusOf (database w)) (statusOf d)
        \<and> rg.safe b (w\<lparr>database := d\<rparr>, c) (?then x)" by blast
  qed
  then show ?thesis unfolding createProg_def Inr Let_def sum.case
    by (intro safe_promoteImage [OF assms(3) p campaign_directory(1)]) auto
qed

lemma sharedOK_complete:
  assumes ok: "sharedOK b (w, c)" and run: "CompleteDeployment E i e a (database w) = (d, x)"
  shows "sharedOK b (w\<lparr>database := d\<rparr>, c)" "lifecycle (statusOf (database w)) (statusOf d)"
proof -
  have "app_ok (database w)" using ok by (simp add: sharedOK_def)
  with CompleteDeployment_app [of "database w" E i e a] run have "app_ok d" by simp
  moreover have "profileImages d = profileImages (database w) \<and> campaignImages d = campaignImages (database w)"
    by (rule CompleteDeployment_images [OF run])
  ultimately show "sharedOK b (w\<lparr>database := d\<rparr>, c)" using ok by (simp add: sharedOK_def)
  show "lifecycle (statusOf (database w)) (statusOf d)"
    using \<open>app_ok (database w)\<close> by (intro CompleteDeployment_lifecycle [OF run]) (simp add: app_ok_def)
qed

lemma safe_complete:
  assumes "\<And>t x. rg.safe b t (k x)"
  shows "rg.safe b s (onDatabase (CompleteDeployment E i e a) k)"
  by (rule safe_onDatabase) (blast intro: sharedOK_complete assms)

lemma safe_handle: "rg.safe b s (handleProg E wk task)"
  unfolding handleProg_def Let_def
  by (auto intro!: safe_complete safe_onDatabase [where f = "\<lambda>d. (d, f d)" for f] safe_onChain lifecycle.stutter
      split: option.splits sum.splits)


lemma safe_delivery: "rg.safe b s (deliveryProg E wk delivery)"
  by (auto simp: deliveryProg_def intro: rg.safe_map safe_handle split: sum.splits)

section \<open>The machine\<close>

text \<open>The state is the shared state and the requests and deliveries in flight, in the order of their arrival. A
  step is an arrival, one action of one of them, or an upload by a client.\<close>

abbreviation forget :: "('s, 'r) prog \<Rightarrow> ('s, unit) prog" where
  "forget \<equiv> map_prog (\<lambda>_. ())"

inductive request :: "ObjectPromoter \<Rightarrow> (('b, 'c) shared, unit) prog \<Rightarrow> bool" for p :: ObjectPromoter where
  register_supporter: "ps_objectPromoter svc = Some p \<Longrightarrow> request p (forget (SupporterService_RegisterProg E svc inS))"
| register_fundraiser: "ps_objectPromoter svc = Some p \<Longrightarrow> request p (forget (FundraiserService_RegisterProg E svc inF))"
| replace_supporter: "ps_objectPromoter svc = Some p \<Longrightarrow> request p (forget (SupporterService_ReplaceProfileProg E svc inRS))"
| replace_fundraiser: "ps_objectPromoter svc = Some p \<Longrightarrow> request p (forget (FundraiserService_ReplaceProfileProg E svc inRF))"
| delete_supporter: "request p (forget (SupporterService_DeleteProfileProg E svc wallet))"
| delete_fundraiser: "request p (forget (FundraiserService_DeleteProfileProg E svc wallet))"
| create_campaign: "svc_objectPromoter csvc = Some p \<Longrightarrow> request p (forget (createProg E csvc inC))"
| deliver: "request p (forget (deliveryProg E wk delivery))"

type_synonym ('b, 'c) overlapping = "('b, 'c) shared \<times> (('b, 'c) shared, unit) prog list"

inductive overlapStep :: "ObjectPromoter \<Rightarrow> ('b, 'c) overlapping \<Rightarrow> ('b, 'c) overlapping \<Rightarrow> bool" for p :: ObjectPromoter where
  arrive: "request p q \<Longrightarrow> overlapStep p (s, ts) (s, ts @ [q])"
| act: "i < length ts \<Longrightarrow> ts ! i = Act f \<Longrightarrow> f s = (s', q) \<Longrightarrow> overlapStep p (s, ts) (s', ts[i := q])"
| upload: "HasPrefix k ''tmp/'' \<Longrightarrow>
    overlapStep p ((w, c), ts) ((w\<lparr>objects := (objects w)((op_bucket p, k) \<mapsto> content)\<rparr>, c), ts)"

inductive overlapReach :: "ObjectPromoter \<Rightarrow> ('b, 'c) overlapping \<Rightarrow> bool" for p :: ObjectPromoter where
  start: "database w = empty_db \<Longrightarrow> overlapReach p ((w, c), [])"
| step: "overlapReach p x \<Longrightarrow> overlapStep p x y \<Longrightarrow> overlapReach p y"

lemma request_safe:
  assumes "request p q" and "sharedOK (op_bucket p) s"
  shows "rg.safe (op_bucket p) s q"
  using assms(1)
proof (cases rule: request.cases)
  case (register_supporter svc E inS)
  then show ?thesis unfolding register_supporter SupporterService_RegisterProg_def
    by (intro rg.safe_map sup.safe_register [OF register_supporter(2) refl assms(2)]) (simp_all add: newSupporter_def)
next
  case (register_fundraiser svc E inF)
  then show ?thesis unfolding register_fundraiser FundraiserService_RegisterProg_def
    by (intro rg.safe_map fundr.safe_register [OF register_fundraiser(2) refl assms(2)]) (simp_all add: newFundraiser_def)
next
  case (replace_supporter svc E inRS)
  then show ?thesis unfolding replace_supporter SupporterService_ReplaceProfileProg_def
    by (intro rg.safe_map sup.safe_replace [OF replace_supporter(2) refl assms(2)])
next
  case (replace_fundraiser svc E inRF)
  then show ?thesis unfolding replace_fundraiser FundraiserService_ReplaceProfileProg_def
    by (intro rg.safe_map fundr.safe_replace [OF replace_fundraiser(2) refl assms(2)])
next
  case (delete_supporter E svc wallet)
  then show ?thesis unfolding delete_supporter SupporterService_DeleteProfileProg_def
    by (intro rg.safe_map sup.safe_delete)
next
  case (delete_fundraiser E svc wallet)
  then show ?thesis unfolding delete_fundraiser FundraiserService_DeleteProfileProg_def
    by (intro rg.safe_map fundr.safe_delete)
next
  case (create_campaign csvc E inC)
  then show ?thesis unfolding create_campaign by (intro rg.safe_map safe_create [OF create_campaign(2) refl assms(2)])
next
  case (deliver E wk delivery)
  then show ?thesis unfolding deliver by (intro rg.safe_map safe_delivery)
qed

definition overlapOK :: "ObjectPromoter \<Rightarrow> ('b, 'c) overlapping \<Rightarrow> bool" where
  "overlapOK p x \<longleftrightarrow> sharedOK (op_bucket p) (fst x) \<and> (\<forall>q\<in>set (snd x). rg.safe (op_bucket p) (fst x) q)"

lemma overlapStep_ok:
  assumes "overlapStep p x y" and "overlapOK p x"
  shows "overlapOK p y \<and> sharedStep (op_bucket p) (fst x) (fst y)"
  using assms
proof (induction rule: overlapStep.induct)
  case (arrive q s ts)
  then show ?case using request_safe [OF arrive(1), of s]
    by (auto simp: overlapOK_def sharedStep_def lifecycle.stutter)
next
  case (act i ts f s s' q)
  then show ?case using rg.threads_act [of ts "op_bucket p" s i f s' q]
    by (simp add: overlapOK_def sharedStep_def)
next
  case (upload k w c ts content)
  let ?st = "(objects w)((op_bucket p, k) \<mapsto> content)"
  have keep: "keepsCampaignImages (op_bucket p) (objects w) ?st" by (rule keepsI) simp
  have "sharedRely (op_bucket p) (w, c) (w\<lparr>objects := ?st\<rparr>, c)" using keep by (simp add: sharedRely_def)
  with upload keep sharedStep_objects [of "op_bucket p" w c ?st] sharedOK_objects [of "op_bucket p" w c ?st] show ?case
    by (auto simp: overlapOK_def intro: rg.safe_rely)
qed

lemma overlapReach_ok: "overlapReach p x \<Longrightarrow> overlapOK p x"
proof (induction rule: overlapReach.induct)
  case (start w c)
  then show ?case using app_ok_empty
    by (simp add: overlapOK_def sharedOK_def profileImages_def imageStillReferenced_def campaignImages_def empty_db_def)
next
  case (step x y)
  then show ?case using overlapStep_ok by blast
qed

section \<open>Running alone is one of the interleavings\<close>

lemma overlap_alone:
  assumes "overlapReach p (s, ts)" and "i < length ts" and "ts ! i = q"
  shows "overlapReach p (fst (runAlone q s), ts[i := Done (snd (runAlone q s))])"
  using assms
proof (induction q arbitrary: s ts rule: prog_induct)
  case (Done r)
  then show ?case by (metis list_update_id runAlone.simps(1) fst_conv snd_conv)
next
  case (Act f)
  have "overlapReach p (fst (f s), ts[i := snd (f s)])"
    by (rule overlapReach.step [OF Act(2)]) (rule overlapStep.act [OF Act(3,4)], simp)
  from Act(1) [OF this] Act(3) show ?case by (simp add: runAlone_Act)
qed

lemma overlap_request:
  assumes "overlapReach p (s, ts)" and "request p (forget q)" and "runAlone q s = (s', r)"
  shows "overlapReach p (s', ts @ [Done ()])"
proof -
  have "overlapReach p (s, ts @ [forget q])" using assms(1,2) by (blast intro: overlapReach.step overlapStep.arrive)
  from overlap_alone [OF this, of "length ts"] assms(3) show ?thesis
    by (simp add: runAlone_map)
qed

lemma app_step_overlap:
  assumes "app_step p s s'" and "overlapReach p (s, ts)"
  shows "\<exists>us. overlapReach p (s', ts @ us) \<and> set us \<subseteq> {Done ()}"
proof -
  have one: "\<exists>us. overlapReach p (t, ts @ us) \<and> set us \<subseteq> {Done ()}"
    if "request p (forget q)" "runAlone q s = (t, r)" for q r t
    using overlap_request [OF assms(2) that] by (intro exI [of _ "[Done ()]"]) simp
  from assms(1) show ?thesis
  proof (cases rule: app_step.cases)
    case (register_supporter svc E inS w w' rS ch)
    then show ?thesis
      by (intro one [OF request.register_supporter [where svc = svc and E = E and inS = inS], where r = rS]) (simp_all add: service_programs_alone)
  next
    case (register_fundraiser svc E inF w w' rF ch)
    then show ?thesis
      by (intro one [OF request.register_fundraiser [where svc = svc and E = E and inF = inF], where r = rF]) (simp_all add: service_programs_alone)
  next
    case (replace_supporter svc E inRS w w' r ch)
    then show ?thesis
      by (intro one [OF request.replace_supporter [where svc = svc and E = E and inRS = inRS], where r = r]) (simp_all add: service_programs_alone)
  next
    case (replace_fundraiser svc E inRF w w' r ch)
    then show ?thesis
      by (intro one [OF request.replace_fundraiser [where svc = svc and E = E and inRF = inRF], where r = r]) (simp_all add: service_programs_alone)
  next
    case (delete_supporter E svc wallet w w' r ch)
    then show ?thesis
      by (intro one [OF request.delete_supporter [where svc = svc and E = E and wallet = wallet], where r = r]) (simp add: service_programs_alone)
  next
    case (delete_fundraiser E svc wallet w w' r ch)
    then show ?thesis
      by (intro one [OF request.delete_fundraiser [where svc = svc and E = E and wallet = wallet], where r = r]) (simp add: service_programs_alone)
  next
    case (create_campaign csvc E inC w w' rC ch)
    then show ?thesis
      by (intro one [OF request.create_campaign [where csvc = csvc and E = E and inC = inC], where r = rC]) (simp_all add: createProg_alone)
  next
    case (deliver E wk delivery w ch d ch' r)
    then show ?thesis
      by (intro one [OF request.deliver [where E = E and wk = wk and delivery = delivery], where r = r]) (simp add: deliveryProg_alone)
  next
    case (upload k w ch content)
    have "overlapReach p ((w\<lparr>objects := (objects w)((op_bucket p, k) \<mapsto> content)\<rparr>, ch), ts)"
      using assms(2) unfolding upload(1) by (rule overlapReach.step) (rule overlapStep.upload [OF upload(3)])
    then show ?thesis unfolding upload(2) by (intro exI [of _ "[]"]) simp
  qed
qed

lemma reachable_overlap: "reachable p s \<Longrightarrow> \<exists>ts. overlapReach p (s, ts) \<and> set ts \<subseteq> {Done ()}"
proof (induction rule: reachable.induct)
  case (start w ch)
  then show ?case using overlapReach.start by (intro exI [of _ "[]"]) simp
next
  case (step s s')
  then obtain ts where ts: "overlapReach p (s, ts)" "set ts \<subseteq> {Done ()}" by blast
  from app_step_overlap [OF step(2) ts(1)] obtain us where "overlapReach p (s', ts @ us)" "set us \<subseteq> {Done ()}" by blast
  with ts(2) show ?case by (intro exI [of _ "ts @ us"]) simp
qed


section \<open>Properties\<close>

text \<open>(C9) The rules of the application do not depend on requests being served one at a time. However the calls of
  requests and deliveries interleave, whatever fails and whatever clients upload in between, every state
  satisfies the constraints of the schema and of the application, the image of every campaign is in the
  bucket, and each action leaves every campaign's status alone, announces one new campaign or activates one
  pending campaign.\<close>

theorem overlapping_requests_keep_rules:
  assumes "overlapReach p ((w, c), ts)" and "overlapStep p ((w, c), ts) ((w', c'), ts')"
  shows "app_ok (database w) \<and> (\<forall>k\<in>campaignImages (database w). objects w (op_bucket p, k) \<noteq> None)
    \<and> lifecycle (statusOf (database w)) (statusOf (database w'))"
  using overlapReach_ok [OF assms(1)] overlapStep_ok [OF assms(2)]
  by (auto simp: overlapOK_def sharedOK_def sharedStep_def)

theorem overlapping_requests_keep_rules_witness: "app_ok demo_registered"
proof -
  from reachable_overlap [OF demo_reachable] obtain ts where
    "overlapReach \<lparr>op_bucket = ''pawfund''\<rparr>
      ((\<lparr>database = demo_registered, objects = [(''pawfund'', demo_photo_key) \<mapsto> ''png''], broker = ()\<rparr>, ()), ts)" by blast
  from overlapping_requests_keep_rules [OF this overlapStep.arrive [OF request.delete_supporter]]
  show ?thesis by simp
qed













end
