(* ===== verification/Dial_Watch.thy ===== *)
theory Dial_Watch
  imports Queue_Client
begin

text \<open>
  \<open>watchForCancel\<close> of \<open>internal/infra/queue/client.go\<close>. While a dial is in flight, a function registered with
  \<open>context.AfterFunc\<close> waits for the end of the context; it runs in a goroutine of its own, forces the deadline
  of the socket to the present and closes \<open>done\<close>. The closure that \<open>watchForCancel\<close> returns unregisters the
  function or, when it has started already, waits for \<open>done\<close>. The lemmas show what the closure is for: once it has
  returned, the deadline of the socket, by then that of a connection in use, is never touched again, and it
  always returns.
\<close>

section \<open>The two goroutines\<close>

text \<open>The registered function is armed, was unregistered, or has run up to one of its actions. The caller is
  dialling, waits on \<open>done\<close>, or has the closure behind it.\<close>

datatype afterFunc = Armed | Unregistered | Started | DeadlineForced | Ended

datatype stopper = Dialling | WaitingForDone | Stopped

record dialWatch =
  dw_after :: afterFunc
  dw_done :: bool
  dw_deadline :: time
  dw_stopper :: stopper

definition watchForCancel :: "time \<Rightarrow> dialWatch" where
  "watchForCancel deadline = \<lparr>dw_after = Armed, dw_done = False, dw_deadline = deadline, dw_stopper = Dialling\<rparr>"

text \<open>The next action of the registered function, at the given time, and of the returned closure; \<open>None\<close> when
  there is none or it blocks.\<close>

definition forceDeadline :: "time \<Rightarrow> dialWatch \<Rightarrow> dialWatch option" where
  "forceDeadline now s =
     (case dw_after s of
        Started \<Rightarrow> Some (s\<lparr>dw_after := DeadlineForced, dw_deadline := now\<rparr>)
      | DeadlineForced \<Rightarrow> Some (s\<lparr>dw_after := Ended, dw_done := True\<rparr>)
      | _ \<Rightarrow> None)"

definition stopWatching :: "dialWatch \<Rightarrow> dialWatch option" where
  "stopWatching s =
     (case dw_stopper s of
        Dialling \<Rightarrow>
          (if dw_after s = Armed then Some (s\<lparr>dw_after := Unregistered, dw_stopper := Stopped\<rparr>)
           else Some (s\<lparr>dw_stopper := WaitingForDone\<rparr>))
      | WaitingForDone \<Rightarrow> (if dw_done s then Some (s\<lparr>dw_stopper := Stopped\<rparr>) else None)
      | Stopped \<Rightarrow> None)"

inductive watchStep :: "dialWatch \<Rightarrow> dialWatch \<Rightarrow> bool" where
  cancelled: "dw_after s = Armed \<Longrightarrow> watchStep s (s\<lparr>dw_after := Started\<rparr>)"
| forced: "forceDeadline now s = Some s' \<Longrightarrow> watchStep s s'"
| stopped: "stopWatching s = Some s' \<Longrightarrow> watchStep s s'"

inductive_cases watchStepE: "watchStep s s'"

section \<open>What the closure guarantees\<close>

definition watchInv :: "dialWatch \<Rightarrow> bool" where
  "watchInv s \<longleftrightarrow> (dw_done s \<longleftrightarrow> dw_after s = Ended) \<and> (dw_stopper s = Stopped \<longrightarrow> dw_after s \<in> {Unregistered, Ended})
     \<and> (dw_stopper s \<noteq> Stopped \<longrightarrow> dw_after s \<noteq> Unregistered) \<and> (dw_stopper s = WaitingForDone \<longrightarrow> dw_after s \<noteq> Armed)"

lemma watchStep_inv: "watchStep s s' \<Longrightarrow> watchInv s \<Longrightarrow> watchInv s'"
  by (erule watchStepE) (auto simp: watchInv_def forceDeadline_def stopWatching_def split: afterFunc.splits stopper.splits if_splits)

lemma watch_reach_inv:
  assumes "watchStep\<^sup>*\<^sup>* (watchForCancel deadline) s"
  shows "watchInv s"
  using assms by (induction rule: rtranclp_induct) (auto simp: watchForCancel_def watchInv_def dest: watchStep_inv [unfolded watchInv_def])

text \<open>After the closure nothing moves any more.\<close>

lemma stopped_final: "watchInv s \<Longrightarrow> dw_stopper s = Stopped \<Longrightarrow> \<not> watchStep s s'"
  by (auto elim!: watchStepE simp: watchInv_def forceDeadline_def stopWatching_def)

text \<open>Until then it can always go on, and it is done after at most five moves of the two: the closure returns
  whatever the order.\<close>

definition watchRank :: "dialWatch \<Rightarrow> nat" where
  "watchRank s =
     (case dw_after s of Armed \<Rightarrow> 3 | Started \<Rightarrow> 2 | DeadlineForced \<Rightarrow> 1 | _ \<Rightarrow> 0)
     + (case dw_stopper s of Dialling \<Rightarrow> 2 | WaitingForDone \<Rightarrow> 1 | Stopped \<Rightarrow> 0)"

lemma watchStep_rank: "watchStep s s' \<Longrightarrow> watchRank s' < watchRank s"
  by (erule watchStepE) (auto simp: watchRank_def forceDeadline_def stopWatching_def split: afterFunc.splits stopper.splits if_splits)

lemma watch_progress:
  assumes "watchStep\<^sup>*\<^sup>* (watchForCancel deadline) s" and "dw_stopper s \<noteq> Stopped"
  shows "(\<exists>s'. forceDeadline now s = Some s') \<or> (\<exists>s'. stopWatching s = Some s')"
  using watch_reach_inv [OF assms(1)] assms(2)
  by (cases "dw_stopper s"; cases "dw_after s") (auto simp: watchInv_def forceDeadline_def stopWatching_def)

lemma watch_deadline:
  assumes "watchStep\<^sup>*\<^sup>* (watchForCancel deadline) s"
  shows "dw_after s \<in> {Armed, Unregistered, Started} \<Longrightarrow> dw_deadline s = deadline"
  using assms
  by (induction rule: rtranclp_induct)
    (auto simp: watchForCancel_def forceDeadline_def stopWatching_def elim!: watchStepE split: afterFunc.splits stopper.splits if_splits)

lemma watch_bound: "(watchStep ^^ n) s s' \<Longrightarrow> n + watchRank s' \<le> watchRank s"
proof (induction n arbitrary: s')
  case (Suc n)
  then obtain t where "(watchStep ^^ n) s t" "watchStep t s'" by auto
  with Suc.IH watchStep_rank show ?case by fastforce
qed simp

section \<open>Properties\<close>

text \<open>(C20) The watch over a dial ends, and then leaves the socket alone. However the end of the context, the
  function that forces the deadline and the returned closure interleave, they take at most five steps together;
  as long as the closure has not returned, it or the function can go on; once it has returned, nothing can touch
  the deadline any more; and a socket whose context did not end keeps the deadline of its handshake.\<close>

theorem dial_watch_ends:
  assumes "(watchStep ^^ n) (watchForCancel (handshakeDeadline D timeout)) s"
  shows "n \<le> 5
    \<and> (dw_stopper s \<noteq> Stopped \<longrightarrow> (\<exists>s'. forceDeadline now s = Some s' \<or> stopWatching s = Some s'))
    \<and> (dw_stopper s = Stopped \<longrightarrow> (\<forall>s'. \<not> watchStep s s'))
    \<and> (dw_after s \<in> {Armed, Unregistered} \<longrightarrow> dw_deadline s = handshakeDeadline D timeout)"
proof -
  have reach: "watchStep\<^sup>*\<^sup>* (watchForCancel (handshakeDeadline D timeout)) s"
    using assms by (auto intro: relpowp_imp_rtranclp)
  have "watchRank (watchForCancel (handshakeDeadline D timeout)) = 5" by (simp add: watchRank_def watchForCancel_def)
  with watch_bound [OF assms] watch_progress [OF reach] stopped_final [OF watch_reach_inv [OF reach]] watch_deadline [OF reach]
  show ?thesis by auto
qed

text \<open>The longest run: the context ends, the closure has to wait, the deadline is forced, the closure returns.\<close>

theorem dial_watch_ends_witness:
  "\<exists>s. (watchStep ^^ 5) (watchForCancel (handshakeDeadline (demo_dial None) Second)) s \<and> dw_deadline s = 42 \<and> dw_stopper s = Stopped
    \<and> (\<forall>s'. \<not> watchStep s s')"
proof -
  let ?s0 = "watchForCancel (handshakeDeadline (demo_dial None) Second)"
  let ?s1 = "?s0\<lparr>dw_after := Started\<rparr>"
  let ?s2 = "?s1\<lparr>dw_stopper := WaitingForDone\<rparr>"
  let ?s3 = "?s2\<lparr>dw_after := DeadlineForced, dw_deadline := 42\<rparr>"
  let ?s4 = "?s3\<lparr>dw_after := Ended, dw_done := True\<rparr>"
  let ?s5 = "?s4\<lparr>dw_stopper := Stopped\<rparr>"
  have "watchStep ?s0 ?s1" by (rule watchStep.cancelled) (simp add: watchForCancel_def)
  moreover have "watchStep ?s1 ?s2" by (rule watchStep.stopped) (simp add: stopWatching_def watchForCancel_def)
  moreover have "watchStep ?s2 ?s3" by (rule watchStep.forced [of 42]) (simp add: forceDeadline_def)
  moreover have "watchStep ?s3 ?s4" by (rule watchStep.forced [of 42]) (simp add: forceDeadline_def)
  moreover have "watchStep ?s4 ?s5" by (rule watchStep.stopped) (simp add: stopWatching_def)
  ultimately have run: "(watchStep ^^ 5) ?s0 ?s5" by (simp add: numeral_eq_Suc relcompp_apply) blast
  from dial_watch_ends [OF this] run show ?thesis by (intro exI [of _ ?s5]) simp
qed

end
